(* ===== verification/Json.thy ===== *)
theory Json
  imports Prelude "HOL-Library.AList"
begin

text \<open>
  JSON values as the daemon stores and compares them, \<open>JSON.stringify\<close>, and the
  key-order-independent \<open>stableStringify\<close> of \<open>apps/mirod/src/operations/retry-ledger.ts\<close>,
  and \<open>JSON.parse\<close>.  Numbers are the integers (ports, sizes, times) such values carry;
  \<open>JReal\<close> keeps the text of a numeral with a fraction (an exponent is outside the model).  \<open>JUndef\<close> is the
  value \<open>undefined\<close> a parameter object may hold in a field.  A text column holding JSON is
  the value it parses to, or \<open>Torn\<close> where it does not parse.
\<close>

datatype json =
    JUndef
  | JNull
  | JBool bool
  | JNum int
  | JReal string
  | JStr string
  | JArr "json list"
  | JObj "(string \<times> json) list"

datatype 'a column = Text 'a | Torn

text \<open>\<open>JSON.stringify(v)\<close> as a column: \<open>undefined\<close> stores NULL.\<close>

definition json_column :: "json \<Rightarrow> json column option" where
  "json_column v = (if v = JUndef then None else Some (Text v))"

subsection \<open>JSON.stringify on strings\<close>

definition hex_digit :: "nat \<Rightarrow> char" where
  "hex_digit d = (if d < 10 then char_of (48 + d) else char_of (87 + d))"

definition escape_char :: "char \<Rightarrow> string" where
  "escape_char c =
    (if c = DQ then [BS, DQ] else if c = BS then [BS, BS]
     else if c = CHR 0x08 then [BS, CHR ''b''] else if c = CHR 0x0C then [BS, CHR ''f'']
     else if c = NL then [BS, CHR ''n''] else if c = CR then [BS, CHR ''r'']
     else if c = TAB then [BS, CHR ''t'']
     else if (of_char c :: nat) < 32
       then [BS, CHR ''u'', CHR ''0'', CHR ''0'', hex_digit (of_char c div 16), hex_digit (of_char c mod 16)]
     else [c])"

definition json_string :: "string \<Rightarrow> string" where
  "json_string s = DQ # concat (map escape_char s) @ [DQ]"

subsection \<open>stableStringify\<close>

text \<open>
  Fields holding \<open>undefined\<close> are dropped, the others sorted by key.  \<open>None\<close> is the
  \<open>undefined\<close> that \<open>JSON.stringify(undefined)\<close> returns; \<open>join\<close> renders it as the empty
  string, a template literal as \<open>undefined\<close>.
\<close>

definition join_text :: "string option \<Rightarrow> string" where
  "join_text t = (case t of None \<Rightarrow> [] | Some s \<Rightarrow> s)"

definition template_text :: "string option \<Rightarrow> string" where
  "template_text t = (case t of None \<Rightarrow> ''undefined'' | Some s \<Rightarrow> s)"

definition sort_fields :: "(string \<times> 'a) list \<Rightarrow> (string \<times> 'a) list" where
  "sort_fields kvs = sort_key fst kvs"

definition live_fields :: "(string \<times> json) list \<Rightarrow> (string \<times> json) list" where
  "live_fields kvs = filter (\<lambda>kv. snd kv \<noteq> JUndef) kvs"

lemma set_sort_fields [simp]: "set (sort_fields kvs) = set kvs"
  by (simp add: sort_fields_def)

lemma live_field_size [termination_simp]:
  "(k, v) \<in> set (live_fields kvs) \<Longrightarrow> size v < Suc (size_list (\<lambda>x. Suc (size (snd x))) kvs)"
  by (induction kvs) (auto simp: live_fields_def split: if_splits)

fun stable_stringify :: "json \<Rightarrow> string option" where
  "stable_stringify JUndef = None"
| "stable_stringify JNull = Some ''null''"
| "stable_stringify (JBool b) = Some (if b then ''true'' else ''false'')"
| "stable_stringify (JNum i) = Some (show_int i)"
| "stable_stringify (JReal t) = Some t"
| "stable_stringify (JStr s) = Some (json_string s)"
| "stable_stringify (JArr vs) =
     Some (''['' @ join '','' (map (\<lambda>v. join_text (stable_stringify v)) vs) @ '']'')"
| "stable_stringify (JObj kvs) =
     Some (''{'' @ join '',''
       (map (\<lambda>(k, v). json_string k @ '':'' @ template_text (stable_stringify v))
         (sort_fields (live_fields kvs))) @ ''}'')"

subsection \<open>JSON.stringify\<close>

fun json_text :: "json \<Rightarrow> string option" where
  "json_text JUndef = None"
| "json_text JNull = Some ''null''"
| "json_text (JBool b) = Some (if b then ''true'' else ''false'')"
| "json_text (JNum i) = Some (show_int i)"
| "json_text (JReal t) = Some t"
| "json_text (JStr s) = Some (json_string s)"
| "json_text (JArr vs) =
     Some (''['' @ join '','' (map (\<lambda>v. case json_text v of None \<Rightarrow> ''null'' | Some t \<Rightarrow> t) vs) @ '']'')"
| "json_text (JObj kvs) =
     Some (''{'' @ join '','' (map (\<lambda>(k, v). json_string k @ '':'' @ join_text (json_text v)) (live_fields kvs)) @ ''}'')"

definition stringify :: "json \<Rightarrow> string" where
  "stringify v = join_text (json_text v)"

subsection \<open>JSON.parse\<close>

definition json_space :: "char \<Rightarrow> bool" where
  "json_space c \<longleftrightarrow> c = CHR '' '' \<or> c = TAB \<or> c = NL \<or> c = CR"

definition skip_ws :: "string \<Rightarrow> string" where "skip_ws s = dropWhile json_space s"

definition hex_value :: "char \<Rightarrow> nat option" where
  "hex_value c =
     (if is_digit c then Some (of_char c - 48)
      else if CHR ''a'' \<le> c \<and> c \<le> CHR ''f'' then Some (of_char c - 87)
      else if CHR ''A'' \<le> c \<and> c \<le> CHR ''F'' then Some (of_char c - 55) else None)"

text \<open>The rest of a string literal after its opening quote; a code unit above 255 is outside the model.\<close>

fun parse_string :: "string \<Rightarrow> (string \<times> string) option" where
  "parse_string [] = None"
| "parse_string (c # cs) =
     (if c = DQ then Some ([], cs)
      else if c = BS then
        (case cs of [] \<Rightarrow> None
         | e # r \<Rightarrow>
           (if e = CHR ''u'' then
             (case r of h1 # h2 # h3 # h4 # r' \<Rightarrow>
               (case (hex_value h1, hex_value h2, hex_value h3, hex_value h4) of
                  (Some 0, Some 0, Some a, Some b) \<Rightarrow>
                    map_option (\<lambda>(s, t). (char_of (16 * a + b) # s, t)) (parse_string r')
                | _ \<Rightarrow> None)
              | _ \<Rightarrow> None)
            else
             (case (if e = DQ \<or> e = BS \<or> e = CHR ''/'' then Some e
                    else if e = CHR ''b'' then Some (CHR 0x08) else if e = CHR ''f'' then Some (CHR 0x0C)
                    else if e = CHR ''n'' then Some NL else if e = CHR ''r'' then Some CR
                    else if e = CHR ''t'' then Some TAB else None) of
                None \<Rightarrow> None
              | Some d \<Rightarrow> map_option (\<lambda>(s, t). (d # s, t)) (parse_string r))))
      else if (of_char c :: nat) < 32 then None
      else map_option (\<lambda>(s, t). (c # s, t)) (parse_string cs))"

definition parse_number :: "string \<Rightarrow> (json \<times> string) option" where
  "parse_number s =
    (let (neg, r) = (case s of c # cs \<Rightarrow> if c = CHR ''-'' then (True, cs) else (False, s) | [] \<Rightarrow> (False, s));
         ds = takeWhile is_digit r; rest = dropWhile is_digit r
     in if ds = [] \<or> (length ds > 1 \<and> hd ds = CHR ''0'') then None
        else
          (let frac = (case rest of c # cs \<Rightarrow> if c = CHR ''.'' then Some (takeWhile is_digit cs, dropWhile is_digit cs) else None
                       | [] \<Rightarrow> None)
           in case frac of
                Some (fs, rest') \<Rightarrow>
                  if fs = [] then None
                  else Some (JReal ((if neg then ''-'' else []) @ ds @ ''.'' @ fs), rest')
              | None \<Rightarrow> Some (JNum (if neg then - int (read_nat ds) else int (read_nat ds)), rest)))"

function (sequential) parse_value :: "string \<Rightarrow> (json \<times> string) option"
  and parse_elems :: "string \<Rightarrow> (json list \<times> string) option"
  and parse_fields :: "string \<Rightarrow> ((string \<times> json) list \<times> string) option" where
  "parse_value [] = None"
| "parse_value (c # cs) =
     (if json_space c then parse_value cs
      else if c = DQ then map_option (\<lambda>(s, r). (JStr s, r)) (parse_string cs)
      else if c = CHR ''['' then
        (case skip_ws cs of
           d # r \<Rightarrow> if d = CHR '']'' then Some (JArr [], r)
                    else map_option (\<lambda>(vs, r). (JArr vs, r)) (parse_elems cs)
         | [] \<Rightarrow> None)
      else if c = CHR ''{'' then
        (case skip_ws cs of
           d # r \<Rightarrow> if d = CHR ''}'' then Some (JObj [], r)
                    else map_option (\<lambda>(kvs, r). (JObj kvs, r)) (parse_fields cs)
         | [] \<Rightarrow> None)
      else if starts_with ''true'' (c # cs) then Some (JBool True, drop 3 cs)
      else if starts_with ''false'' (c # cs) then Some (JBool False, drop 4 cs)
      else if starts_with ''null'' (c # cs) then Some (JNull, drop 3 cs)
      else parse_number (c # cs))"
| "parse_elems s =
     (case parse_value s of None \<Rightarrow> None
      | Some (v, r) \<Rightarrow>
        (case skip_ws r of [] \<Rightarrow> None
         | d # r' \<Rightarrow>
           (if d = CHR '']'' then Some ([v], r')
            else if d = CHR '','' \<and> length r' < length s then
              map_option (\<lambda>(vs, t). (v # vs, t)) (parse_elems r')
            else None)))"
| "parse_fields s =
     (case skip_ws s of [] \<Rightarrow> None
      | q # r0 \<Rightarrow>
        (if q \<noteq> DQ then None
         else (case parse_string r0 of None \<Rightarrow> None
           | Some (k, r1) \<Rightarrow>
             (case skip_ws r1 of [] \<Rightarrow> None
              | col # r2 \<Rightarrow>
                (if col \<noteq> CHR '':'' \<or> \<not> length r2 < length s then None
                 else (case parse_value r2 of None \<Rightarrow> None
                   | Some (v, r3) \<Rightarrow>
                     (case skip_ws r3 of [] \<Rightarrow> None
                      | d # r4 \<Rightarrow>
                        (if d = CHR ''}'' then Some ([(k, v)], r4)
                         else if d = CHR '','' \<and> length r4 < length s then
                           map_option (\<lambda>(kvs, t). ((k, v) # kvs, t)) (parse_fields r4)
                         else None))))))))"
  by pat_completeness auto
termination
  by (relation "measure (\<lambda>x. case x of Inl s \<Rightarrow> 2 * length s
        | Inr (Inl s) \<Rightarrow> 2 * length s + 1 | Inr (Inr s) \<Rightarrow> 2 * length s + 1)") auto

text \<open>A repeated key keeps the place of its first occurrence and the value of its last.\<close>

fun js_object :: "json \<Rightarrow> json" where
  "js_object (JArr vs) = JArr (map js_object vs)"
| "js_object (JObj kvs) = JObj (foldl (\<lambda>m (k, v). AList.update k v m) [] (map (\<lambda>(k, v). (k, js_object v)) kvs))"
| "js_object v = v"

text \<open>\<open>None\<close> is the \<open>SyntaxError\<close> the parser throws.\<close>

definition json_parse :: "string \<Rightarrow> json option" where
  "json_parse s =
     (case parse_value s of None \<Rightarrow> None
      | Some (v, r) \<Rightarrow> if skip_ws r = [] then Some (js_object v) else None)"

definition field :: "string \<Rightarrow> json \<Rightarrow> json" where
  "field k v = (case v of JObj kvs \<Rightarrow> (case map_of kvs k of None \<Rightarrow> JUndef | Some w \<Rightarrow> w) | _ \<Rightarrow> JUndef)"

definition as_string :: "json \<Rightarrow> string option" where
  "as_string v = (case v of JStr s \<Rightarrow> Some s | _ \<Rightarrow> None)"

definition is_number :: "json \<Rightarrow> bool" where
  "is_number v = (case v of JNum _ \<Rightarrow> True | JReal _ \<Rightarrow> True | _ \<Rightarrow> False)"

text \<open>How an array's \<open>join\<close> renders an element.\<close>

fun js_text :: "json \<Rightarrow> string" where
  "js_text JUndef = []"
| "js_text JNull = []"
| "js_text (JBool b) = (if b then ''true'' else ''false'')"
| "js_text (JNum i) = show_int i"
| "js_text (JReal t) = t"
| "js_text (JStr s) = s"
| "js_text (JArr vs) = join '','' (map js_text vs)"
| "js_text (JObj _) = ''[object Object]''"

text \<open>\<open>String(v)\<close>.\<close>

definition js_string :: "json \<Rightarrow> string" where
  "js_string v = (case v of JNull \<Rightarrow> ''null'' | JUndef \<Rightarrow> ''undefined'' | _ \<Rightarrow> js_text v)"

end
