(* ===== verification/CmdClass.thy ===== *)
theory CmdClass
  imports Prelude
begin

text \<open>
  The classes a command or an operation falls in, ordered by \<open>RANK\<close>
  (\<open>apps/mirod/src/operations/classify.ts\<close>).  The order is an instance of the library's
  linear orders, so \<open>maxClass\<close> is its maximum.
\<close>

datatype cmd_class = Read | Mutate | Destructive | Lifeline | Forbidden

fun rank :: "cmd_class \<Rightarrow> nat" where
  "rank Read = 0"
| "rank Mutate = 1"
| "rank Destructive = 2"
| "rank Lifeline = 3"
| "rank Forbidden = 4"

definition max_class :: "cmd_class \<Rightarrow> cmd_class \<Rightarrow> cmd_class" where
  "max_class a b = (if rank b \<le> rank a then a else b)"

fun class_name :: "cmd_class \<Rightarrow> string" where
  "class_name Read = ''read''"
| "class_name Mutate = ''mutate''"
| "class_name Destructive = ''destructive''"
| "class_name Lifeline = ''lifeline''"
| "class_name Forbidden = ''forbidden''"

lemma rank_inj: "rank a = rank b \<longleftrightarrow> a = b"
  by (cases a; cases b) auto

instantiation cmd_class :: linorder
begin

definition less_eq_cmd_class :: "cmd_class \<Rightarrow> cmd_class \<Rightarrow> bool" where
  "less_eq_cmd_class a b \<longleftrightarrow> rank a \<le> rank b"

definition less_cmd_class :: "cmd_class \<Rightarrow> cmd_class \<Rightarrow> bool" where
  "less_cmd_class a b \<longleftrightarrow> rank a < rank b"

instance
  by standard (auto simp: less_eq_cmd_class_def less_cmd_class_def rank_inj)

end

lemma max_class_max [rank_simps]: "max_class a b = max a b"
  by (auto simp: max_class_def max_def less_eq_cmd_class_def rank_inj)

lemma Read_least [simp]: "Read \<le> c"
  by (cases c) (auto simp: less_eq_cmd_class_def)

lemma Forbidden_greatest [simp]: "c \<le> Forbidden"
  by (cases c) (auto simp: less_eq_cmd_class_def)

lemma max_Read [simp]: "max Read c = c" "max c Read = c"
  by (simp_all add: max_def antisym)

lemma max_Forbidden [simp]: "max Forbidden c = Forbidden" "max c Forbidden = Forbidden"
  by (simp_all add: max_def antisym)

lemma max_class_Read_iff [rank_simps]: "max a b = Read \<longleftrightarrow> a = Read \<and> b = (Read :: cmd_class)"
  by (metis Read_least antisym max.cobounded1 max.cobounded2 max_Read(1))

lemma max_Forbidden_iff [rank_simps]: "max a b = Forbidden \<longleftrightarrow> a = Forbidden \<or> b = (Forbidden :: cmd_class)"
  by (cases a; cases b) (simp_all add: max_def less_eq_cmd_class_def)

end
