(* ===== verification/Tables.thy ===== *)
theory Tables
  imports Prelude
begin

text \<open>
  Tables keyed by a column, the interface between the stores of the daemon and what reads them: an
  update touches the rows of its key only, keeps the keys and their order, and a lookup sees it.
\<close>

locale keyed_table =
  fixes key :: "'r \<Rightarrow> 'k"
    and upd :: "'k \<Rightarrow> ('r \<Rightarrow> 'r) \<Rightarrow> 'r list \<Rightarrow> 'r list"
    and get :: "'k \<Rightarrow> 'r list \<Rightarrow> 'r option"
  assumes upd_map: "upd k f rows = map (\<lambda>r. if key r = k then f r else r) rows"
    and get_find: "get k rows = List.find (\<lambda>r. key r = k) rows"
begin

lemma upd_keys: "(\<And>r. key (f r) = key r) \<Longrightarrow> map key (upd k f rows) = map key rows"
  by (induction rows) (auto simp: upd_map)

lemma get_upd_same: "(\<And>r. key (f r) = key r) \<Longrightarrow> get k (upd k f rows) = map_option f (get k rows)"
  by (induction rows) (auto simp: upd_map get_find)

lemma get_upd_other: "(\<And>r. key (f r) = key r) \<Longrightarrow> k' \<noteq> k \<Longrightarrow> get k' (upd k f rows) = get k' rows"
  by (induction rows) (auto simp: upd_map get_find)

lemma upd_other_rows: "r \<in> set (upd k f rows) \<Longrightarrow> r \<in> set rows \<or> (\<exists>r0 \<in> set rows. key r0 = k \<and> r = f r0)"
  by (auto simp: upd_map)

lemma upd_absent: "k \<notin> key ` set rows \<Longrightarrow> upd k f rows = rows"
  by (induction rows) (auto simp: upd_map)

lemma upd_upd: "(\<And>r. key (f r) = key r) \<Longrightarrow> upd k g (upd k f rows) = upd k (g \<circ> f) rows"
  by (auto simp: upd_map)

lemma get_Some: "get k rows = Some r \<Longrightarrow> r \<in> set rows \<and> key r = k"
  by (auto simp: get_find dest: List_find_Some_iff)

lemma get_None: "get k rows = None \<longleftrightarrow> k \<notin> key ` set rows"
  by (auto simp: get_find List_find_None_iff)

text \<open>\<open>INSERT ... ON CONFLICT DO UPDATE\<close> of every column.\<close>

lemma get_put:
  "get j (if get (key r) rows = None then rows @ [r] else upd (key r) (\<lambda>_. r) rows) = (if j = key r then Some r else get j rows)"
proof (cases "get (key r) rows")
  case None
  then show ?thesis by (auto simp: get_find find_append split: option.split)
next
  case (Some x)
  have "List.find (\<lambda>y. key y = j) (map (\<lambda>y. if key y = key r then r else y) rows) = (if j = key r then Some r else List.find (\<lambda>y. key y = j) rows)"
    if "List.find (\<lambda>y. key y = key r) rows \<noteq> None"
  proof (cases "j = key r")
    case True
    with that show ?thesis by (induction rows) auto
  next
    case False
    then show ?thesis by (induction rows) auto
  qed
  with Some show ?thesis by (simp add: upd_map get_find)
qed

end

end
