(* ===== verification/OpStore.thy ===== *)
theory OpStore
  imports Json CmdClass Tables
begin

text \<open>
  The durable operations table (\<open>apps/mirod/src/operations/store.ts\<close>).  A table is the list of
  its rows in rowid order; each function is the SQL statement it runs, with \<open>Date.now()\<close>
  an argument.  \<open>INSERT\<close> of an id already in the table is the error the primary key raises.
\<close>

subsection \<open>Rows\<close>

datatype phase = Planning | AwaitingConfirmation | Capturing | Applying | Verifying | Committed | Rolledback

datatype fidelity = Exact | Partial | NoFidelity

text \<open>\<open>OperationPlan\<close> of \<open>engine.ts\<close>: absent optional fields are \<open>None\<close>.\<close>

record op_plan =
  summary :: string
  plan_auto :: bool
  plan_details :: "(string \<times> json) list"
  plan_class :: "cmd_class option"
  plan_writes :: "string list option"
  plan_network :: "bool option"
  irreversible :: bool
  plan_warning :: "string option"
  expects :: "string option"
  rollback_when :: "string option"
  scope_evidence :: "string option"
  dry_run :: "fidelity option"

record op_row =
  op_id :: string
  op_kind :: string
  op_goal :: string
  op_params :: "json column"
  op_phase :: phase
  auto_approve :: bool
  op_plan_col :: "op_plan column option"
  captured_state :: "json column option"
  rollback_col :: "json column option"
  op_error :: "string option"
  op_created :: int
  op_updated :: int

definition terminal_phase :: "phase \<Rightarrow> bool" where
  "terminal_phase p \<longleftrightarrow> p = Committed \<or> p = Rolledback"

subsection \<open>Statements\<close>

text \<open>\<open>UPDATE operations SET ... WHERE id = ?\<close>.\<close>

definition update_op :: "string \<Rightarrow> (op_row \<Rightarrow> op_row) \<Rightarrow> op_row list \<Rightarrow> op_row list" where
  "update_op i f rows = map (\<lambda>r. if op_id r = i then f r else r) rows"

definition create_operation ::
    "int \<Rightarrow> string \<Rightarrow> string \<Rightarrow> string \<Rightarrow> json \<Rightarrow> op_row list \<Rightarrow> string + op_row list" where
  "create_operation now i k g params rows =
     (if i \<in> op_id ` set rows then Inl ''UNIQUE constraint failed: operations.id''
      else Inr (rows @ [\<lparr>op_id = i, op_kind = k, op_goal = g, op_params = Text params, op_phase = Planning,
        auto_approve = False, op_plan_col = None, captured_state = None, rollback_col = None,
        op_error = None, op_created = now, op_updated = now\<rparr>]))"

definition set_plan :: "int \<Rightarrow> string \<Rightarrow> op_plan \<Rightarrow> bool \<Rightarrow> op_row list \<Rightarrow> op_row list" where
  "set_plan now i p auto = update_op i (\<lambda>r. r\<lparr>op_plan_col := Some (Text p), auto_approve := auto,
     op_phase := AwaitingConfirmation, op_updated := now\<rparr>)"

text \<open>The captured state, the recovery data and the phase in one statement.\<close>

definition set_captured_and_applying :: "int \<Rightarrow> string \<Rightarrow> json \<Rightarrow> json \<Rightarrow> op_row list \<Rightarrow> op_row list" where
  "set_captured_and_applying now i captured rb = update_op i (\<lambda>r. r\<lparr>captured_state := json_column captured,
     rollback_col := json_column rb, op_phase := Applying, op_updated := now\<rparr>)"

definition set_phase :: "int \<Rightarrow> string \<Rightarrow> phase \<Rightarrow> string option \<Rightarrow> op_row list \<Rightarrow> op_row list" where
  "set_phase now i p err = update_op i (\<lambda>r. r\<lparr>op_phase := p, op_error := err, op_updated := now\<rparr>)"

definition get_operation :: "string \<Rightarrow> op_row list \<Rightarrow> op_row option" where
  "get_operation i rows = List.find (\<lambda>r. op_id r = i) rows"

definition list_by_phases :: "phase list \<Rightarrow> op_row list \<Rightarrow> op_row list" where
  "list_by_phases ps rows = filter (\<lambda>r. op_phase r \<in> set ps) rows"

text \<open>\<open>ORDER BY updated_at DESC, rowid DESC LIMIT ?\<close>.\<close>

definition list_committed :: "nat \<Rightarrow> op_row list \<Rightarrow> op_row list" where
  "list_committed limit rows =
     take limit (sort_key (\<lambda>r. - op_updated r) (rev (filter (\<lambda>r. op_phase r = Committed) rows)))"

definition count_by_kind_and_phase :: "string \<Rightarrow> phase \<Rightarrow> op_row list \<Rightarrow> nat" where
  "count_by_kind_and_phase k p rows = length (filter (\<lambda>r. op_kind r = k \<and> op_phase r = p) rows)"

definition count_auto_approved_since :: "int \<Rightarrow> op_row list \<Rightarrow> nat" where
  "count_auto_approved_since since rows = length (filter (\<lambda>r. auto_approve r \<and> since \<le> op_created r) rows)"

text \<open>\<open>LIKE 'prefix%'\<close> of SQLite ignores the case of ASCII letters.\<close>

definition like_prefix :: "string \<Rightarrow> string \<Rightarrow> bool" where
  "like_prefix p s = starts_with (to_lower p) (to_lower s)"

definition real_rollback :: "op_row \<Rightarrow> bool" where
  "real_rollback r \<longleftrightarrow> op_phase r = Rolledback \<and>
     (case op_error r of None \<Rightarrow> True
      | Some e \<Rightarrow> \<not> like_prefix ''cancelled by user'' e \<and> \<not> like_prefix ''interrupted before'' e)"

definition last_rollback_at :: "op_row list \<Rightarrow> int option" where
  "last_rollback_at rows =
     (case map op_updated (filter real_rollback rows) of [] \<Rightarrow> None | t # ts \<Rightarrow> Some (fold max ts t))"

subsection \<open>The rows as a table\<close>

definition distinct_ids :: "op_row list \<Rightarrow> bool" where
  "distinct_ids rows \<longleftrightarrow> distinct (map op_id rows)"

interpretation ops: keyed_table op_id update_op get_operation
  by unfold_locales (simp_all add: update_op_def get_operation_def)

subsection \<open>What each statement does to a row\<close>

lemma get_set_phase [sql_simps]:
  "get_operation j (set_phase now i p e rows) =
     (if j = i then map_option (\<lambda>r. r\<lparr>op_phase := p, op_error := e, op_updated := now\<rparr>) (get_operation i rows)
      else get_operation j rows)"
  by (simp add: set_phase_def ops.get_upd_same ops.get_upd_other)

lemma get_set_plan [sql_simps]:
  "get_operation j (set_plan now i p a rows) =
     (if j = i then map_option (\<lambda>r. r\<lparr>op_plan_col := Some (Text p), auto_approve := a,
        op_phase := AwaitingConfirmation, op_updated := now\<rparr>) (get_operation i rows)
      else get_operation j rows)"
  by (simp add: set_plan_def ops.get_upd_same ops.get_upd_other)

lemma get_set_captured [sql_simps]:
  "get_operation j (set_captured_and_applying now i c rb rows) =
     (if j = i then map_option (\<lambda>r. r\<lparr>captured_state := json_column c, rollback_col := json_column rb,
        op_phase := Applying, op_updated := now\<rparr>) (get_operation i rows)
      else get_operation j rows)"
  by (simp add: set_captured_and_applying_def ops.get_upd_same ops.get_upd_other)

lemma ids_set_phase [sql_simps]: "map op_id (set_phase now i p e rows) = map op_id rows"
  by (simp add: set_phase_def ops.upd_keys)

lemma ids_set_plan [sql_simps]: "map op_id (set_plan now i p a rows) = map op_id rows"
  by (simp add: set_plan_def ops.upd_keys)

lemma ids_set_captured [sql_simps]: "map op_id (set_captured_and_applying now i c rb rows) = map op_id rows"
  by (simp add: set_captured_and_applying_def ops.upd_keys)

lemma get_append: "get_operation j (rows @ rows') =
    (case get_operation j rows of None \<Rightarrow> get_operation j rows' | Some r \<Rightarrow> Some r)"
  by (induction rows) (auto simp: get_operation_def)

lemma create_get:
  "create_operation now i k g params rows = Inr rows' \<Longrightarrow>
     get_operation i rows' = Some \<lparr>op_id = i, op_kind = k, op_goal = g, op_params = Text params,
       op_phase = Planning, auto_approve = False, op_plan_col = None, captured_state = None,
       rollback_col = None, op_error = None, op_created = now, op_updated = now\<rparr> \<and>
     (\<forall>j. j \<noteq> i \<longrightarrow> get_operation j rows' = get_operation j rows)"
  using ops.get_None [of i rows]
  by (auto simp: create_operation_def get_append split: if_splits option.splits)
     (auto simp: get_operation_def)

lemma create_ids:
  "create_operation now i k g params rows = Inr rows' \<Longrightarrow> map op_id rows' = map op_id rows @ [i] \<and> i \<notin> op_id ` set rows"
  by (auto simp: create_operation_def split: if_splits)

lemma distinct_ids_create:
  assumes "distinct_ids rows" and "create_operation now i k g params rows = Inr rows'"
  shows "distinct_ids rows'"
proof -
  from create_ids [OF assms(2)] have "map op_id rows' = map op_id rows @ [i]" and "i \<notin> op_id ` set rows"
    by simp_all
  with assms(1) show ?thesis unfolding distinct_ids_def by simp
qed

lemma set_phase_rows:
  assumes "r \<in> set (set_phase now i p e rows)"
  shows "(op_id r \<noteq> i \<longrightarrow> r \<in> set rows) \<and> (op_id r = i \<longrightarrow> op_phase r = p)"
proof -
  from assms obtain x where x: "x \<in> set rows"
    "r = (if op_id x = i then x\<lparr>op_phase := p, op_error := e, op_updated := now\<rparr> else x)"
    unfolding set_phase_def update_op_def set_map by blast
  then show ?thesis by (cases "op_id x = i") simp_all
qed

text \<open>An update of the phase can only shrink the set of rows in another phase.\<close>

lemma list_by_phases_set_phase:
  "p \<notin> set ps \<Longrightarrow>
   list_by_phases ps (set_phase now i p e rows) = filter (\<lambda>r. op_id r \<noteq> i) (list_by_phases ps rows)"
  by (induction rows) (auto simp: list_by_phases_def set_phase_def update_op_def)

end
