(* ===== verification/Regex.thy ===== *)
theory Regex
  imports Prelude
begin

text \<open>
  Regular expressions of JavaScript, as far as the daemon uses them.  A backtracking
  matcher returns every way an expression can match at a position, in the order a
  JavaScript engine tries them, so its first result is the match the engine reports.
  \<open>NotAfter p\<close> is a negative lookbehind of one character.  Flags: \<open>i\<close> is \<open>liti\<close>, \<open>m\<close> is \<open>BolM\<close>, \<open>g\<close> is \<open>replace_all\<close>.
\<close>

subsection \<open>Syntax\<close>

datatype rex =
    Eps
  | Cls "char \<Rightarrow> bool"
  | Cat rex rex
  | Alt rex rex
  | Star rex
  | LazyStar rex
  | Grp nat rex
  | Bol
  | BolM
  | Eol
  | WordB
  | NotAhead rex
  | NotAfter "char \<Rightarrow> bool"

text \<open>
  A position in the subject: what was read (nearest character first), what is left, and
  the groups captured so far, newest first.
\<close>

datatype cursor = Cur (before: string) (ahead: string) (caps: "(nat \<times> string) list")

definition is_word_opt :: "string \<Rightarrow> bool" where
  "is_word_opt s = (case s of [] \<Rightarrow> False | c # _ \<Rightarrow> is_word c)"

fun at_line_start :: "string \<Rightarrow> bool" where
  "at_line_start [] = True"
| "at_line_start (c # _) = (c = NL \<or> c = CR)"

text \<open>
  An iteration of a star that consumes nothing is abandoned, as the language prescribes;
  the fuel is the length of what is left, and every kept iteration shortens it.
\<close>

fun star_ends :: "nat \<Rightarrow> (cursor \<Rightarrow> cursor list) \<Rightarrow> cursor \<Rightarrow> cursor list" where
  "star_ends 0 f k = [k]"
| "star_ends (Suc n) f k =
     concat (map (star_ends n f) (filter (\<lambda>k'. length (ahead k') < length (ahead k)) (f k))) @ [k]"

fun lazy_ends :: "nat \<Rightarrow> (cursor \<Rightarrow> cursor list) \<Rightarrow> cursor \<Rightarrow> cursor list" where
  "lazy_ends 0 f k = [k]"
| "lazy_ends (Suc n) f k =
     k # concat (map (lazy_ends n f) (filter (\<lambda>k'. length (ahead k') < length (ahead k)) (f k)))"

fun capture :: "nat \<Rightarrow> string \<Rightarrow> cursor \<Rightarrow> cursor" where
  "capture n s (Cur b a cs) = Cur b a ((n, take (length s - length a) s) # cs)"

fun eat :: "(char \<Rightarrow> bool) \<Rightarrow> cursor \<Rightarrow> cursor list" where
  "eat p (Cur b [] cs) = []"
| "eat p (Cur b (c # a) cs) = (if p c then [Cur (c # b) a cs] else [])"

primrec ends :: "rex \<Rightarrow> cursor \<Rightarrow> cursor list" where
  "ends Eps k = [k]"
| "ends (Cls p) k = eat p k"
| "ends (Cat r q) k = concat (map (ends q) (ends r k))"
| "ends (Alt r q) k = ends r k @ ends q k"
| "ends (Star r) k = star_ends (length (ahead k)) (ends r) k"
| "ends (LazyStar r) k = lazy_ends (length (ahead k)) (ends r) k"
| "ends (Grp n r) k = map (capture n (ahead k)) (ends r k)"
| "ends Bol k = (if before k = [] then [k] else [])"
| "ends BolM k = (if at_line_start (before k) then [k] else [])"
| "ends Eol k = (if ahead k = [] then [k] else [])"
| "ends WordB k = (if is_word_opt (before k) \<noteq> is_word_opt (ahead k) then [k] else [])"
| "ends (NotAhead r) k = (if ends r k = [] then [k] else [])"
| "ends (NotAfter p) k = (case before k of [] \<Rightarrow> [k] | c # _ \<Rightarrow> if p c then [] else [k])"

subsection \<open>Derived forms\<close>

definition ch :: "char \<Rightarrow> rex" where "ch c = Cls (\<lambda>d. d = c)"

definition lit :: "string \<Rightarrow> rex" where "lit s = foldr (\<lambda>c r. Cat (ch c) r) s Eps"

text \<open>A literal under the flag \<open>i\<close>.\<close>

definition liti :: "string \<Rightarrow> rex" where
  "liti s = foldr (\<lambda>c r. Cat (Cls (\<lambda>d. lower_char d = lower_char c)) r) s Eps"

definition seq :: "rex list \<Rightarrow> rex" where "seq rs = foldr Cat rs Eps"

fun alt :: "rex list \<Rightarrow> rex" where
  "alt [] = Cls (\<lambda>_. False)"
| "alt [r] = r"
| "alt (r # rs) = Alt r (alt rs)"

definition alts :: "string list \<Rightarrow> rex" where "alts ws = alt (map lit ws)"
definition altsi :: "string list \<Rightarrow> rex" where "altsi ws = alt (map liti ws)"
definition opt :: "rex \<Rightarrow> rex" where "opt r = Alt r Eps"
definition plus :: "rex \<Rightarrow> rex" where "plus r = Cat r (Star r)"

text \<open>\<open>r{n,}\<close>, \<open>r{n}\<close> and \<open>r{m,n}\<close>.\<close>

definition at_least :: "nat \<Rightarrow> rex \<Rightarrow> rex" where "at_least n r = seq (replicate n r @ [Star r])"
definition times :: "nat \<Rightarrow> rex \<Rightarrow> rex" where "times n r = seq (replicate n r)"

fun up_to :: "nat \<Rightarrow> rex \<Rightarrow> rex" where
  "up_to 0 r = Eps"
| "up_to (Suc n) r = Alt (Cat r (up_to n r)) Eps"

definition between :: "nat \<Rightarrow> nat \<Rightarrow> rex \<Rightarrow> rex" where
  "between m n r = Cat (times m r) (up_to (n - m) r)"

definition one_of :: "string \<Rightarrow> rex" where "one_of s = Cls (\<lambda>c. c \<in> set s)"
definition none_of :: "string \<Rightarrow> rex" where "none_of s = Cls (\<lambda>c. c \<notin> set s)"
definition digit :: rex where "digit = Cls is_digit"
definition space :: rex where "space = Cls is_space"
definition nonspace :: rex where "nonspace = Cls (\<lambda>c. \<not> is_space c)"
definition wordch :: rex where "wordch = Cls is_word"
definition any_char :: rex where "any_char = Cls (\<lambda>_. True)"

text \<open>\<open>.\<close> without the flag \<open>s\<close>.\<close>

definition dot :: rex where "dot = Cls (\<lambda>c. c \<noteq> NL \<and> c \<noteq> CR)"
definition dots :: rex where "dots = Star dot"
definition alpha :: "char \<Rightarrow> bool" where "alpha c \<longleftrightarrow> is_lower c \<or> is_upper c"
definition alnum :: "char \<Rightarrow> bool" where "alnum c \<longleftrightarrow> alpha c \<or> is_digit c"

text \<open>\<open>(\/|$)\<close>, the end of a path component.\<close>

definition slash_or_end :: rex where "slash_or_end = Alt (ch CHR ''/'') Eol"

subsection \<open>Searching and replacing\<close>

fun first_match :: "rex \<Rightarrow> string \<Rightarrow> string \<Rightarrow> (string \<times> string \<times> cursor) option" where
  "first_match r b [] =
     (case ends r (Cur b [] []) of [] \<Rightarrow> None | k # _ \<Rightarrow> Some (b, [], k))"
| "first_match r b (c # a) =
     (case ends r (Cur b (c # a) []) of k # _ \<Rightarrow> Some (b, c # a, k)
      | [] \<Rightarrow> first_match r (c # b) a)"

text \<open>\<open>re.test(s)\<close>.\<close>

definition rtest :: "rex \<Rightarrow> string \<Rightarrow> bool" where
  "rtest r s = (case first_match r [] s of None \<Rightarrow> False | Some _ \<Rightarrow> True)"

definition group :: "nat \<Rightarrow> cursor \<Rightarrow> string option" where
  "group n k = map_of (caps k) n"

definition matched :: "string \<Rightarrow> cursor \<Rightarrow> string" where
  "matched a k = take (length a - length (ahead k)) a"

text \<open>\<open>s.match(re)\<close>: the matched text and the groups.\<close>

definition rmatch :: "rex \<Rightarrow> string \<Rightarrow> (string \<times> cursor) option" where
  "rmatch r s = (case first_match r [] s of None \<Rightarrow> None | Some (b, a, k) \<Rightarrow> Some (matched a k, k))"

text \<open>
  \<open>s.replace(re, f)\<close> under the flag \<open>g\<close>, with a state threaded through the calls of the
  replacement function: it is given the matched text and the groups.  After an empty
  match the search moves on by one character.
\<close>

function (sequential) replace_from ::
    "rex \<Rightarrow> ('a \<Rightarrow> string \<Rightarrow> cursor \<Rightarrow> string \<times> 'a) \<Rightarrow> 'a \<Rightarrow> string \<Rightarrow> string \<Rightarrow> string \<times> 'a" where
  "replace_from r f st b [] =
     (case ends r (Cur b [] []) of [] \<Rightarrow> ([], st) | k # _ \<Rightarrow> f st [] k)"
| "replace_from r f st b (c # a) =
     (case ends r (Cur b (c # a) []) of
        [] \<Rightarrow> (let (t, st') = replace_from r f st (c # b) a in (c # t, st'))
      | k # _ \<Rightarrow>
          (let (u, st1) = f st (matched (c # a) k) k in
           if length (ahead k) < length (c # a)
           then (let (t, st') = replace_from r f st1 (before k) (ahead k) in (u @ t, st'))
           else (let (t, st') = replace_from r f st1 (c # b) a in (u @ c # t, st'))))"
  by pat_completeness auto
termination
  by (relation "measure (\<lambda>(r, f, st, b, a). length a)") auto

definition replace_all :: "rex \<Rightarrow> (string \<Rightarrow> cursor \<Rightarrow> string) \<Rightarrow> string \<Rightarrow> string" where
  "replace_all r f s = fst (replace_from r (\<lambda>_ m k. (f m k, ())) () [] s)"

text \<open>\<open>s.replace(re, f)\<close> without the flag \<open>g\<close>.\<close>

definition replace_first :: "rex \<Rightarrow> (string \<Rightarrow> cursor \<Rightarrow> string) \<Rightarrow> string \<Rightarrow> string" where
  "replace_first r f s =
     (case first_match r [] s of None \<Rightarrow> s
      | Some (b, a, k) \<Rightarrow> rev b @ f (matched a k) k @ ahead k)"

text \<open>\<open>s.matchAll(re)\<close>: the cursors of the matches from left to right.\<close>

definition match_all :: "rex \<Rightarrow> string \<Rightarrow> cursor list" where
  "match_all r s = rev (snd (replace_from r (\<lambda>ks m k. (m, k # ks)) [] [] s))"

subsection \<open>Anchored expressions are tried once\<close>

fun anchored :: "rex \<Rightarrow> bool" where
  "anchored Bol = True"
| "anchored (Cat r q) = anchored r"
| "anchored (Alt r q) = (anchored r \<and> anchored q)"
| "anchored (Grp n r) = anchored r"
| "anchored _ = False"

lemma anchored_inside: "anchored r \<Longrightarrow> b \<noteq> [] \<Longrightarrow> ends r (Cur b a cs) = []"
  by (induction r rule: anchored.induct) auto

lemma anchored_first_match: "anchored r \<Longrightarrow> b \<noteq> [] \<Longrightarrow> first_match r b a = None"
  by (induction r b a rule: first_match.induct) (auto simp: anchored_inside)

lemma rtest_code [code]:
  "rtest r s =
     (if anchored r then ends r (Cur [] s []) \<noteq> []
      else (case first_match r [] s of None \<Rightarrow> False | Some _ \<Rightarrow> True))"
proof (cases s)
  case Nil
  then show ?thesis by (auto simp: rtest_def split: list.splits)
next
  case (Cons c cs)
  then show ?thesis by (auto simp: rtest_def anchored_first_match split: list.splits)
qed

subsection \<open>Lemmas\<close>

lemma rtest_iff: "rtest r s \<longleftrightarrow> (\<exists>b a. s = rev b @ a \<and> ends r (Cur b a []) \<noteq> [])"
proof -
  have gen: "first_match r b a \<noteq> None \<longleftrightarrow> (\<exists>u v. a = rev u @ v \<and> ends r (Cur (u @ b) v []) \<noteq> [])" for b a
  proof (induction r b a rule: first_match.induct)
    case (1 r b)
    then show ?case by (auto split: list.splits)
  next
    case (2 r b c a)
    show ?case
    proof (cases "ends r (Cur b (c # a) [])")
      case Nil
      have "(\<exists>u v. a = rev u @ v \<and> ends r (Cur (u @ c # b) v []) \<noteq> []) \<longleftrightarrow>
            (\<exists>u v. c # a = rev u @ v \<and> ends r (Cur (u @ b) v []) \<noteq> [])" (is "?l \<longleftrightarrow> ?r")
      proof
        assume ?l
        then obtain u v where "a = rev u @ v" and "ends r (Cur (u @ c # b) v []) \<noteq> []" by blast
        then show ?r by (intro exI [of _ "u @ [c]"] exI [of _ v]) simp
      next
        assume ?r
        then obtain u v where uv: "c # a = rev u @ v" "ends r (Cur (u @ b) v []) \<noteq> []" by blast
        with Nil have "u \<noteq> []" by auto
        then obtain w x where "u = w @ [x]" by (metis rev_exhaust)
        with uv show ?l by (intro exI [of _ w] exI [of _ v]) auto
      qed
      with 2 Nil show ?thesis by simp
    next
      case (Cons k ks)
      then have "first_match r b (c # a) \<noteq> None" by simp
      moreover have "c # a = rev [] @ (c # a) \<and> ends r (Cur ([] @ b) (c # a) []) \<noteq> []"
        using Cons by simp
      ultimately show ?thesis by blast
    qed
  qed
  show ?thesis using gen [of "[]" s] by (auto simp: rtest_def split: option.splits)
qed

lemma rtest_anchored: "anchored r \<Longrightarrow> rtest r s \<longleftrightarrow> ends r (Cur [] s []) \<noteq> []"
  by (simp add: rtest_code)

lemma ends_ch [simp]: "ends (ch c) (Cur b (d # a) cs) = (if d = c then [Cur (d # b) a cs] else [])"
  by (simp add: ch_def)

lemma ends_ch_Nil [simp]: "ends (ch c) (Cur b [] cs) = []"
  by (simp add: ch_def)

lemma lit_Nil [simp]: "lit [] = Eps"
  by (simp add: lit_def)

lemma lit_Cons: "lit (c # cs) = Cat (ch c) (lit cs)"
  by (simp add: lit_def)

lemma ends_lit: "ends (lit w) (Cur b a cs) = (if starts_with w a then [Cur (rev w @ b) (drop (length w) a) cs] else [])"
proof (induction w arbitrary: b a)
  case Nil
  then show ?case by simp
next
  case (Cons c w)
  then show ?case by (cases a) (auto simp: lit_Cons)
qed

lemma seq_Nil [simp]: "seq [] = Eps" and seq_Cons [simp]: "seq (r # rs) = Cat r (seq rs)"
  by (simp_all add: seq_def)

lemma anchored_seq [simp]: "anchored (seq (Bol # rs))"
  by simp

lemma eat_nothing [simp]: "eat (\<lambda>_. False) k = []"
  by (cases "(\<lambda>_ :: char. False, k)" rule: eat.cases) auto

lemma ends_alt_nonempty: "ends (alt rs) k \<noteq> [] \<longleftrightarrow> (\<exists>r \<in> set rs. ends r k \<noteq> [])"
  by (induction rs rule: alt.induct) auto

lemma eat_length: "k' \<in> set (eat p k) \<Longrightarrow> length (ahead k') < length (ahead k)"
  by (induction p k rule: eat.induct) (auto split: if_splits)

lemma capture_ahead [simp]: "ahead (capture n s k) = ahead k" "before (capture n s k) = before k"
  by (cases k; simp)+

definition consumes :: "(cursor \<Rightarrow> cursor list) \<Rightarrow> bool" where
  "consumes f \<longleftrightarrow> (\<forall>k. \<forall>k' \<in> set (f k). length (ahead k') \<le> length (ahead k))"

lemma star_ends_consumes: "consumes f \<Longrightarrow> consumes (star_ends n f)"
  by (induction n) (fastforce simp: consumes_def)+

lemma lazy_ends_consumes: "consumes f \<Longrightarrow> consumes (lazy_ends n f)"
  by (induction n) (fastforce simp: consumes_def)+

lemma ends_consumes: "consumes (ends r)"
proof (induction r)
  case (Cls p)
  show ?case by (auto simp: consumes_def dest: eat_length)
next
  case (Cat r q)
  then show ?case by (fastforce simp: consumes_def intro: le_trans)
next
  case (Star r)
  then show ?case using star_ends_consumes by (auto simp: consumes_def)
next
  case (LazyStar r)
  then show ?case using lazy_ends_consumes by (auto simp: consumes_def)
qed (auto simp: consumes_def split: if_splits list.splits)

lemma ends_length: "k' \<in> set (ends r k) \<Longrightarrow> length (ahead k') \<le> length (ahead k)"
  using ends_consumes by (auto simp: consumes_def)

text \<open>A replacement that finds nothing to replace returns the subject.\<close>

lemma replace_from_none:
  "(\<And>b a. ends r (Cur b a []) = []) \<Longrightarrow> replace_from r f st b s = (s, st)"
  by (induction r f st b s rule: replace_from.induct) auto

text \<open>An expression that must begin with one of some characters.\<close>

fun needs :: "(char \<Rightarrow> bool) \<Rightarrow> rex \<Rightarrow> bool" where
  "needs p (Cls q) = (\<forall>c. q c \<longrightarrow> p c)"
| "needs p (Cat r q) = needs p r"
| "needs p (Alt r q) = (needs p r \<and> needs p q)"
| "needs p (Grp n r) = needs p r"
| "needs p _ = False"

lemma needs_ends: "needs p r \<Longrightarrow> (case a of [] \<Rightarrow> True | c # _ \<Rightarrow> \<not> p c) \<Longrightarrow> ends r (Cur b a cs) = []"
  by (induction p r rule: needs.induct) (auto split: list.splits)

lemma replace_from_needs:
  "needs p r \<Longrightarrow> \<forall>c \<in> set s. \<not> p c \<Longrightarrow> replace_from r f st b s = (s, st)"
proof (induction s arbitrary: b)
  case Nil
  then show ?case by (simp add: needs_ends)
next
  case (Cons c s)
  then have "ends r (Cur b (c # s) []) = []" by (simp add: needs_ends)
  with Cons show ?case by simp
qed

end
