(* ===== verification/Redact.thy ===== *)
theory Redact
  imports Regex
begin

text \<open>
  \<open>redactSecretsInText\<close> of \<open>apps/mirod/src/operations/classify.ts\<close>: credential-shaped
  values are masked in every text bound for a model, a phone or the memory table, while
  references of the form \<open>{{secret:ref}}\<close> pass through.  One expression per shape, in
  the order of the source.
\<close>

abbreviation NUL :: char where "NUL \<equiv> CHR 0x00"

definition grp :: "nat \<Rightarrow> cursor \<Rightarrow> string" where
  "grp n k = (case group n k of None \<Rightarrow> [] | Some s \<Rightarrow> s)"

definition redacted :: string where "redacted = ''[redacted]''"

subsection \<open>The shapes\<close>

definition secret_ref_re :: rex where
  "secret_ref_re = seq [lit ''{{secret:'', plus (none_of ''}''), lit ''}}'']"

definition credential_words :: rex where
  "credential_words = alt [liti ''password'', liti ''passwd'', liti ''pw'', liti ''token'',
     seq [liti ''api'', opt (ch CHR ''_''), liti ''key''], liti ''secret'', liti ''authorization'',
     liti ''x-emby-token'', liti ''x-mediabrowser-token'', liti ''x-api-key'',
     seq [liti ''access'', opt (ch CHR ''_''), liti ''key''],
     seq [liti ''private'', opt (ch CHR ''_''), liti ''key''],
     liti ''cookie'', liti ''set-cookie'', seq [liti ''session'', opt (seq [opt (ch CHR ''_''), liti ''id''])],
     liti ''jwt'', seq [liti ''refresh'', opt (ch CHR ''_''), liti ''token''],
     seq [liti ''client'', opt (ch CHR ''_''), liti ''secret'']]"

definition double_quoted :: rex where
  "double_quoted = seq [ch DQ, Star (none_of [DQ, NL, NUL]), ch DQ]"

definition single_quoted :: rex where
  "single_quoted = seq [ch SQ, Star (none_of [SQ, NL, NUL]), ch SQ]"

definition plain_value_char :: "char \<Rightarrow> bool" where
  "plain_value_char c \<longleftrightarrow> c \<notin> set [DQ, SQ, CHR ''&'', CHR '','', CHR ''}'', NUL] \<and> \<not> is_space c"

definition key_value_re :: rex where
  "key_value_re = seq
     [Grp 1 (seq [opt (ch DQ), credential_words, opt (ch DQ), Star space, one_of '':='', Star space]),
      Grp 2 (alt [double_quoted, single_quoted, plus (Cls plain_value_char)])]"

definition flag_re :: rex where
  "flag_re = seq
     [Grp 1 (seq [ch CHR ''-'', opt (ch CHR ''-''),
        alt [liti ''password'', liti ''passwd'', liti ''pass'', liti ''token'',
             seq [liti ''api'', opt (one_of ''-_''), liti ''key''], liti ''secret'',
             seq [liti ''access'', opt (one_of ''-_''), liti ''key''],
             seq [liti ''client'', opt (one_of ''-_''), liti ''secret'']],
        alt [ch CHR ''='', plus space]]),
      Grp 2 (alt [plus (Cls (\<lambda>c. \<not> is_space c \<and> c \<notin> set [DQ, SQ, NUL])), double_quoted, single_quoted])]"

definition curl_user_re :: rex where
  "curl_user_re = seq
     [Grp 1 (seq [space, lit ''-u'', plus space, plus (Cls (\<lambda>c. \<not> is_space c \<and> c \<noteq> CHR '':'' \<and> c \<noteq> CHR ''@'')),
        ch CHR '':'']), Grp 2 (plus nonspace)]"

definition url_userinfo_re :: rex where
  "url_userinfo_re = seq
     [Grp 1 (seq [lit ''//'', plus (Cls (\<lambda>c. \<not> is_space c \<and> c \<notin> set ''/:@'')), ch CHR '':'']),
      Grp 2 (plus (Cls (\<lambda>c. c \<noteq> CHR ''@'' \<and> \<not> is_space c \<and> c \<noteq> CHR ''/''))), ch CHR ''@'']"

definition bearer_re :: rex where
  "bearer_re = seq [WordB, altsi [''Bearer'', ''Basic''], plus space,
     at_least 8 (Cls (\<lambda>c. alnum c \<or> c \<in> set ''._~+/=-''))]"

definition authorization_re :: rex where
  "authorization_re = seq [Grp 1 (seq [liti ''Authorization:'', Star space]), Grp 2 (seq [nonspace, dots])]"

definition mediabrowser_re :: rex where
  "mediabrowser_re = seq
     [Grp 1 (seq [liti ''MediaBrowser'', Star (none_of [DQ, NL]), liti ''Token='', ch DQ]),
      Grp 2 (plus (none_of [DQ]))]"

definition key_body :: rex where "key_body = Cls (\<lambda>c. alnum c \<or> c = CHR ''_'' \<or> c = CHR ''-'')"

definition known_key_re :: rex where
  "known_key_re = seq [WordB, Grp 1 (alt
     [seq [lit ''sk-'', at_least 8 (Cls alnum)], seq [lit ''ghp_'', at_least 8 (Cls alnum)],
      seq [lit ''xox'', one_of ''abp'', ch CHR ''-'', at_least 8 (Cls (\<lambda>c. alnum c \<or> c = CHR ''-''))],
      seq [lit ''AKIA'', times 16 (Cls (\<lambda>c. is_upper c \<or> is_digit c))],
      seq [lit ''eyJ'', at_least 6 key_body, ch CHR ''.'', at_least 6 key_body, ch CHR ''.'', at_least 6 key_body]]),
     WordB]"

definition shadow_re :: rex where
  "shadow_re = seq [BolM, Grp 1 (seq [plus (Cls (\<lambda>c. \<not> is_space c \<and> c \<noteq> CHR '':'')), ch CHR '':'']),
     Grp 2 (seq [one_of ''$!*'', Star (Cls (\<lambda>c. \<not> is_space c \<and> c \<noteq> CHR '':''))])]"

definition upper_or_blank :: rex where "upper_or_blank = Cls (\<lambda>c. is_upper c \<or> c = CHR '' '')"

definition private_key_re :: rex where
  "private_key_re = seq
     [Grp 1 (seq [lit ''-----BEGIN '', Star upper_or_blank, lit ''PRIVATE KEY-----'']), LazyStar any_char,
      Grp 2 (seq [lit ''-----END '', Star upper_or_blank, lit ''PRIVATE KEY-----''])]"

definition guard_mark_re :: rex where
  "guard_mark_re = seq [ch NUL, Grp 1 (plus digit), ch NUL]"

subsection \<open>The function\<close>

text \<open>\<open>(_, k, v) => ...\<close>: a quoted value keeps its quotes.\<close>

definition mask_value :: "string \<Rightarrow> string" where
  "mask_value v = (case v of [] \<Rightarrow> redacted
     | q # _ \<Rightarrow> if q = DQ \<or> q = SQ then [q] @ redacted @ [q] else redacted)"

definition keep1 :: "string \<Rightarrow> string \<Rightarrow> cursor \<Rightarrow> string" where
  "keep1 tail m k = grp 1 k @ redacted @ tail"

text \<open>References first: each is replaced by its index between two marks.\<close>

definition guard_refs :: "string \<Rightarrow> string \<times> string list" where
  "guard_refs text = replace_from secret_ref_re
     (\<lambda>refs m k. (NUL # show_nat (length refs) @ [NUL], refs @ [m])) [] [] text"

definition restore_refs :: "string list \<Rightarrow> string \<Rightarrow> string" where
  "restore_refs refs = replace_all guard_mark_re (\<lambda>m k. nth_or [] refs (read_nat (grp 1 k)))"

definition redact_shapes :: "string \<Rightarrow> string" where
  "redact_shapes guarded =
    (let t1 = replace_all key_value_re (\<lambda>m k. grp 1 k @ mask_value (grp 2 k)) guarded;
         t2 = replace_all flag_re (keep1 []) t1;
         t3 = replace_all curl_user_re (keep1 []) t2;
         t4 = replace_all url_userinfo_re (keep1 ''@'') t3;
         t5 = replace_all bearer_re (\<lambda>m k. redacted) t4;
         t6 = replace_all authorization_re (keep1 []) t5;
         t7 = replace_all mediabrowser_re (keep1 []) t6;
         t8 = replace_all known_key_re (\<lambda>m k. redacted) t7;
         t9 = replace_all shadow_re (keep1 []) t8
     in replace_all private_key_re (\<lambda>m k. grp 1 k @ '' [redacted] '' @ grp 2 k) t9)"

definition redact_secrets_in_text :: "string \<Rightarrow> string" where
  "redact_secrets_in_text text =
     (case guard_refs text of (guarded, refs) \<Rightarrow> restore_refs refs (redact_shapes guarded))"

end
