(* ===== verification/Memory.thy ===== *)
theory Memory
  imports Redact Json
begin

text \<open>
  Durable memory (\<open>apps/mirod/src/memory/store.ts\<close>): the table of facts, its upsert, its
  queries and the mechanical incident write of the operation engine.  \<open>Date.now()\<close> and
  the UUID a new row takes are arguments; \<open>UNIQUE(category, key)\<close> is an invariant.
\<close>

datatype category = Preference | ServerFact | Incident | AppKnowledge | ExtensionKnowledge | Research | Capability

record mem_row =
  mem_id :: string
  mem_category :: category
  mem_key :: string
  mem_value :: string
  mem_source :: string
  version_applicability :: "string option"
  occurrence_count :: nat
  mem_created :: int
  last_seen :: int
  last_verified :: int
  helpful_count :: nat
  harmful_count :: nat
  expires_at :: "int option"
  observed_at :: "int option"
  app_version :: "string option"
  superseded_by :: "string option"

record mem_opts =
  opt_expires :: "int option"
  opt_observed :: "int option"
  opt_app_version :: "string option"

definition no_opts :: mem_opts where
  "no_opts = \<lparr>opt_expires = None, opt_observed = None, opt_app_version = None\<rparr>"

definition confidence_label :: "nat \<Rightarrow> string" where
  "confidence_label n = (if n \<ge> 4 then ''confirmed'' else if n \<ge> 2 then ''noted a few times'' else ''tentative'')"

subsection \<open>Writing\<close>

definition same_fact :: "category \<Rightarrow> string \<Rightarrow> mem_row \<Rightarrow> bool" where
  "same_fact c k r \<longleftrightarrow> mem_category r = c \<and> mem_key r = k"

definition get_by_key :: "category \<Rightarrow> string \<Rightarrow> mem_row list \<Rightarrow> mem_row option" where
  "get_by_key c k rows = List.find (same_fact c k) rows"

text \<open>The row of a new key, and what \<open>ON CONFLICT(category, key) DO UPDATE\<close> sets.\<close>

definition new_fact ::
    "int \<Rightarrow> string \<Rightarrow> category \<Rightarrow> string \<Rightarrow> string \<Rightarrow> string \<Rightarrow> string option \<Rightarrow> mem_opts \<Rightarrow> mem_row" where
  "new_fact now uuid c k safe src va opts =
     \<lparr>mem_id = uuid, mem_category = c, mem_key = k, mem_value = safe, mem_source = src,
      version_applicability = va, occurrence_count = 1, mem_created = now, last_seen = now,
      last_verified = now, helpful_count = 0, harmful_count = 0, expires_at = opt_expires opts,
      observed_at = opt_observed opts, app_version = opt_app_version opts, superseded_by = None\<rparr>"

definition reinforce :: "int \<Rightarrow> string \<Rightarrow> string \<Rightarrow> string option \<Rightarrow> mem_opts \<Rightarrow> mem_row \<Rightarrow> mem_row" where
  "reinforce now safe src va opts r =
     r\<lparr>mem_value := safe, mem_source := src, version_applicability := va,
       occurrence_count := occurrence_count r + 1, last_seen := now, last_verified := now,
       expires_at := opt_expires opts, observed_at := opt_observed opts,
       app_version := opt_app_version opts\<rparr>"

definition remember ::
    "int \<Rightarrow> string \<Rightarrow> category \<Rightarrow> string \<Rightarrow> string \<Rightarrow> string \<Rightarrow> string option \<Rightarrow> mem_opts \<Rightarrow>
     mem_row list \<Rightarrow> mem_row list" where
  "remember now uuid c k v src va opts rows =
     (let safe = redact_secrets_in_text v in
      if list_ex (same_fact c k) rows
      then map (\<lambda>r. if same_fact c k r then reinforce now safe src va opts r else r) rows
      else rows @ [new_fact now uuid c k safe src va opts])"

definition bump_helpful :: "string \<Rightarrow> mem_row list \<Rightarrow> mem_row list" where
  "bump_helpful i rows = map (\<lambda>r. if mem_id r = i then r\<lparr>helpful_count := helpful_count r + 1\<rparr> else r) rows"

definition bump_harmful :: "string \<Rightarrow> mem_row list \<Rightarrow> mem_row list" where
  "bump_harmful i rows = map (\<lambda>r. if mem_id r = i then r\<lparr>harmful_count := harmful_count r + 1\<rparr> else r) rows"

subsection \<open>LIKE\<close>

text \<open>SQLite's \<open>LIKE\<close>, with the escape character if one is given; ASCII case is ignored.\<close>

function (sequential) like_match :: "char option \<Rightarrow> string \<Rightarrow> string \<Rightarrow> bool" where
  "like_match e [] s = (s = [])"
| "like_match e (p # ps) s =
     (if Some p = e then
        (case ps of [] \<Rightarrow> False
         | q # qs \<Rightarrow> (case s of [] \<Rightarrow> False | c # cs \<Rightarrow> lower_char q = lower_char c \<and> like_match e qs cs))
      else if p = CHR ''%'' then
        like_match e ps s \<or> (case s of [] \<Rightarrow> False | c # cs \<Rightarrow> like_match e (p # ps) cs)
      else (case s of [] \<Rightarrow> False
            | c # cs \<Rightarrow> (p = CHR ''_'' \<or> lower_char p = lower_char c) \<and> like_match e ps cs))"
  by pat_completeness auto
termination
  by (relation "measure (\<lambda>(e, p, s). length p + length s)") auto

subsection \<open>Reading\<close>

definition not_expired :: "int \<Rightarrow> mem_row \<Rightarrow> bool" where
  "not_expired now r = (case expires_at r of None \<Rightarrow> True | Some t \<Rightarrow> now < t)"

text \<open>\<open>ORDER BY occurrence_count DESC, last_seen_at DESC\<close>.\<close>

definition by_relevance :: "mem_row list \<Rightarrow> mem_row list" where
  "by_relevance rows = sort_key (\<lambda>r. - int (occurrence_count r)) (sort_key (\<lambda>r. - last_seen r) rows)"

record mem_query =
  q_category :: "category option"
  q_keyword :: "string option"
  q_limit :: "nat option"
  q_include_expired :: bool

definition query :: "int \<Rightarrow> mem_query \<Rightarrow> mem_row list \<Rightarrow> mem_row list" where
  "query now q rows =
     take (case q_limit q of None \<Rightarrow> 20 | Some n \<Rightarrow> n)
       (by_relevance (filter (\<lambda>r.
          (case q_category q of None \<Rightarrow> True | Some c \<Rightarrow> mem_category r = c) \<and>
          (case q_keyword q of None \<Rightarrow> True
           | Some w \<Rightarrow> w = [] \<or> like_match None (''%'' @ w @ ''%'') (mem_key r)
                             \<or> like_match None (''%'' @ w @ ''%'') (mem_value r)) \<and>
          (q_include_expired q \<or> not_expired now r)) rows))"

fun category_name :: "category \<Rightarrow> string" where
  "category_name Preference = ''preference''"
| "category_name ServerFact = ''server_fact''"
| "category_name Incident = ''incident''"
| "category_name AppKnowledge = ''app_knowledge''"
| "category_name ExtensionKnowledge = ''extension_knowledge''"
| "category_name Research = ''research''"
| "category_name Capability = ''capability''"

definition list_all_memories :: "int \<Rightarrow> nat \<Rightarrow> mem_row list \<Rightarrow> mem_row list" where
  "list_all_memories now limit rows =
     take limit (sort_key (\<lambda>r. category_name (mem_category r)) (by_relevance (filter (not_expired now) rows)))"

definition is_fact :: "mem_row \<Rightarrow> bool" where
  "is_fact r \<longleftrightarrow> (mem_category r = Preference \<or> mem_category r = ServerFact) \<and>
     \<not> (mem_category r = Preference \<and> mem_key r = ''reply_style'')"

definition top_facts :: "int \<Rightarrow> nat \<Rightarrow> mem_row list \<Rightarrow> mem_row list" where
  "top_facts now limit rows = take limit (by_relevance (filter (\<lambda>r. is_fact r \<and> not_expired now r) rows))"

text \<open>
  The one-line summary of a capability document; a value that is not JSON, or whose
  fields throw (a \<open>null\<close> document, components that are no array), shows as it is.
\<close>

definition capability_summary :: "string \<Rightarrow> string" where
  "capability_summary v =
     (case json_parse v of None \<Rightarrow> v
      | Some JNull \<Rightarrow> v
      | Some doc \<Rightarrow>
          (case field ''components'' doc of
             JArr (c # cs) \<Rightarrow>
               if list_ex (\<lambda>x. x = JNull) (c # cs) then v
               else js_text (field ''summary'' doc) @ '' - '' @ ''components: '' @
                    join '', '' (map (\<lambda>x. js_text (field ''name'' x)) (c # cs))
           | JStr (_ # _) \<Rightarrow> v
           | _ \<Rightarrow> js_text (field ''summary'' doc)))"

definition fact_line :: "mem_row \<Rightarrow> string" where
  "fact_line r = ''- '' @ mem_value r @ '' ('' @ confidence_label (occurrence_count r) @ '')''"

definition capability_line :: "mem_row \<Rightarrow> string" where
  "capability_line r = ''- '' @ mem_key r @ '': '' @ take 300 (capability_summary (mem_value r))"

definition build_summary :: "int \<Rightarrow> mem_row list \<Rightarrow> string" where
  "build_summary now rows =
     (let facts = top_facts now 8 rows;
          capabilities = query now \<lparr>q_category = Some Capability, q_keyword = None, q_limit = Some 8,
                           q_include_expired = False\<rparr> rows
      in join [NL, NL]
        ((if facts = [] then []
          else [''What you've learned about this user and server so far:'' @ [NL] @ join [NL] (map fact_line facts)]) @
         (if capabilities = [] then []
          else [''Systems you already operate (use their ext_* tools directly; memory_query category '' @ [DQ] @
                ''capability'' @ [DQ] @ '' for the full model):'' @ [NL] @ join [NL] (map capability_line capabilities)])))"

subsection \<open>Incidents\<close>

definition slug_re :: rex where
  "slug_re = plus (Cls (\<lambda>c. \<not> (is_lower c \<or> is_digit c)))"

definition slug :: "string \<Rightarrow> string" where
  "slug goal = take 60 (replace_all slug_re (\<lambda>m k. ''_'') (to_lower goal))"

datatype incident_phase = IncCommitted | IncRolledback | IncDrift

fun incident_phase_name :: "incident_phase \<Rightarrow> string" where
  "incident_phase_name IncCommitted = ''committed''"
| "incident_phase_name IncRolledback = ''rolledback''"
| "incident_phase_name IncDrift = ''drift''"

definition incident_value :: "string \<Rightarrow> incident_phase \<Rightarrow> string option \<Rightarrow> string" where
  "incident_value goal p err =
     goal @ '' - '' @ incident_phase_name p @
       (case err of None \<Rightarrow> [] | Some e \<Rightarrow> if e = [] then [] else '': '' @ e)"

definition incident_key :: "string \<Rightarrow> string \<Rightarrow> string" where
  "incident_key kind goal = ''incident.'' @ kind @ ''.'' @ slug goal"

definition record_incident ::
    "int \<Rightarrow> string \<Rightarrow> string \<Rightarrow> string \<Rightarrow> incident_phase \<Rightarrow> string option \<Rightarrow> mem_row list \<Rightarrow> mem_row list" where
  "record_incident now uuid kind goal p err rows =
     remember now uuid Incident (incident_key kind goal) (incident_value goal p err)
       (''mechanical:'' @ kind) None no_opts rows"

subsection \<open>Forgetting\<close>

text \<open>\<open>replace(/[\\%_]/g, c => `\\${c}`)\<close>.\<close>

definition escape_like :: "string \<Rightarrow> string" where
  "escape_like s = concat (map (\<lambda>c. if c = BS \<or> c = CHR ''%'' \<or> c = CHR ''_'' then [BS, c] else [c]) s)"

definition forget_hits :: "string \<Rightarrow> mem_row \<Rightarrow> bool" where
  "forget_hits p r \<longleftrightarrow> mem_id r = p \<or> like_match (Some BS) (escape_like p @ ''%'') (mem_id r)"

definition forget :: "string \<Rightarrow> mem_row list \<Rightarrow> nat \<times> mem_row list" where
  "forget id_or_prefix rows =
     (let p = trim id_or_prefix in
      if p = [] then (0, rows)
      else (length (filter (forget_hits p) rows), filter (\<lambda>r. \<not> forget_hits p r) rows))"

subsection \<open>Display\<close>

fun category_label :: "category \<Rightarrow> string" where
  "category_label Preference = ''Preferences''"
| "category_label ServerFact = ''Server facts''"
| "category_label Incident = ''Incidents''"
| "category_label AppKnowledge = ''App knowledge''"
| "category_label ExtensionKnowledge = ''Extension knowledge''"
| "category_label Research = ''Research''"
| "category_label Capability = ''Systems you operate''"

definition categories_in_order :: "mem_row list \<Rightarrow> category list" where
  "categories_in_order rows = rev (remdups (rev (map mem_category rows)))"

definition format_for_display :: "mem_row list \<Rightarrow> string" where
  "format_for_display records =
     (if records = [] then ''Nothing remembered yet.''
      else join [NL, NL] (map (\<lambda>c. category_label c @ '':'' @ [NL] @
             join [NL] (map (\<lambda>r. ''  '' @ take 8 (mem_id r) @ ''  '' @ mem_value r @ '' ('' @
               confidence_label (occurrence_count r) @ '')'') (filter (\<lambda>r. mem_category r = c) records)))
           (categories_in_order records))
         @ [NL, NL] @ ''/memory forget <id> to remove one.'')"

subsection \<open>Lemmas\<close>

definition facts_unique :: "mem_row list \<Rightarrow> bool" where
  "facts_unique rows \<longleftrightarrow> distinct (map (\<lambda>r. (mem_category r, mem_key r)) rows)"

lemma reinforce_keys [simp]:
  "mem_id (reinforce now v src va opts r) = mem_id r"
  "mem_category (reinforce now v src va opts r) = mem_category r"
  "mem_key (reinforce now v src va opts r) = mem_key r"
  "same_fact c k (reinforce now v src va opts r) = same_fact c k r"
  by (simp_all add: reinforce_def same_fact_def)

lemma facts_unique_remember: "facts_unique rows \<Longrightarrow> facts_unique (remember now u c k v src va opts rows)"
proof -
  assume u: "facts_unique rows"
  show ?thesis
  proof (cases "list_ex (same_fact c k) rows")
    case True
    have "map (\<lambda>r. (mem_category r, mem_key r)) (remember now u c k v src va opts rows) =
          map (\<lambda>r. (mem_category r, mem_key r)) rows"
      using True by (simp add: remember_def Let_def)
    with u show ?thesis by (simp add: facts_unique_def)
  next
    case False
    then have "(c, k) \<notin> set (map (\<lambda>r. (mem_category r, mem_key r)) rows)"
      by (auto simp: list_ex_iff same_fact_def)
    with u False show ?thesis by (simp add: facts_unique_def remember_def Let_def new_fact_def)
  qed
qed

lemma facts_unique_filter: "facts_unique rows \<Longrightarrow> facts_unique (filter p rows)"
  by (induction rows) (auto simp: facts_unique_def)

lemma facts_unique_forget: "facts_unique rows \<Longrightarrow> facts_unique (snd (forget p rows))"
  by (simp add: forget_def Let_def facts_unique_filter)

lemma find_map_same:
  assumes "\<And>r. P (f r) = P r"
  shows "List.find P (map (\<lambda>r. if P r then f r else r) rows) = map_option f (List.find P rows)"
  by (induction rows) (auto simp: assms)

lemma get_remember:
  "get_by_key c k (remember now u c k v src va opts rows) =
     Some (case get_by_key c k rows of
             None \<Rightarrow> new_fact now u c k (redact_secrets_in_text v) src va opts
           | Some r \<Rightarrow> reinforce now (redact_secrets_in_text v) src va opts r)"
proof (cases "list_ex (same_fact c k) rows")
  case True
  then obtain r where "List.find (same_fact c k) rows = Some r"
    by (cases "List.find (same_fact c k) rows") (auto simp: List_find_None_iff list_ex_iff)
  with True show ?thesis by (simp add: remember_def get_by_key_def Let_def find_map_same)
next
  case False
  then have "List.find (same_fact c k) rows = None" by (simp add: List_find_None_iff list_ex_iff)
  with False show ?thesis
    by (simp add: remember_def get_by_key_def Let_def find_append) (simp add: same_fact_def new_fact_def)
qed

lemma remember_other:
  "\<not> same_fact c k r \<Longrightarrow> r \<in> set (remember now u c k v src va opts rows) \<longleftrightarrow> r \<in> set rows"
  by (auto simp: remember_def Let_def image_iff same_fact_def new_fact_def)

lemma set_by_relevance [simp]: "set (by_relevance rows) = set rows"
  by (simp add: by_relevance_def)

lemma in_take_set: "x \<in> set (take n xs) \<Longrightarrow> x \<in> set xs"
  by (rule in_set_takeD)

lemma like_match_percent: "e \<noteq> Some (CHR ''%'') \<Longrightarrow> like_match e ''%'' s"
  by (induction s) auto

lemma to_lower_Cons [simp]: "to_lower (c # s) = lower_char c # to_lower s" "to_lower [] = []"
  by (simp_all add: to_lower_def)

lemma escape_like_Cons:
  "escape_like (c # s) = (if c = BS \<or> c = CHR ''%'' \<or> c = CHR ''_'' then [BS, c] else [c]) @ escape_like s"
  by (simp add: escape_like_def)

lemma escape_like_Nil [simp]: "escape_like [] = []"
  by (simp add: escape_like_def)

lemma like_escaped_prefix:
  "like_match (Some BS) (escape_like p @ ''%'') s \<longleftrightarrow> starts_with (to_lower p) (to_lower s)"
proof (induction p arbitrary: s)
  case Nil
  then show ?case using like_match_percent [of "Some BS" s] by simp
next
  case (Cons c p)
  then show ?case by (cases s) (auto simp: escape_like_Cons)
qed

end
