(* ===== verification/Wire.thy ===== *)
theory Wire
  imports Json
begin

text \<open>
  The wire protocol between the daemon and its clients (\<open>packages/protocol/src/wire.ts\<close>): every
  event and message, the framing of a message as one line of JSON, and the line buffer that
  cuts a stream of chunks back into lines.  A chunk is text already decoded from UTF-8.
\<close>

subsection \<open>Events the daemon sends\<close>

datatype health = Healthy | Degraded | Connecting

datatype privilege = RootUser | PlainUser

record status_event =
  st_server :: string
  st_health :: health
  st_model :: "string option"
  st_privilege :: "privilege option"
  st_version :: "string option"

record question_option =
  label :: string
  opt_value :: string

record question_event =
  q_id :: string
  q_prompt :: string
  q_options :: "question_option list"
  q_timeout :: "int option"

datatype activity_status = Running | Done | Failed

record activity_event =
  act_id :: string
  act_parent :: "string option"
  act_label :: string
  act_status :: activity_status
  act_detail :: "string option"

datatype notice_level = Info | Warn | Credential

record notice =
  notice_level :: notice_level
  notice_text :: string
  notice_source :: "string option"

datatype progress_phase = PCapturing | PApplying | PVerifying | PAwaitingReachability

datatype outcome = OCommitted | ORolledback | OAppliedUnverified

record operation_plan_event =
  pl_id :: string
  pl_goal :: string
  pl_summary :: string
  pl_auto :: bool
  pl_details :: "(string \<times> json) list option"

datatype component_action = Reuse | Install | Configure | Remove

record plan_component =
  pc_name :: string
  pc_action :: component_action
  pc_detail :: string

record system_plan_event =
  sp_id :: string
  sp_title :: string
  sp_findings :: "string list"
  sp_components :: "plan_component list"
  sp_steps :: "string list"
  sp_verification :: "string list"
  sp_notes :: "string list option"

record pair_result_event =
  pr_ok :: bool
  pr_token :: "string option"
  pr_device_id :: "string option"
  pr_device_name :: "string option"
  pr_error :: "string option"

record stack_summary =
  stk_app :: string
  stk_running_status :: bool
  stk_dir :: string
  stk_running :: int
  stk_declared :: int
  stk_images :: "string list"
  stk_updated :: int

record operation_result_event =
  or_id :: string
  or_outcome :: outcome
  or_message :: string

datatype server_event =
    Status status_event
  | Question question_event
  | Reply string
  | ReplyDelta string
  | Activity activity_event
  | Notice notice
  | SecretPrompt string string
  | OperationPlan operation_plan_event
  | OperationProgress string progress_phase
  | OperationResult operation_result_event
  | SystemPlan system_plan_event
  | PairResult pair_result_event
  | Stacks "stack_summary list" "string option"
  | StackLogs string "string list" "string option"

subsection \<open>Messages a client sends\<close>

datatype feedback = Quiet | Keep

datatype stack_action = StartStack | StopStack | DownStack | RemoveStack | UpdateStack

datatype client_message =
    Chat string
  | Answer string string
  | ProviderSetup
  | PairRequest
  | MemoryList
  | MemoryForget string
  | NoticeFeedback string feedback
  | Auth string
  | PairRedeem string "string option"
  | StacksRequest
  | StackLogsRequest string "int option"
  | StackAction string stack_action

definition PROTOCOL_VERSION :: nat where "PROTOCOL_VERSION = 1"

definition IROH_ALPN :: string where "IROH_ALPN = ''miro/mirod/1''"

subsection \<open>Framing\<close>

definition encode_line :: "json \<Rightarrow> string" where
  "encode_line msg = stringify msg @ [NL]"

definition MAX_LINE_BYTES :: nat where "MAX_LINE_BYTES = 16 * 1024 * 1024"

record line_buffer =
  buf :: string
  overflowed :: bool

definition empty_buffer :: line_buffer where
  "empty_buffer = \<lparr>buf = [], overflowed = False\<rparr>"

text \<open>The \<open>while\<close> loop: the lines handed to \<open>onLine\<close>, what is left of the buffer, the flag.\<close>

fun cut_lines :: "nat \<Rightarrow> string \<Rightarrow> bool \<Rightarrow> string list \<times> line_buffer" where
  "cut_lines 0 b over = ([], \<lparr>buf = b, overflowed = over\<rparr>)"
| "cut_lines (Suc n) b over =
     (case find_index (\<lambda>c. c = NL) b of
        None \<Rightarrow> ([], \<lparr>buf = b, overflowed = over\<rparr>)
      | Some i \<Rightarrow>
          let line = take i b; (ls, s) = cut_lines n (drop (i + 1) b) False
          in (if \<not> over \<and> line \<noteq> [] then line # ls else ls, s))"

text \<open>Every turn of the loop consumes a code unit, so the length of the buffer is fuel enough.\<close>

definition feed_max :: "nat \<Rightarrow> line_buffer \<Rightarrow> string \<Rightarrow> string list \<times> line_buffer" where
  "feed_max maximum s chunk =
     (let b = buf s @ chunk; (ls, s') = cut_lines (length b) b (overflowed s)
      in (ls, if length (buf s') > maximum then \<lparr>buf = [], overflowed = True\<rparr> else s'))"

definition feed :: "line_buffer \<Rightarrow> string \<Rightarrow> string list \<times> line_buffer" where
  "feed = feed_max MAX_LINE_BYTES"

fun feed_all :: "line_buffer \<Rightarrow> string list \<Rightarrow> string list \<times> line_buffer" where
  "feed_all s [] = ([], s)"
| "feed_all s (c # cs) = (let (ls, s') = feed s c; (ls', s'') = feed_all s' cs in (ls @ ls', s''))"

subsection \<open>The loop in terms of lines\<close>

lemma find_index_split:
  "find_index p xs = Some i \<Longrightarrow> xs = take i xs @ xs ! i # drop (Suc i) xs \<and> (\<forall>x \<in> set (take i xs). \<not> p x)"
  by (induction xs arbitrary: i) (auto split: if_splits)

lemma split_on_find:
  "find_index (\<lambda>c. c = d) xs = Some i \<Longrightarrow> split_on d xs = take i xs # split_on d (drop (Suc i) xs)"
proof -
  assume i: "find_index (\<lambda>c. c = d) xs = Some i"
  from find_index_split [OF i] find_index_Some [OF i]
  have "xs = take i xs @ d # drop (Suc i) xs" "d \<notin> set (take i xs)" by auto
  then show ?thesis using split_on_append_sep [of d "take i xs" "drop (Suc i) xs"] split_on_no_sep [of d "take i xs"]
    by (metis append_Cons append_Nil)
qed

text \<open>What the loop yields is the complete pieces between newlines; the last piece stays.\<close>

definition kept_lines :: "bool \<Rightarrow> string list \<Rightarrow> string list" where
  "kept_lines over ls = filter (\<lambda>l. l \<noteq> []) (if over then tl ls else ls)"

lemma cut_lines_split:
  "length b \<le> n \<Longrightarrow>
   cut_lines n b over = (kept_lines over (butlast (split_on NL b)),
     \<lparr>buf = last (split_on NL b), overflowed = (over \<and> NL \<notin> set b)\<rparr>)"
proof (induction n arbitrary: b over)
  case 0
  then show ?case by (simp add: kept_lines_def)
next
  case (Suc n)
  show ?case
  proof (cases "find_index (\<lambda>c. c = NL) b")
    case None
    then have nl: "NL \<notin> set b" by (auto simp: find_index_None)
    with None show ?thesis by (simp add: split_on_no_sep kept_lines_def)
  next
    case (Some i)
    from find_index_Some [OF Some] have "i < length b" "NL \<in> set b" by (auto simp: in_set_conv_nth)
    with Suc.prems have "length (drop (Suc i) b) \<le> n" by simp
    from Suc.IH [OF this, of False] Some \<open>NL \<in> set b\<close> show ?thesis
      by (simp add: Let_def split_on_find [OF Some] kept_lines_def)
  qed
qed

lemma feed_max_split:
  "feed_max m s chunk =
     (let ps = split_on NL (buf s @ chunk); rest = last ps
      in (kept_lines (overflowed s) (butlast ps),
          if length rest > m then \<lparr>buf = [], overflowed = True\<rparr>
          else \<lparr>buf = rest, overflowed = (overflowed s \<and> NL \<notin> set (buf s @ chunk))\<rparr>))"
  by (simp add: feed_max_def cut_lines_split Let_def)

definition within_limit :: "string list \<Rightarrow> bool" where
  "within_limit chunks \<longleftrightarrow> length (concat chunks) \<le> MAX_LINE_BYTES"

lemma split_on_append:
  "split_on d (u @ v) = butlast (split_on d u) @ (last (split_on d u) @ hd (split_on d v)) # tl (split_on d v)"
proof (induction u)
  case Nil
  then show ?case by simp
next
  case (Cons c u)
  obtain w ws where "split_on d u = w # ws" by (cases "split_on d u") auto
  with Cons show ?case by (cases ws) (auto split: list.splits)
qed

lemma length_last_split: "length (last (split_on d s)) \<le> length s"
proof (induction s)
  case (Cons c s)
  obtain w ws where "split_on d s = w # ws" by (cases "split_on d s") auto
  with Cons show ?case by (cases ws) auto
qed simp

lemma last_split_carry: "last (split_on d (last (split_on d u) @ v)) = last (split_on d (u @ v))"
  and butlast_split_carry:
    "butlast (split_on d (u @ v)) = butlast (split_on d u) @ butlast (split_on d (last (split_on d u) @ v))"
proof -
  have nd: "d \<notin> set (last (split_on d u))" using split_on_elems [of "last (split_on d u)" d u] by simp
  then have "split_on d (last (split_on d u) @ v) = (last (split_on d u) @ hd (split_on d v)) # tl (split_on d v)"
    by (simp add: split_on_append [of d _ v] split_on_no_sep)
  then show "last (split_on d (last (split_on d u) @ v)) = last (split_on d (u @ v))"
    "butlast (split_on d (u @ v)) = butlast (split_on d u) @ butlast (split_on d (last (split_on d u) @ v))"
    by (simp_all add: split_on_append [of d u v] butlast_append)
qed

lemma feed_all_chunks:
  assumes "\<not> overflowed s" and "buf s = last (split_on NL u)" and "length u + length (concat chunks) \<le> MAX_LINE_BYTES"
  shows "feed_all s chunks =
    (filter (\<lambda>l. l \<noteq> []) (butlast (split_on NL (buf s @ concat chunks))),
     \<lparr>buf = last (split_on NL (buf s @ concat chunks)), overflowed = False\<rparr>)"
  using assms
proof (induction chunks arbitrary: s u)
  case Nil
  have "NL \<notin> set (buf s)" using Nil(2) split_on_elems [of "last (split_on NL u)" NL u] by simp
  with Nil(1) show ?case by (cases s) (simp add: split_on_no_sep)
next
  case (Cons c chunks)
  define s' where "s' = \<lparr>buf = last (split_on NL (buf s @ c)), overflowed = False\<rparr>"
  have eq: "last (split_on NL (buf s @ c)) = last (split_on NL (u @ c))" using Cons.prems(2) by (simp add: last_split_carry)
  have "length (last (split_on NL (buf s @ c))) \<le> MAX_LINE_BYTES"
    using Cons.prems(3) eq length_last_split [of NL "u @ c"] by simp
  then have step: "feed s c = (filter (\<lambda>l. l \<noteq> []) (butlast (split_on NL (buf s @ c))), s')"
    using Cons.prems(1) by (simp add: feed_def feed_max_split Let_def kept_lines_def s'_def)
  have "feed_all s' chunks = (filter (\<lambda>l. l \<noteq> []) (butlast (split_on NL (buf s' @ concat chunks))),
     \<lparr>buf = last (split_on NL (buf s' @ concat chunks)), overflowed = False\<rparr>)"
    using Cons.prems eq by (intro Cons.IH [of s' "u @ c"]) (simp_all add: s'_def)
  with step show ?case
    using butlast_split_carry [of NL "buf s @ c" "concat chunks"] last_split_carry [of NL "buf s @ c" "concat chunks"]
    by (simp add: s'_def Let_def)
qed

end
