(* ===== verification/Notify.thy ===== *)
theory Notify
  imports Redact Wire
begin

text \<open>
  The notification bus (\<open>apps/mirod/src/notifications/\<close>: \<open>index.ts\<close>, \<open>store.ts\<close>,
  \<open>sinks.ts\<close>).  The module's singleton is a record: whether it is configured, the settings
  and secrets it reads, its table, and what left the daemon (notices to clients, requests to
  push services).  A request a sink fires and forgets is appended to \<open>posted\<close>.
\<close>

datatype tier = Routine | WorthKnowing | NeedsAttention

record notification =
  n_tier :: tier
  n_title :: string
  n_body :: string
  n_source :: string
  n_at :: int

record note_row =
  note_id :: string
  note_tier :: tier
  note_title :: string
  note_body :: string
  note_source :: string
  note_created :: int
  tui_delivered :: "int option"

record http_request =
  req_url :: string
  req_headers :: "(string \<times> string) list"
  req_body :: string

record bus =
  configured :: bool
  settings :: "string \<Rightarrow> string option"
  secrets :: "string \<Rightarrow> string option"
  note_table :: "note_row list"
  clients :: nat
  notices :: "notice list"
  posted :: "(string \<times> http_request) list"

subsection \<open>Sinks\<close>

definition drop_slash :: "string \<Rightarrow> string" where
  "drop_slash u = (if u \<noteq> [] \<and> last u = CHR ''/'' then butlast u else u)"

definition ntfy_priority :: "tier \<Rightarrow> string" where
  "ntfy_priority t = (if t = NeedsAttention then ''urgent'' else ''default'')"

definition ntfy_tags :: "tier \<Rightarrow> string" where
  "ntfy_tags t = (if t = NeedsAttention then ''warning'' else ''information_source'')"

definition body_or_title :: "notification \<Rightarrow> string" where
  "body_or_title n = (if n_body n = [] then n_title n else n_body n)"

definition build_ntfy_request :: "notification \<Rightarrow> string \<Rightarrow> string \<Rightarrow> http_request" where
  "build_ntfy_request n url topic =
     \<lparr>req_url = drop_slash url @ ''/'' @ topic,
      req_headers = [(''Title'', n_title n), (''Priority'', ntfy_priority (n_tier n)), (''Tags'', ntfy_tags (n_tier n))],
      req_body = body_or_title n\<rparr>"

definition gotify_priority :: "tier \<Rightarrow> int" where
  "gotify_priority t = (if t = NeedsAttention then 8 else 4)"

definition upper_hex :: "nat \<Rightarrow> char" where
  "upper_hex d = (if d < 10 then char_of (48 + d) else char_of (55 + d))"

definition percent_byte :: "nat \<Rightarrow> string" where
  "percent_byte b = ''%'' @ [upper_hex (b div 16), upper_hex (b mod 16)]"

text \<open>\<open>encodeURIComponent\<close>; a code unit above 127 is two bytes of UTF-8.\<close>

definition encode_uri_component :: "string \<Rightarrow> string" where
  "encode_uri_component s = concat (map (\<lambda>c. let n = of_char c :: nat in
     if is_digit c \<or> is_lower c \<or> is_upper c \<or> c \<in> set ''-_.!~*()'' \<or> c = SQ then [c]
     else if n < 128 then percent_byte n
     else percent_byte (192 + n div 64) @ percent_byte (128 + n mod 64)) s)"

definition build_gotify_request :: "notification \<Rightarrow> string \<Rightarrow> string \<Rightarrow> http_request" where
  "build_gotify_request n url token =
     \<lparr>req_url = drop_slash url @ ''/message?token='' @ encode_uri_component token,
      req_headers = [(''Content-Type'', ''application/json'')],
      req_body = stringify (JObj [(''title'', JStr (n_title n)), (''message'', JStr (body_or_title n)),
                                  (''priority'', JNum (gotify_priority (n_tier n)))])\<rparr>"

definition gotify_token :: "bus \<Rightarrow> string option" where
  "gotify_token b = (case secrets b ''notify.gotify.token'' of
     None \<Rightarrow> secrets b ''extension.gotify.api_key'' | Some t \<Rightarrow> Some t)"

definition ntfy_send :: "bus \<Rightarrow> notification \<Rightarrow> (string \<times> http_request) list" where
  "ntfy_send b n =
     (case (settings b ''notify.ntfy.url'', settings b ''notify.ntfy.topic'') of
        (Some u, Some t) \<Rightarrow> if u \<noteq> [] \<and> t \<noteq> [] then [(''ntfy'', build_ntfy_request n u t)] else []
      | _ \<Rightarrow> [])"

definition gotify_send :: "bus \<Rightarrow> notification \<Rightarrow> (string \<times> http_request) list" where
  "gotify_send b n =
     (case (settings b ''notify.gotify.url'', gotify_token b) of
        (Some u, Some t) \<Rightarrow> if u \<noteq> [] \<and> t \<noteq> [] then [(''gotify'', build_gotify_request n u t)] else []
      | _ \<Rightarrow> [])"

definition ntfy_available :: "bus \<Rightarrow> bool" where
  "ntfy_available b \<longleftrightarrow> truthy (settings b ''notify.ntfy.url'') \<and> truthy (settings b ''notify.ntfy.topic'')"

definition gotify_available :: "bus \<Rightarrow> bool" where
  "gotify_available b \<longleftrightarrow> truthy (settings b ''notify.gotify.url'') \<and> truthy (gotify_token b)"

definition send_all :: "bus \<Rightarrow> notification \<Rightarrow> (string \<times> http_request) list" where
  "send_all b n = (if ntfy_available b then ntfy_send b n else []) @
                  (if gotify_available b then gotify_send b n else [])"

subsection \<open>The table\<close>

definition insert_notification :: "note_row \<Rightarrow> note_row list \<Rightarrow> note_row list" where
  "insert_notification r rows = rows @ [r]"

definition undelivered :: "note_row \<Rightarrow> bool" where
  "undelivered r \<longleftrightarrow> (note_tier r = WorthKnowing \<or> note_tier r = NeedsAttention) \<and> tui_delivered r = None"

definition list_undelivered :: "note_row list \<Rightarrow> note_row list" where
  "list_undelivered rows = sort_key note_created (filter undelivered rows)"

definition mark_delivered :: "int \<Rightarrow> string list \<Rightarrow> note_row list \<Rightarrow> note_row list" where
  "mark_delivered now ids rows =
     (if ids = [] then rows
      else map (\<lambda>r. if note_id r \<in> set ids then r\<lparr>tui_delivered := Some now\<rparr> else r) rows)"

definition recent_by_title :: "int \<Rightarrow> string \<Rightarrow> int \<Rightarrow> note_row list \<Rightarrow> bool" where
  "recent_by_title now title since rows =
     list_ex (\<lambda>r. note_title r = title \<and> now - since \<le> note_created r) rows"

subsection \<open>Tiers\<close>

definition reaches_phone :: "tier \<Rightarrow> bool" where
  "reaches_phone t \<longleftrightarrow> t = NeedsAttention"

definition level_of :: "tier \<Rightarrow> notice_level" where
  "level_of t = (if t = NeedsAttention then Warn else Info)"

definition tier_order :: "tier list" where
  "tier_order = [NeedsAttention, WorthKnowing, Routine]"

fun tier_index :: "tier \<Rightarrow> nat" where
  "tier_index NeedsAttention = 0"
| "tier_index WorthKnowing = 1"
| "tier_index Routine = 2"

definition demote_tier :: "tier \<Rightarrow> int \<Rightarrow> tier" where
  "demote_tier t steps =
     (if steps \<le> 0 then t else tier_order ! min (length tier_order - 1) (tier_index t + nat steps))"

definition max_demote :: int where "max_demote = 2"

definition demote_key :: "string \<Rightarrow> string" where
  "demote_key source = ''notify.demote.'' @ source"

text \<open>\<open>Number(getSetting(key) ?? 0) || 0\<close> of an integer numeral; any other text is NaN, so 0.\<close>

definition js_integer :: "string \<Rightarrow> int" where
  "js_integer s =
     (let t = trim s in
      case t of [] \<Rightarrow> 0
      | c # cs \<Rightarrow>
          if c = CHR ''-'' then (if cs \<noteq> [] \<and> list_all is_digit cs then - int (read_nat cs) else 0)
          else if list_all is_digit t then int (read_nat t) else 0)"

definition demote_offset :: "bus \<Rightarrow> string \<Rightarrow> int" where
  "demote_offset b source = (case settings b (demote_key source) of None \<Rightarrow> 0 | Some s \<Rightarrow> js_integer s)"

definition notice_for :: "tier \<Rightarrow> string \<Rightarrow> string \<Rightarrow> string \<Rightarrow> notice" where
  "notice_for t title body source =
     \<lparr>notice_level = level_of t, notice_text = (if body = [] then title else title @ [NL] @ body),
      notice_source = Some source\<rparr>"

definition set_setting :: "string \<Rightarrow> string \<Rightarrow> bus \<Rightarrow> bus" where
  "set_setting k v b = b\<lparr>settings := (settings b)(k := Some v)\<rparr>"

definition apply_notice_feedback :: "string \<Rightarrow> feedback \<Rightarrow> bus \<Rightarrow> (string \<times> int) option \<times> bus" where
  "apply_notice_feedback source action b =
     (if \<not> configured b then (None, b)
      else let next = (if action = Quiet then min max_demote (demote_offset b source + 1) else 0)
           in (Some (source, next), set_setting (demote_key source) (show_int next) b))"

subsection \<open>The bus\<close>

definition phone_dedup_ms :: int where "phone_dedup_ms = 12 * 60 * 60000"

text \<open>
  \<open>{ ...input, tier, title, body }\<close>: the learned tier and the redacted texts.
\<close>

definition prepared :: "bus \<Rightarrow> notification \<Rightarrow> notification" where
  "prepared b input = input\<lparr>n_tier := demote_tier (n_tier input) (demote_offset b (n_source input)),
     n_title := redact_secrets_in_text (n_title input), n_body := redact_secrets_in_text (n_body input)\<rparr>"

definition notify :: "int \<Rightarrow> string \<Rightarrow> notification \<Rightarrow> bus \<Rightarrow> bus" where
  "notify now uuid input b =
     (if \<not> configured b then b
      else
        let n = prepared b input;
            phone = (reaches_phone (n_tier n) \<and> \<not> recent_by_title now (n_title n) phone_dedup_ms (note_table b));
            shown = (n_tier n \<noteq> Routine);
            b1 = (if shown then b\<lparr>notices := notices b @
                    replicate (clients b) (notice_for (n_tier n) (n_title n) (n_body n) (n_source n))\<rparr> else b);
            delivered = (if shown \<and> 0 < clients b then Some now else None);
            b2 = b1\<lparr>note_table := insert_notification
                    \<lparr>note_id = uuid, note_tier = n_tier n, note_title = n_title n, note_body = n_body n,
                     note_source = n_source n, note_created = n_at n, tui_delivered = delivered\<rparr> (note_table b1)\<rparr>
        in if phone then b2\<lparr>posted := posted b2 @ send_all b2 n\<rparr> else b2)"

definition row_notice :: "note_row \<Rightarrow> notice" where
  "row_notice r = notice_for (note_tier r) (note_title r) (note_body r) (note_source r)"

text \<open>What a new connection is sent, and the bus after it.\<close>

definition replay_undelivered :: "int \<Rightarrow> bus \<Rightarrow> notice list \<times> bus" where
  "replay_undelivered now b =
     (if \<not> configured b then ([], b)
      else let pending = list_undelivered (note_table b)
           in (map row_notice pending, b\<lparr>note_table := mark_delivered now (map note_id pending) (note_table b)\<rparr>))"

definition channel_status :: "bus \<Rightarrow> (string \<times> bool) list" where
  "channel_status b = (if \<not> configured b then []
     else [(''ntfy'', ntfy_available b), (''gotify'', gotify_available b)])"

definition notification_channel_lines :: "bus \<Rightarrow> string list" where
  "notification_channel_lines b =
     (if channel_status b = [] then []
      else [''Notification channels (needs_attention reaches these): '' @
            join '', '' (map (\<lambda>(nm, ok). nm @ '' ('' @ (if ok then ''configured'' else ''not configured'') @ '')'')
              (channel_status b))])"

datatype channel = Ntfy | Gotify

fun channel_text :: "channel \<Rightarrow> string" where
  "channel_text Ntfy = ''ntfy''" | "channel_text Gotify = ''gotify''"

definition test_note :: "int \<Rightarrow> channel \<Rightarrow> notification" where
  "test_note now c = \<lparr>n_tier = NeedsAttention, n_title = ''Miro notifications connected'',
     n_body = ''This '' @ channel_text c @ '' channel is now set up.'', n_source = ''configure'', n_at = now\<rparr>"

text \<open>
  \<open>testAndConfigure\<close>: \<open>accepts\<close> says whether the push service takes a request.
\<close>

definition test_and_configure ::
    "(string \<Rightarrow> http_request \<Rightarrow> bool) \<Rightarrow> int \<Rightarrow> channel \<Rightarrow> string \<Rightarrow> string option \<Rightarrow> bus \<Rightarrow> (string + unit) \<times> bus" where
  "test_and_configure accepts now c url topic b =
     (if \<not> configured b then (Inl ''notifications not configured'', b)
      else case c of
        Ntfy \<Rightarrow>
          (if \<not> truthy topic then (Inl ''ntfy needs a topic'', b)
           else let t = the topic; req = build_ntfy_request (test_note now Ntfy) url t;
                    b1 = b\<lparr>posted := posted b @ [(''ntfy'', req)]\<rparr>
                in if \<not> accepts ''ntfy'' req then (Inl ''the ntfy server did not accept a test notification'', b1)
                   else (Inr (), set_setting ''notify.ntfy.topic'' t (set_setting ''notify.ntfy.url'' url b1)))
      | Gotify \<Rightarrow>
          (if \<not> truthy (gotify_token b)
           then (Inl ''no Gotify app token on file - store one first (notify.gotify.token)'', b)
           else let req = build_gotify_request (test_note now Gotify) url (the (gotify_token b));
                    b1 = b\<lparr>posted := posted b @ [(''gotify'', req)]\<rparr>
                in if \<not> accepts ''gotify'' req then (Inl ''the Gotify server did not accept a test notification'', b1)
                   else (Inr (), set_setting ''notify.gotify.url'' url b1)))"

subsection \<open>Lemmas\<close>

lemma set_list_undelivered [simp]: "set (list_undelivered rows) = {r \<in> set rows. undelivered r}"
  by (auto simp: list_undelivered_def)

lemma mark_delivered_undelivered:
  "r \<in> set (mark_delivered now (map note_id (list_undelivered rows)) rows) \<Longrightarrow> \<not> undelivered r"
proof -
  assume r: "r \<in> set (mark_delivered now (map note_id (list_undelivered rows)) rows)"
  show ?thesis
  proof (cases "list_undelivered rows = []")
    case True
    then have "{r \<in> set rows. undelivered r} = {}" using set_list_undelivered [of rows] by simp
    with r True show ?thesis by (auto simp: mark_delivered_def)
  next
    case False
    with r show ?thesis by (auto simp: mark_delivered_def undelivered_def split: if_splits)
  qed
qed

lemma is_digit_not_space: "is_digit c \<Longrightarrow> \<not> is_space c"
  by (auto simp: is_digit_def is_space_def less_eq_char_def)

lemma js_integer_show_int: "0 \<le> i \<Longrightarrow> js_integer (show_int i) = i"
proof -
  assume i: "0 \<le> i"
  let ?s = "show_nat (nat i)"
  have dig: "list_all is_digit ?s" by (auto simp: list_all_iff intro: show_nat_digits)
  then have trim: "trim ?s = ?s" by (intro trim_id) (auto simp: list_all_iff is_digit_not_space)
  obtain c cs where s: "?s = c # cs" by (cases "?s") auto
  with dig have "c \<noteq> CHR ''-''" by (auto simp: is_digit_def less_eq_char_def)
  with dig s trim have "js_integer ?s = int (read_nat ?s)" by (simp add: js_integer_def)
  with i show ?thesis by (simp add: show_int_def)
qed

lemma demote_key_inj [simp]: "demote_key a = demote_key b \<longleftrightarrow> a = b"
  by (simp add: demote_key_def)

end
