(* ===== verification/JsonRound.thy ===== *)
theory JsonRound
  imports Json "HOL-Library.Multiset"
begin

text \<open>
  \<open>JSON.parse\<close> reads back what \<open>JSON.stringify\<close> wrote, so the written text determines the
  value; \<open>stableStringify\<close> is \<open>JSON.stringify\<close> of a canonical form, so it determines the
  value up to the order of the fields.
\<close>

subsection \<open>Strings\<close>

lemma hex_digit_value: "d < 16 \<Longrightarrow> hex_value (hex_digit d) = Some d"
proof -
  assume "d < 16"
  moreover have "list_all (\<lambda>d. hex_value (hex_digit d) = Some d) [0..<16]" by code_simp
  ultimately show ?thesis by (auto simp: list_all_iff)
qed

lemma escape_char_control:
  assumes "(of_char c :: nat) < 32"
  shows "parse_string (BS # CHR ''u'' # CHR ''0'' # CHR ''0'' # hex_digit (of_char c div 16)
           # hex_digit (of_char c mod 16) # t) = map_option (\<lambda>(s, r). (c # s, r)) (parse_string t)"
proof -
  have "of_char c div 16 < (16 :: nat)" "of_char c mod 16 < (16 :: nat)" using assms by auto
  moreover have "char_of (16 * (of_char c div 16) + of_char c mod 16 :: nat) = c" by simp
  moreover have "hex_value (CHR ''0'') = Some 0" by code_simp
  ultimately show ?thesis by (simp add: hex_digit_value)
qed

lemma parse_string_escape:
  "parse_string (escape_char c @ t) = map_option (\<lambda>(s, r). (c # s, r)) (parse_string t)"
proof (cases "c = DQ \<or> c = BS \<or> c = CHR 0x08 \<or> c = CHR 0x0C \<or> c = NL \<or> c = CR \<or> c = TAB")
  case True
  then show ?thesis by (elim disjE) (simp_all add: escape_char_def)
next
  case False
  show ?thesis
  proof (cases "(of_char c :: nat) < 32")
    case True
    with False have "escape_char c = [BS, CHR ''u'', CHR ''0'', CHR ''0'', hex_digit (of_char c div 16),
        hex_digit (of_char c mod 16)]" by (simp add: escape_char_def)
    with escape_char_control [OF True] show ?thesis by (simp only: append_Cons append_Nil)
  next
    case small: False
    with False show ?thesis by (simp add: escape_char_def)
  qed
qed

lemma parse_string_json_string [simp]:
  "parse_string (concat (map escape_char s) @ DQ # r) = Some (s, r)"
  by (induction s) (simp_all add: parse_string_escape del: parse_string.simps(2), simp)

subsection \<open>Numbers\<close>

text \<open>What may follow a value inside a JSON text.\<close>

definition stops :: "string \<Rightarrow> bool" where
  "stops r \<longleftrightarrow> r = [] \<or> hd r \<in> set '',]}''"

lemma stops_simps [simp]: "stops []" "stops (CHR '','' # r)" "stops (CHR '']'' # r)" "stops (CHR ''}'' # r)"
  by (simp_all add: stops_def)

lemma stops_takeWhile:
  assumes "stops r" and "list_all is_digit ds"
  shows "takeWhile is_digit (ds @ r) = ds" and "dropWhile is_digit (ds @ r) = r"
proof -
  have "\<not> is_digit (CHR '','')" "\<not> is_digit (CHR '']'')" "\<not> is_digit (CHR ''}'')"
    by (simp_all add: is_digit_def less_eq_char_def)
  then have "takeWhile is_digit r = [] \<and> dropWhile is_digit r = r"
    using assms(1) by (cases r) (auto simp: stops_def)
  then show "takeWhile is_digit (ds @ r) = ds" and "dropWhile is_digit (ds @ r) = r"
    using assms(2) by (simp_all add: takeWhile_append2 dropWhile_append2 list_all_iff)
qed

lemma show_nat_lead: "length (show_nat n) > 1 \<Longrightarrow> hd (show_nat n) \<noteq> CHR ''0''"
proof (induction n rule: show_nat.induct)
  case (1 n)
  show ?case
  proof (cases "n < 10")
    case True
    with 1 show ?thesis by (simp add: show_nat.simps)
  next
    case False
    then have eq: "show_nat n = show_nat (n div 10) @ [digit_char (n mod 10)]" by (simp add: show_nat.simps)
    show ?thesis
    proof (cases "length (show_nat (n div 10)) > 1")
      case True
      with False 1 eq show ?thesis by (simp add: hd_append)
    next
      case short: False
      then have "n div 10 < 10" by (cases "n div 10 < 10") (auto simp: show_nat.simps [of "n div 10"])
      then have "show_nat (n div 10) = [digit_char (n div 10)]" by (simp add: show_nat.simps)
      moreover have "char_digit (digit_char (n div 10)) \<noteq> char_digit (CHR ''0'')"
        using False \<open>n div 10 < 10\<close> by (simp add: char_digit_digit_char) (simp add: char_digit_def)
      ultimately show ?thesis using eq by auto
    qed
  qed
qed

lemma show_nat_all_digits: "list_all is_digit (show_nat n)"
  by (auto simp: list_all_iff intro: show_nat_digits)

lemma not_digit_dash: "\<not> is_digit (CHR ''-'')"
  by (simp add: is_digit_def less_eq_char_def)

lemma digits_no_dash: "list_all is_digit (c # cs) \<Longrightarrow> c \<noteq> CHR ''-''"
  using not_digit_dash by auto

lemma parse_number_show_int: "stops r \<Longrightarrow> parse_number (show_int i @ r) = Some (JNum i, r)"
proof -
  assume r: "stops r"
  have dot: "(case r of [] \<Rightarrow> None | c # cs \<Rightarrow> if c = CHR ''.'' then Some (takeWhile is_digit cs, dropWhile is_digit cs) else None)
      = None" using r by (cases r) (auto simp: stops_def)
  have lead: "\<not> (show_nat n = [] \<or> length (show_nat n) > 1 \<and> hd (show_nat n) = CHR ''0'')" for n
    using show_nat_lead by auto
  show ?thesis
  proof (cases "i < 0")
    case True
    then show ?thesis using lead [of "nat (- i)"] dot
      by (simp add: parse_number_def show_int_def Let_def stops_takeWhile [OF r show_nat_all_digits])
  next
    case False
    obtain c cs where s: "show_nat (nat i) = c # cs" by (cases "show_nat (nat i)") auto
    with show_nat_all_digits [of "nat i"] have "c \<noteq> CHR ''-''" using digits_no_dash by auto
    with s have "(case show_nat (nat i) @ r of c # cs \<Rightarrow> if c = CHR ''-'' then (True, cs) else (False, show_nat (nat i) @ r)
        | [] \<Rightarrow> (False, show_nat (nat i) @ r)) = (False, show_nat (nat i) @ r)" by simp
    with False show ?thesis using lead [of "nat i"] dot
      by (simp add: parse_number_def show_int_def Let_def stops_takeWhile [OF r show_nat_all_digits])
  qed
qed

text \<open>The text of a numeral with a fraction.\<close>

definition real_numeral :: "string \<Rightarrow> bool" where
  "real_numeral t \<longleftrightarrow>
     (let u = (if t \<noteq> [] \<and> hd t = CHR ''-'' then tl t else t); ds = takeWhile is_digit u
      in ds \<noteq> [] \<and> \<not> (length ds > 1 \<and> hd ds = CHR ''0'') \<and>
         (case dropWhile is_digit u of [] \<Rightarrow> False | c # fs \<Rightarrow> c = CHR ''.'' \<and> fs \<noteq> [] \<and> list_all is_digit fs))"

lemma real_numeralD:
  assumes "real_numeral t"
  shows "\<exists>neg ds fs. t = (if neg then ''-'' else []) @ ds @ ''.'' @ fs \<and>
     ds \<noteq> [] \<and> fs \<noteq> [] \<and> list_all is_digit ds \<and> list_all is_digit fs \<and> \<not> (length ds > 1 \<and> hd ds = CHR ''0'')"
proof -
  define neg where "neg \<longleftrightarrow> t \<noteq> [] \<and> hd t = CHR ''-''"
  define u where "u = (if neg then tl t else t)"
  have t: "t = (if neg then ''-'' else []) @ u" by (cases t) (auto simp: neg_def u_def)
  obtain fs where fs: "dropWhile is_digit u = CHR ''.'' # fs" "fs \<noteq> []" "list_all is_digit fs"
    "takeWhile is_digit u \<noteq> []" "\<not> (length (takeWhile is_digit u) > 1 \<and> hd (takeWhile is_digit u) = CHR ''0'')"
    using assms by (auto simp: real_numeral_def Let_def u_def neg_def split: list.splits if_splits)
  have "u = takeWhile is_digit u @ ''.'' @ fs" using takeWhile_dropWhile_id [of is_digit u] fs(1) by simp
  moreover have "list_all is_digit (takeWhile is_digit u)" by (auto simp: list_all_iff dest: set_takeWhileD)
  ultimately show ?thesis using t fs by blast
qed

lemma parse_number_real: "real_numeral t \<Longrightarrow> stops r \<Longrightarrow> parse_number (t @ r) = Some (JReal t, r)"
proof -
  assume t: "real_numeral t" and r: "stops r"
  from t obtain neg ds fs where t': "t = (if neg then ''-'' else []) @ ds @ ''.'' @ fs" "ds \<noteq> []" "fs \<noteq> []"
    "list_all is_digit ds" "list_all is_digit fs" "\<not> (length ds > 1 \<and> hd ds = CHR ''0'')"
    using real_numeralD [OF t] by blast
  have nd: "\<not> is_digit (CHR ''.'')" by (simp add: is_digit_def less_eq_char_def)
  have tw: "takeWhile is_digit (ds @ CHR ''.'' # fs @ r) = ds" "dropWhile is_digit (ds @ CHR ''.'' # fs @ r) = CHR ''.'' # fs @ r"
    using t'(4) nd by (simp_all add: takeWhile_append2 dropWhile_append2 list_all_iff)
  note fr = stops_takeWhile [OF r t'(5)]
  obtain c cs where d: "ds = c # cs" using t'(2) by (cases ds) auto
  with t'(4) have "c \<noteq> CHR ''-''" using digits_no_dash by auto
  then show ?thesis
    using t' tw fr d by (cases neg) (simp_all add: parse_number_def Let_def)
qed

subsection \<open>Values\<close>

fun plain :: "json \<Rightarrow> bool" where
  "plain JUndef = False"
| "plain (JReal t) = real_numeral t"
| "plain (JArr vs) = list_all plain vs"
| "plain (JObj kvs) = list_all (\<lambda>(k, v). plain v) kvs"
| "plain _ = True"

lemma plain_live: "list_all (\<lambda>(k, v). plain v) kvs \<Longrightarrow> live_fields kvs = kvs"
  by (induction kvs) (auto simp: live_fields_def)

lemma plain_text: "plain v \<Longrightarrow> json_text v = Some (stringify v)"
  by (cases v) (auto simp: stringify_def join_text_def)

lemma stringify_arr: "list_all plain vs \<Longrightarrow> stringify (JArr vs) = ''['' @ join '','' (map stringify vs) @ '']''"
proof -
  assume p: "list_all plain vs"
  then have m: "map (\<lambda>v. case json_text v of None \<Rightarrow> ''null'' | Some t \<Rightarrow> t) vs = map stringify vs"
    by (auto simp: list_all_iff plain_text)
  show ?thesis unfolding stringify_def [of "JArr vs"] json_text.simps m by (simp add: join_text_def)
qed

definition field_text :: "string \<times> json \<Rightarrow> string" where
  "field_text kv = json_string (fst kv) @ '':'' @ stringify (snd kv)"

lemma stringify_obj:
  "list_all (\<lambda>(k, v). plain v) kvs \<Longrightarrow> stringify (JObj kvs) = ''{'' @ join '','' (map field_text kvs) @ ''}''"
proof -
  assume p: "list_all (\<lambda>(k, v). plain v) kvs"
  then have m: "map (\<lambda>(k, v). json_string k @ '':'' @ join_text (json_text v)) kvs = map field_text kvs"
    by (auto simp: field_text_def stringify_def)
  show ?thesis unfolding stringify_def [of "JObj kvs"] json_text.simps plain_live [OF p] m by (simp add: join_text_def)
qed

definition value_head :: "string \<Rightarrow> bool" where
  "value_head t \<longleftrightarrow> t \<noteq> [] \<and> (hd t \<in> set ''nt[{-'' \<or> hd t = CHR ''f'' \<or> hd t = DQ \<or> is_digit (hd t))"

lemma value_head_stringify: "plain v \<Longrightarrow> value_head (stringify v)"
proof (cases v)
  case (JNum i)
  then show ?thesis using show_nat_all_digits [of "nat i"]
    by (cases "show_nat (nat i)") (auto simp: value_head_def stringify_def join_text_def show_int_def)
next
  case (JReal t)
  assume "plain v"
  with JReal have r: "real_numeral t" by simp
  obtain neg ds fs where "t = (if neg then ''-'' else []) @ ds @ ''.'' @ fs" "ds \<noteq> []" "list_all is_digit ds"
    using real_numeralD [OF r] by blast
  with JReal show ?thesis by (cases ds) (auto simp: value_head_def stringify_def join_text_def)
qed (auto simp: value_head_def stringify_def join_text_def json_string_def)

lemma digit_no_space: "is_digit c \<Longrightarrow> \<not> json_space c"
  by (auto simp: is_digit_def json_space_def less_eq_char_def)

lemma head_no_space: "c \<in> set ''nt[{-f'' \<or> c = DQ \<Longrightarrow> \<not> json_space c \<and> c \<noteq> CHR '']'' \<and> c \<noteq> CHR ''}''"
  by (auto simp: json_space_def)

lemma value_head_facts:
  assumes "value_head t"
  shows "skip_ws (t @ r) = t @ r" and "\<exists>c t'. t = c # t' \<and> c \<noteq> CHR '']'' \<and> c \<noteq> CHR ''}''"
proof -
  have nd: "\<not> is_digit (CHR '']'')" "\<not> is_digit (CHR ''}'')" by (simp_all add: is_digit_def less_eq_char_def)
  obtain c t' where ct: "t = c # t'" using assms by (cases t) (auto simp: value_head_def)
  with assms have "is_digit c \<or> c \<in> set ''nt[{-f'' \<or> c = DQ" by (auto simp: value_head_def)
  then have "\<not> json_space c \<and> c \<noteq> CHR '']'' \<and> c \<noteq> CHR ''}''"
    using nd digit_no_space [of c] head_no_space [of c] by metis
  with ct have t: "t = c # t'" "\<not> json_space c" "c \<noteq> CHR '']''" "c \<noteq> CHR ''}''" by auto
  then show "skip_ws (t @ r) = t @ r" and "\<exists>c t'. t = c # t' \<and> c \<noteq> CHR '']'' \<and> c \<noteq> CHR ''}''"
    by (auto simp: skip_ws_def)
qed

lemma parse_elems_join:
  assumes "vs \<noteq> []" and "\<And>v r. v \<in> set vs \<Longrightarrow> stops r \<Longrightarrow> parse_value (stringify v @ r) = Some (v, r)"
  shows "parse_elems (join '','' (map stringify vs) @ CHR '']'' # r) = Some (vs, r)"
  using assms
proof (induction vs rule: list_nonempty_induct)
  case (single v)
  then show ?case by (simp add: skip_ws_def json_space_def)
next
  case (cons v vs)
  then have "join '','' (map stringify (v # vs)) = stringify v @ CHR '','' # join '','' (map stringify vs)"
    by (simp add: join_Cons)
  with cons show ?case by (simp add: skip_ws_def json_space_def)
qed

lemma parse_fields_join:
  assumes "kvs \<noteq> []" and "\<And>kv r. kv \<in> set kvs \<Longrightarrow> stops r \<Longrightarrow> parse_value (stringify (snd kv) @ r) = Some (snd kv, r)"
  shows "parse_fields (join '','' (map field_text kvs) @ CHR ''}'' # r) = Some (kvs, r)"
  using assms
proof (induction kvs rule: list_nonempty_induct)
  case (single kv)
  then show ?case
    by (subst parse_fields.simps) (simp add: field_text_def json_string_def skip_ws_def json_space_def del: parse_fields.simps)
next
  case (cons kv kvs)
  then have j: "join '','' (map field_text (kv # kvs)) = field_text kv @ CHR '','' # join '','' (map field_text kvs)"
    by (simp add: join_Cons)
  show ?case
    by (subst parse_fields.simps)
      (use cons j in \<open>simp add: field_text_def [of kv] json_string_def skip_ws_def json_space_def del: parse_fields.simps\<close>)
qed

lemma parse_value_digit:
  assumes "is_digit c \<or> c = CHR ''-''"
  shows "parse_value (c # cs) = parse_number (c # cs)"
proof -
  have "c \<noteq> DQ" "c \<noteq> CHR ''[''" "c \<noteq> CHR ''{''" "c \<noteq> CHR ''t''" "c \<noteq> CHR ''f''" "c \<noteq> CHR ''n''" "\<not> json_space c"
    using assms by (auto simp: is_digit_def less_eq_char_def json_space_def)
  then show ?thesis by simp
qed

theorem parse_value_stringify: "plain v \<Longrightarrow> stops r \<Longrightarrow> parse_value (stringify v @ r) = Some (v, r)"
proof (induction v arbitrary: r)
  case (JNum i)
  obtain c cs where s: "show_int i = c # cs" "is_digit c \<or> c = CHR ''-''"
  proof (cases "i < 0")
    case True
    then show ?thesis using that by (simp add: show_int_def)
  next
    case False
    then show ?thesis using that show_nat_all_digits [of "nat i"]
      by (cases "show_nat (nat i)") (simp_all add: show_int_def)
  qed
  with parse_number_show_int [OF JNum(2), of i] show ?case
    by (simp add: stringify_def join_text_def parse_value_digit del: parse_value.simps(2))
next
  case (JReal t)
  then have "value_head t" using value_head_stringify [of "JReal t"] by (simp add: stringify_def join_text_def)
  moreover have rn: "real_numeral t" using JReal by simp
  moreover obtain neg ds fs where "t = (if neg then ''-'' else []) @ ds @ ''.'' @ fs" "ds \<noteq> []" "list_all is_digit ds"
    using real_numeralD [OF rn] by blast
  ultimately obtain c cs where s: "t = c # cs" "is_digit c \<or> c = CHR ''-''" by (cases ds) (auto split: if_splits)
  with parse_number_real [of t r] JReal show ?case
    by (simp add: stringify_def join_text_def parse_value_digit del: parse_value.simps(2))
next
  case (JStr s)
  then show ?case by (simp add: stringify_def join_text_def json_string_def json_space_def)
next
  case (JArr vs)
  show ?case
  proof (cases vs)
    case Nil
    then show ?thesis by (simp add: stringify_def join_text_def skip_ws_def json_space_def)
  next
    case (Cons v ws)
    then have "value_head (stringify v)" using JArr by (simp add: value_head_stringify)
    from value_head_facts [OF this] obtain c t where h: "stringify v = c # t" "c \<noteq> CHR '']''"
      "\<And>r. skip_ws (c # t @ r) = c # t @ r" by auto
    have j: "\<exists>u. join '','' (map stringify vs) = c # t @ u" using h Cons by (cases ws) auto
    have "parse_elems (join '','' (map stringify vs) @ CHR '']'' # r) = Some (vs, r)"
      using Cons JArr by (intro parse_elems_join) (auto simp: list_all_iff)
    moreover obtain u where u: "join '','' (map stringify vs) = c # t @ u" using j by blast
    ultimately have f: "parse_elems (c # t @ u @ CHR '']'' # r) = Some (vs, r)" by simp
    have "list_all plain vs" using JArr.prems by simp
    from stringify_arr [OF this] u have "stringify (JArr vs) @ r = CHR ''['' # c # t @ u @ CHR '']'' # r" by simp
    with f h show ?thesis by (simp add: json_space_def del: parse_elems.simps)
  qed
next
  case (JObj kvs)
  show ?case
  proof (cases kvs)
    case Nil
    then show ?thesis by (simp add: stringify_def join_text_def live_fields_def skip_ws_def json_space_def)
  next
    case (Cons kv ks)
    have j: "\<exists>u. join '','' (map field_text kvs) = DQ # u" using Cons by (cases ks) (auto simp: field_text_def json_string_def)
    have "parse_fields (join '','' (map field_text kvs) @ CHR ''}'' # r) = Some (kvs, r)"
      using Cons JObj by (intro parse_fields_join) (force simp: list_all_iff)+
    moreover obtain u where u: "join '','' (map field_text kvs) = DQ # u" using j by blast
    ultimately have f: "parse_fields (DQ # u @ CHR ''}'' # r) = Some (kvs, r)" by simp
    have "list_all (\<lambda>(k, v). plain v) kvs" using JObj.prems by simp
    from stringify_obj [OF this] u have "stringify (JObj kvs) @ r = CHR ''{'' # DQ # u @ CHR ''}'' # r" by simp
    with f show ?thesis by (simp add: json_space_def skip_ws_def del: parse_fields.simps)
  qed
qed (auto simp: stringify_def join_text_def json_space_def)

subsection \<open>Whole texts\<close>

text \<open>Every object of the value has each key once, as a JavaScript object has.\<close>

fun well_keyed :: "json \<Rightarrow> bool" where
  "well_keyed (JArr vs) = list_all well_keyed vs"
| "well_keyed (JObj kvs) = (distinct (map fst kvs) \<and> list_all (\<lambda>(k, v). well_keyed v) kvs)"
| "well_keyed v = True"

lemma AList_update_new: "k \<notin> fst ` set m \<Longrightarrow> AList.update k v m = m @ [(k, v)]"
  by (induction m) auto

lemma foldl_update_distinct:
  "distinct (map fst (m @ kvs)) \<Longrightarrow> foldl (\<lambda>m (k, v). AList.update k v m) m kvs = m @ kvs"
proof (induction kvs arbitrary: m)
  case (Cons kv kvs)
  obtain k v where kv: "kv = (k, v)" by (cases kv)
  have "AList.update k v m = m @ [(k, v)]" using Cons.prems kv by (intro AList_update_new) auto
  moreover have "foldl (\<lambda>m (k, v). AList.update k v m) (m @ [(k, v)]) kvs = (m @ [(k, v)]) @ kvs"
    using Cons.prems kv by (intro Cons.IH) simp
  ultimately show ?case using kv by simp
qed simp

lemma js_object_id: "well_keyed v \<Longrightarrow> js_object v = v"
proof (induction v)
  case (JArr vs)
  then show ?case by (auto simp: list_all_iff intro: map_idI)
next
  case (JObj kvs)
  have "map (\<lambda>(k, v). (k, js_object v)) kvs = kvs"
    using JObj by (intro map_idI) (force simp: list_all_iff)
  with JObj.prems show ?case by (simp add: foldl_update_distinct)
qed auto

lemma json_parse_stringify: "plain v \<Longrightarrow> well_keyed v \<Longrightarrow> json_parse (stringify v) = Some v"
  using parse_value_stringify [of v "[]"] by (simp add: json_parse_def js_object_id skip_ws_def)

subsection \<open>The canonical form\<close>

fun canon :: "json \<Rightarrow> json" where
  "canon (JArr vs) = JArr (map canon vs)"
| "canon (JObj kvs) = JObj (map (\<lambda>(k, v). (k, canon v)) (sort_fields (live_fields kvs)))"
| "canon v = v"

text \<open>No \<open>undefined\<close> as a value or an array element (a field may hold one).\<close>

fun settled :: "json \<Rightarrow> bool" where
  "settled JUndef = False"
| "settled (JReal t) = real_numeral t"
| "settled (JArr vs) = list_all settled vs"
| "settled (JObj kvs) = list_all (\<lambda>(k, v). settled v) (live_fields kvs)"
| "settled _ = True"

lemma set_live_fields: "kv \<in> set (live_fields kvs) \<Longrightarrow> kv \<in> set kvs"
  by (simp add: live_fields_def)

lemma plain_canon: "settled v \<Longrightarrow> plain (canon v)"
proof (induction v)
  case (JArr vs)
  then show ?case by (auto simp: list_all_iff)
next
  case (JObj kvs)
  then show ?case by (fastforce simp: list_all_iff dest: set_live_fields)
qed auto

lemma stable_stringify_canon: "settled v \<Longrightarrow> stable_stringify v = Some (stringify (canon v))"
proof (induction v)
  case (JArr vs)
  then have m: "map (\<lambda>v. join_text (stable_stringify v)) vs = map (\<lambda>v. stringify (canon v)) vs"
    by (auto simp: list_all_iff join_text_def)
  have "list_all plain (map canon vs)" using plain_canon [OF JArr.prems] by simp
  from stringify_arr [OF this] have "stringify (canon (JArr vs)) = ''['' @ join '','' (map (\<lambda>v. stringify (canon v)) vs) @ '']''"
    by (simp add: comp_def)
  then show ?case unfolding stable_stringify.simps m by simp
next
  case (JObj kvs)
  let ?fs = "sort_fields (live_fields kvs)"
  have m: "map (\<lambda>(k, v). json_string k @ '':'' @ template_text (stable_stringify v)) ?fs
      = map field_text (map (\<lambda>(k, v). (k, canon v)) ?fs)"
    using JObj by (fastforce simp: list_all_iff template_text_def field_text_def dest: set_live_fields)
  have p: "list_all (\<lambda>(k, v). plain v) (map (\<lambda>(k, v). (k, canon v)) ?fs)" using plain_canon [OF JObj.prems] by simp
  show ?case unfolding canon.simps stringify_obj [OF p] stable_stringify.simps m by simp
qed (auto simp: stringify_def join_text_def)

theorem stable_stringify_inj:
  "settled v \<Longrightarrow> settled w \<Longrightarrow> stable_stringify v = stable_stringify w \<longleftrightarrow> canon v = canon w"
proof -
  assume v: "settled v" and w: "settled w"
  have "canon v = canon w" if "stringify (canon v) = stringify (canon w)"
    using parse_value_stringify [OF plain_canon [OF v], of "[]"] parse_value_stringify [OF plain_canon [OF w], of "[]"] that by simp
  with v w show ?thesis by (auto simp: stable_stringify_canon)
qed

lemma canon_perm:
  assumes "distinct (map fst kvs)" and "set kvs = set kvs'" and "distinct (map fst kvs')"
  shows "canon (JObj kvs) = canon (JObj kvs')"
proof -
  have d: "distinct (map fst (live_fields kvs))" "distinct (map fst (live_fields kvs'))"
    using assms by (auto simp: live_fields_def distinct_map intro: inj_on_subset)
  have "set (live_fields kvs) = set (live_fields kvs')" using assms by (simp add: live_fields_def)
  then have m: "mset (live_fields kvs) = mset (live_fields kvs')"
    using d by (simp add: set_eq_iff_mset_eq_distinct distinct_map)
  have "inj_on fst (set (live_fields kvs))" using d by (simp add: distinct_map)
  then have "sort_key fst (live_fields kvs) = sort_key fst (live_fields kvs')"
    using m by (intro sort_key_inj_key_eq) auto
  then show ?thesis by (simp add: sort_fields_def)
qed

subsection \<open>One line\<close>

text \<open>A written value has no newline, so it can be framed by one.\<close>

lemma escape_no_newline: "NL \<notin> set (escape_char c)"
proof -
  have "(of_char c :: nat) < 32 \<Longrightarrow> hex_digit (of_char c div 16) \<noteq> NL \<and> hex_digit (of_char c mod 16) \<noteq> NL"
  proof -
    have "list_all (\<lambda>d. hex_digit d \<noteq> NL) [0..<16]" by code_simp
    then have "d < 16 \<Longrightarrow> hex_digit d \<noteq> NL" for d by (auto simp: list_all_iff)
    then show "(of_char c :: nat) < 32 \<Longrightarrow> hex_digit (of_char c div 16) \<noteq> NL \<and> hex_digit (of_char c mod 16) \<noteq> NL" by simp
  qed
  then show ?thesis by (auto simp: escape_char_def)
qed

lemma json_string_no_newline: "NL \<notin> set (json_string s)"
  by (auto simp: json_string_def escape_no_newline)

lemma digits_no_newline: "list_all is_digit ds \<Longrightarrow> NL \<notin> set ds"
  by (auto simp: list_all_iff is_digit_def less_eq_char_def)

lemma join_no_newline: "(\<And>w. w \<in> set ws \<Longrightarrow> NL \<notin> set w) \<Longrightarrow> NL \<notin> set (join '','' ws)"
  by (induction "'',''" ws rule: join.induct) auto

lemma stringify_no_newline: "plain v \<Longrightarrow> NL \<notin> set (stringify v)"
proof (induction v)
  case (JNum i)
  then show ?case using digits_no_newline [OF show_nat_all_digits, of "nat i"] digits_no_newline [OF show_nat_all_digits, of "nat (- i)"]
    by (simp add: stringify_def join_text_def show_int_def)
next
  case (JReal t)
  then have r: "real_numeral t" by simp
  obtain neg ds fs where "t = (if neg then ''-'' else []) @ ds @ ''.'' @ fs" "list_all is_digit ds" "list_all is_digit fs"
    using real_numeralD [OF r] by blast
  then show ?case by (auto simp: stringify_def join_text_def digits_no_newline)
next
  case (JStr s)
  then show ?case by (simp add: stringify_def join_text_def json_string_no_newline)
next
  case (JArr vs)
  then have "NL \<notin> set (join '','' (map stringify vs))" by (intro join_no_newline) (auto simp: list_all_iff)
  with JArr show ?case by (simp add: stringify_arr)
next
  case (JObj kvs)
  then have "NL \<notin> set (join '','' (map field_text kvs))"
    by (intro join_no_newline) (fastforce simp: list_all_iff field_text_def json_string_no_newline)
  with JObj show ?case by (simp add: stringify_obj)
qed (auto simp: stringify_def join_text_def)

lemma split_lines:
  "\<forall>l \<in> set ls. NL \<notin> set l \<Longrightarrow> split_on NL (concat (map (\<lambda>l. l @ [NL]) ls)) = ls @ [[]]"
  by (induction ls) (auto simp: split_on_append_sep split_on_no_sep)

lemma stringify_nonempty: "plain v \<Longrightarrow> stringify v \<noteq> []"
  using value_head_stringify [of v] by (auto simp: value_head_def)

end
