(* ===== verification/TurnGuard.thy ===== *)
theory TurnGuard
  imports Complex_Main JsonRound
begin

text \<open>
  The undo-then-retry ledger (\<open>apps/mirod/src/operations/retry-ledger.ts\<close>) and the guard of
  one agent turn (\<open>apps/mirod/src/agent/turn-guard.ts\<close>): a plan that failed is refused for
  the rest of the turn, the number of distinct failed plans is capped, the N-th identical tool
  call is blocked, and a turn that attempted operations and committed none is told so once.
  SHA-256 is the parameter \<open>sha\<close>.
\<close>

subsection \<open>The retry ledger\<close>

definition plan_text :: "string \<Rightarrow> json \<Rightarrow> string" where
  "plan_text kind params = kind @ [NL] @ template_text (stable_stringify params)"

definition plan_hash :: "(string \<Rightarrow> string) \<Rightarrow> string \<Rightarrow> json \<Rightarrow> string" where
  "plan_hash sha kind params = sha (plan_text kind params)"

text \<open>The \<open>Map\<close> of failed plans, oldest first: hash, kind and message.\<close>

type_synonym ledger = "(string \<times> string \<times> string) list"

definition enumerated :: "string list \<Rightarrow> string list" where
  "enumerated ls = map (\<lambda>i. show_nat (i + 1) @ ''. '' @ ls ! i) [0..<length ls]"

definition refused_same :: "string \<Rightarrow> string" where
  "refused_same message = ''Refused - this exact plan already failed this turn ('' @ message @
     ''). Retrying it from the restored state will fail the same way: change the plan (different command, parameters or approach), or report what is blocking you.''"

definition refused_cap :: "ledger \<Rightarrow> string" where
  "refused_cap failed = ''Refused - '' @ show_nat (length failed) @
     '' different plans have failed this turn, which is the limit. Stop retrying and tell the user exactly what was tried and what you need from them:''
     @ [NL] @ join [NL] (enumerated (map (\<lambda>(h, k, m). k @ '': '' @ m) failed))"

definition ledger_check :: "(string \<Rightarrow> string) \<Rightarrow> nat \<Rightarrow> ledger \<Rightarrow> string \<Rightarrow> json \<Rightarrow> string option" where
  "ledger_check sha maxFailures failed kind params =
     (case map_of failed (plan_hash sha kind params) of
        Some (k, message) \<Rightarrow> Some (refused_same message)
      | None \<Rightarrow> if length failed \<ge> maxFailures then Some (refused_cap failed) else None)"

definition ledger_record :: "(string \<Rightarrow> string) \<Rightarrow> ledger \<Rightarrow> string \<Rightarrow> json \<Rightarrow> string \<Rightarrow> ledger" where
  "ledger_record sha failed kind params message = AList.update (plan_hash sha kind params) (kind, message) failed"

definition ledger_reset :: "ledger \<Rightarrow> ledger" where
  "ledger_reset failed = []"

lemma check_recorded [js_simps]:
  "ledger_check sha n (ledger_record sha f k p m) k p = Some (refused_same m)"
  by (simp add: ledger_check_def ledger_record_def update_conv')

lemma check_kept:
  "\<exists>t. map_of f (plan_hash sha k p) = Some t \<Longrightarrow> ledger_check sha n (ledger_record sha f k' p' m) k p \<noteq> None"
  by (auto simp: ledger_check_def ledger_record_def update_conv' split: option.splits)

lemma record_distinct: "distinct (map fst f) \<Longrightarrow> distinct (map fst (ledger_record sha f k p m))"
  by (simp add: ledger_record_def distinct_update)

lemma record_keys: "fst ` set (ledger_record sha f k p m) = insert (plan_hash sha k p) (fst ` set f)"
  by (simp add: ledger_record_def dom_update)

lemma length_record: "length f \<le> length (ledger_record sha f k p m)"
  by (simp add: ledger_record_def) (induction f; auto)

lemma takeWhile_line: "NL \<notin> set k \<Longrightarrow> takeWhile (\<lambda>c. c \<noteq> NL) (k @ NL # r) = k"
  by (induction k) auto

lemma plan_text_inj:
  assumes "NL \<notin> set k" and "NL \<notin> set k'" and "settled p" and "settled p'"
  shows "plan_text k p = plan_text k' p' \<longleftrightarrow> k = k' \<and> canon p = canon p'"
proof
  assume eq: "plan_text k p = plan_text k' p'"
  have "takeWhile (\<lambda>c. c \<noteq> NL) (plan_text k p) = k" "takeWhile (\<lambda>c. c \<noteq> NL) (plan_text k' p') = k'"
    using assms by (auto simp: plan_text_def takeWhile_line)
  with eq have k: "k = k'" by simp
  with eq have "template_text (stable_stringify p) = template_text (stable_stringify p')" by (simp add: plan_text_def)
  then have "stable_stringify p = stable_stringify p'"
    using assms by (simp add: template_text_def stable_stringify_canon)
  with k assms show "k = k' \<and> canon p = canon p'" by (simp add: stable_stringify_inj)
next
  assume "k = k' \<and> canon p = canon p'"
  with assms show "plan_text k p = plan_text k' p'" by (simp add: plan_text_def stable_stringify_canon)
qed

subsection \<open>The turn guard\<close>

datatype model_tier = Strong | Weak

record model =
  provider :: string
  cost_input :: rat
  cost_output :: rat

definition modelTier :: "model \<Rightarrow> model_tier" where
  "modelTier m = (if provider m = ''ollama'' \<or> cost_input m + cost_output m = 0 then Weak else Strong)"

record turn_guard_limits =
  identicalCalls :: nat
  failedOperations :: nat

definition limitsFor :: "model_tier \<Rightarrow> turn_guard_limits" where
  "limitsFor t = (case t of Weak \<Rightarrow> \<lparr>identicalCalls = 2, failedOperations = 2\<rparr>
                          | Strong \<Rightarrow> \<lparr>identicalCalls = 3, failedOperations = 5\<rparr>)"

record turn_guard =
  retries :: ledger
  calls :: "(string \<times> nat) list"
  attempted :: nat
  committed :: nat
  fired :: bool
  failures :: "string list"

definition createTurnGuard :: turn_guard where
  "createTurnGuard = \<lparr>retries = [], calls = [], attempted = 0, committed = 0, fired = False, failures = []\<rparr>"

definition guard_reset :: "turn_guard \<Rightarrow> turn_guard" where
  "guard_reset g = g\<lparr>calls := [], attempted := 0, committed := 0, fired := False, failures := [],
     retries := ledger_reset (retries g)\<rparr>"

definition blocked_text :: "string \<Rightarrow> nat \<Rightarrow> string" where
  "blocked_text tool n = ''Blocked: you have already called '' @ tool @ '' with these exact arguments '' @ show_nat (n - 1) @
     '' time(s) this turn; calling it again will not change the result. Change the approach, or report what is blocking you.''"

definition call_count :: "(string \<times> nat) list \<Rightarrow> string \<Rightarrow> nat" where
  "call_count cs key = (case map_of cs key of None \<Rightarrow> 0 | Some n \<Rightarrow> n)"

text \<open>\<open>None\<close> lets the call run.\<close>

definition beforeToolCall ::
  "(string \<Rightarrow> string) \<Rightarrow> turn_guard_limits \<Rightarrow> turn_guard \<Rightarrow> string \<Rightarrow> json \<Rightarrow> string option \<times> turn_guard" where
  "beforeToolCall sha limits g tool args =
     (let key = plan_hash sha tool args; n = call_count (calls g) key + 1;
          g' = g\<lparr>calls := AList.update key n (calls g)\<rparr>
      in if n \<ge> identicalCalls limits then (Some (blocked_text tool n), g') else (None, g'))"

definition OUTCOMES :: "string list" where
  "OUTCOMES = [''committed'', ''rolledback'', ''applied_unverified'']"

definition failure_text :: "string \<Rightarrow> string \<Rightarrow> json \<Rightarrow> string" where
  "failure_text tool outcome message = tool @ '': '' @
     (case as_string message of Some m \<Rightarrow> m
      | None \<Rightarrow> if outcome = ''rolledback'' then ''rolled back'' else ''applied but unverified'')"

datatype agent_event = AgentStart | ToolExecutionEnd string json | OtherEvent

definition on_event :: "turn_guard \<Rightarrow> agent_event \<Rightarrow> turn_guard" where
  "on_event g e = (case e of
      AgentStart \<Rightarrow> guard_reset g
    | ToolExecutionEnd tool result \<Rightarrow>
        (let details = field ''details'' result in
         case as_string (field ''outcome'' details) of
           None \<Rightarrow> g
         | Some outcome \<Rightarrow>
             if outcome \<notin> set OUTCOMES then g
             else let g' = g\<lparr>attempted := attempted g + 1\<rparr> in
               if outcome = ''committed'' then g'\<lparr>committed := committed g' + 1\<rparr>
               else g'\<lparr>failures := failures g' @ [failure_text tool outcome (field ''message'' details)]\<rparr>)
    | OtherEvent \<Rightarrow> g)"

definition doneWithoutCommit :: "nat \<Rightarrow> string list \<Rightarrow> string" where
  "doneWithoutCommit n fs = join [NL]
     ([''[Miro'' @ [SQ] @ ''s termination gate] '' @ show_nat n @ '' operation(s) were attempted this turn and none committed:'']
      @ map (\<lambda>f. ''- '' @ f) fs
      @ [''Do not tell the user the task is done. Either retry with a genuinely different plan, or tell them exactly what failed and what you need from them.''])"

text \<open>The turn-end hook: \<open>Some\<close> text is the follow-up handed to the agent.\<close>

definition on_turn_end :: "turn_guard \<Rightarrow> bool \<Rightarrow> string option \<times> turn_guard" where
  "on_turn_end g willContinue =
     (if willContinue \<or> fired g \<or> attempted g = 0 \<or> committed g > 0 then (None, g)
      else (Some (doneWithoutCommit (attempted g) (failures g)), g\<lparr>fired := True\<rparr>))"

subsection \<open>A turn\<close>

text \<open>What reaches the guard, and what it answers.\<close>

datatype guard_input =
    Event agent_event
  | Call string json
  | TurnEnd bool
  | PlanFailed string json string

datatype guard_output = Block string | FollowUp string

definition guard_step ::
  "(string \<Rightarrow> string) \<Rightarrow> turn_guard_limits \<Rightarrow> turn_guard \<Rightarrow> guard_input \<Rightarrow> guard_output option \<times> turn_guard" where
  "guard_step sha limits g i = (case i of
      Event e \<Rightarrow> (None, on_event g e)
    | Call tool args \<Rightarrow> (let (r, g') = beforeToolCall sha limits g tool args in (map_option Block r, g'))
    | TurnEnd c \<Rightarrow> (let (r, g') = on_turn_end g c in (map_option FollowUp r, g'))
    | PlanFailed kind params m \<Rightarrow> (None, g\<lparr>retries := ledger_record sha (retries g) kind params m\<rparr>))"

fun guard_run ::
  "(string \<Rightarrow> string) \<Rightarrow> turn_guard_limits \<Rightarrow> turn_guard \<Rightarrow> guard_input list \<Rightarrow> guard_output option list \<times> turn_guard" where
  "guard_run sha limits g [] = ([], g)"
| "guard_run sha limits g (i # ins) =
     (let (o1, g1) = guard_step sha limits g i; (os, g2) = guard_run sha limits g1 ins in (o1 # os, g2))"

definition is_follow_up :: "guard_output option \<Rightarrow> bool" where
  "is_follow_up o1 = (case o1 of Some (FollowUp t) \<Rightarrow> True | _ \<Rightarrow> False)"

definition same_call :: "(string \<Rightarrow> string) \<Rightarrow> string \<Rightarrow> guard_input \<Rightarrow> bool" where
  "same_call sha key i = (case i of Call t a \<Rightarrow> plan_hash sha t a = key | _ \<Rightarrow> False)"

definition op_outcome :: "guard_input \<Rightarrow> string option" where
  "op_outcome i = (case i of Event (ToolExecutionEnd t r) \<Rightarrow>
      (case as_string (field ''outcome'' (field ''details'' r)) of
         Some q \<Rightarrow> if q \<in> set OUTCOMES then Some q else None | None \<Rightarrow> None)
    | _ \<Rightarrow> None)"

lemma call_count_update: "call_count (AList.update k n cs) k' = (if k = k' then n else call_count cs k')"
  by (simp add: call_count_def update_conv')

lemma on_event_calls [simp]: "e \<noteq> AgentStart \<Longrightarrow> calls (on_event g e) = calls g"
  by (simp add: on_event_def Let_def split: agent_event.splits option.splits)

lemma guard_step_calls:
  assumes "i \<noteq> Event AgentStart"
  shows "call_count (calls (snd (guard_step sha l g i))) key
    = call_count (calls g) key + (if same_call sha key i then 1 else 0)"
proof (cases i)
  case (Event e)
  with assms have "e \<noteq> AgentStart" by simp
  with Event show ?thesis by (simp add: guard_step_def same_call_def)
next
  case (Call t a)
  then show ?thesis by (simp add: guard_step_def beforeToolCall_def same_call_def Let_def call_count_update)
qed (simp_all add: guard_step_def same_call_def on_turn_end_def)

lemma guard_run_calls:
  "Event AgentStart \<notin> set ins \<Longrightarrow>
   call_count (calls (snd (guard_run sha l g ins))) key = call_count (calls g) key + length (filter (same_call sha key) ins)"
proof (induction "ins" arbitrary: g)
  case (Cons i ins)
  then have "call_count (calls (snd (guard_step sha l g i))) key
    = call_count (calls g) key + (if same_call sha key i then 1 else 0)" by (intro guard_step_calls) auto
  moreover have "call_count (calls (snd (guard_run sha l (snd (guard_step sha l g i)) ins))) key
    = call_count (calls (snd (guard_step sha l g i))) key + length (filter (same_call sha key) ins)"
    using Cons by simp
  ultimately show ?case by (simp add: split_def Let_def)
qed simp

text \<open>What a turn has counted, and that the gate speaks at most once in it.\<close>

lemma guard_step_counts:
  assumes "i \<noteq> Event AgentStart"
  shows "attempted (snd (guard_step sha l g i)) = attempted g + (if op_outcome i \<noteq> None then 1 else 0)"
    and "committed (snd (guard_step sha l g i)) = committed g + (if op_outcome i = Some ''committed'' then 1 else 0)"
    and "fired (snd (guard_step sha l g i)) = (fired g \<or> is_follow_up (fst (guard_step sha l g i)))"
    and "fired g \<Longrightarrow> \<not> is_follow_up (fst (guard_step sha l g i))"
  using assms
  by (cases i; auto simp: guard_step_def on_event_def op_outcome_def beforeToolCall_def on_turn_end_def
       is_follow_up_def Let_def OUTCOMES_def split: agent_event.splits option.splits if_splits)+

lemma guard_run_counts:
  "Event AgentStart \<notin> set ins \<Longrightarrow>
   attempted (snd (guard_run sha l g ins)) = attempted g + length (filter (\<lambda>i. op_outcome i \<noteq> None) ins) \<and>
   committed (snd (guard_run sha l g ins)) = committed g + length (filter (\<lambda>i. op_outcome i = Some ''committed'') ins) \<and>
   fired (snd (guard_run sha l g ins)) = (fired g \<or> (\<exists>q \<in> set (fst (guard_run sha l g ins)). is_follow_up q))"
proof (induction "ins" arbitrary: g)
  case (Cons i ins)
  then have "i \<noteq> Event AgentStart" by auto
  note s = guard_step_counts [OF this, where g = g and sha = sha and l = l]
  have "Event AgentStart \<notin> set ins" using Cons.prems by simp
  note r = Cons.IH [OF this, of "snd (guard_step sha l g i)"]
  show ?case using s(1-3) r by (simp add: split_def Let_def)
qed simp

lemma guard_run_once:
  "Event AgentStart \<notin> set ins \<Longrightarrow>
   length (filter is_follow_up (fst (guard_run sha l g ins))) \<le> (if fired g then 0 else 1)"
proof (induction "ins" arbitrary: g)
  case (Cons i ins)
  then have i: "i \<noteq> Event AgentStart" by auto
  have "Event AgentStart \<notin> set ins" using Cons.prems by simp
  note r = Cons.IH [OF this, of "snd (guard_step sha l g i)"]
  show ?case using guard_step_counts(3,4) [OF i, where g = g and sha = sha and l = l] r
    by (auto simp: split_def Let_def split: if_splits)
qed simp

lemma guard_run_append:
  "guard_run sha l g (ins @ js) =
     (let (os, g1) = guard_run sha l g ins; (ps, g2) = guard_run sha l g1 js in (os @ ps, g2))"
  by (induction "ins" arbitrary: g) (simp_all add: split_def Let_def)

end
