(* ===== verification/Paths.thy ===== *)
theory Paths
  imports Regex
begin

text \<open>
  Paths as the command classifier judges them (\<open>apps/mirod/src/operations/classify.ts\<close>): the
  functions of \<open>node:path\<close> it calls, \<open>normalizePath\<close>, the tables of lifeline, sensitive and
  block-device paths, and the questions asked of a path.  A path expression of the tables is
  the regular expression of the source; \<open>existsSync\<close> and \<open>realpathSync\<close> are the arguments
  \<open>fexists\<close> and \<open>realpath\<close>.
\<close>

subsection \<open>node:path\<close>

text \<open>One component handled by \<open>normalizeString\<close>; the accumulator is newest first.\<close>

fun push_segment :: "bool \<Rightarrow> string list \<Rightarrow> string \<Rightarrow> string list" where
  "push_segment up acc s =
     (if s = [] \<or> s = ''.'' then acc
      else if s = ''..'' then
        (case acc of [] \<Rightarrow> if up then [''..''] else []
         | t # ts \<Rightarrow> if t = ''..'' then (if up then ''..'' # acc else acc) else ts)
      else s # acc)"

definition normal_segments :: "bool \<Rightarrow> string list \<Rightarrow> string list" where
  "normal_segments up ss = rev (foldl (push_segment up) [] ss)"

abbreviation SL :: char where "SL \<equiv> CHR ''/''"

definition is_absolute :: "string \<Rightarrow> bool" where
  "is_absolute p \<longleftrightarrow> p \<noteq> [] \<and> hd p = SL"

definition posix_normalize :: "string \<Rightarrow> string" where
  "posix_normalize p =
     (if p = [] then ''.''
      else let abs = is_absolute p; trail = (last p = SL);
               body = join ''/'' (normal_segments (\<not> abs) (split_on SL p))
           in if body = [] then (if abs then ''/'' else if trail then ''./'' else ''.'')
              else (if abs then ''/'' else []) @ body @ (if trail then ''/'' else []))"

text \<open>\<open>posix.resolve("/", p)\<close>.\<close>

definition resolve_root :: "string \<Rightarrow> string" where
  "resolve_root p = SL # join ''/'' (normal_segments False (split_on SL p))"

definition path_join :: "string list \<Rightarrow> string" where
  "path_join ps = (let ne = filter (\<lambda>p. p \<noteq> []) ps in if ne = [] then ''.'' else posix_normalize (join ''/'' ne))"

definition dirname :: "string \<Rightarrow> string" where
  "dirname p =
     (let q = strip_trailing_slashes p
      in if p = [] then ''.''
         else if q = [] then ''/''
         else if SL \<notin> set q then ''.''
         else let d = strip_trailing_slashes (before_last_slash q) in if d = [] then ''/'' else d)"

definition path_basename :: "string \<Rightarrow> string" where
  "path_basename p = after_last_slash (strip_trailing_slashes p)"

definition expandHome :: "string \<Rightarrow> string \<Rightarrow> string" where
  "expandHome p home =
     (if p = ''~'' then home else if starts_with ''~/'' p then path_join [home, drop 2 p] else p)"

subsection \<open>Tables\<close>

definition at_under :: "string \<Rightarrow> rex" where "at_under d = seq [Bol, lit d, slash_or_end]"
definition exactly :: "string \<Rightarrow> rex" where "exactly p = seq [Bol, lit p, Eol]"
definition prefixed :: "string \<Rightarrow> rex" where "prefixed p = seq [Bol, lit p]"
definition start_or_slash :: rex where "start_or_slash = Alt Bol (ch SL)"
definition component :: "string \<Rightarrow> rex" where "component n = seq [start_or_slash, lit n, slash_or_end]"
definition suffixed :: "string \<Rightarrow> rex" where "suffixed n = seq [start_or_slash, lit n, Eol]"

definition proc_pid :: rex where
  "proc_pid = seq [Bol, lit ''/proc/'', alt [lit ''self'', lit ''thread-self'', plus digit]]"

definition BLOCK_DEVICE :: rex where
  "BLOCK_DEVICE = seq [Bol, lit ''/dev/'', alt
     [seq [lit ''sd'', Cls is_lower], seq [lit ''vd'', Cls is_lower], seq [lit ''nvme'', digit],
      seq [lit ''hd'', Cls is_lower], seq [lit ''xvd'', Cls is_lower], seq [lit ''mmcblk'', digit],
      seq [lit ''md'', digit], seq [lit ''dm-'', digit], lit ''mapper/'', seq [lit ''loop'', digit], lit ''disk/'']]"

definition LIFELINE_PATHS :: "rex list" where
  "LIFELINE_PATHS =
     [at_under ''/etc/ssh'', component ''.ssh'', prefixed ''/etc/sudoers'',
      seq [Bol, lit ''/etc/'', alts [''passwd'', ''shadow'', ''group'', ''gshadow''], Eol],
      at_under ''/etc/pam.d'', exactly ''/etc/fstab'', at_under ''/boot'', at_under ''/etc/network'',
      at_under ''/etc/netplan'', at_under ''/etc/systemd/network'', exactly ''/etc/resolv.conf'',
      exactly ''/etc/hosts'', prefixed ''/etc/nftables'', at_under ''/etc/iptables'', at_under ''/etc/ufw'',
      at_under ''/etc/wireguard'', component ''.miro'', at_under ''/var/lib/miro'', at_under ''/etc/miro'',
      seq [Bol, lit ''/etc/systemd/system/'', alts [''ssh'', ''sshd'', ''docker'', ''mirod'', ''networking'',
        ''systemd-networkd'', ''NetworkManager'']]]"

definition proc_task :: rex where "proc_task = opt (seq [lit ''/task/'', plus digit])"

definition CWD_FD :: rex where
  "CWD_FD = seq [proc_pid, ch SL, alts [''cwd'', ''fd''], slash_or_end]"

definition SENSITIVE_READ_PATHS :: "rex list" where
  "SENSITIVE_READ_PATHS =
     [exactly ''/etc/shadow'', exactly ''/etc/gshadow'',
      seq [start_or_slash, lit ''.ssh'',
        Alt (seq [ch SL, NotAhead (seq [alts [''authorized_keys'', ''known_hosts'', ''config''], Eol])]) Eol],
      component ''.miro'', CWD_FD, at_under ''/var/lib/miro'', at_under ''/etc/wireguard'', suffixed ''.env'',
      suffixed ''.netrc'', suffixed ''.git-credentials'', suffixed ''.aws/credentials'', suffixed ''.kube/config'',
      suffixed ''.docker/config.json'', seq [proc_pid, proc_task, lit ''/environ'', Eol],
      seq [proc_pid, proc_task, ch SL, alts [''mem'', ''maps''], Eol], at_under ''/etc/ssl/private'']"

definition hits :: "rex list \<Rightarrow> string \<Rightarrow> bool" where
  "hits rs p \<longleftrightarrow> list_ex (\<lambda>r. rtest r p) rs"

definition SECRET_HOLDING_DIRS :: "string list" where
  "SECRET_HOLDING_DIRS = [''/root'', ''/etc'', ''/proc'', ''/var/lib/miro'']"

definition LIFELINE_ROOTS :: "string list" where
  "LIFELINE_ROOTS = [''/usr'', ''/bin'', ''/sbin'', ''/lib'', ''/lib64'', ''/run'', ''/etc/systemd'',
     ''/etc/systemd/system'', ''/var/lib/docker'']"

subsection \<open>normalizePath\<close>

definition ROOT_ALIAS :: rex where
  "ROOT_ALIAS = seq [Bol, lit ''/proc/'', alt [lit ''self'', lit ''thread-self'', plus digit], lit ''/root'', slash_or_end]"

definition alias_len :: "string \<Rightarrow> nat option" where
  "alias_len p = map_option (\<lambda>m. length (fst m)) (rmatch ROOT_ALIAS p)"

fun strip_alias :: "nat \<Rightarrow> string \<Rightarrow> string" where
  "strip_alias 0 p = p"
| "strip_alias (Suc n) p = (case alias_len p of None \<Rightarrow> p | Some m \<Rightarrow> strip_alias n (SL # drop m p))"

lemma alias_len_bounds:
  assumes "alias_len p = Some m"
  shows "2 \<le> m" and "m \<le> length p" and "is_absolute p"
proof -
  define rest where "rest = seq [alt [lit ''self'', lit ''thread-self'', plus digit], lit ''/root'', slash_or_end]"
  have re: "ROOT_ALIAS = Cat Bol (Cat (lit ''/proc/'') rest)" by (simp add: ROOT_ALIAS_def rest_def)
  have "first_match ROOT_ALIAS [] p \<noteq> None"
    using assms by (auto simp: alias_len_def rmatch_def split: option.splits)
  moreover have anc: "anchored ROOT_ALIAS" by (simp add: ROOT_ALIAS_def)
  ultimately have ne: "ends ROOT_ALIAS (Cur [] p []) \<noteq> []" using rtest_anchored [OF anc, of p]
    by (auto simp: rtest_def)
  then obtain k0 ks where ks: "ends ROOT_ALIAS (Cur [] p []) = k0 # ks" by (cases "ends ROOT_ALIAS (Cur [] p [])") auto
  then have fm: "first_match ROOT_ALIAS [] p = Some ([], p, k0)" by (cases p) simp_all
  with assms have m: "m = length p - length (ahead k0)" by (auto simp: alias_len_def rmatch_def matched_def)
  have pre: "starts_with ''/proc/'' p" using ne by (simp add: re ends_lit split: if_splits)
  have "k0 \<in> set (ends ROOT_ALIAS (Cur [] p []))" using ks by simp
  then have "k0 \<in> set (ends rest (Cur (rev ''/proc/'') (drop (length ''/proc/'') p) []))" using pre by (simp add: re ends_lit)
  from ends_length [OF this] have l: "length (ahead k0) \<le> length p - 6" by simp
  from pre obtain r where "p = ''/proc/'' @ r" by (auto simp: starts_with_prefix)
  then show "2 \<le> m" and "m \<le> length p" and "is_absolute p" using m l by (auto simp: is_absolute_def)
qed

lemma strip_alias_length: "length (strip_alias n p) \<le> length p"
proof (induction n p rule: strip_alias.induct)
  case (2 n p)
  show ?case
  proof (cases "alias_len p")
    case (Some m)
    with 2 alias_len_bounds [OF Some] show ?thesis by simp
  qed simp
qed simp

lemma strip_alias_shorter: "alias_len p \<noteq> None \<Longrightarrow> length (strip_alias (Suc n) p) < length p"
proof -
  assume "alias_len p \<noteq> None"
  then obtain m where m: "alias_len p = Some m" by auto
  with strip_alias_length [of n "SL # drop m p"] alias_len_bounds [OF m] show ?thesis by simp
qed

definition weight :: "string list \<Rightarrow> nat" where
  "weight ws = sum_list (map (\<lambda>w. length w + 1) ws)"

lemma weight_simps [simp]: "weight [] = 0" "weight (w # ws) = length w + 1 + weight ws"
    "weight (us @ ws) = weight us + weight ws" "weight (rev ws) = weight ws"
  by (simp_all add: weight_def rev_map [symmetric])

lemma weight_push: "weight (push_segment a acc s) \<le> weight acc + (if s = [] then 0 else length s + 1)"
  by (cases acc) auto

lemma weight_fold:
  "weight (foldl (push_segment a) acc ss) \<le> weight acc + weight (filter (\<lambda>s. s \<noteq> []) ss)"
proof (induction ss arbitrary: acc)
  case (Cons s ss)
  from Cons [of "push_segment a acc s"] weight_push [of a acc s] show ?case
    by (cases "s = []") (simp_all del: push_segment.simps)
qed simp

lemma weight_split: "weight (split_on d p) = length p + 1"
proof (induction p)
  case (Cons c p)
  then show ?case by (cases "split_on d p") auto
qed simp

lemma length_join: "ws \<noteq> [] \<Longrightarrow> length (join ''/'' ws) + 1 = weight ws"
proof (induction ws)
  case (Cons w ws)
  then show ?case by (cases ws) auto
qed simp

lemma weight_ne: "weight (filter (\<lambda>s. s \<noteq> []) ws) + length (filter (\<lambda>s. s = []) ws) = weight ws"
  by (induction ws) auto

lemma last_split_slash: "p \<noteq> [] \<Longrightarrow> last p = d \<Longrightarrow> last (split_on d p) = []"
  using split_on_append_sep [of d "butlast p" "[]"] append_butlast_last_id [of p] by auto

lemma normalize_length: "is_absolute p \<Longrightarrow> length (posix_normalize p) \<le> length p"
proof -
  assume abs: "is_absolute p"
  then obtain q where p: "p = SL # q" by (cases p) (auto simp: is_absolute_def)
  define out where "out = normal_segments False (split_on SL p)"
  have w: "weight out \<le> weight (filter (\<lambda>s. s \<noteq> []) (split_on SL q))"
    using weight_fold [of False "[]" "split_on SL p"] p by (simp add: out_def normal_segments_def)
  show ?thesis
  proof (cases "join ''/'' out = []")
    case True
    with abs p show ?thesis by (simp add: posix_normalize_def Let_def out_def)
  next
    case False
    then have ne: "out \<noteq> []" by auto
    let ?t = "last p = SL"
    have "length (filter (\<lambda>s. s = []) (split_on SL q)) \<ge> (if ?t \<and> q \<noteq> [] then 1 else 0)"
    proof (cases "?t \<and> q \<noteq> []")
      case True
      then have "last (split_on SL q) = []" using p by (intro last_split_slash) auto
      then have "[] \<in> set (split_on SL q)" by (metis last_in_set split_on_nonempty)
      then show ?thesis using True by (auto simp: Suc_le_eq filter_empty_conv)
    qed simp
    moreover have "q \<noteq> []" using ne p by (auto simp: out_def normal_segments_def)
    ultimately have "weight out + (if ?t then 1 else 0) \<le> length q + 1"
      using w weight_ne [of "split_on SL q"] weight_split [of SL q] by (simp split: if_splits)
    moreover have "length (posix_normalize p) = Suc (length (join ''/'' out)) + (if ?t then 1 else 0)"
      using False abs p by (simp add: posix_normalize_def Let_def out_def)
    ultimately show ?thesis using length_join [OF ne] p by simp
  qed
qed

definition clean_segment :: "bool \<Rightarrow> string \<Rightarrow> bool" where
  "clean_segment up s \<longleftrightarrow> s \<noteq> [] \<and> s \<noteq> ''.'' \<and> (\<not> up \<longrightarrow> s \<noteq> ''..'') \<and> SL \<notin> set s"

lemma push_segment_clean:
  "list_all (clean_segment up) acc \<Longrightarrow> SL \<notin> set s \<Longrightarrow> list_all (clean_segment up) (push_segment up acc s)"
  by (cases acc) (auto simp: clean_segment_def)

lemma normal_segments_clean: "list_all (clean_segment up) (normal_segments up (split_on SL p))"
proof -
  have "list_all (clean_segment up) acc \<Longrightarrow> \<forall>s \<in> set ss. SL \<notin> set s \<Longrightarrow>
      list_all (clean_segment up) (foldl (push_segment up) acc ss)" for acc ss
    by (induction ss arbitrary: acc) (auto simp: push_segment_clean simp del: push_segment.simps)
  from this [of "[]" "split_on SL p"] show ?thesis
    using split_on_elems by (auto simp: normal_segments_def list_all_iff)
qed

lemma join_head: "list_all (clean_segment up) ws \<Longrightarrow> join ''/'' ws = [] \<or> hd (join ''/'' ws) \<noteq> SL"
proof (cases ws)
  case (Cons w us)
  assume "list_all (clean_segment up) ws"
  with Cons have "w \<noteq> []" "SL \<notin> set w" by (auto simp: clean_segment_def)
  then show ?thesis using Cons by (cases us; cases w) auto
qed simp

lemma normalize_is_absolute: "is_absolute (posix_normalize p) \<longleftrightarrow> is_absolute p"
  using join_head [OF normal_segments_clean, of True p]
  by (auto simp: posix_normalize_def Let_def is_absolute_def hd_append)

text \<open>
  \<open>norm_abs\<close> is the body of \<open>normalizePath\<close> once the path is absolute; its recursive call
  passes a normalised path, which \<open>expandHome\<close> and the test for \<open>/\<close> leave alone.
\<close>

function norm_abs :: "string \<Rightarrow> string" where
  "norm_abs p =
     (let q = strip_alias 4 p
      in if rtest CWD_FD q then q
         else let r = posix_normalize q
              in if alias_len r \<noteq> None then norm_abs r
                 else if length r > 1 then strip_trailing_slashes r else r)"
  by pat_completeness auto
termination
proof (relation "measure (\<lambda>p. 2 * length p + (if alias_len p = None then 1 else 0))")
  fix p q r
  assume q: "q = strip_alias 4 p" and r: "r = posix_normalize q" and al: "alias_len r \<noteq> None"
  then have "is_absolute q" using alias_len_bounds(3) normalize_is_absolute by blast
  then have "length r \<le> length q" using r normalize_length by simp
  moreover have "length q \<le> length p" using q strip_alias_length by simp
  moreover have "length q < length p" if "alias_len p \<noteq> None"
    using q strip_alias_shorter [OF that, of 3] by (simp add: numeral_eq_Suc)
  ultimately show "(r, p) \<in> measure (\<lambda>p. 2 * length p + (if alias_len p = None then 1 else 0))"
    using al by auto
qed simp

declare norm_abs.simps [simp del]

definition normalizePath :: "string \<Rightarrow> string \<Rightarrow> string" where
  "normalizePath path home =
     (let p = expandHome path home in norm_abs (if is_absolute p then p else resolve_root p))"

subsection \<open>Questions asked of a path\<close>

definition isLifelinePath :: "string \<Rightarrow> string \<Rightarrow> bool" where
  "isLifelinePath path home = hits LIFELINE_PATHS (normalizePath path home)"

fun nearest_existing :: "nat \<Rightarrow> (string \<Rightarrow> bool) \<Rightarrow> string \<Rightarrow> string list \<Rightarrow> string \<times> string list" where
  "nearest_existing 0 fexists dir rest = (dir, rest)"
| "nearest_existing (Suc n) fexists dir rest =
     (if \<not> fexists dir \<and> dir \<noteq> dirname dir then nearest_existing n fexists (dirname dir) (path_basename dir # rest)
      else (dir, rest))"

text \<open>Each turn of the loop shortens the directory, so its length is fuel enough.\<close>

definition realTarget :: "(string \<Rightarrow> bool) \<Rightarrow> (string \<Rightarrow> string option) \<Rightarrow> string \<Rightarrow> string" where
  "realTarget fexists realpath path =
     (if fexists path then (case realpath path of Some r \<Rightarrow> r | None \<Rightarrow> path)
      else let d = dirname path; (dir, rest) = nearest_existing (length d) fexists d [path_basename path]
           in (case realpath dir of Some r \<Rightarrow> path_join (r # rest) | None \<Rightarrow> path))"

definition isSensitivePath :: "(string \<Rightarrow> bool) \<Rightarrow> (string \<Rightarrow> string option) \<Rightarrow> string \<Rightarrow> string \<Rightarrow> bool" where
  "isSensitivePath fexists realpath path home =
     (let p = normalizePath path home
      in if hits SENSITIVE_READ_PATHS p then True
         else let real = normalizePath (realTarget fexists realpath p) home
              in real \<noteq> p \<and> hits SENSITIVE_READ_PATHS real)"

definition HOME_OF :: rex where "HOME_OF = seq [Bol, lit ''/home/'', plus (none_of ''/''), Eol]"

definition holdsSecrets :: "string \<Rightarrow> string \<Rightarrow> bool" where
  "holdsSecrets dir home \<longleftrightarrow> dir = ''/'' \<or> dir = ''/home'' \<or> rtest HOME_OF dir \<or>
     list_ex (\<lambda>d. d = dir \<or> starts_with (dir @ ''/'') d) (SECRET_HOLDING_DIRS @ [home])"

definition holdsSecretMaterial :: "string \<Rightarrow> string \<Rightarrow> bool" where
  "holdsSecretMaterial path home = holdsSecrets (normalizePath path home) home"

definition isLifelineRoot :: "string \<Rightarrow> string \<Rightarrow> bool" where
  "isLifelineRoot path home \<longleftrightarrow> normalizePath path home \<in> set LIFELINE_ROOTS"

definition isBlockDevicePath :: "string \<Rightarrow> bool" where
  "isBlockDevicePath path = rtest BLOCK_DEVICE path"

definition pathWithinSecretArea :: "string \<Rightarrow> string \<Rightarrow> bool" where
  "pathWithinSecretArea p home \<longleftrightarrow> p = ''/'' \<or> p = ''/home'' \<or>
     list_ex (\<lambda>d. p = d \<or> starts_with (d @ ''/'') p) (SECRET_HOLDING_DIRS @ [home]) \<or>
     rtest (seq [Bol, lit ''/home/'', plus (none_of ''/''), slash_or_end]) p"

definition isPathLike :: "string \<Rightarrow> bool" where
  "isPathLike v \<longleftrightarrow> rtest (seq [Bol, alts [''/'', ''~'', ''./'', ''../'']]) v \<or>
     rtest (seq [start_or_slash, lit ''..'', slash_or_end]) v"

subsection \<open>Lemmas\<close>

lemma ends_at_under: "ends (at_under d) (Cur [] p []) \<noteq> [] \<longleftrightarrow> p = d \<or> (\<exists>r. p = d @ SL # r)"
proof (cases "starts_with d p")
  case True
  then obtain r where r: "p = d @ r" by (auto simp: starts_with_prefix)
  then show ?thesis by (cases r) (auto simp: at_under_def ends_lit slash_or_end_def)
next
  case False
  then show ?thesis by (auto simp: at_under_def ends_lit starts_with_prefix)
qed

lemma rtest_at_under [js_simps]: "rtest (at_under d) p \<longleftrightarrow> p = d \<or> (\<exists>r. p = d @ SL # r)"
proof -
  have "anchored (at_under d)" by (simp add: at_under_def)
  then show ?thesis by (simp add: rtest_anchored ends_at_under)
qed

lemma rtest_exactly [js_simps]: "rtest (exactly d) p \<longleftrightarrow> p = d"
proof -
  have "anchored (exactly d)" by (simp add: exactly_def)
  then have "rtest (exactly d) p \<longleftrightarrow> starts_with d p \<and> drop (length d) p = []"
    by (simp add: rtest_anchored exactly_def ends_lit)
  then show ?thesis by (auto simp: starts_with_prefix)
qed

lemma rtest_prefixed [js_simps]: "rtest (prefixed d) p \<longleftrightarrow> starts_with d p"
proof -
  have "anchored (prefixed d)" by (simp add: prefixed_def)
  then show ?thesis by (simp add: rtest_anchored prefixed_def ends_lit)
qed

lemma hits_member: "r \<in> set rs \<Longrightarrow> rtest r p \<Longrightarrow> hits rs p"
  by (auto simp: hits_def list_ex_iff)

text \<open>What a path becomes: one of the \<open>/proc\<close> aliases no string resolves, or clean components.\<close>

definition clean_path :: "string \<Rightarrow> bool" where
  "clean_path p \<longleftrightarrow> p = ''/'' \<or> (\<exists>ws. ws \<noteq> [] \<and> p = SL # join ''/'' ws \<and> list_all (clean_segment False) ws)"

lemma strip_join_slash:
  assumes "ws \<noteq> []" and "list_all (clean_segment False) ws"
  shows "strip_trailing_slashes (SL # join ''/'' ws) = SL # join ''/'' ws"
    and "strip_trailing_slashes (SL # join ''/'' ws @ ''/'') = SL # join ''/'' ws"
proof -
  have l: "\<exists>u c. join ''/'' ws = u @ [c] \<and> c \<noteq> SL"
    using assms
  proof (induction ws rule: list_nonempty_induct)
    case (single w)
    then have "w \<noteq> []" "SL \<notin> set w" by (auto simp: clean_segment_def)
    then show ?case by (cases w rule: rev_cases) auto
  next
    case (cons w ws)
    then obtain u c where "join ''/'' ws = u @ [c] \<and> c \<noteq> SL" by auto
    with cons(1) show ?case by (intro exI [of _ "w @ ''/'' @ u"] exI [of _ c]) (simp add: join_Cons)
  qed
  then show "strip_trailing_slashes (SL # join ''/'' ws) = SL # join ''/'' ws"
    "strip_trailing_slashes (SL # join ''/'' ws @ ''/'') = SL # join ''/'' ws"
    by (auto simp: strip_trailing_slashes_def)
qed

lemma normalize_clean:
  assumes "is_absolute p"
  shows "clean_path (let r = posix_normalize p in if length r > 1 then strip_trailing_slashes r else r)"
proof -
  let ?ws = "normal_segments False (split_on SL p)"
  have cl: "list_all (clean_segment False) ?ws" by (rule normal_segments_clean)
  have p: "p \<noteq> []" using assms by (simp add: is_absolute_def)
  show ?thesis
  proof (cases "join ''/'' ?ws = []")
    case True
    with assms p show ?thesis by (simp add: posix_normalize_def clean_path_def)
  next
    case False
    then have ne: "?ws \<noteq> []" by auto
    have "posix_normalize p = SL # join ''/'' ?ws \<or> posix_normalize p = SL # join ''/'' ?ws @ ''/''"
      using assms p False by (simp add: posix_normalize_def Let_def)
    moreover have "length (posix_normalize p) > 1" using calculation False by (cases "join ''/'' ?ws") auto
    ultimately have "(let r = posix_normalize p in if length r > 1 then strip_trailing_slashes r else r) = SL # join ''/'' ?ws"
      using strip_join_slash [OF ne cl] by (auto simp: Let_def)
    with cl ne show ?thesis by (auto simp: clean_path_def)
  qed
qed

lemma strip_alias_absolute: "is_absolute p \<Longrightarrow> is_absolute (strip_alias n p)"
  by (induction n p rule: strip_alias.induct) (auto simp: is_absolute_def split: option.splits)

lemma norm_abs_clean: "is_absolute p \<Longrightarrow> rtest CWD_FD (norm_abs p) \<or> clean_path (norm_abs p)"
proof (induction p rule: norm_abs.induct)
  case (1 p)
  let ?q = "strip_alias 4 p"
  have abs: "is_absolute ?q" using 1(2) by (rule strip_alias_absolute)
  show ?case
  proof (cases "rtest CWD_FD ?q")
    case True
    then show ?thesis by (simp add: norm_abs.simps [of p])
  next
    case False
    show ?thesis
    proof (cases "alias_len (posix_normalize ?q) = None")
      case True
      with False have "norm_abs p = (let r = posix_normalize ?q in if length r > 1 then strip_trailing_slashes r else r)"
        by (simp add: norm_abs.simps [of p] Let_def)
      with normalize_clean [OF abs] show ?thesis by simp
    next
      case again: False
      with False have "norm_abs p = norm_abs (posix_normalize ?q)" by (simp add: norm_abs.simps [of p])
      moreover have "is_absolute (posix_normalize ?q)" using abs by (simp add: normalize_is_absolute)
      ultimately show ?thesis using 1(1) [OF refl False refl] again by auto
    qed
  qed
qed

lemma resolve_root_absolute [simp]: "is_absolute (resolve_root p)"
  by (simp add: resolve_root_def is_absolute_def)

end
