(* ===== verification/Engine.thy ===== *)
theory Engine
  imports OpStore Memory Notify TurnGuard Paths
begin

text \<open>
  The operation engine (\<open>apps/mirod/src/operations/engine.ts\<close>): \<open>runOperation\<close> takes a change
  from its plan through approval, capture, apply and verify to a commit or a rollback.

  The state is explicit.  \<open>srv\<close> is everything outside the daemon's own tables (files, units,
  containers, the clock), a parameter \<open>'s\<close> of the model; the tables, the notification bus,
  the events sent to the client, the retry ledger and the calls of the optional hooks are the
  other fields of a world.  A kind is a record of functions on \<open>'s\<close>; an exception is
  \<open>Inl\<close>.  Waiting for an answer, or for the write lock, may change the world in any way: those
  waits are functions of the context.
\<close>

subsection \<open>Kinds, context, world\<close>

record 's kind =
  kind_name :: string
  describe :: "json \<Rightarrow> 's \<Rightarrow> (js_error + op_plan) \<times> 's"
  captureState :: "json \<Rightarrow> 's \<Rightarrow> (js_error + json) \<times> 's"
  apply_op :: "json \<Rightarrow> 's \<Rightarrow> (js_error + unit) \<times> 's"
  verify :: "json \<Rightarrow> 's \<Rightarrow> (js_error + bool) \<times> 's"
  rollback :: "json \<Rightarrow> json \<Rightarrow> 's \<Rightarrow> (js_error + unit) \<times> 's"
  prodtest :: "(json \<Rightarrow> string option) option"
  kind_reconcile :: "(json \<Rightarrow> json \<Rightarrow> 's \<Rightarrow> (js_error + outcome \<times> string) \<times> 's) option"

record reflection =
  rf_kind :: string
  rf_goal :: string
  rf_outcome :: outcome
  rf_message :: string
  rf_count :: nat

record 's world =
  srv :: 's
  optab :: "op_row list"
  memtab :: "mem_row list"
  note_bus :: bus
  sent :: "server_event list"
  retry_ledger :: "ledger option"
  draws :: nat
  cancelled :: "string list"
  reflected :: "reflection list"
  hooks :: "(outcome \<times> string \<times> string) list"

record 's ctx =
  clock :: "'s \<Rightarrow> int"
  uuid :: "nat \<Rightarrow> string"
  sha256 :: "string \<Rightarrow> string"
  max_failures :: nat
  severity :: "'s \<Rightarrow> (js_error + int) \<times> 's"
  waitForAnswer :: "string \<Rightarrow> 's world \<Rightarrow> string \<times> 's world"
  answer_or_timeout :: "string \<Rightarrow> int \<Rightarrow> 's world \<Rightarrow> string \<times> 's world"
  acquire :: "'s world \<Rightarrow> 's world"
  getSetting :: "string \<Rightarrow> string option"
  lifelineConfirmMs :: "int option"

subsection \<open>Rules on plans\<close>

definition effectiveAutoApprove :: "op_plan \<Rightarrow> bool" where
  "effectiveAutoApprove p =
     (if plan_class p \<in> {Some Destructive, Some Lifeline, Some Forbidden} \<or> irreversible p then False
      else plan_auto p)"

definition has_glob :: "string \<Rightarrow> bool" where
  "has_glob t \<longleftrightarrow> list_ex (\<lambda>c. c = CHR ''*'' \<or> c = CHR ''?'' \<or> c = CHR ''['') t"

definition scope_path :: "string \<Rightarrow> string" where
  "scope_path w = (let t = strip_trailing_slashes (trim w) in if t = [] then ''/'' else t)"

definition bad_scope :: "string \<Rightarrow> bool" where
  "bad_scope w \<longleftrightarrow> (let t = scope_path w in t = [] \<or> t = ''/'' \<or> has_glob t \<or>
     t = ''/proc'' \<or> t = ''/sys'' \<or> t = ''/dev'' \<or> isBlockDevicePath t)"

definition badWriteScope :: "string list option \<Rightarrow> string option" where
  "badWriteScope writes = List.find bad_scope (case writes of None \<Rightarrow> [] | Some ws \<Rightarrow> ws)"

definition MAX_UNATTENDED_OPS_PER_HOUR :: nat where "MAX_UNATTENDED_OPS_PER_HOUR = 10"
definition ROLLBACK_COOLDOWN_MS :: int where "ROLLBACK_COOLDOWN_MS = 5 * 60000"
definition LIFELINE_CONFIRM_MS :: int where "LIFELINE_CONFIRM_MS = 90000"
definition REPEAT_FAILURE_THRESHOLD :: nat where "REPEAT_FAILURE_THRESHOLD = 2"

definition unattendedGate :: "int \<Rightarrow> op_row list \<Rightarrow> string option" where
  "unattendedGate now rows =
     (if count_auto_approved_since (now - 3600000) rows \<ge> MAX_UNATTENDED_OPS_PER_HOUR
      then Some (''unattended-operation limit reached ('' @ show_nat MAX_UNATTENDED_OPS_PER_HOUR @ ''/hour)'')
      else case last_rollback_at rows of
        None \<Rightarrow> None
      | Some t \<Rightarrow> if now - t < ROLLBACK_COOLDOWN_MS then Some ''cooling down after a recent rollback'' else None)"

definition put :: "string \<Rightarrow> json \<Rightarrow> bool \<Rightarrow> (string \<times> json) list \<Rightarrow> (string \<times> json) list" where
  "put k v given kvs = (if given then AList.update k v kvs else kvs)"

fun fidelity_name :: "fidelity option \<Rightarrow> string" where
  "fidelity_name (Some Exact) = ''exact''"
| "fidelity_name (Some Partial) = ''partial''"
| "fidelity_name (Some NoFidelity) = ''none''"
| "fidelity_name None = ''none''"

definition text_or_empty :: "string option \<Rightarrow> string" where
  "text_or_empty t = (case t of None \<Rightarrow> [] | Some s \<Rightarrow> s)"

definition put_text :: "string \<Rightarrow> string option \<Rightarrow> (string \<times> json) list \<Rightarrow> (string \<times> json) list" where
  "put_text k t = put k (JStr (text_or_empty t)) (truthy t)"

text \<open>The \<open>details\<close> sent with the plan.\<close>

definition plan_event_details :: "op_plan \<Rightarrow> (string \<times> json) list" where
  "plan_event_details p =
     (let d0 = plan_details p;
          d1 = (case plan_class p of None \<Rightarrow> d0 | Some c \<Rightarrow> AList.update ''class'' (JStr (class_name c)) d0);
          d2 = (case plan_writes p of None \<Rightarrow> d1 | Some ws \<Rightarrow> AList.update ''writes'' (JArr (map JStr ws)) d1);
          d3 = (case plan_network p of None \<Rightarrow> d2 | Some b \<Rightarrow> AList.update ''network'' (JBool b) d2);
          d4 = put ''irreversible'' (JBool True) (irreversible p) d3;
          d5 = put_text ''warning'' (plan_warning p) d4;
          d6 = put_text ''expects'' (expects p) d5;
          d7 = put_text ''rollbackWhen'' (rollback_when p) d6;
          d8 = put_text ''scopeEvidence'' (scope_evidence p) d7
      in AList.update ''dryRunFidelity'' (JStr (fidelity_name (dry_run p))) d8)"

subsection \<open>Steps on the world\<close>

definition now :: "'s ctx \<Rightarrow> 's world \<Rightarrow> int" where
  "now c w = clock c (srv w)"

definition emit :: "server_event \<Rightarrow> 's world \<Rightarrow> 's world" where
  "emit e w = w\<lparr>sent := sent w @ [e]\<rparr>"

definition to_phase :: "'s ctx \<Rightarrow> string \<Rightarrow> phase \<Rightarrow> string option \<Rightarrow> 's world \<Rightarrow> 's world" where
  "to_phase c i p err w = w\<lparr>optab := set_phase (now c w) i p err (optab w)\<rparr>"

definition on_srv :: "('s \<Rightarrow> 'a \<times> 's) \<Rightarrow> 's world \<Rightarrow> 'a \<times> 's world" where
  "on_srv f w = (let (r, s) = f (srv w) in (r, w\<lparr>srv := s\<rparr>))"

definition draw :: "'s ctx \<Rightarrow> 's world \<Rightarrow> string \<times> 's world" where
  "draw c w = (uuid c (draws w), w\<lparr>draws := draws w + 1\<rparr>)"

definition incident :: "'s ctx \<Rightarrow> string \<Rightarrow> string \<Rightarrow> incident_phase \<Rightarrow> string option \<Rightarrow> 's world \<Rightarrow> 's world" where
  "incident c kn goal p err w =
     (let (u, w1) = draw c w in w1\<lparr>memtab := record_incident (now c w1) u kn goal p err (memtab w1)\<rparr>)"

definition tell_owner :: "'s ctx \<Rightarrow> notification \<Rightarrow> 's world \<Rightarrow> 's world" where
  "tell_owner c n w =
     (if configured (note_bus w)
      then let (u, w1) = draw c w in w1\<lparr>note_bus := notify (now c w1) u n (note_bus w1)\<rparr> else w)"

definition result_event :: "string \<Rightarrow> outcome \<Rightarrow> string \<Rightarrow> server_event" where
  "result_event i r m = OperationResult \<lparr>or_id = i, or_outcome = r, or_message = m\<rparr>"

text \<open>\<open>send({ type: "operation_result", ... }); return { outcome, message }\<close>.\<close>

definition finish ::
  "string \<Rightarrow> outcome \<Rightarrow> string \<Rightarrow> 's world \<Rightarrow> (js_error + outcome \<times> string) \<times> 's world" where
  "finish i r m w = (Inr (r, m), emit (result_event i r m) w)"

definition onTerminal ::
  "'s ctx \<Rightarrow> 's kind \<Rightarrow> string \<Rightarrow> json \<Rightarrow> op_plan \<Rightarrow> bool \<Rightarrow> string \<Rightarrow> 's world \<Rightarrow> 's world" where
  "onTerminal c k goal params plan ok message w =
     (let r = (if ok then OCommitted else ORolledback);
          w1 = incident c (kind_name k) goal (if ok then IncCommitted else IncRolledback)
                 (if ok then None else Some message) w;
          w2 = (if \<not> ok \<and> effectiveAutoApprove plan
                then tell_owner c \<lparr>n_tier = NeedsAttention, n_title = ''Auto-rolled back: '' @ goal,
                       n_body = message, n_source = ''operation'', n_at = now c w1\<rparr> w1
                else w1);
          w3 = (if ok then w2
                else
                  let wl = (case retry_ledger w2 of None \<Rightarrow> w2
                            | Some f \<Rightarrow> w2\<lparr>retry_ledger := Some (ledger_record (sha256 c) f (kind_name k) params message)\<rparr>);
                      n = count_by_kind_and_phase (kind_name k) Rolledback (optab wl)
                  in if n \<ge> REPEAT_FAILURE_THRESHOLD
                     then wl\<lparr>reflected := reflected wl @ [\<lparr>rf_kind = kind_name k, rf_goal = goal,
                            rf_outcome = r, rf_message = message, rf_count = n\<rparr>]\<rparr>
                     else wl)
      in w3\<lparr>hooks := hooks w3 @ [(r, kind_name k, goal)]\<rparr>)"

subsection \<open>Under the write lock\<close>

definition roll_back ::
  "'s kind \<Rightarrow> json \<Rightarrow> json \<Rightarrow> 's world \<Rightarrow> 's world" where
  "roll_back k params captured w = snd (on_srv (rollback k params captured) w)"

definition confirm_window :: "'s ctx \<Rightarrow> int" where
  "confirm_window c = (case lifelineConfirmMs c of Some ms \<Rightarrow> ms | None \<Rightarrow> LIFELINE_CONFIRM_MS)"

text \<open>\<open>Math.round(ms / 1000)\<close>.\<close>

definition seconds :: "int \<Rightarrow> int" where
  "seconds ms = (ms + 500) div 1000"

definition lifeline_question :: "'s ctx \<Rightarrow> string \<Rightarrow> op_plan \<Rightarrow> server_event" where
  "lifeline_question c i plan = Question
     \<lparr>q_id = ''lifeline_confirm:'' @ i,
      q_prompt = summary plan @ '' applied. Are you still connected? Confirm within ''
        @ show_int (seconds (confirm_window c)) @ ''s or it will be rolled back automatically.'',
      q_options = [\<lparr>label = ''Still here - keep it'', opt_value = ''keep''\<rparr>,
                   \<lparr>label = ''Roll back'', opt_value = ''rollback''\<rparr>],
      q_timeout = Some (confirm_window c)\<rparr>"

text \<open>The last steps of a verified operation.\<close>

definition commit_op ::
  "'s ctx \<Rightarrow> 's kind \<Rightarrow> string \<Rightarrow> string \<Rightarrow> json \<Rightarrow> op_plan \<Rightarrow> 's world \<Rightarrow> (js_error + outcome \<times> string) \<times> 's world" where
  "commit_op c k goal i params plan w =
     (let w1 = to_phase c i Committed None w;
          message = ''Done - '' @ goal @ '', verified.'';
          w2 = onTerminal c k goal params plan True message w1
      in finish i OCommitted message w2)"

text \<open>Restore the captured state and report it as a rollback.\<close>

definition undo_op ::
  "'s ctx \<Rightarrow> 's kind \<Rightarrow> string \<Rightarrow> string \<Rightarrow> json \<Rightarrow> op_plan \<Rightarrow> json \<Rightarrow> string \<Rightarrow> string \<Rightarrow> 's world
     \<Rightarrow> (js_error + outcome \<times> string) \<times> 's world" where
  "undo_op c k goal i params plan captured why message w =
     (let w1 = roll_back k params captured w;
          w2 = to_phase c i Rolledback (Some why) w1;
          w3 = onTerminal c k goal params plan False message w2
      in finish i ORolledback message w3)"

definition lifeline_step ::
  "'s ctx \<Rightarrow> 's kind \<Rightarrow> string \<Rightarrow> string \<Rightarrow> json \<Rightarrow> op_plan \<Rightarrow> json \<Rightarrow> 's world
     \<Rightarrow> (js_error + outcome \<times> string) \<times> 's world" where
  "lifeline_step c k goal i params plan captured w =
     (let w1 = emit (OperationProgress i PAwaitingReachability) w;
          w2 = emit (lifeline_question c i plan) w1;
          (answer, w3) = answer_or_timeout c (''lifeline_confirm:'' @ i) (confirm_window c) w2;
          w4 = (if answer = ''timeout'' then w3\<lparr>cancelled := cancelled w3 @ [''lifeline_confirm:'' @ i]\<rparr> else w3)
      in if answer \<noteq> ''keep''
         then let why = (if answer = ''timeout'' then ''no reachability confirmation within the window''
                         else ''rolled back at the user'' @ [SQ] @ ''s request'')
              in undo_op c k goal i params plan captured why (''Rolled back - '' @ goal @ '': '' @ why @ ''.'') w4
         else commit_op c k goal i params plan w4)"

definition fail_text :: "bool \<Rightarrow> int \<Rightarrow> int \<Rightarrow> string" where
  "fail_text verified sev0 sev1 =
     (if \<not> verified then ''verification failed''
      else ''the server got worse during this operation (severity '' @ show_int sev0 @ '' -> '' @ show_int sev1 @ '')'')"

definition verify_step ::
  "'s ctx \<Rightarrow> 's kind \<Rightarrow> string \<Rightarrow> string \<Rightarrow> json \<Rightarrow> op_plan \<Rightarrow> json \<Rightarrow> int \<Rightarrow> 's world
     \<Rightarrow> (js_error + outcome \<times> string) \<times> 's world" where
  "verify_step c k goal i params plan captured sev0 w =
     (let w1 = emit (OperationProgress i PVerifying) (to_phase c i Verifying None w);
          (v, w2) = on_srv (verify k params) w1
      in case v of
        Inl e \<Rightarrow> (Inl e, w2)
      | Inr verified \<Rightarrow>
          let (sev1, w3) =
                (if verified then (let (r, wx) = on_srv (severity c) w2 in (case r of Inl _ \<Rightarrow> sev0 | Inr n \<Rightarrow> n, wx))
                 else (sev0, w2));
              ok = (verified \<and> \<not> sev1 > sev0)
          in if ok
             then (if plan_class plan = Some Lifeline then lifeline_step c k goal i params plan captured w3
                   else commit_op c k goal i params plan w3)
             else let why = fail_text verified sev0 sev1
                  in if \<not> irreversible plan
                     then undo_op c k goal i params plan captured why
                            ((if \<not> verified then ''Verification failed'' else ''Regressed'') @ '' - '' @ goal @ '', rolled back''
                             @ (if \<not> verified then [] else '' ('' @ why @ '')'') @ ''.'') w3
                     else let w4 = to_phase c i Committed None w3;
                              message = ''Applied - '' @ goal @ '', but '' @ why
                                @ '' and it cannot be rolled back. Inspect the current state before retrying - the change may already be in effect.'';
                              w5 = onTerminal c k goal params plan True message w4
                          in finish i OAppliedUnverified message w5)"

definition locked_op ::
  "'s ctx \<Rightarrow> 's kind \<Rightarrow> string \<Rightarrow> string \<Rightarrow> json \<Rightarrow> op_plan \<Rightarrow> 's world
     \<Rightarrow> (js_error + outcome \<times> string) \<times> 's world" where
  "locked_op c k goal i params plan w =
     (let (sb, w1) = on_srv (severity c) w;
          sev0 = (case sb of Inl _ \<Rightarrow> 0 | Inr n \<Rightarrow> n);
          w2 = emit (OperationProgress i PCapturing) (to_phase c i Capturing None w1);
          (cap, w3) = on_srv (captureState k params) w2
      in case cap of
        Inl e \<Rightarrow>
          let w4 = to_phase c i Rolledback (Some (''capture failed: '' @ error_string e)) w3
          in finish i ORolledback
               (''Could not capture the current state - '' @ goal @ '': '' @ error_string e @ ''. Nothing was changed.'') w4
      | Inr captured \<Rightarrow>
          let w4 = w3\<lparr>optab := set_captured_and_applying (now c w3) i captured captured (optab w3)\<rparr>;
              w5 = emit (OperationProgress i PApplying) w4;
              (ap, w6) = on_srv (apply_op k params) w5
          in case ap of
            Inl e \<Rightarrow> undo_op c k goal i params plan captured (error_string e)
                       (''Failed to apply - '' @ goal @ '': '' @ error_string e) w6
          | Inr _ \<Rightarrow> verify_step c k goal i params plan captured sev0 w6)"

subsection \<open>Plan and approval\<close>

definition confirm_notes :: "op_plan \<Rightarrow> string option \<Rightarrow> string" where
  "confirm_notes plan gate = join '' - '' (filter (\<lambda>s. s \<noteq> [])
     [text_or_empty (plan_warning plan),
      if irreversible plan then ''cannot be rolled back'' else [],
      case gate of Some g \<Rightarrow> if effectiveAutoApprove plan then g @ '' - a human must approve'' else [] | None \<Rightarrow> []])"

definition confirm_question :: "string \<Rightarrow> op_plan \<Rightarrow> string option \<Rightarrow> server_event" where
  "confirm_question i plan gate = Question
     \<lparr>q_id = ''op_confirm:'' @ i,
      q_prompt = ''Approve: '' @ summary plan @ ''?''
        @ (let notes = confirm_notes plan gate in if notes \<noteq> [] then '' ('' @ notes @ '')'' else []),
      q_options = [\<lparr>label = ''Approve'', opt_value = ''approve''\<rparr>, \<lparr>label = ''Cancel'', opt_value = ''cancel''\<rparr>],
      q_timeout = None\<rparr>"

definition refuse_scope ::
  "'s ctx \<Rightarrow> string \<Rightarrow> string \<Rightarrow> string \<Rightarrow> 's world \<Rightarrow> (js_error + outcome \<times> string) \<times> 's world" where
  "refuse_scope c goal i bad w =
     finish i ORolledback
       (''Refused - '' @ goal @ '': declared write scope '' @ json_string bad
          @ '' is empty, the root, or a glob; an operation must name the exact roots it writes.'')
       (to_phase c i Rolledback (Some (''refused: write scope '' @ json_string bad)) w)"

definition planned_op ::
  "'s ctx \<Rightarrow> 's kind \<Rightarrow> string \<Rightarrow> string \<Rightarrow> json \<Rightarrow> op_plan \<Rightarrow> 's world
     \<Rightarrow> (js_error + outcome \<times> string) \<times> 's world" where
  "planned_op c k goal i params plan w =
     (let gate = unattendedGate (now c w) (optab w);
          strict = (getSetting c ''mode.strict'' = Some ''true'');
          auto = (effectiveAutoApprove plan \<and> gate = None \<and> \<not> strict);
          w1 = w\<lparr>optab := set_plan (now c w) i plan auto (optab w)\<rparr>;
          w2 = emit (OperationPlan \<lparr>pl_id = i, pl_goal = goal, pl_summary = summary plan, pl_auto = auto,
                 pl_details = Some (plan_event_details plan)\<rparr>) w1
      in if auto then locked_op c k goal i params plan (acquire c w2)
         else let w3 = emit (confirm_question i plan gate) w2;
                  (answer, w4) = waitForAnswer c (''op_confirm:'' @ i) w3
              in if answer \<noteq> ''approve''
                 then finish i ORolledback ''Cancelled - nothing was changed.''
                        (to_phase c i Rolledback (Some ''cancelled by user'') w4)
                 else locked_op c k goal i params plan (acquire c w4))"

definition runOperation ::
  "'s ctx \<Rightarrow> 's kind \<Rightarrow> string \<Rightarrow> json \<Rightarrow> 's world \<Rightarrow> (js_error + outcome \<times> string) \<times> 's world" where
  "runOperation c k goal params w =
     (case (case retry_ledger w of None \<Rightarrow> None
            | Some f \<Rightarrow> ledger_check (sha256 c) (max_failures c) f (kind_name k) params) of
        Some refusal \<Rightarrow> (Inr (ORolledback, refusal), w)
      | None \<Rightarrow>
          let (i, w1) = draw c w
          in case create_operation (now c w1) i (kind_name k) goal params (optab w1) of
            Inl m \<Rightarrow> (Inl (JsError ''SQLiteError'' m), w1)
          | Inr rows \<Rightarrow>
              let (d, w2) = on_srv (describe k params) (w1\<lparr>optab := rows\<rparr>)
              in case d of
                Inl e \<Rightarrow> (Inl e, w2)
              | Inr plan \<Rightarrow>
                  case badWriteScope (plan_writes plan) of
                    Some bad \<Rightarrow> refuse_scope c goal i bad w2
                  | None \<Rightarrow> planned_op c k goal i params plan w2)"

end
