(* ===== verification/EngineFacts.thy ===== *)
theory EngineFacts
  imports Engine
begin

text \<open>
  What each step of \<open>runOperation\<close> does to the parts of the world (the collection
  \<open>world_simps\<close>), and the facts the properties of the engine rest on: what a commit went
  through, what a rollback restores (the locale \<open>reversible\<close>), which row and which event an
  outcome leaves behind.
\<close>

named_theorems world_simps \<open>what a step of the engine does to each part of the world\<close>

lemma srv_steps [world_simps]:
  "srv (emit e w) = srv w" "srv (to_phase c i p err w) = srv w" "srv (snd (draw c w)) = srv w"
  "srv (incident c kn g ip err w) = srv w" "srv (tell_owner c n w) = srv w"
  "srv (snd (finish i r m w)) = srv w"
  by (simp_all add: emit_def to_phase_def draw_def incident_def tell_owner_def finish_def Let_def)

lemma optab_steps [world_simps]:
  "optab (emit e w) = optab w" "optab (to_phase c i p err w) = set_phase (now c w) i p err (optab w)"
  "optab (snd (draw c w)) = optab w" "optab (incident c kn g ip err w) = optab w" "optab (tell_owner c n w) = optab w"
  "optab (snd (finish i r m w)) = optab w" "optab (snd (on_srv f w)) = optab w" "optab (roll_back k ps x w) = optab w"
  by (simp_all add: emit_def to_phase_def draw_def incident_def tell_owner_def finish_def on_srv_def roll_back_def
      Let_def case_prod_unfold)

lemma sent_steps [world_simps]:
  "sent (emit e w) = sent w @ [e]" "sent (to_phase c i p err w) = sent w"
  "sent (snd (draw c w)) = sent w" "sent (incident c kn g ip err w) = sent w" "sent (tell_owner c n w) = sent w"
  "sent (snd (on_srv f w)) = sent w" "sent (roll_back k ps x w) = sent w"
  by (simp_all add: emit_def to_phase_def draw_def incident_def tell_owner_def on_srv_def roll_back_def
      Let_def case_prod_unfold)

lemma onTerminal_steps [world_simps]:
  "srv (onTerminal c k goal params plan ok m w) = srv w"
  "optab (onTerminal c k goal params plan ok m w) = optab w"
  "sent (onTerminal c k goal params plan ok m w) = sent w"
  by (simp_all add: onTerminal_def Let_def world_simps split: option.splits)

lemma on_srv_srv [world_simps]: "srv (snd (on_srv f w)) = snd (f (srv w))" "fst (on_srv f w) = fst (f (srv w))"
  by (simp_all add: on_srv_def case_prod_unfold Let_def)

lemma finish_result [world_simps]: "fst (finish i r m w) = Inr (r, m)"
    "sent (snd (finish i r m w)) = sent w @ [result_event i r m]"
  by (simp_all add: finish_def emit_def)

lemma on_srv_parts: "on_srv f w = (v, w1) \<Longrightarrow>
    optab w1 = optab w \<and> sent w1 = sent w \<and> srv w1 = snd (f (srv w)) \<and> v = fst (f (srv w))"
  by (auto simp: on_srv_def Let_def case_prod_unfold)

subsection \<open>What became of the row and the client\<close>

text \<open>A run is settled when the row's phase and the last event sent carry its outcome.\<close>

definition settled_run :: "string \<Rightarrow> (js_error + outcome \<times> string) \<times> 's world \<Rightarrow> bool" where
  "settled_run i x = (case fst x of Inl _ \<Rightarrow> True
     | Inr (r, m) \<Rightarrow> (\<exists>row. get_operation i (optab (snd x)) = Some row \<and>
          op_phase row = (if r = ORolledback then Rolledback else Committed)) \<and>
        sent (snd x) \<noteq> [] \<and> last (sent (snd x)) = result_event i r m)"

definition has_row :: "string \<Rightarrow> 's world \<Rightarrow> bool" where
  "has_row i w \<longleftrightarrow> get_operation i (optab w) \<noteq> None"

lemma has_row_steps [world_simps]:
  "has_row i (emit e w) = has_row i w" "has_row i (to_phase c j p err w) = has_row i w"
  "has_row i (snd (on_srv f w)) = has_row i w" "has_row i (roll_back k ps x w) = has_row i w"
  by (simp_all add: has_row_def world_simps sql_simps)

lemma settled_finish:
  "has_row i w \<Longrightarrow> settled_run i (finish i r m (onTerminal c k g p plan ok m' (to_phase c i (if r = ORolledback then Rolledback else Committed) err w)))"
  by (auto simp: settled_run_def world_simps sql_simps has_row_def)

lemma settled_commit: "has_row i w \<Longrightarrow> settled_run i (commit_op c k goal i params plan w)"
  using settled_finish [of i w OCommitted] by (simp add: commit_op_def Let_def)

lemma settled_undo: "has_row i w \<Longrightarrow> settled_run i (undo_op c k goal i params plan captured why m w)"
  using settled_finish [of i "roll_back k params captured w" ORolledback] by (simp add: undo_op_def Let_def world_simps)

text \<open>Waiting keeps the row: the other operations of the daemon write only their own rows.\<close>

definition waits_keep :: "'s ctx \<Rightarrow> string \<Rightarrow> bool" where
  "waits_keep c i \<longleftrightarrow> (\<forall>w. has_row i w \<longrightarrow> has_row i (acquire c w) \<and>
     (\<forall>q. has_row i (snd (waitForAnswer c q w))) \<and> (\<forall>q ms. has_row i (snd (answer_or_timeout c q ms w))))"

lemma settled_lifeline:
  assumes "has_row i w" and "waits_keep c i"
  shows "settled_run i (lifeline_step c k goal i params plan captured w)"
proof -
  obtain a w3 where a: "answer_or_timeout c (''lifeline_confirm:'' @ i) (confirm_window c)
      (emit (lifeline_question c i plan) (emit (OperationProgress i PAwaitingReachability) w)) = (a, w3)" by fastforce
  have "has_row i (emit (lifeline_question c i plan) (emit (OperationProgress i PAwaitingReachability) w))"
    using assms by (simp add: world_simps)
  with assms(2) a have "has_row i w3" unfolding waits_keep_def by (metis snd_conv)
  moreover have "has_row i (w3\<lparr>cancelled := x\<rparr>) = has_row i w3" for x by (simp add: has_row_def)
  ultimately show ?thesis using a by (simp add: lifeline_step_def Let_def settled_commit settled_undo)
qed

lemma settled_verify:
  assumes "has_row i w" and "waits_keep c i"
  shows "settled_run i (verify_step c k goal i params plan captured sev0 w)"
proof -
  define w1 where "w1 = emit (OperationProgress i PVerifying) (to_phase c i Verifying None w)"
  obtain v w2 where v: "on_srv (verify k params) w1 = (v, w2)" by fastforce
  have r2: "has_row i w2" using assms(1) v has_row_steps(3) [of i "verify k params" w1]
    by (simp add: w1_def world_simps)
  show ?thesis
  proof (cases v)
    case (Inl e)
    with v show ?thesis by (simp add: verify_step_def Let_def w1_def [symmetric] settled_run_def)
  next
    case (Inr verified)
    define sw where "sw = (if verified then (let (r, wx) = on_srv (severity c) w2 in (case r of Inl _ \<Rightarrow> sev0 | Inr n \<Rightarrow> n, wx))
                 else (sev0, w2))"
    obtain sev1 w3 where s: "sw = (sev1, w3)" by fastforce
    have r3: "has_row i w3" using r2 s has_row_steps(3) [of i "severity c" w2]
      by (auto simp: sw_def case_prod_unfold Let_def split: if_splits)
    have "settled_run i (finish i OAppliedUnverified m (onTerminal c k goal params plan True m (to_phase c i Committed None w3)))" for m
      using settled_finish [OF r3, of OAppliedUnverified] by simp
    then show ?thesis using v Inr s r3 assms(2)
      by (simp add: verify_step_def Let_def w1_def [symmetric] sw_def [symmetric] settled_commit settled_undo settled_lifeline)
  qed
qed

lemma has_row_captured: "has_row i (w\<lparr>optab := set_captured_and_applying t j a b (optab w)\<rparr>) = has_row i w"
  by (simp add: has_row_def sql_simps)

lemma settled_locked:
  assumes "has_row i w" and "waits_keep c i"
  shows "settled_run i (locked_op c k goal i params plan w)"
proof -
  define w1 where "w1 = snd (on_srv (severity c) w)"
  define w2 where "w2 = emit (OperationProgress i PCapturing) (to_phase c i Capturing None w1)"
  have r2: "has_row i w2" using assms(1) by (simp add: w1_def w2_def world_simps)
  obtain cap w3 where cap: "on_srv (captureState k params) w2 = (cap, w3)" by fastforce
  have r3: "has_row i w3" using r2 cap has_row_steps(3) [of i "captureState k params" w2] by simp
  show ?thesis
  proof (cases cap)
    case (Inl e)
    with cap have "locked_op c k goal i params plan w = finish i ORolledback
        (''Could not capture the current state - '' @ goal @ '': '' @ error_string e @ ''. Nothing was changed.'')
        (to_phase c i Rolledback (Some (''capture failed: '' @ error_string e)) w3)"
      by (simp add: locked_op_def Let_def case_prod_unfold w1_def [symmetric] w2_def [symmetric])
    with r3 show ?thesis by (auto simp: settled_run_def world_simps sql_simps has_row_def)
  next
    case (Inr captured)
    define w5 where "w5 = emit (OperationProgress i PApplying)
      (w3\<lparr>optab := set_captured_and_applying (now c w3) i captured captured (optab w3)\<rparr>)"
    have r5: "has_row i w5" using r3 by (simp add: w5_def world_simps has_row_captured)
    obtain ap w6 where ap: "on_srv (apply_op k params) w5 = (ap, w6)" by fastforce
    have "has_row i w6" using r5 ap has_row_steps(3) [of i "apply_op k params" w5] by simp
    with cap Inr ap assms(2) show ?thesis
      by (cases ap) (simp_all add: locked_op_def Let_def case_prod_unfold w1_def [symmetric] w2_def [symmetric]
          w5_def [symmetric] settled_undo settled_verify)
  qed
qed

lemma settled_planned:
  assumes "has_row i w" and "waits_keep c i"
  shows "settled_run i (planned_op c k goal i params plan w)"
proof -
  define auto where "auto = (effectiveAutoApprove plan \<and> unattendedGate (now c w) (optab w) = None
    \<and> getSetting c ''mode.strict'' \<noteq> Some ''true'')"
  define w2 where "w2 = emit (OperationPlan \<lparr>pl_id = i, pl_goal = goal, pl_summary = summary plan, pl_auto = auto,
                 pl_details = Some (plan_event_details plan)\<rparr>) (w\<lparr>optab := set_plan (now c w) i plan auto (optab w)\<rparr>)"
  define w3 where "w3 = emit (confirm_question i plan (unattendedGate (now c w) (optab w))) w2"
  have r: "has_row i w2" "has_row i w3" using assms(1) by (simp_all add: w2_def w3_def has_row_def world_simps sql_simps)
  obtain a w4 where a: "waitForAnswer c (''op_confirm:'' @ i) w3 = (a, w4)" by fastforce
  have r4: "has_row i w4" using r(2) assms(2) a unfolding waits_keep_def by (metis snd_conv)
  have acq: "has_row i (acquire c w2)" "has_row i (acquire c w4)" using r(1) r4 assms(2) by (auto simp: waits_keep_def)
  have c: "settled_run i (finish i ORolledback m (to_phase c i Rolledback e w4))" for m e
    using r4 by (auto simp: settled_run_def world_simps sql_simps has_row_def)
  have "planned_op c k goal i params plan w = (if auto then locked_op c k goal i params plan (acquire c w2)
      else if a \<noteq> ''approve'' then finish i ORolledback ''Cancelled - nothing was changed.'' (to_phase c i Rolledback (Some ''cancelled by user'') w4)
      else locked_op c k goal i params plan (acquire c w4))"
    unfolding planned_op_def Let_def auto_def [symmetric] w2_def [symmetric] w3_def [symmetric] a by simp
  then show ?thesis using c settled_locked [OF acq(1) assms(2)] settled_locked [OF acq(2) assms(2)] by simp
qed

subsection \<open>What a commit went through\<close>

lemma undo_result: "fst (undo_op c k goal i params plan captured why m w) = Inr (ORolledback, m)"
  by (simp add: undo_op_def Let_def world_simps)

lemma commit_result: "\<exists>m. fst (commit_op c k goal i params plan w) = Inr (OCommitted, m)"
  by (simp add: commit_op_def Let_def world_simps)

lemma lifeline_cases:
  obtains (keep) u w4 where "fst (answer_or_timeout c (''lifeline_confirm:'' @ i) (confirm_window c) u) = ''keep''"
      "srv u = srv w" "lifeline_step c k goal i params plan captured w = commit_op c k goal i params plan w4"
  | (undo) u why m w4 where "srv w4 = srv (snd (answer_or_timeout c (''lifeline_confirm:'' @ i) (confirm_window c) u))"
      "srv u = srv w" "lifeline_step c k goal i params plan captured w = undo_op c k goal i params plan captured why m w4"
proof -
  define u where "u = emit (lifeline_question c i plan) (emit (OperationProgress i PAwaitingReachability) w)"
  have su: "srv u = srv w" by (simp add: u_def world_simps)
  obtain a w3 where a: "answer_or_timeout c (''lifeline_confirm:'' @ i) (confirm_window c) u = (a, w3)" by fastforce
  define w4 where "w4 = (if a = ''timeout'' then w3\<lparr>cancelled := cancelled w3 @ [''lifeline_confirm:'' @ i]\<rparr> else w3)"
  have s4: "srv w4 = srv (snd (answer_or_timeout c (''lifeline_confirm:'' @ i) (confirm_window c) u))" using a by (simp add: w4_def)
  show thesis
  proof (cases "a = ''keep''")
    case True
    then have "lifeline_step c k goal i params plan captured w = commit_op c k goal i params plan w4"
      using a by (simp add: lifeline_step_def Let_def u_def [symmetric] w4_def)
    with keep a su True show thesis by (metis fst_conv)
  next
    case False
    then obtain why m' where "lifeline_step c k goal i params plan captured w = undo_op c k goal i params plan captured why m' w4"
      using a by (simp add: lifeline_step_def Let_def u_def [symmetric] w4_def)
    with undo s4 su show thesis by blast
  qed
qed

lemma verify_cases:
  obtains (threw) e where "fst (verify_step c k goal i params plan captured sev0 w) = Inl e"
  | (unverified) m where "fst (verify_step c k goal i params plan captured sev0 w) = Inr (OAppliedUnverified, m)" "irreversible plan"
  | (undone) why m w3 where "verify_step c k goal i params plan captured sev0 w = undo_op c k goal i params plan captured why m w3"
      "srv w3 \<in> {snd (verify k params (srv w)), snd (severity c (snd (verify k params (srv w))))}" "\<not> irreversible plan"
  | (verified) w3 where "fst (verify k params (srv w)) = Inr True" "srv w3 = snd (severity c (snd (verify k params (srv w))))"
      "\<forall>n. fst (severity c (snd (verify k params (srv w)))) = Inr n \<longrightarrow> n \<le> sev0"
      "verify_step c k goal i params plan captured sev0 w =
         (if plan_class plan = Some Lifeline then lifeline_step c k goal i params plan captured w3
          else commit_op c k goal i params plan w3)"
proof -
  define w1 where "w1 = emit (OperationProgress i PVerifying) (to_phase c i Verifying None w)"
  obtain v w2 where v: "on_srv (verify k params) w1 = (v, w2)" by fastforce
  have ver: "verify k params (srv w) = (v, srv w2)"
    using v on_srv_srv [of "verify k params" w1] by (simp add: w1_def world_simps prod_eq_iff)
  show thesis
  proof (cases v)
    case (Inl e)
    then have "fst (verify_step c k goal i params plan captured sev0 w) = Inl e"
      using v by (simp add: verify_step_def Let_def w1_def [symmetric])
    then show thesis by (rule threw)
  next
    case (Inr b)
    define sw where "sw = (if b then (let (r, wx) = on_srv (severity c) w2 in (case r of Inl _ \<Rightarrow> sev0 | Inr n \<Rightarrow> n, wx)) else (sev0, w2))"
    obtain sev1 w3 where sev: "sw = (sev1, w3)" by fastforce
    have s3: "srv w3 = (if b then snd (severity c (srv w2)) else srv w2)"
      using sev on_srv_srv [of "severity c" w2] by (auto simp: sw_def Let_def case_prod_unfold split: if_splits)
    have n3: "b \<Longrightarrow> fst (severity c (srv w2)) = Inr n \<Longrightarrow> sev1 = n" for n
      using sev by (auto simp: sw_def Let_def case_prod_unfold world_simps)
    note unf = verify_step_def Let_def w1_def [symmetric] v Inr prod.case sum.case sw_def [unfolded Let_def, symmetric] sev
    show thesis
    proof (cases "b \<and> \<not> sev1 > sev0")
      case True
      then have "verify_step c k goal i params plan captured sev0 w =
         (if plan_class plan = Some Lifeline then lifeline_step c k goal i params plan captured w3
          else commit_op c k goal i params plan w3)" unfolding unf by simp
      with True ver Inr s3 n3 show thesis by (intro verified [of w3]) auto
    next
      case bad: False
      show thesis
      proof (cases "irreversible plan")
        case True
        with bad have "\<exists>m. fst (verify_step c k goal i params plan captured sev0 w) = Inr (OAppliedUnverified, m)"
          unfolding unf by (auto simp: world_simps)
        with True unverified show thesis by blast
      next
        case False
        with bad have "\<exists>why m. verify_step c k goal i params plan captured sev0 w = undo_op c k goal i params plan captured why m w3"
          unfolding unf by simp blast
        with False s3 ver undone show thesis by (metis insertCI snd_conv)
      qed
    qed
  qed
qed

lemma lifeline_commit:
  assumes "fst (lifeline_step c k goal i params plan captured w) = Inr (OCommitted, m)"
  shows "\<exists>u. srv u = srv w \<and> fst (answer_or_timeout c (''lifeline_confirm:'' @ i) (confirm_window c) u) = ''keep''"
proof (rule lifeline_cases [of c i w k goal params plan captured])
qed (use assms in \<open>auto simp: undo_result\<close>)

lemma verify_commit:
  assumes "fst (verify_step c k goal i params plan captured sev0 w) = Inr (OCommitted, m)"
  shows "\<exists>s4. verify k params (srv w) = (Inr True, s4) \<and> (\<forall>n. fst (severity c s4) = Inr n \<longrightarrow> n \<le> sev0) \<and>
    (plan_class plan = Some Lifeline \<longrightarrow>
       (\<exists>u. srv u = snd (severity c s4) \<and>
         fst (answer_or_timeout c (''lifeline_confirm:'' @ i) (confirm_window c) u) = ''keep''))"
proof (rule verify_cases [of c k goal i params plan captured sev0 w])
  fix w3
  assume "fst (verify k params (srv w)) = Inr True" "srv w3 = snd (severity c (snd (verify k params (srv w))))"
    "\<forall>n. fst (severity c (snd (verify k params (srv w)))) = Inr n \<longrightarrow> n \<le> sev0"
    "verify_step c k goal i params plan captured sev0 w =
         (if plan_class plan = Some Lifeline then lifeline_step c k goal i params plan captured w3
          else commit_op c k goal i params plan w3)"
  then show ?thesis using assms lifeline_commit [of c k goal i params plan captured w3 m]
    by (intro exI [of _ "snd (verify k params (srv w))"]) (auto simp: prod_eq_iff)
qed (use assms in \<open>auto simp: undo_result\<close>)

text \<open>The server after each call of the kind, and the rest of the run.\<close>

definition baseline :: "'s ctx \<Rightarrow> 's world \<Rightarrow> int" where
  "baseline c w = (case fst (severity c (srv w)) of Inl _ \<Rightarrow> 0 | Inr n \<Rightarrow> n)"

lemma locked_cases:
  obtains (capture_failed) e s2 m w3 err where "captureState k params (snd (severity c (srv w))) = (Inl e, s2)"
      "srv w3 = s2" "locked_op c k goal i params plan w = finish i ORolledback m (to_phase c i Rolledback err w3)"
  | (apply_failed) cap s2 e s3 m why w6 where "captureState k params (snd (severity c (srv w))) = (Inr cap, s2)"
      "apply_op k params s2 = (Inl e, s3)" "srv w6 = s3"
      "locked_op c k goal i params plan w = undo_op c k goal i params plan cap why m w6"
  | (applied) cap s2 s3 w6 where "captureState k params (snd (severity c (srv w))) = (Inr cap, s2)"
      "apply_op k params s2 = (Inr (), s3)" "srv w6 = s3"
      "locked_op c k goal i params plan w = verify_step c k goal i params plan cap (baseline c w) w6"
      "has_row i w6 = has_row i w" "sent w6 = sent w @ [OperationProgress i PCapturing, OperationProgress i PApplying]"
proof -
  define w1 where "w1 = snd (on_srv (severity c) w)"
  define w2 where "w2 = emit (OperationProgress i PCapturing) (to_phase c i Capturing None w1)"
  have s2: "srv w2 = snd (severity c (srv w))" by (simp add: w2_def w1_def world_simps)
  have bl: "(case fst (on_srv (severity c) w) of Inl _ \<Rightarrow> 0 | Inr n \<Rightarrow> n) = baseline c w"
    by (simp add: baseline_def world_simps)
  obtain cap w3 where cap: "on_srv (captureState k params) w2 = (cap, w3)" by fastforce
  have c3: "captureState k params (snd (severity c (srv w))) = (cap, srv w3)"
    using cap on_srv_srv [of "captureState k params" w2] s2 by (simp add: prod_eq_iff)
  show thesis
  proof (cases cap)
    case (Inl e)
    then have "locked_op c k goal i params plan w = finish i ORolledback
        (''Could not capture the current state - '' @ goal @ '': '' @ error_string e @ ''. Nothing was changed.'')
        (to_phase c i Rolledback (Some (''capture failed: '' @ error_string e)) w3)"
      using cap by (simp add: locked_op_def Let_def case_prod_unfold w1_def [symmetric] w2_def [symmetric])
    with c3 Inl show thesis using capture_failed by blast
  next
    case (Inr captured)
    define w5 where "w5 = emit (OperationProgress i PApplying)
      (w3\<lparr>optab := set_captured_and_applying (now c w3) i captured captured (optab w3)\<rparr>)"
    have s5: "srv w5 = srv w3" by (simp add: w5_def world_simps)
    obtain ap w6 where ap: "on_srv (apply_op k params) w5 = (ap, w6)" by fastforce
    have c6: "apply_op k params (srv w3) = (ap, srv w6)"
      using ap on_srv_srv [of "apply_op k params" w5] s5 by (simp add: prod_eq_iff)
    note fold = locked_op_def Let_def case_prod_unfold w1_def [symmetric] w2_def [symmetric] w5_def [symmetric] bl
    show thesis
    proof (cases ap)
      case (Inl e)
      with ap have "locked_op c k goal i params plan w = undo_op c k goal i params plan captured (error_string e)
                       (''Failed to apply - '' @ goal @ '': '' @ error_string e) w6"
        using cap \<open>cap = Inr captured\<close> by (simp add: fold)
      with c3 \<open>cap = Inr captured\<close> c6 Inl show thesis using apply_failed by blast
    next
      case (Inr u)
      with ap have "locked_op c k goal i params plan w = verify_step c k goal i params plan captured (baseline c w) w6"
        using cap \<open>cap = Inr captured\<close> by (simp add: fold)
      moreover have "has_row i w6 = has_row i w"
        using on_srv_parts [OF ap] on_srv_parts [OF cap]
        by (simp add: has_row_def w5_def w2_def w1_def world_simps sql_simps)
      moreover have "sent w6 = sent w @ [OperationProgress i PCapturing, OperationProgress i PApplying]"
        using on_srv_parts [OF ap] on_srv_parts [OF cap] by (simp add: w5_def w2_def w1_def world_simps)
      ultimately show thesis using c3 \<open>cap = Inr captured\<close> c6 Inr applied [of captured "srv w3" "srv w6" w6] by simp
    qed
  qed
qed

definition verified_run :: "'s ctx \<Rightarrow> 's kind \<Rightarrow> string \<Rightarrow> json \<Rightarrow> op_plan \<Rightarrow> 's world \<Rightarrow> bool" where
  "verified_run c k i params plan w \<longleftrightarrow> (\<exists>cap s1 s2 s3.
     captureState k params (snd (severity c (srv w))) = (Inr cap, s1) \<and> apply_op k params s1 = (Inr (), s2) \<and>
     verify k params s2 = (Inr True, s3) \<and> (\<forall>n. fst (severity c s3) = Inr n \<longrightarrow> n \<le> baseline c w) \<and>
     (plan_class plan = Some Lifeline \<longrightarrow> (\<exists>u. srv u = snd (severity c s3) \<and>
        fst (answer_or_timeout c (''lifeline_confirm:'' @ i) (confirm_window c) u) = ''keep'')))"

lemma locked_commit:
  assumes "fst (locked_op c k goal i params plan w) = Inr (OCommitted, m)"
  shows "verified_run c k i params plan w"
proof (rule locked_cases [of k params c w goal i plan])
  fix cap s2 s3 w6
  assume a: "captureState k params (snd (severity c (srv w))) = (Inr cap, s2)" "apply_op k params s2 = (Inr (), s3)"
    "srv w6 = s3" "locked_op c k goal i params plan w = verify_step c k goal i params plan cap (baseline c w) w6"
  from assms a(4) have "fst (verify_step c k goal i params plan cap (baseline c w) w6) = Inr (OCommitted, m)" by simp
  from verify_commit [OF this] a(1-3) show ?thesis unfolding verified_run_def by blast
qed (use assms in \<open>auto simp: undo_result world_simps\<close>)

subsection \<open>An exception from verify\<close>

definition row_phase :: "string \<Rightarrow> 's world \<Rightarrow> phase option" where
  "row_phase i w = map_option op_phase (get_operation i (optab w))"

lemma undo_no_throw: "fst (undo_op c k goal i params plan captured why m w) \<noteq> Inl e"
  by (simp add: undo_result)

lemma commit_no_throw: "fst (commit_op c k goal i params plan w) \<noteq> Inl e"
  using commit_result [of c k goal i params plan w] by auto

lemma lifeline_no_throw: "fst (lifeline_step c k goal i params plan captured w) \<noteq> Inl e"
  by (rule lifeline_cases [of c i w k goal params plan captured]) (simp_all add: undo_no_throw commit_no_throw)

lemma verify_throws:
  assumes "fst (verify_step c k goal i params plan captured sev0 w) = Inl e" and "has_row i w"
  shows "row_phase i (snd (verify_step c k goal i params plan captured sev0 w)) = Some Verifying"
    and "sent (snd (verify_step c k goal i params plan captured sev0 w)) = sent w @ [OperationProgress i PVerifying]"
    and "fst (verify k params (srv w)) = Inl e"
proof -
  define w1 where "w1 = emit (OperationProgress i PVerifying) (to_phase c i Verifying None w)"
  obtain v w2 where v: "on_srv (verify k params) w1 = (v, w2)" by fastforce
  have ver: "fst (verify k params (srv w)) = v"
    using v on_srv_srv [of "verify k params" w1] by (simp add: w1_def world_simps)
  have "\<exists>e'. v = Inl e'"
  proof (rule verify_cases [of c k goal i params plan captured sev0 w])
    fix w3
    assume "verify_step c k goal i params plan captured sev0 w =
         (if plan_class plan = Some Lifeline then lifeline_step c k goal i params plan captured w3
          else commit_op c k goal i params plan w3)"
    with assms(1) show ?thesis by (simp add: lifeline_no_throw commit_no_throw split: if_splits)
  next
    fix e'
    assume "fst (verify_step c k goal i params plan captured sev0 w) = Inl e'"
    show ?thesis
    proof (cases v)
      case (Inr b)
      define sw where "sw = (if b then (let (r, wx) = on_srv (severity c) w2 in (case r of Inl _ \<Rightarrow> sev0 | Inr n \<Rightarrow> n, wx)) else (sev0, w2))"
      obtain sev1 w3 where sev: "sw = (sev1, w3)" by fastforce
      note unf = verify_step_def Let_def w1_def [symmetric] v Inr prod.case sum.case sw_def [unfolded Let_def, symmetric] sev
      from assms(1) show ?thesis
        unfolding unf by (auto simp: lifeline_no_throw commit_no_throw undo_no_throw world_simps split: if_splits)
    qed simp
  qed (use assms(1) in \<open>auto simp: undo_no_throw\<close>)
  then obtain e' where e': "v = Inl e'" by blast
  then have eq: "verify_step c k goal i params plan captured sev0 w = (Inl e', w2)"
    using v by (simp add: verify_step_def Let_def w1_def [symmetric])
  have o2: "optab w2 = set_phase (now c w) i Verifying None (optab w)" "sent w2 = sent w @ [OperationProgress i PVerifying]"
    using on_srv_parts [OF v] by (simp_all add: w1_def world_simps now_def)
  from eq o2 assms(2) show "row_phase i (snd (verify_step c k goal i params plan captured sev0 w)) = Some Verifying"
    by (auto simp: row_phase_def sql_simps has_row_def)
  from eq o2 show "sent (snd (verify_step c k goal i params plan captured sev0 w)) = sent w @ [OperationProgress i PVerifying]"
    by simp
  from eq ver e' assms(1) show "fst (verify k params (srv w)) = Inl e" by simp
qed

lemma locked_throws:
  assumes "fst (locked_op c k goal i params plan w) = Inl e" and "has_row i w"
  shows "row_phase i (snd (locked_op c k goal i params plan w)) = Some Verifying"
    and "sent (snd (locked_op c k goal i params plan w)) =
      sent w @ [OperationProgress i PCapturing, OperationProgress i PApplying, OperationProgress i PVerifying]"
proof -
  have "\<exists>w6 cap. locked_op c k goal i params plan w = verify_step c k goal i params plan cap (baseline c w) w6 \<and>
      has_row i w6 \<and> sent w6 = sent w @ [OperationProgress i PCapturing, OperationProgress i PApplying]"
    by (rule locked_cases [of k params c w goal i plan]) (use assms in \<open>auto simp: world_simps undo_no_throw\<close>)
  then obtain w6 cap where eq: "locked_op c k goal i params plan w = verify_step c k goal i params plan cap (baseline c w) w6"
    and r: "has_row i w6" and s: "sent w6 = sent w @ [OperationProgress i PCapturing, OperationProgress i PApplying]" by blast
  from assms(1) eq have "fst (verify_step c k goal i params plan cap (baseline c w) w6) = Inl e" by simp
  from verify_throws [OF this r] eq s
  show "row_phase i (snd (locked_op c k goal i params plan w)) = Some Verifying"
    "sent (snd (locked_op c k goal i params plan w)) =
      sent w @ [OperationProgress i PCapturing, OperationProgress i PApplying, OperationProgress i PVerifying]" by simp_all
qed

subsection \<open>Who approved\<close>

definition auto_allowed :: "'s ctx \<Rightarrow> op_plan \<Rightarrow> 's world \<Rightarrow> bool" where
  "auto_allowed c plan w \<longleftrightarrow> effectiveAutoApprove plan \<and> unattendedGate (now c w) (optab w) = None
    \<and> getSetting c ''mode.strict'' \<noteq> Some ''true''"

definition approved :: "'s ctx \<Rightarrow> string \<Rightarrow> bool" where
  "approved c i \<longleftrightarrow> (\<exists>u. fst (waitForAnswer c (''op_confirm:'' @ i) u) = ''approve'')"

lemma planned_cases:
  obtains (auto) u where "auto_allowed c plan w" "srv u = srv w"
      "planned_op c k goal i params plan w = locked_op c k goal i params plan (acquire c u)"
  | (asked) u where "\<not> auto_allowed c plan w" "fst (waitForAnswer c (''op_confirm:'' @ i) u) = ''approve''" "srv u = srv w"
      "planned_op c k goal i params plan w
         = locked_op c k goal i params plan (acquire c (snd (waitForAnswer c (''op_confirm:'' @ i) u)))"
  | (cancelled) u where "\<not> auto_allowed c plan w" "fst (waitForAnswer c (''op_confirm:'' @ i) u) \<noteq> ''approve''" "srv u = srv w"
      "planned_op c k goal i params plan w = finish i ORolledback ''Cancelled - nothing was changed.''
         (to_phase c i Rolledback (Some ''cancelled by user'') (snd (waitForAnswer c (''op_confirm:'' @ i) u)))"
proof -
  define w2 where "w2 = emit (OperationPlan \<lparr>pl_id = i, pl_goal = goal, pl_summary = summary plan, pl_auto = auto_allowed c plan w,
                 pl_details = Some (plan_event_details plan)\<rparr>) (w\<lparr>optab := set_plan (now c w) i plan (auto_allowed c plan w) (optab w)\<rparr>)"
  define w3 where "w3 = emit (confirm_question i plan (unattendedGate (now c w) (optab w))) w2"
  have s: "srv w2 = srv w" "srv w3 = srv w" by (simp_all add: w2_def w3_def world_simps)
  obtain a w4 where a: "waitForAnswer c (''op_confirm:'' @ i) w3 = (a, w4)" by fastforce
  have auto: "(effectiveAutoApprove plan \<and> unattendedGate (now c w) (optab w) = None \<and> \<not> (getSetting c ''mode.strict'' = Some ''true''))
      = auto_allowed c plan w" by (simp add: auto_allowed_def)
  have eq: "planned_op c k goal i params plan w = (if auto_allowed c plan w then locked_op c k goal i params plan (acquire c w2)
      else if a \<noteq> ''approve'' then finish i ORolledback ''Cancelled - nothing was changed.'' (to_phase c i Rolledback (Some ''cancelled by user'') w4)
      else locked_op c k goal i params plan (acquire c w4))"
    unfolding planned_op_def Let_def auto w2_def [symmetric] w3_def [symmetric] a by simp
  show thesis
  proof (cases "auto_allowed c plan w")
    case True
    with eq s show thesis using that(1) [of w2] by simp
  next
    case False
    with eq s a show thesis using that(2) [of w3] that(3) [of w3] by (cases "a = ''approve''") simp_all
  qed
qed

text \<open>Without an approval the kind is not consulted after its plan.\<close>

lemma planned_unapproved:
  assumes "\<not> auto_allowed c plan w" and "\<not> approved c i"
  shows "planned_op c k goal i params plan w = planned_op c k' goal i params plan w"
proof -
  have no: "fst (waitForAnswer c (''op_confirm:'' @ i) u) \<noteq> ''approve''" for u
    using assms(2) by (auto simp: approved_def)
  have auto: "(effectiveAutoApprove plan \<and> unattendedGate (now c w) (optab w) = None \<and> \<not> (getSetting c ''mode.strict'' = Some ''true''))
      = False" using assms(1) by (auto simp: auto_allowed_def)
  show ?thesis unfolding planned_op_def Let_def auto using no by (simp add: case_prod_unfold)
qed

lemma undo_ledger: "retry_ledger (snd (undo_op c k goal i params plan captured why m w)) =
    map_option (\<lambda>f. ledger_record (sha256 c) f (kind_name k) params m) (retry_ledger w)"
  by (simp add: undo_op_def finish_def emit_def onTerminal_def incident_def tell_owner_def draw_def to_phase_def
      roll_back_def on_srv_def Let_def case_prod_unfold split: option.splits)

lemma run_cases:
  obtains (refused) t where "runOperation c k goal params w = (Inr (ORolledback, t), w)"
  | (threw) e where "fst (runOperation c k goal params w) = Inl e"
  | (bad_scope) plan t i where "fst (describe k params (srv w)) = Inr plan" "badWriteScope (plan_writes plan) \<noteq> None"
      "fst (runOperation c k goal params w) = Inr (ORolledback, t)"
      "srv (snd (runOperation c k goal params w)) = snd (describe k params (srv w))"
      "settled_run i (runOperation c k goal params w)"
  | (planned) plan i u where "fst (describe k params (srv w)) = Inr plan" "badWriteScope (plan_writes plan) = None"
      "srv u = snd (describe k params (srv w))" "has_row i u"
      "runOperation c k goal params w = planned_op c k goal i params plan u"
proof -
  obtain i w1 where d: "draw c w = (i, w1)" by fastforce
  have s1: "srv w1 = srv w" "optab w1 = optab w" using srv_steps(3) [of c w] optab_steps(3) [of c w] d by simp_all
  show thesis
  proof (cases "case retry_ledger w of None \<Rightarrow> None | Some f \<Rightarrow> ledger_check (sha256 c) (max_failures c) f (kind_name k) params")
    case (Some t)
    then have "runOperation c k goal params w = (Inr (ORolledback, t), w)" by (simp add: runOperation_def)
    then show thesis by (rule refused)
  next
    case None
    note un = runOperation_def None option.case d Let_def prod.case
    show thesis
    proof (cases "create_operation (now c w1) i (kind_name k) goal params (optab w1)")
      case (Inl m)
      then have "fst (runOperation c k goal params w) = Inl (JsError ''SQLiteError'' m)" unfolding un by simp
      then show thesis by (rule threw)
    next
      case (Inr rows)
      obtain r w2 where r: "on_srv (describe k params) (w1\<lparr>optab := rows\<rparr>) = (r, w2)" by fastforce
      have s2: "srv w2 = snd (describe k params (srv w))" "r = fst (describe k params (srv w))" "optab w2 = rows"
        using on_srv_srv [of "describe k params" "w1\<lparr>optab := rows\<rparr>"] optab_steps(7) [of "describe k params" "w1\<lparr>optab := rows\<rparr>"]
          r s1 by simp_all
      have row: "has_row i w2" using create_get [OF Inr] s2(3) by (simp add: has_row_def)
      have eq: "runOperation c k goal params w = (case r of Inl e \<Rightarrow> (Inl e, w2)
          | Inr plan \<Rightarrow> (case badWriteScope (plan_writes plan) of Some bad \<Rightarrow> refuse_scope c goal i bad w2
              | None \<Rightarrow> planned_op c k goal i params plan w2))"
        unfolding un using Inr r by simp
      show thesis
      proof (cases r)
        case (Inl e)
        with eq threw show thesis by simp
      next
        case (Inr plan)
        show thesis
        proof (cases "badWriteScope (plan_writes plan)")
          case None
          with eq Inr s2 row show thesis using planned [of plan w2 i] by simp
        next
          case (Some bad)
          have "settled_run i (refuse_scope c goal i bad w2)"
            using row by (auto simp: refuse_scope_def settled_run_def world_simps sql_simps has_row_def)
          with Some eq Inr s2 show thesis using bad_scope [of plan _ i] by (simp add: refuse_scope_def world_simps)
        qed
      qed
    qed
  qed
qed

subsection \<open>Kinds that can be undone\<close>

text \<open>
  The contract of a reversible kind over the part \<open>obs\<close> of the server it manages: from a server
  it \<open>can\<close> work on, \<open>captureState\<close> returns what a rollback needs to bring \<open>obs\<close> back (the
  relation \<open>recovers\<close> of a captured value, an observation and a server), apply and verify keep it
  so, and the rollback does bring it back.
\<close>

locale reversible =
  fixes k :: "'s kind" and params :: json and obs :: "'s \<Rightarrow> 'o"
    and can :: "'s \<Rightarrow> bool" and recovers :: "json \<Rightarrow> 'o \<Rightarrow> 's \<Rightarrow> bool"
  assumes capture_ok: "can s \<Longrightarrow> captureState k params s = (Inr cap, s1) \<Longrightarrow> recovers cap (obs s) s1"
    and capture_fail: "captureState k params s = (Inl e, s1) \<Longrightarrow> obs s1 = obs s"
    and apply_ok: "recovers cap v s \<Longrightarrow> recovers cap v (snd (apply_op k params s))"
    and verify_ok: "recovers cap v s \<Longrightarrow> recovers cap v (snd (verify k params s))"
    and restores: "recovers cap v s \<Longrightarrow> obs (snd (rollback k params cap s)) = v"
begin

text \<open>The oracle and the waits leave what the rollback needs alone.\<close>

definition quiet :: "'s ctx \<Rightarrow> bool" where
  "quiet c \<longleftrightarrow> (\<forall>s. obs (snd (severity c s)) = obs s \<and> can (snd (severity c s)) = can s) \<and>
     (\<forall>cap v s. recovers cap v s \<longrightarrow> recovers cap v (snd (severity c s))) \<and>
     (\<forall>q ms cap v w. recovers cap v (srv w) \<longrightarrow> recovers cap v (srv (snd (answer_or_timeout c q ms w))))"

lemma undo_restores: "recovers cap v (srv w) \<Longrightarrow> obs (srv (snd (undo_op c k goal i params plan cap why m w))) = v"
  by (simp add: undo_op_def Let_def world_simps roll_back_def restores)

lemma lifeline_restores:
  assumes "quiet c" and "recovers cap v (srv w)" and "fst (lifeline_step c k goal i params plan cap w) = Inr (ORolledback, m)"
  shows "obs (srv (snd (lifeline_step c k goal i params plan cap w))) = v"
proof (rule lifeline_cases [of c i w k goal params plan cap])
  fix u w4
  assume "lifeline_step c k goal i params plan cap w = commit_op c k goal i params plan w4"
  with assms(3) commit_result [of c k goal i params plan w4] show ?thesis by auto
next
  fix u why m' w4
  assume "srv w4 = srv (snd (answer_or_timeout c (''lifeline_confirm:'' @ i) (confirm_window c) u))" "srv u = srv w"
    "lifeline_step c k goal i params plan cap w = undo_op c k goal i params plan cap why m' w4"
  moreover from this assms(1,2) have "recovers cap v (srv w4)" by (simp add: quiet_def)
  ultimately show ?thesis by (simp add: undo_restores)
qed

lemma verify_restores:
  assumes "quiet c" and "recovers cap v (srv w)" and "fst (verify_step c k goal i params plan cap sev0 w) = Inr (ORolledback, m)"
  shows "obs (srv (snd (verify_step c k goal i params plan cap sev0 w))) = v"
proof -
  have ok2: "recovers cap v (snd (verify k params (srv w)))" "recovers cap v (snd (severity c (snd (verify k params (srv w)))))"
    using assms(1,2) verify_ok by (auto simp: quiet_def)
  show ?thesis
  proof (rule verify_cases [of c k goal i params plan cap sev0 w])
    fix why m' w3
    assume "verify_step c k goal i params plan cap sev0 w = undo_op c k goal i params plan cap why m' w3"
      "srv w3 \<in> {snd (verify k params (srv w)), snd (severity c (snd (verify k params (srv w))))}"
    then show ?thesis using ok2 by (auto simp: undo_restores)
  next
    fix w3
    assume "srv w3 = snd (severity c (snd (verify k params (srv w))))"
      and eq: "verify_step c k goal i params plan cap sev0 w =
         (if plan_class plan = Some Lifeline then lifeline_step c k goal i params plan cap w3
          else commit_op c k goal i params plan w3)"
    then have "recovers cap v (srv w3)" using ok2 by simp
    from lifeline_restores [OF assms(1) this] eq assms(3) commit_result [of c k goal i params plan w3]
    show ?thesis by (auto split: if_splits)
  qed (use assms(3) in auto)
qed

text \<open>Reported as rolled back, the server is what it was before the operation.\<close>

lemma rolled_back_restores:
  assumes "quiet c" and "can (srv w)" and "fst (locked_op c k goal i params plan w) = Inr (ORolledback, m)"
  shows "obs (srv (snd (locked_op c k goal i params plan w))) = obs (srv w)"
proof -
  have sv: "obs (snd (severity c (srv w))) = obs (srv w)" "can (snd (severity c (srv w)))"
    using assms(1,2) by (simp_all add: quiet_def)
  show ?thesis
  proof (rule locked_cases [of k params c w goal i plan])
    fix e s2 m' w3 err
    assume "captureState k params (snd (severity c (srv w))) = (Inl e, s2)" "srv w3 = s2"
      "locked_op c k goal i params plan w = finish i ORolledback m' (to_phase c i Rolledback err w3)"
    then show ?thesis using sv capture_fail by (simp add: world_simps)
  next
    fix cap s2 e s3 m' why w6
    assume a: "captureState k params (snd (severity c (srv w))) = (Inr cap, s2)" "apply_op k params s2 = (Inl e, s3)"
      "srv w6 = s3" "locked_op c k goal i params plan w = undo_op c k goal i params plan cap why m' w6"
    have "recovers cap (obs (srv w)) s2" using capture_ok [OF sv(2) a(1)] sv(1) by simp
    then have "recovers cap (obs (srv w)) s3" using apply_ok [of cap "obs (srv w)" s2] a(2) by simp
    then show ?thesis using a by (simp add: undo_restores)
  next
    fix cap s2 s3 w6
    assume a: "captureState k params (snd (severity c (srv w))) = (Inr cap, s2)" "apply_op k params s2 = (Inr (), s3)"
      "srv w6 = s3" "locked_op c k goal i params plan w = verify_step c k goal i params plan cap (baseline c w) w6"
    have "recovers cap (obs (srv w)) s2" using capture_ok [OF sv(2) a(1)] sv(1) by simp
    then have "recovers cap (obs (srv w)) s3" using apply_ok [of cap "obs (srv w)" s2] a(2) by simp
    then show ?thesis using a assms verify_restores [of c cap "obs (srv w)" w6] by simp
  qed
qed

end

end
