(* ===== verification/Reconcile.thy ===== *)
theory Reconcile
  imports EngineFacts
begin

text \<open>
  Boot-time reconciliation of \<open>engine.ts\<close> (\<open>reconcileOperations\<close>): every row a crash left in a
  non-terminal phase is judged once, with the recovery data its row holds and never by running
  apply again.
\<close>



text \<open>What \<open>JSON.parse\<close> of a stored column yields; \<open>None\<close> is the \<open>SyntaxError\<close> of a torn row.\<close>

definition parse_column :: "'a column \<Rightarrow> 'a option" where
  "parse_column col = (case col of Text v \<Rightarrow> Some v | Torn \<Rightarrow> None)"

definition stored_plan :: "op_row \<Rightarrow> op_plan option" where
  "stored_plan r = (case op_plan_col r of None \<Rightarrow> None | Some col \<Rightarrow> parse_column col)"

definition settle ::
  "'s ctx \<Rightarrow> op_row \<Rightarrow> string option \<Rightarrow> 's world \<Rightarrow> 's world" where
  "settle c r failure w =
     (case failure of
        Some err \<Rightarrow> incident c (op_kind r) (op_goal r) IncRolledback (Some err) (to_phase c (op_id r) Rolledback (Some err) w)
      | None \<Rightarrow> incident c (op_kind r) (op_goal r) IncCommitted None (to_phase c (op_id r) Committed None w))"

definition own_verdict ::
  "'s ctx \<Rightarrow> string \<Rightarrow> (json \<Rightarrow> json \<Rightarrow> 's \<Rightarrow> (js_error + outcome \<times> string) \<times> 's) \<Rightarrow> op_row \<Rightarrow> json column \<Rightarrow> 's world
     \<Rightarrow> (outcome \<times> string) \<times> 's world" where
  "own_verdict c torn f r cap w =
     (let failed = (\<lambda>m. (ORolledback, ''reconciled after crash: '' @ m))
      in case (parse_column (op_params r), parse_column cap) of
           (Some params, Some captured) \<Rightarrow>
             (let (v, w1) = on_srv (f params captured) w
              in (case v of Inl e \<Rightarrow> failed (error_message e) | Inr x \<Rightarrow> x, w1))
         | _ \<Rightarrow> (failed torn, w))"

definition reconcile_row ::
  "'s ctx \<Rightarrow> string \<Rightarrow> (string \<Rightarrow> 's kind option) \<Rightarrow> op_row \<Rightarrow> 's world \<Rightarrow> (outcome \<times> string) list \<times> 's world" where
  "reconcile_row c torn kinds r w =
     (let plan = stored_plan r;
          own = (case kinds (op_kind r) of None \<Rightarrow> None | Some k \<Rightarrow> kind_reconcile k)
      in case (own, captured_state r) of
        (Some f, Some cap) \<Rightarrow>
          (let (v, w1) = own_verdict c torn f r cap w
           in ([v], settle c r (if fst v = ORolledback then Some (snd v) else None) w1))
      | _ \<Rightarrow>
        if (case plan of None \<Rightarrow> False | Some p \<Rightarrow> irreversible p) then
          (let w1 = (case (kinds (op_kind r), parse_column (op_params r)) of
                       (Some k, Some params) \<Rightarrow> snd (on_srv (verify k params) w)
                     | _ \<Rightarrow> w)
           in ([], settle c r None w1))
        else case (kinds (op_kind r), captured_state r, rollback_col r) of
          (Some k, Some cap, Some rb) \<Rightarrow>
            (case (parse_column (op_params r), parse_column cap) of
               (Some params, Some captured) \<Rightarrow>
                 (let (v, w1) = on_srv (verify k params) w
                  in case v of
                    Inl e \<Rightarrow> ([], settle c r (Some (''reconciled after crash: '' @ error_string e)) (roll_back k params captured w1))
                  | Inr True \<Rightarrow>
                      if (case plan of None \<Rightarrow> False | Some p \<Rightarrow> plan_class p = Some Lifeline)
                      then ([], settle c r (Some ''reconciled after crash: lifeline reachability could not be confirmed'')
                                  (roll_back k params captured w1))
                      else ([], settle c r None w1)
                  | Inr False \<Rightarrow> ([], settle c r (Some ''reconciled after crash: verification failed'')
                                     (roll_back k params captured w1)))
             | _ \<Rightarrow> ([], settle c r (Some (''reconciled after crash: unreadable recovery data ('' @ torn @ '')'')) w))
        | _ \<Rightarrow> ([], settle c r (Some ''reconciled after crash: no known kind/recovery data'') w))"

fun reconcile_rows ::
  "'s ctx \<Rightarrow> string \<Rightarrow> (string \<Rightarrow> 's kind option) \<Rightarrow> op_row list \<Rightarrow> 's world \<Rightarrow> (outcome \<times> string) list \<times> 's world" where
  "reconcile_rows c torn kinds [] w = ([], w)"
| "reconcile_rows c torn kinds (r # rs) w =
     (let (v, w1) = reconcile_row c torn kinds r w; (vs, w2) = reconcile_rows c torn kinds rs w1 in (v @ vs, w2))"

fun drop_unstarted :: "'s ctx \<Rightarrow> op_row list \<Rightarrow> 's world \<Rightarrow> 's world" where
  "drop_unstarted c [] w = w"
| "drop_unstarted c (r # rs) w =
     drop_unstarted c rs (to_phase c (op_id r) Rolledback (Some ''interrupted before any change was made'') w)"

definition reconcileOperations ::
  "'s ctx \<Rightarrow> string \<Rightarrow> (string \<Rightarrow> 's kind option) \<Rightarrow> 's world \<Rightarrow> (outcome \<times> string) list \<times> 's world" where
  "reconcileOperations c torn kinds w =
     (let w1 = drop_unstarted c (list_by_phases [Planning, AwaitingConfirmation, Capturing] (optab w)) w
      in reconcile_rows c torn kinds (list_by_phases [Applying, Verifying] (optab w1)) w1)"

subsection \<open>The rows afterwards\<close>

text \<open>One row settled: its phase is terminal, every other row is as it was.\<close>

lemma optab_settle: "optab (settle c r f w) =
    set_phase (now c w) (op_id r) (case f of None \<Rightarrow> Committed | Some _ \<Rightarrow> Rolledback) f (optab w)"
  by (cases f) (simp_all add: settle_def world_simps)

lemma on_srv_optab: "on_srv f w = (v, w1) \<Longrightarrow> optab w1 = optab w \<and> srv w1 = snd (f (srv w))"
  using optab_steps(7) [of f w] on_srv_srv [of f w] by (auto simp: prod_eq_iff)

lemma own_verdict_optab: "own_verdict c torn f r cap w = (v, w1) \<Longrightarrow> optab w1 = optab w"
  by (auto simp: own_verdict_def Let_def split: option.splits prod.splits dest: on_srv_optab)

definition settles :: "op_row \<Rightarrow> 's world \<Rightarrow> 's world \<Rightarrow> bool" where
  "settles r w w' \<longleftrightarrow> (\<exists>t p e. optab w' = set_phase t (op_id r) p e (optab w) \<and> terminal_phase p)"

lemma settles_settle: "optab w1 = optab w \<Longrightarrow> settles r w (settle c r f w1)"
  unfolding settles_def
  by (intro exI [of _ "now c w1"] exI [of _ "case f of None \<Rightarrow> Committed | Some _ \<Rightarrow> Rolledback"] exI [of _ f])
     (auto simp: optab_settle terminal_phase_def split: option.splits)

lemma settles_reconcile_row: "settles r w (snd (reconcile_row c torn kinds r w))"
proof -
  have v: "optab (snd (on_srv f w)) = optab w" for f by (simp add: world_simps)
  have rb: "on_srv f w = (v, w1) \<Longrightarrow> optab (roll_back k p x w1) = optab w" for f v w1 k p x
    by (simp add: world_simps on_srv_optab)
  show ?thesis
    unfolding reconcile_row_def Let_def
    by (auto intro!: settles_settle simp: v dest: on_srv_optab own_verdict_optab rb
        split: option.splits prod.splits sum.splits bool.splits)
qed

definition unsettled :: "op_row \<Rightarrow> bool" where
  "unsettled r \<longleftrightarrow> \<not> terminal_phase (op_phase r)"

lemma set_phase_terminal:
  "terminal_phase p \<Longrightarrow> {r \<in> set (set_phase t i p e rows). unsettled r} \<subseteq> {r \<in> set rows. unsettled r \<and> op_id r \<noteq> i}"
  using set_phase_rows [of _ t i p e rows] by (auto simp: unsettled_def)

lemma settles_subset:
  "settles r w w' \<Longrightarrow> {x \<in> set (optab w'). unsettled x} \<subseteq> {x \<in> set (optab w). unsettled x \<and> op_id x \<noteq> op_id r}"
  unfolding settles_def using set_phase_terminal by fastforce

lemma reconcile_rows_subset:
  "{x \<in> set (optab (snd (reconcile_rows c torn kinds rs w))). unsettled x}
     \<subseteq> {x \<in> set (optab w). unsettled x \<and> op_id x \<notin> op_id ` set rs}"
proof (induction rs arbitrary: w)
  case (Cons r rs)
  obtain v w1 where w1: "reconcile_row c torn kinds r w = (v, w1)" by fastforce
  have s: "settles r w w1" using settles_reconcile_row [of r w c torn kinds] w1 by simp
  from Cons [of w1] settles_subset [OF s] w1 show ?case
    by (auto simp: Let_def split: prod.splits)
qed auto

lemma drop_unstarted_subset:
  "{x \<in> set (optab (drop_unstarted c rs w)). unsettled x} \<subseteq> {x \<in> set (optab w). unsettled x \<and> op_id x \<notin> op_id ` set rs}"
proof (induction rs arbitrary: w)
  case (Cons r rs)
  have "terminal_phase Rolledback" by (simp add: terminal_phase_def)
  from Cons [of "to_phase c (op_id r) Rolledback (Some ''interrupted before any change was made'') w"]
    set_phase_terminal [OF this, of "now c w" "op_id r" "Some ''interrupted before any change was made''" "optab w"]
  show ?case by (auto simp: world_simps)
qed auto

lemma unsettled_iff: "unsettled r \<longleftrightarrow> op_phase r \<in> {Planning, AwaitingConfirmation, Capturing, Applying, Verifying}"
  by (cases "op_phase r") (auto simp: unsettled_def terminal_phase_def)

lemma reconcile_settles_all: "x \<in> set (optab (snd (reconcileOperations c torn kinds w))) \<Longrightarrow> \<not> unsettled x"
proof
  define w1 where "w1 = drop_unstarted c (list_by_phases [Planning, AwaitingConfirmation, Capturing] (optab w)) w"
  assume x: "x \<in> set (optab (snd (reconcileOperations c torn kinds w)))" and u: "unsettled x"
  then have "x \<in> {x \<in> set (optab (snd (reconcile_rows c torn kinds (list_by_phases [Applying, Verifying] (optab w1)) w1))). unsettled x}"
    by (simp add: reconcileOperations_def w1_def Let_def)
  with reconcile_rows_subset [of c torn kinds "list_by_phases [Applying, Verifying] (optab w1)" w1]
  have x1: "x \<in> set (optab w1)" "op_id x \<notin> op_id ` set (list_by_phases [Applying, Verifying] (optab w1))" by auto
  then have "op_phase x \<noteq> Applying" "op_phase x \<noteq> Verifying" by (auto simp: list_by_phases_def)
  with u have ph: "op_phase x \<in> {Planning, AwaitingConfirmation, Capturing}" by (auto simp: unsettled_iff)
  from x1 u have "x \<in> {x \<in> set (optab w1). unsettled x}" by simp
  with drop_unstarted_subset [of c "list_by_phases [Planning, AwaitingConfirmation, Capturing] (optab w)" w]
  have "x \<in> set (optab w)" "op_id x \<notin> op_id ` set (list_by_phases [Planning, AwaitingConfirmation, Capturing] (optab w))"
    by (auto simp: w1_def)
  with ph show False by (auto simp: list_by_phases_def)
qed

lemma no_unsettled_noop:
  assumes "\<And>x. x \<in> set (optab w) \<Longrightarrow> \<not> unsettled x"
  shows "reconcileOperations c torn kinds w = ([], w)"
proof -
  have "list_by_phases [Planning, AwaitingConfirmation, Capturing] (optab w) = []"
    "list_by_phases [Applying, Verifying] (optab w) = []"
    using assms by (auto simp: list_by_phases_def unsettled_iff filter_empty_conv)
  then show ?thesis by (simp add: reconcileOperations_def)
qed

subsection \<open>What a row may become\<close>

definition reconciles_itself :: "(string \<Rightarrow> 's kind option) \<Rightarrow> op_row \<Rightarrow> bool" where
  "reconciles_itself kinds r \<longleftrightarrow> captured_state r \<noteq> None \<and>
     (case kinds (op_kind r) of None \<Rightarrow> False | Some k \<Rightarrow> kind_reconcile k \<noteq> None)"

lemma row_phase_settle: "row_phase i w \<noteq> None \<Longrightarrow> optab w1 = optab w \<Longrightarrow> op_id r = i \<Longrightarrow>
    row_phase i (settle c r f w1) = Some (case f of None \<Rightarrow> Committed | Some _ \<Rightarrow> Rolledback)"
  by (auto simp: row_phase_def optab_settle sql_simps)

lemma reconcile_row_irreversible:
  assumes "row_phase (op_id r) w \<noteq> None" and "\<not> reconciles_itself kinds r"
    and "stored_plan r = Some p" and "irreversible p"
  shows "row_phase (op_id r) (snd (reconcile_row c torn kinds r w)) = Some Committed"
proof -
  have "\<exists>w1. reconcile_row c torn kinds r w = ([], settle c r None w1) \<and> optab w1 = optab w"
    using assms(2-4)
    by (cases "kinds (op_kind r)"; cases "captured_state r"; cases "parse_column (op_params r)")
       (auto simp: reconcile_row_def reconciles_itself_def Let_def world_simps split: option.splits)
  then obtain w1 where "reconcile_row c torn kinds r w = ([], settle c r None w1)" "optab w1 = optab w" by blast
  then show ?thesis using row_phase_settle [OF assms(1), of w1 r c None] by simp
qed

lemma reconcile_row_lifeline:
  assumes "row_phase (op_id r) w \<noteq> None" and "\<not> reconciles_itself kinds r"
    and "stored_plan r = Some p" and "\<not> irreversible p" and "plan_class p = Some Lifeline"
  shows "row_phase (op_id r) (snd (reconcile_row c torn kinds r w)) = Some Rolledback"
proof -
  have rb: "on_srv f w = (v, w1) \<Longrightarrow> optab (roll_back k q x w1) = optab w" for f v w1 k q x
    by (simp add: world_simps on_srv_optab)
  define rolled where "rolled x \<longleftrightarrow> (\<exists>e w1. x = settle c r (Some e) w1 \<and> optab w1 = optab w)" for x
  have rolledI: "optab w1 = optab w \<Longrightarrow> rolled (settle c r (Some e) w1)" for e w1 by (auto simp: rolled_def)
  have "rolled (snd (reconcile_row c torn kinds r w))"
    using assms(2-5) by (auto simp: reconcile_row_def reconciles_itself_def Let_def intro!: rolledI dest: rb
        split: option.splits prod.splits sum.splits bool.splits)
  then show ?thesis using row_phase_settle [OF assms(1)] by (force simp: rolled_def)
qed

text \<open>Nothing a reconciliation does depends on the apply of any kind.\<close>

definition with_apply :: "(json \<Rightarrow> 's \<Rightarrow> (js_error + unit) \<times> 's) \<Rightarrow> (string \<Rightarrow> 's kind option) \<Rightarrow> string \<Rightarrow> 's kind option" where
  "with_apply f kinds n = map_option (\<lambda>k. k\<lparr>apply_op := f\<rparr>) (kinds n)"

lemma roll_back_apply: "roll_back (k\<lparr>apply_op := f\<rparr>) = roll_back k" "verify (k\<lparr>apply_op := f\<rparr>) = verify k"
    "kind_reconcile (k\<lparr>apply_op := f\<rparr>) = kind_reconcile k"
  by (simp_all add: roll_back_def fun_eq_iff)

lemma reconcile_row_apply: "reconcile_row c torn (with_apply f kinds) r w = reconcile_row c torn kinds r w"
proof (cases "kinds (op_kind r)")
  case None
  then have "with_apply f kinds (op_kind r) = None" by (simp add: with_apply_def)
  with None show ?thesis unfolding reconcile_row_def Let_def by simp
next
  case (Some k)
  then have eq: "with_apply f kinds (op_kind r) = Some (k\<lparr>apply_op := f\<rparr>)" by (simp add: with_apply_def)
  show ?thesis unfolding reconcile_row_def Let_def eq Some prod.case option.case roll_back_apply by simp
qed

lemma reconcile_rows_apply: "reconcile_rows c torn (with_apply f kinds) rs w = reconcile_rows c torn kinds rs w"
  by (induction rs arbitrary: w) (simp_all add: reconcile_row_apply)

end
