(* ===== verification/EngineProps.thy ===== *)
theory EngineProps
  imports Reconcile
begin

text \<open>
  The properties of the operation engine and of reconciliation.  Their witnesses run a small
  kind, \<open>setter\<close>, whose server is one number, in the context \<open>calm\<close>.
\<close>

subsection \<open>A kind to run\<close>

definition plain_plan :: "cmd_class \<Rightarrow> bool \<Rightarrow> op_plan" where
  "plain_plan cl auto = \<lparr>summary = ''set the number'', plan_auto = auto, plan_details = [], plan_class = Some cl,
     plan_writes = Some [''/srv/app''], plan_network = None, irreversible = False, plan_warning = None, expects = None,
     rollback_when = None, scope_evidence = None, dry_run = None\<rparr>"

definition setter :: "op_plan \<Rightarrow> (int \<Rightarrow> js_error + bool) \<Rightarrow> int kind" where
  "setter plan check = \<lparr>kind_name = ''set'', describe = (\<lambda>p s. (Inr plan, s)), captureState = (\<lambda>p s. (Inr (JNum s), s)),
     apply_op = (\<lambda>p s. case p of JNum v \<Rightarrow> (Inr (), v) | _ \<Rightarrow> (Inl (an_error ''no number''), s)),
     verify = (\<lambda>p s. (check s, s)),
     rollback = (\<lambda>p cap s. case cap of JNum v \<Rightarrow> (Inr (), v) | _ \<Rightarrow> (Inr (), s)),
     prodtest = None, kind_reconcile = None\<rparr>"

definition calm :: "string \<Rightarrow> int ctx" where
  "calm answer = \<lparr>clock = (\<lambda>_. 1000000000), uuid = show_nat, sha256 = (\<lambda>t. t), max_failures = 3,
     severity = (\<lambda>s. (Inr 0, s)), waitForAnswer = (\<lambda>q w. (answer, w)), answer_or_timeout = (\<lambda>q ms w. (answer, w)),
     acquire = (\<lambda>w. w), getSetting = (\<lambda>_. None), lifelineConfirmMs = None\<rparr>"

definition quiet_bus :: bus where
  "quiet_bus = \<lparr>configured = False, settings = (\<lambda>_. None), secrets = (\<lambda>_. None), note_table = [], clients = 0,
     notices = [], posted = []\<rparr>"

definition fresh_world :: "int \<Rightarrow> op_row list \<Rightarrow> int world" where
  "fresh_world s rows = \<lparr>srv = s, optab = rows, memtab = [], note_bus = quiet_bus, sent = [], retry_ledger = Some [],
     draws = 0, cancelled = [], reflected = [], hooks = []\<rparr>"

subsection \<open>What a commit and a rollback mean\<close>



text \<open>
  C2. A plan that is destructive, lifeline, forbidden, irreversible or not meant to run alone,
  and any plan in strict mode, does nothing to the server without an approval: the run is the
  same whatever the kind's capture, apply, verify and rollback would have done.
\<close>

theorem unapproved_runs_nothing:
  assumes "kind_name k' = kind_name k" and "describe k' = describe k"
    and "\<And>p s. fst (describe k params s) = Inr p \<Longrightarrow>
      plan_class p \<in> {Some Destructive, Some Lifeline, Some Forbidden} \<or> irreversible p \<or> \<not> plan_auto p \<or>
      getSetting c ''mode.strict'' = Some ''true''"
    and "\<And>i. \<not> approved c i"
  shows "runOperation c k' goal params w = runOperation c k goal params w"
proof -
  have plan: "planned_op c k' goal i params p u = planned_op c k goal i params p u"
    if "on_srv (describe k params) x = (Inr p, u)" for i p u x
  proof (rule planned_unapproved)
    from on_srv_parts [OF that] have "fst (describe k params (srv x)) = Inr p" by simp
    from assms(3) [OF this] show "\<not> auto_allowed c p u" by (auto simp: auto_allowed_def effectiveAutoApprove_def)
    show "\<not> approved c i" by (rule assms(4))
  qed
  show ?thesis
    unfolding runOperation_def Let_def assms(1) assms(2)
    by (auto split: option.splits prod.splits sum.splits dest: plan)
qed

theorem unapproved_runs_nothing_witness:
  "runOperation (calm ''no'') (setter (plain_plan Destructive True) (\<lambda>s. Inr (s = 8))) ''seven'' (JNum 7) (fresh_world 3 [])
   = runOperation (calm ''no'') (setter (plain_plan Destructive True) (\<lambda>s. Inl (an_error ''bad''))) ''seven'' (JNum 7) (fresh_world 3 [])"
  by (rule unapproved_runs_nothing) (auto simp: setter_def plain_plan_def calm_def approved_def)

text \<open>
  C3. Unless an exception escapes, a run either refuses the plan and leaves the world as it
  was, or ends with its row in the phase of the outcome it returns (\<open>rolledback\<close>, else
  \<open>committed\<close>) and with the \<open>operation_result\<close> of that outcome as the last event sent.
\<close>

theorem run_settles:
  assumes "\<And>i. waits_keep c i" and "fst (runOperation c k goal params w) = Inr (r, m)"
  shows "r = ORolledback \<and> snd (runOperation c k goal params w) = w \<or>
    (\<exists>i. settled_run i (runOperation c k goal params w))"
proof (rule run_cases [of c k goal params w])
  fix plan i u
  assume "has_row i u" "runOperation c k goal params w = planned_op c k goal i params plan u"
  with settled_planned [OF this(1) assms(1), of k goal params plan] have "settled_run i (runOperation c k goal params w)" by simp
  then show ?thesis by blast
qed (use assms in auto)

theorem run_settles_witness:
  "let x = runOperation (calm ''no'') (setter (plain_plan Mutate True) (\<lambda>s. Inr (s = 8))) ''seven'' (JNum 7) (fresh_world 3 [])
   in snd x = fresh_world 3 [] \<or> (\<exists>i. settled_run i x)"
proof -
  let ?k = "setter (plain_plan Mutate True) (\<lambda>s. Inr (s = 8))"
  have "waits_keep (calm ''no'') i" for i by (simp add: waits_keep_def calm_def)
  moreover have "fst (runOperation (calm ''no'') ?k ''seven'' (JNum 7) (fresh_world 3 []))
      = Inr (ORolledback, ''Verification failed - seven, rolled back.'')" by code_simp
  ultimately show ?thesis
    using run_settles [of "calm ''no''" ?k "''seven''" "JNum 7" "fresh_world 3 []" ORolledback]
    by (auto simp: Let_def)
qed



text \<open>
  A failed attempt is not retried: once an operation was undone, running the same kind
  with the same parameters in that turn is refused with the earlier failure, and nothing of
  the world changes.
\<close>

theorem failed_plan_is_refused:
  assumes "retry_ledger w = Some f"
  shows "runOperation c k goal' params (snd (undo_op c k goal i params plan captured why m w))
    = (Inr (ORolledback, refused_same m), snd (undo_op c k goal i params plan captured why m w))"
  using assms by (simp add: runOperation_def undo_ledger js_simps)

theorem failed_plan_is_refused_witness:
  "fst (runOperation (calm ''yes'') (setter (plain_plan Mutate True) (\<lambda>s. Inr True)) ''again'' (JNum 7)
     (snd (undo_op (calm ''yes'') (setter (plain_plan Mutate True) (\<lambda>s. Inr True)) ''seven'' ''0'' (JNum 7) (plain_plan Mutate True)
        (JNum 3) ''verification failed'' ''no good'' (fresh_world 7 []))))
   = Inr (ORolledback, refused_same ''no good'')"
  using failed_plan_is_refused [of "fresh_world 7 []" "[]"] by (simp add: fresh_world_def)

text \<open>
  An exception that escapes an operation under the write lock can only come from \<open>verify\<close>,
  and it leaves the applied change in place, the row in the phase \<open>verifying\<close> and the client
  without an \<open>operation_result\<close>, until the reconciliation of the next boot.
\<close>

theorem escaped_exception_strands:
  assumes "fst (locked_op c k goal i params plan w) = Inl e" and "has_row i w"
  shows "row_phase i (snd (locked_op c k goal i params plan w)) = Some Verifying \<and>
    sent (snd (locked_op c k goal i params plan w)) =
      sent w @ [OperationProgress i PCapturing, OperationProgress i PApplying, OperationProgress i PVerifying]"
  using locked_throws [OF assms] by simp

theorem escaped_exception_strands_witness:
  "let x = snd (locked_op (calm ''no'') (setter (plain_plan Mutate True) (\<lambda>s. Inl (an_error ''timeout''))) ''seven'' ''a'' (JNum 7)
       (plain_plan Mutate True) (fresh_world 3 (case create_operation 0 ''a'' ''set'' ''seven'' (JNum 7) [] of Inr rows \<Rightarrow> rows)))
   in row_phase ''a'' x = Some Verifying \<and> sent x = [OperationProgress ''a'' PCapturing, OperationProgress ''a'' PApplying,
        OperationProgress ''a'' PVerifying]"
proof -
  let ?k = "setter (plain_plan Mutate True) (\<lambda>s. Inl (an_error ''timeout''))"
  let ?w = "fresh_world 3 (case create_operation 0 ''a'' ''set'' ''seven'' (JNum 7) [] of Inr rows \<Rightarrow> rows)"
  have "fst (locked_op (calm ''no'') ?k ''seven'' ''a'' (JNum 7) (plain_plan Mutate True) ?w) = Inl (an_error ''timeout'')"
    by code_simp
  moreover have "has_row ''a'' ?w" unfolding has_row_def by code_simp
  ultimately show ?thesis
    using escaped_exception_strands [of "calm ''no''" ?k "''seven''" "''a''" "JNum 7" "plain_plan Mutate True" ?w "an_error ''timeout''"]
    by (simp add: Let_def) (simp add: fresh_world_def)
qed

subsection \<open>After a crash\<close>

text \<open>
  C5. Reconciliation at boot leaves no operation in a phase short of committed or rolled back,
  whatever the rows and kinds, and doing it again changes nothing.
\<close>

theorem reconcile_settles_everything:
  "list_all (\<lambda>r. terminal_phase (op_phase r)) (optab (snd (reconcileOperations c torn kinds w))) \<and>
   reconcileOperations c torn' kinds' (snd (reconcileOperations c torn kinds w)) = ([], snd (reconcileOperations c torn kinds w))"
  using reconcile_settles_all [of _ c torn kinds w] no_unsettled_noop [of "snd (reconcileOperations c torn kinds w)" c torn' kinds']
  by (auto simp: list_all_iff unsettled_def)

text \<open>
  Reconciliation never runs apply again: with the apply of every kind replaced by anything
  else, it does the same.
\<close>

theorem reconcile_never_applies:
  "reconcileOperations c torn (with_apply f kinds) w = reconcileOperations c torn kinds w"
  by (simp add: reconcileOperations_def reconcile_rows_apply)




end
