(* ===== verification/DaemonProps.thy ===== *)
theory DaemonProps
  imports Memory Notify TurnGuard Wire
begin

text \<open>
  The properties of the daemon's smaller components: the retry ledger and the turn guard, the
  wire framing, the memory store and the notification bus.
\<close>

subsection \<open>The turn guard\<close>

lemma guard_run_last:
  "guard_run sha l g (pre @ [i]) = (let (os, g1) = guard_run sha l g pre; (q, g2) = guard_step sha l g1 i in (os @ [q], g2))"
  by (simp add: guard_run_append split_def Let_def)

lemma guard_reset_fields [simp]: "calls (guard_reset g) = []" "attempted (guard_reset g) = 0" "committed (guard_reset g) = 0"
    "fired (guard_reset g) = False" "retries (guard_reset g) = []"
  by (simp_all add: guard_reset_def ledger_reset_def)

text \<open>
  Thrashing: within a turn a tool call is blocked exactly when it is the N-th, or a later,
  call of the same tool with the same arguments (by the hash of name and canonical arguments).
\<close>

theorem identical_calls_are_blocked:
  assumes "Event AgentStart \<notin> set pre"
  shows "(last (fst (guard_run sha l (guard_reset g) (pre @ [Call tool args]))) \<noteq> None) \<longleftrightarrow>
    identicalCalls l \<le> length (filter (same_call sha (plan_hash sha tool args)) pre) + 1"
  using guard_run_calls [OF assms, of sha l "guard_reset g" "plan_hash sha tool args"]
  by (simp add: guard_run_last guard_step_def beforeToolCall_def Let_def split_def call_count_def)

theorem identical_calls_are_blocked_witness:
  "last (fst (guard_run (\<lambda>t. t) (limitsFor Weak) (guard_reset createTurnGuard)
     ([Call ''read_file'' (JObj [(''a'', JNum 1), (''b'', JNum 2)])] @ [Call ''read_file'' (JObj [(''b'', JNum 2), (''a'', JNum 1)])]))) \<noteq> None"
  by (rule identical_calls_are_blocked
        [of "[Call ''read_file'' (JObj [(''a'', JNum 1), (''b'', JNum 2)])]" "\<lambda>t. t" "limitsFor Weak" createTurnGuard,
         THEN iffD2]; code_simp)

text \<open>
  The termination gate: it speaks at the end of a turn exactly when the agent will not
  continue, an operation outcome was seen since the prompt, none of them was a commit, and the
  gate has not spoken since the prompt; so it speaks at most once a prompt.
\<close>

theorem gate_speaks_once_and_only_when_nothing_committed:
  assumes "Event AgentStart \<notin> set pre"
  shows "(is_follow_up (last (fst (guard_run sha l (guard_reset g) (pre @ [TurnEnd cont])))) \<longleftrightarrow>
      \<not> cont \<and> (\<exists>i \<in> set pre. op_outcome i \<noteq> None) \<and> \<not> (\<exists>i \<in> set pre. op_outcome i = Some ''committed'') \<and>
      \<not> (\<exists>q \<in> set (fst (guard_run sha l (guard_reset g) pre)). is_follow_up q)) \<and>
    length (filter is_follow_up (fst (guard_run sha l (guard_reset g) pre))) \<le> 1"
proof (intro conjI)
  note c = guard_run_counts [OF assms, of sha l "guard_reset g"]
  have "attempted (snd (guard_run sha l (guard_reset g) pre)) = 0 \<longleftrightarrow> \<not> (\<exists>i \<in> set pre. op_outcome i \<noteq> None)"
    "committed (snd (guard_run sha l (guard_reset g) pre)) > 0 \<longleftrightarrow> (\<exists>i \<in> set pre. op_outcome i = Some ''committed'')"
    using c by (auto simp: filter_empty_conv)
  then show "is_follow_up (last (fst (guard_run sha l (guard_reset g) (pre @ [TurnEnd cont])))) \<longleftrightarrow>
      \<not> cont \<and> (\<exists>i \<in> set pre. op_outcome i \<noteq> None) \<and> \<not> (\<exists>i \<in> set pre. op_outcome i = Some ''committed'') \<and>
      \<not> (\<exists>q \<in> set (fst (guard_run sha l (guard_reset g) pre)). is_follow_up q)"
    using c by (auto simp: guard_run_last guard_step_def on_turn_end_def is_follow_up_def Let_def split_def)
  show "length (filter is_follow_up (fst (guard_run sha l (guard_reset g) pre))) \<le> 1"
    using guard_run_once [OF assms, of sha l "guard_reset g"] by simp
qed

theorem gate_witness:
  "is_follow_up (last (fst (guard_run (\<lambda>t. t) (limitsFor Strong) (guard_reset createTurnGuard)
     ([Event (ToolExecutionEnd ''run'' (JObj [(''details'', JObj [(''outcome'', JStr ''rolledback'')])]))] @ [TurnEnd False]))))"
  by (subst gate_speaks_once_and_only_when_nothing_committed [THEN conjunct1]) code_simp+



subsection \<open>The wire\<close>





subsection \<open>Memory\<close>

text \<open>The writes the daemon makes to the memory table.\<close>

datatype mem_write =
    Remember int string category string string string "string option" mem_opts
  | Incident int string string string incident_phase "string option"
  | Helpful string
  | Harmful string
  | Forget string

definition mem_step :: "mem_write \<Rightarrow> mem_row list \<Rightarrow> mem_row list" where
  "mem_step x rows = (case x of
      Remember now uuid c k v src va opts \<Rightarrow> remember now uuid c k v src va opts rows
    | Incident now uuid kind goal p err \<Rightarrow> record_incident now uuid kind goal p err rows
    | Helpful i \<Rightarrow> bump_helpful i rows
    | Harmful i \<Rightarrow> bump_harmful i rows
    | Forget i \<Rightarrow> snd (forget i rows))"

definition redacted_values :: "mem_row list \<Rightarrow> bool" where
  "redacted_values rows \<longleftrightarrow> (\<forall>r \<in> set rows. \<exists>v. mem_value r = redact_secrets_in_text v)"

lemma facts_unique_map: "(\<And>r. mem_category (f r) = mem_category r \<and> mem_key (f r) = mem_key r) \<Longrightarrow>
    facts_unique rows \<Longrightarrow> facts_unique (map f rows)"
  by (simp add: facts_unique_def comp_def)

lemma mem_step_unique: "facts_unique rows \<Longrightarrow> facts_unique (mem_step x rows)"
  by (cases x) (simp_all add: mem_step_def facts_unique_remember facts_unique_forget record_incident_def
      bump_helpful_def bump_harmful_def facts_unique_map)

lemma redacted_remember: "redacted_values rows \<Longrightarrow> redacted_values (remember now u c k v src va opts rows)"
  by (auto simp: redacted_values_def remember_def Let_def new_fact_def reinforce_def)

lemma redacted_map: "(\<And>r. mem_value (f r) = mem_value r) \<Longrightarrow> redacted_values rows \<Longrightarrow> redacted_values (map f rows)"
  by (auto simp: redacted_values_def)

lemma mem_step_redacted: "redacted_values rows \<Longrightarrow> redacted_values (mem_step x rows)"
proof (cases x)
  case (Forget i)
  assume "redacted_values rows"
  with Forget show ?thesis by (auto simp: mem_step_def forget_def Let_def redacted_values_def)
qed (simp_all add: mem_step_def redacted_remember record_incident_def bump_helpful_def bump_harmful_def redacted_map)

text \<open>
  C10. Whatever is written to the memory table, in any order, it holds at most one row per
  category and key, and every value in it went through the secret redaction.
\<close>

theorem memory_is_keyed_and_redacted:
  "facts_unique (fold mem_step writes []) \<and> redacted_values (fold mem_step writes [])"
proof -
  have "facts_unique rows \<and> redacted_values rows \<Longrightarrow> facts_unique (fold mem_step writes rows) \<and> redacted_values (fold mem_step writes rows)" for rows
    by (induction writes arbitrary: rows) (auto simp: mem_step_unique mem_step_redacted)
  moreover have "facts_unique [] \<and> redacted_values []" by (simp add: facts_unique_def redacted_values_def)
  ultimately show ?thesis by blast
qed

text \<open>
  Remembering a fact again reinforces it: the row keeps its id, creation time and helpful
  and harmful counts, holds the new redacted value, and has been seen once more; no other row
  changes.
\<close>

theorem remembering_again_reinforces:
  assumes "get_by_key c k rows = Some r"
  shows "(\<exists>r'. get_by_key c k (remember now u c k v src va opts rows) = Some r' \<and> mem_id r' = mem_id r \<and>
      mem_created r' = mem_created r \<and> helpful_count r' = helpful_count r \<and> harmful_count r' = harmful_count r \<and>
      mem_value r' = redact_secrets_in_text v \<and> occurrence_count r' = occurrence_count r + 1) \<and>
    (\<forall>x. \<not> same_fact c k x \<longrightarrow> (x \<in> set (remember now u c k v src va opts rows) \<longleftrightarrow> x \<in> set rows))"
  using assms by (simp add: get_remember remember_other reinforce_def)

definition a_fact :: mem_row where
  "a_fact = new_fact 5 ''id-1'' Preference ''shell'' ''zsh'' ''user'' None no_opts"

theorem remembering_again_reinforces_witness:
  "\<exists>r'. get_by_key Preference ''shell'' (remember 9 ''id-2'' Preference ''shell'' ''fish'' ''user'' None no_opts [a_fact]) = Some r' \<and>
     mem_id r' = ''id-1'' \<and> occurrence_count r' = 2"
proof -
  have "get_by_key Preference ''shell'' [a_fact] = Some a_fact" by (simp add: get_by_key_def a_fact_def new_fact_def same_fact_def)
  from remembering_again_reinforces [OF this, of 9 "''id-2''" "''fish''" "''user''" None no_opts]
  show ?thesis by (auto simp: a_fact_def new_fact_def)
qed

text \<open>
  Forgetting by id or prefix removes exactly the rows whose id starts with the given text
  (ASCII case aside) - a wildcard in it is only itself - reports how many they were, and
  forgets nothing for blank text.
\<close>

theorem forget_is_literal_prefix:
  "forget p rows =
     (let gone = (\<lambda>r. trim p \<noteq> [] \<and> starts_with (to_lower (trim p)) (to_lower (mem_id r)))
      in (length (filter gone rows), filter (\<lambda>r. \<not> gone r) rows))"
proof -
  have "mem_id r = q \<Longrightarrow> starts_with (to_lower q) (to_lower (mem_id r))" for r q by simp
  then have "forget_hits q = (\<lambda>r. starts_with (to_lower q) (to_lower (mem_id r)))" for q
    by (auto simp: forget_hits_def like_escaped_prefix fun_eq_iff)
  then show ?thesis by (simp add: forget_def Let_def)
qed

text \<open>
  What the agent's context carries: at most the given number of facts, each a preference
  or a server fact still in the table and not expired, never the reply-style preference.
\<close>

theorem top_facts_are_live_facts:
  "length (top_facts now limit rows) \<le> limit \<and>
   list_all (\<lambda>r. r \<in> set rows \<and> not_expired now r \<and> mem_category r \<in> {Preference, ServerFact} \<and>
     \<not> (mem_category r = Preference \<and> mem_key r = ''reply_style'')) (top_facts now limit rows)"
  by (auto simp: top_facts_def list_all_iff is_fact_def dest!: in_take_set)

subsection \<open>Notifications\<close>




definition open_bus :: bus where
  "open_bus = \<lparr>configured = True, settings = (\<lambda>k. if k = ''notify.ntfy.url'' then Some ''http://ntfy.lan/'' else
       if k = ''notify.ntfy.topic'' then Some ''miro'' else None), secrets = (\<lambda>_. None), note_table = [], clients = 0,
     notices = [], posted = []\<rparr>"

definition disk_note :: notification where
  "disk_note = \<lparr>n_tier = NeedsAttention, n_title = ''Disk'', n_body = ''full'', n_source = ''disk'', n_at = 7\<rparr>"


text \<open>
  Nothing is lost or repeated for a client that was away: a new connection is sent the
  undelivered notices, oldest first, and a connection right after it is sent none.
\<close>

theorem replay_delivers_exactly_once:
  assumes "configured b"
  shows "fst (replay_undelivered now b) = map row_notice (sort_key note_created (filter undelivered (note_table b))) \<and>
    fst (replay_undelivered now' (snd (replay_undelivered now b))) = []"
proof (intro conjI)
  show "fst (replay_undelivered now b) = map row_notice (sort_key note_created (filter undelivered (note_table b)))"
    using assms by (simp add: replay_undelivered_def list_undelivered_def Let_def)
  have "set (list_undelivered (mark_delivered now (map note_id (list_undelivered (note_table b))) (note_table b))) = {}"
    unfolding set_list_undelivered using mark_delivered_undelivered by blast
  then have "list_undelivered (mark_delivered now (map note_id (list_undelivered (note_table b))) (note_table b)) = []"
    unfolding set_empty .
  then show "fst (replay_undelivered now' (snd (replay_undelivered now b))) = []"
    using assms by (simp add: replay_undelivered_def Let_def)
qed

theorem replay_delivers_exactly_once_witness:
  "fst (replay_undelivered 9 (snd (replay_undelivered 8 (notify 7 ''u'' disk_note open_bus)))) = [] \<and>
   fst (replay_undelivered 8 (notify 7 ''u'' disk_note open_bus)) =
     map row_notice (sort_key note_created (filter undelivered (note_table (notify 7 ''u'' disk_note open_bus))))"
proof -
  have "configured (notify 7 ''u'' disk_note open_bus)" by (simp add: notify_def Let_def open_bus_def)
  from replay_delivers_exactly_once [OF this] show ?thesis by simp
qed

text \<open>
  Learning to be quiet: each "quiet" on a source lowers its tier one step further, at
  most two, "keep" restores it, and neither touches any other source.
\<close>

theorem quiet_feedback_accumulates:
  assumes "configured b" and "demote_offset b s = int k" and "k \<le> 2"
  shows "demote_offset (snd (apply_notice_feedback s Quiet b)) s = int (min 2 (k + 1)) \<and>
    demote_offset (snd (apply_notice_feedback s Keep b)) s = 0 \<and>
    (\<forall>s' a. s' \<noteq> s \<longrightarrow> demote_offset (snd (apply_notice_feedback s a b)) s' = demote_offset b s')"
  using assms js_integer_show_int [of "int k + 1"] js_integer_show_int [of 2] js_integer_show_int [of 0]
  by (auto simp: apply_notice_feedback_def Let_def set_setting_def demote_offset_def max_demote_def min_def)

theorem quiet_feedback_accumulates_witness:
  "demote_offset (snd (apply_notice_feedback ''ups'' Quiet open_bus)) ''ups'' = 1"
proof -
  have "configured open_bus" "demote_offset open_bus ''ups'' = int 0"
    by (simp_all add: open_bus_def demote_offset_def demote_key_def)
  from quiet_feedback_accumulates [OF this] show ?thesis by simp
qed

end
