(* ===== verification/UiModel.thy ===== *)
theory UiModel
  imports Wire
begin

text \<open>
  The clients' view-model (\<open>packages/ui-model/src/index.ts\<close>): the pure reducer from the events of
  the wire to what a client shows - a transcript of blocks, the prompt waiting on the user with
  the prompts queued behind it, and status - and the user's side of it: \<open>userSent\<close>, \<open>answered\<close>,
  keys, hints and slash commands.
\<close>

subsection \<open>State\<close>

datatype activity_node = Node
  (node_id: string) (node_parent: "string option") (node_label: string) (node_status: activity_status)
  (node_detail: "string option") (kids: "activity_node list") (started_at: int) (ended_at: "int option")

datatype decision = Approved | Changed | Cancelled

datatype block =
    UserBlock (block_id: string) (user_text: string) (block_at: int)
  | AssistantBlock (block_id: string) (said: string) (streaming: bool) (block_at: int)
  | ActivityBlock (block_id: string) (node: activity_node) (block_at: int)
  | PlanBlock (block_id: string) (shown_plan: system_plan_event) (decision: "decision option") (block_at: int)
  | OperationBlock (block_id: string) (op_event: operation_plan_event) (op_progress: "progress_phase option")
      (op_outcome_shown: "(outcome \<times> string) option") (block_at: int)
  | NoticeBlock (block_id: string) (shown_notice: notice) (block_at: int)

datatype question_kind = PlanConfirm | PlanChange | OpConfirm | LifelineConfirm | Ask | OtherQuestion

datatype pending =
    PQuestion (pending_id: string) (pending_prompt: string) (options: "question_option list") (qkind: question_kind)
      (asked_at: int) (deadline_at: "int option") (decides: "string option")
  | PSecret (pending_id: string) (pending_prompt: string) (asked_at: int)

record ui_state =
  ui_server :: string
  ui_health :: health
  ui_model :: "string option"
  ui_privilege :: "privilege option"
  blocks :: "block list"
  pending :: "pending option"
  pending_queue :: "pending list"
  working :: bool
  seq_no :: nat
  stacks :: "stack_summary list option"
  stacks_unavailable :: "string option"
  stack_logs :: "(string \<times> string list \<times> string option) list"

definition initialState :: "string \<Rightarrow> ui_state" where
  "initialState server = \<lparr>ui_server = server, ui_health = Connecting, ui_model = None, ui_privilege = None,
     blocks = [], pending = None, pending_queue = [], working = False, seq_no = 0, stacks = None,
     stacks_unavailable = None, stack_logs = []\<rparr>"

subsection \<open>The details of an operation plan\<close>

record operation_details =
  od_class :: "string option"
  od_writes :: "string list option"
  od_network :: "bool option"
  od_warning :: "string option"
  od_command :: "string option"
  od_diff :: "string option"
  od_proposed :: "string option"
  od_irreversible :: bool
  od_effect_unknown :: bool
  od_evidence :: "string option"

definition operationDetails :: "operation_plan_event \<Rightarrow> operation_details" where
  "operationDetails plan =
     (let d = JObj (case pl_details plan of None \<Rightarrow> [] | Some kvs \<Rightarrow> kvs); str = (\<lambda>k. as_string (field k d))
      in \<lparr>od_class = str ''class'',
          od_writes = (case field ''writes'' d of JArr vs \<Rightarrow> Some (map js_string vs) | _ \<Rightarrow> None),
          od_network = (case field ''network'' d of JBool b \<Rightarrow> Some b | _ \<Rightarrow> None),
          od_warning = str ''warning'', od_command = str ''command'', od_diff = str ''diff'',
          od_proposed = str ''proposed'',
          od_irreversible = (field ''irreversible'' d = JBool True),
          od_effect_unknown = (field ''dryRunFidelity'' d = JStr ''none''),
          od_evidence = str ''scopeEvidence''\<rparr>)"

fun PHASE_LABEL :: "progress_phase \<Rightarrow> string" where
  "PHASE_LABEL PCapturing = ''capturing state''"
| "PHASE_LABEL PApplying = ''applying''"
| "PHASE_LABEL PVerifying = ''verifying''"
| "PHASE_LABEL PAwaitingReachability = ''awaiting reachability''"

subsection \<open>Blocks\<close>

definition replaceLast :: "ui_state \<Rightarrow> block \<Rightarrow> ui_state" where
  "replaceLast s b = s\<lparr>blocks := butlast (blocks s) @ [b]\<rparr>"

definition push :: "ui_state \<Rightarrow> block \<Rightarrow> ui_state" where
  "push s b = s\<lparr>blocks := blocks s @ [b]\<rparr>"

text \<open>The last block when it is an assistant block still streaming.\<close>

definition streaming_last :: "ui_state \<Rightarrow> (string \<times> string \<times> int) option" where
  "streaming_last s =
     (if blocks s = [] then None
      else case last (blocks s) of AssistantBlock i t True a \<Rightarrow> Some (i, t, a) | _ \<Rightarrow> None)"

definition closeStreaming :: "ui_state \<Rightarrow> ui_state" where
  "closeStreaming s =
     (case streaming_last s of None \<Rightarrow> s | Some (i, t, a) \<Rightarrow> replaceLast s (AssistantBlock i t False a))"

fun mark_plan :: "string \<Rightarrow> decision \<Rightarrow> block \<Rightarrow> block" where
  "mark_plan i d (PlanBlock j p d0 a) = PlanBlock j p (if j = i then Some d else d0) a"
| "mark_plan i d b = b"

fun mark_phase :: "string \<Rightarrow> progress_phase \<Rightarrow> block \<Rightarrow> block" where
  "mark_phase i ph (OperationBlock j p ph0 r a) = OperationBlock j p (if j = i then Some ph else ph0) r a"
| "mark_phase i ph b = b"

fun mark_result :: "string \<Rightarrow> outcome \<times> string \<Rightarrow> block \<Rightarrow> block" where
  "mark_result i x (OperationBlock j p ph r a) =
     (if j = i then OperationBlock j p None (Some x) a else OperationBlock j p ph r a)"
| "mark_result i x b = b"

subsection \<open>The activity tree\<close>

fun pathTo :: "string \<Rightarrow> activity_node \<Rightarrow> nat list option" and
    pathToAny :: "string \<Rightarrow> nat \<Rightarrow> activity_node list \<Rightarrow> nat list option" where
  "pathTo i (Node j p l st d ns a e) = (if j = i then Some [] else pathToAny i 0 ns)"
| "pathToAny i k [] = None"
| "pathToAny i k (n # ns) =
     (case pathTo i n of Some p \<Rightarrow> Some (k # p) | None \<Rightarrow> pathToAny i (Suc k) ns)"

fun find_from :: "string \<Rightarrow> nat \<Rightarrow> block list \<Rightarrow> (nat \<times> nat list) option" where
  "find_from i k [] = None"
| "find_from i k (b # bs) =
     (case find_from i (Suc k) bs of
        Some x \<Rightarrow> Some x
      | None \<Rightarrow> (case b of ActivityBlock _ n _ \<Rightarrow> map_option (Pair k) (pathTo i n) | _ \<Rightarrow> None))"

text \<open>The loop runs from the newest block back: the last block holding the id.\<close>

definition findNode :: "ui_state \<Rightarrow> string \<Rightarrow> (nat \<times> nat list) option" where
  "findNode s i = find_from i 0 (blocks s)"

fun updateNode :: "nat list \<Rightarrow> (activity_node \<Rightarrow> activity_node) \<Rightarrow> activity_node \<Rightarrow> activity_node" where
  "updateNode [] f n = f n"
| "updateNode (h # r) f (Node j p l st d ns a e) =
     Node j p l st d (if h < length ns then ns[h := updateNode r f (ns ! h)] else ns) a e"

definition map_node :: "nat \<Rightarrow> nat list \<Rightarrow> (activity_node \<Rightarrow> activity_node) \<Rightarrow> block list \<Rightarrow> block list" where
  "map_node b path f bs =
     (if b < length bs
      then case bs ! b of ActivityBlock i n a \<Rightarrow> bs[b := ActivityBlock i (updateNode path f n) a] | _ \<Rightarrow> bs
      else bs)"

fun add_child :: "activity_node \<Rightarrow> activity_node \<Rightarrow> activity_node" where
  "add_child c (Node j p l st d ns a e) = Node j p l st d (ns @ [c]) a e"

fun end_node :: "activity_status \<Rightarrow> string option \<Rightarrow> int \<Rightarrow> activity_node \<Rightarrow> activity_node" where
  "end_node st' d' now (Node j p l st d ns a e) =
     Node j p l st' (case d' of None \<Rightarrow> d | Some x \<Rightarrow> Some x) ns a (Some now)"

subsection \<open>The prompt\<close>

definition enqueuePending :: "ui_state \<Rightarrow> pending \<Rightarrow> ui_state" where
  "enqueuePending s0 p =
     (let s = closeStreaming s0
      in if (case pending s of None \<Rightarrow> True | Some q \<Rightarrow> pending_id q = pending_id p) then s\<lparr>pending := Some p\<rparr>
         else if list_ex (\<lambda>q. pending_id q = pending_id p) (pending_queue s) then s
         else s\<lparr>pending_queue := pending_queue s @ [p]\<rparr>)"

definition advancePending :: "ui_state \<Rightarrow> ui_state" where
  "advancePending s =
     (case pending_queue s of [] \<Rightarrow> s\<lparr>pending := None, pending_queue := []\<rparr>
      | p # ps \<Rightarrow> s\<lparr>pending := Some p, pending_queue := ps\<rparr>)"

definition before_colon :: "string \<Rightarrow> string" where
  "before_colon i = takeWhile (\<lambda>c. c \<noteq> CHR '':'') i"

definition after_colon :: "string \<Rightarrow> string" where
  "after_colon i = (if CHR '':'' \<in> set i then drop 1 (dropWhile (\<lambda>c. c \<noteq> CHR '':'') i) else i)"

definition questionKind :: "string \<Rightarrow> question_kind" where
  "questionKind i =
     (let p = before_colon i
      in if p = ''plan_confirm'' then PlanConfirm else if p = ''plan_change'' then PlanChange
         else if p = ''op_confirm'' then OpConfirm else if p = ''lifeline_confirm'' then LifelineConfirm
         else if p = ''ask'' then Ask else OtherQuestion)"

definition question_pending :: "question_event \<Rightarrow> int \<Rightarrow> pending" where
  "question_pending q now =
     (let k = questionKind (q_id q)
      in PQuestion (q_id q) (q_prompt q) (q_options q) k now
           (case q_timeout q of None \<Rightarrow> None | Some ms \<Rightarrow> if ms = 0 then None else Some (now + ms))
           (if k \<in> {PlanConfirm, PlanChange, OpConfirm, LifelineConfirm} then Some (after_colon (q_id q)) else None))"

subsection \<open>The reducer\<close>

definition client_id :: "char \<Rightarrow> ui_state \<Rightarrow> string" where
  "client_id c s = c # show_nat (seq_no s + 1)"

definition on_status :: "ui_state \<Rightarrow> status_event \<Rightarrow> ui_state" where
  "on_status s e =
     (let n = s\<lparr>ui_server := st_server e, ui_health := st_health e,
                ui_model := (case st_model e of None \<Rightarrow> ui_model s | m \<Rightarrow> m),
                ui_privilege := (case st_privilege e of None \<Rightarrow> ui_privilege s | p \<Rightarrow> p)\<rparr>
      in if st_health e = Connecting then n\<lparr>working := False, pending := None, pending_queue := []\<rparr> else n)"

definition on_delta :: "ui_state \<Rightarrow> string \<Rightarrow> int \<Rightarrow> ui_state" where
  "on_delta s t now =
     (case streaming_last s of
        Some (i, u, a) \<Rightarrow> replaceLast s (AssistantBlock i (u @ t) True a)
      | None \<Rightarrow> push (s\<lparr>working := True, seq_no := seq_no s + 1\<rparr>) (AssistantBlock (client_id CHR ''a'' s) t True now))"

definition on_reply :: "ui_state \<Rightarrow> string \<Rightarrow> int \<Rightarrow> ui_state" where
  "on_reply s t now =
     (let n = (case streaming_last s of
                 Some (i, u, a) \<Rightarrow> replaceLast s (AssistantBlock i (if t \<noteq> [] then t else u) False a)
               | None \<Rightarrow> if t \<noteq> [] then push s (AssistantBlock (client_id CHR ''a'' s) t False now) else s)
      in n\<lparr>working := False, seq_no := seq_no n + 1\<rparr>)"

definition on_activity :: "ui_state \<Rightarrow> activity_event \<Rightarrow> int \<Rightarrow> ui_state" where
  "on_activity s0 e now =
     (if act_status e = Running then
        let s = closeStreaming (s0\<lparr>working := True\<rparr>);
            top = push s (ActivityBlock (act_id e) (Node (act_id e) None (act_label e) Running None [] now None) now)
        in if truthy (act_parent e)
           then case findNode s (the (act_parent e)) of
                  Some (b, path) \<Rightarrow>
                    s\<lparr>blocks := map_node b path
                        (add_child (Node (act_id e) (act_parent e) (act_label e) Running None [] now None)) (blocks s)\<rparr>
                | None \<Rightarrow> top
           else top
      else case findNode s0 (act_id e) of
             None \<Rightarrow> s0
           | Some (b, path) \<Rightarrow> s0\<lparr>blocks := map_node b path (end_node (act_status e) (act_detail e) now) (blocks s0)\<rparr>)"

definition on_notice :: "ui_state \<Rightarrow> notice \<Rightarrow> int \<Rightarrow> ui_state" where
  "on_notice s n now =
     (let t = push s (NoticeBlock (client_id CHR ''n'' s) n now) in t\<lparr>seq_no := seq_no t + 1\<rparr>)"

definition on_result :: "ui_state \<Rightarrow> operation_result_event \<Rightarrow> ui_state" where
  "on_result s0 e =
     (let s = s0\<lparr>blocks := map (mark_result (or_id e) (or_outcome e, or_message e)) (blocks s0)\<rparr>
      in case pending s of
           Some (PQuestion _ _ _ _ _ _ b) \<Rightarrow> if b = Some (or_id e) then advancePending s else s
         | _ \<Rightarrow> s)"

fun reduce :: "ui_state \<Rightarrow> server_event \<Rightarrow> int \<Rightarrow> ui_state" where
  "reduce s (Stacks xs u) now = s\<lparr>stacks := Some xs, stacks_unavailable := u\<rparr>"
| "reduce s (StackLogs app ls err) now = s\<lparr>stack_logs := AList.update app (ls, err) (stack_logs s)\<rparr>"
| "reduce s (Status e) now = on_status s e"
| "reduce s (ReplyDelta t) now = on_delta s t now"
| "reduce s (Reply t) now = on_reply s t now"
| "reduce s (Activity e) now = on_activity s e now"
| "reduce s (Notice n) now = on_notice s n now"
| "reduce s (SystemPlan p) now = push (closeStreaming s) (PlanBlock (sp_id p) p None now)"
| "reduce s (OperationPlan p) now = push (closeStreaming s) (OperationBlock (pl_id p) p None None now)"
| "reduce s (OperationProgress i ph) now = s\<lparr>blocks := map (mark_phase i ph) (blocks s)\<rparr>"
| "reduce s (OperationResult e) now = on_result s e"
| "reduce s (Question q) now = enqueuePending s (question_pending q now)"
| "reduce s (SecretPrompt i p) now = enqueuePending s (PSecret i p now)"
| "reduce s (PairResult e) now = s"

subsection \<open>The user's side\<close>

definition userSent :: "ui_state \<Rightarrow> string \<Rightarrow> int \<Rightarrow> ui_state" where
  "userSent s t now = (push s (UserBlock (client_id CHR ''u'' s) t now))\<lparr>working := True, seq_no := seq_no s + 1\<rparr>"

definition decision_of :: "string \<Rightarrow> decision" where
  "decision_of v = (if v = ''approve'' then Approved else if v = ''change'' then Changed else Cancelled)"

definition answered :: "ui_state \<Rightarrow> string \<Rightarrow> string \<Rightarrow> ui_state" where
  "answered s i v =
     (case pending s of
        None \<Rightarrow> s
      | Some p \<Rightarrow>
          if pending_id p \<noteq> i then s
          else let bs = (case p of
                     PQuestion _ _ _ k _ _ b \<Rightarrow>
                       if k = PlanConfirm \<and> truthy b then map (mark_plan (the b) (decision_of v)) (blocks s) else blocks s
                   | _ \<Rightarrow> blocks s)
               in advancePending (s\<lparr>blocks := bs\<rparr>))"

text \<open>\<open>Number(key)\<close> of a decimal numeral; the name of a key is not a number.\<close>

definition key_number :: "string \<Rightarrow> nat option" where
  "key_number key = (let t = trim key in if t \<noteq> [] \<and> list_all is_digit t then Some (read_nat t) else None)"

definition first_of :: "string list \<Rightarrow> string list \<Rightarrow> string option" where
  "first_of wanted values = List.find (\<lambda>v. v \<in> set values) wanted"

definition keyToAnswer :: "pending option \<Rightarrow> string \<Rightarrow> string option" where
  "keyToAnswer p key =
     (case p of
        Some (PQuestion _ _ os _ _ _ _) \<Rightarrow>
          (let values = map opt_value os
           in if os = [] then None
              else if key \<in> {''a'', ''y'', ''return''} then first_of [''approve'', ''keep''] values
              else if key = ''c'' then first_of [''change''] values
              else if key \<in> {''x'', ''n'', ''escape''} then first_of [''cancel'', ''rollback''] values
              else if key = ''k'' then first_of [''keep''] values
              else if key = ''r'' then first_of [''rollback''] values
              else case key_number key of
                     Some n \<Rightarrow> if 1 \<le> n \<and> n \<le> length values then Some (values ! (n - 1)) else None
                   | None \<Rightarrow> None)
      | _ \<Rightarrow> None)"

text \<open>The hint for the up and down arrows is the value \<open>Arrows\<close>.\<close>

datatype hint_key = Key string | Arrows

definition option_key :: "string \<Rightarrow> nat \<Rightarrow> string" where
  "option_key v n =
     (if v = ''approve'' then ''a'' else if v = ''change'' then ''c'' else if v = ''cancel'' then ''x''
      else if v = ''keep'' then ''k'' else if v = ''rollback'' then ''r'' else show_nat (n + 1))"

definition footerHints :: "ui_state \<Rightarrow> (hint_key \<times> string) list" where
  "footerHints s =
     (case pending s of
        Some (PSecret _ _ _) \<Rightarrow> [(Key ''enter'', ''submit''), (Key ''esc'', ''skip'')]
      | Some (PQuestion _ _ os _ _ _ _) \<Rightarrow>
          if os = [] then [(Key ''enter'', ''send'')]
          else map (\<lambda>(o', n). (Key (option_key (opt_value o') n), label o')) (zip os [0..<length os])
      | None \<Rightarrow>
          if working s then [(Arrows, ''scroll'')]
          else [(Key ''enter'', ''send''), (Key ''/'', ''commands''), (Arrows, ''scroll'')])"

record slash_help =
  sc_command :: string
  sc_usage :: string
  sc_help :: string

definition SLASH_COMMANDS :: "slash_help list" where
  "SLASH_COMMANDS =
    [\<lparr>sc_command = ''/provider'', sc_usage = ''/provider'', sc_help = ''connect an AI provider or a search key''\<rparr>,
     \<lparr>sc_command = ''/pair'', sc_usage = ''/pair'', sc_help = ''show the ticket a remote miro needs''\<rparr>,
     \<lparr>sc_command = ''/memory'', sc_usage = ''/memory'', sc_help = ''list what Miro remembers''\<rparr>,
     \<lparr>sc_command = ''/memory forget'', sc_usage = ''/memory forget <id>'', sc_help = ''forget one memory''\<rparr>]"

datatype slash = Message client_message | Unknown string | NotSlash

definition slashCommand :: "string \<Rightarrow> slash" where
  "slashCommand t =
     (if \<not> starts_with ''/'' t then NotSlash
      else if t = ''/provider'' then Message ProviderSetup
      else if t = ''/pair'' then Message PairRequest
      else if t = ''/memory'' then Message MemoryList
      else if starts_with ''/memory forget '' t
        then (let i = trim (drop (length ''/memory forget '') t)
              in if i \<noteq> [] then Message (MemoryForget i) else Unknown t)
      else Unknown t)"

fun countSteps :: "activity_node \<Rightarrow> nat" where
  "countSteps (Node j p l st d ns a e) = sum_list (map (\<lambda>c. 1 + countSteps c) ns)"

definition secondsLeft :: "pending option \<Rightarrow> int \<Rightarrow> int option" where
  "secondsLeft p now =
     (case p of
        Some (PQuestion _ _ _ _ _ (Some d) _) \<Rightarrow> if d = 0 then None else Some (max 0 (- ((now - d) div 1000)))
      | _ \<Rightarrow> None)"

fun isQuiet :: "activity_node \<Rightarrow> bool" where
  "isQuiet (Node j p l st d ns a e) = (st \<noteq> Running \<and> st \<noteq> Failed \<and> list_all isQuiet ns)"

end
