(* ===== verification/UiProps.thy ===== *)
theory UiProps
  imports UiModel
begin

text \<open>
  What the view-model promises: over any sequence of events and user actions the prompts form a
  queue without duplicates, the blocks the client numbers never share an id, streamed text is
  assembled, and the keys answer what the hints say.
\<close>

datatype ui_input = Recv server_event int | UserSends string int | Answers string string

fun ui_step :: "ui_state \<Rightarrow> ui_input \<Rightarrow> ui_state" where
  "ui_step s (Recv e t) = reduce s e t"
| "ui_step s (UserSends m t) = userSent s m t"
| "ui_step s (Answers i v) = answered s i v"

definition ui_run :: "ui_state \<Rightarrow> ui_input list \<Rightarrow> ui_state" where
  "ui_run s xs = foldl ui_step s xs"

lemma ui_run_simps [simp]: "ui_run s [] = s" "ui_run s (x # xs) = ui_run (ui_step s x) xs"
    "ui_run s (xs @ ys) = ui_run (ui_run s xs) ys"
  by (simp_all add: ui_run_def)

lemma ui_run_invariant:
  assumes "P s" and "\<And>s x. P s \<Longrightarrow> P (ui_step s x)"
  shows "P (ui_run s xs)"
  using assms(1) by (induction xs arbitrary: s) (auto simp: assms(2))

subsection \<open>The prompts\<close>

definition open_prompts :: "ui_state \<Rightarrow> pending list" where
  "open_prompts s = (case pending s of None \<Rightarrow> [] | Some p \<Rightarrow> [p]) @ pending_queue s"

definition open_ids :: "ui_state \<Rightarrow> string list" where
  "open_ids s = map pending_id (open_prompts s)"

definition prompts_ok :: "ui_state \<Rightarrow> bool" where
  "prompts_ok s \<longleftrightarrow> distinct (open_ids s) \<and> (pending s = None \<longrightarrow> pending_queue s = [])"

lemma closeStreaming_fields [simp]:
  "pending (closeStreaming s) = pending s" "pending_queue (closeStreaming s) = pending_queue s"
  "seq_no (closeStreaming s) = seq_no s" "working (closeStreaming s) = working s"
  by (auto simp: closeStreaming_def replaceLast_def split: option.splits)

lemma push_fields [simp]:
  "pending (push s b) = pending s" "pending_queue (push s b) = pending_queue s" "seq_no (push s b) = seq_no s"
  "blocks (push s b) = blocks s @ [b]" "working (push s b) = working s"
  by (simp_all add: push_def)

lemma replaceLast_fields [simp]:
  "pending (replaceLast s b) = pending s" "pending_queue (replaceLast s b) = pending_queue s"
  "seq_no (replaceLast s b) = seq_no s" "blocks (replaceLast s b) = butlast (blocks s) @ [b]"
  by (simp_all add: replaceLast_def)

lemma open_ids_cong: "pending t = pending s \<Longrightarrow> pending_queue t = pending_queue s \<Longrightarrow> open_ids t = open_ids s"
  by (simp add: open_ids_def open_prompts_def)

lemma prompts_ok_cong: "pending t = pending s \<Longrightarrow> pending_queue t = pending_queue s \<Longrightarrow> prompts_ok t = prompts_ok s"
  by (simp add: prompts_ok_def open_ids_def open_prompts_def)

lemma open_ids_enqueue:
  "prompts_ok s \<Longrightarrow> open_ids (enqueuePending s p)
    = (if pending_id p \<in> set (open_ids s) then open_ids s else open_ids s @ [pending_id p])"
  by (auto simp: enqueuePending_def prompts_ok_def open_ids_def open_prompts_def Let_def list_ex_iff image_iff
      split: option.splits) metis+

lemma open_ids_advance: "prompts_ok s \<Longrightarrow> open_ids (advancePending s) = tl (open_ids s)"
  by (auto simp: advancePending_def prompts_ok_def open_ids_def open_prompts_def split: option.splits list.splits)

lemma prompts_ok_advance: "prompts_ok s \<Longrightarrow> prompts_ok (advancePending s)"
  using open_ids_advance [of s]
  by (auto simp: prompts_ok_def distinct_tl) (auto simp: advancePending_def split: list.splits)

lemma prompts_ok_enqueue: "prompts_ok s \<Longrightarrow> prompts_ok (enqueuePending s p)"
  using open_ids_enqueue [of s p]
  by (auto simp: prompts_ok_def) (auto simp: enqueuePending_def Let_def split: if_splits option.splits)

text \<open>What one input does to the prompts.\<close>

definition asks :: "ui_input \<Rightarrow> string option" where
  "asks x = (case x of Recv (Question q) _ \<Rightarrow> Some (q_id q) | Recv (SecretPrompt i _) _ \<Rightarrow> Some i | _ \<Rightarrow> None)"

definition disconnects :: "ui_input \<Rightarrow> bool" where
  "disconnects x = (case x of Recv (Status e) _ \<Rightarrow> st_health e = Connecting | _ \<Rightarrow> False)"

definition settles_shown :: "ui_state \<Rightarrow> ui_input \<Rightarrow> bool" where
  "settles_shown s x =
     (case x of
        Answers i _ \<Rightarrow> pending s \<noteq> None \<and> pending_id (the (pending s)) = i
      | Recv (OperationResult e) _ \<Rightarrow>
          (case pending s of Some (PQuestion _ _ _ _ _ _ b) \<Rightarrow> b = Some (or_id e) | _ \<Rightarrow> False)
      | _ \<Rightarrow> False)"

lemma pending_id_question [simp]: "pending_id (question_pending q t) = q_id q"
  by (simp add: question_pending_def Let_def)

lemma open_ids_status: "open_ids (on_status s e) = (if st_health e = Connecting then [] else open_ids s)"
  by (simp add: on_status_def open_ids_def open_prompts_def Let_def)

lemma open_ids_answered:
  "prompts_ok s \<Longrightarrow> open_ids (answered s i v)
    = (if pending s \<noteq> None \<and> pending_id (the (pending s)) = i then tl (open_ids s) else open_ids s)"
proof -
  assume ok: "prompts_ok s"
  have "open_ids (advancePending (s\<lparr>blocks := bs\<rparr>)) = tl (open_ids s)" for bs
    using open_ids_advance [of "s\<lparr>blocks := bs\<rparr>"] ok by (simp add: prompts_ok_def open_ids_def open_prompts_def)
  then show ?thesis by (auto simp: answered_def Let_def split: option.splits pending.splits)
qed

lemma open_ids_result:
  "prompts_ok s \<Longrightarrow> open_ids (on_result s e) = (if settles_shown s (Recv (OperationResult e) t) then tl (open_ids s) else open_ids s)"
proof -
  assume ok: "prompts_ok s"
  have "open_ids (advancePending (s\<lparr>blocks := bs\<rparr>)) = tl (open_ids s)" "open_ids (s\<lparr>blocks := bs\<rparr>) = open_ids s" for bs
    using open_ids_advance [of "s\<lparr>blocks := bs\<rparr>"] ok by (simp_all add: prompts_ok_def open_ids_def open_prompts_def)
  then show ?thesis
    by (simp add: on_result_def Let_def settles_shown_def split: option.splits pending.splits)
qed

lemma activity_prompts [simp]:
  "pending (on_activity s e t) = pending s" "pending_queue (on_activity s e t) = pending_queue s"
  by (auto simp: on_activity_def Let_def split: option.splits)

lemma text_prompts [simp]:
  "pending (on_delta s m t) = pending s" "pending_queue (on_delta s m t) = pending_queue s"
  "pending (on_reply s m t) = pending s" "pending_queue (on_reply s m t) = pending_queue s"
  "pending (on_notice s n t) = pending s" "pending_queue (on_notice s n t) = pending_queue s"
  "pending (userSent s m t) = pending s" "pending_queue (userSent s m t) = pending_queue s"
  by (auto simp: on_delta_def on_reply_def on_notice_def userSent_def Let_def split: option.splits)

lemma open_ids_kept [simp]:
  "open_ids (push s b) = open_ids s" "open_ids (closeStreaming s) = open_ids s"
  "open_ids (s\<lparr>blocks := bs\<rparr>) = open_ids s" "open_ids (on_activity s a t) = open_ids s"
  "open_ids (on_delta s m t) = open_ids s" "open_ids (on_reply s m t) = open_ids s"
  "open_ids (on_notice s n t) = open_ids s" "open_ids (userSent s m t) = open_ids s"
  "open_ids (s\<lparr>stacks := xs, stacks_unavailable := u\<rparr>) = open_ids s" "open_ids (s\<lparr>stack_logs := ls\<rparr>) = open_ids s"
  by (simp_all add: open_ids_cong [of _ s] open_ids_def open_prompts_def)

lemma prompts_ok_kept [simp]:
  "prompts_ok (push s b) = prompts_ok s" "prompts_ok (closeStreaming s) = prompts_ok s"
  "prompts_ok (s\<lparr>blocks := bs\<rparr>) = prompts_ok s" "prompts_ok (on_activity s a t) = prompts_ok s"
  "prompts_ok (on_delta s m t) = prompts_ok s" "prompts_ok (on_reply s m t) = prompts_ok s"
  "prompts_ok (on_notice s n t) = prompts_ok s" "prompts_ok (userSent s m t) = prompts_ok s"
  "prompts_ok (s\<lparr>stacks := xs, stacks_unavailable := u\<rparr>) = prompts_ok s" "prompts_ok (s\<lparr>stack_logs := ls\<rparr>) = prompts_ok s"
  by (simp_all add: prompts_ok_def)

lemma open_ids_step:
  assumes "prompts_ok s"
  shows "open_ids (ui_step s x) =
    (if disconnects x then []
     else if settles_shown s x then tl (open_ids s)
     else case asks x of
            Some i \<Rightarrow> if i \<in> set (open_ids s) then open_ids s else open_ids s @ [i]
          | None \<Rightarrow> open_ids s)"
proof (cases x)
  case (Recv e t)
  show ?thesis
  proof (cases e)
    case (OperationResult r)
    with Recv show ?thesis
      using open_ids_result [OF assms, of r t] by (simp add: disconnects_def asks_def)
  qed (simp_all add: Recv disconnects_def asks_def open_ids_status open_ids_enqueue [OF assms] settles_shown_def)
next
  case (UserSends m t)
  then show ?thesis by (simp add: disconnects_def settles_shown_def asks_def)
next
  case (Answers i v)
  with assms show ?thesis
    by (simp add: disconnects_def settles_shown_def asks_def open_ids_answered)
qed

lemma prompts_ok_step: "prompts_ok s \<Longrightarrow> prompts_ok (ui_step s x)"
proof (cases x)
  case (Recv e t)
  assume ok: "prompts_ok s"
  have adv: "prompts_ok (advancePending (s\<lparr>blocks := bs\<rparr>))" for bs
    using prompts_ok_advance [of "s\<lparr>blocks := bs\<rparr>"] ok by simp
  have "prompts_ok (on_status s e')" for e'
    using ok by (auto simp: on_status_def prompts_ok_def open_ids_def open_prompts_def Let_def)
  moreover have "prompts_ok (on_result s e')" for e'
    using adv ok by (simp add: on_result_def Let_def split: option.splits pending.splits)
  ultimately show ?thesis using Recv ok by (cases e) (simp_all add: prompts_ok_enqueue)
next
  case (UserSends m t)
  assume "prompts_ok s"
  then show ?thesis using UserSends by simp
next
  case (Answers i v)
  assume ok: "prompts_ok s"
  have "prompts_ok (advancePending (s\<lparr>blocks := bs\<rparr>))" for bs
    using prompts_ok_advance [of "s\<lparr>blocks := bs\<rparr>"] ok by simp
  then show ?thesis using Answers ok by (simp add: answered_def Let_def split: option.splits)
qed

lemma prompts_ok_run: "prompts_ok s \<Longrightarrow> prompts_ok (ui_run s xs)"
  by (rule ui_run_invariant [of prompts_ok]) (auto simp: prompts_ok_step)

lemma prompts_ok_initial [simp]: "prompts_ok (initialState srv)"
  by (simp add: prompts_ok_def open_ids_def open_prompts_def initialState_def)

subsection \<open>Numbered blocks\<close>

fun is_client :: "block \<Rightarrow> bool" where
  "is_client (UserBlock _ _ _) = True"
| "is_client (AssistantBlock _ _ _ _) = True"
| "is_client (NoticeBlock _ _ _) = True"
| "is_client _ = False"

definition client_ids :: "ui_state \<Rightarrow> string list" where
  "client_ids s = map block_id (filter is_client (blocks s))"

definition numbered :: "ui_state \<Rightarrow> bool" where
  "numbered s \<longleftrightarrow> (\<exists>ns. map (drop 1) (client_ids s) = map show_nat ns \<and> sorted_wrt (<) ns \<and> (\<forall>n \<in> set ns. n \<le> seq_no s))"

text \<open>One input numbers at most one block, with a number the sequence then passes.\<close>

definition numbers_one :: "ui_state \<Rightarrow> ui_state \<Rightarrow> bool" where
  "numbers_one s t \<longleftrightarrow> client_ids t = client_ids s \<and> seq_no s \<le> seq_no t \<or>
     (\<exists>c. client_ids t = client_ids s @ [c # show_nat (seq_no s + 1)]) \<and> seq_no s < seq_no t"

lemma numbered_step: "numbered s \<Longrightarrow> numbers_one s t \<Longrightarrow> numbered t"
proof -
  assume "numbered s"
  then obtain ns where ns: "map (drop 1) (client_ids s) = map show_nat ns" "sorted_wrt (<) ns" "\<forall>n \<in> set ns. n \<le> seq_no s"
    by (auto simp: numbered_def)
  assume "numbers_one s t"
  then consider "client_ids t = client_ids s" "seq_no s \<le> seq_no t"
    | c where "client_ids t = client_ids s @ [c # show_nat (seq_no s + 1)]" "seq_no s < seq_no t"
    by (auto simp: numbers_one_def)
  then show "numbered t"
  proof cases
    case 1
    then have "\<forall>n \<in> set ns. n \<le> seq_no t" using ns(3) le_trans by blast
    then show ?thesis using 1 ns by (auto simp: numbered_def)
  next
    case 2
    then have "map (drop 1) (client_ids t) = map show_nat (ns @ [seq_no s + 1])" using ns(1) by simp
    moreover have "sorted_wrt (<) (ns @ [seq_no s + 1])" using ns(2,3) by (auto simp: sorted_wrt_append less_Suc_eq_le)
    moreover have "\<forall>n \<in> set (ns @ [seq_no s + 1]). n \<le> seq_no t" using ns(3) 2(2) by auto
    ultimately show ?thesis unfolding numbered_def by blast
  qed
qed

lemma distinct_ids_numbered: "numbered s \<Longrightarrow> distinct (client_ids s)"
proof -
  assume "numbered s"
  then obtain ns where ns: "map (drop 1) (client_ids s) = map show_nat ns" "sorted_wrt (<) ns"
    by (auto simp: numbered_def)
  then have "distinct ns" using strict_sorted_iff by auto
  then have "distinct (map show_nat ns)" by (simp add: distinct_map inj_on_def)
  with ns(1) show ?thesis by (metis distinct_map)
qed

lemma streaming_last_Some:
  "streaming_last s = Some (i, u, a) \<longleftrightarrow> blocks s \<noteq> [] \<and> last (blocks s) = AssistantBlock i u True a"
  by (auto simp: streaming_last_def split: block.splits bool.splits if_splits)

lemma client_ids_replace:
  "streaming_last s = Some (i, u, a) \<Longrightarrow> client_ids (replaceLast s (AssistantBlock i v b c)) = client_ids s"
proof -
  assume "streaming_last s = Some (i, u, a)"
  then obtain bs where "blocks s = bs @ [AssistantBlock i u True a]"
    by (metis streaming_last_Some append_butlast_last_id)
  then show ?thesis by (simp add: client_ids_def)
qed

lemma client_ids_close [simp]: "client_ids (closeStreaming s) = client_ids s"
  by (auto simp: closeStreaming_def client_ids_replace split: option.splits)

lemma client_ids_cong: "blocks t = blocks s \<Longrightarrow> client_ids t = client_ids s"
  by (simp add: client_ids_def)

lemma client_ids_push [simp]: "client_ids (push s b) = client_ids s @ (if is_client b then [block_id b] else [])"
  by (simp add: client_ids_def)

lemma client_ids_map:
  "(\<And>b. b \<in> set bs \<Longrightarrow> is_client (f b) = is_client b \<and> block_id (f b) = block_id b) \<Longrightarrow>
    map block_id (filter is_client (map f bs)) = map block_id (filter is_client bs)"
  by (induction bs) auto

lemma marks_keep_ids:
  "is_client (mark_plan i d b) = is_client b \<and> block_id (mark_plan i d b) = block_id b"
  "is_client (mark_phase i ph b) = is_client b \<and> block_id (mark_phase i ph b) = block_id b"
  "is_client (mark_result i r b) = is_client b \<and> block_id (mark_result i r b) = block_id b"
  by (cases b; simp)+

lemma filter_update_out:
  "k < length xs \<Longrightarrow> \<not> P (xs ! k) \<Longrightarrow> \<not> P y \<Longrightarrow> filter P (xs[k := y]) = filter P xs"
  by (induction xs arbitrary: k) (auto simp: nth_Cons' split: nat.splits)

lemma client_ids_node [simp]:
  "map block_id (filter is_client (map_node k path f bs)) = map block_id (filter is_client bs)"
  by (auto simp: map_node_def filter_update_out split: block.splits)

lemma client_ids_advance [simp]: "blocks (advancePending s) = blocks s" "seq_no (advancePending s) = seq_no s"
  by (auto simp: advancePending_def split: list.splits)

lemma client_ids_enqueue [simp]:
  "client_ids (enqueuePending s p) = client_ids s" "seq_no (enqueuePending s p) = seq_no s"
proof -
  have "blocks (enqueuePending s p) = blocks (closeStreaming s)"
    by (simp add: enqueuePending_def Let_def)
  then show "client_ids (enqueuePending s p) = client_ids s"
    using client_ids_close by (simp add: client_ids_def)
  show "seq_no (enqueuePending s p) = seq_no s" by (simp add: enqueuePending_def Let_def)
qed

lemma client_ids_record [simp]:
  "client_ids (s\<lparr>working := b\<rparr>) = client_ids s" "client_ids (s\<lparr>seq_no := n\<rparr>) = client_ids s"
  "client_ids (s\<lparr>blocks := map_node k path f (blocks s)\<rparr>) = client_ids s"
  "client_ids (s\<lparr>blocks := map (mark_phase i ph) (blocks s)\<rparr>) = client_ids s"
  "client_ids (s\<lparr>stack_logs := l\<rparr>) = client_ids s"
  "client_ids (s\<lparr>stacks := xs, stacks_unavailable := u\<rparr>) = client_ids s"
  by (simp_all add: client_ids_def client_ids_map marks_keep_ids)

lemma client_ids_status [simp]: "client_ids (on_status s e) = client_ids s" "seq_no (on_status s e) = seq_no s"
  by (simp_all add: client_ids_def on_status_def Let_def)

lemma client_ids_result [simp]: "client_ids (on_result s r) = client_ids s" "seq_no (on_result s r) = seq_no s"
proof -
  have "blocks (on_result s r) = map (mark_result (or_id r) (or_outcome r, or_message r)) (blocks s)" "seq_no (on_result s r) = seq_no s"
    by (simp_all add: on_result_def Let_def split: option.splits pending.splits)
  then show "client_ids (on_result s r) = client_ids s" "seq_no (on_result s r) = seq_no s"
    by (simp_all add: client_ids_def client_ids_map marks_keep_ids)
qed

lemma activity_numbers [simp]: "client_ids (on_activity s e t) = client_ids s" "seq_no (on_activity s e t) = seq_no s"
  by (simp_all add: on_activity_def Let_def split: option.splits)

lemma client_ids_answered [simp]: "client_ids (answered s i v) = client_ids s" "seq_no (answered s i v) = seq_no s"
proof -
  have "blocks (answered s i v) = blocks s \<or> (\<exists>b. blocks (answered s i v) = map (mark_plan b (decision_of v)) (blocks s))"
    by (auto simp: answered_def Let_def split: option.splits pending.splits)
  then show "client_ids (answered s i v) = client_ids s"
    by (auto simp: client_ids_def client_ids_map marks_keep_ids)
  show "seq_no (answered s i v) = seq_no s" by (simp add: answered_def Let_def split: option.splits)
qed

lemma step_numbers: "numbers_one s (ui_step s x)"
proof (cases x)
  case (Recv e t)
  show ?thesis
  proof (cases e)
    case (ReplyDelta m)
    then show ?thesis using Recv
      by (cases "streaming_last s")
        (auto simp: numbers_one_def on_delta_def client_id_def client_ids_replace client_ids_cong [of "s\<lparr>working := True, seq_no := Suc (seq_no s)\<rparr>" s])
  next
    case (Reply m)
    then show ?thesis using Recv
      by (cases "streaming_last s")
        (auto simp: numbers_one_def on_reply_def Let_def client_id_def client_ids_replace
          client_ids_cong [of "u\<lparr>working := False, seq_no := n\<rparr>" u for u n])
  next
    case (Notice m)
    then show ?thesis using Recv by (auto simp: numbers_one_def on_notice_def Let_def client_id_def)
  qed (simp_all add: Recv numbers_one_def)
next
  case (UserSends m t)
  then show ?thesis
    by (auto simp: numbers_one_def userSent_def client_id_def client_ids_cong [of "u\<lparr>working := True, seq_no := n\<rparr>" u for u n])
next
  case (Answers i v)
  then show ?thesis by (simp add: numbers_one_def)
qed

lemma numbered_initial [simp]: "numbered (initialState srv)"
  by (simp add: numbered_def client_ids_def initialState_def)

subsection \<open>The activity tree\<close>

fun nodes_in :: "activity_node \<Rightarrow> nat" where
  "nodes_in (Node j p l st d ns a e) = 1 + sum_list (map nodes_in ns)"

lemma countSteps_nodes: "countSteps n + 1 = nodes_in n"
proof (induction n)
  case (Node j p l st d ns a e)
  then have "map (\<lambda>c. 1 + countSteps c) ns = map nodes_in ns" by auto
  from arg_cong [OF this, of sum_list] show ?case by simp
qed

fun valid_path :: "nat list \<Rightarrow> activity_node \<Rightarrow> bool" where
  "valid_path [] n = True"
| "valid_path (h # r) (Node j p l st d ns a e) = (h < length ns \<and> valid_path r (ns ! h))"

lemma sum_list_update_nat:
  "k < length xs \<Longrightarrow> sum_list (xs[k := (y::nat)]) + xs ! k = sum_list xs + y"
  by (induction xs arbitrary: k) (auto simp: nth_Cons' split: nat.splits)

lemma nodes_update:
  "valid_path path n \<Longrightarrow> (\<And>m. nodes_in (f m) = nodes_in m + c) \<Longrightarrow> nodes_in (updateNode path f n) = nodes_in n + c"
proof (induction path f n rule: updateNode.induct)
  case (2 h r f j p l st d ns a e)
  then have "nodes_in (updateNode r f (ns ! h)) = nodes_in (ns ! h) + c" by simp
  moreover have "sum_list (map nodes_in (ns[h := x])) + nodes_in (ns ! h) = sum_list (map nodes_in ns) + nodes_in x" for x
    using sum_list_update_nat [of h "map nodes_in ns" "nodes_in x"] 2(2) by (simp add: map_update)
  ultimately show ?case using 2(2) by simp (metis add.assoc add.commute add_right_cancel)
qed simp

lemma pathTo_valid:
  "pathTo i n = Some path \<Longrightarrow> valid_path path n"
  "pathToAny i k ns = Some path \<Longrightarrow> \<exists>h r. path = h # r \<and> k \<le> h \<and> h - k < length ns \<and> valid_path r (ns ! (h - k))"
proof (induction i n and i k ns arbitrary: path and path rule: pathTo_pathToAny.induct)
  case (1 i j p l st d ns a e)
  then show ?case by (auto split: if_splits)
next
  case (3 i k n ns)
  show ?case
  proof (cases "pathTo i n")
    case None
    with 3 obtain h r where "path = h # r" "Suc k \<le> h" "h - Suc k < length ns" "valid_path r (ns ! (h - Suc k))" by fastforce
    then show ?thesis by (auto simp: nth_Cons' Suc_diff_Suc [symmetric] Suc_le_eq)
  next
    case (Some p)
    with 3 show ?thesis by auto
  qed
qed auto

fun block_nodes :: "block \<Rightarrow> nat" where
  "block_nodes (ActivityBlock _ n _) = nodes_in n"
| "block_nodes _ = 0"

definition total_nodes :: "ui_state \<Rightarrow> nat" where
  "total_nodes s = sum_list (map block_nodes (blocks s))"

lemma find_from_valid:
  "find_from i k bs = Some (b, path) \<Longrightarrow>
    k \<le> b \<and> b - k < length bs \<and> (\<exists>j n a. bs ! (b - k) = ActivityBlock j n a \<and> valid_path path n)"
proof (induction bs arbitrary: k)
  case (Cons x bs)
  show ?case
  proof (cases "find_from i (Suc k) bs")
    case None
    with Cons.prems show ?thesis by (auto simp: pathTo_valid split: block.splits)
  next
    case (Some y)
    with Cons have "Suc k \<le> b \<and> b - Suc k < length bs \<and> (\<exists>j n a. bs ! (b - Suc k) = ActivityBlock j n a \<and> valid_path path n)" by auto
    then show ?thesis by (auto simp: nth_Cons' Suc_diff_Suc [symmetric] Suc_le_eq)
  qed
qed simp

lemma total_nodes_map_node:
  assumes "findNode s i = Some (b, path)" and "\<And>m. nodes_in (f m) = nodes_in m + c"
  shows "sum_list (map block_nodes (map_node b path f (blocks s))) = total_nodes s + c"
proof -
  obtain j n a where b: "b < length (blocks s)" "blocks s ! b = ActivityBlock j n a" "valid_path path n"
    using find_from_valid [of i 0 "blocks s" b path] assms(1) by (auto simp: findNode_def)
  have "sum_list (map block_nodes ((blocks s)[b := ActivityBlock j (updateNode path f n) a])) + nodes_in n
      = total_nodes s + nodes_in (updateNode path f n)"
    using sum_list_update_nat [of b "map block_nodes (blocks s)"] b by (simp add: map_update total_nodes_def)
  then show ?thesis using b nodes_update [OF b(3) assms(2)] by (simp add: map_node_def)
qed

lemma length_map_node [simp]: "length (map_node b path f bs) = length bs"
  by (auto simp: map_node_def split: block.splits)

lemma nodes_child: "nodes_in (add_child x m) = nodes_in m + nodes_in x"
  by (cases m) simp

lemma nodes_end: "nodes_in (end_node st d t m) = nodes_in m"
  by (cases m) simp

lemma close_total [simp]: "total_nodes (closeStreaming s) = total_nodes s" "length (blocks (closeStreaming s)) = length (blocks s)"
proof -
  have "sum_list (map block_nodes (butlast (blocks s))) = sum_list (map block_nodes (blocks s)) \<and> blocks s \<noteq> []"
    if "streaming_last s = Some (i, u, a)" for i u a
  proof -
    from that have "blocks s = butlast (blocks s) @ [AssistantBlock i u True a]"
      by (metis streaming_last_Some append_butlast_last_id)
    from arg_cong [OF this, of "\<lambda>bs. sum_list (map block_nodes bs)"] that show ?thesis
      by (auto simp: streaming_last_Some)
  qed
  then show "total_nodes (closeStreaming s) = total_nodes s" "length (blocks (closeStreaming s)) = length (blocks s)"
    by (auto simp: closeStreaming_def total_nodes_def split: option.splits)
qed

lemma findNode_close: "findNode (closeStreaming s) i = findNode s i"
proof (cases "streaming_last s")
  case (Some x)
  obtain i' u a where x: "x = (i', u, a)" by (cases x)
  then obtain bs where bs: "blocks s = bs @ [AssistantBlock i' u True a]"
    using Some by (metis streaming_last_Some append_butlast_last_id)
  have "find_from i k (bs @ [AssistantBlock i' v c a]) = find_from i k bs" for k v c
    by (induction bs arbitrary: k) auto
  then show ?thesis using Some x bs by (simp add: closeStreaming_def findNode_def)
qed (simp add: closeStreaming_def)

text \<open>A notice (or a message of the user) in the middle of a streamed reply splits it for good.\<close>

lemma notice_strands_streaming_block:
  assumes "streaming_last s = None" and "r \<noteq> []"
  shows "blocks (ui_run s [Recv (ReplyDelta d) t, Recv (Notice n) t, Recv (Reply r) t])
    = blocks s @ [AssistantBlock (client_id CHR ''a'' s) d True t,
        NoticeBlock (CHR ''n'' # show_nat (seq_no s + 2)) n t,
        AssistantBlock (CHR ''a'' # show_nat (seq_no s + 3)) r False t]"
  using assms by (simp add: on_delta_def on_notice_def on_reply_def streaming_last_def push_def client_id_def Let_def)

subsection \<open>Properties\<close>

text \<open>
  C12. The prompts are a queue without duplicates: at any time no id is open twice and nothing
  waits behind an empty place; an input closes prompts only by losing the connection or by
  settling the one shown (its answer, or the result of the operation it decides), and opens one
  only by asking it, at the end of the queue.
\<close>

theorem prompts_form_a_queue:
  "let s = ui_run (initialState server) xs
   in distinct (open_ids s) \<and> (pending_queue s = [] \<or> (\<exists>p. pending s = Some p)) \<and>
      open_ids (ui_step s x) =
        (if disconnects x then []
         else if settles_shown s x then tl (open_ids s)
         else case asks x of
                Some i \<Rightarrow> if i \<in> set (open_ids s) then open_ids s else open_ids s @ [i]
              | None \<Rightarrow> open_ids s)"
proof -
  have "prompts_ok (ui_run (initialState server) xs)" by (rule prompts_ok_run) simp
  with open_ids_step [OF this] show ?thesis by (auto simp: prompts_ok_def Let_def simp del: ui_step.simps)
qed

text \<open>
  A prompt that waits in the queue survives the result of every operation, that of the
  operation it asks about included: only the prompt shown is withdrawn when its operation ends.
\<close>

theorem queued_prompt_outlives_its_operation:
  "set (pending_queue s) \<subseteq> set (open_prompts (reduce s (OperationResult e) now))"
  by (auto simp: on_result_def Let_def open_prompts_def advancePending_def
      split: option.splits pending.splits list.splits)

text \<open>
  The blocks a client numbers itself - what the user wrote, what the assistant said, the
  notices - never share an id, whatever arrives in whatever order.
\<close>

theorem numbered_blocks_are_distinct:
  "distinct (map block_id (filter is_client (blocks (ui_run (initialState server) xs))))"
  using ui_run_invariant [of numbered, OF numbered_initial numbered_step [OF _ step_numbers]]
    distinct_ids_numbered by (auto simp: client_ids_def)

text \<open>
  A streamed reply is assembled into one block: after any non-empty series of deltas the
  final reply closes the block with its own text, or with the deltas joined when it has none,
  and the turn is over.
\<close>

theorem streamed_reply_is_assembled:
  assumes "streaming_last s = None" and "ds \<noteq> []"
  shows "let u = ui_run s (map (\<lambda>d. Recv (ReplyDelta d) now) ds @ [Recv (Reply r) later])
    in blocks u = blocks s @ [AssistantBlock (client_id CHR ''a'' s) (if r \<noteq> [] then r else concat ds) False now] \<and>
       \<not> working u"
proof -
  obtain d es where ds: "ds = d # es" using assms(2) by (cases ds) auto
  have more: "ui_run v (map (\<lambda>d. Recv (ReplyDelta d) now) es)
      = v\<lparr>blocks := bs @ [AssistantBlock i (u @ concat es) True a]\<rparr>"
    if "blocks v = bs @ [AssistantBlock i u True a]" for v bs i u a es
    using that
  proof (induction es arbitrary: v u)
    case (Cons e es)
    then show ?case by (simp add: on_delta_def streaming_last_def replaceLast_def)
  qed simp
  have "reduce s (ReplyDelta d) now = (s\<lparr>working := True, seq_no := seq_no s + 1\<rparr>)
      \<lparr>blocks := blocks s @ [AssistantBlock (client_id CHR ''a'' s) d True now]\<rparr>"
    using assms(1) by (simp add: on_delta_def push_def)
  then show ?thesis
    by (simp add: ds more Let_def on_reply_def streaming_last_def replaceLast_def)
qed

theorem streamed_reply_is_assembled_witness:
  "let u = ui_run (initialState ''home'') (map (\<lambda>d. Recv (ReplyDelta d) 5) [''All '', ''good''] @ [Recv (Reply []) 9])
   in blocks u = blocks (initialState ''home'') @
        [AssistantBlock (client_id CHR ''a'' (initialState ''home'')) (if [] \<noteq> ([] :: string) then [] else concat [''All '', ''good'']) False 5] \<and>
      \<not> working u"
  by (rule streamed_reply_is_assembled) (simp_all add: initialState_def streaming_last_def)

text \<open>
  The footer tells the truth: for every option of the question shown there is a hint, and
  the key it names answers that option.
\<close>

theorem hinted_keys_answer_their_option:
  "(case pending s of
      Some (PQuestion i pr os k a d b) \<Rightarrow>
        os = [] \<or> (length (footerHints s) = length os \<and>
          list_all (\<lambda>n. \<exists>key. footerHints s ! n = (Key key, label (os ! n)) \<and>
             keyToAnswer (pending s) key = Some (opt_value (os ! n))) [0..<length os])
    | _ \<Rightarrow> True)"
proof (cases "pending s")
  case (Some p)
  show ?thesis
  proof (cases p)
    case (PQuestion i pr os k a d b)
    have "keyToAnswer (pending s) (option_key (opt_value (os ! n)) n) = Some (opt_value (os ! n))" if n: "n < length os" for n
    proof -
      have mem: "opt_value (os ! n) \<in> opt_value ` set os" using n by simp
      have sp: "\<not> is_space c" if "is_digit c" for c
        using that by (auto simp: is_space_def is_digit_def less_eq_char_def)
      have num: "trim (show_nat (n + 1)) = show_nat (n + 1)" "list_all is_digit (show_nat (n + 1))"
        using show_nat_digits sp by (blast intro: trim_id) (simp add: list_all_iff show_nat_digits)
      have nokey: "show_nat (n + 1) \<notin> {''a'', ''y'', ''return'', ''c'', ''x'', ''n'', ''escape'', ''k'', ''r''}"
        using num(2) by (auto simp: is_digit_def less_eq_char_def)
      have key: "key_number (show_nat (n + 1)) = Some (n + 1)" using num by (simp add: key_number_def)
      have ne: "os \<noteq> []" using n by auto
      consider (named) "opt_value (os ! n) \<in> {''approve'', ''change'', ''cancel'', ''keep'', ''rollback''}"
        | (numbered) "opt_value (os ! n) \<notin> {''approve'', ''change'', ''cancel'', ''keep'', ''rollback''}" by blast
      then show ?thesis
      proof cases
        case named
        then show ?thesis using mem ne
          by (elim insertE emptyE) (simp_all add: Some PQuestion keyToAnswer_def option_key_def first_of_def Let_def)
      next
        case numbered
        then have "option_key (opt_value (os ! n)) n = show_nat (n + 1)" by (simp add: option_key_def)
        moreover have "keyToAnswer (pending s) (show_nat (n + 1)) = Some (opt_value (os ! n))"
          using nokey n ne by (simp add: Some PQuestion keyToAnswer_def Let_def key [simplified])
        ultimately show ?thesis by simp
      qed
    qed
    then show ?thesis using Some PQuestion by (auto simp: footerHints_def list_all_iff)
  qed (simp add: Some)
qed simp

text \<open>
  The activity tree loses nothing: a tool call that starts adds exactly one node, under
  its parent when the parent is shown and as a block of its own otherwise; one that ends adds
  none and removes none.
\<close>

theorem activity_adds_one_node:
  "total_nodes (reduce s (Activity e) now) = total_nodes s + (if act_status e = Running then 1 else 0) \<and>
   length (blocks (reduce s (Activity e) now)) = length (blocks s) +
     (if act_status e = Running \<and> \<not> (truthy (act_parent e) \<and> findNode s (the (act_parent e)) \<noteq> None) then 1 else 0)"
proof -
  let ?s = "closeStreaming (s\<lparr>working := True\<rparr>)"
  have f: "findNode ?s i = findNode s i" for i by (simp add: findNode_close) (simp add: findNode_def)
  have t: "total_nodes ?s = total_nodes s" "length (blocks ?s) = length (blocks s)" by simp_all (simp add: total_nodes_def)
  have up: "total_nodes (v\<lparr>blocks := map_node b path g (blocks v)\<rparr>) = total_nodes v + c"
    if "findNode v i = Some (b, path)" "\<And>m. nodes_in (g m) = nodes_in m + c" for v i b path g c
    using total_nodes_map_node [OF that] by (simp add: total_nodes_def)
  show ?thesis
  proof (cases "act_status e = Running")
    case True
    have top: "total_nodes (push ?s (ActivityBlock i (Node i None l Running None [] now None) now)) = total_nodes s + 1" for i l
      using t by (simp add: total_nodes_def)
    show ?thesis
    proof (cases "truthy (act_parent e) \<and> findNode s (the (act_parent e)) \<noteq> None")
      case False
      then have "on_activity s e now = push ?s (ActivityBlock (act_id e) (Node (act_id e) None (act_label e) Running None [] now None) now)"
        using True f by (cases "findNode s (the (act_parent e))") (auto simp: on_activity_def Let_def)
      then show ?thesis using True False top t by auto
    next
      case Nested: True
      then obtain b path where p: "findNode ?s (the (act_parent e)) = Some (b, path)" using f by auto
      let ?c = "Node (act_id e) (act_parent e) (act_label e) Running None [] now None"
      have "on_activity s e now = ?s\<lparr>blocks := map_node b path (add_child ?c) (blocks ?s)\<rparr>"
        using True Nested p by (simp add: on_activity_def Let_def)
      moreover have "nodes_in (add_child ?c m) = nodes_in m + 1" for m by (simp add: nodes_child)
      ultimately show ?thesis using up [OF p, of "add_child ?c" 1] True Nested t by simp
    qed
  next
    case False
    then show ?thesis
    proof (cases "findNode s (act_id e)")
      case (Some x)
      then obtain b path where p: "findNode s (act_id e) = Some (b, path)" by (cases x) auto
      from up [OF this, of "end_node (act_status e) (act_detail e) now" 0] False p show ?thesis
        by (simp add: on_activity_def nodes_end)
    qed (simp add: on_activity_def)
  qed
qed

end
