(* ===== verification/CmdLex.thy ===== *)
theory CmdLex
  imports Regex
begin

text \<open>
  The shell-word tokeniser of the command classifier (\<open>apps/mirod/src/operations/classify.ts\<close>):
  \<open>decodeAnsiC\<close>, \<open>tokenize\<close> and \<open>splitSegments\<close>.  The position in the input is the text still
  ahead; a thrown \<open>Error\<close> is \<open>Inl\<close> of its message.  An octal or hexadecimal escape denotes a
  code unit below 256.
\<close>

datatype token =
    Word (word_value: string) (expansion: bool) (glob: bool)
  | Op string
  | Redir (redir_fd: "nat option") (redir_op: string) (redir_target: string)

record redirect =
  fd :: "nat option"
  rop :: string
  target :: string

record segment =
  argv :: "string list"
  redirects :: "redirect list"
  background :: bool
  hasExpansion :: bool
  globInCommand :: bool

subsection \<open>Tables and lookahead\<close>

definition CONTROL_OPS :: "string list" where
  "CONTROL_OPS = [''||'', ''&&'', ''|'', '';'', ''&'', [NL]]"

definition REDIRECT_OPS :: "string list" where
  "REDIRECT_OPS = [''>>'', ''>|'', ''>&'', ''<>'', ''<<'', ''>'', ''<'']"

definition op_at :: "string list \<Rightarrow> string \<Rightarrow> string option" where
  "op_at ops s = List.find (\<lambda>o'. starts_with o' s) ops"

definition next_is :: "string \<Rightarrow> string \<Rightarrow> bool" where
  "next_is cs s = (case s of [] \<Rightarrow> False | c # _ \<Rightarrow> c \<in> set cs)"

definition is_hex :: "char \<Rightarrow> bool" where
  "is_hex c \<longleftrightarrow> is_digit c \<or> CHR ''a'' \<le> c \<and> c \<le> CHR ''f'' \<or> CHR ''A'' \<le> c \<and> c \<le> CHR ''F''"

definition is_octal :: "char \<Rightarrow> bool" where
  "is_octal c \<longleftrightarrow> CHR ''0'' \<le> c \<and> c \<le> CHR ''7''"

definition hex_digit_value :: "char \<Rightarrow> nat" where
  "hex_digit_value c = (if is_digit c then of_char c - 48 else of_char (lower_char c) - 87)"

definition read_base :: "nat \<Rightarrow> string \<Rightarrow> nat" where
  "read_base b s = foldl (\<lambda>a c. a * b + hex_digit_value c) 0 s"

definition ansi_c_re :: rex where
  "ansi_c_re = Cat (ch BS) (Grp 1 (alt
     [one_of [CHR ''n'', CHR ''r'', CHR ''t'', BS, SQ, DQ],
      Cat (ch CHR ''x'') (times 2 (Cls is_hex)),
      between 1 3 (Cls is_octal)]))"

definition ansi_c_escape :: "string \<Rightarrow> string" where
  "ansi_c_escape esc =
     (case esc of [] \<Rightarrow> []
      | c # cs \<Rightarrow>
          if c = CHR ''n'' then [NL] else if c = CHR ''r'' then [CR] else if c = CHR ''t'' then [TAB]
          else if c = BS then [BS] else if c = SQ then [SQ] else if c = DQ then [DQ]
          else if c = CHR ''x'' then [char_of (read_base 16 cs)]
          else [char_of (read_base 8 esc)])"

definition decodeAnsiC :: "string \<Rightarrow> string" where
  "decodeAnsiC body = replace_all ansi_c_re
     (\<lambda>m k. case group 1 k of Some e \<Rightarrow> ansi_c_escape e | None \<Rightarrow> []) body"

subsection \<open>Words\<close>

text \<open>
  The word loop, one turn at a time.  \<open>in_dq\<close> says the position is inside double quotes, \<open>started\<close>
  that the word has begun; a turn ends the loop, throws, or goes on with less text.
\<close>

record word_state =
  in_dq :: bool
  started :: bool
  wtext :: string
  wexp :: bool
  wglob :: bool
  rest :: string

datatype turn = Stop | Throw string | Go word_state

definition advance :: "string \<Rightarrow> string \<Rightarrow> word_state \<Rightarrow> word_state" where
  "advance t r u = u\<lparr>started := True, wtext := wtext u @ t, rest := r\<rparr>"

definition dq_turn :: "word_state \<Rightarrow> char \<Rightarrow> string \<Rightarrow> turn" where
  "dq_turn u c cs =
     (if c = DQ then Go (advance [] cs (u\<lparr>in_dq := False\<rparr>))
      else if c = BS \<and> next_is [DQ, BS, CHR ''$'', BQ] cs then Go (advance [hd cs] (drop 1 cs) u)
      else Go (advance [c] cs (u\<lparr>wexp := (wexp u \<or> c = CHR ''$'' \<or> c = BQ)\<rparr>)))"

definition quoted_turn :: "word_state \<Rightarrow> string \<Rightarrow> (string \<Rightarrow> string) \<Rightarrow> string \<Rightarrow> turn" where
  "quoted_turn u err decode body =
     (case index_of [SQ] body of
        None \<Rightarrow> Throw err
      | Some k \<Rightarrow> Go (advance (decode (take k body)) (drop (k + 1) body) u))"

definition plain_turn :: "word_state \<Rightarrow> char \<Rightarrow> string \<Rightarrow> turn" where
  "plain_turn u c cs =
     (if c = CHR '' '' \<or> c = TAB \<or> c = NL then Stop
      else if op_at CONTROL_OPS (c # cs) \<noteq> None then Stop
      else if c = CHR ''>'' \<or> c = CHR ''<'' \<or> is_digit c \<and> next_is ''><'' cs \<and> \<not> started u then Stop
      else if c = SQ then quoted_turn u ''unterminated single quote'' (\<lambda>b. b) cs
      else if c = CHR ''$'' \<and> next_is [SQ] cs
        then quoted_turn u (''unterminated $'' @ [SQ] @ ''...'' @ [SQ] @ '' quote'') decodeAnsiC (drop 1 cs)
      else if c = DQ then Go (advance [] cs (u\<lparr>in_dq := True\<rparr>))
      else if c = BS then Go (advance (take 1 cs) (drop 1 cs) u)
      else Go (advance [c] cs (u\<lparr>
             wexp := (wexp u \<or> c = CHR ''$'' \<or> c = BQ \<or> (c = CHR ''<'' \<or> c = CHR ''>'') \<and> next_is ''('' cs),
             wglob := (wglob u \<or> c = CHR ''*'' \<or> c = CHR ''?'' \<or> c = CHR ''['')\<rparr>)))"

definition word_turn :: "word_state \<Rightarrow> turn" where
  "word_turn u =
     (case rest u of
        [] \<Rightarrow> if in_dq u then Throw ''unterminated double quote'' else Stop
      | c # cs \<Rightarrow> if in_dq u then dq_turn u c cs else plain_turn u c cs)"

lemma advance_simps [simp]:
  "rest (advance t r u) = r" "wtext (advance t r u) = wtext u @ t" "started (advance t r u)"
  "in_dq (advance t r u) = in_dq u"
  by (simp_all add: advance_def)

lemma quoted_turn_Go:
  "quoted_turn u err f body = Go v \<Longrightarrow>
    \<exists>k < length body. rest v = drop (k + 1) body \<and> wtext v = wtext u @ f (take k body)"
proof -
  have "index_of [SQ] b = Some k \<Longrightarrow> k < length b" for b k by (induction b arbitrary: k) (auto split: if_splits)
  then show "quoted_turn u err f body = Go v \<Longrightarrow> ?thesis"
    by (auto simp: quoted_turn_def split: option.splits) blast
qed

lemma word_turn_shorter: "word_turn u = Go v \<Longrightarrow> length (rest v) < length (rest u)"
proof (cases "rest u")
  case (Cons c cs)
  assume g: "word_turn u = Go v"
  show ?thesis
  proof (cases "in_dq u")
    case True
    with g Cons show ?thesis by (auto simp: word_turn_def dq_turn_def split: if_splits)
  next
    case False
    with g Cons have p: "plain_turn u c cs = Go v" by (simp add: word_turn_def)
    show ?thesis
      using p Cons by (auto simp: plain_turn_def split: if_splits dest!: quoted_turn_Go)
  qed
qed (auto simp: word_turn_def split: if_splits)

function lex_word :: "word_state \<Rightarrow> string + word_state" where
  "lex_word u = (case word_turn u of Stop \<Rightarrow> Inr u | Throw m \<Rightarrow> Inl m | Go v \<Rightarrow> lex_word v)"
  by pat_completeness auto
termination
  by (relation "measure (\<lambda>u. length (rest u))") (auto dest: word_turn_shorter)

declare lex_word.simps [simp del]

definition word_at :: "string \<Rightarrow> word_state" where
  "word_at s = \<lparr>in_dq = False, started = False, wtext = [], wexp = False, wglob = False, rest = s\<rparr>"

subsection \<open>Tokens\<close>

text \<open>The tokens so far, newest first, with one word more.\<close>

definition flushWord :: "token list \<Rightarrow> word_state \<Rightarrow> token list" where
  "flushWord toks u =
     (if \<not> started u then toks
      else case toks of
        Redir f o' [] # ts \<Rightarrow> (if wexp u then [Word [] True False] else []) @ Redir f o' (wtext u) # ts
      | _ \<Rightarrow> Word (wtext u) (wexp u) (wglob u) # toks)"

text \<open>How much a process substitution takes from its parenthesis on.\<close>

fun paren_length :: "nat \<Rightarrow> string \<Rightarrow> nat" where
  "paren_length d [] = 0"
| "paren_length d (c # cs) =
     (if c = CHR ''('' then Suc (paren_length (Suc d) cs)
      else if c = CHR '')'' then (if d = 1 then 1 else Suc (paren_length (d - 1) cs))
      else Suc (paren_length d cs))"

definition fd_char :: "char \<Rightarrow> bool" where
  "fd_char c \<longleftrightarrow> is_digit c \<or> c = CHR ''-''"

text \<open>The redirect at the position, if one is there: the token and the text after it.\<close>

definition redirect_at :: "nat option \<Rightarrow> string \<Rightarrow> (token \<times> string) option" where
  "redirect_at f t =
     (case op_at REDIRECT_OPS t of
        None \<Rightarrow> None
      | Some o' \<Rightarrow>
          let u = drop (length o') t
          in if (o' = ''>&'' \<or> o' = ''<>'') \<and> takeWhile fd_char u \<noteq> []
             then Some (Redir f o' (takeWhile fd_char u), dropWhile fd_char u)
             else if o' = ''>'' \<and> next_is ''&'' u
             then Some (Redir f ''>&'' (takeWhile fd_char (drop 1 u)), dropWhile fd_char (drop 1 u))
             else Some (Redir f o' [], u))"

definition lex_redirect :: "string \<Rightarrow> (token \<times> string) option" where
  "lex_redirect s =
     (case s of [] \<Rightarrow> None
      | c # cs \<Rightarrow> if is_digit c \<and> next_is ''><'' cs then redirect_at (Some (char_digit c)) cs else redirect_at None s)"

lemma op_at_None: "op_at ops s = None \<longleftrightarrow> (\<forall>o' \<in> set ops. \<not> starts_with o' s)"
  by (simp add: op_at_def List_find_None_iff)

lemma op_at_Some: "op_at ops s = Some o' \<Longrightarrow> o' \<in> set ops \<and> starts_with o' s"
  unfolding op_at_def by (rule List_find_Some_iff)

lemma op_at_shorter: "op_at ops s = Some o' \<Longrightarrow> [] \<notin> set ops \<Longrightarrow> length (drop (length o') s) < length s"
  using op_at_Some [of ops s o'] by (cases o') (auto simp: starts_with_prefix)

lemma redirect_at_shorter: "redirect_at f t = Some (k, r) \<Longrightarrow> length r < length t"
proof -
  assume l: "redirect_at f t = Some (k, r)"
  then obtain o' where o': "op_at REDIRECT_OPS t = Some o'" by (auto simp: redirect_at_def split: option.splits)
  from length_dropWhile_le [of fd_char "drop (length o') t"] length_dropWhile_le [of fd_char "drop 1 (drop (length o') t)"]
  have "length r \<le> length (drop (length o') t)"
    using l o' by (auto simp: redirect_at_def Let_def split: if_splits)
  with op_at_shorter [OF o'] show ?thesis by (simp add: REDIRECT_OPS_def)
qed

lemma lex_redirect_shorter: "lex_redirect s = Some (t, r) \<Longrightarrow> length r < length s"
proof -
  assume "lex_redirect s = Some (t, r)"
  then obtain f v where "redirect_at f v = Some (t, r)" "length v \<le> length s"
    by (cases s) (auto simp: lex_redirect_def split: if_splits)
  with redirect_at_shorter [of f v t r] show ?thesis by simp
qed

lemma redirect_at_angle: "next_is ''><'' t \<Longrightarrow> redirect_at f t \<noteq> None"
proof -
  assume "next_is ''><'' t"
  then have "op_at REDIRECT_OPS t \<noteq> None" by (auto simp: op_at_None REDIRECT_OPS_def next_is_def split: list.splits)
  then show ?thesis by (auto simp: redirect_at_def Let_def)
qed

lemma lex_word_shrinks: "lex_word u = Inr v \<Longrightarrow> length (rest v) \<le> length (rest u)"
proof (induction u rule: lex_word.induct)
  case (1 u)
  show ?case
  proof (cases "word_turn u")
    case (Go w)
    then have "lex_word w = Inr v" using 1(2) by (subst (asm) lex_word.simps) simp
    then show ?thesis using 1(1) [OF Go] word_turn_shorter [OF Go] by simp
  qed (use 1(2) in \<open>subst (asm) lex_word.simps, simp\<close>)+
qed

text \<open>One turn of the tokeniser: the tokens so far and the text ahead.\<close>

definition token_turn :: "token list \<Rightarrow> char \<Rightarrow> string \<Rightarrow> string + (token list \<times> string)" where
  "token_turn toks c cs =
     (let s = c # cs
      in if c = CHR '' '' \<or> c = TAB then Inr (toks, cs)
         else if c = NL then Inr (Op [NL] # toks, cs)
         else if c = CHR ''#'' then Inr (toks, dropWhile (\<lambda>d. d \<noteq> NL) s)
         else if starts_with ''&>'' s
           then (let o' = (if starts_with ''&>>'' s then ''&>>'' else ''&>'')
                 in Inr (Redir None o' [] # toks, drop (length o') s))
         else case op_at CONTROL_OPS s of
             Some o' \<Rightarrow> Inr (Op o' # toks, drop (length o') s)
           | None \<Rightarrow>
         if (c = CHR ''<'' \<or> c = CHR ''>'') \<and> next_is ''('' cs
           then (let k = Suc (paren_length 0 cs) in Inr (Word (take k s) True False # toks, drop k s))
         else case lex_redirect s of
             Some (t, r) \<Rightarrow> Inr (t # toks, r)
           | None \<Rightarrow>
         case lex_word (word_at s) of
             Inl m \<Rightarrow> Inl m
           | Inr u \<Rightarrow> Inr (flushWord toks u, rest u))"

lemma word_at_simps [simp]: "rest (word_at s) = s" "wtext (word_at s) = []" "\<not> started (word_at s)" "\<not> in_dq (word_at s)"
  by (simp_all add: word_at_def)

lemma word_starts:
  assumes "\<not> (c = CHR '' '' \<or> c = TAB \<or> c = NL)" and "op_at CONTROL_OPS (c # cs) = None"
    and "lex_redirect (c # cs) = None" and "lex_word (word_at (c # cs)) = Inr u"
  shows "length (rest u) < Suc (length cs)"
proof -
  have r: "\<not> (c = CHR ''>'' \<or> c = CHR ''<'')" "\<not> (is_digit c \<and> next_is ''><'' cs)"
    using assms(3) redirect_at_angle [of "c # cs" None] redirect_at_angle [of cs "Some (char_digit c)"]
    by (auto simp: lex_redirect_def next_is_def [of _ "c # cs"] split: if_splits)
  have "plain_turn (word_at (c # cs)) c cs \<noteq> Stop"
    using assms(1,2) r unfolding plain_turn_def quoted_turn_def by (simp split: option.split)
  then have "word_turn (word_at (c # cs)) \<noteq> Stop" by (simp add: word_turn_def)
  then obtain v where v: "word_turn (word_at (c # cs)) = Go v" "lex_word v = Inr u"
    using assms(4) by (subst (asm) lex_word.simps) (auto split: turn.splits)
  from word_turn_shorter [OF v(1)] lex_word_shrinks [OF v(2)] show ?thesis by simp
qed

lemma control_op_shorter: "op_at CONTROL_OPS s = Some o' \<Longrightarrow> length (drop (length o') s) < length s"
  by (erule op_at_shorter) (simp add: CONTROL_OPS_def)

lemma token_turn_shorter: "token_turn toks c cs = Inr (toks', r) \<Longrightarrow> length r < Suc (length cs)"
proof -
  assume t: "token_turn toks c cs = Inr (toks', r)"
  consider (space) "c = CHR '' '' \<or> c = TAB \<or> c = NL" | (hash) "c = CHR ''#''" | (amp) "starts_with ''&>'' (c # cs)"
    | (word) "\<not> (c = CHR '' '' \<or> c = TAB \<or> c = NL)" "c \<noteq> CHR ''#''" "\<not> starts_with ''&>'' (c # cs)" by blast
  then show ?thesis
  proof cases
    case hash
    then have "r = dropWhile (\<lambda>d. d \<noteq> NL) cs" using t by (simp add: token_turn_def Let_def)
    then show ?thesis by (simp add: length_dropWhile_le less_Suc_eq_le)
  next
    case amp
    then have "c = CHR ''&''" by simp
    with t amp show ?thesis by (auto simp: token_turn_def Let_def split: if_splits)
  next
    case word
    show ?thesis
    proof (cases "op_at CONTROL_OPS (c # cs)")
      case (Some o')
      from control_op_shorter [OF this] t word Some show ?thesis by (auto simp: token_turn_def Let_def)
    next
      case None
      show ?thesis
      proof (cases "(c = CHR ''<'' \<or> c = CHR ''>'') \<and> next_is ''('' cs")
        case True
        then have "r = drop (paren_length 0 cs) cs" using t word None by (elim conjE disjE) (simp_all add: token_turn_def Let_def)
        then show ?thesis by simp
      next
        case False
        show ?thesis
        proof (cases "lex_redirect (c # cs)")
          case (Some x)
          then obtain k r' where "lex_redirect (c # cs) = Some (k, r')" by (cases x) auto
          with lex_redirect_shorter [OF this] t word None False show ?thesis by (auto simp: token_turn_def Let_def)
        next
          case noredir: None
          then obtain u where "lex_word (word_at (c # cs)) = Inr u" "r = rest u"
            using t word None False by (auto simp: token_turn_def Let_def split: sum.splits)
          then show ?thesis using word_starts [OF word(1) None noredir] by simp
        qed
      qed
    qed
  qed (use t in \<open>auto simp: token_turn_def Let_def\<close>)
qed

function tokenize_from :: "token list \<Rightarrow> string \<Rightarrow> string + token list" where
  "tokenize_from toks s =
     (case s of [] \<Rightarrow> Inr toks
      | c # cs \<Rightarrow>
         (case token_turn toks c cs of Inl m \<Rightarrow> Inl m | Inr (toks', r) \<Rightarrow> tokenize_from toks' r))"
  by pat_completeness auto
termination
  by (relation "measure (\<lambda>(toks, s). length s)") (auto dest: token_turn_shorter)

declare tokenize_from.simps [simp del]

definition tokenize :: "string \<Rightarrow> string + token list" where
  "tokenize s = map_sum (\<lambda>m. m) rev (tokenize_from [] s)"

subsection \<open>Segments\<close>

definition empty_segment :: segment where
  "empty_segment = \<lparr>argv = [], redirects = [], background = False, hasExpansion = False, globInCommand = False\<rparr>"

definition push_segment_to :: "segment list \<Rightarrow> segment \<Rightarrow> segment list" where
  "push_segment_to segs c = (if argv c \<noteq> [] \<or> redirects c \<noteq> [] then segs @ [c] else segs)"

fun split_from :: "segment list \<Rightarrow> segment \<Rightarrow> token list \<Rightarrow> string + segment list" where
  "split_from segs c [] = Inr (push_segment_to segs c)"
| "split_from segs c (Op v # ts) =
     split_from (push_segment_to segs (if v = ''&'' then c\<lparr>background := True\<rparr> else c)) empty_segment ts"
| "split_from segs c (Redir f o' t # ts) =
     (if t = [] then Inl (''redirect '' @ o' @ '' without a target'')
      else split_from segs (c\<lparr>redirects := redirects c @ [\<lparr>fd = f, rop = o', target = t\<rparr>]\<rparr>) ts)"
| "split_from segs c (Word v e g # ts) =
     (let c1 = (if e then c\<lparr>hasExpansion := True\<rparr> else c)
      in if v = [] \<and> e then split_from segs c1 ts
         else split_from segs (c1\<lparr>globInCommand := (globInCommand c1 \<or> argv c1 = [] \<and> g), argv := argv c1 @ [v]\<rparr>) ts)"

definition splitSegments :: "token list \<Rightarrow> string + segment list" where
  "splitSegments ts = split_from [] empty_segment ts"

definition parse_command :: "string \<Rightarrow> string + segment list" where
  "parse_command s = (case tokenize s of Inl m \<Rightarrow> Inl m | Inr ts \<Rightarrow> splitSegments ts)"

end
