(* ===== verification/Wrappers.thy ===== *)
theory Wrappers
  imports CmdLex
begin

text \<open>
  Commands that run another command (\<open>WRAPPERS\<close> and \<open>skipOptions\<close> of
  \<open>apps/mirod/src/operations/classify.ts\<close>).  Each entry maps its argument vector to the inner
  one, to a refusal, or to \<open>NoCommand\<close> (the source's \<open>null\<close>).  The loops over an index are
  recursions over what is left of the vector.  The ellipsis in a message is written \<open>...\<close>.
\<close>

datatype unwrapped = Inner "string list" | Refused string | NoCommand

subsection \<open>Options\<close>

fun past_options :: "string list \<Rightarrow> string list \<Rightarrow> string list" where
  "past_options vs [] = []"
| "past_options vs (x # xs) =
     (if starts_with ''-'' x then (if x \<in> set vs then past_options vs (drop 1 xs) else past_options vs xs) else x # xs)"

text \<open>The same, with \<open>--\<close> ending the options.\<close>

fun past_dashes :: "string list \<Rightarrow> string list \<Rightarrow> string list" where
  "past_dashes vs [] = []"
| "past_dashes vs (x # xs) =
     (if starts_with ''-'' x
      then (if x = ''--'' then xs else if x \<in> set vs then past_dashes vs (drop 1 xs) else past_dashes vs xs)
      else x # xs)"

text \<open>The same, giving up at an option that opens a shell.\<close>

fun past_safe :: "string list \<Rightarrow> string list \<Rightarrow> string list \<Rightarrow> string list option" where
  "past_safe bad vs [] = Some []"
| "past_safe bad vs (x # xs) =
     (if starts_with ''-'' x
      then (if x \<in> set bad then None
            else if x \<in> set vs then past_safe bad vs (drop 1 xs) else past_safe bad vs xs)
      else Some (x # xs))"

definition inner_or :: "unwrapped \<Rightarrow> string list \<Rightarrow> unwrapped" where
  "inner_or d r = (if r = [] then d else Inner r)"

definition skipOptions :: "string list \<Rightarrow> string list \<Rightarrow> unwrapped" where
  "skipOptions vs a = inner_or NoCommand (past_options vs (drop 1 a))"

subsection \<open>Environment\<close>

definition env_word :: rex where
  "env_word = Star (Cls (\<lambda>c. is_upper c \<or> is_lower c \<or> is_digit c \<or> c = CHR ''_''))"

definition DANGEROUS_ENV :: rex where
  "DANGEROUS_ENV = seq [Bol, alt
     [Cat (liti ''LD_'') env_word, Cat (liti ''DYLD_'') env_word, Cat (liti ''GIT_'') env_word,
      liti ''BASH_ENV'', liti ''ENV'', liti ''SHELLOPTS'', liti ''BASHOPTS'', liti ''PERL5OPT'', liti ''PERL5LIB'',
      liti ''PYTHONPATH'', liti ''PYTHONSTARTUP'', liti ''PYTHONHOME'', liti ''NODE_OPTIONS'', liti ''NODE_PATH'',
      Cat (liti ''BUN_'') env_word, liti ''RUBYOPT'', liti ''RUBYLIB'', liti ''IFS'', liti ''PATH'',
      liti ''GCONV_PATH'', liti ''LOCPATH'', liti ''NLSPATH'', liti ''PROMPT_COMMAND'', liti ''PS4''], Eol]"

definition assignment_re :: rex where
  "assignment_re = seq [Bol, Cls (\<lambda>c. alpha c \<or> c = CHR ''_''),
     Star (Cls (\<lambda>c. alnum c \<or> c = CHR ''_'')), ch CHR ''='']"

definition before_equals :: "string \<Rightarrow> string" where
  "before_equals s = takeWhile (\<lambda>c. c \<noteq> CHR ''='') s"

text \<open>\<open>Inl\<close> of the dangerous variable, or what follows the options and assignments.\<close>

fun env_rest :: "string list \<Rightarrow> string + string list" where
  "env_rest [] = Inr []"
| "env_rest (x # xs) =
     (if x = ''-i'' \<or> x = ''-'' \<or> starts_with ''-u'' x \<or> starts_with ''--'' x \<or> rtest assignment_re x
      then let (y, ys) = (if (x = ''-u'' \<or> x = ''--unset'') \<and> xs \<noteq> [] then (hd xs, tl xs) else (x, xs));
               name = (if CHR ''='' \<in> set y \<and> \<not> starts_with ''-'' y then before_equals y else [])
           in if name \<noteq> [] \<and> rtest DANGEROUS_ENV name then Inl name
              else env_rest (if (x = ''-u'' \<or> x = ''--unset'') \<and> xs \<noteq> [] then tl xs else xs)
      else Inr (x # xs))"

definition env_wrapper :: "string list \<Rightarrow> unwrapped" where
  "env_wrapper a =
     (case env_rest (drop 1 a) of
        Inl name \<Rightarrow> Refused (''env '' @ name @ ''=... changes how the inner command executes (a preloaded library, PATH, an interpreter hook) - run the command without it'')
      | Inr r \<Rightarrow> inner_or NoCommand r)"

subsection \<open>The other wrappers\<close>

definition after_first :: "unwrapped \<Rightarrow> string list \<Rightarrow> unwrapped" where
  "after_first d a = inner_or d (drop 1 a)"

text \<open>The options, then one operand (a duration, a root, a lock file, a mask, a priority).\<close>

definition after_operand :: "string list \<Rightarrow> unwrapped \<Rightarrow> string list \<Rightarrow> unwrapped" where
  "after_operand vs d a = inner_or d (drop 1 (past_options vs (drop 1 a)))"

definition sudo_wrapper :: "string list \<Rightarrow> unwrapped" where
  "sudo_wrapper a =
     (case past_safe [''-i'', ''-s'', ''--login'', ''--shell'']
             [''-u'', ''-g'', ''-p'', ''-C'', ''-D'', ''-h'', ''-r'', ''-t'', ''-U'', ''--user'', ''--group'', ''--prompt'', ''--chdir'']
             (drop 1 a) of
        None \<Rightarrow> Refused ''sudo -i/-s opens an interactive shell''
      | Some r \<Rightarrow> inner_or (Refused ''sudo with no command opens an interactive shell'') r)"

definition doas_wrapper :: "string list \<Rightarrow> unwrapped" where
  "doas_wrapper a =
     (case past_safe [''-s''] [''-u'', ''-C''] (drop 1 a) of
        None \<Rightarrow> Refused ''doas -s opens an interactive shell''
      | Some r \<Rightarrow> inner_or (Refused ''doas with no command opens an interactive shell'') r)"

text \<open>The word after the first occurrence of a word.\<close>

definition after_word :: "string \<Rightarrow> string list \<Rightarrow> string option" where
  "after_word w a = (case dropWhile (\<lambda>x. x \<noteq> w) a of _ # y # _ \<Rightarrow> Some y | _ \<Rightarrow> None)"

definition su_wrapper :: "string list \<Rightarrow> unwrapped" where
  "su_wrapper a = (case after_word ''-c'' a of None \<Rightarrow> Refused ''su without -c opens an interactive shell''
     | Some s \<Rightarrow> Inner [''sh'', ''-c'', s])"

definition script_wrapper :: "string list \<Rightarrow> unwrapped" where
  "script_wrapper a = (case after_word ''-c'' a of None \<Rightarrow> Refused ''script without -c opens an interactive shell''
     | Some s \<Rightarrow> Inner [''sh'', ''-c'', s])"

fun runuser_options :: "string list \<Rightarrow> string list \<Rightarrow> string list \<Rightarrow> unwrapped" where
  "runuser_options cs vs [] = Refused ''runuser with no command opens an interactive shell''"
| "runuser_options cs vs (x # xs) =
     (if \<not> starts_with ''-'' x then Inner (x # xs)
      else if x \<in> set cs then (if xs = [] then NoCommand else Inner [''sh'', ''-c'', hd xs])
      else if x \<in> set vs then runuser_options cs vs (drop 1 xs)
      else runuser_options cs vs xs)"

definition runuser_wrapper :: "string list \<Rightarrow> unwrapped" where
  "runuser_wrapper a = runuser_options [''-c'', ''--command'']
     [''-u'', ''--user'', ''-g'', ''--group'', ''-G'', ''--supp-group''] (drop 1 a)"

definition local_command_re :: rex where
  "local_command_re = seq [Bol, Star space,
     altsi [''ProxyCommand'', ''LocalCommand'', ''PermitLocalCommand'', ''ProxyUseFdpass'', ''KnownHostsCommand''], WordB]"

definition ssh_value_flag :: rex where
  "ssh_value_flag = seq [Bol, ch CHR ''-'', one_of ''bcDEeFIiJLlmOopQRSWw'', Eol]"

definition ssh_option :: "string \<Rightarrow> string list \<Rightarrow> string" where
  "ssh_option x xs =
     (if x = ''-o'' then (case xs of y # _ \<Rightarrow> y | [] \<Rightarrow> []) else if starts_with ''-o'' x then drop 2 x else [])"

fun ssh_rest :: "string list \<Rightarrow> string + string list" where
  "ssh_rest [] = Inr []"
| "ssh_rest (x # xs) =
     (if \<not> starts_with ''-'' x then Inr (x # xs)
      else if rtest local_command_re (ssh_option x xs) then Inl (ssh_option x xs)
      else if rtest ssh_value_flag x then ssh_rest (drop 1 xs) else ssh_rest xs)"

definition ssh_wrapper :: "string list \<Rightarrow> unwrapped" where
  "ssh_wrapper a =
     (case ssh_rest (drop 1 a) of
        Inl text \<Rightarrow> Refused (''ssh -o '' @ takeWhile (\<lambda>c. c \<noteq> CHR ''='' \<and> \<not> is_space c) text @ '' runs a local command outside the classifier'')
      | Inr r \<Rightarrow> inner_or (Refused ''ssh with no command opens an interactive session'') (drop 1 r))"

definition nsenter_wrapper :: "string list \<Rightarrow> unwrapped" where
  "nsenter_wrapper a = inner_or (Refused ''nsenter with no command opens a shell in the target namespace'')
     (past_dashes [''-t'', ''--target'', ''-S'', ''-G'', ''-w'', ''-r'', ''--wd'', ''--root'', ''--setuid'', ''--setgid''] (drop 1 a))"

definition xargs_wrapper :: "string list \<Rightarrow> unwrapped" where
  "xargs_wrapper a = inner_or (Inner [''echo''])
     (past_options [''-I'', ''-n'', ''-P'', ''-L'', ''-s'', ''-d'', ''-a'', ''-E'', ''--max-args'', ''--max-procs'',
        ''--delimiter'', ''--arg-file'', ''--replace''] (drop 1 a))"

definition setpriv_wrapper :: "string list \<Rightarrow> unwrapped" where
  "setpriv_wrapper a = inner_or (Refused ''setpriv with no command'') (past_dashes [] (drop 1 a))"

definition unshare_wrapper :: "string list \<Rightarrow> unwrapped" where
  "unshare_wrapper a = inner_or (Refused ''unshare with no command opens a shell'')
     (past_options [''--setuid'', ''--setgid'', ''--wd'', ''--root'', ''-S'', ''-G'', ''-w'', ''-R''] (drop 1 a))"

definition WRAPPERS :: "(string \<times> (string list \<Rightarrow> unwrapped)) list" where
  "WRAPPERS =
    [(''env'', env_wrapper),
     (''nice'', skipOptions [''-n'', ''--adjustment'']),
     (''ionice'', skipOptions [''-c'', ''-n'', ''-p'', ''--class'', ''--classdata'']),
     (''timeout'', after_operand [''-s'', ''--signal'', ''-k'', ''--kill-after''] NoCommand),
     (''nohup'', after_first NoCommand),
     (''setsid'', skipOptions []),
     (''time'', skipOptions [''-f'', ''-o'', ''--format'', ''--output'']),
     (''stdbuf'', skipOptions [''-i'', ''-o'', ''-e'', ''--input'', ''--output'', ''--error'']),
     (''chronic'', after_first NoCommand),
     (''command'', skipOptions []),
     (''exec'', after_first (Refused ''exec with no command replaces the shell'')),
     (''sudo'', sudo_wrapper),
     (''doas'', doas_wrapper),
     (''su'', su_wrapper),
     (''nsenter'', nsenter_wrapper),
     (''chroot'', after_operand [''--userspec'', ''--groups''] (Refused ''chroot with no command opens an interactive shell'')),
     (''xargs'', xargs_wrapper),
     (''busybox'', after_first (Refused ''busybox with no applet opens a shell'')),
     (''toybox'', after_first (Refused ''toybox with no applet opens a shell'')),
     (''flock'', after_operand [''-w'', ''--timeout'', ''-E'', ''--conflict-exit-code''] NoCommand),
     (''runuser'', runuser_wrapper),
     (''setpriv'', setpriv_wrapper),
     (''taskset'', after_operand [''-p'', ''--pid'', ''-c'', ''--cpu-list''] NoCommand),
     (''chrt'', after_operand [''-p'', ''--pid''] NoCommand),
     (''unshare'', unshare_wrapper),
     (''script'', script_wrapper),
     (''ssh'', ssh_wrapper)]"

subsection \<open>Unwrapping\<close>

text \<open>
  The tables are object literals, so a name they inherit from \<open>Object.prototype\<close> is found in
  them too: calling what is found there throws, or yields a value without an inner vector, and
  the caller's next step throws.
\<close>

definition OBJECT_PROTOTYPE :: "string list" where
  "OBJECT_PROTOTYPE = [''constructor'', ''__defineGetter__'', ''__defineSetter__'', ''hasOwnProperty'',
     ''__lookupGetter__'', ''__lookupSetter__'', ''isPrototypeOf'', ''propertyIsEnumerable'', ''toString'',
     ''valueOf'', ''__proto__'', ''toLocaleString'']"

definition baseName :: "string \<Rightarrow> string" where
  "baseName p = (let b = after_last_slash p in if starts_with [BS] b then drop 1 b else b)"

datatype unwrap_result =
    Unwrapped "string list"
  | RefusedAt "string list" string
  | Threw js_error

definition type_error :: js_error where "type_error = JsError ''TypeError'' ''not a function''"

fun unwrap :: "nat \<Rightarrow> string list \<Rightarrow> unwrap_result" where
  "unwrap n [] = Unwrapped []"
| "unwrap 0 a = Unwrapped a"
| "unwrap (Suc n) (x # xs) =
     (case map_of WRAPPERS (baseName x) of
        None \<Rightarrow> if baseName x \<in> set OBJECT_PROTOTYPE then Threw type_error else Unwrapped (x # xs)
      | Some w \<Rightarrow>
         (case w (x # xs) of
            NoCommand \<Rightarrow> RefusedAt (x # xs) (baseName x @ '' with no command'')
          | Refused m \<Rightarrow> RefusedAt (x # xs) m
          | Inner r \<Rightarrow> unwrap n r))"

definition unwrap_command :: "string list \<Rightarrow> unwrap_result" where
  "unwrap_command a = unwrap 8 a"

end
