(* ===== verification/CmdRules.thy ===== *)
theory CmdRules
  imports Wrappers CmdClass Paths
begin

text \<open>
  The per-binary rules of the command classifier (\<open>RULES\<close> and the helpers it calls in
  \<open>apps/mirod/src/operations/classify.ts\<close>): for each command the class of an argument vector.
  The rules of docker and find ask for the class of the command they run; that question is the
  argument \<open>inner\<close>.  \<open>url\<close> stands for \<open>new URL(s)\<close>: protocol and host name, or \<open>None\<close> where
  the constructor throws.
\<close>

type_synonym inner_class = "string list \<Rightarrow> js_error + cmd_class"

type_synonym rule = "inner_class \<Rightarrow> string list \<Rightarrow> js_error + cmd_class option"

subsection \<open>Arguments\<close>

definition short_cluster :: rex where
  "short_cluster = seq [Bol, ch CHR ''-'', Cls is_lower, between 1 5 (Cls (\<lambda>c. is_lower c \<or> is_digit c)), Eol]"

definition has_flag :: "string \<Rightarrow> string \<Rightarrow> bool" where
  "has_flag f a \<longleftrightarrow> a = f \<or>
     (length f = 2 \<and> hd f = CHR ''-'' \<and> rtest short_cluster a \<and> f ! 1 \<in> set (drop 1 a)) \<or>
     starts_with (f @ ''='') a"

definition hasFlag :: "string list \<Rightarrow> string list \<Rightarrow> bool" where
  "hasFlag args flags = list_ex (\<lambda>a. list_ex (\<lambda>f. has_flag f a) flags) args"

fun firstVerb :: "string list \<Rightarrow> string list \<Rightarrow> string \<times> string list" where
  "firstVerb vs [] = ([], [])"
| "firstVerb vs (x # xs) =
     (if starts_with ''-'' x
      then (if x \<in> set vs \<and> CHR ''='' \<notin> set x then firstVerb vs (drop 1 xs) else firstVerb vs xs)
      else (x, xs))"

fun argAfter :: "string list \<Rightarrow> string \<Rightarrow> string option" where
  "argAfter [] f = None"
| "argAfter (a # as) f =
     (if a = f then nth_opt as 0
      else if starts_with (f @ ''='') a then Some (drop (length f + 1) a)
      else if length f = 2 \<and> starts_with f a \<and> 2 < length a \<and> \<not> starts_with ''--'' a then Some (drop 2 a)
      else argAfter as f)"

definition or_else :: "'a option \<Rightarrow> 'a option \<Rightarrow> 'a option" where
  "or_else a b = (case a of None \<Rightarrow> b | Some _ \<Rightarrow> a)"

text \<open>An argument by position, the empty string where there is none.\<close>

definition arg :: "string list \<Rightarrow> nat \<Rightarrow> string" where "arg a i = nth_or [] a i"

text \<open>Every element with the one after it.\<close>

definition with_next :: "string list \<Rightarrow> (string \<times> string option) list" where
  "with_next xs = zip xs (map Some (drop 1 xs) @ [None])"

definition or_empty :: "string option \<Rightarrow> string" where
  "or_empty t = (case t of None \<Rightarrow> [] | Some s \<Rightarrow> s)"

definition no_dash :: "string \<Rightarrow> bool" where "no_dash x \<longleftrightarrow> \<not> starts_with ''-'' x"

subsection \<open>Local addresses\<close>

definition strip_brackets :: "string \<Rightarrow> string" where
  "strip_brackets h =
     (let a = (if starts_with ''['' h then drop 1 h else h) in if ends_with '']'' a then butlast a else a)"

text \<open>\<open>parseInt(x || "0", 16)\<close> of a group of hexadecimal digits.\<close>

definition hex_group :: "string list \<Rightarrow> nat \<Rightarrow> nat" where
  "hex_group gs i = (if i < length gs then read_base 16 (takeWhile is_hex (gs ! i)) else 0)"

definition dotted_quad :: rex where
  "dotted_quad = seq [Bol, Grp 1 (plus digit), ch CHR ''.'', Grp 2 (plus digit), ch CHR ''.'', plus digit, ch CHR ''.'', plus digit, Eol]"

definition mapped_v4 :: "string \<Rightarrow> string" where
  "mapped_v4 h =
     (if starts_with ''::ffff:'' h
      then let r = drop 7 h
           in if CHR ''.'' \<in> set r then r
              else let gs = split_on CHR '':'' r; hi = hex_group gs 0; lo = hex_group gs 1
                   in show_nat (hi div 256) @ ''.'' @ show_nat (hi mod 256) @ ''.'' @ show_nat (lo div 256) @ ''.'' @ show_nat (lo mod 256)
      else h)"

definition local_host :: "string \<Rightarrow> bool" where
  "local_host h0 =
     (if h0 = ''localhost'' \<or> list_ex (\<lambda>s. ends_with s h0) [''.localhost'', ''.local'', ''.lan'', ''.home.arpa'', ''.internal''] then True
      else let h = mapped_v4 h0
           in if CHR '':'' \<in> set h
              then h = ''::1'' \<or> h = ''::'' \<or> list_ex (\<lambda>p. starts_with p h) [''fe80:'', ''fd'', ''fc'']
              else case rmatch dotted_quad h of
                  None \<Rightarrow> CHR ''.'' \<notin> set h
                | Some (_, k) \<Rightarrow>
                    let a = read_nat (or_empty (group 1 k)); b = read_nat (or_empty (group 2 k))
                    in a = 0 \<or> a = 127 \<or> a = 10 \<or> a = 172 \<and> 16 \<le> b \<and> b \<le> 31 \<or> a = 192 \<and> b = 168 \<or> a = 169 \<and> b = 254)"

definition isLocalOrPrivateUrl :: "(string \<Rightarrow> (string \<times> string) option) \<Rightarrow> string \<Rightarrow> bool" where
  "isLocalOrPrivateUrl url raw =
     (case url raw of
        None \<Rightarrow> False
      | Some (protocol, hostname) \<Rightarrow>
          if protocol \<noteq> ''http:'' \<and> protocol \<noteq> ''https:'' then False
          else local_host (to_lower (strip_brackets hostname)))"

definition http_re :: rex where
  "http_re = seq [Bol, liti ''http'', opt (liti ''s''), lit ''://'']"

definition all_local :: "(string \<Rightarrow> (string \<times> string) option) \<Rightarrow> string list \<Rightarrow> cmd_class" where
  "all_local url args =
     (let urls = filter (rtest http_re) args
      in if urls \<noteq> [] \<and> list_all (isLocalOrPrivateUrl url) urls then Read else Mutate)"

subsection \<open>Rules of one argument vector\<close>

definition sqlClass :: "string option \<Rightarrow> cmd_class" where
  "sqlClass sql =
     (if or_empty sql = [] then Mutate
      else let s = to_upper (or_empty sql)
           in if rtest (seq [WordB, alts [''DROP'', ''TRUNCATE'', ''DELETE'', ''ALTER''], WordB]) s then Destructive
              else if rtest (seq [WordB, alts [''INSERT'', ''UPDATE'', ''CREATE'', ''REPLACE'', ''VACUUM'', ''ATTACH''], WordB]) s then Mutate
              else if rtest (seq [Bol, Star space, alts [''SELECT'', ''PRAGMA'', ''EXPLAIN'', ''WITH'', ''.schema'', ''.tables'',
                     ''.indexes'', [BS, CHR ''d''], ''SHOW'', ''DESCRIBE'']]) s then Read
              else Mutate)"

definition dd_rule :: "string list \<Rightarrow> cmd_class" where
  "dd_rule a =
     (case List.find (starts_with ''of='') a of
        None \<Rightarrow> Read
      | Some x \<Rightarrow> let of' = drop 3 x
                  in if of' = [] then Read else if rtest BLOCK_DEVICE of' then Forbidden else Destructive)"

definition zero_size :: rex where
  "zero_size = seq [Bol, opt (one_of ''+-''), plus (ch CHR ''0''), opt (seq [ch CHR ''.'', plus (ch CHR ''0'')]), Star space,
     opt (one_of ''kKmMgGtTbB''), opt (one_of ''bB''), Eol]"

definition truncate_rule :: "string list \<Rightarrow> cmd_class" where
  "truncate_rule a =
     (if rtest zero_size (or_empty (or_else (argAfter a ''-s'') (argAfter a ''--size''))) then Forbidden else Mutate)"

definition cp_rule :: "string list \<Rightarrow> cmd_class" where
  "cp_rule a = (if ''/dev/null'' \<in> set (drop 1 a) \<and> 3 \<le> length a \<and> last a \<noteq> ''/dev/null'' then Forbidden else Mutate)"

definition mv_rule :: "string list \<Rightarrow> cmd_class" where
  "mv_rule a =
     (let r = filter no_dash (drop 1 a)
      in if ''/dev/null'' \<in> set r then Forbidden
         else if arg r 0 = ''/'' \<or> ''/*'' \<in> set r then Forbidden else Mutate)"

definition crontab_rule :: "string list \<Rightarrow> cmd_class" where
  "crontab_rule a =
     (if hasFlag a [''-r''] then Forbidden else if hasFlag a [''-e''] then Forbidden
      else if hasFlag a [''-l''] then Read else Lifeline)"

definition permClass :: "string list \<Rightarrow> cmd_class" where
  "permClass a =
     (let r = filter no_dash (drop 1 a); recursive = hasFlag a [''-R'', ''--recursive''];
          targets = drop 1 r
      in if list_ex (\<lambda>t. t \<in> set [''/'', ''/*'', ''/usr'', ''/etc'', ''/var'', ''/bin'', ''/lib'', ''/boot'']) targets
         then (if recursive then Forbidden else Lifeline)
         else if recursive then Destructive else Mutate)"

definition aptClass :: "string list \<Rightarrow> cmd_class" where
  "aptClass a =
     (let verb = fst (firstVerb [''-o'', ''--option'', ''-c'', ''--config-file'', ''-t'', ''--target-release'', ''-a'', ''--host-architecture''] (drop 1 a))
      in if verb \<in> set [''list'', ''show'', ''search'', ''policy'', ''depends'', ''rdepends'', ''showsrc'', ''changelog'', ''madison'', ''--version'', ''help''] then Read
         else if verb \<in> set [''remove'', ''purge'', ''autoremove'', ''autopurge'', ''upgrade'', ''full-upgrade'', ''dist-upgrade'', ''clean'', ''autoclean''] then Destructive
         else Mutate)"

definition nmcli_rule :: "string list \<Rightarrow> cmd_class" where
  "nmcli_rule a =
     (if list_ex (\<lambda>x. x \<in> set [''down'', ''off'', ''delete'', ''disconnect'']) a then Lifeline
      else if list_ex (\<lambda>x. x \<in> set [''up'', ''add'', ''modify'', ''connect'', ''on'']) a then Mutate else Read)"

fun ip_words :: "string list \<Rightarrow> string list \<Rightarrow> string list" where
  "ip_words vs [] = []"
| "ip_words vs (x # xs) =
     (if starts_with ''-'' x then (if x \<in> set vs then ip_words vs (drop 1 xs) else ip_words vs xs) else x # ip_words vs xs)"

definition ip_rule :: "string list \<Rightarrow> cmd_class" where
  "ip_rule a =
     (if list_ex (\<lambda>x. x \<in> set [''-b'', ''-batch'', ''--batch'', ''-force''] \<or> starts_with ''-b='' x) (drop 1 a) then Lifeline
      else let r = ip_words [''-n'', ''-netns'', ''-f'', ''-family'', ''-l'', ''-loops'', ''-rc'', ''-rcvbuf''] (drop 1 a);
               verb = nth_or ''show'' r 1
           in if verb \<in> set [''show'', ''list'', ''ls'', ''get'', ''l'', ''s'', ''lst'', ''monitor'', ''help''] \<or> length r \<le> 1 then Read
              else Lifeline)"

definition ethtool_rule :: "string list \<Rightarrow> cmd_class" where
  "ethtool_rule a =
     (if list_ex (\<lambda>x. starts_with ''-'' x \<and> x \<notin> set [''-i'', ''-S'', ''-k'', ''-g'', ''-c'', ''-a'', ''-l'', ''--show-features'']) (drop 1 a)
      then Lifeline else Read)"

definition systemctl_rule :: "string list \<Rightarrow> cmd_class" where
  "systemctl_rule a =
     (let verb = fst (firstVerb [''-M'', ''--machine'', ''-H'', ''--host'', ''-p'', ''--property'', ''-t'', ''--type'', ''-n'', ''--lines'',
            ''-o'', ''--output'', ''-s'', ''--signal'', ''--state'', ''--job-mode'', ''--preset-mode''] (drop 1 a))
      in if verb = [] then Read
         else if verb \<in> set [''status'', ''show'', ''cat'', ''is-active'', ''is-enabled'', ''is-failed'', ''is-system-running'',
            ''list-units'', ''list-unit-files'', ''list-timers'', ''list-sockets'', ''list-dependencies'', ''list-jobs'',
            ''show-environment'', ''get-default'', ''help''] then Read
         else Forbidden)"

definition signal_name :: rex where
  "signal_name = seq [Bol, ch CHR ''-'', opt (lit ''SIG''), plus (Cls is_upper), Eol]"

definition kill_rule :: "string list \<Rightarrow> cmd_class" where
  "kill_rule a =
     (let args = drop 1 a;
          probe = (''-0'' \<in> set args \<or> after_word ''-s'' args = Some ''0'' \<or> after_word ''-n'' args = Some ''0'');
          targets = filter (\<lambda>x. no_dash x \<and> x \<noteq> ''0'') (takeWhile (\<lambda>x. x \<noteq> ''--'') args)
                    @ drop 1 (dropWhile (\<lambda>x. x \<noteq> ''--'') args)
      in if ''-l'' \<in> set args \<or> ''-L'' \<in> set args then Read
         else if probe \<and> \<not> list_ex (rtest signal_name) args then Read
         else if ''1'' \<in> set targets \<or> ''-1'' \<in> set targets then Lifeline
         else if args = [''-1''] then Lifeline
         else Mutate)"

definition LIFELINE_PROCESSES :: rex where
  "LIFELINE_PROCESSES = seq [Bol, alts [''mirod'', ''sshd'', ''dockerd'', ''containerd'', ''systemd'', ''init'', ''NetworkManager'', ''systemd-networkd''], Eol]"

definition pkill_rule :: "string list \<Rightarrow> cmd_class" where
  "pkill_rule a = (if list_ex (rtest LIFELINE_PROCESSES) (drop 1 a) then Lifeline else Mutate)"

definition sed_rule :: "string list \<Rightarrow> cmd_class" where
  "sed_rule a =
     (if hasFlag a [''-i'', ''--in-place''] \<or>
        list_ex (\<lambda>x. (rtest (seq [Bol, ch CHR ''-'', Star (Cls alpha), ch CHR ''i'']) x \<and> \<not> starts_with ''--'' x) \<or>
           rtest (seq [Alt Bol (one_of [CHR '';'', CHR ''{'', NL]), Star space, one_of ''wW'', plus space, nonspace]) x \<or>
           rtest (seq [ch CHR ''/'', Star (one_of ''gpiImM0123456789''), ch CHR ''w'', plus space, nonspace]) x) (drop 1 a)
      then Mutate else Read)"

definition awk_rule :: "string list \<Rightarrow> cmd_class" where
  "awk_rule a =
     (if list_ex (\<lambda>x.
           rtest (seq [WordB, lit ''print'', opt (ch CHR ''f''), Star space, Star (none_of '';''), ch CHR ''>'', Star space, ch DQ]) x \<or>
           rtest (seq [ch CHR ''|'', opt (ch CHR ''&''), Star space, ch DQ]) x \<or>
           rtest (seq [WordB, lit ''system'', Star space, ch CHR ''('']) x \<or>
           x = ''-i'' \<or> starts_with ''-i'' x) (drop 1 a)
      then Mutate else Read)"

definition curl_rule :: "(string \<Rightarrow> (string \<times> string) option) \<Rightarrow> string list \<Rightarrow> cmd_class" where
  "curl_rule url a =
     (let args = drop 1 a
      in if list_ex (\<lambda>x. x \<in> set [''-o'', ''--output'', ''-O'', ''--remote-name'', ''-T'', ''--upload-file'', ''-d'', ''--data'', ''--data-raw'',
              ''--data-binary'', ''--data-urlencode'', ''-F'', ''--form'', ''-X'', ''--request'', ''-c'', ''--cookie-jar'', ''-D'', ''--dump-header'',
              ''--trace'', ''--trace-ascii''] \<or>
            (rtest (seq [Bol, ch CHR ''-'', Star (Cls alpha), one_of ''oOTdFXcD'']) x \<and> \<not> starts_with ''--'' x) \<or>
            starts_with ''--output='' x \<or> starts_with ''--data'' x \<or> starts_with ''--request='' x \<or> starts_with ''--upload-file='' x) args
         then Mutate else all_local url args)"

definition wget_rule :: "(string \<Rightarrow> (string \<times> string) option) \<Rightarrow> string list \<Rightarrow> cmd_class" where
  "wget_rule url a =
     (let args = drop 1 a;
          to_stdout = list_ex (\<lambda>(x, y). x = ''-O'' \<and> y = Some ''-'' \<or>
             rtest (seq [Bol, ch CHR ''-'', Star (Cls alpha), lit ''O-'', Eol]) x \<or> x = ''--output-document=-'' \<or>
             rtest (seq [Bol, ch CHR ''-'', Star (Cls alpha), lit ''O'', Eol]) x \<and> y = Some ''-'') (with_next args);
          posts = list_ex (\<lambda>x. starts_with ''--post'' x \<or> starts_with ''--method'' x \<or> starts_with ''--body'' x) args
      in if posts \<or> \<not> to_stdout then Mutate else all_local url args)"

definition git_reads :: "string \<Rightarrow> string list \<Rightarrow> cmd_class" where
  "git_reads sub r =
     (if sub = ''branch'' \<and> hasFlag r [''-D'', ''-d'', ''--delete'', ''-m'', ''-M'']
      then (if hasFlag r [''-D''] then Destructive else Mutate)
      else if sub = ''tag'' \<and> hasFlag r [''-d'', ''--delete''] then Destructive
      else if sub = ''remote'' \<and> r \<noteq> [] \<and> hd r \<notin> set [''-v'', ''show'', ''get-url''] then Mutate
      else if sub = ''config'' \<and> \<not> hasFlag r [''--get'', ''--list'', ''-l'', ''--get-all'', ''--get-regexp'']
      then (if 1 < length r then Mutate else Read)
      else if sub = ''stash'' \<and> arg r 0 \<in> set [''drop'', ''clear''] then Destructive
      else if sub = ''stash'' \<and> arg r 0 \<in> set [''push'', ''pop'', ''apply'', ''save'', []] then Mutate
      else Read)"

definition git_rule :: "string list \<Rightarrow> cmd_class" where
  "git_rule a =
     (let (sub, r) = firstVerb [''-C'', ''-c'', ''--git-dir'', ''--work-tree'', ''--namespace'', ''--exec-path''] (drop 1 a)
      in if sub \<in> set [''status'', ''log'', ''diff'', ''show'', ''rev-parse'', ''ls-files'', ''ls-remote'', ''branch'', ''tag'', ''remote'',
              ''config'', ''describe'', ''blame'', ''shortlog'', ''cat-file'', ''grep'', ''reflog'', ''stash''] then git_reads sub r
         else if sub = ''clean'' then Destructive
         else if sub = ''reset'' \<and> hasFlag r [''--hard''] then Destructive
         else if sub = ''checkout'' \<and> (''--'' \<in> set r \<or> ''.'' \<in> set r) then Destructive
         else if sub = ''restore'' then Destructive
         else if sub = ''push'' \<and> hasFlag r [''-f'', ''--force'', ''--force-with-lease'', ''-d'', ''--delete''] then Destructive
         else if sub = ''rebase'' \<or> sub = ''filter-branch'' then Destructive
         else Mutate)"

definition dpkg_rule :: "string list \<Rightarrow> cmd_class" where
  "dpkg_rule a =
     (if hasFlag a [''-l'', ''-L'', ''-s'', ''-S'', ''-p'', ''--list'', ''--listfiles'', ''--status'', ''--search'', ''--print-avail'',
         ''-I'', ''--info'', ''-c'', ''--contents''] then Read
      else if hasFlag a [''-r'', ''-P'', ''--remove'', ''--purge''] then Destructive else Mutate)"

definition pip_rule :: "string list \<Rightarrow> cmd_class" where
  "pip_rule a =
     (if arg a 1 = ''uninstall'' then Destructive
      else if arg a 1 \<in> set [''list'', ''show'', ''freeze'', ''check'', ''--version''] then Read else Mutate)"

definition npm_rule :: "string list \<Rightarrow> cmd_class" where
  "npm_rule a =
     (if arg a 1 \<in> set [''uninstall'', ''remove'', ''rm'', ''un'', ''unlink''] then Destructive
      else if arg a 1 \<in> set [''ls'', ''list'', ''view'', ''info'', ''outdated'', ''audit'', ''--version'', ''-v''] then Read else Mutate)"

definition sqlite_rule :: "string list \<Rightarrow> cmd_class" where
  "sqlite_rule a =
     sqlClass (List.find (\<lambda>x. no_dash x \<and>
       \<not> rtest (seq [ch CHR ''.'', alts [''db'', ''sqlite'', ''sqlite3''], Eol]) x \<and> SL \<notin> set x) (drop 1 a))"

definition mount_options :: "string list \<Rightarrow> string list" where
  "mount_options args = concat (map (\<lambda>(x, y).
     if x = ''-o'' \<or> x = ''--options'' then [or_empty y]
     else if rtest (seq [Bol, lit ''-o'', dot]) x then [drop 2 x] else []) (with_next args))"

definition mount_rule :: "string list \<Rightarrow> cmd_class" where
  "mount_rule a =
     (if length a = 1 \<or> hasFlag a [''-l''] then Read
      else let opts = join '','' (mount_options (drop 1 a))
           in if list_ex (\<lambda>x. x \<in> set [''--bind'', ''--rbind'', ''-B'', ''-R'']) (drop 1 a) \<or>
                 rtest (seq [Alt Bol (ch CHR '',''), Alt (seq [opt (ch CHR ''r''), lit ''bind'']) (lit ''remount''), Alt (ch CHR '','') Eol]) opts
              then Lifeline else Mutate)"

definition tar_rule :: "string list \<Rightarrow> cmd_class" where
  "tar_rule a =
     (let args = drop 1 a; mode = arg args 0
      in if list_ex (\<lambda>x. x = ''--remove-files'' \<or> x = ''--delete'') args then Forbidden
         else if (rtest (seq [Bol, opt (ch CHR ''-''), Star (Cls alpha), one_of ''xc'']) mode \<and> \<not> starts_with ''--'' mode) \<or>
              list_ex (\<lambda>x. x \<in> set [''-x'', ''-c'', ''--extract'', ''--create'']) args
         then Mutate else Read)"

definition rsync_rule :: "string list \<Rightarrow> cmd_class" where
  "rsync_rule a =
     (if list_ex (\<lambda>x. starts_with ''--delete'' x \<or> x = ''--remove-source-files'') (drop 1 a) then Forbidden
      else if hasFlag a [''-n'', ''--dry-run'', ''--list-only''] then Read else Mutate)"

definition nc_rule :: "string list \<Rightarrow> cmd_class" where
  "nc_rule a = (if hasFlag a [''-z''] \<and> \<not> hasFlag a [''-l'', ''--listen'', ''-e''] then Read else Mutate)"

definition gzip_rule :: "string list \<Rightarrow> cmd_class" where
  "gzip_rule a = (if hasFlag a [''-c'', ''--stdout'', ''-l'', ''--list'', ''-t'', ''--test''] then Read else Mutate)"

definition read_if :: "bool \<Rightarrow> cmd_class \<Rightarrow> cmd_class" where
  "read_if b c = (if b then Read else c)"

text \<open>The rules of one line: the class where the test holds, and where it does not.\<close>

definition small_rules :: "(string \<times> (string list \<Rightarrow> cmd_class)) list" where
  "small_rules =
    [(''passwd'', \<lambda>a. if hasFlag a [''-l'', ''--lock'', ''-d'', ''--delete''] then Lifeline else Mutate),
     (''usermod'', \<lambda>a. if hasFlag a [''-L'', ''--lock'', ''-e'', ''--expiredate'', ''-s'', ''--shell''] then Lifeline else Mutate),
     (''ifconfig'', \<lambda>a. read_if (length a \<le> 2) Lifeline),
     (''wg-quick'', \<lambda>a. if arg a 1 = ''down'' then Lifeline else Mutate),
     (''nmcli'', nmcli_rule),
     (''ufw'', \<lambda>a. read_if (arg a 1 \<in> set [''status'', ''show'', ''version'']) Lifeline),
     (''iptables'', \<lambda>a. read_if (hasFlag a [''-L'', ''-S'', ''--list'', ''--list-rules'']) Lifeline),
     (''ip6tables'', \<lambda>a. read_if (hasFlag a [''-L'', ''-S'', ''--list'', ''--list-rules'']) Lifeline),
     (''nft'', \<lambda>a. read_if (arg a 1 \<in> set [''list'', ''--json'', ''-j'']) Lifeline),
     (''ip'', ip_rule),
     (''route'', \<lambda>a. read_if (length a \<le> 2 \<or> arg a 1 = ''-n'') Lifeline),
     (''arp'', \<lambda>a. if hasFlag a [''-d'', ''-s''] then Lifeline else Read),
     (''ethtool'', ethtool_rule),
     (''systemctl'', systemctl_rule),
     (''kill'', kill_rule), (''pkill'', pkill_rule), (''killall'', pkill_rule),
     (''sed'', sed_rule), (''awk'', awk_rule), (''gawk'', awk_rule), (''mawk'', awk_rule),
     (''git'', git_rule),
     (''apt'', aptClass), (''apt-get'', aptClass), (''dpkg'', dpkg_rule), (''pip'', pip_rule), (''pip3'', pip_rule), (''npm'', npm_rule),
     (''sqlite3'', sqlite_rule),
     (''psql'', \<lambda>a. sqlClass (or_else (argAfter a ''-c'') (argAfter a ''--command''))),
     (''mysql'', \<lambda>a. sqlClass (or_else (argAfter a ''-e'') (argAfter a ''--execute''))),
     (''mariadb'', \<lambda>a. sqlClass (or_else (argAfter a ''-e'') (argAfter a ''--execute''))),
     (''mount'', mount_rule), (''tar'', tar_rule), (''rsync'', rsync_rule),
     (''tcpdump'', \<lambda>a. if hasFlag a [''-w''] then Mutate else Read), (''tshark'', \<lambda>a. if hasFlag a [''-w''] then Mutate else Read),
     (''nc'', nc_rule), (''ncat'', nc_rule),
     (''openssl'', \<lambda>a. if arg a 1 \<in> set [''genrsa'', ''genpkey'', ''req'', ''x509'', ''pkcs12'', ''rand''] \<and> hasFlag a [''-out''] then Mutate else Read),
     (''gzip'', gzip_rule), (''gunzip'', gzip_rule), (''xz'', gzip_rule),
     (''unzip'', \<lambda>a. read_if (hasFlag a [''-l'', ''-t'', ''-p'']) Mutate),
     (''top'', \<lambda>a. read_if (hasFlag a [''-b'']) Forbidden),
     (''tailscale'', \<lambda>a. if arg a 1 \<in> set [''status'', ''ip'', ''netcheck'', ''version'', ''ping'', ''whois'', ''dns''] then Read
        else if arg a 1 \<in> set [''down'', ''logout''] then Lifeline else Mutate),
     (''wg'', \<lambda>a. read_if (length a = 1 \<or> arg a 1 = ''show'' \<or> arg a 1 = ''showconf'') Lifeline),
     (''hostnamectl'', \<lambda>a. read_if (length a = 1 \<or> arg a 1 = ''status'') Mutate),
     (''timedatectl'', \<lambda>a. read_if (length a = 1 \<or> arg a 1 = ''status'' \<or> arg a 1 = ''show'') Mutate),
     (''sysctl'', \<lambda>a. if hasFlag a [''-w'', ''--write''] \<or> list_ex (\<lambda>x. CHR ''='' \<in> set x) (drop 1 a) then Lifeline else Read),
     (''modprobe'', \<lambda>a. if hasFlag a [''-r'', ''--remove''] then Lifeline else Mutate),
     (''dd'', dd_rule), (''truncate'', truncate_rule), (''cp'', cp_rule), (''mv'', mv_rule), (''crontab'', crontab_rule),
     (''chmod'', permClass), (''chown'', permClass), (''chgrp'', permClass)]"

text \<open>The rules that do not look at the arguments.\<close>

definition constant_rules :: "(cmd_class \<times> string list) list" where
  "constant_rules =
    [(Forbidden, [''rm'', ''rmdir'', ''unlink'', ''shred'', ''wipefs'', ''mkfs'', ''fdisk'', ''sfdisk'', ''cfdisk'', ''parted'', ''gdisk'',
        ''reboot'', ''shutdown'', ''halt'', ''poweroff'', ''init'', ''telinit'', ''kexec'', ''systemd-run'', ''at'', ''batch'',
        ''watch'', ''yes'', ''htop'', ''less'', ''more'', ''vi'', ''vim'', ''nano'', ''emacs'']),
     (Destructive, [''mkswap'', ''chattr'']),
     (Lifeline, [''umount'', ''chage'', ''userdel'', ''deluser'', ''visudo'', ''ifdown'', ''chsh'', ''rmmod'']),
     (Mutate, [''swapoff'', ''tee'', ''crontabs'', ''zip'', ''ln'', ''mkdir'', ''touch'', ''install'', ''mktemp'', ''setcap'']),
     (Read, [''apt-cache'', ''sleep'', ''echo'', ''printf''])]"

definition constant_rule :: "string \<Rightarrow> cmd_class option" where
  "constant_rule name = map_option fst (List.find (\<lambda>(c, ns). name \<in> set ns) constant_rules)"

subsection \<open>docker and find\<close>

definition docker_container_class :: "string list \<Rightarrow> cmd_class" where
  "docker_container_class r =
     (let flag_name = takeWhile (\<lambda>c. c \<noteq> CHR ''='');
          host_ns = list_ex (\<lambda>(x, y). flag_name x \<in> set [''--pid'', ''--ipc'', ''--userns''] \<and>
             (if CHR ''='' \<in> set x then split_on CHR ''='' x ! 1 = ''host'' else y = Some ''host'')) (with_next r);
          binds = concat (map (\<lambda>(x, y).
             if x = ''-v'' \<or> x = ''--volume'' \<or> x = ''--mount'' then [or_empty y]
             else if starts_with ''-v'' x then [drop 2 x]
             else if starts_with ''--volume='' x then [drop 9 x]
             else if starts_with ''--mount='' x then [drop 8 x] else []) (with_next r));
          src = seq [Alt Bol (ch CHR '',''), alts [''source'', ''src''], lit ''=/''];
          dirs = alts [''etc'', ''root'', ''home'', ''boot'', ''var/lib/miro'', ''usr'', ''bin'', ''sbin'', ''lib'', ''proc'', ''sys'', ''dev'']
      in if host_ns \<or> list_ex (\<lambda>x. flag_name x \<in> set [''--privileged'', ''--cap-add'', ''--security-opt'', ''--device'', ''--volumes-from'']) r
         then Destructive
         else if list_ex (\<lambda>b. rtest (seq [Bol, ch SL, Alt (ch CHR '':'') Eol]) b \<or> rtest (seq [src, Alt (ch CHR '','') Eol]) b) binds
         then Forbidden
         else if list_ex (\<lambda>b. rtest (seq [Bol, ch SL, dirs, alt [ch CHR '':'', ch SL, Eol]]) b \<or> rtest (lit ''docker.sock'') b \<or>
                rtest (seq [src, dirs, alt [ch CHR '','', ch SL, Eol]]) b) binds
         then Destructive
         else if list_ex (\<lambda>b. rtest (seq [Bol, ch SL]) b \<or> rtest src b) binds then Destructive
         else Mutate)"

definition SHELLS :: "string list" where
  "SHELLS = [''bash'', ''sh'', ''dash'', ''zsh'', ''ksh'', ''fish'', ''ash'']"

definition docker_exec :: "inner_class \<Rightarrow> string list \<Rightarrow> js_error + cmd_class" where
  "docker_exec inner r =
     (let c = past_options [''-u'', ''--user'', ''-w'', ''--workdir'', ''-e'', ''--env'', ''--env-file''] r;
          flags = take (length r - length c) r;
          cmd = drop 1 c
      in if arg c 0 = [] \<or> cmd = [] then Inr Forbidden
         else case inner cmd of
             Inl e \<Rightarrow> Inl e
           | Inr k \<Rightarrow>
               if hasFlag flags [''-it'', ''-i'', ''-t'', ''--interactive'', ''--tty''] \<and> hd cmd \<in> set SHELLS \<and> ''-c'' \<notin> set cmd
               then Inr Forbidden else Inr k)"

definition docker_compose_class :: "string list \<Rightarrow> cmd_class" where
  "docker_compose_class r =
     (let verb = fst (firstVerb [''-f'', ''--file'', ''-p'', ''--project-name'', ''--project-directory'', ''--env-file'', ''--profile'', ''--ansi'', ''--progress''] r)
      in if verb \<in> set [''ps'', ''ls'', ''logs'', ''config'', ''images'', ''top'', ''version'', ''events'', ''port''] then Read
         else if verb = ''down'' \<and> (hasFlag r [''-v'', ''--volumes''] \<or> hasFlag r [''--rmi'']) then Destructive
         else if verb = ''rm'' then Destructive
         else Mutate)"

definition docker_rule :: "inner_class \<Rightarrow> string list \<Rightarrow> js_error + cmd_class" where
  "docker_rule inner a =
     (let (sub, r) = firstVerb [''-H'', ''--host'', ''-l'', ''--log-level'', ''-c'', ''--context'', ''--config'', ''--tlscacert'', ''--tlscert'', ''--tlskey''] (drop 1 a);
          sub2 = or_empty (List.find no_dash r)
      in if sub \<in> set [''ps'', ''images'', ''inspect'', ''logs'', ''top'', ''port'', ''diff'', ''history'', ''info'', ''version'', ''stats'', ''events'', ''search'']
         then Inr (if sub = ''stats'' \<and> \<not> hasFlag r [''--no-stream''] then Mutate else Read)
         else if sub \<in> set [''network'', ''volume'', ''image'', ''container'', ''context'', ''plugin'', ''system''] then
           Inr (if sub2 \<in> set [''ls'', ''list'', ''inspect'', ''df'', ''info'', ''show''] then Read
                else if sub2 \<in> set [''rm'', ''remove'', ''prune''] then (if sub = ''network'' \<or> sub = ''context'' then Mutate else Destructive)
                else Mutate)
         else if sub = ''exec'' then docker_exec inner r
         else if sub = ''rm'' \<or> sub = ''rmi'' then Inr Destructive
         else if sub = ''run'' \<or> sub = ''create'' then Inr (docker_container_class r)
         else if sub = ''compose'' then Inr (docker_compose_class r)
         else Inr Mutate)"

definition placeholder :: "string \<Rightarrow> string" where
  "placeholder x = (if x = ''{}'' then ''/placeholder'' else x)"

text \<open>The command after the flag, up to \<open>;\<close> or \<open>+\<close>.\<close>

definition exec_body :: "string list \<Rightarrow> string list" where
  "exec_body r = map placeholder (takeWhile (\<lambda>x. x \<noteq> '';'' \<and> x \<noteq> ''+'' \<and> x \<noteq> [BS, CHR '';'']) r)"

definition find_rule :: "inner_class \<Rightarrow> string list \<Rightarrow> js_error + cmd_class" where
  "find_rule inner a =
     (let args = drop 1 a
      in if ''-delete'' \<in> set args then Inr Forbidden
         else case List.find (\<lambda>f. f \<in> set args) [''-exec'', ''-execdir'', ''-ok'', ''-okdir''] of
             Some f \<Rightarrow> map_sum (\<lambda>e. e) (max_class Mutate) (inner (exec_body (drop 1 (dropWhile (\<lambda>x. x \<noteq> f) args))))
           | None \<Rightarrow> Inr (if list_ex (\<lambda>x. starts_with ''-fprint'' x \<or> x = ''-fls'') args then Mutate else Read))"

text \<open>
  \<open>RULES[name]\<close>; a rule that yields \<open>Inr None\<close> has no opinion.  A name inherited from
  \<open>Object.prototype\<close> is found too; calling it throws (\<open>constructor\<close> yields a value that is no
  class, taken as thrown here).
\<close>

definition RULES :: "(string \<Rightarrow> (string \<times> string) option) \<Rightarrow> string \<Rightarrow> rule option" where
  "RULES url name =
     (if name = ''docker'' then Some (\<lambda>inner a. map_sum (\<lambda>e. e) Some (docker_rule inner a))
      else if name = ''find'' then Some (\<lambda>inner a. map_sum (\<lambda>e. e) Some (find_rule inner a))
      else if name = ''curl'' then Some (\<lambda>inner a. Inr (Some (curl_rule url a)))
      else if name = ''wget'' then Some (\<lambda>inner a. Inr (Some (wget_rule url a)))
      else if name = ''update'' then Some (\<lambda>inner a. Inr None)
      else if name \<in> set OBJECT_PROTOTYPE then Some (\<lambda>inner a. Inl type_error)
      else case constant_rule name of
          Some c \<Rightarrow> Some (\<lambda>inner a. Inr (Some c))
        | None \<Rightarrow> map_option (\<lambda>f inner a. Inr (Some (f a))) (map_of small_rules name))"

end
