(* ===== verification/Classify.thy ===== *)
theory Classify
  imports CmdRules
begin

text \<open>
  The command classifier (\<open>apps/mirod/src/operations/classify.ts\<close>): \<open>classifySegment\<close> and
  \<open>classifyCommand\<close> with the tables and path questions they use.  \<open>resolve\<close> stands for the
  binary resolver, \<open>url\<close> for \<open>new URL\<close>.  The recursion (a shell's \<open>-c\<close> body, what docker and
  find run) is bounded by fuel; an exception the source lets escape is \<open>Inl\<close>.  A dash and an
  arrow outside ASCII are written \<open>-\<close> in messages.
\<close>

record env =
  resolveBinary :: "string \<Rightarrow> string option"
  trusted :: "string list"
  home :: string
  url :: "string \<Rightarrow> (string \<times> string) option"

record seg_class =
  segment_of :: segment
  effectiveArgv :: "string list"
  seg_verdict :: cmd_class
  reason :: string

record classification =
  verdict :: cmd_class
  segments :: "seg_class list"
  reasons :: "string list"
  needsNetwork :: bool
  alternative :: "string option"
  parseError :: "string option"

subsection \<open>Tables\<close>

definition DEFAULT_TRUSTED_BIN_DIRS :: "string list" where
  "DEFAULT_TRUSTED_BIN_DIRS = [''/usr/bin'', ''/usr/sbin'', ''/bin'', ''/sbin'', ''/usr/local/bin'', ''/usr/local/sbin'']"

definition NETWORK_READERS :: "string list" where
  "NETWORK_READERS = [''ip'', ''ss'', ''netstat'', ''nft'', ''iptables'', ''ip6tables'', ''ufw'', ''route'', ''arp'', ''ethtool'', ''wg'',
     ''tailscale'', ''nmcli'', ''dig'', ''nslookup'', ''host'', ''getent'', ''curl'', ''wget'', ''ping'', ''traceroute'', ''tracepath'',
     ''mtr'', ''tcpdump'', ''tshark'', ''nc'', ''ncat'', ''ifconfig'']"

definition INTERPRETERS :: "(string \<times> string list) list" where
  "INTERPRETERS =
    [(''python'', [''-c'', ''-m'']), (''python3'', [''-c'', ''-m'']), (''python2'', [''-c'', ''-m'']),
     (''perl'', [''-e'', ''-E'']), (''ruby'', [''-e'']), (''php'', [''-r'']),
     (''node'', [''-e'', ''--eval'', ''-p'', ''--print'']), (''bun'', [''-e'', ''--eval'', ''-p'', ''--print'']),
     (''deno'', [''eval'']), (''lua'', [''-e'']), (''awk'', []), (''gawk'', []), (''mawk'', [])]"

definition DESTRUCTIVE_CODE :: rex where
  "DESTRUCTIVE_CODE = alt
    [liti ''os.remove'', liti ''os.unlink'', liti ''os.rmdir'', liti ''shutil.rmtree'',
     seq [WordB, liti ''unlink'', Star wordch, WordB], seq [WordB, liti ''rmtree'', WordB],
     seq [liti ''.rm'', opt (liti ''Sync''), Star space, ch CHR ''('' ],
     seq [liti ''.rmdir'', opt (liti ''Sync''), Star space, ch CHR ''('' ],
     seq [WordB, liti ''rimraf'', WordB], liti ''File.delete'', liti ''FileUtils.rm'',
     seq [liti ''DROP'', plus space, altsi [''TABLE'', ''DATABASE'']], seq [WordB, liti ''TRUNCATE'', WordB],
     seq [WordB, liti ''mkfs''], seq [WordB, liti ''shred''],
     seq [WordB, liti ''rm'', plus space, ch CHR ''-'', Star (Cls alpha), Cls (\<lambda>c. lower_char c \<in> set ''rf'')]]"

definition PLAIN_READERS :: "string list" where
  "PLAIN_READERS =
    [''cat'', ''head'', ''tail'', ''less'', ''more'', ''grep'', ''egrep'', ''fgrep'', ''rg'', ''ag'', ''jq'', ''yq'', ''ls'', ''stat'', ''file'',
     ''df'', ''du'', ''ps'', ''ss'', ''netstat'', ''dig'', ''nslookup'', ''host'', ''getent'', ''id'', ''whoami'', ''uname'', ''hostname'',
     ''lsblk'', ''blkid'', ''lsof'', ''lspci'', ''lsusb'', ''lscpu'', ''free'', ''uptime'', ''date'', ''echo'', ''printf'', ''true'',
     ''false'', ''wc'', ''sort'', ''uniq'', ''cut'', ''tr'', ''column'', ''basename'', ''dirname'', ''realpath'', ''readlink'',
     ''which'', ''type'', ''env'', ''printenv'', ''journalctl'', ''dmesg'', ''nproc'', ''arch'', ''cal'', ''seq'', ''sha256sum'',
     ''md5sum'', ''sha1sum'', ''b2sum'', ''cksum'', ''xxd'', ''hexdump'', ''od'', ''strings'', ''diff'', ''cmp'', ''comm'', ''tee'',
     ''test'', ''['', ''sleep'', ''pgrep'', ''pidof'', ''ip'', ''nft'', ''iptables'', ''ip6tables'', ''ufw'', ''systemctl'', ''docker'',
     ''find'', ''sed'', ''awk'', ''gawk'', ''mawk'', ''curl'', ''wget'', ''git'', ''apt'', ''apt-get'', ''apt-cache'', ''dpkg'',
     ''sqlite3'', ''psql'', ''mysql'', ''mariadb'', ''mount'', ''findmnt'', ''ping'', ''traceroute'', ''tracepath'', ''mtr'',
     ''openssl'', ''tcpdump'', ''tshark'', ''nmcli'', ''wg'', ''tailscale'', ''top'', ''htop'', ''iostat'',
     ''vmstat'', ''sar'', ''ethtool'', ''arp'', ''route'', ''nvidia-smi'', ''vainfo'', ''ffprobe'', ''mediainfo'', ''tar'', ''zcat'',
     ''gzip'', ''gunzip'', ''xz'', ''unzip'', ''zip'', ''base64'', ''tail'', ''watch'', ''true'', ''yes'', ''crontab'', ''kill'',
     ''pkill'', ''killall'']"

definition CONTENT_READERS :: "string list" where
  "CONTENT_READERS = [''cat'', ''head'', ''tail'', ''tac'', ''nl'', ''less'', ''more'', ''grep'', ''egrep'', ''fgrep'', ''rg'', ''ag'', ''jq'', ''yq'',
     ''xxd'', ''hexdump'', ''od'', ''strings'', ''base64'', ''diff'', ''cmp'', ''wc'', ''sort'', ''uniq'', ''cut'', ''tr'', ''awk'', ''gawk'',
     ''mawk'', ''sed'', ''sqlite3'']"

definition HARMLESS_BUILTINS :: "string list" where
  "HARMLESS_BUILTINS = [''true'', ''false'', '':'', ''echo'', ''printf'', ''test'', ''['', ''pwd'', ''type'', ''command'', ''help'', ''hash'', ''times'']"

definition EXFIL_NET_TOOLS :: "string list" where
  "EXFIL_NET_TOOLS = [''dig'', ''host'', ''nslookup'', ''getent'', ''ping'', ''ping6'', ''traceroute'', ''tracepath'', ''mtr'', ''nc'', ''ncat'']"

subsection \<open>Questions asked of an argument vector\<close>

text \<open>The value of \<open>key=value\<close>, else the word itself.\<close>

definition value_part :: "string \<Rightarrow> string" where
  "value_part a =
     (if CHR ''='' \<in> set a \<and> \<not> starts_with ''/'' a then drop 1 (dropWhile (\<lambda>c. c \<noteq> CHR ''='') a) else a)"

definition pathTokens :: "string list \<Rightarrow> redirect list \<Rightarrow> string \<Rightarrow> string list" where
  "pathTokens a rs h =
     map (\<lambda>v. normalizePath v h) (filter isPathLike (map value_part (drop 1 a))) @
     map (\<lambda>v. normalizePath v h) (filter isPathLike (map target rs))"

definition glob_char :: "char \<Rightarrow> bool" where
  "glob_char c \<longleftrightarrow> c = CHR ''*'' \<or> c = CHR ''?'' \<or> c = CHR ''[''"

definition glob_risk :: "string \<Rightarrow> string \<Rightarrow> bool" where
  "glob_risk h v \<longleftrightarrow>
     isPathLike v \<and> list_ex glob_char v \<and>
     (let prefix = normalizePath (takeWhile (\<lambda>c. \<not> glob_char c) v) h;
          d = before_last_slash prefix; dir = (if d = [] then ''/'' else d)
      in pathWithinSecretArea dir h \<or> hits SENSITIVE_READ_PATHS prefix)"

definition globReadRisk :: "string list \<Rightarrow> string \<Rightarrow> string option" where
  "globReadRisk a h = List.find (glob_risk h) (map value_part (drop 1 a))"

definition embedded_re :: rex where
  "embedded_re = seq
    [Alt Bol (Cls (\<lambda>c. is_space c \<or> c \<in> set [DQ, SQ, CHR ''('', CHR ''<'', CHR ''>'', CHR ''='', CHR '','', CHR '';'', CHR ''|'', CHR ''&''])),
     Grp 1 (Cat (ch SL) (plus (Cls (\<lambda>c. \<not> is_space c \<and>
       c \<notin> set [DQ, SQ, CHR ''('', CHR '')'', CHR ''<'', CHR ''>'', CHR '','', CHR '';'', CHR ''|'', CHR ''&'']))))]"

definition embeddedPathLiterals :: "string list \<Rightarrow> string \<Rightarrow> string list" where
  "embeddedPathLiterals a h =
     concat (map (\<lambda>x. map (\<lambda>v. normalizePath v h)
       (filter isPathLike (map (\<lambda>k. or_empty (group 1 k)) (match_all embedded_re x)))) (drop 1 a))"

definition walks_tree :: "string \<Rightarrow> string list \<Rightarrow> bool" where
  "walks_tree name r \<longleftrightarrow>
     name \<in> set [''grep'', ''egrep'', ''fgrep''] \<and>
       list_ex (\<lambda>x. rtest (seq [Bol, ch CHR ''-'', Star (Cls alpha), one_of ''rR'', Star (Cls alpha), Eol]) x \<or>
         x \<in> set [''--recursive'', ''--dereference-recursive'', ''--directories=recurse'']) r \<or>
     name \<in> set [''rg'', ''ag'', ''ack''] \<or>
     name = ''tar'' \<and>
       (rtest (seq [Bol, opt (ch CHR ''-''), Star (Cls alpha), ch CHR ''c'']) (arg r 0) \<and> \<not> starts_with ''--'' (arg r 0) \<or>
        ''-c'' \<in> set r \<or> ''--create'' \<in> set r) \<or>
     name = ''find'' \<and> list_ex (\<lambda>f. f \<in> set r) [''-exec'', ''-execdir'', ''-ok'', ''-okdir'']"

definition secretTreeWalk :: "string \<Rightarrow> string list \<Rightarrow> string list \<Rightarrow> string \<Rightarrow> string option" where
  "secretTreeWalk name a paths h =
     (if \<not> walks_tree name (drop 1 a) then None
      else if paths = [] then Some (name @ '' would walk the working directory - name an absolute path to search'')
      else map_option (\<lambda>p. ''recursive read over '' @ p @ '', which holds secret material - name a narrower directory'')
             (List.find (\<lambda>p. holdsSecrets p h) paths))"

definition EXEC_CONFIG :: rex where
  "EXEC_CONFIG = seq [Bol, alt
    [liti ''diff.external'', seq [liti ''core.'', altsi [''sshcommand'', ''fsmonitor'', ''gitproxy'', ''pager'', ''editor'']],
     liti ''sequence.editor'', seq [Star dot, liti ''.textconv''],
     seq [Star dot, lit ''.'', altsi [''clean'', ''smudge'', ''process'']], seq [liti ''alias.'', plus dot],
     liti ''protocol.ext.allow'', liti ''uploadpack.'', liti ''receive.'', liti ''ssh.variant'']]"

definition transport_re :: rex where
  "transport_re = seq [Alt Bol (one_of ''=@:''), altsi [''ext'', ''fd''], lit ''::'']"

text \<open>One turn of the loop of \<open>gitInjection\<close>: an argument and the one after it.\<close>

definition git_arg_injection :: "string \<times> string option \<Rightarrow> string option" where
  "git_arg_injection p =
     (let (a, nxt) = p;
          kv = (if a = ''-c'' \<or> a = ''--config-env'' then nxt
                else if starts_with ''-c'' a \<and> 2 < length a then Some (drop 2 a) else None);
          key = before_equals (or_empty kv)
      in if rtest transport_re a then Some (''git '' @ a @ '' runs an external transport helper (arbitrary command)'')
         else if or_empty kv \<noteq> [] \<and> rtest EXEC_CONFIG key then Some (''git -c '' @ key @ '' sets an exec-bearing config key'')
         else if starts_with ''--upload-pack='' a \<or> starts_with ''--receive-pack='' a \<or> a = ''--upload-pack'' \<or> a = ''--receive-pack''
         then Some (''git '' @ a @ '' runs a named remote command'')
         else None)"

definition gitInjection :: "string list \<Rightarrow> string option" where
  "gitInjection a =
     (case List.find (\<lambda>p. git_arg_injection p \<noteq> None) (with_next (drop 1 a)) of
        None \<Rightarrow> None | Some p \<Rightarrow> git_arg_injection p)"

definition drop_at :: "string \<Rightarrow> string" where
  "drop_at h = (if starts_with ''@'' h then drop 1 h else h)"

definition isPublicHost :: "env \<Rightarrow> string \<Rightarrow> bool" where
  "isPublicHost e h =
     (let host = strip_brackets (drop_at h)
      in if host = [] \<or> starts_with ''-'' host then False else \<not> isLocalOrPrivateUrl (url e) (''http://'' @ host))"

definition public_arg :: "env \<Rightarrow> string \<Rightarrow> bool" where
  "public_arg e a \<longleftrightarrow>
     \<not> starts_with ''-'' a \<and> \<not> rtest (seq [Bol, plus digit, Eol]) a \<and>
     (starts_with ''@'' a \<or> CHR ''.'' \<in> set a \<or> CHR '':'' \<in> set a) \<and> isPublicHost e a"

definition networkProbePublicTarget :: "env \<Rightarrow> string list \<Rightarrow> string option" where
  "networkProbePublicTarget e a = map_option drop_at (List.find (public_arg e) (drop 1 a))"

definition any_of :: "string \<Rightarrow> string list \<Rightarrow> bool" where "any_of name ns \<longleftrightarrow> name \<in> set ns"

definition forbiddenReason :: "string \<Rightarrow> string list \<Rightarrow> string" where
  "forbiddenReason name a =
     (if any_of name [''rm'', ''rmdir'', ''unlink'', ''shred'']
      then name @ '' is banned - deletion only exists as the file_delete operation (moves to trash, recoverable)''
      else if any_of name [''mkfs'', ''wipefs'', ''fdisk'', ''sfdisk'', ''cfdisk'', ''parted'', ''gdisk''] then name @ '' destroys a filesystem/partition table''
      else if name = ''dd'' then ''dd writes directly to a block device''
      else if any_of name [''reboot'', ''shutdown'', ''halt'', ''poweroff'', ''init'', ''telinit'', ''kexec'']
      then name @ '' takes the server down - a reboot is the system_reboot operation and a power-off is the system_shutdown operation, never a shell command''
      else if name = ''systemctl'' then ''systemctl cannot reach systemd from the sandbox'' @ [SQ] @ ''s PID namespace - unit changes are operations''
      else if name = ''crontab'' then ''crontab -r wipes every scheduled job''
      else if name = ''truncate'' then ''truncate to zero destroys the file'' @ [SQ] @ ''s contents''
      else if name = ''cp'' then ''copying /dev/null over a file destroys it''
      else if name = ''mv'' then ''moving to /dev/null or moving / destroys data''
      else if name = ''find'' then ''find -delete is a deletion''
      else if name = ''tar'' then ''tar --remove-files/--delete is a deletion''
      else if name = ''rsync'' then ''rsync --delete is a deletion''
      else if any_of name [''watch'', ''top'', ''htop'', ''less'', ''more'', ''vi'', ''vim'', ''nano'', ''emacs''] then name @ '' is interactive''
      else if name = ''yes'' then ''unbounded output''
      else trim (name @ '' '' @ join '' '' (drop 1 a)))"

definition alternativeFor :: "string \<Rightarrow> string" where
  "alternativeFor name0 =
     (let name = baseName name0
      in if any_of name [''rm'', ''rmdir'', ''unlink'', ''shred'', ''find'', ''rsync'', ''tar'', ''truncate'', ''cp'', ''mv'']
         then ''Use the file_delete operation - it moves the path to Miro'' @ [SQ] @ ''s trash (recoverable for 30 days) and can be rolled back.''
         else if any_of name [''reboot'', ''shutdown'', ''halt'', ''poweroff'', ''init'', ''telinit'']
         then ''A reboot is the system_reboot operation and a power-off is the system_shutdown operation (both confirmed by the owner; Miro reports at its next boot what came back). Use those, never a raw shell command.''
         else if name = ''systemctl''
         then ''systemctl cannot change anything from inside the command sandbox (it cannot reach systemd from the sandbox'' @ [SQ]
              @ ''s PID namespace). Restart a unit with the service_restart operation; start, stop, enable, disable or daemon-reload with service_control. Reboot with system_reboot.''
         else if any_of name [''mkfs'', ''wipefs'', ''fdisk'', ''sfdisk'', ''cfdisk'', ''parted'', ''gdisk'', ''dd'']
         then ''Miro never formats or overwrites block devices. Ask the user to do this themselves if it is genuinely needed.''
         else if any_of name [''bash'', ''sh'', ''zsh'', ''dash'', ''fish'', ''sudo'', ''su'', ''doas'']
         then ''Run the specific command directly instead of opening a shell.''
         else ''Use a read-only inspection command, or an operation through the engine for changes.'')"

subsection \<open>One segment\<close>

definition judged :: "segment \<Rightarrow> string list \<Rightarrow> cmd_class \<Rightarrow> string \<Rightarrow> seg_class" where
  "judged s a c m = \<lparr>segment_of = s, effectiveArgv = a, seg_verdict = c, reason = m\<rparr>"

definition fd_target :: rex where
  "fd_target = seq [Bol, opt (ch CHR ''&''), plus digit, opt (ch CHR ''-''), Eol]"

text \<open>Redirects that write nothing: duplicated descriptors, input, the null device.\<close>

definition harmless_redirect :: "redirect \<Rightarrow> bool" where
  "harmless_redirect r \<longleftrightarrow>
     (rop r = ''>&'' \<or> rop r = ''>'' \<and> starts_with ''&'' (target r)) \<and> rtest fd_target (target r) \<or>
     rop r = ''<'' \<or> rop r = ''<<'' \<or>
     target r = ''/dev/null'' \<or> target r = ''/dev/stderr'' \<or> target r = ''/dev/stdout''"

text \<open>The loop over the redirects: \<open>Inl\<close> of a refusal, or the class and reason they add up to.\<close>

fun redirect_verdict :: "string \<Rightarrow> cmd_class \<times> string \<Rightarrow> redirect list \<Rightarrow> string + cmd_class \<times> string" where
  "redirect_verdict h v [] = Inr v"
| "redirect_verdict h v (r # rs) =
     (if harmless_redirect r then redirect_verdict h v rs
      else let t = normalizePath (target r) h
           in if hits SENSITIVE_READ_PATHS t then Inl (''redirect writes to secret material '' @ t)
              else if rtest BLOCK_DEVICE t then Inl (''redirect writes to block device '' @ t)
              else if hits LIFELINE_PATHS t
              then redirect_verdict h (max_class (fst v) Lifeline, ''writes to lifeline path '' @ t) rs
              else redirect_verdict h (max_class (fst v) Mutate,
                     if snd v \<noteq> [] then snd v else ''writes to '' @ t @ '' via redirect'') rs)"

definition function_shape :: "string \<Rightarrow> bool" where
  "function_shape a \<longleftrightarrow> rtest (seq [lit ''()'', Star space, opt (ch CHR ''{''), Eol]) a \<or> a = ''(){'' \<or> starts_with '':()'' a"

definition programBearing :: "string \<Rightarrow> bool" where
  "programBearing name \<longleftrightarrow>
     name \<in> set SHELLS \<or> map_of INTERPRETERS name \<noteq> None \<or> name \<in> set OBJECT_PROTOTYPE \<or>
     name \<in> set [''awk'', ''gawk'', ''mawk''] \<or> name = ''sed''"

definition earlyPaths :: "env \<Rightarrow> string list \<Rightarrow> redirect list \<Rightarrow> string list" where
  "earlyPaths e a rs =
     pathTokens a rs (home e) @ (if programBearing (baseName (hd a)) then embeddedPathLiterals a (home e) else [])"

text \<open>What is refused before any rule of a command is asked.\<close>

definition early_refusal :: "env \<Rightarrow> string list \<Rightarrow> redirect list \<Rightarrow> string option" where
  "early_refusal e a rs =
     (let name = baseName (hd a); paths = earlyPaths e a rs
      in case List.find (hits SENSITIVE_READ_PATHS) paths of
           Some p \<Rightarrow> Some (''touches secret material at '' @ p)
         | None \<Rightarrow>
         case secretTreeWalk name a paths (home e) of
           Some m \<Rightarrow> Some m
         | None \<Rightarrow>
         case globReadRisk a (home e) of
           Some g \<Rightarrow> Some (''glob '' @ g @ '' could expand into secret material'')
         | None \<Rightarrow> if name = ''git'' then gitInjection a else None)"

definition script_of :: "string list \<Rightarrow> string option" where
  "script_of a = (case List.find no_dash (drop 1 a) of Some [] \<Rightarrow> None | x \<Rightarrow> x)"

definition runs_script :: "segment \<Rightarrow> string list \<Rightarrow> cmd_class \<Rightarrow> string \<Rightarrow> seg_class" where
  "runs_script s a rc otherwise =
     (case script_of a of
        Some x \<Rightarrow> judged s a (max_class Mutate rc) (''runs script '' @ x @ '' (contained by the sandbox)'')
      | None \<Rightarrow> judged s a Forbidden otherwise)"

definition shell_segment :: "(string \<Rightarrow> js_error + classification) \<Rightarrow> segment \<Rightarrow> string list \<Rightarrow> cmd_class \<Rightarrow> js_error + seg_class" where
  "shell_segment command s a rc =
     (case after_word ''-c'' a of
        Some body \<Rightarrow>
          (case command body of
             Inl er \<Rightarrow> Inl er
           | Inr sub \<Rightarrow> Inr (judged s a (max_class (max_class Mutate (verdict sub)) rc)
               (if verdict sub = Read then ''inline shell code (contained by the sandbox)''
                else ''inline shell code: '' @ join ''; '' (reasons sub))))
      | None \<Rightarrow> Inr (runs_script s a rc ''interactive shell''))"

definition inline_flag :: "string list \<Rightarrow> string \<Rightarrow> bool" where
  "inline_flag flags x \<longleftrightarrow> x \<in> set flags \<or> list_ex (\<lambda>f. starts_with f x \<and> length f = 2 \<and> 2 < length x) flags"

definition inline_body :: "string list \<Rightarrow> string list \<Rightarrow> string option" where
  "inline_body flags a =
     (case dropWhile (\<lambda>x. \<not> inline_flag flags x) (drop 1 a) of
        [] \<Rightarrow> None
      | x # xs \<Rightarrow> Some (if 2 < length x \<and> starts_with ''-'' x \<and> \<not> starts_with ''--'' x then drop 2 x else arg xs 0))"

definition interpreter_segment :: "segment \<Rightarrow> string \<Rightarrow> string list \<Rightarrow> string list \<Rightarrow> cmd_class \<Rightarrow> seg_class" where
  "interpreter_segment s name flags a rc =
     (if starts_with ''awk'' name \<or> name = ''gawk'' \<or> name = ''mawk''
      then let c = awk_rule a in judged s a (max_class c rc) (if c = Read then ''read-only'' else ''awk program writes'')
      else case inline_body flags a of
          Some body \<Rightarrow>
            let c = (if rtest DESTRUCTIVE_CODE body then Destructive else Mutate)
            in judged s a (max_class c rc) (if c = Destructive then ''inline code contains deletion/format calls''
                 else ''inline interpreter code (contained by the sandbox)'')
        | None \<Rightarrow> runs_script s a rc ''interactive interpreter'')"

text \<open>A name inherited from \<open>Object.prototype\<close> passes for an interpreter without a flag list.\<close>

definition inherited_interpreter :: "segment \<Rightarrow> string list \<Rightarrow> js_error + seg_class" where
  "inherited_interpreter s a =
     (if 1 < length a then Inl type_error else Inr (judged s a Forbidden ''interactive interpreter''))"

definition rule_of :: "env \<Rightarrow> string \<Rightarrow> rule option" where
  "rule_of e name =
     (case RULES (url e) name of
        Some r \<Rightarrow> Some r
      | None \<Rightarrow> if starts_with ''mkfs'' name \<or> starts_with ''mke2fs'' name \<or> starts_with ''mkswap'' name
                then RULES (url e) ''mkfs'' else None)"

text \<open>The class and reason of the rule table, the readers and everything unknown.\<close>

definition table_class :: "inner_class \<Rightarrow> env \<Rightarrow> string \<Rightarrow> string list \<Rightarrow> js_error + cmd_class \<times> string" where
  "table_class inner e name a =
     (let plain = (if name \<in> set PLAIN_READERS \<or> name \<in> set HARMLESS_BUILTINS then (Read, ''read-only utility'')
                   else (Mutate, ''unknown command '' @ name @ '' - never assumed read-only''))
      in case rule_of e name of
           None \<Rightarrow> Inr plain
         | Some r \<Rightarrow>
            (case r inner a of
               Inl er \<Rightarrow> Inl er
             | Inr None \<Rightarrow> Inr plain
             | Inr (Some c) \<Rightarrow> Inr (c, name @ '' rule'')))"

definition really :: "inner_class \<Rightarrow> env \<Rightarrow> string \<Rightarrow> string list \<Rightarrow> js_error + cmd_class option" where
  "really inner e real a =
     (let rn = baseName real
      in case RULES (url e) rn of
           Some r \<Rightarrow> r inner (real # drop 1 a)
         | None \<Rightarrow> Inr (Some (if rn \<in> set PLAIN_READERS then Read else Mutate)))"

text \<open>
  The last test of a read: a clean segment and a trusted binary.  The outcome is a refusal, a
  class with its reason, or the class of the binary the name really stands for.
\<close>

datatype read_test = ReadRefused string | ReadAs cmd_class string | ReallyIs string cmd_class string

definition binary_test :: "inner_class \<Rightarrow> env \<Rightarrow> string \<Rightarrow> string list \<Rightarrow> string \<Rightarrow> js_error + read_test" where
  "binary_test inner e name a m =
     (case resolveBinary e (hd a) of
        None \<Rightarrow> Inr (ReadAs Mutate (''binary '' @ hd a @ '' not found''))
      | Some real \<Rightarrow>
          if real = [] then Inr (ReadAs Mutate (''binary '' @ hd a @ '' not found''))
          else if \<not> list_ex (\<lambda>d. starts_with (d @ ''/'') real) (trusted e)
          then Inr (ReadAs Mutate (''binary resolves outside trusted directories ('' @ real @ '')''))
          else if baseName real \<noteq> name \<and>
             \<not> (RULES (url e) (baseName real) = None \<and> baseName real \<in> set PLAIN_READERS)
          then (case really inner e real a of
                  Inl er \<Rightarrow> Inl er
                | Inr (Some c) \<Rightarrow> Inr (if c \<noteq> Read then ReallyIs real c (hd a @ '' is really '' @ real) else ReadAs Read m)
                | Inr None \<Rightarrow> Inr (ReadAs Read m))
          else Inr (ReadAs Read m))"

definition read_test :: "inner_class \<Rightarrow> env \<Rightarrow> segment \<Rightarrow> string \<Rightarrow> string list \<Rightarrow> string \<Rightarrow> js_error + read_test" where
  "read_test inner e s name a m =
     (if background s then Inr (ReadAs Mutate ''backgrounded with &'')
      else if hasExpansion s then
        Inr (if name \<in> set CONTENT_READERS
             then ReadRefused (name @ '' with an unresolved shell expansion in its arguments - a variable can hide a secret path; write the literal path'')
             else ReadAs Mutate ''unresolved shell expansion'')
      else if globInCommand s then Inr (ReadAs Mutate ''glob in command position'')
      else if name \<in> set EXFIL_NET_TOOLS then
        Inr (case networkProbePublicTarget e a of
               Some p \<Rightarrow> ReadAs Mutate (name @ '' to public host '' @ p @ '' - a read may not egress to the internet'')
             | None \<Rightarrow> ReadAs Read m)
      else if name \<in> set HARMLESS_BUILTINS then Inr (ReadAs Read m)
      else binary_test inner e name a m)"

definition escalate :: "env \<Rightarrow> segment \<Rightarrow> string list \<Rightarrow> cmd_class \<times> string \<Rightarrow> cmd_class \<times> string" where
  "escalate e s a v =
     (case List.find (hits LIFELINE_PATHS) (pathTokens a (redirects s) (home e)) of
        Some p \<Rightarrow> (max_class (fst v) Lifeline, ''touches lifeline path '' @ p)
      | None \<Rightarrow> v)"

definition combine :: "segment \<Rightarrow> string list \<Rightarrow> cmd_class \<times> string \<Rightarrow> cmd_class \<times> string \<Rightarrow> seg_class" where
  "combine s a rd v =
     judged s a (max_class (fst v) (fst rd))
       (if fst rd \<noteq> Read \<and> rank (fst v) \<le> rank (fst rd) then snd rd else snd v)"

definition table_segment :: "inner_class \<Rightarrow> env \<Rightarrow> segment \<Rightarrow> string list \<Rightarrow> cmd_class \<times> string \<Rightarrow> js_error + seg_class" where
  "table_segment inner e s a rd =
     (let name = baseName (hd a) in
      case table_class inner e name a of
        Inl er \<Rightarrow> Inl er
      | Inr (c, m) \<Rightarrow>
          if c = Forbidden then Inr (judged s a Forbidden (forbiddenReason name a))
          else if c \<noteq> Read then Inr (combine s a rd (escalate e s a (c, m)))
          else case List.find (hits SENSITIVE_READ_PATHS) (pathTokens a (redirects s) (home e)) of
              Some p \<Rightarrow> Inr (judged s a Forbidden (''reads secret material at '' @ p))
            | None \<Rightarrow>
                (case read_test inner e s name a m of
                   Inl er \<Rightarrow> Inl er
                 | Inr (ReadRefused m') \<Rightarrow> Inr (judged s a Forbidden m')
                 | Inr (ReallyIs real c' m') \<Rightarrow> Inr (judged s (real # drop 1 a) c' m')
                 | Inr (ReadAs c' m') \<Rightarrow> Inr (combine s a rd (c', m'))))"

text \<open>From the unwrapped command on.\<close>

definition effective_segment ::
  "(string \<Rightarrow> js_error + classification) \<Rightarrow> inner_class \<Rightarrow> env \<Rightarrow> segment \<Rightarrow> string list \<Rightarrow> cmd_class \<times> string
     \<Rightarrow> js_error + seg_class" where
  "effective_segment command inner e s a rd =
     (let name = baseName (hd a) in
      case early_refusal e a (redirects s) of
        Some m \<Rightarrow> Inr (judged s a Forbidden m)
      | None \<Rightarrow>
          if name \<in> set SHELLS then shell_segment command s a (fst rd)
          else case map_of INTERPRETERS name of
              Some flags \<Rightarrow> Inr (interpreter_segment s name flags a (fst rd))
            | None \<Rightarrow> if name \<in> set OBJECT_PROTOTYPE then inherited_interpreter s a
                      else table_segment inner e s a rd)"

definition bare_redirect :: "segment \<Rightarrow> bool" where
  "bare_redirect s \<longleftrightarrow> argv s = [] \<or> argv s = ['':'']"

definition segment_body ::
  "(string \<Rightarrow> js_error + classification) \<Rightarrow> inner_class \<Rightarrow> env \<Rightarrow> segment \<Rightarrow> js_error + seg_class" where
  "segment_body command inner e s =
     (if bare_redirect s then
        Inr (if list_ex (\<lambda>r. rop r = ''>'' \<or> rop r = ''>|'') (redirects s)
             then judged s (argv s) Forbidden ''truncating a file with a bare redirect''
             else judged s (argv s) Read ''no-op'')
      else case redirect_verdict (home e) (Read, []) (redirects s) of
          Inl m \<Rightarrow> Inr (judged s (argv s) Forbidden m)
        | Inr rd \<Rightarrow>
            if list_ex function_shape (argv s)
            then Inr (judged s (argv s) Forbidden ''shell function definition (fork-bomb shape)'')
            else case unwrap_command (argv s) of
                Threw er \<Rightarrow> Inl er
              | RefusedAt a m \<Rightarrow> Inr (judged s a Forbidden m)
              | Unwrapped a \<Rightarrow>
                  if a = [] then Inr (judged s (argv s) Forbidden ''no command after unwrapping'')
                  else effective_segment command inner e s a rd)"

subsection \<open>A command line\<close>

fun all_segments :: "(segment \<Rightarrow> js_error + seg_class) \<Rightarrow> segment list \<Rightarrow> js_error + seg_class list" where
  "all_segments f [] = Inr []"
| "all_segments f (s # ss) =
     (case f s of Inl er \<Rightarrow> Inl er
      | Inr c \<Rightarrow> (case all_segments f ss of Inl er \<Rightarrow> Inl er | Inr cs \<Rightarrow> Inr (c # cs)))"

definition first_word :: "seg_class \<Rightarrow> string \<Rightarrow> string" where
  "first_word c d = nth_or d (effectiveArgv c) 0"

definition summarize :: "seg_class list \<Rightarrow> classification" where
  "summarize cs =
     (let rs = map (\<lambda>c. first_word c ''(redirect)'' @ '': '' @ reason c) (filter (\<lambda>c. seg_verdict c \<noteq> Read) cs)
      in \<lparr>verdict = foldl (\<lambda>a c. max_class a (seg_verdict c)) Read cs,
          segments = cs,
          reasons = (if rs \<noteq> [] then rs else [''read-only'']),
          needsNetwork = list_ex (\<lambda>c. baseName (first_word c []) \<in> set NETWORK_READERS) cs,
          alternative = map_option (\<lambda>c. alternativeFor (first_word c [])) (List.find (\<lambda>c. seg_verdict c = Forbidden) cs),
          parseError = None\<rparr>)"

definition refused_command :: "string \<Rightarrow> string option \<Rightarrow> classification" where
  "refused_command m err = \<lparr>verdict = Forbidden, segments = [], reasons = [m], needsNetwork = False,
     alternative = None, parseError = err\<rparr>"

definition command_body :: "(segment \<Rightarrow> js_error + seg_class) \<Rightarrow> string \<Rightarrow> js_error + classification" where
  "command_body f s =
     (case parse_command s of
        Inl m \<Rightarrow> Inr (refused_command (''could not parse command: '' @ m) (Some m))
      | Inr ss \<Rightarrow>
          if ss = [] then Inr (refused_command ''empty command'' None)
          else map_sum (\<lambda>er. er) summarize (all_segments f ss))"

definition out_of_fuel :: js_error where "out_of_fuel = JsError ''Fuel'' []"

definition plain_segment :: "string list \<Rightarrow> segment" where
  "plain_segment a = empty_segment\<lparr>argv := a\<rparr>"

primrec classifySegment :: "nat \<Rightarrow> env \<Rightarrow> segment \<Rightarrow> js_error + seg_class" where
  "classifySegment 0 e s = Inl out_of_fuel"
| "classifySegment (Suc n) e s =
     segment_body (command_body (classifySegment n e))
       (\<lambda>a. map_sum (\<lambda>er. er) seg_verdict (classifySegment n e (plain_segment a))) e s"

text \<open>Two more than the length of the line is fuel enough (\<open>ClassifyProps\<close>).\<close>

definition classifyCommand :: "env \<Rightarrow> string \<Rightarrow> js_error + classification" where
  "classifyCommand e s = command_body (classifySegment (length s + 2) e) s"

end
