(* ===== verification/ClassifyFuel.thy ===== *)
theory ClassifyFuel
  imports Classify
begin

text \<open>
  The recursion of the classifier ends: what a shell, docker or find runs is smaller than the
  segment that runs it, so the fuel of \<open>classifyCommand\<close> is never exhausted and more fuel changes
  nothing.  The measure of a vector is its length plus its longest word; the words of a line
  are no longer, all together, than the line.
\<close>

subsection \<open>Words of a line\<close>

definition bulk :: "string list \<Rightarrow> nat" where
  "bulk ws = sum_list (map (\<lambda>w. max 1 (length w)) ws)"

lemma bulk_simps [simp]: "bulk [] = 0" "bulk (w # ws) = max 1 (length w) + bulk ws" "bulk (us @ ws) = bulk us + bulk ws"
  by (simp_all add: bulk_def)

lemma ansi_c_escape_short: "length (ansi_c_escape e) \<le> 1"
  by (cases e) (auto simp: ansi_c_escape_def)

lemma ansi_c_ends:
  "ends ansi_c_re (Cur b [] cs) = []"
  "k \<in> set (ends ansi_c_re (Cur b (c # a) cs)) \<Longrightarrow> length (ahead k) \<le> length a"
proof -
  have "k \<in> set (ends (Cat (ch BS) r) (Cur b (c # a) cs)) \<Longrightarrow> length (ahead k) \<le> length a" for r
    by (auto dest: ends_length split: if_splits)
  then show "k \<in> set (ends ansi_c_re (Cur b (c # a) cs)) \<Longrightarrow> length (ahead k) \<le> length a"
    unfolding ansi_c_re_def .
qed (simp add: ansi_c_re_def)

lemma replace_from_shorter:
  assumes "\<And>b cs. ends r (Cur b [] cs) = []"
    and "\<And>b c a cs k. k \<in> set (ends r (Cur b (c # a) cs)) \<Longrightarrow> length (ahead k) \<le> length a"
    and "\<And>m k. length (f m k) \<le> 1"
  shows "length (fst (replace_from r (\<lambda>_ m k. (f m k, ())) () b s)) \<le> length s"
proof (induction "length s" arbitrary: b s rule: less_induct)
  case less
  show ?case
  proof (cases s)
    case Nil
    then show ?thesis using assms(1) by simp
  next
    case (Cons c a)
    show ?thesis
    proof (cases "ends r (Cur b (c # a) [])")
      case Nil
      then show ?thesis using less [of a "c # b"] Cons by (simp add: split_def Let_def)
    next
      case (Cons k ks)
      then have k: "length (ahead k) \<le> length a" using assms(2) [of k b c a "[]"] by simp
      then have "length (fst (replace_from r (\<lambda>_ m k. (f m k, ())) () (before k) (ahead k))) \<le> length (ahead k)"
        using less [of "ahead k" "before k"] \<open>s = c # a\<close> by simp
      then show ?thesis
        using Cons k \<open>s = c # a\<close> assms(3) [of "matched (c # a) k" k] by (simp add: split_def Let_def)
    qed
  qed
qed

lemma decodeAnsiC_shorter: "length (decodeAnsiC s) \<le> length s"
  unfolding decodeAnsiC_def replace_all_def
proof (rule replace_from_shorter)
  show "length (case group 1 k of None \<Rightarrow> [] | Some x \<Rightarrow> ansi_c_escape x) \<le> 1" for k
    using ansi_c_escape_short by (cases "group 1 k") simp_all
qed (simp_all add: ansi_c_ends)

definition pending_text :: "word_state \<Rightarrow> nat" where
  "pending_text u = length (wtext u) + length (rest u)"

lemma word_turn_text: "word_turn u = Go v \<Longrightarrow> pending_text v \<le> pending_text u"
proof (cases "rest u")
  case (Cons c cs)
  assume g: "word_turn u = Go v"
  show ?thesis
  proof (cases "in_dq u")
    case True
    with g Cons show ?thesis
      by (auto simp: word_turn_def dq_turn_def pending_text_def advance_def split: if_splits list.splits)
  next
    case False
    with g Cons have p: "plain_turn u c cs = Go v" by (simp add: word_turn_def)
    have q: "pending_text v \<le> pending_text u"
      if "quoted_turn u er f body = Go v" "length body \<le> length cs" "\<And>x. length (f x) \<le> length x" for er f body
    proof -
      from quoted_turn_Go [OF that(1)] obtain k where
        "k < length body" "rest v = drop (k + 1) body" "wtext v = wtext u @ f (take k body)" by blast
      with that(2) that(3) [of "take k body"] Cons show ?thesis by (simp add: pending_text_def)
    qed
    show ?thesis
    proof (cases "c = SQ \<or> c = CHR ''$'' \<and> next_is [SQ] cs")
      case True
      then consider "quoted_turn u ''unterminated single quote'' (\<lambda>b. b) cs = Go v"
        | "quoted_turn u (''unterminated $'' @ [SQ] @ ''...'' @ [SQ] @ '' quote'') decodeAnsiC (drop 1 cs) = Go v"
        using p by (auto simp: plain_turn_def split: if_splits)
      then show ?thesis by cases (erule q; simp add: decodeAnsiC_shorter)+
    next
      case False
      with p Cons show ?thesis by (auto simp: plain_turn_def pending_text_def advance_def split: if_splits)
    qed
  qed
qed (auto simp: word_turn_def split: if_splits)

lemma lex_word_text: "lex_word u = Inr v \<Longrightarrow> pending_text v \<le> pending_text u"
proof (induction u rule: lex_word.induct)
  case (1 u)
  show ?case
  proof (cases "word_turn u")
    case (Go w)
    then have "lex_word w = Inr v" using 1(2) by (subst (asm) lex_word.simps) simp
    then show ?thesis using 1(1) [OF Go] word_turn_text [OF Go] by simp
  qed (use 1(2) in \<open>subst (asm) lex_word.simps, simp\<close>)+
qed

text \<open>What a token adds to the vector of its segment; the marker of an expansion adds nothing.\<close>

fun token_bulk :: "token \<Rightarrow> nat" where
  "token_bulk (Word v e g) = (if v = [] \<and> e then 0 else max 1 (length v))"
| "token_bulk _ = 0"

definition tokens_bulk :: "token list \<Rightarrow> nat" where
  "tokens_bulk ts = sum_list (map token_bulk ts)"

lemma tokens_bulk_simps [simp]:
  "tokens_bulk [] = 0" "tokens_bulk (t # ts) = token_bulk t + tokens_bulk ts" "tokens_bulk (rev ts) = tokens_bulk ts"
  by (simp_all add: tokens_bulk_def rev_map [symmetric])

lemma flushWord_bulk: "tokens_bulk (flushWord ts u) \<le> tokens_bulk ts + max 1 (length (wtext u))"
  by (auto simp: flushWord_def split: list.splits token.splits)

lemma redirect_no_bulk: "lex_redirect s = Some (t, r) \<Longrightarrow> token_bulk t = 0"
  by (auto simp: lex_redirect_def redirect_at_def Let_def split: list.splits option.splits if_splits)

lemma token_turn_bulk:
  assumes "token_turn toks c cs = Inr (toks', r)"
  shows "tokens_bulk toks' + length r \<le> tokens_bulk toks + Suc (length cs)"
proof -
  note shorter = token_turn_shorter [OF assms]
  consider (space) "c = CHR '' '' \<or> c = TAB \<or> c = NL" | (hash) "c = CHR ''#''" | (amp) "starts_with ''&>'' (c # cs)"
    | (word) "\<not> (c = CHR '' '' \<or> c = TAB \<or> c = NL)" "c \<noteq> CHR ''#''" "\<not> starts_with ''&>'' (c # cs)" by blast
  then show ?thesis
  proof cases
    case amp
    then have "c = CHR ''&''" by simp
    with assms amp have "tokens_bulk toks' = tokens_bulk toks" by (auto simp: token_turn_def Let_def split: if_splits)
    with shorter show ?thesis by simp
  next
    case word
    show ?thesis
    proof (cases "op_at CONTROL_OPS (c # cs)")
      case (Some o')
      with assms word have "tokens_bulk toks' = tokens_bulk toks" by (auto simp: token_turn_def Let_def)
      with shorter show ?thesis by simp
    next
      case None
      show ?thesis
      proof (cases "(c = CHR ''<'' \<or> c = CHR ''>'') \<and> next_is ''('' cs")
        case True
        then have "toks' = Word (take (Suc (paren_length 0 cs)) (c # cs)) True False # toks" "r = drop (paren_length 0 cs) cs"
          using assms word None by (elim conjE disjE; simp add: token_turn_def Let_def)+
        then show ?thesis by (auto simp: max_def)
      next
        case False
        show ?thesis
        proof (cases "lex_redirect (c # cs)")
          case (Some x)
          then obtain k r' where x: "lex_redirect (c # cs) = Some (k, r')" by (cases x) auto
          with assms word None False have "toks' = k # toks" by (auto simp: token_turn_def Let_def)
          with shorter redirect_no_bulk [OF x] show ?thesis by simp
        next
          case noredir: None
          then obtain u where u: "lex_word (word_at (c # cs)) = Inr u" "r = rest u" "toks' = flushWord toks u"
            using assms word None False by (auto simp: token_turn_def Let_def split: sum.splits)
          from lex_word_text [OF u(1)] have "length (wtext u) + length r \<le> Suc (length cs)"
            using u(2) by (simp add: pending_text_def)
          then have "max 1 (length (wtext u)) + length r \<le> Suc (length cs)" using shorter by simp
          with flushWord_bulk [of toks u] u(3) show ?thesis by simp
        qed
      qed
    qed
  qed (use assms shorter in \<open>auto simp: token_turn_def Let_def\<close>)
qed

lemma tokenize_from_bulk: "tokenize_from toks s = Inr ts \<Longrightarrow> tokens_bulk ts \<le> tokens_bulk toks + length s"
proof (induction toks s rule: tokenize_from.induct)
  case (1 toks s)
  show ?case
  proof (cases s)
    case Nil
    with 1(2) show ?thesis by (subst (asm) tokenize_from.simps) simp
  next
    case (Cons c cs)
    with 1(2) obtain toks' r where t: "token_turn toks c cs = Inr (toks', r)" and f: "tokenize_from toks' r = Inr ts"
      by (subst (asm) tokenize_from.simps) (auto split: sum.splits)
    from 1(1) [OF Cons t refl f] token_turn_bulk [OF t] Cons show ?thesis by simp
  qed
qed

lemma tokenize_bulk: "tokenize s = Inr ts \<Longrightarrow> tokens_bulk ts \<le> length s"
proof -
  assume "tokenize s = Inr ts"
  then obtain u where "tokenize_from [] s = Inr u" "ts = rev u"
    by (auto simp: tokenize_def map_sum_def split: sum.splits)
  with tokenize_from_bulk [of "[]" s u] show ?thesis by simp
qed

lemma split_from_bulk:
  "split_from segs c ts = Inr ss \<Longrightarrow> s \<in> set ss \<Longrightarrow>
    s \<in> set segs \<or> bulk (argv s) \<le> bulk (argv c) + tokens_bulk ts"
proof (induction segs c ts arbitrary: s rule: split_from.induct)
  case (1 segs c)
  then show ?case by (auto simp: push_segment_to_def split: if_splits)
next
  case (2 segs c v ts)
  then have "s \<in> set (push_segment_to segs (if v = ''&'' then c\<lparr>background := True\<rparr> else c)) \<or> bulk (argv s) \<le> tokens_bulk ts"
    by (fastforce simp: empty_segment_def)
  then show ?case by (auto simp: push_segment_to_def split: if_splits)
next
  case (3 segs c f o' t ts)
  then show ?case by (auto split: if_splits)
next
  case (4 segs c v e g ts)
  show ?case
  proof (cases "v = [] \<and> e")
    case True
    with 4(3) have "split_from segs (c\<lparr>hasExpansion := True\<rparr>) ts = Inr ss" by (simp add: Let_def)
    with 4(1) [OF refl] True 4(4) show ?thesis by simp
  next
    case False
    with 4(2) [OF refl] 4(3,4) show ?thesis by (auto simp: Let_def add.assoc split: if_splits)
  qed
qed

lemma parse_bulk: "parse_command s = Inr ss \<Longrightarrow> g \<in> set ss \<Longrightarrow> bulk (argv g) \<le> length s"
proof -
  assume "parse_command s = Inr ss" and g: "g \<in> set ss"
  then obtain ts where "tokenize s = Inr ts" "split_from [] empty_segment ts = Inr ss"
    by (auto simp: parse_command_def splitSegments_def split: sum.splits)
  from split_from_bulk [OF this(2) g] tokenize_bulk [OF this(1)] show ?thesis by (simp add: empty_segment_def)
qed

subsection \<open>The size of a vector\<close>

text \<open>The word find puts for \<open>{}\<close> counts as long as \<open>{}\<close>.\<close>

definition mlen :: "string \<Rightarrow> nat" where
  "mlen x = (if x = ''/placeholder'' then 2 else length x)"

primrec widest :: "string list \<Rightarrow> nat" where
  "widest [] = 0"
| "widest (x # xs) = max (mlen x) (widest xs)"

lemma widest_le: "widest a \<le> n \<longleftrightarrow> (\<forall>x \<in> set a. mlen x \<le> n)"
  by (induction a) auto

lemma mlen_widest: "x \<in> set a \<Longrightarrow> mlen x \<le> widest a"
  using widest_le [of a "widest a"] by simp

lemma widest_mono: "set b \<subseteq> set a \<Longrightarrow> widest b \<le> widest a"
  by (simp add: widest_le mlen_widest subset_iff)

lemma mlen_length: "mlen x \<le> length x"
  by (simp add: mlen_def)

lemma widest_placeholder [simp]: "widest (map placeholder xs) = widest xs"
  by (induction xs) (auto simp: placeholder_def mlen_def)

lemma bulk_bounds: "length ws + widest ws \<le> bulk ws + 1"
proof (induction ws)
  case (Cons w ws)
  have "length ws \<le> bulk ws" by (induction ws) (auto simp: max_def)
  with Cons mlen_length [of w] show ?case by (auto simp: max_def)
qed simp

text \<open>\<open>b\<close> is something \<open>a\<close> runs: fewer words, none of them wider than those after the first.\<close>

definition within :: "string list \<Rightarrow> string list \<Rightarrow> bool" where
  "within a b \<longleftrightarrow> length b < length a \<and> widest b \<le> widest (drop 1 a)"

definition is_drop :: "string list \<Rightarrow> string list \<Rightarrow> bool" where
  "is_drop b a \<longleftrightarrow> (\<exists>k. b = drop k a)"

lemma is_drop_self [simp]: "is_drop a a" "is_drop [] a"
  by (auto simp: is_drop_def intro: exI [of _ 0] exI [of _ "length a"])

lemma is_drop_trans: "is_drop c b \<Longrightarrow> is_drop b a \<Longrightarrow> is_drop c a"
  by (auto simp: is_drop_def)

lemma is_drop_drop [simp]: "is_drop (drop k a) a"
  by (auto simp: is_drop_def)

lemma is_drop_tl: "is_drop b xs \<Longrightarrow> is_drop b (x # xs)"
  using is_drop_trans [of b xs "x # xs"] is_drop_drop [of 1 "x # xs"] by simp

lemma is_drop_more: "is_drop b (drop k a) \<Longrightarrow> is_drop b a"
  by (erule is_drop_trans) simp

lemma is_drop_facts: "is_drop b a \<Longrightarrow> set b \<subseteq> set a" "is_drop b a \<Longrightarrow> length b \<le> length a"
  by (auto simp: is_drop_def dest: in_set_dropD)

lemma is_drop_dropWhile [simp]: "is_drop (dropWhile p a) a"
  by (metis is_drop_def dropWhile_eq_drop)

lemma options_drop: "is_drop (past_options vs a) a" "is_drop (past_dashes vs a) a"
    "past_safe bad vs a = Some r \<Longrightarrow> is_drop r a"
proof -
  show "is_drop (past_options vs a) a"
    by (induction vs a rule: past_options.induct) (auto intro: is_drop_tl is_drop_more)
  show "is_drop (past_dashes vs a) a"
    by (induction vs a rule: past_dashes.induct) (auto intro: is_drop_tl is_drop_more)
  show "past_safe bad vs a = Some r \<Longrightarrow> is_drop r a"
    by (induction bad vs a rule: past_safe.induct) (auto intro: is_drop_tl is_drop_more split: if_splits)
qed

lemma env_rest_drop: "env_rest a = Inr r \<Longrightarrow> is_drop r a"
proof (induction a rule: env_rest.induct)
  case (2 x xs)
  have "is_drop r xs" if "is_drop r (tl xs)" using that is_drop_more [of r 1 xs] by (simp add: drop_Suc)
  with 2 show ?case by (auto simp: Let_def split: if_splits prod.splits intro: is_drop_tl)
qed simp

lemma ssh_rest_drop: "ssh_rest a = Inr r \<Longrightarrow> is_drop r a"
  by (induction a rule: ssh_rest.induct) (auto split: if_splits intro: is_drop_tl is_drop_more)

lemma firstVerb_drop: "is_drop (snd (firstVerb vs a)) a"
  by (induction vs a rule: firstVerb.induct) (auto intro: is_drop_tl is_drop_more)

subsection \<open>What docker and find run\<close>

lemma within_drop: "is_drop b (drop 1 a) \<Longrightarrow> a \<noteq> [] \<Longrightarrow> within a b"
  using is_drop_facts [of b "drop 1 a"] widest_mono [of b "drop 1 a"]
  by (cases a) (auto simp: within_def less_Suc_eq_le)

lemma within_exec_body: "is_drop b (drop 1 a) \<Longrightarrow> a \<noteq> [] \<Longrightarrow> within a (exec_body b)"
proof -
  assume "is_drop b (drop 1 a)" "a \<noteq> []"
  then have w: "within a b" by (rule within_drop)
  have "length (exec_body b) \<le> length b" by (simp add: exec_body_def length_takeWhile_le)
  moreover have "widest (exec_body b) \<le> widest b"
    unfolding exec_body_def widest_placeholder by (rule widest_mono) (auto dest: set_takeWhileD)
  ultimately show ?thesis using w by (simp add: within_def)
qed

lemma docker_exec_asks:
  assumes "is_drop r (drop 1 a)" and "a \<noteq> []"
  shows "(\<forall>b. within a b \<longrightarrow> f b = g b) \<Longrightarrow> docker_exec f r = docker_exec g r"
    and "docker_exec f r = Inl er \<Longrightarrow> \<exists>b. within a b \<and> f b = Inl er"
proof -
  let ?c = "drop 1 (past_options [''-u'', ''--user'', ''-w'', ''--workdir'', ''-e'', ''--env'', ''--env-file''] r)"
  have "is_drop ?c (drop 1 a)"
    using is_drop_drop options_drop(1) assms(1) is_drop_trans by blast
  then have w: "within a ?c" using within_drop assms(2) by blast
  show "(\<forall>b. within a b \<longrightarrow> f b = g b) \<Longrightarrow> docker_exec f r = docker_exec g r"
    using w by (simp add: docker_exec_def Let_def)
  show "docker_exec f r = Inl er \<Longrightarrow> \<exists>b. within a b \<and> f b = Inl er"
    using w by (auto simp: docker_exec_def Let_def split: if_splits sum.splits)
qed

lemma docker_rule_asks:
  assumes "a \<noteq> []"
  shows "(\<forall>b. within a b \<longrightarrow> f b = g b) \<Longrightarrow> docker_rule f a = docker_rule g a"
    and "docker_rule f a = Inl er \<Longrightarrow> \<exists>b. within a b \<and> f b = Inl er"
proof -
  define v where "v = firstVerb [''-H'', ''--host'', ''-l'', ''--log-level'', ''-c'', ''--context'', ''--config'', ''--tlscacert'', ''--tlscert'', ''--tlskey''] (drop 1 a)"
  have d: "is_drop (snd v) (drop 1 a)" unfolding v_def by (rule firstVerb_drop)
  show "(\<forall>b. within a b \<longrightarrow> f b = g b) \<Longrightarrow> docker_rule f a = docker_rule g a"
    using docker_exec_asks(1) [OF d assms, of f g] unfolding docker_rule_def v_def [symmetric] by (simp add: split_def Let_def)
  show "docker_rule f a = Inl er \<Longrightarrow> \<exists>b. within a b \<and> f b = Inl er"
    using docker_exec_asks(2) [OF d assms, of f er] unfolding docker_rule_def v_def [symmetric]
    by (simp add: split_def Let_def split: if_splits)
qed

lemma find_rule_asks:
  assumes "a \<noteq> []"
  shows "(\<forall>b. within a b \<longrightarrow> f b = g b) \<Longrightarrow> find_rule f a = find_rule g a"
    and "find_rule f a = Inl er \<Longrightarrow> \<exists>b. within a b \<and> f b = Inl er"
proof -
  have w: "within a (exec_body (drop 1 (dropWhile p (drop 1 a))))" for p
    by (rule within_exec_body [OF _ assms], rule is_drop_trans [OF is_drop_drop is_drop_dropWhile])
  show "(\<forall>b. within a b \<longrightarrow> f b = g b) \<Longrightarrow> find_rule f a = find_rule g a"
    using w by (auto simp: find_rule_def Let_def split: option.splits)
  show "find_rule f a = Inl er \<Longrightarrow> \<exists>b. within a b \<and> f b = Inl er"
    using w by (auto simp: find_rule_def Let_def map_sum_def split: if_splits option.splits sum.splits)
qed

lemma rule_asks:
  assumes "RULES u n = Some r" and "a \<noteq> []"
  shows "(\<forall>b. within a b \<longrightarrow> f b = g b) \<Longrightarrow> r f a = r g a"
    and "r f a = Inl er \<Longrightarrow> er = type_error \<or> (\<exists>b. within a b \<and> f b = Inl er)"
proof -
  show "(\<forall>b. within a b \<longrightarrow> f b = g b) \<Longrightarrow> r f a = r g a"
    using assms docker_rule_asks(1) [of a f g] find_rule_asks(1) [of a f g]
    by (auto simp: RULES_def split: if_splits option.splits)
  show "r f a = Inl er \<Longrightarrow> er = type_error \<or> (\<exists>b. within a b \<and> f b = Inl er)"
    using assms docker_rule_asks(2) [of a f er] find_rule_asks(2) [of a f er]
    by (auto simp: RULES_def map_sum_def split: if_splits option.splits sum.splits)
qed

subsection \<open>What a wrapper runs\<close>

text \<open>An inner vector is a rest of the outer one, a shell with a word of it, or \<open>echo\<close>.\<close>

definition inner_shape :: "string list \<Rightarrow> string list \<Rightarrow> bool" where
  "inner_shape a r \<longleftrightarrow> is_drop r a \<or>
     (\<exists>s c. r = [''sh'', ''-c'', s] \<and> s \<in> set a \<and> c \<in> set a \<and> 2 \<le> mlen c \<and> 3 \<le> length a) \<or>
     r = [''echo''] \<and> 4 \<le> widest a \<and> a \<noteq> []"

lemma inner_or_drop: "inner_or d b = Inner r \<Longrightarrow> (\<forall>x. d \<noteq> Inner x) \<Longrightarrow> is_drop b a \<Longrightarrow> is_drop r a"
  by (auto simp: inner_or_def split: if_splits)

lemma after_word_Some:
  assumes "after_word w a = Some y"
  shows "y \<in> set a" and "w \<in> set a" and "2 \<le> length a" and "hd a \<noteq> w \<Longrightarrow> 3 \<le> length a"
proof -
  from assms obtain ys where d: "dropWhile (\<lambda>x. x \<noteq> w) a = w # y # ys"
    by (auto simp: after_word_def split: list.splits dest: dropWhile_eq_Cons_conv [THEN iffD1])
  then obtain us where a: "a = us @ w # y # ys"
    by (metis takeWhile_dropWhile_id)
  then show "y \<in> set a" "w \<in> set a" "2 \<le> length a" by simp_all
  show "hd a \<noteq> w \<Longrightarrow> 3 \<le> length a" using a by (cases us) simp_all
qed

lemma runuser_inner:
  "runuser_options cs vs a = Inner r \<Longrightarrow> \<forall>c \<in> set cs. 2 \<le> mlen c \<Longrightarrow>
    is_drop r a \<or> (\<exists>s c. r = [''sh'', ''-c'', s] \<and> s \<in> set a \<and> c \<in> set a \<and> 2 \<le> mlen c \<and> 2 \<le> length a)"
proof (induction cs vs a rule: runuser_options.induct)
  case (2 cs vs x xs)
  have d: "is_drop r xs \<Longrightarrow> is_drop r (x # xs)" "is_drop r (drop 1 xs) \<Longrightarrow> is_drop r (x # xs)"
    by (auto intro: is_drop_tl is_drop_more)
  show ?case
  proof (cases "starts_with ''-'' x \<and> x \<in> set cs")
    case True
    with 2(3,4) show ?thesis
      by (cases xs) (auto split: if_splits)
  next
    case False
    show ?thesis
    proof (cases "starts_with ''-'' x")
      case True
      show ?thesis
      proof (cases "x \<in> set vs")
        case v: True
        have "set (drop 1 xs) \<subseteq> set (x # xs)" "length (drop 1 xs) \<le> length (x # xs)" by (auto dest: in_set_dropD)
        with 2(1) [OF _ _ v] 2(3,4) True False v d show ?thesis by (auto split: if_splits) (meson in_set_dropD)+
      next
        case v: False
        with 2(2) [OF _ _ v] 2(3,4) True False d show ?thesis by (auto split: if_splits)
      qed
    qed (use 2(3) in simp)
  qed
qed simp

lemma length_baseName: "length (baseName x) \<le> length x"
proof -
  have "length (after_last_slash x) \<le> length x"
    by (simp add: after_last_slash_def length_takeWhile_le [THEN order_trans])
  then show ?thesis by (auto simp: baseName_def Let_def)
qed

lemma inner_or_shape:
  "is_drop b a \<Longrightarrow> inner_or NoCommand b = Inner r \<Longrightarrow> inner_shape a r"
  "is_drop b a \<Longrightarrow> inner_or (Refused m) b = Inner r \<Longrightarrow> inner_shape a r"
  by (auto simp: inner_or_def inner_shape_def split: if_splits)

lemma wrapper_drops:
  "is_drop (drop 1 a) a" "is_drop (past_options vs (drop 1 a)) a" "is_drop (past_dashes vs (drop 1 a)) a"
  "is_drop (drop 1 (past_options vs (drop 1 a))) a"
  "past_safe bad vs (drop 1 a) = Some b \<Longrightarrow> is_drop b a"
  "env_rest (drop 1 a) = Inr b \<Longrightarrow> is_drop b a"
  "ssh_rest (drop 1 a) = Inr b \<Longrightarrow> is_drop (drop 1 b) a"
proof -
  note e = is_drop_trans [OF _ is_drop_drop, of _ 1 a]
  show "is_drop (drop 1 a) a" by (rule is_drop_drop)
  show o': "is_drop (past_options vs (drop 1 a)) a" by (rule e, rule options_drop)
  show "is_drop (past_dashes vs (drop 1 a)) a" by (rule e, rule options_drop)
  show "is_drop (drop 1 (past_options vs (drop 1 a))) a" by (rule is_drop_trans [OF is_drop_drop o'])
  show "past_safe bad vs (drop 1 a) = Some b \<Longrightarrow> is_drop b a" by (rule e, rule options_drop(3))
  show "env_rest (drop 1 a) = Inr b \<Longrightarrow> is_drop b a" by (rule e, rule env_rest_drop)
  show "ssh_rest (drop 1 a) = Inr b \<Longrightarrow> is_drop (drop 1 b) a"
    by (rule is_drop_trans [OF is_drop_drop], rule e, rule ssh_rest_drop)
qed

lemmas wrapper_shapes = inner_or_shape [OF wrapper_drops(1)] inner_or_shape [OF wrapper_drops(2)]
  inner_or_shape [OF wrapper_drops(3)] inner_or_shape [OF wrapper_drops(4)]

lemma shell_shape:
  assumes "after_word ''-c'' (x # xs) = Some s" and "x \<noteq> ''-c''"
  shows "inner_shape (x # xs) [''sh'', ''-c'', s]"
  using after_word_Some [OF assms(1)] assms(2)
  by (auto simp: inner_shape_def mlen_def intro!: exI [of _ "''-c''"])

lemma plain_wrappers:
  "nsenter_wrapper a = Inner r \<Longrightarrow> inner_shape a r"
  "setpriv_wrapper a = Inner r \<Longrightarrow> inner_shape a r"
  "unshare_wrapper a = Inner r \<Longrightarrow> inner_shape a r"
  "skipOptions vs a = Inner r \<Longrightarrow> inner_shape a r"
  "after_first NoCommand a = Inner r \<Longrightarrow> inner_shape a r"
  "after_first (Refused m) a = Inner r \<Longrightarrow> inner_shape a r"
  "after_operand vs NoCommand a = Inner r \<Longrightarrow> inner_shape a r"
  "after_operand vs (Refused m) a = Inner r \<Longrightarrow> inner_shape a r"
  unfolding nsenter_wrapper_def setpriv_wrapper_def unshare_wrapper_def skipOptions_def after_first_def after_operand_def
  by (erule wrapper_shapes)+

lemma env_shape: "env_wrapper a = Inner r \<Longrightarrow> inner_shape a r"
  by (cases "env_rest (drop 1 a)") (auto simp: env_wrapper_def simp del: One_nat_def intro: inner_or_shape wrapper_drops(6))

lemma ssh_shape: "ssh_wrapper a = Inner r \<Longrightarrow> inner_shape a r"
  by (cases "ssh_rest (drop 1 a)") (auto simp: ssh_wrapper_def simp del: One_nat_def intro: inner_or_shape wrapper_drops(7))

lemma safe_shape:
  "sudo_wrapper a = Inner r \<Longrightarrow> inner_shape a r" "doas_wrapper a = Inner r \<Longrightarrow> inner_shape a r"
  unfolding sudo_wrapper_def doas_wrapper_def
  by (simp_all split: option.splits) (erule inner_or_shape(2) [OF wrapper_drops(5), rotated], simp)+

lemmas named_wrappers = plain_wrappers env_shape ssh_shape safe_shape

lemma runuser_shape: "runuser_wrapper (x # xs) = Inner r \<Longrightarrow> inner_shape (x # xs) r"
proof -
  have c: "\<forall>c \<in> set [''-c'', ''--command'']. 2 \<le> mlen c" by code_simp
  assume "runuser_wrapper (x # xs) = Inner r"
  then have "is_drop r xs \<or> (\<exists>s c. r = [''sh'', ''-c'', s] \<and> s \<in> set xs \<and> c \<in> set xs \<and> 2 \<le> mlen c \<and> 2 \<le> length xs)"
    unfolding runuser_wrapper_def using runuser_inner [OF _ c] by simp
  then show ?thesis
  proof (elim disjE exE conjE)
    assume "is_drop r xs"
    then show ?thesis using is_drop_tl [of r xs x] by (simp add: inner_shape_def)
  next
    fix s c
    assume "r = [''sh'', ''-c'', s]" "s \<in> set xs" "c \<in> set xs" "2 \<le> mlen c" "2 \<le> length xs"
    then have "s \<in> set (x # xs) \<and> c \<in> set (x # xs) \<and> 2 \<le> mlen c \<and> 3 \<le> length (x # xs)" by simp
    with \<open>r = _\<close> show ?thesis unfolding inner_shape_def by blast
  qed
qed

lemma inner_shapes:
  assumes "map_of WRAPPERS (baseName x) = Some w" and "w (x # xs) = Inner r"
  shows "inner_shape (x # xs) r"
proof (cases "baseName x = ''xargs''")
  case True
  have "x \<noteq> ''/placeholder''" using True by (auto simp: baseName_def after_last_slash_def Let_def)
  then have "4 \<le> widest (x # xs)" using True length_baseName [of x] by (simp add: mlen_def)
  moreover have "r = [''echo''] \<or> is_drop r (x # xs)"
    using assms True options_drop(1) [of _ xs]
    by (auto simp: WRAPPERS_def xargs_wrapper_def inner_or_def split: if_splits intro: is_drop_tl)
  ultimately show ?thesis by (auto simp: inner_shape_def)
next
  case False
  have "(baseName x, w) \<in> set WRAPPERS" using assms(1) by (rule map_of_SomeD)
  moreover have "x \<noteq> ''-c''" if "baseName x \<noteq> ''-c''"
    using that by (auto simp: baseName_def after_last_slash_def Let_def)
  ultimately show ?thesis using False assms(2)
    unfolding WRAPPERS_def
    by (auto simp: su_wrapper_def script_wrapper_def split: option.splits
        intro: named_wrappers runuser_shape shell_shape)
qed

lemma inner_shape_size: "inner_shape a r \<Longrightarrow> length r \<le> length a \<and> widest r \<le> widest a"
proof -
  assume "inner_shape a r"
  then consider "is_drop r a" | s c where "r = [''sh'', ''-c'', s]" "s \<in> set a" "c \<in> set a" "2 \<le> mlen c" "3 \<le> length a"
    | "r = [''echo'']" "4 \<le> widest a" "a \<noteq> []"
    by (auto simp: inner_shape_def)
  then show ?thesis
  proof cases
    case 1
    then show ?thesis using is_drop_facts widest_mono by blast
  next
    case 2
    then show ?thesis using mlen_widest [of s a] mlen_widest [of c a] by (simp add: mlen_def)
  next
    case 3
    then show ?thesis by (cases a) (simp_all add: mlen_def)
  qed
qed

lemma unwrap_size: "unwrap n a = Unwrapped b \<Longrightarrow> length b \<le> length a \<and> widest b \<le> widest a"
proof (induction n a rule: unwrap.induct)
  case (3 n x xs)
  show ?case
  proof (cases "map_of WRAPPERS (baseName x)")
    case (Some w)
    with 3(2) obtain r where r: "w (x # xs) = Inner r" "unwrap n r = Unwrapped b"
      by (auto split: unwrapped.splits)
    from 3(1) [OF Some r(1) r(2)] inner_shape_size [OF inner_shapes [OF Some r(1)]] show ?thesis by linarith
  qed (use 3(2) in \<open>auto split: if_splits\<close>)
qed auto

subsection \<open>One segment\<close>

lemma within_real: "a \<noteq> [] \<Longrightarrow> within (x # drop 1 a) b \<longleftrightarrow> within a b"
  by (cases a) (simp_all add: within_def)

lemma really_asks:
  assumes "a \<noteq> []"
  shows "(\<forall>b. within a b \<longrightarrow> f b = g b) \<Longrightarrow> really f e x a = really g e x a"
    and "really f e x a = Inl er \<Longrightarrow> er = type_error \<or> (\<exists>b. within a b \<and> f b = Inl er)"
  using rule_asks [of "url e" "baseName x" _ "x # drop 1 a"] within_real [OF assms]
  by (auto simp: really_def Let_def split: option.splits)

lemma table_class_asks:
  assumes "a \<noteq> []"
  shows "(\<forall>b. within a b \<longrightarrow> f b = g b) \<Longrightarrow> table_class f e n a = table_class g e n a"
    and "table_class f e n a = Inl er \<Longrightarrow> er = type_error \<or> (\<exists>b. within a b \<and> f b = Inl er)"
proof -
  have r: "\<exists>k. RULES (url e) k = Some r" if "rule_of e n = Some r" for r
    using that by (auto simp: rule_of_def split: option.splits if_splits)
  show "table_class f e n a = table_class g e n a" if fg: "\<forall>b. within a b \<longrightarrow> f b = g b"
  proof (cases "rule_of e n")
    case (Some x)
    with r obtain k where "RULES (url e) k = Some x" by blast
    from rule_asks(1) [OF this assms fg] Some show ?thesis by (simp add: table_class_def)
  qed (simp add: table_class_def)
  show "table_class f e n a = Inl er \<Longrightarrow> er = type_error \<or> (\<exists>b. within a b \<and> f b = Inl er)"
    using r rule_asks(2) [OF _ assms, of "url e" _ _ f er]
    by (auto simp: table_class_def Let_def split: option.splits sum.splits)
qed

lemma binary_test_asks:
  assumes "a \<noteq> []"
  shows "(\<forall>b. within a b \<longrightarrow> f b = g b) \<Longrightarrow> binary_test f e n a m = binary_test g e n a m"
    and "binary_test f e n a m = Inl er \<Longrightarrow> er = type_error \<or> (\<exists>b. within a b \<and> f b = Inl er)"
proof -
  show "binary_test f e n a m = binary_test g e n a m" if "\<forall>b. within a b \<longrightarrow> f b = g b"
    unfolding binary_test_def really_asks(1) [OF assms that] ..
  assume "binary_test f e n a m = Inl er"
  then obtain x where "really f e x a = Inl er"
    by (auto simp: binary_test_def split: option.splits sum.splits if_splits)
  then show "er = type_error \<or> (\<exists>b. within a b \<and> f b = Inl er)" by (rule really_asks(2) [OF assms])
qed

lemma read_test_asks:
  assumes "a \<noteq> []"
  shows "(\<forall>b. within a b \<longrightarrow> f b = g b) \<Longrightarrow> read_test f e s n a m = read_test g e s n a m"
    and "read_test f e s n a m = Inl er \<Longrightarrow> er = type_error \<or> (\<exists>b. within a b \<and> f b = Inl er)"
  using binary_test_asks [OF assms] by (auto simp: read_test_def split: option.splits if_splits)

lemma effective_asks:
  assumes "a \<noteq> []"
  shows "(\<forall>b. within a b \<longrightarrow> f b = g b) \<Longrightarrow> (\<forall>x \<in> set a. 2 \<le> length a \<longrightarrow> C x = D x) \<Longrightarrow>
      effective_segment C f e s a rd = effective_segment D g e s a rd"
    and "effective_segment C f e s a rd = Inl er \<Longrightarrow>
      er = type_error \<or> (\<exists>b. within a b \<and> f b = Inl er) \<or> (\<exists>x \<in> set a. 2 \<le> length a \<and> C x = Inl er)"
proof -
  let ?n = "baseName (hd a)"
  show "effective_segment C f e s a rd = effective_segment D g e s a rd"
    if fg: "\<forall>b. within a b \<longrightarrow> f b = g b" and CD: "\<forall>x \<in> set a. 2 \<le> length a \<longrightarrow> C x = D x"
  proof -
    have sh: "shell_segment C s a rc = shell_segment D s a rc" for rc
      using CD by (auto simp: shell_segment_def split: option.split dest: after_word_Some)
    have tb: "table_segment f e s a rd = table_segment g e s a rd"
      unfolding table_segment_def table_class_asks(1) [OF assms fg] read_test_asks(1) [OF assms fg] ..
    show ?thesis unfolding effective_segment_def sh tb ..
  qed
  show "er = type_error \<or> (\<exists>b. within a b \<and> f b = Inl er) \<or> (\<exists>x \<in> set a. 2 \<le> length a \<and> C x = Inl er)"
    if er: "effective_segment C f e s a rd = Inl er"
  proof -
    from er consider "shell_segment C s a (fst rd) = Inl er" | "inherited_interpreter s a = Inl er"
      | "table_segment f e s a rd = Inl er"
      by (auto simp: effective_segment_def Let_def split: option.splits if_splits)
    then show ?thesis
    proof cases
      case 1
      then show ?thesis by (auto simp: shell_segment_def split: option.splits sum.splits dest: after_word_Some)
    next
      case 2
      then show ?thesis by (auto simp: inherited_interpreter_def split: if_splits)
    next
      case 3
      then consider "table_class f e ?n a = Inl er" | m where "read_test f e s ?n a m = Inl er"
        by (auto simp: table_segment_def Let_def split: sum.splits prod.splits if_splits option.splits read_test.splits)
      then show ?thesis using table_class_asks(2) [OF assms] read_test_asks(2) [OF assms] by cases blast+
    qed
  qed
qed

lemma unwrap_throws: "unwrap n a = Threw er \<Longrightarrow> er = type_error"
  by (induction n a rule: unwrap.induct) (auto split: option.splits unwrapped.splits if_splits)

lemma within_size: "within b c \<Longrightarrow> length b \<le> length a \<Longrightarrow> widest b \<le> widest a \<Longrightarrow> length c < length a \<and> widest c \<le> widest a"
  using widest_mono [OF set_drop_subset, of 1 b] by (auto simp: within_def)

text \<open>What a segment may ask: a smaller vector, or a line no longer than one of its words.\<close>

lemma segment_body_asks:
  shows "(\<forall>b. length b < length (argv s) \<and> widest b \<le> widest (argv s) \<longrightarrow> f b = g b) \<Longrightarrow>
      (\<forall>x. mlen x \<le> widest (argv s) \<and> 2 \<le> length (argv s) \<longrightarrow> C x = D x) \<Longrightarrow>
      segment_body C f e s = segment_body D g e s"
    and "segment_body C f e s = Inl er \<Longrightarrow>
      er = type_error \<or> (\<exists>b. length b < length (argv s) \<and> widest b \<le> widest (argv s) \<and> f b = Inl er) \<or>
      (\<exists>x. mlen x \<le> widest (argv s) \<and> 2 \<le> length (argv s) \<and> C x = Inl er)"
proof -
  have w: "(within a b \<longrightarrow> length b < length (argv s) \<and> widest b \<le> widest (argv s)) \<and>
      (x \<in> set a \<and> 2 \<le> length a \<longrightarrow> mlen x \<le> widest (argv s) \<and> 2 \<le> length (argv s))"
    if "unwrap_command (argv s) = Unwrapped a" for a b x
  proof -
    have sz: "length a \<le> length (argv s) \<and> widest a \<le> widest (argv s)"
      using unwrap_size that by (simp add: unwrap_command_def)
    then show ?thesis using within_size [of a b "argv s"] mlen_widest [of x a] by auto
  qed
  show "segment_body C f e s = segment_body D g e s"
    if "\<forall>b. length b < length (argv s) \<and> widest b \<le> widest (argv s) \<longrightarrow> f b = g b"
      "\<forall>x. mlen x \<le> widest (argv s) \<and> 2 \<le> length (argv s) \<longrightarrow> C x = D x"
  proof -
    have "a = [] \<or> effective_segment C f e s a rd = effective_segment D g e s a rd"
      if "unwrap_command (argv s) = Unwrapped a" for a rd
      using effective_asks(1) [of a f g C D e s rd] w [OF that]
        \<open>\<forall>b. _ b \<longrightarrow> f b = g b\<close> \<open>\<forall>x. _ x \<longrightarrow> C x = D x\<close> by blast
    then show ?thesis by (auto simp: segment_body_def split: sum.split unwrap_result.split)
  qed
  show "er = type_error \<or> (\<exists>b. length b < length (argv s) \<and> widest b \<le> widest (argv s) \<and> f b = Inl er) \<or>
      (\<exists>x. mlen x \<le> widest (argv s) \<and> 2 \<le> length (argv s) \<and> C x = Inl er)"
    if "segment_body C f e s = Inl er"
  proof -
    from that consider "unwrap_command (argv s) = Threw er"
      | a rd where "unwrap_command (argv s) = Unwrapped a" "a \<noteq> []" "effective_segment C f e s a rd = Inl er"
      by (auto simp: segment_body_def split: if_splits sum.splits unwrap_result.splits)
    then show ?thesis
    proof cases
      case 1
      then show ?thesis using unwrap_throws by (simp add: unwrap_command_def)
    next
      case (2 a rd)
      from effective_asks(2) [OF 2(2,3)] w [OF 2(1)] show ?thesis by blast
    qed
  qed
qed

subsection \<open>Fuel\<close>

definition seg_size :: "segment \<Rightarrow> nat" where
  "seg_size s = length (argv s) + widest (argv s)"

lemma parse_size: "parse_command x = Inr ss \<Longrightarrow> s \<in> set ss \<Longrightarrow> seg_size s \<le> mlen x + 1"
proof (cases "x = ''/placeholder''")
  case True
  have "parse_command ''/placeholder'' = Inr [plain_segment [''/placeholder'']]" by code_simp
  moreover assume "parse_command x = Inr ss" "s \<in> set ss"
  ultimately show ?thesis using True by (auto simp: seg_size_def plain_segment_def mlen_def)
next
  case False
  assume "parse_command x = Inr ss" "s \<in> set ss"
  from parse_bulk [OF this] bulk_bounds [of "argv s"] False show ?thesis by (simp add: seg_size_def mlen_def)
qed

lemma all_segments_cong:
  "(\<forall>s \<in> set ss. f s = g s) \<Longrightarrow> all_segments f ss = all_segments g ss"
  by (induction ss) (auto split: sum.split)

lemma command_body_cong:
  "(\<And>ss s. parse_command x = Inr ss \<Longrightarrow> s \<in> set ss \<Longrightarrow> f s = g s) \<Longrightarrow> command_body f x = command_body g x"
  using all_segments_cong [of _ f g] by (auto simp: command_body_def split: sum.split)

lemma all_segments_Inl: "all_segments f ss = Inl er \<Longrightarrow> \<exists>s \<in> set ss. f s = Inl er"
  by (induction ss) (auto split: sum.splits)

lemma command_body_Inl:
  "command_body f x = Inl er \<Longrightarrow> \<exists>ss s. parse_command x = Inr ss \<and> s \<in> set ss \<and> f s = Inl er"
  by (auto simp: command_body_def map_sum_def split: sum.splits if_splits dest: all_segments_Inl)

lemma more_fuel:
  "seg_size s < n \<Longrightarrow> seg_size s < m \<Longrightarrow> classifySegment n e s = classifySegment m e s"
proof (induction n arbitrary: m s)
  case (Suc n)
  then obtain k where m: "m = Suc k" by (cases m) auto
  have seg: "classifySegment n e (plain_segment b) = classifySegment k e (plain_segment b)"
    if "length b < length (argv s) \<and> widest b \<le> widest (argv s)" for b
    using that Suc(2,3) m by (intro Suc(1)) (auto simp: seg_size_def plain_segment_def)
  have com: "command_body (classifySegment n e) x = command_body (classifySegment k e) x"
    if "mlen x \<le> widest (argv s) \<and> 2 \<le> length (argv s)" for x
  proof (rule command_body_cong)
    fix ss t
    assume "parse_command x = Inr ss" "t \<in> set ss"
    from parse_size [OF this] show "classifySegment n e t = classifySegment k e t"
      using that Suc(2,3) m by (intro Suc(1)) (auto simp: seg_size_def)
  qed
  show ?case unfolding m classifySegment.simps
    by (rule segment_body_asks(1)) (simp_all add: seg com)
qed simp

lemma fuel_left: "seg_size s < n \<Longrightarrow> classifySegment n e s = Inl er \<Longrightarrow> er = type_error"
proof (induction n arbitrary: s)
  case (Suc n)
  from segment_body_asks(2) [OF Suc(3) [unfolded classifySegment.simps]] show ?case
  proof (elim disjE exE conjE)
    fix b
    assume b: "length b < length (argv s)" "widest b \<le> widest (argv s)"
      and "map_sum (\<lambda>er. er) seg_verdict (classifySegment n e (plain_segment b)) = Inl er"
    then have "classifySegment n e (plain_segment b) = Inl er" by (simp add: map_sum_def split: sum.splits)
    with b Suc(2) show ?thesis by (intro Suc(1) [of "plain_segment b"]) (auto simp: seg_size_def plain_segment_def)
  next
    fix x
    assume x: "mlen x \<le> widest (argv s)" "2 \<le> length (argv s)" "command_body (classifySegment n e) x = Inl er"
    then obtain ss t where t: "parse_command x = Inr ss" "t \<in> set ss" "classifySegment n e t = Inl er"
      using command_body_Inl by blast
    with parse_size [OF t(1,2)] x Suc(2) show ?thesis by (intro Suc(1) [of t]) (auto simp: seg_size_def)
  qed
qed simp

lemma classify_with_fuel:
  assumes "length x + 2 \<le> n"
  shows "command_body (classifySegment n e) x = classifyCommand e x"
  unfolding classifyCommand_def
proof (rule command_body_cong)
  fix ss s
  assume "parse_command x = Inr ss" "s \<in> set ss"
  from parse_size [OF this] mlen_length [of x] assms show "classifySegment n e s = classifySegment (length x + 2) e s"
    by (intro more_fuel) auto
qed

end
