(* ===== verification/ClassifyProps.thy ===== *)
theory ClassifyProps
  imports ClassifyFuel
begin

text \<open>
  What the classifier promises: the worst segment decides, secret paths and banned commands are
  refused behind any wrapper, a shell's inline body counts, a read is clean and trusted - and
  the lines where the code falls short of that.  The witnesses run on the host \<open>homeserver\<close>.
\<close>

definition homeserver :: env where
  "homeserver = \<lparr>resolveBinary = (\<lambda>n. Some (''/usr/bin/'' @ baseName n)), trusted = DEFAULT_TRUSTED_BIN_DIRS,
     home = ''/root'', url = (\<lambda>_. None)\<rparr>"

subsection \<open>From segments to the line\<close>

lemma all_segments_Inr:
  "all_segments f ss = Inr cs \<Longrightarrow> length cs = length ss \<and> (\<forall>s \<in> set ss. \<exists>c \<in> set cs. f s = Inr c) \<and> (\<forall>c \<in> set cs. \<exists>s \<in> set ss. f s = Inr c)"
  by (induction ss arbitrary: cs) (auto split: sum.splits)

lemma command_segments:
  assumes "classifyCommand e s = Inr c" and "parse_command s = Inr ss" and "ss \<noteq> []"
  shows "\<exists>cs. all_segments (classifySegment (length s + 2) e) ss = Inr cs \<and> c = summarize cs \<and> cs \<noteq> []"
proof -
  obtain cs where cs: "all_segments (classifySegment (length s + 2) e) ss = Inr cs" "c = summarize cs"
    using assms by (auto simp: classifyCommand_def command_body_def map_sum_def split: sum.splits)
  then have "cs \<noteq> []" using all_segments_Inr [OF cs(1)] assms(3) by auto
  with cs show ?thesis by blast
qed

lemma foldl_max: "foldl (\<lambda>a c. max_class a (seg_verdict c)) d cs = Max (insert d (seg_verdict ` set cs))"
proof (induction cs arbitrary: d)
  case (Cons x cs)
  have "Max (insert (max d (seg_verdict x)) (seg_verdict ` set cs)) = Max (insert d (insert (seg_verdict x) (seg_verdict ` set cs)))"
    by (cases "set cs = {}") (simp_all add: Max_insert max.assoc)
  with Cons show ?case by (simp add: rank_simps)
qed simp

lemma verdict_max: "cs \<noteq> [] \<Longrightarrow> verdict (summarize cs) = Max (seg_verdict ` set cs)"
  by (simp add: summarize_def foldl_max Let_def Max_insert)

lemma verdict_bound: "c \<in> set cs \<Longrightarrow> seg_verdict c \<le> verdict (summarize cs)"
  using verdict_max [of cs] by (cases "cs = []") simp_all

lemma segments_summarize [simp]: "segments (summarize cs) = cs"
  by (simp add: summarize_def Let_def)

text \<open>The class of one segment of a line, at the fuel of the line.\<close>

lemma segment_in_command:
  assumes "classifyCommand e s = Inr c" and "parse_command s = Inr ss" and "g \<in> set ss"
  shows "\<exists>k. segment_body (command_body (classifySegment (length s + 1) e))
      (\<lambda>a. map_sum (\<lambda>er. er) seg_verdict (classifySegment (length s + 1) e (plain_segment a))) e g = Inr k \<and>
      seg_verdict k \<le> verdict c \<and> k \<in> set (segments c)"
proof -
  from assms(3) have "ss \<noteq> []" by auto
  from command_segments [OF assms(1,2) this] obtain cs where
    cs: "all_segments (classifySegment (length s + 2) e) ss = Inr cs" "c = summarize cs" by blast
  from all_segments_Inr [OF cs(1)] assms(3) obtain k where k: "k \<in> set cs" "classifySegment (length s + 2) e g = Inr k" by blast
  from k(2) have "classifySegment (Suc (length s + 1)) e g = Inr k" by simp
  then have "segment_body (command_body (classifySegment (length s + 1) e))
      (\<lambda>a. map_sum (\<lambda>er. er) seg_verdict (classifySegment (length s + 1) e (plain_segment a))) e g = Inr k"
    by (simp only: classifySegment.simps)
  with verdict_bound [OF k(1)] cs(2) k(1) show ?thesis by (intro exI [of _ k]) simp
qed

lemma segment_of_body: "segment_body C f e g = Inr k \<Longrightarrow> segment_of k = g"
proof -
  have j: "segment_of (judged s a c m) = s" for s a c m by (simp add: judged_def)
  have t: "table_segment f e s a rd = Inr k \<Longrightarrow> segment_of k = s" for s a rd
    by (auto simp: table_segment_def Let_def combine_def j split: sum.splits if_splits option.splits read_test.splits)
  have "effective_segment C f e s a rd = Inr k \<Longrightarrow> segment_of k = s" for s a rd
    by (auto simp: effective_segment_def Let_def shell_segment_def runs_script_def interpreter_segment_def
        inherited_interpreter_def j dest: t split: sum.splits if_splits option.splits)
  then show "segment_body C f e g = Inr k \<Longrightarrow> segment_of k = g"
    by (auto simp: segment_body_def j split: sum.splits if_splits unwrap_result.splits)
qed

lemma body_with_fuel:
  assumes "mlen x + 1 < n"
  shows "command_body (classifySegment n e) x = classifyCommand e x"
  unfolding classifyCommand_def
proof (rule command_body_cong)
  fix ss s
  assume "parse_command x = Inr ss" "s \<in> set ss"
  from parse_size [OF this] mlen_length [of x] assms show "classifySegment n e s = classifySegment (length x + 2) e s"
    by (intro more_fuel) auto
qed

subsection \<open>Refused segments\<close>

lemma effective_forbidden:
  assumes "unwrap_command (argv g) = Unwrapped a" and "\<not> bare_redirect g" and "segment_body C f e g = Inr k"
    and "\<And>rd k. a \<noteq> [] \<Longrightarrow> effective_segment C f e g a rd = Inr k \<Longrightarrow> seg_verdict k = Forbidden"
  shows "seg_verdict k = Forbidden"
  using assms by (auto simp: segment_body_def judged_def split: sum.splits if_splits)


lemma banned_names:
  assumes "constant_rule n = Some Forbidden"
  shows "n \<notin> set SHELLS" "map_of INTERPRETERS n = None" "n \<notin> set OBJECT_PROTOTYPE"
    "RULES u n = Some (\<lambda>inner a. Inr (Some Forbidden))"
proof -
  have n: "n \<in> set (snd (hd constant_rules))"
    using assms by (auto simp: constant_rule_def constant_rules_def split: if_splits)
  have "list_all (\<lambda>n. n \<notin> set SHELLS \<and> map_of INTERPRETERS n = None \<and> n \<notin> set OBJECT_PROTOTYPE \<and>
      n \<notin> set [''docker'', ''find'', ''curl'', ''wget'', ''update'']) (snd (hd constant_rules))"
    by code_simp
  with n have f: "n \<notin> set SHELLS \<and> map_of INTERPRETERS n = None \<and> n \<notin> set OBJECT_PROTOTYPE \<and>
      n \<notin> set [''docker'', ''find'', ''curl'', ''wget'', ''update'']" unfolding list_all_iff by blast
  then show "n \<notin> set SHELLS" "map_of INTERPRETERS n = None" "n \<notin> set OBJECT_PROTOTYPE" by blast+
  from f assms show "RULES u n = Some (\<lambda>inner a. Inr (Some Forbidden))" by (simp add: RULES_def)
qed

lemma banned_refused:
  assumes "constant_rule (baseName (hd a)) = Some Forbidden"
  shows "effective_segment C f e g a rd = Inr k \<Longrightarrow> seg_verdict k = Forbidden"
  using banned_names [OF assms]
  by (auto simp: effective_segment_def Let_def table_segment_def table_class_def rule_of_def judged_def split: option.splits)

subsection \<open>Reads\<close>







lemma judged_simps [simp]:
  "seg_verdict (judged s a c m) = c" "effectiveArgv (judged s a c m) = a" "segment_of (judged s a c m) = s"
  by (simp_all add: judged_def)

lemma combine_simps [simp]:
  "seg_verdict (combine s a rd v) = max_class (fst v) (fst rd)" "effectiveArgv (combine s a rd v) = a"
  by (simp_all add: combine_def)


lemma binary_other: "binary_test f e n a m = Inr (ReallyIs x c m') \<Longrightarrow> c \<noteq> Read"
  by (auto simp: binary_test_def split: option.splits sum.splits if_splits)


lemma read_test_other: "read_test f e s n a m = Inr (ReallyIs x c m') \<Longrightarrow> c \<noteq> Read"
  by (auto simp: read_test_def dest: binary_other split: if_splits option.splits)

lemma read_test_not_really [simp]: "read_test f e s n a m \<noteq> Inr (ReallyIs x Read m')"
  using read_test_other [of f e s n a m x Read m'] by blast






subsection \<open>Properties\<close>

text \<open>
  C13. Classification ends: the recursion through shells, docker and find never runs out of the
  fuel given, so the class of a line is the same at any greater fuel.
\<close>

theorem classification_terminates:
  "command_body (classifySegment (length s + 2 + k) e) s = classifyCommand e s \<and>
   classifyCommand e s \<noteq> Inl out_of_fuel"
proof
  show "command_body (classifySegment (length s + 2 + k) e) s = classifyCommand e s"
    by (rule classify_with_fuel) simp
  show "classifyCommand e s \<noteq> Inl out_of_fuel"
  proof
    assume "classifyCommand e s = Inl out_of_fuel"
    then obtain ss g where g: "parse_command s = Inr ss" "g \<in> set ss" "classifySegment (length s + 2) e g = Inl out_of_fuel"
      unfolding classifyCommand_def using command_body_Inl by blast
    have "seg_size g < length s + 2" using parse_size [OF g(1,2)] mlen_length [of s] by simp
    from fuel_left [OF this g(3)] show False by (simp add: out_of_fuel_def type_error_def)
  qed
qed

text \<open>
  C14. The worst segment decides: every segment of a line is judged, in order, and the class of
  the line is the greatest of theirs.
\<close>

theorem worst_segment_decides:
  assumes "parse_command s = Inr ss" and "ss \<noteq> []" and "classifyCommand e s = Inr c"
  shows "map segment_of (segments c) = ss \<and> verdict c = Max (seg_verdict ` set (segments c))"
proof -
  obtain cs where cs: "all_segments (classifySegment (length s + 2) e) ss = Inr cs" "c = summarize cs" "cs \<noteq> []"
    using command_segments [OF assms(3,1,2)] by blast
  have len: "length s + 2 = Suc (length s + 1)" by simp
  have "classifySegment (length s + 2) e g = Inr k \<Longrightarrow> segment_of k = g" for g k
    unfolding len classifySegment.simps by (rule segment_of_body)
  then have "all_segments (classifySegment (length s + 2) e) us = Inr ds \<Longrightarrow> map segment_of ds = us" for us ds
    by (induction us arbitrary: ds) (auto split: sum.splits)
  with cs verdict_max show ?thesis by simp
qed

theorem worst_segment_decides_witness:
  "let c = projr (classifyCommand homeserver ''ls /srv | sudo rm /srv/a'')
   in map segment_of (segments c) = projr (parse_command ''ls /srv | sudo rm /srv/a'') \<and>
      verdict c = Max (seg_verdict ` set (segments c))"
  unfolding Let_def
proof (rule worst_segment_decides)
  show "classifyCommand homeserver ''ls /srv | sudo rm /srv/a'' = Inr (projr (classifyCommand homeserver ''ls /srv | sudo rm /srv/a''))"
    by code_simp
qed code_simp+



text \<open>
  The banned commands - deletion, partitioning, power, other schedulers, interactive
  programs - are forbidden behind any wrapper the loop removes, with any arguments.
\<close>

theorem banned_commands_are_forbidden:
  assumes "parse_command s = Inr ss" and "g \<in> set ss" and "\<not> bare_redirect g"
    and "unwrap_command (argv g) = Unwrapped a" and "constant_rule (baseName (hd a)) = Some Forbidden"
    and "classifyCommand e s = Inr c"
  shows "verdict c = Forbidden"
proof -
  obtain C f k where k: "segment_body C f e g = Inr k" "seg_verdict k \<le> verdict c"
    using segment_in_command [OF assms(6,1,2)] by blast
  have "seg_verdict k = Forbidden"
    using effective_forbidden [OF assms(4,3) k(1)] banned_refused [OF assms(5)] by blast
  with k(2) show ?thesis by (simp add: antisym)
qed

theorem banned_commands_are_forbidden_witness:
  "verdict (projr (classifyCommand homeserver ''cd /srv; timeout 5 env -i nohup /bin/rm -rf data'')) = Forbidden"
proof (rule banned_commands_are_forbidden)
  let ?s = "''cd /srv; timeout 5 env -i nohup /bin/rm -rf data''"
  let ?ss = "projr (parse_command ?s)"
  show "parse_command ?s = Inr ?ss" by code_simp
  show "last ?ss \<in> set ?ss" by (rule last_in_set) code_simp
  show "\<not> bare_redirect (last ?ss)" by code_simp
  show "unwrap_command (argv (last ?ss)) = Unwrapped [''/bin/rm'', ''-rf'', ''data'']" by code_simp
  show "constant_rule (baseName (hd [''/bin/rm'', ''-rf'', ''data''])) = Some Forbidden" by code_simp
  show "classifyCommand homeserver ?s = Inr (projr (classifyCommand homeserver ?s))" by code_simp
qed

text \<open>
  Inline shell code counts as what it runs: a line with \<open>sh -c body\<close> is at least a mutation,
  and at least of the class the body has as a line of its own.
\<close>

theorem shell_body_counts:
  assumes "parse_command s = Inr ss" and "g \<in> set ss" and "\<not> bare_redirect g"
    and "unwrap_command (argv g) = Unwrapped a" and "baseName (hd a) \<in> set SHELLS"
    and "after_word ''-c'' a = Some body"
    and "classifyCommand e body = Inr sub" and "classifyCommand e s = Inr c"
  shows "max Mutate (verdict sub) \<le> verdict c"
proof -
  let ?C = "command_body (classifySegment (length s + 1) e)"
  obtain f k where k: "segment_body ?C f e g = Inr k" "seg_verdict k \<le> verdict c"
    using segment_in_command [OF assms(8,1,2)] by blast
  have sz: "length a \<le> length (argv g) \<and> widest a \<le> widest (argv g)"
    using unwrap_size assms(4) by (simp add: unwrap_command_def)
  from after_word_Some [OF assms(6)] have "mlen body \<le> widest a" "2 \<le> length a" by (auto intro: mlen_widest)
  moreover have "seg_size g \<le> length s + 1" using parse_size [OF assms(1,2)] mlen_length [of s] by simp
  ultimately have "mlen body + 1 < length s + 1" using sz by (simp add: seg_size_def)
  then have body: "?C body = Inr sub" using body_with_fuel assms(7) by simp
  have "max Mutate (verdict sub) \<le> seg_verdict k"
  proof (cases "seg_verdict k = Forbidden")
    case False
    obtain rd where "effective_segment ?C f e g a rd = Inr k" "a \<noteq> []"
      using k(1) assms(3,4) False by (auto simp: segment_body_def split: sum.splits if_splits)
    then have "shell_segment ?C g a (fst rd) = Inr k"
      using False assms(5) by (auto simp: effective_segment_def Let_def split: option.splits)
    then have "seg_verdict k = max (max Mutate (verdict sub)) (fst rd)"
      using assms(6) body by (auto simp: shell_segment_def rank_simps)
    then show ?thesis by simp
  qed simp
  then show ?thesis using k(2) by (rule order_trans)
qed

theorem shell_body_counts_witness:
  "max Mutate (verdict (projr (classifyCommand homeserver ''umount /mnt'')))
     \<le> verdict (projr (classifyCommand homeserver (''bash -c '' @ [SQ] @ ''umount /mnt'' @ [SQ])))"
proof (rule shell_body_counts)
  let ?s = "''bash -c '' @ [SQ] @ ''umount /mnt'' @ [SQ]"
  let ?ss = "projr (parse_command ?s)"
  show "parse_command ?s = Inr ?ss" by code_simp
  show "hd ?ss \<in> set ?ss" by (rule hd_in_set) code_simp
  show "\<not> bare_redirect (hd ?ss)" by code_simp
  show "unwrap_command (argv (hd ?ss)) = Unwrapped [''bash'', ''-c'', ''umount /mnt'']" by code_simp
  show "baseName (hd [''bash'', ''-c'', ''umount /mnt'']) \<in> set SHELLS" by code_simp
  show "after_word ''-c'' [''bash'', ''-c'', ''umount /mnt''] = Some ''umount /mnt''" by code_simp
  show "classifyCommand homeserver ''umount /mnt'' = Inr (projr (classifyCommand homeserver ''umount /mnt''))" by code_simp
  show "classifyCommand homeserver ?s = Inr (projr (classifyCommand homeserver ?s))" by code_simp
qed



subsection \<open>Where the code falls short\<close>

text \<open>
  The loop over the wrappers stops after eight, and \<open>env\<close> itself is a reader: nine of them make
  any deletion a read.
\<close>

lemma nine_wrappers_hide_rm:
  "map_sum id verdict (classifyCommand homeserver ''env env env env env env env env env rm -rf /srv'') = Inr Read"
  by code_simp

text \<open>
  awk is judged before the test for expansions, so the path a variable hides is read; the same
  line with \<open>cat\<close> is refused.
\<close>

lemma awk_reads_expansions:
  "map_sum id verdict (classifyCommand homeserver ''awk 1 $HOME/.ssh/id_rsa'') = Inr Read \<and>
   map_sum id verdict (classifyCommand homeserver ''cat $HOME/.ssh/id_rsa'') = Inr Forbidden"
  by (rule conjI; code_simp)

text \<open>A file named like a network probe or a builtin is read without the test of its directory.\<close>

lemma untrusted_files_are_read:
  "map_sum id verdict (classifyCommand (homeserver\<lparr>resolveBinary := \<lambda>n. Some n\<rparr>) ''/tmp/x/ping nas'') = Inr Read \<and>
   map_sum id verdict (classifyCommand (homeserver\<lparr>resolveBinary := \<lambda>n. Some n\<rparr>) ''/tmp/x/echo'') = Inr Read"
  by (rule conjI; code_simp)

text \<open>A command named like a member of \<open>Object.prototype\<close> makes the classifier throw.\<close>

lemma prototype_names_throw: "classifyCommand homeserver ''toString'' = Inl type_error"
  by code_simp

text \<open>The words of the shell's grammar are not commands to the tokeniser: they hide what they run.\<close>

lemma groups_hide_rm:
  "map_sum id verdict (classifyCommand homeserver ''{ rm -rf /srv; }'') = Inr Mutate \<and>
   map_sum id verdict (classifyCommand homeserver ''! rm -rf /srv'') = Inr Mutate \<and>
   map_sum id verdict (classifyCommand homeserver ''if true; then rm -rf /srv; fi'') = Inr Mutate"
  by (intro conjI; code_simp)

end
