(* ===== verification/Files.thy ===== *)
theory Files
  imports Paths Json
begin

text \<open>
  The file system as the file kinds see it, and Miro's trash (\<open>apps/mirod/src/operations/trash.ts\<close>).
  A disk maps a path to what stands there; the calls of \<open>node:fs\<close> the daemon makes are functions on
  it.  What a host may refuse is in the record \<open>host\<close>: a directory that cannot be made, a write
  that fails before or after it began, a device boundary, a copy that stops half-way.  A disk has
  one name for every file: links are followed by \<open>realpath\<close> only, an argument.  An error carries
  the code and the path of the system call.
\<close>

subsection \<open>Disks\<close>

text \<open>A file holds a text, or bytes that are no UTF-8.\<close>

datatype content = Plain string | Binary "nat list"

datatype node = File content nat | Dir nat

record trash_entry =
  te_id :: string
  originalPath :: string
  trashedPath :: string
  trashedAt :: int

text \<open>\<open>parked\<close> is the map by which \<open>captureState\<close> of a deletion hands its entry to \<open>apply\<close>.\<close>

record disk =
  files :: "string \<Rightarrow> node option"
  wall_clock :: int
  ids_drawn :: nat
  parked :: "(string \<times> trash_entry) list"

text \<open>
  \<open>write_fault p c\<close>: \<open>None\<close> when writing \<open>c\<close> to \<open>p\<close> succeeds, \<open>Some None\<close> when it is refused,
  \<open>Some (Some c')\<close> when it breaks off and leaves \<open>c'\<close>.  \<open>lossy\<close> reads bytes as UTF-8 with
  replacement characters; \<open>copy_left\<close> is what a copy that fails leaves at its target.
\<close>

record host =
  home_dir :: string
  trash_dir :: string
  realpath_of :: "string \<Rightarrow> string option"
  random_id :: "nat \<Rightarrow> string"
  lossy :: "nat list \<Rightarrow> string"
  write_fault :: "string \<Rightarrow> content \<Rightarrow> content option option"
  no_mkdir :: "string \<Rightarrow> bool"
  device :: "string \<Rightarrow> nat"
  copy_fails :: "string \<Rightarrow> bool"
  copy_left :: "string \<Rightarrow> node option"

definition fs_error :: "string \<Rightarrow> string \<Rightarrow> js_error" where
  "fs_error code p = an_error (code @ '', '' @ [SQ] @ p @ [SQ])"

definition exists_at :: "disk \<Rightarrow> string \<Rightarrow> bool" where
  "exists_at d p \<longleftrightarrow> files d p \<noteq> None"

definition is_dir :: "disk \<Rightarrow> string \<Rightarrow> bool" where
  "is_dir d p = (case files d p of Some (Dir _) \<Rightarrow> True | _ \<Rightarrow> False)"

definition is_file :: "disk \<Rightarrow> string \<Rightarrow> bool" where
  "is_file d p = (case files d p of Some (File _ _) \<Rightarrow> True | _ \<Rightarrow> False)"

definition put_node :: "string \<Rightarrow> node option \<Rightarrow> disk \<Rightarrow> disk" where
  "put_node p x d = d\<lparr>files := (files d)(p := x)\<rparr>"

definition as_text :: "host \<Rightarrow> content \<Rightarrow> string" where
  "as_text h c = (case c of Plain s \<Rightarrow> s | Binary bs \<Rightarrow> lossy h bs)"

text \<open>\<open>readFileSync(p, "utf-8")\<close> and \<open>statSync(p).mode & 0o777\<close>.\<close>

definition read_text :: "host \<Rightarrow> disk \<Rightarrow> string \<Rightarrow> js_error + string" where
  "read_text h d p = (case files d p of None \<Rightarrow> Inl (fs_error ''ENOENT'' p)
     | Some (Dir _) \<Rightarrow> Inl (fs_error ''EISDIR'' p) | Some (File c _) \<Rightarrow> Inr (as_text h c))"

definition mode_bits :: "disk \<Rightarrow> string \<Rightarrow> js_error + nat" where
  "mode_bits d p = (case files d p of None \<Rightarrow> Inl (fs_error ''ENOENT'' p)
     | Some (Dir m) \<Rightarrow> Inr (m mod 512) | Some (File _ m) \<Rightarrow> Inr (m mod 512))"

subsection \<open>Directories\<close>

text \<open>\<open>mkdirSync(p, { recursive: true })\<close>: the missing ancestors first; each turn shortens the path.\<close>

primrec mkdirs :: "nat \<Rightarrow> host \<Rightarrow> string \<Rightarrow> disk \<Rightarrow> (js_error + unit) \<times> disk" where
  "mkdirs 0 h p d = (Inl (fs_error ''ENOENT'' p), d)"
| "mkdirs (Suc n) h p d =
     (case files d p of
        Some (Dir _) \<Rightarrow> (Inr (), d)
      | Some (File _ _) \<Rightarrow> (Inl (fs_error ''EEXIST'' p), d)
      | None \<Rightarrow>
          if dirname p = p then (Inl (fs_error ''ENOENT'' p), d)
          else case mkdirs n h (dirname p) d of
                 (Inl e, d1) \<Rightarrow> (Inl e, d1)
               | (Inr _, d1) \<Rightarrow> if no_mkdir h p then (Inl (fs_error ''EACCES'' p), d1)
                                else (Inr (), put_node p (Some (Dir 493)) d1))"

definition mkdir_p :: "host \<Rightarrow> string \<Rightarrow> disk \<Rightarrow> (js_error + unit) \<times> disk" where
  "mkdir_p h p = mkdirs (length p + 2) h p"

subsection \<open>Writing\<close>

definition default_mode :: nat where "default_mode = 420"

text \<open>A file that stands there keeps its mode.\<close>

definition write_content :: "host \<Rightarrow> string \<Rightarrow> content \<Rightarrow> nat \<Rightarrow> disk \<Rightarrow> (js_error + unit) \<times> disk" where
  "write_content h p c m d =
     (if is_dir d p then (Inl (fs_error ''EISDIR'' p), d)
      else if \<not> is_dir d (dirname p) then (Inl (fs_error ''ENOENT'' p), d)
      else let mode = (case files d p of Some (File _ m') \<Rightarrow> m' | _ \<Rightarrow> m)
           in case write_fault h p c of
                None \<Rightarrow> (Inr (), put_node p (Some (File c mode)) d)
              | Some None \<Rightarrow> (Inl (fs_error ''EACCES'' p), d)
              | Some (Some left) \<Rightarrow> (Inl (fs_error ''ENOSPC'' p), put_node p (Some (File left mode)) d))"

text \<open>\<open>Bun.write(p, text)\<close> makes the parent directories itself.\<close>

definition bun_write :: "host \<Rightarrow> string \<Rightarrow> string \<Rightarrow> disk \<Rightarrow> (js_error + unit) \<times> disk" where
  "bun_write h p t d =
     (case mkdir_p h (dirname p) d of
        (Inl e, d1) \<Rightarrow> (Inl e, d1)
      | (Inr _, d1) \<Rightarrow> write_content h p (Plain t) default_mode d1)"

definition chmod :: "string \<Rightarrow> nat \<Rightarrow> disk \<Rightarrow> (js_error + unit) \<times> disk" where
  "chmod p m d =
     (case files d p of
        None \<Rightarrow> (Inl (fs_error ''ENOENT'' p), d)
      | Some (File c _) \<Rightarrow> (Inr (), put_node p (Some (File c m)) d)
      | Some (Dir _) \<Rightarrow> (Inr (), put_node p (Some (Dir m)) d))"

text \<open>\<open>appendFileSync\<close>.\<close>

definition append_text :: "host \<Rightarrow> string \<Rightarrow> string \<Rightarrow> disk \<Rightarrow> (js_error + unit) \<times> disk" where
  "append_text h p t d = write_content h p
     (case files d p of Some (File (Plain s) _) \<Rightarrow> Plain (s @ t)
      | Some (File (Binary bs) _) \<Rightarrow> Binary (bs @ map of_char t)
      | _ \<Rightarrow> Plain t) default_mode d"

subsection \<open>Moving a tree\<close>

definition at_or_under :: "string \<Rightarrow> string \<Rightarrow> bool" where
  "at_or_under p q \<longleftrightarrow> q = p \<or> starts_with (p @ ''/'') q"

definition copied_tree :: "string \<Rightarrow> string \<Rightarrow> disk \<Rightarrow> string \<Rightarrow> node option" where
  "copied_tree a b d q = (if at_or_under b q then files d (a @ drop (length b) q) else files d q)"

definition copy_tree :: "string \<Rightarrow> string \<Rightarrow> disk \<Rightarrow> disk" where
  "copy_tree a b d = d\<lparr>files := copied_tree a b d\<rparr>"

definition remove_tree :: "string \<Rightarrow> disk \<Rightarrow> disk" where
  "remove_tree p d = d\<lparr>files := \<lambda>q. if at_or_under p q then None else files d q\<rparr>"

text \<open>\<open>renameSync\<close>: never across devices, never onto a directory.\<close>

definition rename :: "host \<Rightarrow> string \<Rightarrow> string \<Rightarrow> disk \<Rightarrow> (js_error + unit) \<times> disk" where
  "rename h a b d =
     (if files d a = None then (Inl (fs_error ''ENOENT'' a), d)
      else if device h a \<noteq> device h b then (Inl (JsError ''Error'' ''EXDEV''), d)
      else if is_dir d b \<or> is_dir d a \<and> is_file d b then (Inl (fs_error ''ENOTEMPTY'' b), d)
      else if starts_with (a @ ''/'') b then (Inl (fs_error ''EINVAL'' b), d)
      else (Inr (), remove_tree a (copy_tree a b d)))"

text \<open>\<open>move\<close>: a rename, or across devices a completed copy and the removal of the source.\<close>

definition move :: "host \<Rightarrow> string \<Rightarrow> string \<Rightarrow> disk \<Rightarrow> (js_error + unit) \<times> disk" where
  "move h a b d =
     (case mkdir_p h (dirname b) d of
        (Inl e, d1) \<Rightarrow> (Inl e, d1)
      | (Inr _, d1) \<Rightarrow>
          (case rename h a b d1 of
             (Inr _, d2) \<Rightarrow> (Inr (), d2)
           | (Inl e, d2) \<Rightarrow>
               if error_message e \<noteq> ''EXDEV'' then (Inl e, d2)
               else if copy_fails h a then (Inl (fs_error ''ENOSPC'' b), put_node b (copy_left h a) d2)
               else let d3 = copy_tree a b d2
                    in if \<not> exists_at d3 b then (Inl (an_error (''cross-device move failed: '' @ b @ '' missing after copy'')), d3)
                       else (Inr (), remove_tree a d3)))"

subsection \<open>The trash\<close>

definition trashDestination :: "host \<Rightarrow> string \<Rightarrow> disk \<Rightarrow> trash_entry \<times> disk" where
  "trashDestination h p d =
     (let i = show_int (wall_clock d) @ ''-'' @ take 8 (random_id h (ids_drawn d))
      in (\<lparr>te_id = i, originalPath = p, trashedPath = path_join [trash_dir h, i, p], trashedAt = wall_clock d\<rparr>,
          d\<lparr>ids_drawn := ids_drawn d + 1\<rparr>))"

definition index_path :: "host \<Rightarrow> string" where
  "index_path h = path_join [trash_dir h, ''index.jsonl'']"

definition entry_fields :: "trash_entry \<Rightarrow> (string \<times> json) list" where
  "entry_fields e = [(''id'', JStr (te_id e)), (''originalPath'', JStr (originalPath e)),
     (''trashedPath'', JStr (trashedPath e)), (''trashedAt'', JNum (trashedAt e))]"

definition index_line :: "trash_entry \<Rightarrow> (string \<times> json) list \<Rightarrow> string" where
  "index_line e extra = stringify (JObj (entry_fields e @ extra)) @ [NL]"

definition trashed_line :: "trash_entry \<Rightarrow> string" where
  "trashed_line e = index_line e [(''action'', JStr ''trashed'')]"

definition restored_line :: "int \<Rightarrow> trash_entry \<Rightarrow> string" where
  "restored_line at e = index_line e [(''action'', JStr ''restored''), (''restoredAt'', JNum at)]"

definition moveToTrash :: "host \<Rightarrow> trash_entry \<Rightarrow> disk \<Rightarrow> (js_error + unit) \<times> disk" where
  "moveToTrash h e d =
     (if \<not> exists_at d (originalPath e) then (Inl (an_error (originalPath e @ '' does not exist'')), d)
      else case move h (originalPath e) (trashedPath e) d of
             (Inl err, d1) \<Rightarrow> (Inl err, d1)
           | (Inr _, d1) \<Rightarrow> append_text h (index_path h) (trashed_line e) d1)"

definition restoreFromTrash :: "host \<Rightarrow> trash_entry \<Rightarrow> disk \<Rightarrow> (js_error + unit) \<times> disk" where
  "restoreFromTrash h e d =
     (if \<not> exists_at d (trashedPath e) then (Inl (an_error (''trash entry '' @ te_id e @ '' is missing'')), d)
      else if exists_at d (originalPath e)
      then (Inl (an_error (originalPath e @ '' exists again - refusing to overwrite it'')), d)
      else case move h (trashedPath e) (originalPath e) d of
             (Inl err, d1) \<Rightarrow> (Inl err, d1)
           | (Inr _, d1) \<Rightarrow> append_text h (index_path h) (restored_line (wall_clock d1) e) d1)"

text \<open>
  The index replayed: a line that is blank or does not parse is skipped, \<open>null\<close> has no \<open>action\<close>
  to read.  The map is keyed by the \<open>id\<close> and keeps the order of first insertion.
\<close>

definition replay_line :: "string \<Rightarrow> (json \<times> json) list \<Rightarrow> js_error + (json \<times> json) list" where
  "replay_line line m =
     (if trim line = [] then Inr m
      else case json_parse line of
             None \<Rightarrow> Inr m
           | Some v \<Rightarrow>
               if v = JNull then Inl (JsError ''TypeError'' ''null is not an object'')
               else if field ''action'' v = JStr ''trashed'' then
                 Inr (AList.update (field ''id'' v)
                   (JObj [(''id'', field ''id'' v), (''originalPath'', field ''originalPath'' v),
                          (''trashedPath'', field ''trashedPath'' v), (''trashedAt'', field ''trashedAt'' v)]) m)
               else Inr (AList.delete (field ''id'' v) m))"

fun replay :: "string list \<Rightarrow> (json \<times> json) list \<Rightarrow> js_error + (json \<times> json) list" where
  "replay [] m = Inr m"
| "replay (l # ls) m = (case replay_line l m of Inl e \<Rightarrow> Inl e | Inr m' \<Rightarrow> replay ls m')"

definition still_there :: "disk \<Rightarrow> json \<Rightarrow> bool" where
  "still_there d e = (case field ''trashedPath'' e of JStr p \<Rightarrow> exists_at d p | _ \<Rightarrow> False)"

definition listTrash :: "host \<Rightarrow> disk \<Rightarrow> js_error + json list" where
  "listTrash h d =
     (if \<not> exists_at d (index_path h) then Inr []
      else case read_text h d (index_path h) of
             Inl e \<Rightarrow> Inl e
           | Inr t \<Rightarrow> (case replay (split_on NL t) [] of
                 Inl e \<Rightarrow> Inl e
               | Inr m \<Rightarrow> Inr (filter (still_there d) (map snd m))))"

end
