(* ===== verification/Diff.thy ===== *)
theory Diff
  imports Redact "HOL-Library.Sublist"
begin

text \<open>
  The diff of a plan (\<open>apps/mirod/src/operations/diff.ts\<close>): the table of longest common
  subsequences, the walk through it to an edit script, the grouping of the script into hunks with
  context, and the redaction of the lines that are the file's own.  The arrow of the message for large
  files is written \<open>->\<close>.
\<close>

definition MAX_LINES :: nat where "MAX_LINES = 1500"

subsection \<open>The LCS table\<close>

text \<open>
  Row \<open>i\<close> is filled from its last column to its first out of row \<open>i + 1\<close>.  The counts stay far
  below \<open>2^32\<close>: a file above \<open>MAX_LINES\<close> never gets here.
\<close>

fun dp_row :: "'a \<Rightarrow> 'a list \<Rightarrow> nat list \<Rightarrow> nat list" where
  "dp_row x (y # ys) (p # ps) =
     (let r = dp_row x ys ps in (if x = y then hd ps + 1 else max p (hd r)) # r)"
| "dp_row x _ _ = [0]"

fun dp_table :: "'a list \<Rightarrow> 'a list \<Rightarrow> nat list list" where
  "dp_table [] bs = [replicate (length bs + 1) 0]"
| "dp_table (x # xs) bs = (let t = dp_table xs bs in dp_row x bs (hd t) # t)"

subsection \<open>The edit script\<close>

datatype op_kind = Keep | Remove | Add

record diff_op =
  dkind :: op_kind
  dline :: string
  ai :: nat
  bi :: nat

function walk :: "nat list list \<Rightarrow> string list \<Rightarrow> string list \<Rightarrow> nat \<Rightarrow> nat \<Rightarrow> diff_op list" where
  "walk dp a b i j =
     (if \<not> (i < length a \<or> j < length b) then []
      else if i < length a \<and> j < length b \<and> a ! i = b ! j
      then \<lparr>dkind = Keep, dline = a ! i, ai = i, bi = j\<rparr> # walk dp a b (i + 1) (j + 1)
      else if i < length a \<and> (length b \<le> j \<or> dp ! i ! (j + 1) \<le> dp ! (i + 1) ! j)
      then \<lparr>dkind = Remove, dline = a ! i, ai = i, bi = j\<rparr> # walk dp a b (i + 1) j
      else \<lparr>dkind = Add, dline = b ! j, ai = i, bi = j\<rparr> # walk dp a b i (j + 1))"
  by pat_completeness auto
termination
  by (relation "measure (\<lambda>(dp, a, b, i, j). (length a - i) + (length b - j))") auto

declare walk.simps [simp del]

definition script :: "string list \<Rightarrow> string list \<Rightarrow> diff_op list" where
  "script a b = walk (dp_table a b) a b 0 0"

subsection \<open>Hunks\<close>

text \<open>
  The inner loop: from a change at \<open>k\<close> on, the last change before more than \<open>2 * context\<close> kept
  lines.  \<open>d\<close> is the distance of the line looked at from the last change seen.
\<close>

fun last_change :: "nat \<Rightarrow> nat \<Rightarrow> nat \<Rightarrow> diff_op list \<Rightarrow> nat" where
  "last_change c lst n [] = lst"
| "last_change c lst n (o' # os) =
     (if dkind o' \<noteq> Keep then last_change c n (n + 1) os
      else if 2 * c < n - lst then lst
      else last_change c lst (n + 1) os)"

definition hunk_end :: "nat \<Rightarrow> nat \<Rightarrow> diff_op list \<Rightarrow> nat" where
  "hunk_end c k ops = min (length ops) (last_change c k k (drop k ops) + c + 1)"

lemma last_change_ge: "lst \<le> n \<Longrightarrow> lst \<le> last_change c lst n os"
  by (induction c lst n os rule: last_change.induct) (auto intro: le_trans)

lemma hunk_end_gt: "k < length ops \<Longrightarrow> k < hunk_end c k ops"
  using last_change_ge [of k k c "drop k ops"] by (simp add: hunk_end_def)

text \<open>The hunks as ranges of the script.\<close>

function hunk_ranges :: "nat \<Rightarrow> diff_op list \<Rightarrow> nat \<Rightarrow> (nat \<times> nat) list" where
  "hunk_ranges c ops k =
     (if \<not> k < length ops then []
      else if dkind (ops ! k) = Keep then hunk_ranges c ops (k + 1)
      else (k - c, hunk_end c k ops) # hunk_ranges c ops (hunk_end c k ops))"
  by pat_completeness auto
termination
  by (relation "measure (\<lambda>(c, ops, k). length ops - k)") (auto intro!: diff_less_mono2 hunk_end_gt)

declare hunk_ranges.simps [simp del]

fun kind_mark :: "op_kind \<Rightarrow> string" where
  "kind_mark Keep = '' ''"
| "kind_mark Remove = ''-''"
| "kind_mark Add = ''+''"

definition hunk_start :: "(diff_op \<Rightarrow> nat) \<Rightarrow> op_kind \<Rightarrow> diff_op list \<Rightarrow> nat" where
  "hunk_start f other h = (case List.find (\<lambda>x. dkind x \<noteq> other) h of Some x \<Rightarrow> f x | None \<Rightarrow> f (hd h)) + 1"

definition side_lines :: "op_kind \<Rightarrow> diff_op list \<Rightarrow> string list" where
  "side_lines other h = map dline (filter (\<lambda>x. dkind x \<noteq> other) h)"

definition hunk_lines :: "diff_op list \<Rightarrow> string list" where
  "hunk_lines h =
     (''@@ -'' @ show_nat (hunk_start ai Add h) @ '','' @ show_nat (length (side_lines Add h)) @
      '' +'' @ show_nat (hunk_start bi Remove h) @ '','' @ show_nat (length (side_lines Remove h)) @ '' @@'')
     # map (\<lambda>x. kind_mark (dkind x) @ dline x) h"

definition hunks :: "nat \<Rightarrow> diff_op list \<Rightarrow> diff_op list list" where
  "hunks c ops = map (\<lambda>(s, e). slice s e ops) (hunk_ranges c ops 0)"

subsection \<open>The diff\<close>

definition text_to_lines :: "string \<Rightarrow> string list" where
  "text_to_lines s = (if s = [] then [] else split_on NL s)"

definition unifiedDiff :: "string \<Rightarrow> string \<Rightarrow> string \<Rightarrow> nat \<Rightarrow> string" where
  "unifiedDiff old new path context =
     (let a = text_to_lines old; b = text_to_lines new
      in if MAX_LINES < length a \<or> MAX_LINES < length b
         then ''--- '' @ path @ [NL] @ ''+++ '' @ path @ [NL] @ ''@@ file too large to diff ('' @
           show_nat (length a) @ '' -> '' @ show_nat (length b) @ '' lines) @@'' @ [NL]
         else let ops = script a b
              in if list_all (\<lambda>x. dkind x = Keep) ops then []
                 else join [NL] ([''--- '' @ path, ''+++ '' @ path] @ concat (map hunk_lines (hunks context ops))) @ [NL])"

definition redactDiffForPlan :: "string \<Rightarrow> string" where
  "redactDiffForPlan diff =
     join [NL] (map (\<lambda>line. if starts_with ''+'' line \<or> starts_with ''@@'' line then line
                             else redact_secrets_in_text line) (split_on NL diff))"

end
