(* ===== verification/Hashline.thy ===== *)
theory Hashline
  imports Prelude
begin

text \<open>
  Hash-anchored edits (\<open>apps/mirod/src/operations/hashline.ts\<close>): a file is shown with every line
  tagged \<open>N:hhhh\<close>, an edit names the lines it touches by those tags, and \<open>applyEdits\<close> checks every
  tag against the file before it splices the edits in from the bottom up.  The hexadecimal SHA-1
  digest of \<open>node:crypto\<close> is the argument \<open>sha1\<close>.  The reference \<open>edited\<close> reads the edits line by
  line; \<open>applyEdits_edited\<close> says when the two agree.
\<close>

subsection \<open>Lines and tags\<close>

definition lineHash :: "(string \<Rightarrow> string) \<Rightarrow> string \<Rightarrow> string" where
  "lineHash sha1 t = take 4 (sha1 t)"

definition splitLines :: "string \<Rightarrow> string list" where
  "splitLines content =
     (let ls = split_on NL content in if 1 < length ls \<and> last ls = [] then butlast ls else ls)"

definition anchor_tag :: "(string \<Rightarrow> string) \<Rightarrow> nat \<Rightarrow> string \<Rightarrow> string" where
  "anchor_tag sha1 n line = show_nat n @ '':'' @ lineHash sha1 line"

definition anchoredView :: "(string \<Rightarrow> string) \<Rightarrow> string \<Rightarrow> string" where
  "anchoredView sha1 content =
     join [NL] (map (\<lambda>(n, line). anchor_tag sha1 n line @ ''|'' @ line) (enumerate 1 (splitLines content)))"

subsection \<open>Edits\<close>

datatype edit_op = Replace | InsertAfter | Delete

record anchored_edit =
  anchor :: string
  to_anchor :: "string option"
  edit_op :: edit_op
  new_lines :: "string list option"

text \<open>An edit with its range resolved to line numbers.\<close>

record located =
  loc_op :: edit_op
  start :: nat
  stop :: nat
  text_lines :: "string list"
  edit_index :: nat

definition StaleAnchorError :: "string \<Rightarrow> js_error" where
  "StaleAnchorError m = JsError ''StaleAnchorError'' m"

text \<open>\<open>ANCHOR\<close>: the number and the four digits of a tag, and nothing around them.\<close>

definition lower_hex :: "char \<Rightarrow> bool" where
  "lower_hex c \<longleftrightarrow> is_digit c \<or> CHR ''a'' \<le> c \<and> c \<le> CHR ''f''"

definition read_anchor :: "string \<Rightarrow> (nat \<times> string) option" where
  "read_anchor a =
     (let d = takeWhile is_digit a; r = dropWhile is_digit a
      in if d \<noteq> [] \<and> length r = 5 \<and> hd r = CHR '':'' \<and> list_all lower_hex (tl r)
         then Some (read_nat d, tl r) else None)"

definition parseAnchor :: "(string \<Rightarrow> string) \<Rightarrow> string \<Rightarrow> string list \<Rightarrow> js_error + nat" where
  "parseAnchor sha1 a ls =
     (case read_anchor (trim a) of
        None \<Rightarrow> Inl (an_error (''refused: '' @ [DQ] @ a @ [DQ] @
          '' is not an anchor - use the N:hhhh tags from read_file with anchored: true''))
      | Some (n, h) \<Rightarrow>
          if n < 1 \<or> length ls < n
          then Inl (StaleAnchorError (''refused: anchor '' @ a @ '' is past the end of the file ('' @
            show_nat (length ls) @ '' lines) - read it again with anchored: true''))
          else let actual = lineHash sha1 (ls ! (n - 1))
               in if actual \<noteq> h
                  then Inl (StaleAnchorError (''refused: anchor '' @ a @ '' no longer matches line '' @ show_nat n @
                    '' (now '' @ show_nat n @ '':'' @ actual @
                    '') - the file changed since you read it; read it again with anchored: true''))
                  else Inr n)"

fun op_name :: "edit_op \<Rightarrow> string" where
  "op_name Replace = ''replace''"
| "op_name InsertAfter = ''insert_after''"
| "op_name Delete = ''delete''"

definition end_anchor :: "anchored_edit \<Rightarrow> string option" where
  "end_anchor e = (if edit_op e = InsertAfter then None
     else case to_anchor e of None \<Rightarrow> None | Some t \<Rightarrow> if t = [] then None else Some t)"

definition locate :: "(string \<Rightarrow> string) \<Rightarrow> string list \<Rightarrow> nat \<Rightarrow> anchored_edit \<Rightarrow> js_error + located" where
  "locate sha1 ls i e =
     (case parseAnchor sha1 (anchor e) ls of
        Inl err \<Rightarrow> Inl err
      | Inr s \<Rightarrow>
          (case (case end_anchor e of None \<Rightarrow> Inr s | Some t \<Rightarrow> parseAnchor sha1 t ls) of
             Inl err \<Rightarrow> Inl err
           | Inr t \<Rightarrow>
               if t < s
               then Inl (an_error (''refused: edit '' @ show_nat (i + 1) @ '' ends ('' @ the (to_anchor e) @
                 '') before it starts ('' @ anchor e @ '')''))
               else if edit_op e \<noteq> Delete \<and> new_lines e = None
               then Inl (an_error (''refused: edit '' @ show_nat (i + 1) @ '' ('' @ op_name (edit_op e) @ '') needs lines''))
               else Inr \<lparr>loc_op = edit_op e, start = s, stop = t,
                 text_lines = (case new_lines e of None \<Rightarrow> [] | Some xs \<Rightarrow> xs), edit_index = i\<rparr>))"

text \<open>\<open>edits.map(...)\<close>: the first edit that is refused throws.\<close>

fun locate_all :: "(string \<Rightarrow> string) \<Rightarrow> string list \<Rightarrow> nat \<Rightarrow> anchored_edit list \<Rightarrow> js_error + located list" where
  "locate_all sha1 ls i [] = Inr []"
| "locate_all sha1 ls i (e # es) =
     (case locate sha1 ls i e of
        Inl err \<Rightarrow> Inl err
      | Inr l \<Rightarrow> (case locate_all sha1 ls (i + 1) es of Inl err \<Rightarrow> Inl err | Inr r \<Rightarrow> Inr (l # r)))"

subsection \<open>Order and overlap\<close>

text \<open>Ascending by line, then by position; the order of application is the reverse.\<close>

definition by_line :: "located list \<Rightarrow> located list" where
  "by_line es = sort_key start (sort_key edit_index es)"

definition overlaps :: "located \<Rightarrow> located \<Rightarrow> bool" where
  "overlaps prev cur \<longleftrightarrow>
     (if loc_op cur = InsertAfter then start cur + 1 else start cur)
       \<le> (if loc_op prev = InsertAfter then start prev - 1 else stop prev)"

fun first_overlap :: "located list \<Rightarrow> (located \<times> located) option" where
  "first_overlap (p # c # es) = (if overlaps p c then Some (p, c) else first_overlap (c # es))"
| "first_overlap es = None"

subsection \<open>Splicing\<close>

text \<open>\<open>xs.splice(i, n, ...new)\<close>.\<close>

definition splice :: "nat \<Rightarrow> nat \<Rightarrow> 'a list \<Rightarrow> 'a list \<Rightarrow> 'a list" where
  "splice i n new xs = take i xs @ new @ drop (i + n) xs"

definition apply_one :: "located \<Rightarrow> string list \<Rightarrow> string list" where
  "apply_one e xs =
     (case loc_op e of
        Replace \<Rightarrow> splice (start e - 1) (stop e - start e + 1) (text_lines e) xs
      | InsertAfter \<Rightarrow> splice (start e) 0 (text_lines e) xs
      | Delete \<Rightarrow> splice (start e - 1) (stop e - start e + 1) [] xs)"

definition rejoin :: "string \<Rightarrow> string list \<Rightarrow> string" where
  "rejoin content xs = join [NL] xs @ (if ends_with [NL] content \<or> content = [] then [NL] else [])"

definition applyEdits :: "(string \<Rightarrow> string) \<Rightarrow> string \<Rightarrow> anchored_edit list \<Rightarrow> js_error + string" where
  "applyEdits sha1 content edits =
     (if edits = [] then Inl (an_error ''refused: no edits given'')
      else let ls = splitLines content
           in case locate_all sha1 ls 0 edits of
                Inl err \<Rightarrow> Inl err
              | Inr located \<Rightarrow>
                  (case first_overlap (by_line located) of
                     Some (p, c) \<Rightarrow> Inl (an_error (''refused: edits '' @ show_nat (edit_index p + 1) @ '' and '' @
                       show_nat (edit_index c + 1) @ '' overlap (lines '' @ show_nat (start c) @ ''..'' @
                       show_nat (stop p) @ '')''))
                   | None \<Rightarrow> Inr (rejoin content (foldl (\<lambda>out e. apply_one e out) ls (rev (by_line located))))))"

end
