(* ===== verification/FileKinds.thy ===== *)
theory FileKinds
  imports Engine Files Diff Hashline
begin

text \<open>
  The operation kinds that change files: \<open>file.write\<close>, \<open>file.edit\<close>, \<open>file.delete\<close> and
  \<open>secret.file\<close> (\<open>apps/mirod/src/operations/kinds/\<close>), as kinds of the engine over a disk.  The
  parameters are the JSON the tool's schema has checked; characters beyond Latin-1 of the messages
  are written in ASCII.
\<close>

subsection \<open>Parameters\<close>

definition str_of :: "string \<Rightarrow> json \<Rightarrow> string" where
  "str_of k p = (case field k p of JStr s \<Rightarrow> s | _ \<Rightarrow> [])"

definition path_of :: "json \<Rightarrow> string" where "path_of p = str_of ''path'' p"

definition mode_of :: "json \<Rightarrow> nat option" where
  "mode_of p = (case field ''mode'' p of JNum i \<Rightarrow> Some (nat i) | _ \<Rightarrow> None)"

fun show_octal :: "nat \<Rightarrow> string" where
  "show_octal n = (if n < 8 then [digit_char n] else show_octal (n div 8) @ [digit_char (n mod 8)])"

declare show_octal.simps [simp del]

text \<open>\<open>Buffer.byteLength\<close>: two bytes for a code unit above 127.\<close>

definition byte_length :: "string \<Rightarrow> nat" where
  "byte_length s = length s + length (filter (\<lambda>c. (127::nat) < of_char c) s)"

definition sensitive :: "host \<Rightarrow> disk \<Rightarrow> string \<Rightarrow> bool" where
  "sensitive h d p \<longleftrightarrow> isSensitivePath (exists_at d) (realpath_of h) p (home_dir h)"

definition real_target :: "host \<Rightarrow> disk \<Rightarrow> string \<Rightarrow> string" where
  "real_target h d p = realTarget (exists_at d) (realpath_of h) p"

definition touches_secret :: "host \<Rightarrow> disk \<Rightarrow> string \<Rightarrow> bool" where
  "touches_secret h d p \<longleftrightarrow> sensitive h d p \<or> sensitive h d (real_target h d p)"

definition touches_lifeline :: "host \<Rightarrow> disk \<Rightarrow> string \<Rightarrow> bool" where
  "touches_lifeline h d p \<longleftrightarrow> isLifelinePath p (home_dir h) \<or> isLifelinePath (real_target h d p) (home_dir h)"

definition lifeline_warning :: "bool \<Rightarrow> string option" where
  "lifeline_warning b = (if b then Some ''this file can affect SSH, networking, or Miro itself'' else None)"

definition secret_refusal :: "string \<Rightarrow> js_error" where
  "secret_refusal p = an_error (''refused: '' @ p @ '' is secret material and is never written through a generic operation'')"

definition PREVIEW_LINES :: nat where "PREVIEW_LINES = 60"

definition preview :: "string \<Rightarrow> string" where
  "preview t = (let ls = split_on NL t in
     if PREVIEW_LINES < length ls
     then join [NL] (take PREVIEW_LINES ls) @ [NL] @ ''... ('' @ show_nat (length ls - PREVIEW_LINES) @ '' more lines)''
     else t)"

definition json_text_or_null :: "string option \<Rightarrow> json" where
  "json_text_or_null x = (case x of None \<Rightarrow> JNull | Some s \<Rightarrow> JStr s)"

subsection \<open>file.write\<close>

definition previous_text :: "host \<Rightarrow> disk \<Rightarrow> string \<Rightarrow> js_error + string option" where
  "previous_text h d p = (if exists_at d p then map_sum (\<lambda>e. e) Some (read_text h d p) else Inr None)"

definition write_plan :: "host \<Rightarrow> json \<Rightarrow> disk \<Rightarrow> string option \<Rightarrow> op_plan" where
  "write_plan h p d previous =
     (let path = path_of p; content = str_of ''content'' p; existed = exists_at d path;
          lifeline = touches_lifeline h d path; parent = dirname (real_target h d path)
      in \<lparr>summary = (if existed then ''Overwrite '' else ''Create '') @ path @ '' ('' @ show_nat (byte_length content) @ '' bytes)'',
          plan_auto = False,
          plan_details = [(''path'', JStr path), (''existed'', JBool existed), (''bytes'', JNum (int (byte_length content))),
            (''mode'', case mode_of p of None \<Rightarrow> JNull | Some m \<Rightarrow> JStr (''0'' @ show_octal m)),
            (''current'', json_text_or_null (map_option (\<lambda>t. redact_secrets_in_text (preview t)) previous)),
            (''proposed'', JStr (preview content)),
            (''diff'', JStr (redactDiffForPlan (unifiedDiff (text_or_empty previous) content path 3)))],
          plan_class = Some (if lifeline then Lifeline else Mutate), plan_writes = Some [parent], plan_network = Some False,
          irreversible = False, plan_warning = lifeline_warning lifeline,
          expects = Some (path @ '' contains exactly the proposed content''),
          rollback_when = Some (if existed then ''verify fails or the write throws - the previous content is restored''
            else ''verify fails or the write throws - the new file is removed''),
          scope_evidence = Some (''the target'' @ [SQ] @ ''s real parent directory ('' @ parent @ '')''),
          dry_run = Some Exact\<rparr>)"

definition write_describe :: "host \<Rightarrow> json \<Rightarrow> disk \<Rightarrow> (js_error + op_plan) \<times> disk" where
  "write_describe h p d =
     (if touches_secret h d (path_of p) then (Inl (secret_refusal (path_of p)), d)
      else (map_sum (\<lambda>e. e) (write_plan h p d) (previous_text h d (path_of p)), d))"

definition captured_file :: "bool \<Rightarrow> string option \<Rightarrow> nat option \<Rightarrow> json" where
  "captured_file existed previous mode = JObj [(''existed'', JBool existed), (''previous'', json_text_or_null previous),
     (''mode'', case mode of None \<Rightarrow> JNull | Some m \<Rightarrow> JNum (int m))]"

definition write_capture :: "host \<Rightarrow> json \<Rightarrow> disk \<Rightarrow> (js_error + json) \<times> disk" where
  "write_capture h p d =
     (let path = path_of p
      in if \<not> exists_at d path then (Inr (captured_file False None None), d)
         else case read_text h d path of
                Inl e \<Rightarrow> (Inl e, d)
              | Inr t \<Rightarrow> (case mode_bits d path of Inl e \<Rightarrow> (Inl e, d) | Inr m \<Rightarrow> (Inr (captured_file True (Some t) (Some m)), d)))"

definition write_apply :: "host \<Rightarrow> json \<Rightarrow> disk \<Rightarrow> (js_error + unit) \<times> disk" where
  "write_apply h p d =
     (let path = path_of p
      in case mkdir_p h (dirname path) d of
           (Inl e, d1) \<Rightarrow> (Inl e, d1)
         | (Inr _, d1) \<Rightarrow>
             (case bun_write h path (str_of ''content'' p) d1 of
                (Inl e, d2) \<Rightarrow> (Inl e, d2)
              | (Inr _, d2) \<Rightarrow> (case mode_of p of None \<Rightarrow> (Inr (), d2) | Some m \<Rightarrow> chmod path m d2)))"

definition content_verify :: "host \<Rightarrow> json \<Rightarrow> disk \<Rightarrow> (js_error + bool) \<times> disk" where
  "content_verify h p d =
     (if \<not> exists_at d (path_of p) then (Inr False, d)
      else (map_sum (\<lambda>e. e) (\<lambda>t. t = str_of ''content'' p) (read_text h d (path_of p)), d))"

definition write_rollback :: "host \<Rightarrow> json \<Rightarrow> json \<Rightarrow> disk \<Rightarrow> (js_error + unit) \<times> disk" where
  "write_rollback h p captured d =
     (let path = path_of p
      in case (field ''existed'' captured, field ''previous'' captured) of
           (JBool True, JStr previous) \<Rightarrow>
             (case bun_write h path previous d of
                (Inl e, d1) \<Rightarrow> (Inl e, d1)
              | (Inr _, d1) \<Rightarrow> (case mode_of captured of None \<Rightarrow> (Inr (), d1) | Some m \<Rightarrow> chmod path m d1))
         | _ \<Rightarrow>
             if exists_at d path then (let (e, d1) = trashDestination h path d in moveToTrash h e d1)
             else (Inr (), d))"

definition fileWriteKind :: "host \<Rightarrow> disk kind" where
  "fileWriteKind h = \<lparr>kind_name = ''file.write'', describe = write_describe h, captureState = write_capture h,
     apply_op = write_apply h, verify = content_verify h, rollback = write_rollback h,
     prodtest = Some (\<lambda>p. if field ''verifyKeeps'' p = JBool False then None else Some (path_of p)),
     kind_reconcile = None\<rparr>"

subsection \<open>file.edit\<close>

definition edit_of :: "json \<Rightarrow> anchored_edit" where
  "edit_of v = \<lparr>anchor = str_of ''anchor'' v, to_anchor = as_string (field ''to'' v),
     edit_op = (let o' = str_of ''op'' v in if o' = ''replace'' then Replace else if o' = ''insert_after'' then InsertAfter else Delete),
     new_lines = (case field ''lines'' v of JArr xs \<Rightarrow> Some (map js_text xs) | _ \<Rightarrow> None)\<rparr>"

definition edits_of :: "json \<Rightarrow> anchored_edit list" where
  "edits_of p = (case field ''edits'' p of JArr vs \<Rightarrow> map edit_of vs | _ \<Rightarrow> [])"

definition edit_title :: "anchored_edit \<Rightarrow> string" where
  "edit_title e = op_name (edit_op e) @ '' '' @ anchor e @
     (case to_anchor e of None \<Rightarrow> [] | Some t \<Rightarrow> if t = [] then [] else ''..'' @ t)"

definition edit_plan :: "host \<Rightarrow> json \<Rightarrow> disk \<Rightarrow> string \<Rightarrow> op_plan" where
  "edit_plan h p d previous =
     (let path = path_of p; content = str_of ''content'' p; es = edits_of p;
          lifeline = touches_lifeline h d path; parent = dirname (real_target h d path)
      in \<lparr>summary = ''Edit '' @ path @ '' ('' @ show_nat (length es) @ '' anchored edit'' @ (if length es = 1 then [] else ''s'') @
            '', '' @ show_nat (byte_length previous) @ '' -> '' @ show_nat (byte_length content) @ '' bytes)'',
          plan_auto = False,
          plan_details = [(''path'', JStr path), (''edits'', JArr (map (\<lambda>e. JStr (edit_title e)) es)),
            (''diff'', JStr (redactDiffForPlan (unifiedDiff previous content path 3)))],
          plan_class = Some (if lifeline then Lifeline else Mutate), plan_writes = Some [parent], plan_network = Some False,
          irreversible = False, plan_warning = lifeline_warning lifeline,
          expects = Some (path @ '' contains exactly the edited content''),
          rollback_when = Some ''verify fails or the write throws - the previous content is restored'',
          scope_evidence = Some (''the target'' @ [SQ] @ ''s real parent directory ('' @ parent @ '')''),
          dry_run = Some Exact\<rparr>)"

definition edit_describe :: "(string \<Rightarrow> string) \<Rightarrow> host \<Rightarrow> json \<Rightarrow> disk \<Rightarrow> (js_error + op_plan) \<times> disk" where
  "edit_describe sha1 h p d =
     (let path = path_of p
      in if touches_secret h d path then (Inl (secret_refusal path), d)
         else if \<not> is_file d path
         then (Inl (an_error (''refused: '' @ path @ '' is not an existing file - file_edit edits what exists; file_write creates'')), d)
         else case read_text h d path of
                Inl e \<Rightarrow> (Inl e, d)
              | Inr previous \<Rightarrow>
                  (case applyEdits sha1 previous (edits_of p) of
                     Inl e \<Rightarrow> (Inl e, d)
                   | Inr derived \<Rightarrow>
                       if derived \<noteq> str_of ''content'' p
                       then (Inl (an_error (''refused: '' @ path @
                         '' changed between reading it and planning this edit - read it again with anchored: true'')), d)
                       else (Inr (edit_plan h p d previous), d)))"

definition edit_capture :: "host \<Rightarrow> json \<Rightarrow> disk \<Rightarrow> (js_error + json) \<times> disk" where
  "edit_capture h p d =
     (case read_text h d (path_of p) of
        Inl e \<Rightarrow> (Inl e, d)
      | Inr t \<Rightarrow> (case mode_bits d (path_of p) of
            Inl e \<Rightarrow> (Inl e, d)
          | Inr m \<Rightarrow> (Inr (JObj [(''previous'', JStr t), (''mode'', JNum (int m))]), d)))"

definition edit_apply :: "host \<Rightarrow> json \<Rightarrow> disk \<Rightarrow> (js_error + unit) \<times> disk" where
  "edit_apply h p d = bun_write h (path_of p) (str_of ''content'' p) d"

definition edit_rollback :: "host \<Rightarrow> json \<Rightarrow> json \<Rightarrow> disk \<Rightarrow> (js_error + unit) \<times> disk" where
  "edit_rollback h p captured d =
     (case bun_write h (path_of p) (str_of ''previous'' captured) d of
        (Inl e, d1) \<Rightarrow> (Inl e, d1)
      | (Inr _, d1) \<Rightarrow> chmod (path_of p) (case mode_of captured of None \<Rightarrow> 0 | Some m \<Rightarrow> m) d1)"

definition fileEditKind :: "(string \<Rightarrow> string) \<Rightarrow> host \<Rightarrow> disk kind" where
  "fileEditKind sha1 h = \<lparr>kind_name = ''file.edit'', describe = edit_describe sha1 h, captureState = edit_capture h,
     apply_op = edit_apply h, verify = content_verify h, rollback = edit_rollback h,
     prodtest = Some (\<lambda>p. Some (path_of p)), kind_reconcile = None\<rparr>"

subsection \<open>file.delete\<close>

definition SIZE_CAP :: nat where "SIZE_CAP = 1000000000"

text \<open>
  \<open>sizeOf\<close> walks the directory; the walk is the argument \<open>tree_size\<close>.  The rounding of the cap to
  gigabytes gives 1.
\<close>

definition delete_plan :: "host \<Rightarrow> (string \<Rightarrow> disk \<Rightarrow> nat) \<Rightarrow> json \<Rightarrow> disk \<Rightarrow> op_plan" where
  "delete_plan h tree_size p d =
     (let path = path_of p; lifeline = touches_lifeline h d path; bytes = tree_size path d;
          type = (if is_dir d path then ''directory'' else ''file'');
          how_big = (if SIZE_CAP < bytes then ''more than 1 GB'' else show_nat bytes @ '' bytes'')
      in \<lparr>summary = ''Move '' @ path @ '' to trash ('' @ type @ '', '' @ how_big @ '')'',
          plan_auto = False,
          plan_details = [(''path'', JStr path), (''type'', JStr type), (''bytes'', JNum (int bytes)), (''sizeCapped'', JBool (SIZE_CAP < bytes))],
          plan_class = Some (if lifeline then Lifeline else Destructive),
          plan_writes = Some [dirname path, trash_dir h], plan_network = Some False, irreversible = False,
          plan_warning = Some (if lifeline then ''this path can affect SSH, networking, or Miro itself''
            else ''recoverable from Miro'' @ [SQ] @ ''s trash''),
          expects = Some (path @ '' is gone from its path and present in Miro'' @ [SQ] @ ''s trash''),
          rollback_when = Some ''verify fails or the move throws - restored from the trash'',
          scope_evidence = Some (''the path'' @ [SQ] @ ''s parent directory and the trash directory, nothing else''),
          dry_run = Some Exact\<rparr>)"

definition delete_describe :: "host \<Rightarrow> (string \<Rightarrow> disk \<Rightarrow> nat) \<Rightarrow> json \<Rightarrow> disk \<Rightarrow> (js_error + op_plan) \<times> disk" where
  "delete_describe h tree_size p d =
     (if \<not> exists_at d (path_of p) then (Inl (an_error (path_of p @ '' does not exist'')), d)
      else if touches_secret h d (path_of p)
      then (Inl (an_error (''refused: '' @ path_of p @ '' is Miro'' @ [SQ] @ ''s own state or secret material'')), d)
      else (Inr (delete_plan h tree_size p d), d))"

definition entry_of :: "json \<Rightarrow> trash_entry" where
  "entry_of v = \<lparr>te_id = str_of ''id'' v, originalPath = str_of ''originalPath'' v, trashedPath = str_of ''trashedPath'' v,
     trashedAt = (case field ''trashedAt'' v of JNum i \<Rightarrow> i | _ \<Rightarrow> 0)\<rparr>"

definition delete_capture :: "host \<Rightarrow> (string \<Rightarrow> disk \<Rightarrow> nat) \<Rightarrow> json \<Rightarrow> disk \<Rightarrow> (js_error + json) \<times> disk" where
  "delete_capture h tree_size p d =
     (let path = path_of p; (e, d1) = trashDestination h path d;
          d2 = d1\<lparr>parked := AList.update path e (parked d1)\<rparr>
      in if \<not> exists_at d2 path then (Inl (fs_error ''ENOENT'' path), d2)
         else (Inr (JObj [(''entry'', JObj (entry_fields e)), (''wasDirectory'', JBool (is_dir d2 path)),
                          (''bytes'', JNum (int (tree_size path d2)))]), d2))"

definition delete_apply :: "host \<Rightarrow> json \<Rightarrow> disk \<Rightarrow> (js_error + unit) \<times> disk" where
  "delete_apply h p d =
     (let e = map_of (parked d) (path_of p); d1 = d\<lparr>parked := AList.delete (path_of p) (parked d)\<rparr>
      in case e of None \<Rightarrow> (Inl (an_error ''apply called without captureState''), d1)
                 | Some entry \<Rightarrow> moveToTrash h entry d1)"

definition delete_verify :: "json \<Rightarrow> disk \<Rightarrow> (js_error + bool) \<times> disk" where
  "delete_verify p d = (Inr (\<not> exists_at d (path_of p)), d)"

definition delete_rollback :: "host \<Rightarrow> json \<Rightarrow> json \<Rightarrow> disk \<Rightarrow> (js_error + unit) \<times> disk" where
  "delete_rollback h p captured d =
     (let d1 = d\<lparr>parked := AList.delete (path_of p) (parked d)\<rparr>; e = entry_of (field ''entry'' captured)
      in if exists_at d1 (trashedPath e) \<and> \<not> exists_at d1 (path_of p) then restoreFromTrash h e d1 else (Inr (), d1))"

definition fileDeleteKind :: "host \<Rightarrow> (string \<Rightarrow> disk \<Rightarrow> nat) \<Rightarrow> disk kind" where
  "fileDeleteKind h tree_size = \<lparr>kind_name = ''file.delete'', describe = delete_describe h tree_size, captureState = delete_capture h tree_size,
     apply_op = delete_apply h, verify = delete_verify, rollback = delete_rollback h,
     prodtest = Some (\<lambda>p. Some (path_of p)), kind_reconcile = None\<rparr>"

subsection \<open>secret.file\<close>

definition SECRET_PLACEHOLDER :: rex where
  "SECRET_PLACEHOLDER = seq [lit ''{{secret:'',
     Grp 1 (plus (Cls (\<lambda>c. alnum c \<or> c = CHR ''_'' \<or> c = CHR ''.'' \<or> c = CHR ''-''))), lit ''}}'']"

text \<open>The first placeholder whose secret is not set throws.\<close>

definition substituteSecrets :: "(string \<Rightarrow> string option) \<Rightarrow> string \<Rightarrow> js_error + string" where
  "substituteSecrets secret text =
     (case List.find (\<lambda>r. secret r = None) (map (grp 1) (match_all SECRET_PLACEHOLDER text)) of
        Some r \<Rightarrow> Inl (an_error (''secret '' @ r @ '' is not set''))
      | None \<Rightarrow> Inr (replace_all SECRET_PLACEHOLDER (\<lambda>m k. text_or_empty (secret (grp 1 k))) text))"

definition secret_plan :: "host \<Rightarrow> json \<Rightarrow> disk \<Rightarrow> op_plan" where
  "secret_plan h p d =
     (let path = path_of p; template = str_of ''template'' p; lifeline = touches_lifeline h d path
      in \<lparr>summary = ''Write '' @ path @ '' with resolved secrets ('' @ show_nat (byte_length template) @ '' bytes, mode 0600)'',
          plan_auto = False,
          plan_details = [(''path'', JStr path), (''template'', JStr (redact_secrets_in_text template)), (''mode'', JStr ''0600'')],
          plan_class = Some (if lifeline then Lifeline else Mutate),
          plan_writes = Some [dirname (real_target h d path)], plan_network = Some False, irreversible = False,
          plan_warning = lifeline_warning lifeline,
          expects = Some (path @ '' exists with the resolved content (its secret values are never shown)''),
          rollback_when = Some ''verify fails, or a referenced secret is unset - a file this operation created is removed'',
          scope_evidence = Some (''only the file'' @ [SQ] @ ''s own directory; written 0600 so only the daemon user can read it''),
          dry_run = Some Partial\<rparr>)"

definition secret_describe :: "host \<Rightarrow> json \<Rightarrow> disk \<Rightarrow> (js_error + op_plan) \<times> disk" where
  "secret_describe h p d =
     (if touches_secret h d (path_of p)
      then (Inl (an_error (''refused: '' @ path_of p @ '' is secret material Miro manages itself, not writable through a generic operation'')), d)
      else if \<not> contains_str ''{{secret:'' (str_of ''template'' p)
      then (Inl (an_error (''refused: secret_file is for files that carry a secret - use file_write for content with no {{secret:<ref>}} placeholder'')), d)
      else (Inr (secret_plan h p d), d))"

definition secret_capture :: "json \<Rightarrow> disk \<Rightarrow> (js_error + json) \<times> disk" where
  "secret_capture p d = (Inr (JObj [(''existed'', JBool (exists_at d (path_of p)))]), d)"

definition secret_apply :: "(string \<Rightarrow> string option) \<Rightarrow> host \<Rightarrow> json \<Rightarrow> disk \<Rightarrow> (js_error + unit) \<times> disk" where
  "secret_apply secret h p d =
     (case substituteSecrets secret (str_of ''template'' p) of
        Inl e \<Rightarrow> (Inl e, d)
      | Inr text \<Rightarrow>
          (case mkdir_p h (dirname (path_of p)) d of
             (Inl e, d1) \<Rightarrow> (Inl e, d1)
           | (Inr _, d1) \<Rightarrow>
               (case write_content h (path_of p) (Plain text) 384 d1 of
                  (Inl e, d2) \<Rightarrow> (Inl e, d2)
                | (Inr _, d2) \<Rightarrow> chmod (path_of p) 384 d2)))"

text \<open>\<open>size > 0\<close>: a directory has a size of its own.\<close>

definition secret_verify :: "json \<Rightarrow> disk \<Rightarrow> (js_error + bool) \<times> disk" where
  "secret_verify p d = (Inr (case files d (path_of p) of None \<Rightarrow> False | Some (Dir _) \<Rightarrow> True
     | Some (File (Plain s) _) \<Rightarrow> s \<noteq> [] | Some (File (Binary bs) _) \<Rightarrow> bs \<noteq> []), d)"

definition secret_rollback :: "json \<Rightarrow> json \<Rightarrow> disk \<Rightarrow> (js_error + unit) \<times> disk" where
  "secret_rollback p captured d =
     (if field ''existed'' captured \<noteq> JBool True \<and> is_file d (path_of p) then (Inr (), put_node (path_of p) None d) else (Inr (), d))"

definition secretFileKind :: "(string \<Rightarrow> string option) \<Rightarrow> host \<Rightarrow> disk kind" where
  "secretFileKind secret h = \<lparr>kind_name = ''secret.file'', describe = secret_describe h, captureState = secret_capture,
     apply_op = secret_apply secret h, verify = secret_verify, rollback = secret_rollback,
     prodtest = Some (\<lambda>p. None), kind_reconcile = None\<rparr>"

end
