(* ===== verification/FileFacts.thy ===== *)
theory FileFacts
  imports FileKinds EngineFacts
begin

text \<open>
  What the calls of a disk leave alone, and the contract of the file kinds: \<open>file.write\<close>,
  \<open>file.edit\<close> and \<open>file.delete\<close> are interpretations of \<open>reversible\<close>.
\<close>

named_theorems disk_simps \<open>what a call of the file system does to each part of a disk\<close>

subsection \<open>Single calls\<close>

primrec ancestors :: "nat \<Rightarrow> string \<Rightarrow> string list" where
  "ancestors 0 p = []"
| "ancestors (Suc n) p = p # ancestors n (dirname p)"

definition upward :: "string \<Rightarrow> string list" where
  "upward p = ancestors (length p + 2) p"

lemma put_node_simps [disk_simps]:
  "files (put_node p x d) = (files d)(p := x)" "wall_clock (put_node p x d) = wall_clock d"
  "ids_drawn (put_node p x d) = ids_drawn d" "parked (put_node p x d) = parked d"
  by (simp_all add: put_node_def)

lemma tree_simps [disk_simps]:
  "files (copy_tree a b d) = copied_tree a b d" "parked (copy_tree a b d) = parked d"
  "files (remove_tree a d) = (\<lambda>q. if at_or_under a q then None else files d q)" "parked (remove_tree a d) = parked d"
  by (simp_all add: copy_tree_def remove_tree_def)

lemma mkdirs_step:
  "snd (mkdirs (Suc n) h p d) = d \<or> files d p = None \<and>
     (snd (mkdirs (Suc n) h p d) = snd (mkdirs n h (dirname p) d) \<or>
      snd (mkdirs (Suc n) h p d) = put_node p (Some (Dir 493)) (snd (mkdirs n h (dirname p) d)))"
  by (cases "mkdirs n h (dirname p) d") (auto split: option.splits node.splits sum.splits)

lemma mkdirs_parts [disk_simps]:
  "wall_clock (snd (mkdirs n h p d)) = wall_clock d" (is ?c) "ids_drawn (snd (mkdirs n h p d)) = ids_drawn d" (is ?i)
  "parked (snd (mkdirs n h p d)) = parked d" (is ?p)
proof -
  have "?c \<and> ?i \<and> ?p"
  proof (induction n arbitrary: p)
    case (Suc n)
    then show ?case using mkdirs_step [of n h p d] by (auto simp del: mkdirs.simps simp: disk_simps)
  qed simp
  then show ?c ?i ?p by simp_all
qed

text \<open>Only missing ancestors are made, as directories.\<close>

lemma mkdirs_keeps: "files d q \<noteq> None \<Longrightarrow> files (snd (mkdirs n h p d)) q = files d q"
proof (induction n arbitrary: p)
  case (Suc n)
  then show ?case using mkdirs_step [of n h p d] by (auto simp del: mkdirs.simps simp: disk_simps)
qed simp

lemma mkdirs_new: "files (snd (mkdirs n h p d)) q \<noteq> files d q \<Longrightarrow>
    files (snd (mkdirs n h p d)) q = Some (Dir 493) \<and> q \<in> set (ancestors n p)"
proof (induction n arbitrary: p)
  case (Suc n)
  then show ?case
    using mkdirs_step [of n h p d] by (auto simp del: mkdirs.simps simp: disk_simps split: if_splits)
qed simp

lemma mkdirs_dir: "is_dir d q \<Longrightarrow> is_dir (snd (mkdirs n h p d)) q"
  using mkdirs_keeps [of d q n h p] by (auto simp: is_dir_def split: option.splits)

lemma mkdir_there: "is_dir d p \<Longrightarrow> mkdir_p h p d = (Inr (), d)"
  by (auto simp: mkdir_p_def is_dir_def split: option.splits node.splits)

lemma mkdirs_ok_cong:
  assumes "fst (mkdirs n h p d) = Inr ()"
    and "\<And>q. q \<in> set (ancestors n p) \<Longrightarrow> is_dir d q \<Longrightarrow> is_dir d' q"
    and "\<And>q. q \<in> set (ancestors n p) \<Longrightarrow> files d q = None \<Longrightarrow> files d' q = None \<or> is_dir d' q"
  shows "fst (mkdirs n h p d') = Inr ()"
  using assms
proof (induction n arbitrary: p)
  case (Suc n)
  show ?case
  proof (cases "files d p")
    case None
    have "fst (mkdirs n h (dirname p) d') = Inr ()"
      by (rule Suc.IH) (use Suc.prems None in \<open>auto split: prod.splits sum.splits if_splits\<close>)
    with Suc.prems(1) Suc.prems(3) [of p] None show ?thesis
      by (auto simp: is_dir_def split: option.splits node.splits prod.splits sum.splits if_splits)
  next
    case (Some x)
    with Suc.prems(1) have "is_dir d p" by (auto simp: is_dir_def split: node.splits)
    with Suc.prems(2) [of p] show ?thesis by (auto simp: is_dir_def split: option.splits node.splits)
  qed
qed simp

text \<open>A write or a change of mode touches the one path, and leaves a file there.\<close>

lemma write_content_at:
  "snd (write_content h p c m d) = d \<or> \<not> is_dir d p \<and> is_dir d (dirname p) \<and>
     (\<exists>c' m'. snd (write_content h p c m d) = put_node p (Some (File c' m')) d)"
  by (auto simp: write_content_def Let_def split: option.splits)

lemma chmod_at:
  "snd (chmod p m d) = d \<or> (\<exists>c' m'. snd (chmod p m d) = put_node p (Some (File c' m')) d \<and> \<not> is_dir d p) \<or>
     (\<exists>m'. snd (chmod p m d) = put_node p (Some (Dir m')) d \<and> is_dir d p)"
  by (auto simp: chmod_def is_dir_def split: option.splits node.splits)

lemma is_dir_put [disk_simps]:
  "is_dir (put_node p None d) q \<longleftrightarrow> q \<noteq> p \<and> is_dir d q"
  "is_dir (put_node p (Some (File c m)) d) q \<longleftrightarrow> q \<noteq> p \<and> is_dir d q"
  "is_dir (put_node p (Some (Dir m)) d) q \<longleftrightarrow> q = p \<or> is_dir d q"
  by (simp_all add: is_dir_def disk_simps)

lemma write_content_dir: "is_dir (snd (write_content h p c m d)) q = is_dir d q"
  using write_content_at [of h p c m d] by (auto simp: disk_simps)

lemma write_content_other: "q \<noteq> p \<Longrightarrow> files (snd (write_content h p c m d)) q = files d q"
  using write_content_at [of h p c m d] by (auto simp: disk_simps)

lemma write_content_parts: "wall_clock (snd (write_content h p c m d)) = wall_clock d"
  "ids_drawn (snd (write_content h p c m d)) = ids_drawn d" "parked (snd (write_content h p c m d)) = parked d"
  using write_content_at [of h p c m d] by (auto simp: disk_simps)

lemma chmod_dir: "is_dir (snd (chmod p m d)) q = is_dir d q"
  using chmod_at [of p m d] by (auto simp: disk_simps)

lemma chmod_other: "q \<noteq> p \<Longrightarrow> files (snd (chmod p m d)) q = files d q"
  using chmod_at [of p m d] by (auto simp: disk_simps)

lemma chmod_parts: "wall_clock (snd (chmod p m d)) = wall_clock d" "ids_drawn (snd (chmod p m d)) = ids_drawn d"
  "parked (snd (chmod p m d)) = parked d"
  using chmod_at [of p m d] by (auto simp: disk_simps)

lemmas write_parts = write_content_dir write_content_other write_content_parts chmod_dir chmod_other chmod_parts

lemma append_parts:
  "is_dir (snd (append_text h p t d)) q = is_dir d q" "q \<noteq> p \<Longrightarrow> files (snd (append_text h p t d)) q = files d q"
  "parked (snd (append_text h p t d)) = parked d"
  by (simp_all add: append_text_def write_parts)

subsection \<open>Into the trash\<close>

text \<open>
  When the trash can take the path: its directory can be made, nothing stands at the destination,
  a copy succeeds where a rename cannot, and neither path contains the other.
\<close>

definition trash_ready :: "host \<Rightarrow> string \<Rightarrow> disk \<Rightarrow> bool" where
  "trash_ready h p d \<longleftrightarrow>
     (let b = trashedPath (fst (trashDestination h p d))
      in fst (mkdir_p h (dirname b) d) = Inr () \<and> files d b = None \<and> b \<noteq> p \<and> (device h p = device h b \<or> \<not> copy_fails h p) \<and>
         p \<notin> set (upward (dirname b)) \<and> b \<notin> set (upward (dirname b)) \<and> b \<notin> set (upward (dirname p)) \<and>
         \<not> starts_with (p @ ''/'') b \<and> \<not> starts_with (b @ ''/'') p \<and> index_path h \<noteq> p)"

lemma at_or_under_self [simp]: "at_or_under p p"
  by (simp add: at_or_under_def)

lemma mkdir_p_facts:
  "is_dir d q \<Longrightarrow> is_dir (snd (mkdir_p h p d)) q" "files d q \<noteq> None \<Longrightarrow> files (snd (mkdir_p h p d)) q = files d q"
  "q \<notin> set (upward p) \<Longrightarrow> files (snd (mkdir_p h p d)) q = files d q"
  "files (snd (mkdir_p h p d)) q = files d q \<or> files (snd (mkdir_p h p d)) q = Some (Dir 493)"
  "wall_clock (snd (mkdir_p h p d)) = wall_clock d" "ids_drawn (snd (mkdir_p h p d)) = ids_drawn d"
  "parked (snd (mkdir_p h p d)) = parked d"
  unfolding mkdir_p_def upward_def
  by (simp_all only: mkdirs_dir mkdirs_parts) (use mkdirs_keeps [of d q _ h p] mkdirs_new [of _ h p d q] in blast)+

lemma ready_paths: "trash_ready h p d \<Longrightarrow> ids_drawn d' = ids_drawn d \<Longrightarrow> wall_clock d' = wall_clock d \<Longrightarrow>
    trashedPath (fst (trashDestination h p d')) = trashedPath (fst (trashDestination h p d))"
  by (simp add: trashDestination_def Let_def)

text \<open>It stays ready while only the path itself and directories above it change.\<close>

lemma trash_ready_cong:
  assumes "trash_ready h p d" and "ids_drawn d' = ids_drawn d" and "wall_clock d' = wall_clock d"
    and "\<And>q. q \<noteq> p \<Longrightarrow> is_dir d q \<Longrightarrow> is_dir d' q"
    and "\<And>q. q \<noteq> p \<Longrightarrow> files d' q = files d q \<or> is_dir d' q \<and> q \<in> set (upward (dirname p))"
  shows "trash_ready h p d'"
proof -
  define b where "b = trashedPath (fst (trashDestination h p d))"
  have b': "trashedPath (fst (trashDestination h p d')) = b"
    using ready_paths [OF assms(1-3)] by (simp add: b_def)
  note r = assms(1) [unfolded trash_ready_def Let_def, folded b_def]
  have "fst (mkdir_p h (dirname b) d') = Inr ()"
    unfolding mkdir_p_def
  proof (rule mkdirs_ok_cong)
    show "fst (mkdirs (length (dirname b) + 2) h (dirname b) d) = Inr ()" using r by (simp add: mkdir_p_def)
  next
    fix q assume "q \<in> set (ancestors (length (dirname b) + 2) (dirname b))"
    then have q: "q \<noteq> p" using r by (auto simp: upward_def)
    show "is_dir d q \<Longrightarrow> is_dir d' q" by (rule assms(4) [OF q])
    show "files d q = None \<Longrightarrow> files d' q = None \<or> is_dir d' q" using assms(5) [OF q] by auto
  qed
  moreover have "files d' b = None" using assms(5) [of b] r by auto
  ultimately show ?thesis using r by (simp add: trash_ready_def Let_def b')
qed

lemma move_gone:
  assumes "fst (mkdir_p h (dirname b) d) = Inr ()" and "files d a \<noteq> None" and "files d b = None"
    and "b \<notin> set (upward (dirname b))" and "device h a = device h b \<or> \<not> copy_fails h a" and "\<not> starts_with (a @ ''/'') b"
  shows "move h a b d = (Inr (), remove_tree a (copy_tree a b (snd (mkdir_p h (dirname b) d))))"
proof -
  define d1 where "d1 = snd (mkdir_p h (dirname b) d)"
  have m: "mkdir_p h (dirname b) d = (Inr (), d1)" using assms(1) by (simp add: d1_def prod_eq_iff)
  have f: "files d1 a \<noteq> None" "files d1 b = None"
    using assms(2-4) mkdir_p_facts(2,3) [where d = d and h = h and p = "dirname b"] by (simp_all add: d1_def)
  have "\<not> is_dir d1 b" "\<not> is_file d1 b" using f by (simp_all add: is_dir_def is_file_def)
  moreover have "exists_at (copy_tree a b d1) b" using f by (simp add: exists_at_def disk_simps copied_tree_def)
  ultimately show ?thesis
    using m f assms(5,6) by (auto simp: move_def rename_def fs_error_def Let_def d1_def [symmetric])
qed

lemma trashing_removes:
  assumes "trash_ready h p d" and "exists_at d p" and "trashDestination h p d = (e, d1)"
  shows "files (snd (moveToTrash h e d1)) p = None"
proof -
  have e: "originalPath e = p" "trashedPath e = trashedPath (fst (trashDestination h p d))" and d1: "files d1 = files d"
    using assms(3) by (auto simp: trashDestination_def Let_def)
  note r = assms(1) [unfolded trash_ready_def Let_def, folded e(2)]
  have mk: "fst (mkdir_p h (dirname (trashedPath e)) d1) = Inr ()"
    unfolding mkdir_p_def by (rule mkdirs_ok_cong [of _ h _ d]) (use r d1 in \<open>simp_all add: mkdir_p_def is_dir_def\<close>)
  have "move h p (trashedPath e) d1 = (Inr (), remove_tree p (copy_tree p (trashedPath e) (snd (mkdir_p h (dirname (trashedPath e)) d1))))"
    by (rule move_gone) (use r assms(2) in \<open>simp_all add: mk d1 exists_at_def\<close>)
  moreover have "exists_at d1 p" using assms(2) d1 by (simp add: exists_at_def)
  ultimately show ?thesis
    using r e(1) append_parts(2) [of p "index_path h"] by (auto simp: moveToTrash_def disk_simps)
qed

subsection \<open>What a path shows\<close>

text \<open>The content and the permission bits at a path.\<close>

fun bits :: "node \<Rightarrow> node" where
  "bits (File c m) = File c (m mod 512)"
| "bits (Dir m) = Dir (m mod 512)"

definition shown :: "string \<Rightarrow> disk \<Rightarrow> node option" where
  "shown p d = map_option bits (files d p)"

text \<open>A text that stands at a path can be written back over whatever file is there.\<close>

definition writable :: "host \<Rightarrow> string \<Rightarrow> string \<Rightarrow> disk \<Rightarrow> bool" where
  "writable h p t d \<longleftrightarrow> is_dir d (dirname p) \<and> \<not> is_dir d p \<and> write_fault h p (Plain t) = None"

lemma bun_write_there: "is_dir d (dirname p) \<Longrightarrow> bun_write h p t d = write_content h p (Plain t) default_mode d"
  by (simp add: bun_write_def mkdir_there)

lemma writable_steps:
  "writable h p t d \<Longrightarrow> writable h p t (snd (mkdir_p h (dirname p) d))"
  "writable h p t d \<Longrightarrow> writable h p t (snd (bun_write h p u d))"
  "writable h p t d \<Longrightarrow> writable h p t (snd (chmod p m d))"
  by (simp_all add: writable_def mkdir_there bun_write_there write_parts)

lemma write_back:
  assumes "writable h p t d" and "m < 512"
  shows "\<exists>d1. bun_write h p t d = (Inr (), d1) \<and> (\<exists>c m'. files d1 p = Some (File c m')) \<and> shown p (snd (chmod p m d1)) = Some (File (Plain t) m)"
  using assms by (auto simp: writable_def bun_write_there write_content_def Let_def chmod_def shown_def disk_simps)

lemma captured_file_fields:
  "field ''existed'' (captured_file e t m) = JBool e" "field ''previous'' (captured_file e t m) = json_text_or_null t"
  "mode_of (captured_file e t m) = m"
  by (simp_all add: captured_file_def field_def mode_of_def split: option.splits)

subsection \<open>file.write\<close>

definition write_can :: "host \<Rightarrow> json \<Rightarrow> disk \<Rightarrow> bool" where
  "write_can h p d =
     (case files d (path_of p) of
        None \<Rightarrow> trash_ready h (path_of p) d
      | Some (Dir _) \<Rightarrow> True
      | Some (File (Plain t) _) \<Rightarrow> writable h (path_of p) t d
      | Some (File (Binary _) _) \<Rightarrow> False)"

definition write_recovers :: "host \<Rightarrow> json \<Rightarrow> json \<Rightarrow> node option \<Rightarrow> disk \<Rightarrow> bool" where
  "write_recovers h p cap v d \<longleftrightarrow>
     (\<exists>t m. cap = captured_file True (Some t) (Some m) \<and> v = Some (File (Plain t) m) \<and> m < 512 \<and> writable h (path_of p) t d) \<or>
     cap = captured_file False None None \<and> v = None \<and> trash_ready h (path_of p) d"

lemma write_apply_steps:
  fixes h p d
  defines "d1 \<equiv> snd (mkdir_p h (dirname (path_of p)) d)"
  defines "d2 \<equiv> snd (bun_write h (path_of p) (str_of ''content'' p) d1)"
  shows "snd (write_apply h p d) = d1 \<or> snd (write_apply h p d) = d2 \<or> (\<exists>m. snd (write_apply h p d) = snd (chmod (path_of p) m d2))"
  unfolding write_apply_def Let_def d2_def d1_def
  by (cases "mkdir_p h (dirname (path_of p)) d"; cases "bun_write h (path_of p) (str_of ''content'' p) (snd (mkdir_p h (dirname (path_of p)) d))")
    (auto split: sum.splits option.splits)

text \<open>The steps of a write touch the path and make directories above it.\<close>

definition local_to :: "string \<Rightarrow> disk \<Rightarrow> disk \<Rightarrow> bool" where
  "local_to p d d' \<longleftrightarrow> ids_drawn d' = ids_drawn d \<and> wall_clock d' = wall_clock d \<and>
     (\<forall>q. q \<noteq> p \<longrightarrow> (is_dir d q \<longrightarrow> is_dir d' q) \<and> (files d' q = files d q \<or> is_dir d' q \<and> q \<in> set (upward (dirname p))))"

lemma local_refl [simp]: "local_to p d d"
  by (simp add: local_to_def)

lemma local_trans: "local_to p d1 d2 \<Longrightarrow> local_to p d2 d3 \<Longrightarrow> local_to p d1 d3"
  unfolding local_to_def by (metis is_dir_def)

lemma local_steps:
  "local_to p d (snd (mkdir_p h (dirname p) d))"
  "local_to p d (snd (write_content h p c m d))" "local_to p d (snd (chmod p m d))"
proof -
  have "q \<notin> set (upward (dirname p)) \<Longrightarrow> files (snd (mkdir_p h (dirname p) d)) q = files d q" for q
    by (rule mkdir_p_facts(3))
  moreover have "files (snd (mkdir_p h (dirname p) d)) q = files d q \<or> is_dir (snd (mkdir_p h (dirname p) d)) q" for q
    using mkdir_p_facts(4) [of h "dirname p" d q] by (auto simp: is_dir_def)
  ultimately show "local_to p d (snd (mkdir_p h (dirname p) d))"
    unfolding local_to_def using mkdir_p_facts(1,5,6) by metis
qed (simp_all add: local_to_def write_parts)

lemma local_bun_write: "local_to p d (snd (bun_write h p t d))"
  unfolding bun_write_def
  using local_steps(1) [of p d h] local_trans [OF _ local_steps(2)] by (cases "mkdir_p h (dirname p) d") (auto split: sum.splits)

lemma local_write_apply: "local_to (path_of p) d (snd (write_apply h p d))"
proof -
  define d1 where "d1 = snd (mkdir_p h (dirname (path_of p)) d)"
  define d2 where "d2 = snd (bun_write h (path_of p) (str_of ''content'' p) d1)"
  have "local_to (path_of p) d d1" unfolding d1_def by (rule local_steps)
  moreover from this have "local_to (path_of p) d d2" unfolding d2_def by (rule local_trans) (rule local_bun_write)
  moreover from this have "local_to (path_of p) d (snd (chmod (path_of p) m d2))" for m by (rule local_trans) (rule local_steps)
  ultimately show ?thesis using write_apply_steps [of h p d] by (auto simp: d1_def d2_def)
qed

lemma local_ready: "local_to p d d' \<Longrightarrow> trash_ready h p d \<Longrightarrow> trash_ready h p d'"
  by (rule trash_ready_cong [of h p d]) (auto simp: local_to_def)

lemma writable_write_apply: "writable h (path_of p) t d \<Longrightarrow> writable h (path_of p) t (snd (write_apply h p d))"
  using write_apply_steps [of h p d] writable_steps by metis

lemma content_verify_state [simp]: "snd (content_verify h p d) = d"
  by (simp add: content_verify_def)

interpretation file_write: reversible "fileWriteKind h" params "shown (path_of params)" "write_can h params" "write_recovers h params"
  for h params
proof unfold_locales
  fix s cap s1
  assume "write_can h params s" "captureState (fileWriteKind h) params s = (Inr cap, s1)"
  then show "write_recovers h params cap (shown (path_of params) s) s1"
    by (auto simp: write_can_def fileWriteKind_def write_capture_def Let_def exists_at_def read_text_def mode_bits_def as_text_def
        write_recovers_def shown_def split: if_splits option.splits node.splits content.splits)
next
  fix s e s1
  assume "captureState (fileWriteKind h) params s = (Inl e, s1)"
  then show "shown (path_of params) s1 = shown (path_of params) s"
    by (auto simp: fileWriteKind_def write_capture_def Let_def split: if_splits sum.splits)
next
  fix cap v s
  assume "write_recovers h params cap v s"
  then show "write_recovers h params cap v (snd (apply_op (fileWriteKind h) params s))"
    using writable_write_apply local_ready [OF local_write_apply] by (auto simp: write_recovers_def fileWriteKind_def)
next
  fix cap v s
  assume "write_recovers h params cap v s"
  then show "write_recovers h params cap v (snd (verify (fileWriteKind h) params s))"
    by (simp add: fileWriteKind_def)
next
  fix cap v s
  assume "write_recovers h params cap v s"
  then consider (old) t m where "cap = captured_file True (Some t) (Some m)" "v = Some (File (Plain t) m)" "m < 512" "writable h (path_of params) t s"
    | (new) "cap = captured_file False None None" "v = None" "trash_ready h (path_of params) s"
    by (auto simp: write_recovers_def)
  then show "shown (path_of params) (snd (rollback (fileWriteKind h) params cap s)) = v"
  proof cases
    case old
    with write_back [OF old(4,3)] show ?thesis
      by (auto simp: fileWriteKind_def write_rollback_def Let_def captured_file_fields json_text_or_null_def)
  next
    case new
    show ?thesis
    proof (cases "exists_at s (path_of params)")
      case True
      obtain e d1 where e: "trashDestination h (path_of params) s = (e, d1)" by fastforce
      from trashing_removes [OF new(3) True e] new True e show ?thesis
        by (simp add: fileWriteKind_def write_rollback_def captured_file_fields json_text_or_null_def shown_def)
    qed (use new in \<open>simp add: fileWriteKind_def write_rollback_def captured_file_fields json_text_or_null_def shown_def exists_at_def\<close>)
  qed
qed

subsection \<open>file.edit\<close>

definition edit_recovers :: "host \<Rightarrow> json \<Rightarrow> json \<Rightarrow> node option \<Rightarrow> disk \<Rightarrow> bool" where
  "edit_recovers h p cap v d \<longleftrightarrow>
     (\<exists>t m. cap = JObj [(''previous'', JStr t), (''mode'', JNum (int m))] \<and> v = Some (File (Plain t) m) \<and> m < 512 \<and> writable h (path_of p) t d)"

definition edit_can :: "host \<Rightarrow> json \<Rightarrow> disk \<Rightarrow> bool" where
  "edit_can h p d = (case files d (path_of p) of
      Some (File (Plain t) _) \<Rightarrow> writable h (path_of p) t d | Some (File (Binary _) _) \<Rightarrow> False | _ \<Rightarrow> True)"

interpretation file_edit: reversible "fileEditKind sha1 h" params "shown (path_of params)" "edit_can h params" "edit_recovers h params"
  for sha1 h params
proof unfold_locales
  fix s cap s1
  assume "edit_can h params s" "captureState (fileEditKind sha1 h) params s = (Inr cap, s1)"
  then show "edit_recovers h params cap (shown (path_of params) s) s1"
    by (auto simp: edit_can_def fileEditKind_def edit_capture_def read_text_def mode_bits_def as_text_def
        edit_recovers_def shown_def split: option.splits node.splits content.splits)
next
  fix s e s1
  assume "captureState (fileEditKind sha1 h) params s = (Inl e, s1)"
  then show "shown (path_of params) s1 = shown (path_of params) s"
    by (auto simp: fileEditKind_def edit_capture_def split: sum.splits)
next
  fix cap v s
  assume "edit_recovers h params cap v s"
  then show "edit_recovers h params cap v (snd (apply_op (fileEditKind sha1 h) params s))"
    using writable_steps(2) by (auto simp: edit_recovers_def fileEditKind_def edit_apply_def)
next
  fix cap v s
  assume "edit_recovers h params cap v s"
  then show "edit_recovers h params cap v (snd (verify (fileEditKind sha1 h) params s))"
    by (simp add: fileEditKind_def)
next
  fix cap v s
  assume "edit_recovers h params cap v s"
  then obtain t m where "cap = JObj [(''previous'', JStr t), (''mode'', JNum (int m))]" "v = Some (File (Plain t) m)" "m < 512"
    "writable h (path_of params) t s" by (auto simp: edit_recovers_def)
  with write_back [of h "path_of params" t s m] show "shown (path_of params) (snd (rollback (fileEditKind sha1 h) params cap s)) = v"
    by (auto simp: fileEditKind_def edit_rollback_def str_of_def field_def mode_of_def)
qed

end
