(* ===== verification/DeleteFacts.thy ===== *)
theory DeleteFacts
  imports FileFacts
begin

text \<open>
  \<open>file.delete\<close> is a move into the trash, and its rollback the move back: the whole tree at the path
  is restored (the interpretation \<open>file_delete\<close> of \<open>reversible\<close>).
\<close>

text \<open>Everything at and under a path.\<close>

definition tree_at :: "string \<Rightarrow> disk \<Rightarrow> string \<Rightarrow> node option" where
  "tree_at p d r = files d (p @ r)"

definition below :: "string \<Rightarrow> bool" where
  "below r \<longleftrightarrow> r = [] \<or> hd r = CHR ''/''"

definition shown_tree :: "string \<Rightarrow> disk \<Rightarrow> string \<Rightarrow> node option" where
  "shown_tree p d r = (if below r then tree_at p d r else None)"

lemma under_below: "at_or_under p (p @ r) \<longleftrightarrow> below r"
  by (cases r) (auto simp: at_or_under_def below_def starts_with_prefix)

lemma below_iff: "below r \<longleftrightarrow> r = [] \<or> (\<exists>s. r = ''/'' @ s)"
  by (cases r) (auto simp: below_def)

lemma under_split: "at_or_under p q \<longleftrightarrow> (\<exists>r. q = p @ r \<and> below r)"
  by (auto simp: at_or_under_def below_iff starts_with_prefix)

text \<open>Two paths of which neither begins with the other.\<close>

definition apart :: "string \<Rightarrow> string \<Rightarrow> bool" where
  "apart p q \<longleftrightarrow> \<not> starts_with p q \<and> \<not> starts_with q p"

lemma apart_ext: "apart p q \<Longrightarrow> \<not> at_or_under p (q @ r)"
  by (auto simp: apart_def under_split starts_with_prefix append_eq_append_conv2)

lemma apart_self: "apart p q \<Longrightarrow> \<not> at_or_under p q"
  using apart_ext [of p q "[]"] by simp

lemma apart_sym: "apart p q \<Longrightarrow> apart q p"
  by (simp add: apart_def)

text \<open>
  What the two moves need: the tree, its place in the trash, the index and the directories made
  on the way are apart, and a copy succeeds where a rename cannot.
\<close>

definition delete_paths :: "host \<Rightarrow> string \<Rightarrow> string \<Rightarrow> bool" where
  "delete_paths h p b \<longleftrightarrow> apart p b \<and> (device h p = device h b \<or> \<not> copy_fails h p \<and> \<not> copy_fails h b) \<and>
     \<not> at_or_under p (index_path h) \<and> \<not> at_or_under b (index_path h) \<and>
     \<not> at_or_under p (dirname p) \<and> \<not> at_or_under b (dirname p) \<and>
     list_all (\<lambda>q. \<not> at_or_under p q \<and> \<not> at_or_under b q) (upward (dirname b))"

definition delete_recovers :: "host \<Rightarrow> json \<Rightarrow> json \<Rightarrow> (string \<Rightarrow> node option) \<Rightarrow> disk \<Rightarrow> bool" where
  "delete_recovers h params cap v d \<longleftrightarrow>
     (let p = path_of params; e = entry_of (field ''entry'' cap); b = trashedPath e
      in originalPath e = p \<and> delete_paths h p b \<and> is_dir d (dirname p) \<and> map_of (parked d) p \<in> {None, Some e} \<and>
         (exists_at d p \<and> shown_tree p d = v \<and> (\<not> exists_at d b \<or> map_of (parked d) p = None) \<or>
          \<not> exists_at d p \<and> exists_at d b \<and> shown_tree b d = v))"

definition delete_can :: "host \<Rightarrow> json \<Rightarrow> disk \<Rightarrow> bool" where
  "delete_can h params d \<longleftrightarrow>
     (let p = path_of params; b = trashedPath (fst (trashDestination h p d))
      in delete_paths h p b \<and> is_dir d (dirname p) \<and> \<not> exists_at d b)"

lemma entry_roundtrip: "entry_of (JObj (entry_fields e)) = e"
  by (simp add: entry_of_def entry_fields_def str_of_def field_def)

lemma map_of_delete_other: "map_of (AList.delete p xs) p = None"
  by (simp add: AList.delete_conv')

text \<open>A move between two paths that are apart takes the tree along.\<close>

lemma moved_tree:
  assumes "apart a b"
  shows "shown_tree b (remove_tree a (copy_tree a b d)) = shown_tree a d"
    and "files (remove_tree a (copy_tree a b d)) a = None"
    and "\<not> at_or_under a q \<Longrightarrow> \<not> at_or_under b q \<Longrightarrow> files (remove_tree a (copy_tree a b d)) q = files d q"
proof
  fix r
  show "shown_tree b (remove_tree a (copy_tree a b d)) r = shown_tree a d r"
    using apart_ext [OF assms, of r] by (simp add: shown_tree_def tree_at_def disk_simps copied_tree_def under_below)
qed (simp_all add: disk_simps copied_tree_def)

lemma moved_exists:
  assumes "apart a b" and "exists_at d a"
  shows "exists_at (remove_tree a (copy_tree a b d)) b"
  using fun_cong [OF moved_tree(1) [OF assms(1), of d], of "[]"] assms(2) by (simp add: shown_tree_def below_def tree_at_def exists_at_def)

lemma tree_cong: "(\<And>q. at_or_under p q \<Longrightarrow> files d' q = files d q) \<Longrightarrow> shown_tree p d' = shown_tree p d"
  by (auto simp: shown_tree_def tree_at_def fun_eq_iff under_below)

lemma apart_mkdir:
  "list_all (\<lambda>q. \<not> at_or_under a q) (upward c) \<Longrightarrow> shown_tree a (snd (mkdir_p h c d)) = shown_tree a d"
  "list_all (\<lambda>q. \<not> at_or_under a q) (upward c) \<Longrightarrow> exists_at (snd (mkdir_p h c d)) a = exists_at d a"
proof -
  assume "list_all (\<lambda>q. \<not> at_or_under a q) (upward c)"
  then have "files (snd (mkdir_p h c d)) q = files d q" if "at_or_under a q" for q
    using that mkdir_p_facts(3) by (auto simp: list_all_iff)
  then show "shown_tree a (snd (mkdir_p h c d)) = shown_tree a d" "exists_at (snd (mkdir_p h c d)) a = exists_at d a"
    by (auto intro: tree_cong simp: exists_at_def)
qed

subsection \<open>A move, whatever the host does\<close>

text \<open>Either the whole tree is at the target, or it is where it was.\<close>

lemma move_cases:
  assumes p: "delete_paths h p b" "is_dir d (dirname p)" and here: "exists_at d p" "\<not> exists_at d b"
  shows "is_dir (snd (move h p b d)) (dirname p) \<and> parked (snd (move h p b d)) = parked d \<and>
    (fst (move h p b d) \<noteq> Inr () \<and> exists_at (snd (move h p b d)) p \<and> shown_tree p (snd (move h p b d)) = shown_tree p d \<or>
     fst (move h p b d) = Inr () \<and> \<not> exists_at (snd (move h p b d)) p \<and> exists_at (snd (move h p b d)) b \<and>
       shown_tree b (snd (move h p b d)) = shown_tree p d)"
proof -
  define d1 where "d1 = snd (mkdir_p h (dirname b) d)"
  have up: "list_all (\<lambda>q. \<not> at_or_under p q) (upward (dirname b))" "list_all (\<lambda>q. \<not> at_or_under b q) (upward (dirname b))"
    using p(1) by (auto simp: delete_paths_def list_all_iff)
  have d1: "is_dir d1 (dirname p)" "parked d1 = parked d" "exists_at d1 p" "\<not> exists_at d1 b" "shown_tree p d1 = shown_tree p d"
    using p(2) here apart_mkdir [OF up(1)] apart_mkdir(2) [OF up(2)] by (simp_all add: d1_def mkdir_p_facts)
  show ?thesis
  proof (cases "fst (mkdir_p h (dirname b) d)")
    case (Inl e)
    then have "mkdir_p h (dirname b) d = (Inl e, d1)" by (simp add: d1_def prod_eq_iff)
    then have "move h p b d = (Inl e, d1)" by (simp add: move_def)
    with d1 show ?thesis by simp
  next
    case (Inr u)
    have "b \<notin> set (upward (dirname b))" using up(2) by (auto simp: list_all_iff)
    then have "move h p b d = (Inr (), remove_tree p (copy_tree p b d1))"
      unfolding d1_def using Inr here p(1) apart_self [of p b]
      by (intro move_gone) (auto simp: exists_at_def delete_paths_def at_or_under_def)
    moreover have "\<not> at_or_under p (dirname p)" "\<not> at_or_under b (dirname p)" and ap: "apart p b"
      using p(1) by (simp_all add: delete_paths_def)
    ultimately show ?thesis
      using d1 moved_tree [OF ap, where d = d1] moved_exists [OF ap d1(3)]
      by (simp add: is_dir_def disk_simps exists_at_def copied_tree_def)
  qed
qed

lemma append_tree: "\<not> at_or_under a (index_path h) \<Longrightarrow> shown_tree a (snd (append_text h (index_path h) t d)) = shown_tree a d"
  "\<not> at_or_under a (index_path h) \<Longrightarrow> exists_at (snd (append_text h (index_path h) t d)) a = exists_at d a"
proof -
  assume "\<not> at_or_under a (index_path h)"
  then have "files (snd (append_text h (index_path h) t d)) q = files d q" if "at_or_under a q" for q
    using that append_parts(2) [of q "index_path h"] by auto
  then show "shown_tree a (snd (append_text h (index_path h) t d)) = shown_tree a d"
    "exists_at (snd (append_text h (index_path h) t d)) a = exists_at d a"
    by (auto intro: tree_cong simp: exists_at_def)
qed

lemma unpark_simps [disk_simps]:
  "files (d\<lparr>parked := x\<rparr>) = files d" "exists_at (d\<lparr>parked := x\<rparr>) q = exists_at d q" "is_dir (d\<lparr>parked := x\<rparr>) q = is_dir d q"
  "shown_tree q (d\<lparr>parked := x\<rparr>) = shown_tree q d"
  by (simp_all add: exists_at_def is_dir_def shown_tree_def tree_at_def fun_eq_iff)

lemma trash_cases:
  assumes "delete_paths h p b" and "is_dir d (dirname p)" and "exists_at d p" and "\<not> exists_at d b"
    and "originalPath e = p" and "trashedPath e = b"
  shows "is_dir (snd (moveToTrash h e d)) (dirname p) \<and> parked (snd (moveToTrash h e d)) = parked d \<and>
    (exists_at (snd (moveToTrash h e d)) p \<and> shown_tree p (snd (moveToTrash h e d)) = shown_tree p d \<or>
     \<not> exists_at (snd (moveToTrash h e d)) p \<and> exists_at (snd (moveToTrash h e d)) b \<and>
       shown_tree b (snd (moveToTrash h e d)) = shown_tree p d)"
  using move_cases [OF assms(1-4)] assms append_tree [of p h] append_tree [of b h]
  by (cases "move h p b d") (auto simp: moveToTrash_def delete_paths_def append_parts split: sum.splits)

text \<open>The way back cannot fail.\<close>

lemma restore_tree:
  assumes "delete_paths h p b" and "is_dir d (dirname p)" and "\<not> exists_at d p" and "exists_at d b"
    and "originalPath e = p" and "trashedPath e = b"
  shows "shown_tree p (snd (restoreFromTrash h e d)) = shown_tree b d"
proof -
  have ap: "apart b p" using assms(1) by (simp add: delete_paths_def apart_sym)
  have "\<not> is_dir d p" "\<not> is_file d p" using assms(3) by (auto simp: is_dir_def is_file_def exists_at_def)
  moreover have "\<not> starts_with (b @ ''/'') p" using apart_self [OF ap] by (simp add: at_or_under_def)
  moreover have "exists_at (copy_tree b p d) p" using assms(4) by (simp add: exists_at_def disk_simps copied_tree_def)
  ultimately have "move h b p d = (Inr (), remove_tree b (copy_tree b p d))"
    using mkdir_there [OF assms(2)] assms(1,4)
    by (auto simp: move_def rename_def fs_error_def Let_def exists_at_def delete_paths_def)
  then show ?thesis
    using assms(1,3-6) moved_tree(1) [OF ap, where d = d] append_tree(1) [of p h]
    by (simp add: restoreFromTrash_def delete_paths_def)
qed

subsection \<open>The contract\<close>

lemma delete_apply_recovers:
  assumes "delete_recovers h params cap v s"
  shows "delete_recovers h params cap v (snd (delete_apply h params s))"
proof -
  define p e b where "p = path_of params" and "e = entry_of (field ''entry'' cap)" and "b = trashedPath e"
  define s1 where "s1 = s\<lparr>parked := AList.delete p (parked s)\<rparr>"
  note r = assms [unfolded delete_recovers_def Let_def, folded p_def e_def b_def]
  have un: "map_of (parked s1) p = None" by (simp add: s1_def map_of_delete_other)
  show ?thesis
  proof (cases "map_of (parked s) p")
    case None
    then have "snd (delete_apply h params s) = s1" by (simp add: delete_apply_def Let_def s1_def p_def)
    then show ?thesis
      using r un by (auto simp: delete_recovers_def Let_def p_def [symmetric] e_def [symmetric] b_def [symmetric] s1_def disk_simps map_of_delete_other)
  next
    case (Some e')
    with r have e': "e' = e" by auto
    then have step: "snd (delete_apply h params s) = snd (moveToTrash h e s1)"
      using Some by (simp add: delete_apply_def Let_def s1_def p_def)
    show ?thesis
    proof (cases "exists_at s p")
      case True
      with r Some have "\<not> exists_at s b" by auto
      with r True have "delete_paths h p b" "is_dir s1 (dirname p)" "exists_at s1 p" "\<not> exists_at s1 b" "originalPath e = p"
        "trashedPath e = b" "shown_tree p s1 = v" by (auto simp: s1_def disk_simps b_def)
      with trash_cases [OF this(1-6)] un r show ?thesis
        unfolding step delete_recovers_def Let_def p_def [symmetric] e_def [symmetric] b_def [symmetric] by auto
    next
      case False
      with r have "snd (moveToTrash h e s1) = s1" by (simp add: moveToTrash_def s1_def disk_simps)
      then show ?thesis
        using r un unfolding step delete_recovers_def Let_def p_def [symmetric] e_def [symmetric] b_def [symmetric]
        by (auto simp: s1_def disk_simps)
    qed
  qed
qed

interpretation file_delete: reversible "fileDeleteKind h tree_size" params "shown_tree (path_of params)"
    "delete_can h params" "delete_recovers h params"
  for h tree_size params
proof unfold_locales
  fix s cap s1
  assume "delete_can h params s" "captureState (fileDeleteKind h tree_size) params s = (Inr cap, s1)"
  then show "delete_recovers h params cap (shown_tree (path_of params) s) s1"
    by (auto simp: fileDeleteKind_def delete_capture_def delete_can_def delete_recovers_def Let_def case_prod_unfold
        trashDestination_def field_def entry_roundtrip [unfolded field_def] exists_at_def is_dir_def shown_tree_def tree_at_def
        update_conv' fun_eq_iff split: if_splits)
next
  fix s e s1
  assume "captureState (fileDeleteKind h tree_size) params s = (Inl e, s1)"
  then show "shown_tree (path_of params) s1 = shown_tree (path_of params) s"
    by (auto simp: fileDeleteKind_def delete_capture_def Let_def case_prod_unfold trashDestination_def
        shown_tree_def tree_at_def fun_eq_iff split: if_splits)
next
  fix cap v s
  assume "delete_recovers h params cap v s"
  then show "delete_recovers h params cap v (snd (apply_op (fileDeleteKind h tree_size) params s))"
    by (simp add: fileDeleteKind_def delete_apply_recovers)
next
  fix cap v s
  assume "delete_recovers h params cap v s"
  then show "delete_recovers h params cap v (snd (verify (fileDeleteKind h tree_size) params s))"
    by (simp add: fileDeleteKind_def delete_verify_def)
next
  fix cap v s
  assume r: "delete_recovers h params cap v s"
  define p e b where "p = path_of params" and "e = entry_of (field ''entry'' cap)" and "b = trashedPath e"
  note r = r [unfolded delete_recovers_def Let_def, folded p_def e_def b_def]
  define s1 where "s1 = s\<lparr>parked := AList.delete p (parked s)\<rparr>"
  have step: "snd (rollback (fileDeleteKind h tree_size) params cap s) =
      (if exists_at s b \<and> \<not> exists_at s p then snd (restoreFromTrash h e s1) else s1)"
    by (simp add: fileDeleteKind_def delete_rollback_def Let_def p_def e_def b_def s1_def disk_simps)
  show "shown_tree (path_of params) (snd (rollback (fileDeleteKind h tree_size) params cap s)) = v"
  proof (cases "exists_at s p")
    case True
    with r show ?thesis unfolding step p_def [symmetric] by (auto simp: s1_def disk_simps)
  next
    case False
    with r have "delete_paths h p b" "is_dir s1 (dirname p)" "\<not> exists_at s1 p" "exists_at s1 b" "originalPath e = p"
      "trashedPath e = b" "shown_tree b s1 = v" by (auto simp: s1_def disk_simps b_def)
    with restore_tree [OF this(1-6)] False r show ?thesis unfolding step p_def [symmetric] by auto
  qed
qed

end
