(* ===== verification/TrashFacts.thy ===== *)
theory TrashFacts
  imports DeleteFacts
begin

text \<open>
  The index of the trash as a table: \<open>index_holds\<close> relates a disk to the entries its index file
  replays to, newest state per id.  A trashing and a restoring are an update and a deletion of that
  table.
\<close>

definition entry_json :: "trash_entry \<Rightarrow> json" where
  "entry_json e = JObj (entry_fields e)"

definition index_holds :: "host \<Rightarrow> disk \<Rightarrow> (json \<times> json) list \<Rightarrow> bool" where
  "index_holds h d m \<longleftrightarrow> (files d (index_path h) = None \<and> m = []) \<or>
     (\<exists>t k. files d (index_path h) = Some (File (Plain t) k) \<and> (t = [] \<or> ends_with [NL] t) \<and> replay (split_on NL t) [] = Inr m)"

lemma replay_append: "replay (xs @ ys) m = (case replay xs m of Inl e \<Rightarrow> Inl e | Inr m' \<Rightarrow> replay ys m')"
  by (induction xs arbitrary: m) (auto split: sum.splits)

lemma replay_blank [simp]: "replay_line [] m = Inr m"
  by (simp add: replay_line_def trim_def trim_start_def trim_end_def)

text \<open>Whole lines: what follows the last newline is empty.\<close>

lemma replay_lines:
  assumes "t = [] \<or> ends_with [NL] t" and "NL \<notin> set l" and "replay (split_on NL t) [] = Inr m"
  shows "replay (split_on NL (t @ l @ [NL])) [] = replay_line l m"
proof -
  have l: "split_on NL (l @ [NL]) = [l, []]" using assms(2) split_on_append_sep [of NL l "[]"] by (simp add: split_on_no_sep)
  have one: "replay [l, []] m' = replay_line l m'" for m' by (cases "replay_line l m'") auto
  show ?thesis
  proof (cases "t = []")
    case True
    with assms(3) l one show ?thesis by simp
  next
    case False
    with assms(1) obtain u where u: "t = u @ [NL]" by (auto simp: ends_with_suffix)
    have "split_on NL t = split_on NL u @ [[]]" using split_on_append_sep [of NL u "[]"] u by simp
    then have "replay (split_on NL u) [] = Inr m" using assms(3) by (simp add: replay_append split: sum.splits)
    moreover have "split_on NL (t @ l @ [NL]) = split_on NL u @ [l, []]" using u l split_on_append_sep [of NL u "l @ [NL]"] by simp
    ultimately show ?thesis using one by (simp add: replay_append)
  qed
qed

lemma index_line_reads:
  assumes "plain (JObj (entry_fields e @ xs))" and "well_keyed (JObj (entry_fields e @ xs))"
  defines "l \<equiv> stringify (JObj (entry_fields e @ xs))"
  shows "NL \<notin> set l" and "json_parse l = Some (JObj (entry_fields e @ xs))" and "trim l \<noteq> []"
proof -
  show "NL \<notin> set l" using assms(1) by (simp add: l_def stringify_no_newline)
  show "json_parse l = Some (JObj (entry_fields e @ xs))" using assms(1,2) by (simp add: l_def json_parse_stringify)
  have "l \<noteq> []" "hd l = CHR ''{''" using stringify_obj [of "entry_fields e @ xs"] assms(1) by (simp_all add: l_def)
  then obtain r where "l = CHR ''{'' # r" by (cases l) auto
  then show "trim l \<noteq> []"
    by (simp add: trim_def trim_start_def trim_end_def is_space_def dropWhile_append dropWhile_eq_Nil_conv)
qed

lemma fields_facts:
  "plain (JObj (entry_fields e @ [(''action'', JStr ''trashed'')]))" "well_keyed (JObj (entry_fields e @ [(''action'', JStr ''trashed'')]))"
  "plain (JObj (entry_fields e @ [(''action'', JStr ''restored''), (''restoredAt'', JNum n)]))"
  "well_keyed (JObj (entry_fields e @ [(''action'', JStr ''restored''), (''restoredAt'', JNum n)]))"
  by (simp_all add: entry_fields_def)

lemma trashed_line_replay:
  "replay_line (stringify (JObj (entry_fields e @ [(''action'', JStr ''trashed'')]))) m = Inr (AList.update (JStr (te_id e)) (entry_json e) m)"
  using index_line_reads(2,3) [OF fields_facts(1,2), of e]
  by (simp add: replay_line_def field_def entry_json_def entry_fields_def)

lemma restored_line_replay:
  "replay_line (stringify (JObj (entry_fields e @ [(''action'', JStr ''restored''), (''restoredAt'', JNum n)]))) m
     = Inr (AList.delete (JStr (te_id e)) m)"
  using index_line_reads(2,3) [OF fields_facts(3,4), of e n]
  by (simp add: replay_line_def field_def entry_fields_def)

text \<open>An append to the index that succeeds.\<close>

lemma append_index:
  assumes "index_holds h d m" and "append_text h (index_path h) (l @ [NL]) d = (Inr (), d')" and "NL \<notin> set l"
    and "replay_line l m = Inr m'"
  shows "index_holds h d' m'"
proof (cases "files d (index_path h)")
  case None
  with assms have "files d' (index_path h) = Some (File (Plain (l @ [NL])) default_mode)" "m = []"
    by (auto simp: append_text_def write_content_def Let_def index_holds_def disk_simps split: if_splits option.splits)
  moreover have "replay (split_on NL (l @ [NL])) [] = replay_line l []"
    using replay_lines [of "[]" l "[]"] assms(3) by simp
  ultimately show ?thesis using assms(4) by (auto simp: index_holds_def ends_with_suffix)
next
  case (Some x)
  with assms(1) obtain t k where t: "files d (index_path h) = Some (File (Plain t) k)" "t = [] \<or> ends_with [NL] t"
    "replay (split_on NL t) [] = Inr m" by (auto simp: index_holds_def)
  with assms(2) have "files d' (index_path h) = Some (File (Plain (t @ l @ [NL])) k)"
    by (auto simp: append_text_def write_content_def Let_def disk_simps split: if_splits option.splits)
  with replay_lines [OF t(2) assms(3) t(3)] assms(4) show ?thesis by (auto simp: index_holds_def ends_with_suffix)
qed

text \<open>The index is not among what a move touches.\<close>

definition clear_of_index :: "host \<Rightarrow> string \<Rightarrow> string \<Rightarrow> bool" where
  "clear_of_index h a b \<longleftrightarrow> \<not> at_or_under a (index_path h) \<and> \<not> at_or_under b (index_path h) \<and> index_path h \<notin> set (upward (dirname b))"

lemma move_index:
  assumes "clear_of_index h a b" and "move h a b d = (r, d')"
  shows "files d' (index_path h) = files d (index_path h)"
proof -
  obtain r1 d1 where m: "mkdir_p h (dirname b) d = (r1, d1)" by fastforce
  have d1: "files d1 (index_path h) = files d (index_path h)"
    using mkdir_p_facts(3) [where d = d and h = h and p = "dirname b" and q = "index_path h"] assms(1) m by (simp add: clear_of_index_def)
  have ne: "index_path h \<noteq> b" using assms(1) by (auto simp: clear_of_index_def)
  have r: "files (snd (rename h a b d1)) (index_path h) = files d1 (index_path h)"
    using assms(1) by (simp add: rename_def disk_simps copied_tree_def clear_of_index_def)
  obtain r2 d2 where r2: "rename h a b d1 = (r2, d2)" by fastforce
  show ?thesis
    using assms m d1 r r2 ne
    by (auto simp: move_def Let_def disk_simps copied_tree_def clear_of_index_def split: sum.splits if_splits)
qed

lemma index_holds_cong: "files d' (index_path h) = files d (index_path h) \<Longrightarrow> index_holds h d' m = index_holds h d m"
  by (simp add: index_holds_def)

lemma moveToTrash_ok:
  assumes "moveToTrash h e d = (Inr (), d')"
  obtains d1 where "move h (originalPath e) (trashedPath e) d = (Inr (), d1)" "append_text h (index_path h) (trashed_line e) d1 = (Inr (), d')"
  using assms that by (auto simp: moveToTrash_def split: if_splits prod.splits sum.splits)

lemma restoreFromTrash_ok:
  assumes "restoreFromTrash h e d = (Inr (), d')"
  obtains d1 where "move h (trashedPath e) (originalPath e) d = (Inr (), d1)"
    "append_text h (index_path h) (restored_line (wall_clock d1) e) d1 = (Inr (), d')"
  using assms that by (auto simp: restoreFromTrash_def split: if_splits prod.splits sum.splits)

lemma listTrash_holds: "index_holds h d m \<Longrightarrow> listTrash h d = Inr (filter (still_there d) (map snd m))"
  by (auto simp: index_holds_def listTrash_def exists_at_def read_text_def as_text_def)

end
