(* ===== verification/HashlineFacts.thy ===== *)
theory HashlineFacts
  imports Hashline
begin

text \<open>
  The reference of \<open>applyEdits\<close>: \<open>edited\<close> says of each line of the file what stands in its place.
  The bottom-up splices compute it whenever the sorted edits are \<open>chained\<close>.
\<close>

subsection \<open>The reference\<close>

text \<open>A range edit covers its lines; its new lines stand at its first line.\<close>

definition covers :: "located \<Rightarrow> nat \<Rightarrow> bool" where
  "covers e n \<longleftrightarrow> loc_op e \<noteq> InsertAfter \<and> start e \<le> n \<and> n \<le> stop e"

definition put_at :: "located \<Rightarrow> nat \<Rightarrow> string list" where
  "put_at e n = (if loc_op e = Replace \<and> start e = n then text_lines e else [])"

definition put_after :: "located \<Rightarrow> nat \<Rightarrow> string list" where
  "put_after e n = (if loc_op e = InsertAfter \<and> start e = n then text_lines e else [])"

definition edit_line :: "located list \<Rightarrow> nat \<Rightarrow> string \<Rightarrow> string list" where
  "edit_line es n x = (if list_ex (\<lambda>e. covers e n) es then concat (map (\<lambda>e. put_at e n) es) else [x])
     @ concat (map (\<lambda>e. put_after e n) es)"

definition edited_from :: "located list \<Rightarrow> nat \<Rightarrow> string list \<Rightarrow> string list" where
  "edited_from es b xs = concat (map (\<lambda>(n, x). edit_line es n x) (enumerate (b + 1) xs))"

definition edited :: "located list \<Rightarrow> string list \<Rightarrow> string list" where
  "edited es xs = edited_from es 0 xs"

subsection \<open>Chained edits\<close>

text \<open>All edits of the list come after line \<open>b\<close>, inserts directly after it included.\<close>

definition beyond :: "nat \<Rightarrow> located \<Rightarrow> bool" where
  "beyond b e \<longleftrightarrow> (if loc_op e = InsertAfter then b \<le> start e else b < start e)"

definition edge :: "located \<Rightarrow> nat" where
  "edge e = (if loc_op e = InsertAfter then start e else stop e)"

fun chained :: "nat \<Rightarrow> located list \<Rightarrow> bool" where
  "chained b [] = True"
| "chained b (e # es) = (beyond b e \<and> start e \<le> edge e \<and> chained (edge e) es)"

lemma beyond_mono: "beyond b e \<Longrightarrow> a \<le> b \<Longrightarrow> beyond a e"
  by (auto simp: beyond_def split: if_splits)

lemma beyond_edge: "beyond b e \<Longrightarrow> start e \<le> edge e \<Longrightarrow> b \<le> edge e"
  by (auto simp: beyond_def split: if_splits)

lemma chained_beyond: "chained b es \<Longrightarrow> list_all (beyond b) es"
proof (induction es arbitrary: b)
  case (Cons e es)
  then have "list_all (beyond (edge e)) es" "b \<le> edge e" using beyond_edge by auto
  then have "list_all (beyond b) es" by (auto simp: list_all_iff intro: beyond_mono)
  with Cons.prems show ?case by simp
qed simp

subsection \<open>Lines before the first edit\<close>

lemma concat_map_Nil: "list_all (\<lambda>e. f e = []) es \<Longrightarrow> concat (map f es) = []"
  by (induction es) auto

lemma quiet_line: "list_all (\<lambda>e. c \<le> start e) es \<Longrightarrow> n < c \<Longrightarrow> edit_line es n x = [x]"
  by (auto simp: edit_line_def list_ex_iff list_all_iff covers_def put_after_def intro!: concat_map_Nil)

lemma beyond_start: "list_all (beyond b) es \<Longrightarrow> list_all (\<lambda>e. b \<le> start e) es"
  by (auto simp: list_all_iff beyond_def split: if_splits)

lemma edge_line: "list_all (beyond b) es \<Longrightarrow> edit_line es b x = x # concat (map (\<lambda>e. put_after e b) es)"
  by (auto simp: edit_line_def list_ex_iff list_all_iff covers_def beyond_def split: if_splits)

lemma edited_from_append:
  "edited_from es b (xs @ ys) = edited_from es b xs @ edited_from es (b + length xs) ys"
  by (simp add: edited_from_def enumerate_append_eq add.commute add.left_commute)

lemma edited_from_Nil [simp]: "edited_from es b [] = []"
  by (simp add: edited_from_def)

lemma edited_from_Cons: "edited_from es b (x # xs) = edit_line es (b + 1) x @ edited_from es (b + 1) xs"
  by (simp add: edited_from_def)

lemma edited_quiet:
  "list_all (\<lambda>e. c \<le> start e) es \<Longrightarrow> b + length xs < c \<Longrightarrow> edited_from es b xs = xs"
  by (induction xs arbitrary: b) (simp_all add: edited_from_Cons quiet_line)

definition inserts :: "located list \<Rightarrow> nat \<Rightarrow> string list" where
  "inserts es b = concat (map (\<lambda>e. put_after e b) es)"

text \<open>Edits beyond line \<open>b\<close> leave the first \<open>b\<close> lines alone.\<close>

lemma edited_split:
  assumes "list_all (beyond b) es" and "0 < b" and "b \<le> length xs"
  shows "edited es xs = take b xs @ inserts es b @ edited_from es b (drop b xs)"
proof -
  obtain c where c: "b = Suc c" using assms(2) by (cases b) auto
  have xs: "xs = take c xs @ xs ! c # drop b xs"
    using assms(3) c by (metis Cons_nth_drop_Suc Suc_le_lessD append_take_drop_id)
  have len: "length (take c xs) = c" using assms(3) c by simp
  have "edited es xs = edited_from es 0 (take c xs) @ edit_line es b (xs ! c) @ edited_from es b (drop b xs)"
    unfolding edited_def by (subst xs) (simp only: edited_from_append edited_from_Cons len, simp add: c)
  also have "edited_from es 0 (take c xs) = take c xs"
    by (rule edited_quiet [OF beyond_start [OF assms(1)]]) (use len c in simp)
  also have "edit_line es b (xs ! c) = xs ! c # inserts es b"
    using edge_line [OF assms(1)] by (simp add: inserts_def)
  finally show ?thesis
    using assms(3) c by (simp add: take_Suc_conv_app_nth)
qed

subsection \<open>One edit in front\<close>

text \<open>Behind the edge of the first edit it has no say.\<close>

lemma line_behind:
  assumes "edge e < n" and "start e \<le> edge e"
  shows "edit_line (e # es) n x = edit_line es n x"
  using assms by (auto simp: edit_line_def covers_def put_at_def put_after_def edge_def split: if_splits)

lemma edited_behind: "start e \<le> edge e \<Longrightarrow> edge e \<le> b \<Longrightarrow> edited_from (e # es) b xs = edited_from es b xs"
  by (induction xs arbitrary: b) (simp_all add: edited_from_Cons line_behind)

text \<open>The lines a range edit covers, when the others come after its edge.\<close>

lemma line_covered:
  assumes "covers e n" and "list_all (beyond (stop e)) es"
  shows "edit_line (e # es) n x = put_at e n @ (if n = stop e then inserts es n else [])"
proof -
  have "concat (map (\<lambda>e. put_at e n) es) = []" "n \<noteq> stop e \<Longrightarrow> concat (map (\<lambda>e. put_after e n) es) = []"
    using assms by (auto simp: covers_def put_at_def put_after_def beyond_def list_all_iff split: if_splits
        intro!: concat_map_Nil)
  with assms(1) show ?thesis by (auto simp: edit_line_def inserts_def covers_def put_after_def)
qed

lemma edited_covered:
  assumes "loc_op e \<noteq> InsertAfter" and "list_all (beyond (stop e)) es" and "start e \<le> b + 1" and "b + length xs = stop e"
    and "xs \<noteq> []"
  shows "edited_from (e # es) b xs = (if b + 1 = start e then put_at e (start e) else []) @ inserts es (stop e)"
  using assms(3-)
proof (induction xs arbitrary: b)
  case (Cons x xs)
  have cov: "covers e (b + 1)" using assms(1) Cons.prems by (simp add: covers_def)
  have here: "put_at e (b + 1) = (if b + 1 = start e then put_at e (start e) else [])"
    by (simp add: put_at_def)
  show ?case
  proof (cases "xs = []")
    case True
    with Cons.prems line_covered [OF cov assms(2)] here show ?thesis by (simp add: edited_from_Cons)
  next
    case False
    then have "edited_from (e # es) (b + 1) xs = inserts es (stop e)"
      using Cons.IH [of "b + 1"] Cons.prems by simp
    moreover have "b + 1 \<noteq> stop e" using False Cons.prems by (cases xs) auto
    ultimately show ?thesis using line_covered [OF cov assms(2)] here by (simp add: edited_from_Cons)
  qed
qed simp

lemma put_at_kind: "loc_op e \<noteq> InsertAfter \<Longrightarrow> put_at e (start e) = (if loc_op e = Replace then text_lines e else [])"
  by (simp add: put_at_def)

lemma apply_range: "loc_op e \<noteq> InsertAfter \<Longrightarrow>
    apply_one e xs = splice (start e - 1) (stop e - start e + 1) (if loc_op e = Replace then text_lines e else []) xs"
  by (cases "loc_op e") (simp_all add: apply_one_def)

lemma apply_range_edited:
  assumes "loc_op e \<noteq> InsertAfter" and "list_all (beyond (stop e)) es"
    and "0 < start e" and "start e \<le> stop e" and "stop e \<le> length xs"
  shows "apply_one e (edited es xs) = edited (e # es) xs"
proof -
  define s t where "s = start e" and "t = stop e"
  have st: "0 < s" "s \<le> t" "t \<le> length xs" using assms by (simp_all add: s_def t_def)
  have e1: "edited es xs = take t xs @ inserts es t @ edited_from es t (drop t xs)"
    using edited_split [OF assms(2)] st t_def by simp
  have a: "apply_one e (edited es xs) = take (s - 1) xs @ put_at e s @ inserts es t @ edited_from es t (drop t xs)"
    using assms(1) st by (simp add: apply_range e1 splice_def put_at_kind s_def [symmetric] t_def [symmetric] put_at_def)
  have front: "list_all (beyond s) es"
    using assms(2) st beyond_mono by (fastforce simp: list_all_iff t_def)
  have xs: "xs = take (s - 1) xs @ drop (s - 1) (take t xs) @ drop t xs"
    using st by (metis append_take_drop_id append.assoc diff_le_self le_trans min.absorb1 take_take)
  have mid: "length (drop (s - 1) (take t xs)) = t - (s - 1)" using st by simp
  have l1: "length (take (s - 1) xs) = s - 1" using st by simp
  have q: "edited_from (e # es) 0 (take (s - 1) xs) = take (s - 1) xs"
    by (rule edited_quiet [of s]) (use st l1 beyond_start [OF front] in \<open>simp_all add: s_def\<close>)
  have c: "edited_from (e # es) (s - 1) (drop (s - 1) (take t xs)) = put_at e s @ inserts es t"
  proof -
    define ys where "ys = drop (s - 1) (take t xs)"
    have ne: "ys \<noteq> []" and len: "s - 1 + length ys = stop e" and le: "start e \<le> s - 1 + 1"
      using mid st by (auto simp: ys_def s_def t_def)
    from edited_covered [OF assms(1,2) le len ne] st show ?thesis by (simp add: ys_def s_def t_def)
  qed
  have r: "edited_from (e # es) t (drop t xs) = edited_from es t (drop t xs)"
    by (rule edited_behind) (use assms(1) st in \<open>simp_all add: edge_def s_def t_def\<close>)
  have "edited (e # es) xs = edited_from (e # es) 0 (take (s - 1) xs @ drop (s - 1) (take t xs) @ drop t xs)"
    unfolding edited_def by (subst xs) simp
  also have "\<dots> = take (s - 1) xs @ put_at e s @ inserts es t @ edited_from es t (drop t xs)"
    using st c r by (simp only: edited_from_append l1 mid q) simp
  finally show ?thesis using a by simp
qed

lemma apply_insert_edited:
  assumes "loc_op e = InsertAfter" and "list_all (beyond (start e)) es" and "0 < start e" and "start e \<le> length xs"
  shows "apply_one e (edited es xs) = edited (e # es) xs"
proof -
  have es: "list_all (beyond (start e)) (e # es)" using assms(1,2) by (simp add: beyond_def)
  have b: "edited_from (e # es) (start e) ys = edited_from es (start e) ys" for ys
    by (rule edited_behind) (simp_all add: edge_def assms(1))
  have i: "inserts (e # es) (start e) = text_lines e @ inserts es (start e)"
    using assms(1) by (simp add: inserts_def put_after_def)
  show ?thesis
    using assms(1,4) by (simp add: apply_one_def edited_split [OF assms(2-4)] edited_split [OF es assms(3,4)] splice_def b i)
qed

subsection \<open>All edits\<close>

lemma edited_none [simp]: "edited [] xs = xs"
proof -
  have "edited_from [] b xs = xs" for b
    by (induction xs arbitrary: b) (simp_all add: edited_from_Cons edit_line_def)
  then show ?thesis by (simp add: edited_def)
qed

lemma apply_chained:
  assumes "chained b es" and "list_all (\<lambda>e. 0 < start e \<and> edge e \<le> length xs) es"
  shows "foldr apply_one es xs = edited es xs"
  using assms
proof (induction es arbitrary: b)
  case (Cons e es)
  then have ih: "foldr apply_one es xs = edited es xs" and after: "list_all (beyond (edge e)) es"
    using chained_beyond by auto
  show ?case
  proof (cases "loc_op e = InsertAfter")
    case True
    with Cons.prems after ih show ?thesis by (simp add: apply_insert_edited edge_def)
  next
    case False
    with Cons.prems after ih show ?thesis by (simp add: apply_range_edited edge_def)
  qed
qed simp

subsection \<open>What the checks of applyEdits establish\<close>

lemma locate_ok:
  assumes "locate sha1 ls i e = Inr l"
  shows "1 \<le> start l" "start l \<le> stop l" "stop l \<le> length ls" "loc_op l = edit_op e" "edit_index l = i"
    "loc_op l = InsertAfter \<Longrightarrow> stop l = start l"
    "parseAnchor sha1 (anchor e) ls = Inr (start l)"
    "text_lines l = (case new_lines e of None \<Rightarrow> [] | Some xs \<Rightarrow> xs)"
proof -
  have r: "parseAnchor sha1 a ls = Inr n \<Longrightarrow> 1 \<le> n \<and> n \<le> length ls" for a n
    by (auto simp: parseAnchor_def Let_def split: option.splits if_splits)
  show "1 \<le> start l" "start l \<le> stop l" "stop l \<le> length ls" "loc_op l = edit_op e" "edit_index l = i"
    "loc_op l = InsertAfter \<Longrightarrow> stop l = start l" "parseAnchor sha1 (anchor e) ls = Inr (start l)"
    "text_lines l = (case new_lines e of None \<Rightarrow> [] | Some xs \<Rightarrow> xs)"
    using assms r by (auto simp: locate_def end_anchor_def split: sum.splits option.splits if_splits)
qed

lemma locate_all_ok: "locate_all sha1 ls i es = Inr ks \<Longrightarrow>
    list_all2 (\<lambda>e l. \<exists>j. locate sha1 ls j e = Inr l) es ks"
  by (induction es arbitrary: i ks) (auto split: sum.splits)

lemma locate_all_mem: "locate_all sha1 ls i es = Inr ks \<Longrightarrow> k \<in> set ks \<Longrightarrow> \<exists>e \<in> set es. \<exists>j. locate sha1 ls j e = Inr k"
  by (induction es arbitrary: i ks) (fastforce split: sum.splits)+

text \<open>The order in which two edits at one line clash although the check of \<open>applyEdits\<close> passes.\<close>

fun insert_first :: "located list \<Rightarrow> bool" where
  "insert_first (p # c # es) \<longleftrightarrow>
     (loc_op p = InsertAfter \<and> loc_op c \<noteq> InsertAfter \<and> start c \<le> start p) \<or> insert_first (c # es)"
| "insert_first es \<longleftrightarrow> False"

lemma checked_chained:
  assumes "first_overlap es = None" and "\<not> insert_first es"
    and "list_all (\<lambda>e. 1 \<le> start e \<and> start e \<le> stop e \<and> (loc_op e = InsertAfter \<longrightarrow> stop e = start e)) es"
    and "sorted (map start es)" and "es \<noteq> [] \<Longrightarrow> beyond b (hd es)"
  shows "chained b es"
  using assms
proof (induction es arbitrary: b rule: first_overlap.induct)
  case (1 p c es)
  have "beyond (edge p) c"
    using 1(2-5) by (auto simp: overlaps_def beyond_def edge_def split: if_splits)
  with 1 show ?case by (auto simp: edge_def split: if_splits)
qed (auto simp: edge_def)

end
