(* ===== verification/DiffFacts.thy ===== *)
theory DiffFacts
  imports Diff
begin

text \<open>
  The table holds the lengths of longest common subsequences, the script turns the old lines into
  the new ones and keeps as many as can be kept, and the hunks alone are enough to do it.
\<close>

subsection \<open>Longest common subsequences\<close>

fun lcs :: "'a list \<Rightarrow> 'a list \<Rightarrow> nat" where
  "lcs (x # xs) (y # ys) = (if x = y then Suc (lcs xs ys) else max (lcs xs (y # ys)) (lcs (x # xs) ys))"
| "lcs xs ys = 0"

lemma lcs_Nil [simp]: "lcs xs [] = 0"
  by (cases xs) auto

text \<open>No common subsequence is longer.\<close>

lemma lcs_greatest: "subseq zs xs \<Longrightarrow> subseq zs ys \<Longrightarrow> length zs \<le> lcs xs ys"
proof (induction xs ys arbitrary: zs rule: lcs.induct)
  case (1 x xs y ys)
  show ?case
  proof (cases zs)
    case (Cons z zs')
    show ?thesis
    proof (cases "x = y")
      case True
      have "subseq zs' xs" "subseq zs' ys"
        using "1.prems" Cons by (auto split: if_splits intro: subseq_Cons')
      with 1(1) True Cons show ?thesis by simp
    next
      case False
      then have "subseq zs xs \<or> subseq zs ys"
        using "1.prems" Cons by (auto split: if_splits)
      then show ?thesis using 1(2,3) "1.prems" False by fastforce
    qed
  qed simp
qed auto

subsection \<open>The table\<close>

lemma dp_row_lcs:
  "ps = map (\<lambda>j. lcs xs (drop j ys)) [0..<length ys + 1] \<Longrightarrow>
   dp_row x ys ps = map (\<lambda>j. lcs (x # xs) (drop j ys)) [0..<length ys + 1]"
proof (induction ys arbitrary: ps)
  case (Cons y ys)
  define qs where "qs = map (\<lambda>j. lcs xs (drop j ys)) [0..<length ys + 1]"
  have ps: "ps = lcs xs (y # ys) # qs"
    using Cons.prems by (simp add: qs_def map_upt_Suc del: upt_Suc)
  have q0: "hd qs = lcs xs ys" by (simp add: qs_def upt_conv_Cons del: upt_Suc)
  have "dp_row x ys qs = map (\<lambda>j. lcs (x # xs) (drop j ys)) [0..<length ys + 1]"
    by (rule Cons.IH) (simp add: qs_def)
  moreover have "hd (map (\<lambda>j. lcs (x # xs) (drop j ys)) [0..<length ys + 1]) = lcs (x # xs) ys"
    by (simp add: upt_conv_Cons del: upt_Suc)
  ultimately show ?case
    by (simp add: ps q0 Let_def map_upt_Suc del: upt_Suc)
qed simp

lemma dp_table_lcs:
  "dp_table xs ys = map (\<lambda>i. map (\<lambda>j. lcs (drop i xs) (drop j ys)) [0..<length ys + 1]) [0..<length xs + 1]"
proof (induction xs)
  case (Cons x xs)
  have "hd (dp_table xs ys) = map (\<lambda>j. lcs xs (drop j ys)) [0..<length ys + 1]"
    by (simp add: Cons.IH upt_conv_Cons del: upt_Suc)
  from dp_row_lcs [OF this] show ?case
    by (simp add: Cons.IH Let_def map_upt_Suc del: upt_Suc)
qed (simp add: map_replicate_const del: upt_Suc)

lemma dp_cell: "i \<le> length xs \<Longrightarrow> j \<le> length ys \<Longrightarrow> dp_table xs ys ! i ! j = lcs (drop i xs) (drop j ys)"
  by (simp add: dp_table_lcs del: upt_Suc)

subsection \<open>The script\<close>

definition old_side :: "diff_op list \<Rightarrow> string list" where "old_side = side_lines Add"
definition new_side :: "diff_op list \<Rightarrow> string list" where "new_side = side_lines Remove"

definition kept :: "diff_op list \<Rightarrow> nat" where
  "kept ops = length (filter (\<lambda>x. dkind x = Keep) ops)"

lemma side_simps [simp]:
  "old_side [] = []" "new_side [] = []" "kept [] = 0"
  "old_side (x # xs) = (if dkind x = Add then old_side xs else dline x # old_side xs)"
  "new_side (x # xs) = (if dkind x = Remove then new_side xs else dline x # new_side xs)"
  "old_side (xs @ ys) = old_side xs @ old_side ys" "new_side (xs @ ys) = new_side xs @ new_side ys"
  "kept (x # xs) = (if dkind x = Keep then Suc (kept xs) else kept xs)"
  by (simp_all add: old_side_def new_side_def side_lines_def kept_def)

text \<open>Both sides of the rest of the script are the rest of the files, whatever the table says.\<close>

lemma walk_eqs:
  "i < length a \<Longrightarrow> j < length b \<Longrightarrow> a ! i = b ! j \<Longrightarrow>
     walk dp a b i j = \<lparr>dkind = Keep, dline = a ! i, ai = i, bi = j\<rparr> # walk dp a b (i + 1) (j + 1)"
  "i < length a \<Longrightarrow> length b \<le> j \<or> a ! i \<noteq> b ! j \<and> dp ! i ! (j + 1) \<le> dp ! (i + 1) ! j \<Longrightarrow>
     walk dp a b i j = \<lparr>dkind = Remove, dline = a ! i, ai = i, bi = j\<rparr> # walk dp a b (i + 1) j"
  "j < length b \<Longrightarrow> length a \<le> i \<or> a ! i \<noteq> b ! j \<and> \<not> dp ! i ! (j + 1) \<le> dp ! (i + 1) ! j \<Longrightarrow>
     walk dp a b i j = \<lparr>dkind = Add, dline = b ! j, ai = i, bi = j\<rparr> # walk dp a b i (j + 1)"
  "length a \<le> i \<Longrightarrow> length b \<le> j \<Longrightarrow> walk dp a b i j = []"
  by (subst walk.simps, force)+

lemma walk_induct [case_names keep remove add finished]:
  assumes "\<And>i j. i < length a \<Longrightarrow> j < length b \<Longrightarrow> a ! i = b ! j \<Longrightarrow> P (i + 1) (j + 1) \<Longrightarrow> P i j"
    and "\<And>i j. i < length a \<Longrightarrow> length b \<le> j \<or> a ! i \<noteq> b ! j \<and> dp ! i ! (j + 1) \<le> dp ! (i + 1) ! j \<Longrightarrow> P (i + 1) j \<Longrightarrow> P i j"
    and "\<And>i j. j < length b \<Longrightarrow> length a \<le> i \<or> a ! i \<noteq> b ! j \<and> \<not> dp ! i ! (j + 1) \<le> dp ! (i + 1) ! j \<Longrightarrow> P i (j + 1) \<Longrightarrow> P i j"
    and "\<And>i j. length a \<le> i \<Longrightarrow> length b \<le> j \<Longrightarrow> P i j"
  shows "P i j"
proof (induction "(length a - i) + (length b - j)" arbitrary: i j rule: less_induct)
  case less
  show ?case
  proof (cases "i < length a \<or> j < length b")
    case True
    then consider "i < length a" "j < length b" "a ! i = b ! j"
      | "i < length a" "length b \<le> j \<or> a ! i \<noteq> b ! j \<and> dp ! i ! (j + 1) \<le> dp ! (i + 1) ! j"
      | "j < length b" "length a \<le> i \<or> a ! i \<noteq> b ! j \<and> \<not> dp ! i ! (j + 1) \<le> dp ! (i + 1) ! j"
      by fastforce
    then show ?thesis
    proof cases
      case 1
      with less assms(1) show ?thesis by simp
    next
      case 2
      with less [of "i + 1" j] assms(2) show ?thesis by simp
    next
      case 3
      with less [of i "j + 1"] assms(3) show ?thesis by simp
    qed
  qed (use assms(4) in simp)
qed

lemma walk_sides: "i \<le> length a \<Longrightarrow> j \<le> length b \<Longrightarrow>
    old_side (walk dp a b i j) = drop i a \<and> new_side (walk dp a b i j) = drop j b"
  by (induction i j rule: walk_induct [of a b _ dp]) (auto simp: walk_eqs Cons_nth_drop_Suc [symmetric])

lemma lcs_drop:
  assumes "i < length a" and "j < length b"
  shows "lcs (drop i a) (drop j b) = (if a ! i = b ! j then Suc (lcs (drop (Suc i) a) (drop (Suc j) b))
     else max (lcs (drop (Suc i) a) (drop j b)) (lcs (drop i a) (drop (Suc j) b)))"
  using assms by (simp add: Cons_nth_drop_Suc [symmetric])

lemma walk_kept: "i \<le> length a \<Longrightarrow> j \<le> length b \<Longrightarrow>
    kept (walk (dp_table a b) a b i j) = lcs (drop i a) (drop j b)"
proof (induction i j rule: walk_induct [of a b _ "dp_table a b"])
  case (keep i j)
  then show ?case by (simp add: walk_eqs lcs_drop)
next
  case (remove i j)
  then show ?case by (cases "j < length b") (auto simp: walk_eqs lcs_drop dp_cell max_def)
next
  case (add i j)
  then show ?case by (cases "i < length a") (auto simp: walk_eqs lcs_drop dp_cell max_def)
qed (simp add: walk_eqs)

text \<open>Where an operation stands: the lines of each side before it.\<close>

fun placed :: "nat \<Rightarrow> nat \<Rightarrow> diff_op list \<Rightarrow> bool" where
  "placed i j [] = True"
| "placed i j (x # xs) = (ai x = i \<and> bi x = j \<and>
     placed (if dkind x = Add then i else i + 1) (if dkind x = Remove then j else j + 1) xs)"

lemma walk_placed: "placed i j (walk dp a b i j)"
  by (induction i j rule: walk_induct [of a b _ dp]) (simp_all add: walk_eqs)

lemma placed_append:
  "placed i j (xs @ ys) \<longleftrightarrow> placed i j xs \<and> placed (i + length (old_side xs)) (j + length (new_side xs)) ys"
  by (induction xs arbitrary: i j) auto

lemma all_kept_sides: "list_all (\<lambda>x. dkind x = Keep) ops \<Longrightarrow> old_side ops = new_side ops"
  by (induction ops) auto

text \<open>The lines of equal files are all kept.\<close>

lemma walk_same: "i \<le> length a \<Longrightarrow> list_all (\<lambda>x. dkind x = Keep) (walk dp a a i i)"
  by (induction i rule: inc_induct) (simp_all add: walk_eqs)

subsection \<open>Patching with the hunks alone\<close>

text \<open>
  What \<open>patch\<close> does with the hunks: copy the old lines up to the line the header names, put the
  hunk's new side, and skip its old side.
\<close>

fun patch :: "nat \<Rightarrow> string list \<Rightarrow> diff_op list list \<Rightarrow> string list" where
  "patch pos a [] = drop pos a"
| "patch pos a (h # hs) =
     (let s = hunk_start ai Add h - 1
      in slice pos s a @ new_side h @ patch (s + length (old_side h)) a hs)"

lemma placed_start: "placed i j h \<Longrightarrow> h \<noteq> [] \<Longrightarrow> hunk_start ai Add h = i + 1"
proof -
  have "placed i j h \<Longrightarrow> List.find (\<lambda>x. dkind x \<noteq> Add) h = Some x \<Longrightarrow> ai x = i" for x
    by (induction h arbitrary: j) (auto split: if_splits)
  moreover assume "placed i j h" "h \<noteq> []"
  ultimately show ?thesis by (cases h) (auto simp: hunk_start_def split: option.splits)
qed

text \<open>The last change of a hunk, and the kept lines behind it.\<close>

lemma last_change_gap:
  assumes "os = drop n ops" and "lst < n" and "\<And>m. lst < m \<Longrightarrow> m < n \<Longrightarrow> dkind (ops ! m) = Keep" and "n - lst \<le> 2 * c + 1"
    and "last_change c lst n os < m" and "m \<le> last_change c lst n os + 2 * c + 1" and "m < length ops"
  shows "dkind (ops ! m) = Keep"
  using assms
proof (induction c lst n os rule: last_change.induct)
  case (1 c lst n)
  then show ?case by simp
next
  case (2 c lst n o' os)
  then have o': "ops ! n = o'" and os: "os = drop (n + 1) ops" and n: "n < length ops"
    by (metis nth_via_drop) (metis "2.prems"(1) Suc_eq_plus1 drop_Suc list.sel(3) tl_drop, metis "2.prems"(1) drop_all leI list.distinct(1))
  show ?case
  proof (cases "dkind o' = Keep")
    case False
    with "2.prems"(5,6) have m: "last_change c n (n + 1) os < m" "m \<le> last_change c n (n + 1) os + 2 * c + 1" by simp_all
    show ?thesis by (rule "2.IH"(1) [OF False os _ _ _ m "2.prems"(7)]) auto
  next
    case True
    have keeps: "dkind (ops ! q) = Keep" if "lst < q" "q < n + 1" for q
      using 2(5) [of q] that True o' by (cases "q = n") auto
    show ?thesis
    proof (cases "2 * c < n - lst")
      case True
      with True "2.prems"(4-6) \<open>dkind o' = Keep\<close> keeps show ?thesis by simp
    next
      case False
      with "2.prems"(5,6) \<open>dkind o' = Keep\<close>
      have m: "last_change c lst (n + 1) os < m" "m \<le> last_change c lst (n + 1) os + 2 * c + 1" by simp_all
      show ?thesis by (rule "2.IH"(2) [OF _ False os _ keeps _ m "2.prems"(7)]) (use \<open>dkind o' = Keep\<close> "2.prems"(2) False in auto)
    qed
  qed
qed

lemma hunk_gap:
  assumes "k < length ops" and "dkind (ops ! k) \<noteq> Keep" and "hunk_end c k ops \<le> m" and "m < length ops" and "dkind (ops ! m) \<noteq> Keep"
  shows "hunk_end c k ops + c \<le> m"
proof (rule ccontr)
  define l where "l = last_change c k (k + 1) (drop (k + 1) ops)"
  have l: "last_change c k k (drop k ops) = l"
    using assms(1,2) by (simp add: Cons_nth_drop_Suc [symmetric] l_def)
  assume "\<not> hunk_end c k ops + c \<le> m"
  then have "l < m" "m \<le> l + 2 * c + 1" using assms(3,4) l by (auto simp: hunk_end_def)
  with last_change_gap [of "drop (k + 1) ops" "k + 1" ops k c m] assms(4,5) show False by (simp add: l_def)
qed

lemma slice_side: "s \<le> e \<Longrightarrow> side_lines x (take e ops) = side_lines x (take s ops) @ side_lines x (slice s e ops)"
  using append_take_drop_id [of s "take e ops"] unfolding side_lines_def slice_def
  by (metis drop_take filter_append map_append min.absorb1 take_take)

lemma take_slice: "s \<le> e \<Longrightarrow> take e ops = take s ops @ slice s e ops"
  by (metis append_take_drop_id drop_take min.absorb1 slice_def take_take)

lemma drop_slice: "s \<le> e \<Longrightarrow> drop s ops = slice s e ops @ drop e ops"
  by (metis append_take_drop_id drop_drop le_add_diff_inverse2 slice_def)

lemma slice_kept: "(\<And>m. s \<le> m \<Longrightarrow> m < e \<Longrightarrow> m < length ops \<Longrightarrow> dkind (ops ! m) = Keep) \<Longrightarrow> list_all (\<lambda>x. dkind x = Keep) (slice s e ops)"
  by (auto simp: list_all_length slice_def)

lemma patch_hunks:
  assumes "placed 0 0 ops" and "p \<le> k" and "p \<le> length ops"
    and "\<And>m. p \<le> m \<Longrightarrow> m < k \<Longrightarrow> m < length ops \<Longrightarrow> dkind (ops ! m) = Keep"
    and "\<And>m. k \<le> m \<Longrightarrow> m < length ops \<Longrightarrow> dkind (ops ! m) \<noteq> Keep \<Longrightarrow> p = 0 \<or> p + c \<le> m"
  shows "patch (length (old_side (take p ops))) (old_side ops) (map (\<lambda>(s, e). slice s e ops) (hunk_ranges c ops k))
     = new_side (drop p ops)"
  using assms
proof (induction c ops k arbitrary: p rule: hunk_ranges.induct)
  case (1 c ops k)
  have split_old: "old_side ops = old_side (take q ops) @ old_side (drop q ops)" for q
    by (metis append_take_drop_id side_simps(6))
  show ?case
  proof (cases "k < length ops")
    case False
    then have "list_all (\<lambda>x. dkind x = Keep) (drop p ops)"
      using slice_kept [of p "length ops" ops] "1.prems"(4) by (simp add: slice_def)
    with False split_old [of p] show ?thesis by (subst hunk_ranges.simps) (simp add: all_kept_sides)
  next
    case in_range: True
    show ?thesis
    proof (cases "dkind (ops ! k) = Keep")
      case True
      have "patch (length (old_side (take p ops))) (old_side ops) (map (\<lambda>(s, e). slice s e ops) (hunk_ranges c ops (k + 1)))
          = new_side (drop p ops)"
        by (rule "1.IH"(1)) (use "1.prems" in_range True in \<open>auto simp: less_Suc_eq\<close>)
      with in_range True show ?thesis by (subst hunk_ranges.simps) simp
    next
      case False
      define s e where "s = k - c" and "e = hunk_end c k ops"
      have ke: "k < e" and el: "e \<le> length ops" using in_range hunk_end_gt by (auto simp: e_def hunk_end_def)
      have ps: "p \<le> s" and sk: "s \<le> k" using "1.prems"(5) [of k] in_range False by (auto simp: s_def)
      have ih: "patch (length (old_side (take e ops))) (old_side ops) (map (\<lambda>(s, e). slice s e ops) (hunk_ranges c ops e))
          = new_side (drop e ops)"
        unfolding e_def
        by (rule "1.IH"(2)) (use "1.prems"(1) in_range False el hunk_gap [OF in_range False] in \<open>auto simp: e_def\<close>)
      have keeps: "list_all (\<lambda>x. dkind x = Keep) (slice p s ops)"
        by (rule slice_kept) (use "1.prems"(4) sk in auto)
      have ops: "ops = take s ops @ slice s e ops @ drop e ops"
        using ke sk by (metis append_take_drop_id drop_slice less_or_eq_imp_le order.strict_trans1)
      have pl: "placed (length (old_side (take s ops))) (length (new_side (take s ops))) (slice s e ops)"
        using "1.prems"(1) by (subst (asm) ops) (simp add: placed_append)
      have ne: "slice s e ops \<noteq> []" using ke sk el by (simp add: slice_def)
      have cut: "take s ops = take p ops @ slice p s ops" using ps by (rule take_slice)
      have mid: "slice (length (old_side (take p ops))) (length (old_side (take s ops))) (old_side ops) = new_side (slice p s ops)"
        using all_kept_sides [OF keeps] by (subst ops) (simp add: cut slice_def)
      have end_: "length (old_side (take s ops)) + length (old_side (slice s e ops)) = length (old_side (take e ops))"
        using take_slice [of s e ops] ke sk by simp
      have "drop p ops = slice p s ops @ slice s e ops @ drop e ops"
        using ps ke sk drop_slice [of p s ops] drop_slice [of s e ops] by simp
      then show ?thesis
        using in_range False
        by (subst hunk_ranges.simps)
          (simp add: s_def [symmetric] e_def [symmetric] placed_start [OF pl ne] mid end_ ih)
    qed
  qed
qed

lemma script_facts:
  "old_side (script a b) = a" "new_side (script a b) = b" "kept (script a b) = lcs a b" "placed 0 0 (script a b)"
  using walk_sides [of 0 a 0 b "dp_table a b"] walk_kept [of 0 a 0 b] walk_placed [of 0 0 "dp_table a b" a b]
  by (simp_all add: script_def)

lemma script_same: "list_all (\<lambda>x. dkind x = Keep) (script a b) \<longleftrightarrow> a = b"
  using all_kept_sides [of "script a b"] walk_same [of 0 a "dp_table a a"]
  by (auto simp: script_facts script_def [symmetric])

lemma text_to_lines_inj: "text_to_lines s = text_to_lines t \<longleftrightarrow> s = t"
  by (metis join_split_on split_on_nonempty text_to_lines_def)

end
