(* ===== verification/FileProps.thy ===== *)
theory FileProps
  imports TrashFacts HashlineFacts DiffFacts
begin

text \<open>
  The properties of the file operations: the anchored edits, the diff of a plan, what a rollback
  restores, the index of the trash, and who approves a change of a file.  Their witnesses run on
  the disk \<open>small_disk\<close> of the host \<open>box\<close>.
\<close>

subsection \<open>A disk to run on\<close>

definition box :: host where
  "box = \<lparr>home_dir = ''/root'', trash_dir = ''/t'', realpath_of = Some, random_id = (\<lambda>n. show_nat n @ ''-uuid''), lossy = (\<lambda>_. ''?''),
     write_fault = (\<lambda>p c. None), no_mkdir = (\<lambda>p. False), device = (\<lambda>p. 0), copy_fails = (\<lambda>p. False), copy_left = (\<lambda>p. None)\<rparr>"

definition small_disk :: disk where
  "small_disk = \<lparr>files = (\<lambda>_. None)(''/'' \<mapsto> Dir 493, ''/t'' \<mapsto> Dir 493, ''/srv'' \<mapsto> Dir 493, ''/srv/a'' \<mapsto> File (Plain ''old'') 416),
     wall_clock = 5, ids_drawn = 0, parked = []\<rparr>"

definition disk_ctx :: "string \<Rightarrow> disk ctx" where
  "disk_ctx answer = \<lparr>clock = wall_clock, uuid = show_nat, sha256 = (\<lambda>t. t), max_failures = 3,
     severity = (\<lambda>s. (Inr 0, s)), waitForAnswer = (\<lambda>q w. (answer, w)), answer_or_timeout = (\<lambda>q ms w. (answer, w)),
     acquire = (\<lambda>w. w), getSetting = (\<lambda>_. None), lifelineConfirmMs = None\<rparr>"

definition disk_world :: "disk \<Rightarrow> disk world" where
  "disk_world d = \<lparr>srv = d, optab = [], memtab = [], note_bus = \<lparr>configured = False, settings = (\<lambda>_. None), secrets = (\<lambda>_. None),
     note_table = [], clients = 0, notices = [], posted = []\<rparr>, sent = [], retry_ledger = None,
     draws = 0, cancelled = [], reflected = [], hooks = []\<rparr>"

text \<open>The oracle and the waits leave the disk alone.\<close>

definition still :: "disk ctx \<Rightarrow> bool" where
  "still c \<longleftrightarrow> (\<forall>s. snd (severity c s) = s) \<and> (\<forall>q ms w. srv (snd (answer_or_timeout c q ms w)) = srv w)"

lemma still_disk_ctx [simp]: "still (disk_ctx a)"
  by (simp add: still_def disk_ctx_def)

subsection \<open>Edits and diffs\<close>


definition two_lines :: string where "two_lines = ''a'' @ [NL] @ ''b'' @ [NL]"

definition edit_at :: "string \<Rightarrow> edit_op \<Rightarrow> string list option \<Rightarrow> anchored_edit" where
  "edit_at a k ls = \<lparr>anchor = a, to_anchor = None, edit_op = k, new_lines = ls\<rparr>"



text \<open>
  The order the check lets pass: an insertion after line 1 listed before the deletion of line 1
  lands after line 2.
\<close>

lemma insertion_before_change_is_misplaced:
  "applyEdits (\<lambda>t. ''00ff00'') two_lines [edit_at ''1:00ff'' InsertAfter (Some [''x'']), edit_at ''1:00ff'' Delete None]
     = Inr (''b'' @ [NL] @ ''x'' @ [NL])"
  "applyEdits (\<lambda>t. ''00ff00'') two_lines [edit_at ''1:00ff'' Delete None, edit_at ''1:00ff'' InsertAfter (Some [''x''])]
     = Inr (''x'' @ [NL] @ ''b'' @ [NL])"
  by code_simp+

text \<open>
  C18. The diff of a plan is exact: its script turns the old lines into the new and keeps as many
  as any common subsequence has; the hunks alone, applied at the lines their headers name, turn
  the old lines into the new whatever the context; and the diff is empty only for equal texts.
\<close>

theorem diff_is_exact:
  "old_side (script a b) = a \<and> new_side (script a b) = b \<and>
   \<not> (\<exists>zs. subseq zs a \<and> subseq zs b \<and> kept (script a b) < length zs) \<and>
   patch 0 a (hunks n (script a b)) = b \<and>
   (unifiedDiff old new path n = [] \<longleftrightarrow> old = new \<and> length (text_to_lines old) \<le> MAX_LINES)"
proof -
  have "patch 0 a (hunks n (script a b)) = b"
    using patch_hunks [OF script_facts(4) [of a b], of 0 0 n] by (simp add: script_facts hunks_def)
  moreover have "kept (script a b) < length zs \<Longrightarrow> subseq zs a \<Longrightarrow> subseq zs b \<Longrightarrow> False" for zs
    using lcs_greatest [of zs a b] by (simp add: script_facts)
  moreover have "unifiedDiff old new path n = [] \<longleftrightarrow> old = new \<and> length (text_to_lines old) \<le> MAX_LINES"
    by (auto simp: unifiedDiff_def Let_def script_same text_to_lines_inj)
  ultimately show ?thesis by (auto simp: script_facts)
qed

text \<open>
  The redaction goes line by line: a line of the body of a private key, which only the block around
  it gives away, stays in the diff of a plan whatever stands before it.
\<close>

lemma join_snoc: "xs \<noteq> [] \<Longrightarrow> join d (xs @ [y]) = join d xs @ d @ y"
  by (induction d xs rule: join.induct) (auto simp: join_Cons)

lemma key_bodies_survive_in_diffs:
  "redactDiffForPlan (diff @ [NL] @ ''-MIIabc'') = redactDiffForPlan diff @ [NL] @ ''-MIIabc''"
proof -
  have "redact_secrets_in_text ''-MIIabc'' = ''-MIIabc''" by code_simp
  moreover have "split_on NL (diff @ [NL] @ ''-MIIabc'') = split_on NL diff @ [''-MIIabc'']"
    using split_on_append_sep [of NL diff "''-MIIabc''"] by simp
  ultimately show ?thesis by (simp add: redactDiffForPlan_def join_snoc)
qed

subsection \<open>What a rollback restores\<close>



definition some_plan :: "cmd_class \<Rightarrow> op_plan" where
  "some_plan k = \<lparr>summary = [], plan_auto = False, plan_details = [], plan_class = Some k, plan_writes = Some [''/srv''],
     plan_network = None, irreversible = False, plan_warning = None, expects = None, rollback_when = None,
     scope_evidence = None, dry_run = None\<rparr>"

text \<open>When apply throws the operation is rolled back, whatever the rest of the daemon does with it.\<close>

lemma throwing_apply:
  assumes "captureState k params (snd (severity c (srv w))) = (Inr cap, s1)" and "fst (apply_op k params s1) = Inl e"
  shows "fst (locked_op c k goal i params plan w) = Inr (ORolledback, ''Failed to apply - '' @ goal @ '': '' @ error_string e)"
  using assms by (cases "apply_op k params s1")
    (simp add: locked_op_def undo_op_def finish_def Let_def on_srv_def case_prod_unfold emit_def to_phase_def)



text \<open>
  A \<open>file.delete\<close> reported as rolled back leaves the whole tree at its path as it was: every
  file and directory at and under it, with content and mode.
\<close>

theorem rolled_back_delete_is_undone:
  assumes "delete_can h params (srv w)" and "still c"
    and "fst (locked_op c (fileDeleteKind h tree_size) goal i params plan w) = Inr (ORolledback, m)"
  shows "shown_tree (path_of params) (srv (snd (locked_op c (fileDeleteKind h tree_size) goal i params plan w)))
    = shown_tree (path_of params) (srv w)"
proof (rule file_delete.rolled_back_restores [OF _ assms(1,3)])
  show "file_delete.quiet params h c" using assms(2) by (simp add: file_delete.quiet_def still_def)
qed

definition delete_a :: json where
  "delete_a = JObj [(''path'', JStr ''/srv/a'')]"

text \<open>The index of the trash cannot be written, so apply throws after the move.\<close>

definition mute_box :: host where
  "mute_box = box\<lparr>write_fault := (\<lambda>p c. if p = ''/t/index.jsonl'' then Some None else None)\<rparr>"

theorem rolled_back_delete_is_undone_witness:
  "\<exists>w. \<not> exists_at (snd (delete_apply mute_box delete_a (snd (delete_capture mute_box (\<lambda>p d. 0) delete_a (srv w))))) ''/srv/a'' \<and>
     shown_tree ''/srv/a'' (srv (snd (locked_op (disk_ctx ''no'') (fileDeleteKind mute_box (\<lambda>p d. 0)) ''goal'' ''1'' delete_a (some_plan Destructive) w))) []
       = Some (File (Plain ''old'') 416)"
proof -
  let ?k = "fileDeleteKind mute_box (\<lambda>p d. 0)"
  have can: "delete_can mute_box delete_a (srv (disk_world small_disk))" by code_simp
  have "map_sum (\<lambda>e. e) (\<lambda>_. ()) (fst (delete_capture mute_box (\<lambda>p d. 0) delete_a small_disk)) = Inr ()" by code_simp
  then obtain cap where "fst (delete_capture mute_box (\<lambda>p d. 0) delete_a small_disk) = Inr cap"
    by (cases "fst (delete_capture mute_box (\<lambda>p d. 0) delete_a small_disk)") auto
  then have cap: "captureState ?k delete_a (snd (severity (disk_ctx ''no'') (srv (disk_world small_disk)))) =
      (Inr cap, snd (delete_capture mute_box (\<lambda>p d. 0) delete_a small_disk))"
    by (simp add: fileDeleteKind_def disk_ctx_def disk_world_def prod_eq_iff)
  have "fst (apply_op ?k delete_a (snd (delete_capture mute_box (\<lambda>p d. 0) delete_a small_disk))) = Inl (fs_error ''EACCES'' ''/t/index.jsonl'')"
    by code_simp
  note run = throwing_apply [OF cap this]
  have path: "path_of delete_a = ''/srv/a''" and old: "shown_tree ''/srv/a'' (srv (disk_world small_disk)) [] = Some (File (Plain ''old'') 416)"
    and gone: "\<not> exists_at (snd (delete_apply mute_box delete_a (snd (delete_capture mute_box (\<lambda>p d. 0) delete_a (srv (disk_world small_disk)))))) ''/srv/a''"
    by code_simp+
  from rolled_back_delete_is_undone [OF can still_disk_ctx run] old gone show ?thesis unfolding path by (intro exI [of _ "disk_world small_disk"]) simp
qed

text \<open>A secret file that stood there is not restored: its old content is never captured.\<close>

lemma overwritten_secret_file_is_lost:
  "let p = JObj [(''path'', JStr ''/srv/a''), (''template'', JStr ''k={{secret:x}}'')]; d = small_disk;
       d1 = snd (secret_rollback p (JObj [(''existed'', JBool True)]) (snd (secret_apply (\<lambda>_. Some ''s'') box p d)))
   in fst (secret_capture p d) = Inr (JObj [(''existed'', JBool True)]) \<and> shown ''/srv/a'' d = Some (File (Plain ''old'') 416) \<and>
      shown ''/srv/a'' d1 = Some (File (Plain ''k=s'') 384)"
  by code_simp

subsection \<open>The trash\<close>

text \<open>
  C20. The index file implements a table of the trash: when it replays to a table, a trashing that
  succeeds leaves it replaying to the table with that entry, and a restoring that succeeds to the
  table without it; \<open>listTrash\<close> returns the entries of the table whose paths still exist.
\<close>

theorem trash_index_is_a_table:
  assumes "index_holds h d m" and "clear_of_index h (originalPath e) (trashedPath e)" and "clear_of_index h (trashedPath e) (originalPath e)"
  shows "(moveToTrash h e d = (Inr (), d') \<longrightarrow> index_holds h d' (AList.update (JStr (te_id e)) (entry_json e) m)) \<and>
    (restoreFromTrash h e d = (Inr (), d') \<longrightarrow> index_holds h d' (AList.delete (JStr (te_id e)) m)) \<and>
    listTrash h d = Inr (filter (still_there d) (map snd m))"
proof -
  have "index_holds h d' (AList.update (JStr (te_id e)) (entry_json e) m)" if run: "moveToTrash h e d = (Inr (), d')"
  proof (rule moveToTrash_ok [OF run])
    fix d1
    assume mv: "move h (originalPath e) (trashedPath e) d = (Inr (), d1)"
      and app: "append_text h (index_path h) (trashed_line e) d1 = (Inr (), d')"
    have "index_holds h d1 m" using assms(1) index_holds_cong [OF move_index [OF assms(2) mv]] by simp
    from append_index [OF this app [unfolded trashed_line_def index_line_def] index_line_reads(1) [OF fields_facts(1,2)] trashed_line_replay]
    show ?thesis .
  qed
  moreover have "index_holds h d' (AList.delete (JStr (te_id e)) m)" if run: "restoreFromTrash h e d = (Inr (), d')"
  proof (rule restoreFromTrash_ok [OF run])
    fix d1
    assume mv: "move h (trashedPath e) (originalPath e) d = (Inr (), d1)"
      and app: "append_text h (index_path h) (restored_line (wall_clock d1) e) d1 = (Inr (), d')"
    have "index_holds h d1 m" using assms(1) index_holds_cong [OF move_index [OF assms(3) mv]] by simp
    from append_index [OF this app [unfolded restored_line_def index_line_def] index_line_reads(1) [OF fields_facts(3,4)] restored_line_replay]
    show ?thesis .
  qed
  moreover have "listTrash h d = Inr (filter (still_there d) (map snd m))" by (rule listTrash_holds [OF assms(1)])
  ultimately show ?thesis by blast
qed

definition a_entry :: trash_entry where
  "a_entry = fst (trashDestination box ''/srv/a'' small_disk)"

theorem trash_index_is_a_table_witness:
  "index_holds box (snd (moveToTrash box a_entry small_disk)) [(JStr (te_id a_entry), entry_json a_entry)]"
proof -
  have "files small_disk (index_path box) = None" by code_simp
  then have empty: "index_holds box small_disk []" by (simp add: index_holds_def)
  have run: "moveToTrash box a_entry small_disk = (Inr (), snd (moveToTrash box a_entry small_disk))"
  proof -
    have "fst (moveToTrash box a_entry small_disk) = Inr ()" by code_simp
    then show ?thesis by (simp add: prod_eq_iff)
  qed
  have clear: "clear_of_index box (originalPath a_entry) (trashedPath a_entry)" "clear_of_index box (trashedPath a_entry) (originalPath a_entry)"
    by code_simp+
  from trash_index_is_a_table [OF empty clear, of "snd (moveToTrash box a_entry small_disk)"] run show ?thesis by simp
qed

text \<open>
  A line torn by a crash has no newline of its own: the next entry is appended to it and is lost
  with it, although its move succeeded.
\<close>

lemma torn_line_swallows_the_next_entry:
  "let d = put_node ''/t/index.jsonl'' (Some (File (Plain ''{'') 420)) small_disk;
       d1 = snd (moveToTrash box a_entry d)
   in fst (moveToTrash box a_entry d) = Inr () \<and> exists_at d1 (trashedPath a_entry) \<and> listTrash box d1 = Inr []"
  by code_simp

subsection \<open>Who approves a change of a file\<close>

definition file_kinds :: "(string \<Rightarrow> string) \<Rightarrow> (string \<Rightarrow> string option) \<Rightarrow> host \<Rightarrow> (string \<Rightarrow> disk \<Rightarrow> nat) \<Rightarrow> disk kind list" where
  "file_kinds sha1 secret h tree_size = [fileWriteKind h, fileEditKind sha1 h, fileDeleteKind h tree_size, secretFileKind secret h]"

definition plan_of_file :: "host \<Rightarrow> disk \<Rightarrow> string \<Rightarrow> op_plan \<Rightarrow> bool" where
  "plan_of_file h d p plan \<longleftrightarrow> \<not> touches_secret h d p \<and> \<not> plan_auto plan \<and> \<not> irreversible plan \<and>
     plan_class plan \<in> (if touches_lifeline h d p then {Some Lifeline} else {Some Mutate, Some Destructive})"

lemma plan_fields [simp]:
  "plan_auto (write_plan h p d t) = False" "irreversible (write_plan h p d t) = False"
  "plan_class (write_plan h p d t) = Some (if touches_lifeline h d (path_of p) then Lifeline else Mutate)"
  "plan_auto (edit_plan h p d u) = False" "irreversible (edit_plan h p d u) = False"
  "plan_class (edit_plan h p d u) = Some (if touches_lifeline h d (path_of p) then Lifeline else Mutate)"
  "plan_auto (delete_plan h n p d) = False" "irreversible (delete_plan h n p d) = False"
  "plan_class (delete_plan h n p d) = Some (if touches_lifeline h d (path_of p) then Lifeline else Destructive)"
  "plan_auto (secret_plan h p d) = False" "irreversible (secret_plan h p d) = False"
  "plan_class (secret_plan h p d) = Some (if touches_lifeline h d (path_of p) then Lifeline else Mutate)"
  by (simp_all add: write_plan_def edit_plan_def delete_plan_def secret_plan_def Let_def)

lemma write_describe_plan: "fst (write_describe h params d) = Inr plan \<Longrightarrow> plan_of_file h d (path_of params) plan"
  by (cases "previous_text h d (path_of params)") (auto simp: write_describe_def plan_of_file_def split: if_splits)

lemma edit_describe_plan: "fst (edit_describe sha1 h params d) = Inr plan \<Longrightarrow> plan_of_file h d (path_of params) plan"
  by (auto simp: edit_describe_def Let_def plan_of_file_def split: if_splits sum.splits)

lemma delete_describe_plan: "fst (delete_describe h n params d) = Inr plan \<Longrightarrow> plan_of_file h d (path_of params) plan"
  by (auto simp: delete_describe_def plan_of_file_def split: if_splits)

lemma secret_describe_plan: "fst (secret_describe h params d) = Inr plan \<Longrightarrow> plan_of_file h d (path_of params) plan"
  by (auto simp: secret_describe_def plan_of_file_def split: if_splits)

lemmas describe_plans = write_describe_plan edit_describe_plan delete_describe_plan secret_describe_plan

lemma file_describe:
  assumes "k \<in> set (file_kinds sha1 secret h tree_size)" and "fst (describe k params d) = Inr plan"
  shows "plan_of_file h d (path_of params) plan"
proof -
  have "describe k \<in> {write_describe h, edit_describe sha1 h, delete_describe h tree_size, secret_describe h}"
    using assms(1) by (auto simp: file_kinds_def fileWriteKind_def fileEditKind_def fileDeleteKind_def secretFileKind_def)
  then show ?thesis using assms(2) describe_plans by auto
qed

text \<open>
  C21. No change of a file runs by itself: a \<open>file.write\<close>, \<open>file.edit\<close>, \<open>file.delete\<close> or \<open>secret.file\<close>
  that is reported as committed was approved by a human who saw its plan, its path is no secret
  material, by name or through its links, and its class was lifeline when the path is lifeline.
\<close>

theorem file_changes_are_approved:
  assumes "k \<in> set (file_kinds sha1 secret h tree_size)" and "fst (runOperation c k goal params w) = Inr (OCommitted, m)"
  shows "\<exists>plan i. fst (describe k params (srv w)) = Inr plan \<and> plan_of_file h (srv w) (path_of params) plan \<and> approved c i"
proof (cases rule: run_cases [of c k goal params w])
  case (planned plan i u)
  have plan: "plan_of_file h (srv w) (path_of params) plan" using file_describe [OF assms(1) planned(1)] .
  then have "\<not> auto_allowed c plan u" by (simp add: plan_of_file_def auto_allowed_def effectiveAutoApprove_def)
  moreover have "fst (planned_op c k goal i params plan u) = Inr (OCommitted, m)" using assms(2) planned(5) by simp
  ultimately have "approved c i"
    by (cases rule: planned_cases [of c plan u k goal i params]) (auto simp: approved_def finish_def)
  with planned(1) plan show ?thesis by blast
qed (use assms(2) in auto)

text \<open>A run in which every step succeeds and the owner approves.\<close>

lemma smooth_run:
  assumes "retry_ledger w = None" and "optab w = []" and "describe k params (srv w) = (Inr plan, srv w)"
    and "badWriteScope (plan_writes plan) = None" and "\<not> plan_auto plan" and "plan_class plan = Some Destructive"
    and "captureState k params (srv w) = (Inr cap, s1)" and "apply_op k params s1 = (Inr (), s2)" and "verify k params s2 = (Inr True, s2)"
  shows "fst (runOperation (disk_ctx ''approve'') k goal params w) = Inr (OCommitted, ''Done - '' @ goal @ '', verified.'')"
  using assms by (simp add: runOperation_def planned_op_def locked_op_def verify_step_def commit_op_def finish_def disk_ctx_def Let_def
      on_srv_def draw_def create_operation_def emit_def to_phase_def effectiveAutoApprove_def)

theorem file_changes_are_approved_witness:
  "\<exists>plan i. fst (describe (fileDeleteKind box (\<lambda>p d. 0)) delete_a small_disk) = Inr plan \<and> plan_of_file box small_disk ''/srv/a'' plan \<and>
     approved (disk_ctx ''approve'') i"
proof -
  let ?k = "fileDeleteKind box (\<lambda>p d. 0)"
  define s1 where "s1 = snd (delete_capture box (\<lambda>p d. 0) delete_a small_disk)"
  define s2 where "s2 = snd (delete_apply box delete_a s1)"
  have "\<not> touches_secret box small_disk (path_of delete_a)" "exists_at small_disk (path_of delete_a)" by code_simp+
  then have d: "describe ?k delete_a small_disk = (Inr (delete_plan box (\<lambda>p d. 0) delete_a small_disk), small_disk)"
    by (simp add: fileDeleteKind_def delete_describe_def)
  have "badWriteScope (Some [dirname (path_of delete_a), trash_dir box]) = None" by code_simp
  then have scope: "badWriteScope (plan_writes (delete_plan box (\<lambda>p d. 0) delete_a small_disk)) = None"
    by (simp add: delete_plan_def Let_def)
  have "\<not> touches_lifeline box small_disk (path_of delete_a)" by code_simp
  then have cl: "plan_class (delete_plan box (\<lambda>p d. 0) delete_a small_disk) = Some Destructive" by simp
  have "map_sum (\<lambda>e. e) (\<lambda>_. ()) (fst (delete_capture box (\<lambda>p d. 0) delete_a small_disk)) = Inr ()" by code_simp
  then obtain cap where "fst (delete_capture box (\<lambda>p d. 0) delete_a small_disk) = Inr cap"
    by (cases "fst (delete_capture box (\<lambda>p d. 0) delete_a small_disk)") auto
  then have c: "captureState ?k delete_a small_disk = (Inr cap, s1)" by (simp add: fileDeleteKind_def s1_def prod_eq_iff)
  have "fst (delete_apply box delete_a s1) = Inr ()" unfolding s1_def by code_simp
  then have a: "apply_op ?k delete_a s1 = (Inr (), s2)" by (simp add: fileDeleteKind_def s2_def prod_eq_iff)
  have "\<not> exists_at s2 (path_of delete_a)" unfolding s2_def s1_def by code_simp
  then have v: "verify ?k delete_a s2 = (Inr True, s2)" by (simp add: fileDeleteKind_def delete_verify_def)
  have w: "retry_ledger (disk_world small_disk) = None" "optab (disk_world small_disk) = []" "srv (disk_world small_disk) = small_disk"
    by (simp_all add: disk_world_def)
  have run: "fst (runOperation (disk_ctx ''approve'') ?k goal delete_a (disk_world small_disk)) = Inr (OCommitted, ''Done - '' @ goal @ '', verified.'')" for goal
    by (rule smooth_run [OF w(1,2)]) (unfold w(3), rule d, rule scope, simp, rule cl, rule c, rule a, rule v)
  have mem: "?k \<in> set (file_kinds (\<lambda>t. t) (\<lambda>_. None) box (\<lambda>p d. 0))" by (simp add: file_kinds_def)
  have path: "path_of delete_a = ''/srv/a''" by code_simp
  from file_changes_are_approved [OF mem run] show ?thesis unfolding w(3) path .
qed

end
