(* ===== verification/Devices.thy ===== *)
theory Devices
  imports Wire Notify
begin

text \<open>
  Paired devices and pairing codes (\<open>apps/mirod/src/devices/store.ts\<close>), the phase a remote
  connection goes through before it is served (\<open>acceptLoop\<close> in \<open>apps/mirod/src/index.ts\<close>) and the
  pairing endpoints of the web server (\<open>apps/mirod/src/web/serve.ts\<close>).

  The two tables are lists of rows in rowid order.  SHA-256 is the argument \<open>sha\<close>; the random
  bytes a call draws are arguments: the 32-bit words \<open>mintPairingCode\<close> tries one after the other, the
  id and the token of a new device.
\<close>

subsection \<open>Tables\<close>

record device_row =
  dev_id :: string
  dev_name :: string
  dev_transport :: string
  token_hash :: string
  dev_created :: int
  dev_seen :: "int option"
  dev_revoked :: "int option"

record code_row =
  code_text :: string
  code_created :: int
  code_expires :: int
  code_used :: "int option"
  code_used_by :: "string option"

record device_db =
  devices :: "device_row list"
  codes :: "code_row list"

text \<open>\<open>fromRow\<close>: a device is its row without the hash.\<close>

record device =
  d_id :: string
  d_name :: string
  d_transport :: string
  d_created :: int
  d_seen :: "int option"
  d_revoked :: "int option"

definition from_row :: "device_row \<Rightarrow> device" where
  "from_row r = \<lparr>d_id = dev_id r, d_name = dev_name r, d_transport = dev_transport r, d_created = dev_created r,
     d_seen = dev_seen r, d_revoked = dev_revoked r\<rparr>"

definition find_code :: "string \<Rightarrow> device_db \<Rightarrow> code_row option" where
  "find_code c db = List.find (\<lambda>r. code_text r = c) (codes db)"

definition find_device :: "string \<Rightarrow> device_db \<Rightarrow> device_row option" where
  "find_device h db = List.find (\<lambda>r. token_hash r = h) (devices db)"

subsection \<open>Codes\<close>

definition CODE_TTL_MS :: int where "CODE_TTL_MS = 10 * 60 * 1000"

definition pad_start :: "nat \<Rightarrow> char \<Rightarrow> string \<Rightarrow> string" where
  "pad_start n c s = replicate (n - length s) c @ s"

definition code_of :: "int \<Rightarrow> string" where
  "code_of n = pad_start 9 (CHR ''0'') (show_int (n mod 1000000000))"

text \<open>The loop over the draws; \<open>None\<close> means it is still drawing when the given words end.\<close>

fun free_code :: "int list \<Rightarrow> device_db \<Rightarrow> string option" where
  "free_code [] db = None"
| "free_code (n # ns) db = (if find_code (code_of n) db = None then Some (code_of n) else free_code ns db)"

definition new_code :: "int \<Rightarrow> int \<Rightarrow> string \<Rightarrow> code_row" where
  "new_code ttl t c = \<lparr>code_text = c, code_created = t, code_expires = t + ttl, code_used = None, code_used_by = None\<rparr>"

definition mintPairingCode :: "int \<Rightarrow> int \<Rightarrow> int list \<Rightarrow> device_db \<Rightarrow> string option \<times> device_db" where
  "mintPairingCode ttl t draws_of db =
     (case free_code draws_of db of
        None \<Rightarrow> (None, db)
      | Some c \<Rightarrow> (Some c, db\<lparr>codes := filter (\<lambda>r. t - ttl \<le> code_expires r) (codes db @ [new_code ttl t c])\<rparr>))"

subsection \<open>Devices\<close>

text \<open>\<open>Boolean(v)\<close> of a JSON value.\<close>

definition js_truthy :: "json \<Rightarrow> bool" where
  "js_truthy v = (case v of JUndef \<Rightarrow> False | JNull \<Rightarrow> False | JBool b \<Rightarrow> b | JNum i \<Rightarrow> i \<noteq> 0
     | JReal t \<Rightarrow> list_ex (\<lambda>c. is_digit c \<and> c \<noteq> CHR ''0'') t | JStr s \<Rightarrow> s \<noteq> [] | _ \<Rightarrow> True)"

text \<open>\<open>(name || "device").slice(0, 60)\<close>; on any other truthy value the call throws, or the insert of its result does.\<close>

definition clean_name :: "json \<Rightarrow> string option" where
  "clean_name v = (if \<not> js_truthy v then Some ''device'' else map_option (take 60) (as_string v))"

definition type_error :: js_error where "type_error = JsError ''TypeError'' ''''"

definition new_device :: "string \<Rightarrow> string \<Rightarrow> string \<Rightarrow> string \<Rightarrow> int \<Rightarrow> device_row" where
  "new_device i n transport h t = \<lparr>dev_id = i, dev_name = n, dev_transport = transport, token_hash = h, dev_created = t,
     dev_seen = None, dev_revoked = None\<rparr>"

definition createDevice ::
    "(string \<Rightarrow> string) \<Rightarrow> string \<times> string \<Rightarrow> json \<Rightarrow> string \<Rightarrow> int \<Rightarrow> device_db \<Rightarrow> (js_error + device \<times> string) \<times> device_db" where
  "createDevice sha fresh n transport t db =
     (case clean_name n of None \<Rightarrow> (Inl type_error, db)
      | Some clean \<Rightarrow>
          let (i, token) = fresh; r = new_device i clean transport (sha token) t
          in if i \<in> dev_id ` set (devices db) then (Inl (JsError ''SQLiteError'' ''UNIQUE constraint failed: devices.id''), db)
             else if sha token \<in> token_hash ` set (devices db)
             then (Inl (JsError ''SQLiteError'' ''UNIQUE constraint failed: devices.token_hash''), db)
             else (Inr (from_row r, token), db\<lparr>devices := devices db @ [r]\<rparr>))"

datatype refusal = Unknown | Expired | Used

definition redeemPairingCode ::
    "(string \<Rightarrow> string) \<Rightarrow> string \<times> string \<Rightarrow> string \<Rightarrow> json \<Rightarrow> string \<Rightarrow> int \<Rightarrow> device_db
       \<Rightarrow> (js_error + refusal + device \<times> string) \<times> device_db" where
  "redeemPairingCode sha fresh c n transport t db =
     (case find_code (trim c) db of
        None \<Rightarrow> (Inr (Inl Unknown), db)
      | Some r \<Rightarrow>
          if code_used r \<noteq> None then (Inr (Inl Used), db)
          else if code_expires r < t then (Inr (Inl Expired), db)
          else (case createDevice sha fresh n transport t db of
              (Inl e, db1) \<Rightarrow> (Inl e, db1)
            | (Inr (d, token), db1) \<Rightarrow>
                (Inr (Inr (d, token)),
                 db1\<lparr>codes := map (\<lambda>x. if code_text x = trim c then x\<lparr>code_used := Some t, code_used_by := Some (d_id d)\<rparr> else x)
                        (codes db1)\<rparr>)))"

definition touch :: "int \<Rightarrow> string \<Rightarrow> device_db \<Rightarrow> device_db" where
  "touch t i db = db\<lparr>devices := map (\<lambda>x. if dev_id x = i then x\<lparr>dev_seen := Some t\<rparr> else x) (devices db)\<rparr>"

definition authenticateDevice :: "(string \<Rightarrow> string) \<Rightarrow> string \<Rightarrow> int \<Rightarrow> device_db \<Rightarrow> device option \<times> device_db" where
  "authenticateDevice sha token t db =
     (if token = [] then (None, db)
      else (case find_device (sha token) db of
          None \<Rightarrow> (None, db)
        | Some r \<Rightarrow> if dev_revoked r \<noteq> None then (None, db)
                    else (Some (from_row (r\<lparr>dev_seen := Some t\<rparr>)), touch t (dev_id r) db)))"

text \<open>\<open>ORDER BY created_at DESC\<close>.\<close>

definition listDevices :: "device_db \<Rightarrow> device list" where
  "listDevices db = map from_row (sort_key (\<lambda>r. - dev_created r) (devices db))"

definition revokeDevice :: "string \<Rightarrow> int \<Rightarrow> device_db \<Rightarrow> bool \<times> device_db" where
  "revokeDevice i t db =
     (case List.find (\<lambda>r. dev_id r = i) (devices db) of
        None \<Rightarrow> (False, db)
      | Some r \<Rightarrow> if dev_revoked r \<noteq> None then (False, db)
                  else (True, db\<lparr>devices := map (\<lambda>x. if dev_id x = i then x\<lparr>dev_revoked := Some t\<rparr> else x) (devices db)\<rparr>))"

subsection \<open>The daemon's calls on the tables, as a history\<close>

datatype call =
    Mint int int "int list"
  | Redeem int "string \<times> string" string json string
  | Authenticate int string
  | Revoke int string

datatype answer =
    Minted "string option"
  | Redeemed "js_error + refusal + device \<times> string"
  | Authenticated "device option"
  | Revoked bool

fun perform :: "(string \<Rightarrow> string) \<Rightarrow> call \<Rightarrow> device_db \<Rightarrow> answer \<times> device_db" where
  "perform sha (Mint ttl t ns) db = apfst Minted (mintPairingCode ttl t ns db)"
| "perform sha (Redeem t fresh c n transport) db = apfst Redeemed (redeemPairingCode sha fresh c n transport t db)"
| "perform sha (Authenticate t token) db = apfst Authenticated (authenticateDevice sha token t db)"
| "perform sha (Revoke t i) db = apfst Revoked (revokeDevice i t db)"

text \<open>The log of a history: every call with its answer, oldest first.\<close>

fun history :: "(string \<Rightarrow> string) \<Rightarrow> call list \<Rightarrow> device_db \<Rightarrow> (call \<times> answer) list \<times> device_db" where
  "history sha [] db = ([], db)"
| "history sha (a # as) db =
     (let (r, db1) = perform sha a db; (rs, db2) = history sha as db1 in ((a, r) # rs, db2))"

definition no_devices :: device_db where
  "no_devices = \<lparr>devices = [], codes = []\<rparr>"

subsection \<open>A remote connection before it is authenticated\<close>

record remote =
  r_db :: device_db
  r_sent :: "server_event list"
  r_notes :: "notification list"
  r_draws :: nat
  opened :: nat
  pre_auth :: line_buffer
  own_feed :: line_buffer
  served :: "string list"
  ended :: bool

definition reply_pair :: "pair_result_event \<Rightarrow> remote \<Rightarrow> remote" where
  "reply_pair e c = c\<lparr>r_sent := r_sent c @ [PairResult e]\<rparr>"

definition refuse_pair :: "string \<Rightarrow> remote \<Rightarrow> remote" where
  "refuse_pair why = reply_pair \<lparr>pr_ok = False, pr_token = None, pr_device_id = None, pr_device_name = None, pr_error = Some why\<rparr>"

text \<open>\<open>session.state = createConnectionState(send)\<close>: a fresh line buffer of its own.\<close>

definition open_session :: "remote \<Rightarrow> remote" where
  "open_session c = c\<lparr>opened := opened c + 1, own_feed := empty_buffer\<rparr>"

definition why_refused :: "refusal \<Rightarrow> string" where
  "why_refused r = (case r of Unknown \<Rightarrow> ''no such pairing code'' | Expired \<Rightarrow> ''that pairing code has expired''
     | Used \<Rightarrow> ''that pairing code was already used'')"

definition paired_note :: "device \<Rightarrow> int \<Rightarrow> notification" where
  "paired_note d t = \<lparr>n_tier = WorthKnowing, n_title = ''New device paired'',
     n_body = d_name d @ '' ('' @ d_id d @ '') can now reach Miro remotely. Revoke it with `mirod devices revoke '' @ d_id d @ ''`.'',
     n_source = ''pair'', n_at = t\<rparr>"

definition on_auth :: "(string \<Rightarrow> string) \<Rightarrow> int \<Rightarrow> json \<Rightarrow> remote \<Rightarrow> js_error + remote" where
  "on_auth sha t token c =
     (let refused = ''unknown or revoked device token - pair again with /pair on the server''
      in if \<not> js_truthy token then Inr (refuse_pair refused c)
         else case token of
           JStr s \<Rightarrow>
             (case authenticateDevice sha s t (r_db c) of
                (None, _) \<Rightarrow> Inr (refuse_pair refused c)
              | (Some d, db) \<Rightarrow>
                  Inr (open_session (reply_pair \<lparr>pr_ok = True, pr_token = None, pr_device_id = Some (d_id d),
                    pr_device_name = Some (d_name d), pr_error = None\<rparr> (c\<lparr>r_db := db\<rparr>))))
         | _ \<Rightarrow> Inl type_error)"

definition on_redeem ::
    "(string \<Rightarrow> string) \<Rightarrow> (nat \<Rightarrow> string \<times> string) \<Rightarrow> int \<Rightarrow> json \<Rightarrow> json \<Rightarrow> remote \<Rightarrow> js_error + remote" where
  "on_redeem sha fresh t code n c =
     (case code of
        JStr s \<Rightarrow>
          (let name = (if n = JUndef \<or> n = JNull then JStr ''remote client'' else n)
           in case redeemPairingCode sha (fresh (r_draws c)) s name ''iroh'' t (r_db c) of
                (Inl e, _) \<Rightarrow> Inl e
              | (Inr (Inl why), _) \<Rightarrow> Inr (refuse_pair (why_refused why) c)
              | (Inr (Inr (d, token)), db) \<Rightarrow>
                  Inr ((open_session (reply_pair \<lparr>pr_ok = True, pr_token = Some token, pr_device_id = Some (d_id d),
                    pr_device_name = Some (d_name d), pr_error = None\<rparr> (c\<lparr>r_db := db, r_draws := r_draws c + 1\<rparr>)))
                    \<lparr>r_notes := r_notes c @ [paired_note d t]\<rparr>))
      | _ \<Rightarrow> Inl type_error)"

text \<open>One line handed to the buffer of the phase.  Reading a property of \<open>null\<close> throws.\<close>

definition pre_auth_line ::
    "(string \<Rightarrow> string) \<Rightarrow> (nat \<Rightarrow> string \<times> string) \<Rightarrow> int \<Rightarrow> string \<Rightarrow> remote \<Rightarrow> js_error + remote" where
  "pre_auth_line sha fresh t line c =
     (case json_parse line of
        None \<Rightarrow> Inr (refuse_pair ''malformed message'' c)
      | Some msg \<Rightarrow>
          if msg = JNull then Inl type_error
          else if field ''type'' msg = JStr ''auth'' then on_auth sha t (field ''token'' msg) c
          else if field ''type'' msg = JStr ''pair_redeem'' then on_redeem sha fresh t (field ''code'' msg) (field ''deviceName'' msg) c
          else Inr (refuse_pair ''authenticate first: send auth or pair_redeem'' c))"

fun pre_auth_lines ::
    "(string \<Rightarrow> string) \<Rightarrow> (nat \<Rightarrow> string \<times> string) \<Rightarrow> int \<Rightarrow> string list \<Rightarrow> remote \<Rightarrow> remote" where
  "pre_auth_lines sha fresh t [] c = c"
| "pre_auth_lines sha fresh t (l # ls) c =
     (case pre_auth_line sha fresh t l c of Inl _ \<Rightarrow> c\<lparr>ended := True\<rparr> | Inr c1 \<Rightarrow> pre_auth_lines sha fresh t ls c1)"

text \<open>
  One chunk of the loop over \<open>recv.read\<close>.  Which buffer gets it is decided once per chunk; an
  exception ends the connection.
\<close>

definition on_chunk :: "(string \<Rightarrow> string) \<Rightarrow> (nat \<Rightarrow> string \<times> string) \<Rightarrow> int \<times> string \<Rightarrow> remote \<Rightarrow> remote" where
  "on_chunk sha fresh = (\<lambda>(t, chunk) c.
     if ended c then c
     else if 0 < opened c
     then (let (ls, b) = feed (own_feed c) chunk in c\<lparr>own_feed := b, served := served c @ ls\<rparr>)
     else (let (ls, b) = feed (pre_auth c) chunk in pre_auth_lines sha fresh t ls (c\<lparr>pre_auth := b\<rparr>)))"

definition accepted :: "device_db \<Rightarrow> remote" where
  "accepted db = \<lparr>r_db = db, r_sent = [], r_notes = [], r_draws = 0, opened = 0, pre_auth = empty_buffer,
     own_feed = empty_buffer, served = [], ended = False\<rparr>"

definition remote_run ::
    "(string \<Rightarrow> string) \<Rightarrow> (nat \<Rightarrow> string \<times> string) \<Rightarrow> (int \<times> string) list \<Rightarrow> device_db \<Rightarrow> remote" where
  "remote_run sha fresh chunks db = fold (on_chunk sha fresh) chunks (accepted db)"

subsection \<open>The pairing endpoints of the web server\<close>

definition COOKIE :: string where "COOKIE = ''miro_token''"

text \<open>The first part of the header whose name is the cookie's decides.\<close>

fun cookie_parts :: "string list \<Rightarrow> string option" where
  "cookie_parts [] = None"
| "cookie_parts (p # ps) =
     (case split_on (CHR ''='') (trim p) of
        k # v # vs \<Rightarrow> if k = COOKIE then (let w = trim (join ''='' (v # vs)) in if w \<noteq> [] then Some w else None)
                      else cookie_parts ps
      | _ \<Rightarrow> cookie_parts ps)"

definition tokenFromCookie :: "string option \<Rightarrow> string option" where
  "tokenFromCookie header = (case header of None \<Rightarrow> None | Some h \<Rightarrow> if h = [] then None else cookie_parts (split_on (CHR '';'') h))"

definition cookieFor :: "string \<Rightarrow> bool \<Rightarrow> string" where
  "cookieFor token secure = COOKIE @ ''='' @ token @ ''; '' @
     join ''; '' ([''Path=/'', ''HttpOnly'', ''SameSite=Strict'', ''Max-Age=31536000''] @ (if secure then [''Secure''] else []))"

datatype web_answer =
    Upgraded device
  | Response nat "string list" "json + string"

definition request_device ::
    "(string \<Rightarrow> string) \<Rightarrow> int \<Rightarrow> string option \<Rightarrow> device_db \<Rightarrow> device option \<times> device_db" where
  "request_device sha t cookie db =
     authenticateDevice sha (case tokenFromCookie cookie of None \<Rightarrow> [] | Some s \<Rightarrow> s) t db"

text \<open>The upgrade of \<open>/ws\<close>; \<open>upgradable\<close> is what \<open>server.upgrade\<close> returns.\<close>

definition web_socket ::
    "(string \<Rightarrow> string) \<Rightarrow> int \<Rightarrow> string option \<Rightarrow> bool \<Rightarrow> device_db \<Rightarrow> web_answer \<times> device_db" where
  "web_socket sha t cookie upgradable db =
     (case request_device sha t cookie db of
        (None, db1) \<Rightarrow> (Response 401 [] (Inr ''pair first''), db1)
      | (Some d, db1) \<Rightarrow> (if upgradable then Upgraded d else Response 400 [] (Inr ''expected a websocket upgrade''), db1))"

definition web_session ::
    "(string \<Rightarrow> string) \<Rightarrow> int \<Rightarrow> string option \<Rightarrow> device_db \<Rightarrow> web_answer \<times> device_db" where
  "web_session sha t cookie db =
     (let (d, db1) = request_device sha t cookie db
      in (Response 200 [] (Inl (JObj [(''authenticated'', JBool (d \<noteq> None)),
            (''deviceName'', case d of None \<Rightarrow> JUndef | Some x \<Rightarrow> JStr (d_name x))])), db1))"

definition refused_json :: "string \<Rightarrow> json" where
  "refused_json why = JObj [(''ok'', JBool False), (''error'', JStr why)]"

text \<open>\<open>POST /api/pair\<close>; the argument \<open>body\<close> is \<open>None\<close> when the body is not JSON.  \<open>null\<close> has no fields to read: it throws.\<close>

definition web_pair ::
    "(string \<Rightarrow> string) \<Rightarrow> string \<times> string \<Rightarrow> int \<Rightarrow> bool \<Rightarrow> json option \<Rightarrow> device_db \<Rightarrow> (js_error + web_answer) \<times> device_db" where
  "web_pair sha fresh t secure body db =
     (case body of
        None \<Rightarrow> (Inr (Response 400 [] (Inl (refused_json ''malformed request''))), db)
      | Some b \<Rightarrow>
          if b = JNull then (Inl type_error, db)
          else (let c = (case field ''code'' b of JStr s \<Rightarrow> s | _ \<Rightarrow> []);
                    n = (case field ''deviceName'' b of JStr s \<Rightarrow> if trim s \<noteq> [] then trim s else ''browser'' | _ \<Rightarrow> ''browser'')
                in case redeemPairingCode sha fresh c (JStr n) ''web'' t db of
                     (Inl e, db1) \<Rightarrow> (Inl e, db1)
                   | (Inr (Inl why), db1) \<Rightarrow> (Inr (Response 403 [] (Inl (refused_json (why_refused why)))), db1)
                   | (Inr (Inr (d, token)), db1) \<Rightarrow>
                       (Inr (Response 200 [cookieFor token secure]
                          (Inl (JObj [(''ok'', JBool True), (''deviceId'', JStr (d_id d)), (''deviceName'', JStr (d_name d))]))), db1)))"

end
