(* ===== verification/DeviceFacts.thy ===== *)
theory DeviceFacts
  imports Devices
begin

text \<open>
  What the tables of paired devices keep over any history of calls: the states reached with
  their log (\<open>reached\<close>), and invariants that relate the rows to the log by rule induction.
\<close>

subsection \<open>Histories and the states they reach\<close>

inductive reached :: "(string \<Rightarrow> string) \<Rightarrow> (call \<times> answer) list \<Rightarrow> device_db \<Rightarrow> bool" for sha where
  start: "reached sha [] no_devices"
| step: "reached sha log db \<Longrightarrow> perform sha a db = (r, db') \<Longrightarrow> reached sha (log @ [(a, r)]) db'"

lemma history_reached:
  "reached sha log0 db \<Longrightarrow> history sha calls db = (log, db') \<Longrightarrow> reached sha (log0 @ log) db'"
proof (induction calls arbitrary: log0 db log)
  case Nil
  then show ?case by simp
next
  case (Cons a calls)
  obtain r db1 where p: "perform sha a db = (r, db1)" by fastforce
  obtain rs where h: "history sha calls db1 = (rs, db')" and l: "log = (a, r) # rs"
    using Cons.prems(2) p by (auto split: prod.splits)
  have "reached sha ((log0 @ [(a, r)]) @ rs) db'" by (rule Cons.IH [OF step [OF Cons.prems(1) p] h])
  then show ?case by (simp add: l)
qed

lemma reached_split: "reached sha (before_log @ (a, r) # after_log) db \<Longrightarrow>
    \<exists>db1 db2. reached sha before_log db1 \<and> perform sha a db1 = (r, db2)"
proof (induction "before_log @ (a, r) # after_log" db arbitrary: after_log rule: reached.induct)
  case start
  then show ?case by simp
next
  case (step log db b s db')
  show ?case
  proof (cases after_log rule: rev_cases)
    case Nil
    with step show ?thesis by auto
  next
    case (snoc ys y)
    with step.hyps(4) have "log = before_log @ (a, r) # ys" by auto
    with step.hyps(2) show ?thesis by blast
  qed
qed

lemmas history_split = reached_split [OF history_reached [OF start, simplified]]

subsection \<open>Successful calls of a log\<close>

definition redeemed_code :: "string \<Rightarrow> call \<times> answer \<Rightarrow> bool" where
  "redeemed_code c e \<longleftrightarrow> (\<exists>t f c' n tr x. e = (Redeem t f c' n tr, Redeemed (Inr (Inr x))) \<and> trim c' = c)"

definition issued_token :: "(string \<Rightarrow> string) \<Rightarrow> string \<Rightarrow> string \<Rightarrow> call \<times> answer \<Rightarrow> bool" where
  "issued_token sha i h e \<longleftrightarrow> (\<exists>a d token. e = (a, Redeemed (Inr (Inr (d, token)))) \<and> d_id d = i \<and> sha token = h)"

definition revoked_id :: "string \<Rightarrow> call \<times> answer \<Rightarrow> bool" where
  "revoked_id i e \<longleftrightarrow> (\<exists>t. e = (Revoke t i, Revoked True))"

subsection \<open>What one call does\<close>

lemma apfst_iff [simp]: "apfst f x = (y, z) \<longleftrightarrow> (\<exists>w. x = (w, z) \<and> f w = y)"
  by (cases x) auto

lemma createDevice_cases:
  obtains (failed) e where "createDevice sha fresh n tr t db = (Inl e, db)"
  | (made) clean where "dev_id (new_device (fst fresh) clean tr (sha (snd fresh)) t) \<notin> dev_id ` set (devices db)"
      "createDevice sha fresh n tr t db =
        (Inr (from_row (new_device (fst fresh) clean tr (sha (snd fresh)) t), snd fresh),
         db\<lparr>devices := devices db @ [new_device (fst fresh) clean tr (sha (snd fresh)) t]\<rparr>)"
proof (cases "clean_name n")
  case None
  then show ?thesis using failed by (simp add: createDevice_def)
next
  case (Some clean)
  show ?thesis
  proof (cases "fst fresh \<in> dev_id ` set (devices db) \<or> sha (snd fresh) \<in> token_hash ` set (devices db)")
    case True
    then have "\<exists>e. createDevice sha fresh n tr t db = (Inl e, db)" using Some by (auto simp: createDevice_def case_prod_unfold Let_def)
    then show ?thesis using failed by blast
  next
    case False
    then show ?thesis by (intro made [of clean]) (use Some in \<open>simp_all add: createDevice_def case_prod_unfold new_device_def Let_def\<close>)
  qed
qed

lemma redeem_cases:
  obtains (unchanged) x where "redeemPairingCode sha fresh c n tr t db = (x, db)" "\<nexists>y. x = Inr (Inr y)"
  | (paired) r clean where "find_code (trim c) db = Some r" "code_used r = None" "t \<le> code_expires r"
      "fst fresh \<notin> dev_id ` set (devices db)"
      "redeemPairingCode sha fresh c n tr t db =
        (Inr (Inr (from_row (new_device (fst fresh) clean tr (sha (snd fresh)) t), snd fresh)),
         \<lparr>devices = devices db @ [new_device (fst fresh) clean tr (sha (snd fresh)) t],
          codes = map (\<lambda>x. if code_text x = trim c then x\<lparr>code_used := Some t, code_used_by := Some (fst fresh)\<rparr> else x) (codes db)\<rparr>)"
proof (cases "find_code (trim c) db")
  case None
  then show ?thesis using unchanged by (simp add: redeemPairingCode_def)
next
  case (Some r)
  show ?thesis
  proof (cases "code_used r = None \<and> t \<le> code_expires r")
    case False
    then have "redeemPairingCode sha fresh c n tr t db = (if code_used r \<noteq> None then (Inr (Inl Used), db) else (Inr (Inl Expired), db))"
      using Some by (auto simp: redeemPairingCode_def)
    then show ?thesis by (cases "code_used r = None") (auto intro: unchanged)
  next
    case True
    show ?thesis
    proof (cases rule: createDevice_cases [of sha fresh n tr t db])
      case (failed e)
      with Some True unchanged show ?thesis by (simp add: redeemPairingCode_def)
    next
      case (made clean)
      with Some True paired [OF Some] show ?thesis by (simp add: redeemPairingCode_def from_row_def new_device_def)
    qed
  qed
qed

lemma authenticate_cases:
  obtains (refused) "authenticateDevice sha token t db = (None, db)"
  | (known) r where "find_device (sha token) db = Some r" "dev_revoked r = None"
      "authenticateDevice sha token t db = (Some (from_row (r\<lparr>dev_seen := Some t\<rparr>)), touch t (dev_id r) db)"
proof (cases "token = [] \<or> find_device (sha token) db = None")
  case True
  then show ?thesis by (intro refused) (auto simp: authenticateDevice_def)
next
  case False
  then obtain r where r: "find_device (sha token) db = Some r" by auto
  with False show ?thesis by (cases "dev_revoked r = None") (auto simp: authenticateDevice_def intro: refused known)
qed

lemma revoke_cases:
  obtains (nothing) "revokeDevice i t db = (False, db)"
  | (cut) "i \<in> dev_id ` set (devices db)"
      "revokeDevice i t db = (True, db\<lparr>devices := map (\<lambda>x. if dev_id x = i then x\<lparr>dev_revoked := Some t\<rparr> else x) (devices db)\<rparr>)"
proof (cases "List.find (\<lambda>r. dev_id r = i) (devices db)")
  case None
  then have "revokeDevice i t db = (False, db)" by (simp add: revokeDevice_def)
  then show ?thesis by (rule nothing)
next
  case (Some r)
  then have i: "i \<in> dev_id ` set (devices db)" using List_find_Some_iff [OF Some] by auto
  show ?thesis
  proof (cases "dev_revoked r = None")
    case True
    with Some show ?thesis by (intro cut [OF i]) (simp add: revokeDevice_def)
  next
    case False
    with Some have "revokeDevice i t db = (False, db)" by (simp add: revokeDevice_def)
    then show ?thesis by (rule nothing)
  qed
qed

lemma mint_cases:
  obtains (drawing) "mintPairingCode ttl t ns db = (None, db)"
  | (minted) c where "c \<notin> code_text ` set (codes db)"
      "mintPairingCode ttl t ns db = (Some c, db\<lparr>codes := filter (\<lambda>r. t - ttl \<le> code_expires r) (codes db @ [new_code ttl t c])\<rparr>)"
proof -
  have "c \<notin> code_text ` set (codes db)" if "free_code ns db = Some c" for c
    using that by (induction ns db rule: free_code.induct) (auto simp: find_code_def List_find_None_iff split: if_splits)
  then show ?thesis using drawing minted by (cases "free_code ns db") (auto simp: mintPairingCode_def)
qed

text \<open>The cases of one call on the tables, by what it does to each of them.\<close>

definition mark_used :: "int \<Rightarrow> string \<Rightarrow> string \<Rightarrow> code_row \<Rightarrow> code_row" where
  "mark_used t c i x = (if code_text x = c then x\<lparr>code_used := Some t, code_used_by := Some i\<rparr> else x)"

definition seen_at :: "int \<Rightarrow> string \<Rightarrow> device_row \<Rightarrow> device_row" where
  "seen_at t i x = (if dev_id x = i then x\<lparr>dev_seen := Some t\<rparr> else x)"

definition cut_at :: "int \<Rightarrow> string \<Rightarrow> device_row \<Rightarrow> device_row" where
  "cut_at t i x = (if dev_id x = i then x\<lparr>dev_revoked := Some t\<rparr> else x)"

lemma row_updates [simp]:
  "code_text (mark_used t c i x) = code_text x" "code_expires (mark_used t c i x) = code_expires x"
  "code_used (mark_used t c i x) = (if code_text x = c then Some t else code_used x)"
  "dev_id (seen_at t i y) = dev_id y" "token_hash (seen_at t i y) = token_hash y" "dev_revoked (seen_at t i y) = dev_revoked y"
  "dev_id (cut_at t i y) = dev_id y" "token_hash (cut_at t i y) = token_hash y"
  "dev_revoked (cut_at t i y) = (if dev_id y = i then Some t else dev_revoked y)"
  by (simp_all add: mark_used_def seen_at_def cut_at_def)

lemma new_rows [simp]:
  "dev_id (new_device i n tr h t) = i" "token_hash (new_device i n tr h t) = h" "dev_revoked (new_device i n tr h t) = None"
  "code_text (new_code ttl t c) = c" "code_expires (new_code ttl t c) = t + ttl" "code_used (new_code ttl t c) = None"
  "d_id (from_row r) = dev_id r"
  by (simp_all add: new_device_def new_code_def from_row_def)

lemma perform_cases:
  assumes "perform sha a db = (r, db')"
  obtains (same) "db' = db" "\<forall>c. \<not> redeemed_code c (a, r)" "\<forall>i h. \<not> issued_token sha i h (a, r)" "\<forall>i. \<not> revoked_id i (a, r)"
  | (mint) ttl t ns c where "a = Mint ttl t ns" "r = Minted (Some c)" "c \<notin> code_text ` set (codes db)"
      "devices db' = devices db" "codes db' = filter (\<lambda>x. t - ttl \<le> code_expires x) (codes db @ [new_code ttl t c])"
  | (redeem) t f c n tr row clean where "a = Redeem t f c n tr"
      "r = Redeemed (Inr (Inr (from_row (new_device (fst f) clean tr (sha (snd f)) t), snd f)))"
      "find_code (trim c) db = Some row" "code_used row = None" "t \<le> code_expires row" "fst f \<notin> dev_id ` set (devices db)"
      "devices db' = devices db @ [new_device (fst f) clean tr (sha (snd f)) t]" "codes db' = map (mark_used t (trim c) (fst f)) (codes db)"
  | (authenticate) t token row where "a = Authenticate t token" "r = Authenticated (Some (from_row (row\<lparr>dev_seen := Some t\<rparr>)))"
      "find_device (sha token) db = Some row" "dev_revoked row = None"
      "devices db' = map (seen_at t (dev_id row)) (devices db)" "codes db' = codes db"
  | (revoke) t i where "a = Revoke t i" "r = Revoked True" "i \<in> dev_id ` set (devices db)"
      "devices db' = map (cut_at t i) (devices db)" "codes db' = codes db"
proof -
  note defs = redeemed_code_def issued_token_def revoked_id_def
  show ?thesis
  proof (cases a)
    case (Mint ttl t ns)
    show ?thesis
    proof (cases rule: mint_cases [of ttl t ns db])
      case drawing
      with assms Mint have "r = Minted None" "db' = db" by auto
      with Mint show ?thesis by (intro same) (auto simp: defs)
    next
      case (minted c)
      with assms Mint have "r = Minted (Some c)" "devices db' = devices db"
        "codes db' = filter (\<lambda>x. t - ttl \<le> code_expires x) (codes db @ [new_code ttl t c])" by auto
      from mint [OF Mint this(1) minted(1) this(2,3)] show ?thesis .
    qed
  next
    case (Redeem t f c n tr)
    show ?thesis
    proof (cases rule: redeem_cases [of sha f c n tr t db])
      case (unchanged x)
      with assms Redeem have "r = Redeemed x" "db' = db" by auto
      with unchanged(2) Redeem show ?thesis by (intro same) (auto simp: defs)
    next
      case (paired row clean)
      have "r = Redeemed (Inr (Inr (from_row (new_device (fst f) clean tr (sha (snd f)) t), snd f)))"
        "devices db' = devices db @ [new_device (fst f) clean tr (sha (snd f)) t]" "codes db' = map (mark_used t (trim c) (fst f)) (codes db)"
        using assms unfolding Redeem perform.simps paired(5) by (auto simp: mark_used_def [abs_def])
      from redeem [OF Redeem this(1) paired(1-4) this(2,3)] show ?thesis .
    qed
  next
    case (Authenticate t token)
    with assms show ?thesis using same authenticate
      by (cases rule: authenticate_cases [of sha token t db]) (auto simp: defs touch_def seen_at_def [abs_def])
  next
    case (Revoke t i)
    show ?thesis
    proof (cases rule: revoke_cases [of i t db])
      case nothing
      with assms Revoke have "r = Revoked False" "db' = db" by auto
      with Revoke show ?thesis by (intro same) (auto simp: defs)
    next
      case cut
      with assms Revoke have "r = Revoked True" "devices db' = map (cut_at t i) (devices db)" "codes db' = codes db"
        by (auto simp: cut_at_def [abs_def])
      from revoke [OF Revoke this(1) cut(1) this(2,3)] show ?thesis .
    qed
  qed
qed

subsection \<open>Invariants of the tables\<close>

lemma map_keeps_keys: "(\<And>x. k (f x) = k x) \<Longrightarrow> map k (map f xs) = map k xs"
  by simp

lemma reached_rows: "reached sha log db \<Longrightarrow> distinct (map dev_id (devices db)) \<and> distinct (map code_text (codes db))"
proof (induction rule: reached.induct)
  case start
  then show ?case by (simp add: no_devices_def)
next
  case (step log db a r db')
  then have d: "distinct (map dev_id (devices db))" "distinct (map code_text (codes db))" by auto
  from step.hyps(2) show ?case
  proof (cases rule: perform_cases)
    case (mint ttl t ns c)
    have "distinct (map code_text (codes db @ [new_code ttl t c]))" using d(2) mint(3) by simp
    then have "distinct (map code_text (codes db'))" unfolding mint(5) by (rule distinct_map_filter)
    with mint(4) d show ?thesis by simp
  next
    case (redeem t f c n tr row clean)
    have "map code_text (codes db') = map code_text (codes db)" unfolding redeem(8) by (rule map_keeps_keys) simp
    then have "distinct (map code_text (codes db'))" using d(2) by (simp only:)
    with redeem(6,7) d(1) show ?thesis by auto
  next
    case (authenticate t token row)
    have "map dev_id (devices db') = map dev_id (devices db)" unfolding authenticate(5) by (rule map_keeps_keys) simp
    then have "distinct (map dev_id (devices db'))" using d(1) by (simp only:)
    with authenticate(6) d(2) show ?thesis by simp
  next
    case (revoke t i)
    have "map dev_id (devices db') = map dev_id (devices db)" unfolding revoke(4) by (rule map_keeps_keys) simp
    then have "distinct (map dev_id (devices db'))" using d(1) by (simp only:)
    with revoke(5) d(2) show ?thesis by simp
  qed (use d in auto)
qed

lemma reached_issued: "reached sha log db \<Longrightarrow> row \<in> set (devices db) \<Longrightarrow> \<exists>e \<in> set log. issued_token sha (dev_id row) (token_hash row) e"
proof (induction arbitrary: row rule: reached.induct)
  case start
  then show ?case by (simp add: no_devices_def)
next
  case (step log db a r db')
  have old: ?case if "x \<in> set (devices db)" "dev_id row = dev_id x" "token_hash row = token_hash x" for x
    using step.IH [OF that(1)] that(2,3) by auto
  from step.hyps(2) show ?case
  proof (cases rule: perform_cases)
    case (redeem t f c n tr rw clean)
    then consider "row \<in> set (devices db)" | "row = new_device (fst f) clean tr (sha (snd f)) t" using step.prems by auto
    then show ?thesis
    proof cases
      case 2
      then show ?thesis using redeem(1,2) by (auto simp: issued_token_def)
    qed (use old in auto)
  next
    case (authenticate t token rw)
    with step.prems obtain x where "x \<in> set (devices db)" "dev_id row = dev_id x" "token_hash row = token_hash x" by auto
    then show ?thesis by (rule old)
  next
    case (revoke t i)
    with step.prems obtain x where "x \<in> set (devices db)" "dev_id row = dev_id x" "token_hash row = token_hash x" by auto
    then show ?thesis by (rule old)
  qed (use step.prems old in auto)
qed

definition cut_off :: "string \<Rightarrow> device_db \<Rightarrow> bool" where
  "cut_off i db \<longleftrightarrow> i \<in> dev_id ` set (devices db) \<and> (\<forall>row \<in> set (devices db). dev_id row = i \<longrightarrow> dev_revoked row \<noteq> None)"

lemma reached_revoked: "reached sha log db \<Longrightarrow> e \<in> set log \<Longrightarrow> revoked_id i e \<Longrightarrow> cut_off i db"
proof (induction rule: reached.induct)
  case start
  then show ?case by simp
next
  case (step log db a r db')
  have old: "cut_off i db" if "\<not> revoked_id i (a, r)" using step that by auto
  from step.hyps(2) show ?case
  proof (cases rule: perform_cases)
    case (redeem t f c n tr rw clean)
    with old have "cut_off i db" by (simp add: revoked_id_def)
    with redeem show ?thesis by (auto simp: cut_off_def)
  next
    case (authenticate t token rw)
    with old have "cut_off i db" by (simp add: revoked_id_def)
    with authenticate show ?thesis by (auto simp: cut_off_def image_image)
  next
    case (revoke t j)
    show ?thesis
    proof (cases "i = j")
      case True
      with revoke show ?thesis by (auto simp: cut_off_def image_image)
    next
      case False
      with revoke old have "cut_off i db" by (simp add: revoked_id_def)
      with revoke show ?thesis by (auto simp: cut_off_def image_image)
    qed
  next
    case (mint ttl t ns c)
    with old have "cut_off i db" by (simp add: revoked_id_def)
    with mint show ?thesis by (simp add: cut_off_def)
  qed (use old in simp)
qed

definition minted_before :: "(call \<times> answer) list \<Rightarrow> code_row \<Rightarrow> bool" where
  "minted_before log row \<longleftrightarrow> (\<exists>old ttl t ns new. log = old @ (Mint ttl t ns, Minted (Some (code_text row))) # new \<and>
     code_expires row = t + ttl \<and> (code_used row = None \<longrightarrow> (\<forall>e \<in> set new. \<not> redeemed_code (code_text row) e)))"

lemma minted_before_snoc:
  assumes "minted_before log x" and "code_text row = code_text x" and "code_expires row = code_expires x"
    and "code_used row = None \<Longrightarrow> code_used x = None \<and> \<not> redeemed_code (code_text x) e"
  shows "minted_before (log @ [e]) row"
proof -
  obtain old ttl t ns new where l: "log = old @ (Mint ttl t ns, Minted (Some (code_text x))) # new" "code_expires x = t + ttl"
    "code_used x = None \<longrightarrow> (\<forall>e \<in> set new. \<not> redeemed_code (code_text x) e)"
    using assms(1) unfolding minted_before_def by (elim exE conjE) (rule that)
  then have "log @ [e] = old @ (Mint ttl t ns, Minted (Some (code_text row))) # (new @ [e])" using assms(2) by simp
  moreover have "code_used row = None \<longrightarrow> (\<forall>e' \<in> set (new @ [e]). \<not> redeemed_code (code_text row) e')"
    using assms(2,4) l(3) by auto
  moreover have "code_expires row = t + ttl" using l(2) assms(3) by simp
  ultimately show ?thesis unfolding minted_before_def
    by (intro exI [of _ old] exI [of _ ttl] exI [of _ t] exI [of _ ns] exI [of _ "new @ [e]"] conjI) assumption+
qed

lemma reached_code: "reached sha log db \<Longrightarrow> row \<in> set (codes db) \<Longrightarrow> minted_before log row"
proof (induction arbitrary: row rule: reached.induct)
  case start
  then show ?case by (simp add: no_devices_def)
next
  case (step log db a r db')
  have keep: ?case if "row \<in> set (codes db)" "\<not> redeemed_code (code_text row) (a, r)"
    by (rule minted_before_snoc [OF step.IH [OF that(1)]]) (use that in auto)
  from step.hyps(2) show ?case
  proof (cases rule: perform_cases)
    case (mint ttl t ns c)
    then consider "row \<in> set (codes db)" | "row = new_code ttl t c" using step.prems by (auto split: if_splits)
    then show ?thesis
    proof cases
      case 1
      then show ?thesis using keep mint(1) by (simp add: redeemed_code_def)
    next
      case 2
      have "log @ [(a, r)] = log @ (Mint ttl t ns, Minted (Some (code_text row))) # []" using 2 mint(1,2) by simp
      moreover have "code_expires row = t + ttl" using 2 by simp
      ultimately show ?thesis unfolding minted_before_def by (intro exI conjI) auto
    qed
  next
    case (redeem t f c n tr rw clean)
    with step.prems obtain x where x: "x \<in> set (codes db)" and row: "row = mark_used t (trim c) (fst f) x" by auto
    show ?thesis
      by (rule minted_before_snoc [OF step.IH [OF x]]) (use row redeem(1) in \<open>auto simp: redeemed_code_def split: if_splits\<close>)
  next
    case (authenticate t token rw)
    then show ?thesis using step.prems keep by (simp add: redeemed_code_def)
  next
    case (revoke t i)
    then show ?thesis using step.prems keep by (simp add: redeemed_code_def)
  qed (use step.prems keep in auto)
qed

end
