(* ===== verification/AccessProps.thy ===== *)
theory AccessProps
  imports DeviceFacts
begin

text \<open>
  The properties of pairing: who a token authenticates, how often a code works, and what a remote
  connection gets before it has shown one of them.
\<close>

subsection \<open>Tokens and codes over a history of calls\<close>

lemma authenticated_row: "authenticateDevice sha token t db = (Some d, db') \<Longrightarrow>
    \<exists>row \<in> set (devices db). d_id d = dev_id row \<and> token_hash row = sha token \<and> dev_revoked row = None"
  by (cases rule: authenticate_cases [of sha token t db]) (auto simp: find_device_def from_row_def dest: List_find_Some_iff)

lemma redeemed_row: "redeemPairingCode sha f c n tr t db = (Inr (Inr x), db') \<Longrightarrow>
    \<exists>row \<in> set (codes db). code_text row = trim c \<and> code_used row = None \<and> t \<le> code_expires row"
  by (cases rule: redeem_cases [of sha f c n tr t db]) (auto simp: find_code_def dest: List_find_Some_iff)

definition paired_by :: "(string \<Rightarrow> string) \<Rightarrow> string \<Rightarrow> string \<Rightarrow> (call \<times> answer) list \<Rightarrow> bool" where
  "paired_by sha i h log \<longleftrightarrow> (\<exists>old mint new redeem later c ttl tm ns t f c' n tr x.
     log = old @ mint # new @ redeem # later \<and> mint = (Mint ttl tm ns, Minted (Some c)) \<and>
     redeem = (Redeem t f c' n tr, Redeemed (Inr (Inr x))) \<and> trim c' = c \<and> t \<le> tm + ttl \<and>
     issued_token sha i h redeem \<and> (\<forall>e \<in> set new. \<not> redeemed_code c e))"

lemma issued_is_redeem: "issued_token sha i h (a, r) \<Longrightarrow> perform sha a db = (r, db') \<Longrightarrow> \<exists>t f c n tr x. a = Redeem t f c n tr \<and> r = Redeemed (Inr (Inr x))"
  by (cases a) (auto simp: issued_token_def)

lemma issued_was_paired:
  assumes "reached sha log db" and "e \<in> set log" and "issued_token sha i h e"
  shows "paired_by sha i h log"
proof -
  obtain a r where e: "e = (a, r)" by fastforce
  obtain log1 later where l: "log = log1 @ (a, r) # later" using assms(2) unfolding e by (meson split_list)
  obtain db1 db2 where d: "reached sha log1 db1" "perform sha a db1 = (r, db2)" using reached_split [OF assms(1) [unfolded l]] by blast
  obtain t f c n tr x where a: "a = Redeem t f c n tr" and r: "r = Redeemed (Inr (Inr x))"
    using issued_is_redeem [OF assms(3) [unfolded e] d(2)] by blast
  have "redeemPairingCode sha f c n tr t db1 = (Inr (Inr x), db2)" using d(2) unfolding a r by auto
  then obtain row where row: "row \<in> set (codes db1)" "code_text row = trim c" "code_used row = None" "t \<le> code_expires row"
    using redeemed_row by blast
  obtain old ttl tm ns new where m: "log1 = old @ (Mint ttl tm ns, Minted (Some (trim c))) # new" "code_expires row = tm + ttl"
    "\<forall>e \<in> set new. \<not> redeemed_code (trim c) e"
    using reached_code [OF d(1) row(1)] row(2,3) unfolding minted_before_def by auto
  have "log = old @ (Mint ttl tm ns, Minted (Some (trim c))) # new @ (Redeem t f c n tr, Redeemed (Inr (Inr x))) # later"
    unfolding l m(1) a r by simp
  moreover have "t \<le> tm + ttl" using row(4) m(2) by simp
  moreover have "issued_token sha i h (Redeem t f c n tr, Redeemed (Inr (Inr x)))" using assms(3) unfolding e a r .
  ultimately show ?thesis unfolding paired_by_def using m(3) by (intro exI conjI) (assumption | rule refl)+
qed

text \<open>
  C22. A token authenticates a device only if the device was paired: the token was handed out by the
  redemption of a code that had been minted, had not run out, and had not been redeemed since it was
  minted; and the device was not revoked before.  SHA-256 may be any function: what is matched
  is the hash.
\<close>

theorem authenticated_device_was_paired:
  assumes "history sha calls no_devices = (earlier @ (Authenticate t token, Authenticated (Some d)) # later, db)"
  shows "paired_by sha (d_id d) (sha token) earlier \<and> list_all (\<lambda>e. \<not> revoked_id (d_id d) e) earlier"
proof -
  obtain db1 db2 where r: "reached sha earlier db1" and p: "perform sha (Authenticate t token) db1 = (Authenticated (Some d), db2)"
    using history_split [OF assms] by blast
  from p have "authenticateDevice sha token t db1 = (Some d, db2)" by auto
  then obtain row where row: "row \<in> set (devices db1)" "d_id d = dev_id row" "token_hash row = sha token" "dev_revoked row = None"
    using authenticated_row by blast
  have "paired_by sha (d_id d) (sha token) earlier"
    using reached_issued [OF r row(1)] issued_was_paired [OF r] row(2,3) by auto
  moreover have "\<not> revoked_id (d_id d) e" if "e \<in> set earlier" for e
    using reached_revoked [OF r that, of "d_id d"] row(1,2,4) by (force simp: cut_off_def)
  ultimately show ?thesis by (auto simp: list_all_iff)
qed

definition pairing_calls :: "call list" where
  "pairing_calls = [Mint 600000 1000 [7], Redeem 2000 (''d1'', ''tok'') '' 000000007 '' (JStr ''laptop'') ''iroh'', Authenticate 3000 ''tok'']"

theorem authenticated_device_was_paired_witness:
  "paired_by rev ''d1'' (rev ''tok'') (take 2 (fst (history rev pairing_calls no_devices)))"
proof -
  let ?d = "\<lparr>d_id = ''d1'', d_name = ''laptop'', d_transport = ''iroh'', d_created = 2000, d_seen = Some 3000, d_revoked = None\<rparr>"
  have "fst (history rev pairing_calls no_devices) =
      take 2 (fst (history rev pairing_calls no_devices)) @ (Authenticate 3000 ''tok'', Authenticated (Some ?d)) # []"
    by code_simp
  then have "history rev pairing_calls no_devices =
      (take 2 (fst (history rev pairing_calls no_devices)) @ (Authenticate 3000 ''tok'', Authenticated (Some ?d)) # [],
       snd (history rev pairing_calls no_devices))" by (metis prod.collapse)
  from authenticated_device_was_paired [OF this] show ?thesis by simp
qed

text \<open>A code that was redeemed is refused from then on, until the same digits are minted again.\<close>

lemma second_redemption_fails:
  "map (\<lambda>e. case snd e of Redeemed (Inr (Inl why)) \<Rightarrow> Some why | _ \<Rightarrow> None)
     (fst (history rev [Mint 600000 1000 [7], Redeem 2000 (''d1'', ''tok'') ''000000007'' JNull ''iroh'',
        Redeem 2001 (''d2'', ''kot'') ''000000007'' JNull ''iroh'', Redeem 700000 (''d2'', ''kot'') ''8'' JNull ''web''] no_devices))
   = [None, None, Some Used, Some Unknown]"
  by code_simp

subsection \<open>A remote connection\<close>

definition live_token :: "(string \<Rightarrow> string) \<Rightarrow> device_db \<Rightarrow> json \<Rightarrow> bool" where
  "live_token sha db v = (case v of
     JStr token \<Rightarrow> token \<noteq> [] \<and> (case find_device (sha token) db of Some r \<Rightarrow> dev_revoked r = None | None \<Rightarrow> False)
   | _ \<Rightarrow> False)"

definition live_code :: "int \<Rightarrow> device_db \<Rightarrow> json \<Rightarrow> bool" where
  "live_code t db v = (case v of
     JStr c \<Rightarrow> (case find_code (trim c) db of Some r \<Rightarrow> code_used r = None \<and> t \<le> code_expires r | None \<Rightarrow> False)
   | _ \<Rightarrow> False)"

definition credential :: "(string \<Rightarrow> string) \<Rightarrow> int \<Rightarrow> device_db \<Rightarrow> string \<Rightarrow> bool" where
  "credential sha t db line = (case json_parse line of
     None \<Rightarrow> False
   | Some msg \<Rightarrow> (field ''type'' msg = JStr ''auth'' \<and> live_token sha db (field ''token'' msg)) \<or>
                 (field ''type'' msg = JStr ''pair_redeem'' \<and> live_code t db (field ''code'' msg)))"

definition is_refusal :: "server_event \<Rightarrow> bool" where
  "is_refusal e = (case e of PairResult p \<Rightarrow> \<not> pr_ok p \<and> pr_token p = None | _ \<Rightarrow> False)"

text \<open>Nothing was served and nothing changed.\<close>

definition shut :: "device_db \<Rightarrow> remote \<Rightarrow> bool" where
  "shut db c \<longleftrightarrow> opened c = 0 \<and> served c = [] \<and> r_db c = db \<and> r_notes c = [] \<and> list_all is_refusal (r_sent c)"

lemma shut_refuse [simp]: "shut db c \<Longrightarrow> shut db (refuse_pair why c)"
  by (auto simp: shut_def refuse_pair_def reply_pair_def is_refusal_def)

lemma shut_fields [simp]: "shut db (c\<lparr>pre_auth := b\<rparr>) = shut db c" "shut db (c\<lparr>ended := x\<rparr>) = shut db c"
  by (simp_all add: shut_def)

lemma on_auth_shut:
  assumes "shut db c" and "on_auth sha t token c = Inr c'" and "\<not> live_token sha db token"
  shows "shut db c'"
proof (cases "js_truthy token")
  case True
  then obtain s where s: "token = JStr s" "s \<noteq> []" using assms(2) by (cases token) (auto simp: on_auth_def js_truthy_def Let_def)
  have "authenticateDevice sha s t (r_db c) = (None, r_db c)"
    using assms(1,3) s by (auto simp: shut_def live_token_def authenticateDevice_def split: option.splits)
  with True s assms show ?thesis by (auto simp: on_auth_def)
qed (use assms in \<open>auto simp: on_auth_def\<close>)

lemma on_redeem_shut:
  assumes "shut db c" and "on_redeem sha fresh t code n c = Inr c'" and "\<not> live_code t db code"
  shows "shut db c'"
proof -
  from assms(2) obtain s where s: "code = JStr s" by (cases code) (auto simp: on_redeem_def)
  have "\<exists>why. redeemPairingCode sha f s m tr t (r_db c) = (Inr (Inl why), r_db c)" for f m tr
    using assms(1,3) s by (auto simp: shut_def live_code_def redeemPairingCode_def split: option.splits)
  then obtain why where "redeemPairingCode sha (fresh (r_draws c)) s (if n = JUndef \<or> n = JNull then JStr ''remote client'' else n) ''iroh'' t (r_db c)
      = (Inr (Inl why), r_db c)" by blast
  with s assms(1,2) show ?thesis by (auto simp: on_redeem_def Let_def)
qed

lemma pre_auth_line_shut:
  assumes "shut db c" and "pre_auth_line sha fresh t line c = Inr c'" and "\<not> credential sha t db line"
  shows "shut db c'"
  using assms on_auth_shut [OF assms(1)] on_redeem_shut [OF assms(1)]
  by (auto simp: pre_auth_line_def credential_def split: option.splits if_splits)

lemma pre_auth_lines_shut:
  "shut db c \<Longrightarrow> \<forall>l \<in> set ls. \<not> credential sha t db l \<Longrightarrow> shut db (pre_auth_lines sha fresh t ls c)"
proof (induction ls arbitrary: c)
  case (Cons l ls)
  then show ?case using pre_auth_line_shut [OF Cons.prems(1), of sha fresh t l]
    by (cases "pre_auth_line sha fresh t l c") auto
qed simp

text \<open>Whatever the line buffer delivers is a piece between newlines of all that came in.\<close>

definition tail_of :: "string \<Rightarrow> line_buffer \<Rightarrow> bool" where
  "tail_of u b \<longleftrightarrow> (\<exists>p. last (split_on NL u) = p @ buf b \<and> (\<not> overflowed b \<longrightarrow> p = []))"

lemma split_on_prefixed: "NL \<notin> set p \<Longrightarrow> split_on NL (p @ v) = (p @ hd (split_on NL v)) # tl (split_on NL v)"
  by (simp add: split_on_append split_on_no_sep)

lemma feed_pieces:
  assumes "tail_of u b" and "feed b chunk = (ls, b')"
  shows "set ls \<subseteq> set (butlast (split_on NL (u @ chunk))) \<and> tail_of (u @ chunk) b'"
proof -
  obtain p where p: "last (split_on NL u) = p @ buf b" "\<not> overflowed b \<longrightarrow> p = []" using assms(1) by (auto simp: tail_of_def)
  have "NL \<notin> set (last (split_on NL u))" by (rule split_on_elems [of _ NL u]) simp
  then have nl: "NL \<notin> set p" "NL \<notin> set (buf b)" using p(1) by auto
  obtain q qs where ps: "split_on NL (buf b @ chunk) = q # qs" by (cases "split_on NL (buf b @ chunk)") auto
  have whole: "split_on NL (u @ chunk) = butlast (split_on NL u) @ (p @ q) # qs"
  proof -
    have "last (split_on NL u) @ hd (split_on NL chunk) = p @ q" and "tl (split_on NL chunk) = qs"
      using ps nl by (simp_all add: p(1) split_on_prefixed)
    then show ?thesis by (simp add: split_on_append [of NL u])
  qed
  have f: "ls = kept_lines (overflowed b) (butlast (q # qs))"
    "b' = (if length (last (q # qs)) > MAX_LINE_BYTES then \<lparr>buf = [], overflowed = True\<rparr>
           else \<lparr>buf = last (q # qs), overflowed = (overflowed b \<and> NL \<notin> set (buf b @ chunk))\<rparr>)"
    using assms(2) by (simp_all add: feed_def feed_max_split Let_def ps)
  have "set ls \<subseteq> set (butlast ((p @ q) # qs))"
    using p(2) by (auto simp: f(1) kept_lines_def split: if_splits dest: in_set_butlastD)
  then have "set ls \<subseteq> set (butlast (split_on NL (u @ chunk)))" by (auto simp: whole butlast_append)
  moreover have "tail_of (u @ chunk) b'"
  proof (cases "qs = []")
    case True
    have "NL \<notin> set (buf b @ chunk)"
    proof
      assume "NL \<in> set (buf b @ chunk)"
      then obtain v w where "buf b @ chunk = v @ NL # w" by (meson split_list)
      then have "length (q # qs) = length (split_on NL v) + length (split_on NL w)" using ps by (metis length_append split_on_append_sep)
      moreover have "0 < length (split_on NL v)" "0 < length (split_on NL w)" by simp_all
      ultimately show False using True by simp
    qed
    then show ?thesis using p(2) True by (auto simp: tail_of_def f(2) whole)
  next
    case False
    then show ?thesis by (auto simp: tail_of_def f(2) whole)
  qed
  ultimately show ?thesis by blast
qed

lemma pre_auth_lines_buffers: "pre_auth (pre_auth_lines sha fresh t ls c) = pre_auth c"
proof (induction ls arbitrary: c)
  case (Cons l ls)
  have "pre_auth c' = pre_auth c" if "pre_auth_line sha fresh t l c = Inr c'" for c'
    using that by (auto simp: pre_auth_line_def on_auth_def on_redeem_def refuse_pair_def reply_pair_def open_session_def Let_def
        split: option.splits if_splits json.splits prod.splits sum.splits)
  with Cons show ?case by (cases "pre_auth_line sha fresh t l c") auto
qed simp

definition shows_credential :: "(string \<Rightarrow> string) \<Rightarrow> device_db \<Rightarrow> (int \<times> string) list \<Rightarrow> bool" where
  "shows_credential sha db chunks \<longleftrightarrow>
     list_ex (\<lambda>line. list_ex (\<lambda>x. credential sha (fst x) db line) chunks) (butlast (split_on NL (concat (map snd chunks))))"

lemma remote_run_snoc: "remote_run sha fresh (chunks @ [x]) db = on_chunk sha fresh x (remote_run sha fresh chunks db)"
  by (simp add: remote_run_def)

lemma remote_run_shut:
  "\<not> shows_credential sha db chunks \<Longrightarrow> shut db (remote_run sha fresh chunks db) \<and>
   (ended (remote_run sha fresh chunks db) \<or> tail_of (concat (map snd chunks)) (pre_auth (remote_run sha fresh chunks db)))"
proof (induction chunks rule: rev_induct)
  case Nil
  then show ?case by (simp add: remote_run_def accepted_def shut_def tail_of_def empty_buffer_def)
next
  case (snoc x chunks)
  obtain t chunk where x: "x = (t, chunk)" by fastforce
  define u where "u = concat (map snd chunks)"
  define c where "c = remote_run sha fresh chunks db"
  have "\<not> shows_credential sha db chunks"
    using snoc.prems by (auto simp: shows_credential_def list_ex_iff butlast_split_carry [of NL "concat (map snd chunks)"])
  with snoc.IH have c: "shut db c" "ended c \<or> tail_of u (pre_auth c)" by (auto simp: c_def u_def)
  show ?case
  proof (cases "ended c")
    case True
    then show ?thesis using c(1) by (simp add: remote_run_snoc c_def [symmetric] on_chunk_def x)
  next
    case False
    obtain ls b where f: "feed (pre_auth c) chunk = (ls, b)" by fastforce
    have b: "set ls \<subseteq> set (butlast (split_on NL (u @ chunk)))" "tail_of (u @ chunk) b"
      using feed_pieces [OF _ f] c(2) False by auto
    have "\<forall>l \<in> set ls. \<not> credential sha t db l"
      using snoc.prems b(1) by (auto simp: shows_credential_def list_ex_iff u_def x)
    then have "shut db (pre_auth_lines sha fresh t ls (c\<lparr>pre_auth := b\<rparr>))" using c(1) by (intro pre_auth_lines_shut) auto
    moreover have "opened c = 0" using c(1) by (simp add: shut_def)
    ultimately show ?thesis using False b(2) f
      by (simp add: remote_run_snoc c_def [symmetric] on_chunk_def x pre_auth_lines_buffers u_def)
  qed
qed

text \<open>
  C23. Nothing is served to a remote connection, and nothing it sends changes the tables or reaches
  the owner, unless one of its complete lines carries a credential: the token of a paired device
  that was not revoked, or a code that is unused and has not run out, at the time a chunk came in.
  Until then every answer is a refusal without a token.
\<close>

theorem remote_needs_a_credential:
  "shows_credential sha db chunks \<or> shut db (remote_run sha fresh chunks db)"
  using remote_run_shut [of sha db chunks fresh] by blast

text \<open>
  A message sent in the chunk of the credential is read by the buffer of the first phase: it is
  refused, and an unfinished line stays in that buffer for good.
\<close>

definition greeting :: string where
  "greeting = encode_line (JObj [(''type'', JStr ''auth''), (''token'', JStr ''tok'')])"

definition chat_line :: string where
  "chat_line = encode_line (JObj [(''type'', JStr ''chat''), (''text'', JStr ''hi'')])"

definition paired_db :: device_db where
  "paired_db = \<lparr>devices = [new_device ''d1'' ''laptop'' ''iroh'' (rev ''tok'') 0], codes = []\<rparr>"

lemma small_feed:
  assumes "cut_lines (length (buf b @ chunk)) (buf b @ chunk) (overflowed b) = (ls, empty_buffer)"
  shows "feed b chunk = (ls, empty_buffer)"
  using assms by (simp add: feed_def feed_max_def empty_buffer_def)

lemma greeting_feeds:
  "feed empty_buffer greeting = ([butlast greeting], empty_buffer)"
  "feed empty_buffer chat_line = ([butlast chat_line], empty_buffer)"
  "feed empty_buffer (greeting @ chat_line) = ([butlast greeting, butlast chat_line], empty_buffer)"
  by (rule small_feed, code_simp)+

lemma pipelined_message_is_refused:
  "served (remote_run rev fresh [(1, greeting), (2, chat_line)] paired_db) = [butlast chat_line]"
  "served (remote_run rev fresh [(1, greeting @ chat_line)] paired_db) = []"
  "length (r_sent (remote_run rev fresh [(1, greeting @ chat_line)] paired_db)) = 2"
proof -
  let ?c = "\<lambda>ls. pre_auth_lines rev fresh 1 ls (accepted paired_db)"
  have one: "ended (?c [butlast greeting]) = False" "opened (?c [butlast greeting]) = 1" "own_feed (?c [butlast greeting]) = empty_buffer"
    "served (?c [butlast greeting]) = []" by code_simp+
  have two: "served (?c [butlast greeting, butlast chat_line]) = []" "length (r_sent (?c [butlast greeting, butlast chat_line])) = 2"
    by code_simp+
  have a: "ended (accepted paired_db) = False" "opened (accepted paired_db) = 0" "pre_auth (accepted paired_db) = empty_buffer"
    "(accepted paired_db)\<lparr>pre_auth := empty_buffer\<rparr> = accepted paired_db" by (simp_all add: accepted_def)
  show "served (remote_run rev fresh [(1, greeting), (2, chat_line)] paired_db) = [butlast chat_line]"
    by (simp add: remote_run_def on_chunk_def greeting_feeds one a del: pre_auth_lines.simps)
  show "served (remote_run rev fresh [(1, greeting @ chat_line)] paired_db) = []"
    "length (r_sent (remote_run rev fresh [(1, greeting @ chat_line)] paired_db)) = 2"
    by (simp_all add: remote_run_def on_chunk_def greeting_feeds two a del: pre_auth_lines.simps)
qed

subsection \<open>Browsers\<close>

lemma upgraded_device_is_live:
  "web_socket sha t cookie ok db = (Upgraded d, db') \<Longrightarrow>
   \<exists>token. tokenFromCookie cookie = Some token \<and> live_token sha db (JStr token)"
  by (cases "tokenFromCookie cookie")
    (auto simp: web_socket_def request_device_def authenticateDevice_def live_token_def split: option.splits if_splits prod.splits)

lemma cookie_round_trip:
  assumes "token \<noteq> []" and "\<forall>c \<in> set token. \<not> is_space c \<and> c \<noteq> CHR '';'' \<and> c \<noteq> CHR ''=''"
  shows "tokenFromCookie (Some (COOKIE @ ''='' @ token)) = Some token"
proof -
  have semi: "CHR '';'' \<notin> set (COOKIE @ ''='' @ token)" using assms(2) by (auto simp: COOKIE_def)
  have "\<forall>c \<in> set (COOKIE @ ''='' @ token). \<not> is_space c" using assms(2) by (auto simp: COOKIE_def is_space_def)
  then have t: "trim (COOKIE @ ''='' @ token) = COOKIE @ ''='' @ token" "trim token = token" by (auto intro!: trim_id)
  have "CHR ''='' \<notin> set COOKIE" "CHR ''='' \<notin> set token" using assms(2) by (auto simp: COOKIE_def)
  then have "split_on (CHR ''='') (COOKIE @ CHR ''='' # token) = [COOKIE, token]"
    by (simp add: split_on_append_sep split_on_no_sep)
  then have "cookie_parts [COOKIE @ ''='' @ token] = Some token" using t assms(1) by simp
  moreover have "split_on (CHR '';'') (COOKIE @ ''='' @ token) = [COOKIE @ ''='' @ token]" by (rule split_on_no_sep [OF semi])
  ultimately show ?thesis by (simp add: tokenFromCookie_def del: cookie_parts.simps)
qed

end
