(* ===== verification/SelfUpdate.thy ===== *)
theory SelfUpdate
  imports OpStore Notify Paths
begin

text \<open>
  Self-update of the daemon: the marker file and its rules
  (\<open>apps/mirod/src/self-update/marker.ts\<close>), the preflight that swaps versions before the daemon
  starts (\<open>apps/mirod/preflight.mjs\<close>), and the daemon's side, which stages, blesses or reverts
  (\<open>apps/mirod/src/self-update/index.ts\<close>, \<open>config.ts\<close>).

  The box is explicit: the text of \<open>update.json\<close>, the target of the link \<open>current\<close>, the
  entries of the versions directory, where each path leads, what exists, and what the daemon told
  its owner.  Whether a write or a rename succeeds, and how the severity develops, are arguments.
\<close>

subsection \<open>Markers\<close>

text \<open>
  A marker is the JSON object of its file.  \<open>attempts\<close> and \<open>muPre\<close> are the whole numbers
  this program writes into it; a file in which someone put another value there is outside the model.
\<close>

definition m_text :: "string \<Rightarrow> json \<Rightarrow> string" where
  "m_text k m = js_string (field k m)"

definition m_int :: "string \<Rightarrow> json \<Rightarrow> int" where
  "m_int k m = (case field k m of JNum i \<Rightarrow> i | _ \<Rightarrow> 0)"

definition phase_is :: "string \<Rightarrow> json \<Rightarrow> bool" where
  "phase_is p m \<longleftrightarrow> field ''phase'' m = JStr p"

definition update_marker ::
    "string \<Rightarrow> string \<Rightarrow> string \<Rightarrow> string \<Rightarrow> string \<Rightarrow> int \<Rightarrow> int \<Rightarrow> int \<Rightarrow> int \<Rightarrow> json" where
  "update_marker p from_version to_version prev staged mu attempts issued updated =
     JObj [(''schema'', JNum 1), (''phase'', JStr p), (''fromVersion'', JStr from_version), (''toVersion'', JStr to_version),
       (''prevDir'', JStr prev), (''stagedDir'', JStr staged), (''muPre'', JNum mu), (''attempts'', JNum attempts),
       (''issuedAt'', JNum issued), (''updatedAt'', JNum updated)]"

text \<open>\<open>{ ...m, k: v }\<close>.\<close>

definition with_field :: "string \<Rightarrow> json \<Rightarrow> json \<Rightarrow> json" where
  "with_field k v m = (case m of JObj kvs \<Rightarrow> JObj (AList.update k v kvs) | _ \<Rightarrow> JObj [(k, v)])"

text \<open>Absent, unreadable or of another shape: no marker.\<close>

definition readMarker :: "string option \<Rightarrow> json option" where
  "readMarker file =
     (case file of None \<Rightarrow> None
      | Some s \<Rightarrow> (case json_parse s of None \<Rightarrow> None
          | Some m \<Rightarrow> if field ''schema'' m = JNum 1 \<and> as_string (field ''phase'' m) \<noteq> None then Some m else None))"

definition marker_file_text :: "int \<Rightarrow> json \<Rightarrow> string" where
  "marker_file_text t m = stringify (with_field ''updatedAt'' (JNum t) m)"

subsection \<open>Verdicts\<close>

datatype verdict = Bless | Revert | SwapFailed

text \<open>A severity of \<open>None\<close> is the infinity of a check that never succeeded.\<close>

definition at_most :: "int option \<Rightarrow> int \<Rightarrow> bool" where
  "at_most mu n \<longleftrightarrow> (case mu of None \<Rightarrow> False | Some i \<Rightarrow> i \<le> n)"

definition blessDecision :: "string option \<Rightarrow> json \<Rightarrow> int option \<Rightarrow> verdict" where
  "blessDecision running m mu_post =
     (if map_option JStr running \<noteq> Some (field ''toVersion'' m) then SwapFailed
      else if m_int ''muPre'' m < 0 then Bless
      else if at_most mu_post (m_int ''muPre'' m) then Bless else Revert)"

definition crashLoopNext :: "int \<Rightarrow> int \<Rightarrow> bool \<times> int" where
  "crashLoopNext attempts maximum = (attempts + 1 > maximum, attempts + 1)"

subsection \<open>Versions to collect\<close>

text \<open>
  \<open>Number(s)\<close> of a part of a version, which has no dot: a numeral of at most fifteen digits, exact
  in a double.  The result is a mantissa and a power of ten, \<open>None\<close> what is not finite.
\<close>

definition radix_value :: "nat \<Rightarrow> string \<Rightarrow> int option" where
  "radix_value b s = (if s = [] then None
     else fold (\<lambda>c acc. case (acc, hex_value c) of (Some n, Some d) \<Rightarrow> if d < b then Some (n * int b + int d) else None | _ \<Rightarrow> None) s (Some 0))"

definition signed :: "(string \<Rightarrow> 'a option) \<Rightarrow> ('a \<Rightarrow> 'a) \<Rightarrow> string \<Rightarrow> 'a option" where
  "signed f neg s = (case s of c # cs \<Rightarrow>
      if c = CHR ''-'' then map_option neg (f cs) else if c = CHR ''+'' then f cs else f s
    | [] \<Rightarrow> f s)"

definition whole_number :: "string \<Rightarrow> int option" where
  "whole_number s = (if s \<noteq> [] \<and> list_all is_digit s then Some (int (read_nat s)) else None)"

definition decimal_value :: "string \<Rightarrow> (int \<times> int) option" where
  "decimal_value s =
     (let ds = takeWhile is_digit s; rest = dropWhile is_digit s
      in case (whole_number ds, rest) of
           (Some n, []) \<Rightarrow> Some (n, 0)
         | (Some n, e # x) \<Rightarrow> if lower_char e = CHR ''e'' then map_option (\<lambda>k. (n, k)) (signed whole_number uminus x) else None
         | _ \<Rightarrow> None)"

definition finite_decimal :: "int \<times> int \<Rightarrow> bool" where
  "finite_decimal d \<longleftrightarrow> fst d = 0 \<or> int (length (show_int \<bar>fst d\<bar>)) + snd d \<le> 308"

definition js_number :: "string \<Rightarrow> (int \<times> int) option" where
  "js_number s =
     (let t = trim s; prefix = to_lower (take 2 t)
      in if t = [] then Some (0, 0)
         else if prefix = ''0x'' then map_option (\<lambda>n. (n, 0)) (radix_value 16 (drop 2 t))
         else if prefix = ''0o'' then map_option (\<lambda>n. (n, 0)) (radix_value 8 (drop 2 t))
         else if prefix = ''0b'' then map_option (\<lambda>n. (n, 0)) (radix_value 2 (drop 2 t))
         else (case signed decimal_value (\<lambda>(n, k). (- n, k)) t of
                 Some d \<Rightarrow> if finite_decimal d then Some d else None
               | None \<Rightarrow> None))"

text \<open>The sign of \<open>a - b\<close>.\<close>

definition decimal_order :: "int \<times> int \<Rightarrow> int \<times> int \<Rightarrow> int" where
  "decimal_order a b = (let e = min (snd a) (snd b) in sgn (fst a * 10 ^ nat (snd a - e) - fst b * 10 ^ nat (snd b - e)))"

definition part_order :: "string option \<Rightarrow> string option \<Rightarrow> int" where
  "part_order a b =
     (case (Option.bind a js_number, Option.bind b js_number) of
        (Some x, Some y) \<Rightarrow> decimal_order x y
      | _ \<Rightarrow> (let s = join_text a; t = join_text b in if s = t then 0 else if s < t then - 1 else 1))"

fun parts_order :: "string list \<Rightarrow> string list \<Rightarrow> int" where
  "parts_order [] [] = 0"
| "parts_order (a # as) [] = (let c = part_order (Some a) None in if c \<noteq> 0 then c else parts_order as [])"
| "parts_order [] (b # bs) = (let c = part_order None (Some b) in if c \<noteq> 0 then c else parts_order [] bs)"
| "parts_order (a # as) (b # bs) = (let c = part_order (Some a) (Some b) in if c \<noteq> 0 then c else parts_order as bs)"

definition compareVersions :: "string \<Rightarrow> string \<Rightarrow> int" where
  "compareVersions a b = parts_order (split_on (CHR ''.'') a) (split_on (CHR ''.'') b)"

text \<open>
  \<open>sort(f)\<close>: stable.  The language fixes the result only where \<open>f\<close> is consistent; elsewhere this is
  one of the orders an engine may return.
\<close>

fun insert_by :: "('a \<Rightarrow> 'a \<Rightarrow> int) \<Rightarrow> 'a \<Rightarrow> 'a list \<Rightarrow> 'a list" where
  "insert_by f x [] = [x]"
| "insert_by f x (y # ys) = (if f x y \<le> 0 then x # y # ys else y # insert_by f x ys)"

definition sort_by :: "('a \<Rightarrow> 'a \<Rightarrow> int) \<Rightarrow> 'a list \<Rightarrow> 'a list" where
  "sort_by f xs = foldr (insert_by f) xs []"

definition versionsToGC :: "string list \<Rightarrow> nat \<Rightarrow> string list \<Rightarrow> string list" where
  "versionsToGC dirs keep protect =
     (let survivors = filter (\<lambda>d. d \<notin> set protect) dirs;
          sorted = sort_by (\<lambda>a b. compareVersions (path_basename a) (path_basename b)) survivors
      in take (length sorted - (keep - length protect)) sorted)"

subsection \<open>The box\<close>

record box =
  marker_file :: "string option"
  current :: "string option"
  entries :: "string list option"
  leads_to :: "string \<Rightarrow> string"
  present :: "string list"
  told :: "notification list"
  restarts :: nat

definition KEEP_VERSIONS :: nat where "KEEP_VERSIONS = 3"

definition SETTLE_MS :: int where "SETTLE_MS = 45000"

definition versions_dir :: "string \<Rightarrow> string" where
  "versions_dir root = path_join [root, ''versions'']"

text \<open>\<open>safeReal\<close>: \<open>realpathSync\<close> of a path, \<open>null\<close> when it throws.\<close>

definition safeReal :: "box \<Rightarrow> string \<Rightarrow> string option" where
  "safeReal b p = (if p \<in> set (present b) \<and> leads_to b p \<in> set (present b) then Some (leads_to b p) else None)"

definition real_current :: "box \<Rightarrow> string option" where
  "real_current b = Option.bind (current b) (safeReal b)"

text \<open>The wrapper exports the base name of the link's target as \<open>MIRO_VERSION\<close>.\<close>

definition running_version :: "box \<Rightarrow> string option" where
  "running_version b = map_option after_last_slash (current b)"

definition tell :: "tier \<Rightarrow> string \<Rightarrow> string \<Rightarrow> int \<Rightarrow> box \<Rightarrow> box" where
  "tell r title body t b = b\<lparr>told := told b @ [\<lparr>n_tier = r, n_title = title, n_body = body, n_source = ''update'', n_at = t\<rparr>]\<rparr>"

subsection \<open>The preflight\<close>

definition MAX_BOOTS :: int where "MAX_BOOTS = 2"

text \<open>
  A swap or a write of the marker succeeds or throws: the argument \<open>io\<close> lists what happens, in the
  order the calls are made, and success is what follows its end.  A call that throws changes nothing:
  both build a temporary file and rename it.
\<close>

definition next_io :: "bool list \<Rightarrow> bool \<times> bool list" where
  "next_io io = (case io of [] \<Rightarrow> (True, []) | x # xs \<Rightarrow> (x, xs))"

definition swap :: "json \<Rightarrow> bool list \<Rightarrow> box \<Rightarrow> bool \<times> bool list \<times> box" where
  "swap target io b =
     (case target of
        JStr d \<Rightarrow> (let (ok, io1) = next_io io in (ok, io1, if ok then b\<lparr>current := Some d\<rparr> else b))
      | _ \<Rightarrow> (False, io, b))"

definition write_marker :: "int \<Rightarrow> json \<Rightarrow> bool list \<Rightarrow> box \<Rightarrow> bool \<times> bool list \<times> box" where
  "write_marker t m io b =
     (let (ok, io1) = next_io io in (ok, io1, if ok then b\<lparr>marker_file := Some (marker_file_text t m)\<rparr> else b))"

text \<open>The swap, and when it did not throw the write.\<close>

definition swap_and_write :: "int \<Rightarrow> json \<Rightarrow> json \<Rightarrow> bool list \<Rightarrow> box \<Rightarrow> bool \<times> bool list \<times> box" where
  "swap_and_write t target m io b =
     (case swap target io b of
        (True, io1, b1) \<Rightarrow> write_marker t m io1 b1
      | (False, io1, b1) \<Rightarrow> (False, io1, b1))"

definition reverting :: "json \<Rightarrow> json" where
  "reverting m = with_field ''phase'' (JStr ''reverting'') m"

definition swapped :: "int \<Rightarrow> json \<Rightarrow> json" where
  "swapped n m = with_field ''attempts'' (JNum n) (with_field ''phase'' (JStr ''swapped'') m)"

definition preflight :: "int \<Rightarrow> bool list \<Rightarrow> box \<Rightarrow> box" where
  "preflight t io b =
     (case readMarker (marker_file b) of None \<Rightarrow> b
      | Some m \<Rightarrow>
          if phase_is ''pending'' m
          then (case swap_and_write t (field ''stagedDir'' m) (swapped 1 m) io b of
                  (True, _, b1) \<Rightarrow> b1
                | (False, io1, b1) \<Rightarrow> snd (snd (write_marker t (reverting m) io1 b1)))
          else if phase_is ''swapped'' m
          then (let attempts = m_int ''attempts'' m + 1
                in if attempts > MAX_BOOTS then snd (snd (swap_and_write t (field ''prevDir'' m) (reverting m) io b))
                   else snd (snd (write_marker t (swapped attempts m) io b)))
          else if phase_is ''revert_requested'' m
          then snd (snd (swap_and_write t (field ''prevDir'' m) (reverting m) io b))
          else b)"

subsection \<open>The daemon at boot\<close>

text \<open>
  The loop of \<open>settleSeverity\<close>: each turn gives what the check returned (\<open>None\<close> when it was
  rejected, which counts as the best so far) and the clock read after it.  The result is \<open>None\<close> while
  the turns given do not end the loop.
\<close>

definition better :: "int option \<Rightarrow> int option \<Rightarrow> int option" where
  "better a b = (case (a, b) of (None, _) \<Rightarrow> b | (_, None) \<Rightarrow> a | (Some x, Some y) \<Rightarrow> Some (min x y))"

fun settleSeverity :: "int \<Rightarrow> int \<Rightarrow> int option \<Rightarrow> (int option \<times> int) list \<Rightarrow> int option option" where
  "settleSeverity mu_pre deadline best [] = None"
| "settleSeverity mu_pre deadline best ((mu, t) # turns) =
     (let best1 = better best mu
      in if at_most best1 mu_pre \<or> deadline \<le> t then Some best1 else settleSeverity mu_pre deadline best1 turns)"

text \<open>\<open>rmSync\<close> of each directory; the argument \<open>removable\<close> says for which it does not throw.\<close>

definition remove_dirs :: "(string \<Rightarrow> bool) \<Rightarrow> string list \<Rightarrow> box \<Rightarrow> box" where
  "remove_dirs removable ds b = b\<lparr>present := filter (\<lambda>p. \<not> (p \<in> set ds \<and> removable p)) (present b)\<rparr>"

definition gcOldVersions :: "string \<Rightarrow> (string \<Rightarrow> bool) \<Rightarrow> string \<Rightarrow> box \<Rightarrow> box" where
  "gcOldVersions root removable prev b =
     (case entries b of None \<Rightarrow> b
      | Some names \<Rightarrow>
          let dirs = map (\<lambda>d. path_join [versions_dir root, d]) names;
              protect = filter (\<lambda>p. p \<noteq> []) (List.map_filter (\<lambda>x. x) [real_current b, safeReal b prev])
          in remove_dirs removable (versionsToGC dirs KEEP_VERSIONS protect) b)"

definition clear_marker :: "box \<Rightarrow> box" where
  "clear_marker b = b\<lparr>marker_file := None\<rparr>"

definition mu_text :: "int option \<Rightarrow> string" where
  "mu_text mu = (case mu of None \<Rightarrow> ''Infinity'' | Some i \<Rightarrow> show_int i)"

text \<open>The verdict on a swapped version once the severity has settled.\<close>

definition judge :: "string \<Rightarrow> (string \<Rightarrow> bool) \<Rightarrow> int \<Rightarrow> json \<Rightarrow> int option \<Rightarrow> bool list \<Rightarrow> box \<Rightarrow> box" where
  "judge root removable t m mu_post io b =
     (case blessDecision (running_version b) m mu_post of
        SwapFailed \<Rightarrow>
          clear_marker (tell NeedsAttention (''Update to '' @ m_text ''toVersion'' m @ '' did not take effect'')
            (''Still running '' @ (case running_version b of None \<Rightarrow> ''an unknown version'' | Some v \<Rightarrow> v) @ ''. Nothing was changed.'') t b)
      | Bless \<Rightarrow>
          clear_marker (tell WorthKnowing (''Updated to '' @ m_text ''toVersion'' m)
            (if m_int ''muPre'' m < 0 then ''Healthy.''
             else ''Healthy (severity '' @ mu_text mu_post @ '' vs '' @ show_int (m_int ''muPre'' m) @ '' before).'') t
            (gcOldVersions root removable (m_text ''prevDir'' m) b))
      | Revert \<Rightarrow>
          (let (ok, _, b1) = write_marker t (with_field ''phase'' (JStr ''revert_requested'') m) io b
           in if ok then b1\<lparr>restarts := restarts b1 + 1\<rparr> else b1))"

definition blessOrRevertUpdate ::
    "string \<Rightarrow> (string \<Rightarrow> bool) \<Rightarrow> int \<Rightarrow> (int option \<times> int) list \<Rightarrow> bool list \<Rightarrow> box \<Rightarrow> box" where
  "blessOrRevertUpdate root removable t turns io b =
     (case readMarker (marker_file b) of None \<Rightarrow> b
      | Some m \<Rightarrow>
          if phase_is ''reverting'' m
          then clear_marker (tell NeedsAttention (''Update to '' @ m_text ''toVersion'' m @ '' was rolled back'')
                 (''It did not pass the post-update health check; Miro reverted to '' @ m_text ''fromVersion'' m @ ''.'') t b)
          else if \<not> phase_is ''swapped'' m then b
          else (case settleSeverity (m_int ''muPre'' m) (t + SETTLE_MS) None turns of
                  None \<Rightarrow> b
                | Some mu \<Rightarrow> judge root removable t m mu io b))"

subsection \<open>Staging\<close>

text \<open>
  The refusals of \<open>stageUpdate\<close>, in their order; \<open>mu\<close> is the severity, \<open>None\<close> when the check failed.
  Writing the marker or restarting the unit may throw.
\<close>

definition stageUpdate :: "string \<Rightarrow> int \<Rightarrow> int option \<Rightarrow> string \<Rightarrow> bool list \<Rightarrow> box \<Rightarrow> (js_error + string option) \<times> box" where
  "stageUpdate root t mu to_version io b =
     (let staged = path_join [versions_dir root, to_version]
      in if staged \<notin> set (present b) \<or> leads_to b staged \<notin> set (present b)
         then (Inr (Some (''version '' @ to_version @ '' is not staged under '' @ versions_dir root)), b)
         else (case running_version b of
                 None \<Rightarrow> (Inr (Some ''this daemon has no version (a dev run without the wrapper) - self-update needs the systemd install''), b)
               | Some v \<Rightarrow>
                   if v = [] then (Inr (Some ''this daemon has no version (a dev run without the wrapper) - self-update needs the systemd install''), b)
                   else if v = to_version then (Inr (Some (''already running '' @ to_version)), b)
                   else (case real_current b of
                       None \<Rightarrow> (Inr (Some ''could not resolve the current version - refusing to stage an update with no revert target''), b)
                     | Some prev \<Rightarrow>
                         let m = update_marker ''pending'' v to_version prev staged (case mu of None \<Rightarrow> - 1 | Some i \<Rightarrow> i) 0 t t;
                             (ok, io1, b1) = write_marker t m io b
                         in if \<not> ok then (Inl (an_error ''update.json''), b1)
                            else if fst (next_io io1) then (Inr None, b1\<lparr>restarts := restarts b1 + 1\<rparr>)
                            else (Inl (an_error ''restart''), b1))))"

definition availableVersions :: "box \<Rightarrow> string list" where
  "availableVersions b = (case entries b of None \<Rightarrow> [] | Some vs \<Rightarrow> filter (\<lambda>v. Some v \<noteq> running_version b) vs)"

definition isQuiescent :: "op_row list \<Rightarrow> bool \<Rightarrow> bool" where
  "isQuiescent rows any_turn_active \<longleftrightarrow> \<not> any_turn_active \<and> list_by_phases [Applying] rows = []"

subsection \<open>Boots\<close>

text \<open>
  One start of the unit: the preflight, then the daemon, which either dies before it has judged the
  version, or runs \<open>blessOrRevertUpdate\<close>.
\<close>

datatype boot = Crashed | Reached "(int option \<times> int) list"

definition boot_once :: "string \<Rightarrow> (string \<Rightarrow> bool) \<Rightarrow> int \<times> boot \<Rightarrow> box \<Rightarrow> box" where
  "boot_once root removable = (\<lambda>(t, e) b.
     let b1 = preflight t [] b
     in case e of Crashed \<Rightarrow> b1 | Reached turns \<Rightarrow> blessOrRevertUpdate root removable t turns [] b1)"

definition boots :: "string \<Rightarrow> (string \<Rightarrow> bool) \<Rightarrow> (int \<times> boot) list \<Rightarrow> box \<Rightarrow> box" where
  "boots root removable es b = fold (boot_once root removable) es b"

subsection \<open>Configuration\<close>

datatype channel = Stable | Beta

definition getChannel :: "(string \<Rightarrow> string option) \<Rightarrow> channel" where
  "getChannel get = (if get ''update.channel'' = Some ''beta'' then Beta else Stable)"

definition DEFAULT_REPO :: string where "DEFAULT_REPO = ''bybrooklyn/miro''"

definition getRepo :: "(string \<Rightarrow> string option) \<Rightarrow> string" where
  "getRepo get = (if truthy (get ''update.repo'') then join_text (get ''update.repo'') else DEFAULT_REPO)"

end
