(* ===== verification/UpdateProps.thy ===== *)
theory UpdateProps
  imports SelfUpdate JsonRound
begin

text \<open>
  What self-update promises: a marker is read back as it was written, the crash counter of the
  preflight is the rule of the daemon, a staged update settles within three boots, and collecting
  old versions spares the directories it protects.
\<close>

subsection \<open>Markers are read back\<close>

lemma marker_fields [simp]:
  "field ''phase'' (update_marker p f v d s mu n i u) = JStr p" "field ''toVersion'' (update_marker p f v d s mu n i u) = JStr v"
  "field ''stagedDir'' (update_marker p f v d s mu n i u) = JStr s" "field ''prevDir'' (update_marker p f v d s mu n i u) = JStr d"
  "field ''schema'' (update_marker p f v d s mu n i u) = JNum 1"
  "m_int ''muPre'' (update_marker p f v d s mu n i u) = mu" "m_int ''attempts'' (update_marker p f v d s mu n i u) = n"
  "phase_is q (update_marker p f v d s mu n i u) \<longleftrightarrow> p = q" "m_text ''prevDir'' (update_marker p f v d s mu n i u) = d"
  by (simp_all add: update_marker_def field_def m_int_def phase_is_def m_text_def js_string_def)

lemma marker_updates [simp]:
  "with_field ''phase'' (JStr q) (update_marker p f v d s mu n i u) = update_marker q f v d s mu n i u"
  "with_field ''updatedAt'' (JNum t) (update_marker p f v d s mu n i u) = update_marker p f v d s mu n i t"
  "reverting (update_marker p f v d s mu n i u) = update_marker ''reverting'' f v d s mu n i u"
  "swapped k (update_marker p f v d s mu n i u) = update_marker ''swapped'' f v d s mu k i u"
  by (simp_all add: update_marker_def with_field_def reverting_def swapped_def)

lemma read_marker_text:
  "readMarker (Some (marker_file_text t (update_marker p f v d s mu n i u))) = Some (update_marker p f v d s mu n i t)"
proof -
  have "plain (update_marker p f v d s mu n i t)" "well_keyed (update_marker p f v d s mu n i t)"
    by (simp_all add: update_marker_def)
  then have "json_parse (marker_file_text t (update_marker p f v d s mu n i u)) = Some (update_marker p f v d s mu n i t)"
    by (simp add: marker_file_text_def json_parse_stringify)
  then show ?thesis by (simp add: readMarker_def as_string_def)
qed

subsection \<open>The crash counter\<close>

text \<open>The preflight repeats \<open>crashLoopNext\<close> by hand; on a swapped marker the two agree.\<close>

lemma preflight_is_crashLoopNext:
  assumes "readMarker (marker_file b) = Some m" and "phase_is ''swapped'' m"
  shows "preflight t io b = (case crashLoopNext (m_int ''attempts'' m) MAX_BOOTS of
    (True, _) \<Rightarrow> snd (snd (swap_and_write t (field ''prevDir'' m) (reverting m) io b))
  | (False, n) \<Rightarrow> snd (snd (write_marker t (swapped n m) io b)))"
  using assms by (auto simp: preflight_def crashLoopNext_def phase_is_def Let_def)

subsection \<open>The course of an update\<close>

text \<open>One update: the versions, the two directories, the severity before, and when it was issued.\<close>

record update =
  from_version :: string
  to_version :: string
  prev_dir :: string
  staged_dir :: string
  mu_pre :: int
  issued_at :: int

definition in_phase :: "update \<Rightarrow> string \<Rightarrow> int \<Rightarrow> box \<Rightarrow> bool" where
  "in_phase u p n b \<longleftrightarrow> (\<exists>t. readMarker (marker_file b) = Some (update_marker p (from_version u) (to_version u) (prev_dir u) (staged_dir u) (mu_pre u) n (issued_at u) t))"

definition healthy :: "int \<Rightarrow> int \<times> boot \<Rightarrow> bool" where
  "healthy mu e = (case snd e of Crashed \<Rightarrow> False
     | Reached turns \<Rightarrow> (case settleSeverity mu (fst e + SETTLE_MS) None turns of None \<Rightarrow> False | Some x \<Rightarrow> mu < 0 \<or> at_most x mu))"

text \<open>
  Where an update can be after some boots: it was blessed, it was rolled back and reported, or it was
  rolled back and the report is due; before that, the staged version is being tried, and its attempts
  are counted or a revert was asked for.
\<close>

definition blessed :: "update \<Rightarrow> box \<Rightarrow> bool" where
  "blessed u b \<longleftrightarrow> marker_file b = None \<and> current b = Some (staged_dir u)"

definition rolled_back :: "update \<Rightarrow> box \<Rightarrow> bool" where
  "rolled_back u b \<longleftrightarrow> current b = Some (prev_dir u) \<and> (marker_file b = None \<or> (\<exists>n. in_phase u ''reverting'' n b))"

definition trying :: "update \<Rightarrow> int \<Rightarrow> box \<Rightarrow> bool" where
  "trying u k b \<longleftrightarrow> current b = Some (staged_dir u) \<and> (in_phase u ''swapped'' k b \<or> (\<exists>n. in_phase u ''revert_requested'' n b))"

lemma box_fields [simp]:
  "current (tell r x y t b) = current b" "current (clear_marker b) = current b" "current (gcOldVersions root rm d b) = current b"
  "marker_file (clear_marker b) = None" "running_version (tell r x y t b) = running_version b"
  by (simp_all add: tell_def clear_marker_def gcOldVersions_def remove_dirs_def running_version_def Let_def split: option.splits)

lemma write_marker_ok: "write_marker t m [] b = (True, [], b\<lparr>marker_file := Some (marker_file_text t m)\<rparr>)"
  by (simp add: write_marker_def next_io_def)

lemma swap_and_write_ok:
  "swap_and_write t (JStr d) m [] b = (True, [], b\<lparr>current := Some d, marker_file := Some (marker_file_text t m)\<rparr>)"
  by (simp add: swap_and_write_def swap_def next_io_def write_marker_ok)

lemma no_marker [simp]: "readMarker None = None"
  by (simp add: readMarker_def)

text \<open>What the preflight makes of each phase.\<close>

lemma preflight_pending: "in_phase u ''pending'' n b \<Longrightarrow>
    current (preflight t [] b) = Some (staged_dir u) \<and> in_phase u ''swapped'' 1 (preflight t [] b)"
  by (auto simp: in_phase_def preflight_def swap_and_write_ok read_marker_text)

lemma preflight_retry: "in_phase u ''swapped'' n b \<Longrightarrow> n + 1 \<le> MAX_BOOTS \<Longrightarrow>
    current (preflight t [] b) = current b \<and> in_phase u ''swapped'' (n + 1) (preflight t [] b)"
  by (auto simp: in_phase_def preflight_def write_marker_ok read_marker_text)

lemma preflight_give_up: "in_phase u ''swapped'' n b \<Longrightarrow> MAX_BOOTS < n + 1 \<Longrightarrow>
    current (preflight t [] b) = Some (prev_dir u) \<and> in_phase u ''reverting'' n (preflight t [] b)"
  by (auto simp: in_phase_def preflight_def swap_and_write_ok read_marker_text)

lemma preflight_asked: "in_phase u ''revert_requested'' n b \<Longrightarrow>
    current (preflight t [] b) = Some (prev_dir u) \<and> in_phase u ''reverting'' n (preflight t [] b)"
  by (auto simp: in_phase_def preflight_def swap_and_write_ok read_marker_text)

lemma preflight_reverting: "in_phase u ''reverting'' n b \<Longrightarrow> preflight t io b = b"
  by (auto simp: in_phase_def preflight_def)

lemma preflight_none: "marker_file b = None \<Longrightarrow> preflight t io b = b"
  by (simp add: preflight_def)

text \<open>What the daemon makes of a version it runs.\<close>

lemma judge_swapped:
  assumes "in_phase u ''swapped'' n b" and "current b = Some (staged_dir u)" and "after_last_slash (staged_dir u) = to_version u"
  shows "(blessed u (blessOrRevertUpdate root rm t turns [] b) \<and> healthy (mu_pre u) (t, Reached turns)) \<or>
     (current (blessOrRevertUpdate root rm t turns [] b) = Some (staged_dir u) \<and>
      (in_phase u ''swapped'' n (blessOrRevertUpdate root rm t turns [] b) \<or> in_phase u ''revert_requested'' n (blessOrRevertUpdate root rm t turns [] b)))"
proof -
  obtain s where m: "readMarker (marker_file b) =
      Some (update_marker ''swapped'' (from_version u) (to_version u) (prev_dir u) (staged_dir u) (mu_pre u) n (issued_at u) s)"
    using assms(1) by (auto simp: in_phase_def)
  let ?m = "update_marker ''swapped'' (from_version u) (to_version u) (prev_dir u) (staged_dir u) (mu_pre u) n (issued_at u) s"
  have run: "running_version b = Some (to_version u)" using assms(2,3) by (simp add: running_version_def)
  show ?thesis
  proof (cases "settleSeverity (mu_pre u) (t + SETTLE_MS) None turns")
    case None
    then have "blessOrRevertUpdate root rm t turns [] b = b" using m by (simp add: blessOrRevertUpdate_def)
    then show ?thesis using assms(1,2) by simp
  next
    case (Some x)
    then have j: "blessOrRevertUpdate root rm t turns [] b = judge root rm t ?m x [] b" using m by (simp add: blessOrRevertUpdate_def)
    show ?thesis
    proof (cases "mu_pre u < 0 \<or> at_most x (mu_pre u)")
      case True
      then have "blessDecision (running_version b) ?m x = Bless" using run by (auto simp: blessDecision_def)
      then have "blessed u (judge root rm t ?m x [] b)" using assms(2) by (simp add: judge_def blessed_def)
      then show ?thesis using j True Some by (simp add: healthy_def)
    next
      case False
      then have "blessDecision (running_version b) ?m x = Revert" using run by (simp add: blessDecision_def)
      then have "current (judge root rm t ?m x [] b) = current b \<and> in_phase u ''revert_requested'' n (judge root rm t ?m x [] b)"
        by (auto simp: judge_def write_marker_ok in_phase_def read_marker_text)
      then show ?thesis using j assms(2) by simp
    qed
  qed
qed

lemma judge_reverting: "in_phase u ''reverting'' n b \<Longrightarrow>
    current (blessOrRevertUpdate root rm t turns io b) = current b \<and> marker_file (blessOrRevertUpdate root rm t turns io b) = None"
  by (auto simp: in_phase_def blessOrRevertUpdate_def)

text \<open>One boot, by where the update was.\<close>

lemma boot_rolled_back:
  assumes "current b1 = Some (prev_dir u)" and "in_phase u ''reverting'' n b1"
  shows "rolled_back u (case e of Crashed \<Rightarrow> b1 | Reached turns \<Rightarrow> blessOrRevertUpdate root rm t turns [] b1)"
  using assms judge_reverting [OF assms(2)] by (cases e) (auto simp: rolled_back_def)

lemma boot_settled:
  "rolled_back u b \<Longrightarrow> rolled_back u (boot_once root rm (t, e) b)"
  "blessed u b \<Longrightarrow> blessed u (boot_once root rm (t, e) b)"
proof -
  assume r: "rolled_back u b"
  then consider (over) "marker_file b = None" | (due) n where "in_phase u ''reverting'' n b" by (auto simp: rolled_back_def)
  then show "rolled_back u (boot_once root rm (t, e) b)"
  proof cases
    case over
    then show ?thesis using r by (simp add: boot_once_def preflight_none blessOrRevertUpdate_def Let_def split: boot.split)
  next
    case (due n)
    have "current b = Some (prev_dir u)" using r by (simp add: rolled_back_def)
    from boot_rolled_back [OF this due, of root rm t e] show ?thesis
      by (cases e) (simp_all add: boot_once_def preflight_reverting [OF due] Let_def)
  qed
next
  assume "blessed u b"
  then show "blessed u (boot_once root rm (t, e) b)"
    by (simp add: blessed_def boot_once_def preflight_none blessOrRevertUpdate_def Let_def split: boot.split)
qed

lemma boot_swapped:
  assumes "in_phase u ''swapped'' n (preflight t [] b)" and "current (preflight t [] b) = Some (staged_dir u)"
    and "after_last_slash (staged_dir u) = to_version u"
  shows "trying u n (boot_once root rm (t, e) b) \<or> (blessed u (boot_once root rm (t, e) b) \<and> healthy (mu_pre u) (t, e))"
proof (cases e)
  case Crashed
  then show ?thesis using assms(1,2) by (simp add: boot_once_def trying_def Let_def)
next
  case (Reached turns)
  then show ?thesis using judge_swapped [OF assms, of root rm t turns] by (auto simp: boot_once_def trying_def Let_def)
qed

lemma boot_trying:
  assumes "trying u k b" and "after_last_slash (staged_dir u) = to_version u"
  shows "(k + 1 \<le> MAX_BOOTS \<and> trying u (k + 1) (boot_once root rm (t, e) b)) \<or> rolled_back u (boot_once root rm (t, e) b) \<or>
    (blessed u (boot_once root rm (t, e) b) \<and> healthy (mu_pre u) (t, e))"
proof -
  from assms(1) consider (swapped) "in_phase u ''swapped'' k b" | (asked) n where "in_phase u ''revert_requested'' n b"
    by (auto simp: trying_def)
  then show ?thesis
  proof cases
    case swapped
    show ?thesis
    proof (cases "k + 1 \<le> MAX_BOOTS")
      case True
      have "current b = Some (staged_dir u)" using assms(1) by (simp add: trying_def)
      then have p: "in_phase u ''swapped'' (k + 1) (preflight t [] b)" "current (preflight t [] b) = Some (staged_dir u)"
        using preflight_retry [OF swapped True, of t] by auto
      show ?thesis using boot_swapped [OF p assms(2), of root rm e] True by blast
    next
      case False
      then show ?thesis using boot_rolled_back preflight_give_up [OF swapped, of t] by (auto simp: boot_once_def Let_def)
    qed
  next
    case (asked n)
    then show ?thesis using boot_rolled_back preflight_asked [OF asked, of t] by (auto simp: boot_once_def Let_def)
  qed
qed

lemma boots_settled: "rolled_back u b \<or> (blessed u b \<and> H) \<Longrightarrow>
    rolled_back u (boots root rm es b) \<or> (blessed u (boots root rm es b) \<and> H)"
proof (induction es arbitrary: b)
  case (Cons x es)
  obtain t e where x: "x = (t, e)" by fastforce
  have "rolled_back u (boot_once root rm x b) \<or> (blessed u (boot_once root rm x b) \<and> H)"
    using Cons.prems boot_settled by (auto simp: x)
  from Cons.IH [OF this] show ?case by (simp add: boots_def)
qed (simp add: boots_def)

text \<open>
  C24. An update settles: when it has been staged, then after three starts of the unit or more,
  however many of them crash and whatever the health checks say, either the new version runs, its
  marker is gone, and one of the starts found it healthy; or the previous version is current again
  and the marker is gone or waits for the report of the rollback.  Only failing writes are excluded.
\<close>

theorem update_settles:
  assumes "in_phase u ''pending'' 0 b" and "after_last_slash (staged_dir u) = to_version u" and "3 \<le> length es"
  shows "rolled_back u (boots root removable es b) \<or>
    (blessed u (boots root removable es b) \<and> list_ex (healthy (mu_pre u)) es)"
proof -
  obtain x1 x2 x3 rest where es: "es = x1 # x2 # x3 # rest" using assms(3) by (auto simp: eval_nat_numeral Suc_le_length_iff)
  define b1 where "b1 = boot_once root removable x1 b"
  define b2 where "b2 = boot_once root removable x2 b1"
  define b3 where "b3 = boot_once root removable x3 b2"
  let ?h = "healthy (mu_pre u)"
  have 1: "trying u 1 b1 \<or> (blessed u b1 \<and> ?h x1)"
  proof -
    obtain t e where x: "x1 = (t, e)" by fastforce
    show ?thesis using boot_swapped [OF conjunct2 conjunct1 assms(2), OF preflight_pending preflight_pending, OF assms(1) assms(1)]
      unfolding b1_def x by blast
  qed
  have 2: "trying u 2 b2 \<or> rolled_back u b2 \<or> (blessed u b2 \<and> (?h x1 \<or> ?h x2))"
  proof -
    obtain t e where x: "x2 = (t, e)" by fastforce
    show ?thesis using 1 boot_trying [OF _ assms(2), of 1 b1 root removable t e] boot_settled(2) [of u b1 root removable t e]
      unfolding b2_def x by auto
  qed
  have 3: "rolled_back u b3 \<or> (blessed u b3 \<and> (?h x1 \<or> ?h x2 \<or> ?h x3))"
  proof -
    obtain t e where x: "x3 = (t, e)" by fastforce
    show ?thesis using 2 boot_trying [OF _ assms(2), of 2 b2 root removable t e] boot_settled [of u b2 root removable t e]
      unfolding b3_def x by (auto simp: MAX_BOOTS_def)
  qed
  have "boots root removable es b = boots root removable rest b3" by (simp add: es boots_def b1_def b2_def b3_def)
  then show ?thesis using boots_settled [OF 3, of root removable rest] by (auto simp: es)
qed

definition an_update :: update where
  "an_update = \<lparr>from_version = ''1'', to_version = ''2'', prev_dir = ''/o/versions/1'', staged_dir = ''/o/versions/2'', mu_pre = 1, issued_at = 0\<rparr>"

definition a_box :: box where
  "a_box = \<lparr>marker_file = None, current = Some ''/o/versions/1'', entries = Some [''1'', ''2''], leads_to = (\<lambda>p. p),
     present = [''/o/versions/1'', ''/o/versions/2''], told = [], restarts = 0\<rparr>"

lemma a_box_stages: "fst (stageUpdate ''/o'' 0 (Some 1) ''2'' [] a_box) = Inr None \<and>
    in_phase an_update ''pending'' 0 (snd (stageUpdate ''/o'' 0 (Some 1) ''2'' [] a_box))"
proof -
  have "path_join [versions_dir ''/o'', ''2''] = ''/o/versions/2''" by code_simp
  moreover have "running_version a_box = Some ''1''" "real_current a_box = Some ''/o/versions/1''" by code_simp+
  moreover have "present a_box = [''/o/versions/1'', ''/o/versions/2'']" "leads_to a_box p = p" for p by (simp_all add: a_box_def)
  ultimately have "stageUpdate ''/o'' 0 (Some 1) ''2'' [] a_box =
      (Inr None, a_box\<lparr>marker_file := Some (marker_file_text 0 (update_marker ''pending'' ''1'' ''2'' ''/o/versions/1'' ''/o/versions/2'' 1 0 0 0)),
         restarts := restarts a_box + 1\<rparr>)"
    by (simp add: stageUpdate_def write_marker_ok next_io_def)
  then show ?thesis by (simp add: in_phase_def an_update_def read_marker_text) (rule exI, rule refl)
qed

theorem update_settles_witness:
  "rolled_back an_update (boots ''/o'' (\<lambda>_. True) [(1, Crashed), (2, Reached [(None, 3), (Some 2, 90000)]), (3, Crashed)]
      (snd (stageUpdate ''/o'' 0 (Some 1) ''2'' [] a_box)))"
proof -
  have "after_last_slash (staged_dir an_update) = to_version an_update" by code_simp
  from update_settles [OF conjunct2 [OF a_box_stages] this,
      of "[(1, Crashed), (2, Reached [(None, 3), (Some 2, 90000)]), (3, Crashed)]" "''/o''" "\<lambda>_. True"]
  have "rolled_back an_update (boots ''/o'' (\<lambda>_. True) [(1, Crashed), (2, Reached [(None, 3), (Some 2, 90000)]), (3, Crashed)]
      (snd (stageUpdate ''/o'' 0 (Some 1) ''2'' [] a_box))) \<or>
     list_ex (healthy (mu_pre an_update)) [(1, Crashed), (2, Reached [(None, 3), (Some 2, 90000)]), (3, Crashed)]" by auto
  moreover have "\<not> list_ex (healthy (mu_pre an_update)) [(1, Crashed), (2, Reached [(None, 3), (Some 2, 90000)]), (3, Crashed)]"
    by code_simp
  ultimately show ?thesis by blast
qed

text \<open>
  Failing writes: whatever fails, the link points at one of the three directories it may point at.
\<close>

lemma current_stays_known:
  assumes "in_phase u p n b" and "current b \<in> {Some (prev_dir u), Some (staged_dir u)}"
  shows "current (preflight t io b) \<in> {Some (prev_dir u), Some (staged_dir u)}"
proof -
  have w: "current (snd (snd (write_marker t m io b))) = current b" for m io b
    by (simp add: write_marker_def next_io_def split: list.split)
  have s: "current (snd (snd (swap_and_write t (JStr d) m io b))) \<in> {Some d, current b}" for d m io
    by (auto simp: swap_and_write_def swap_def next_io_def write_marker_def split: list.split)
  obtain r where m: "readMarker (marker_file b) =
      Some (update_marker p (from_version u) (to_version u) (prev_dir u) (staged_dir u) (mu_pre u) n (issued_at u) r)" (is "_ = Some ?m")
    using assms(1) by (auto simp: in_phase_def)
  obtain ok io1 b1 where x: "swap_and_write t (JStr (staged_dir u)) (swapped 1 ?m) io b = (ok, io1, b1)" by (metis prod_cases3)
  have c1: "current b1 \<in> {Some (staged_dir u), current b}" using s [of "staged_dir u" "swapped 1 ?m" io] x by simp
  show ?thesis
  proof (cases "p = ''pending''")
    case True
    then have "preflight t io b = (if ok then b1 else snd (snd (write_marker t (reverting ?m) io1 b1)))"
      using m x by (simp add: preflight_def del: marker_updates)
    then have "current (preflight t io b) = current b1" using w by (simp del: marker_updates)
    then show ?thesis using c1 assms(2) by auto
  next
    case False
    have "preflight t io b \<in> {b, snd (snd (swap_and_write t (JStr (prev_dir u)) (reverting ?m) io b)),
        snd (snd (write_marker t (swapped (m_int ''attempts'' ?m + 1) ?m) io b))}"
      using m False unfolding preflight_def Let_def by (simp del: marker_updates)
    then show ?thesis using w s [of "prev_dir u" "reverting ?m" io] assms(2) by (elim insertE emptyE) (auto simp del: marker_updates)
  qed
qed

text \<open>
  The write of the marker can fail after the swap took effect, and the next write succeed: then the
  phase says reverting while the new version is current, and the daemon reports a rollback to the
  old version that has not happened.
\<close>

lemma false_report_after_failed_write:
  assumes "in_phase u ''pending'' 0 b"
  shows "current (preflight t [True, False] b) = Some (staged_dir u) \<and> in_phase u ''reverting'' 0 (preflight t [True, False] b)"
  using assms by (auto simp: in_phase_def preflight_def swap_and_write_def swap_def next_io_def write_marker_def read_marker_text)

subsection \<open>Collecting old versions\<close>

lemma set_insert_by [simp]: "set (insert_by f x xs) = insert x (set xs)"
  by (induction xs) auto

lemma length_insert_by [simp]: "length (insert_by f x xs) = Suc (length xs)"
  by (induction xs) auto

lemma sort_by_perm [simp]: "set (sort_by f xs) = set xs" "length (sort_by f xs) = length xs"
  unfolding sort_by_def by (induction xs) auto

text \<open>What is protected is kept, and of the rest as many as \<open>keep\<close> allows beside it.\<close>

lemma gc_spares: "set (versionsToGC dirs keep protect) \<subseteq> set dirs - set protect"
  by (auto simp: versionsToGC_def Let_def dest!: in_set_takeD)

lemma gc_count: "length (versionsToGC dirs keep protect) = length (filter (\<lambda>d. d \<notin> set protect) dirs) - (keep - length protect)"
  by (simp add: versionsToGC_def Let_def)

text \<open>Where every path leads to itself, the running version and the one to go back to survive a blessing.\<close>

lemma blessing_keeps_both:
  assumes "\<And>p. leads_to b p = p" and "current b = Some c" and "c \<noteq> []" and "prev \<noteq> []"
    and "c \<in> set (present b)" and "prev \<in> set (present b)"
  shows "c \<in> set (present (gcOldVersions root rm prev b)) \<and> prev \<in> set (present (gcOldVersions root rm prev b))"
proof -
  have "real_current b = Some c" "safeReal b prev = Some prev" using assms by (simp_all add: real_current_def safeReal_def)
  then have "filter (\<lambda>p. p \<noteq> []) (List.map_filter (\<lambda>x. x) [real_current b, safeReal b prev]) = [c, prev]"
    using assms(3,4) by (simp add: List.map_filter_def)
  moreover have "c \<notin> set (versionsToGC dirs KEEP_VERSIONS [c, prev])" "prev \<notin> set (versionsToGC dirs KEEP_VERSIONS [c, prev])" for dirs
    using gc_spares [of dirs KEEP_VERSIONS "[c, prev]"] by auto
  ultimately show ?thesis using assms(5,6) by (auto simp: gcOldVersions_def Let_def remove_dirs_def split: option.split)
qed

text \<open>
  An entry of the versions directory that is itself a link is compared by its own name with what
  the protected paths lead to: the link \<open>current\<close> goes through is collected.
\<close>

definition linked_box :: box where
  "linked_box = \<lparr>marker_file = None, current = Some ''/o/versions/1'', entries = Some [''1'', ''2'', ''3''],
     leads_to = (\<lambda>p. if p = ''/o/versions/1'' then ''/home/dev'' else p),
     present = [''/home/dev'', ''/o/versions/1'', ''/o/versions/2'', ''/o/versions/3''], told = [], restarts = 0\<rparr>"

lemma linked_version_is_collected:
  "''/o/versions/1'' \<notin> set (present (gcOldVersions ''/o'' (\<lambda>_. True) ''/o/versions/2'' linked_box))"
  "real_current (gcOldVersions ''/o'' (\<lambda>_. True) ''/o/versions/2'' linked_box) = None"
  by code_simp+

text \<open>The order of versions is not one: three names can each come before the next, and a release sorts below its own beta.\<close>

lemma version_order_has_cycles:
  "compareVersions ''2'' ''10'' < 0 \<and> compareVersions ''10'' ''1a'' < 0 \<and> compareVersions ''1a'' ''2'' < 0"
  "compareVersions ''0.3.0'' ''0.3.0-beta'' < 0"
  "compareVersions ''0.0.2'' ''0.0.10'' < 0"
  by code_simp+

end
