(* ===== verification/Releases.thy ===== *)
theory Releases
  imports SelfUpdate Regex
begin

text \<open>
  Where updates come from: the release list of GitHub and its assets
  (\<open>apps/mirod/src/self-update/github.ts\<close>), the signed manifest (\<open>manifest.ts\<close>) and the
  orchestration that turns a release into a version directory (\<open>fetch.ts\<close>).

  The network is the argument \<open>http\<close>, one answer per request; every request made is
  logged.  The check of the signature, SHA-256, the order of versions (\<open>Bun.semver\<close>, which may
  throw), unpacking and installing are arguments.  The scratch directory is left out: a download is
  read back as it was written.
\<close>

subsection \<open>Releases\<close>

record asset =
  asset_name :: string
  api_url :: string

record release =
  tag :: string
  rel_version :: string
  prerelease :: bool
  rel_body :: string
  assets :: "asset list"

definition parse_asset :: "json \<Rightarrow> asset option" where
  "parse_asset a = (case (field ''name'' a, field ''url'' a) of
     (JStr n, JStr u) \<Rightarrow> Some \<lparr>asset_name = n, api_url = u\<rparr> | _ \<Rightarrow> None)"

definition drop_v :: "string \<Rightarrow> string" where
  "drop_v t = (case t of c # cs \<Rightarrow> if c = CHR ''v'' then cs else t | [] \<Rightarrow> t)"

definition parse_release :: "json \<Rightarrow> release option" where
  "parse_release r =
     (case field ''tag_name'' r of
        JStr t \<Rightarrow>
          if t = [] \<or> field ''draft'' r = JBool True then None
          else Some \<lparr>tag = t, rel_version = drop_v t, prerelease = (field ''prerelease'' r = JBool True),
                 rel_body = (case field ''body'' r of JStr s \<Rightarrow> s | _ \<Rightarrow> []),
                 assets = (case field ''assets'' r of JArr xs \<Rightarrow> List.map_filter parse_asset xs | _ \<Rightarrow> [])\<rparr>
      | _ \<Rightarrow> None)"

definition parseReleases :: "json \<Rightarrow> release list" where
  "parseReleases v = (case v of JArr rs \<Rightarrow> List.map_filter parse_release rs | _ \<Rightarrow> [])"

text \<open>\<open>order\<close>: a version the library cannot read is compared as text.\<close>

definition version_order :: "(string \<Rightarrow> string \<Rightarrow> int option) \<Rightarrow> string \<Rightarrow> string \<Rightarrow> int" where
  "version_order semver a b = (case semver a b of Some c \<Rightarrow> c | None \<Rightarrow> if a = b then 0 else if a < b then - 1 else 1)"

definition eligible :: "(string \<Rightarrow> string \<Rightarrow> int option) \<Rightarrow> channel \<Rightarrow> string option \<Rightarrow> release \<Rightarrow> bool" where
  "eligible semver c running r \<longleftrightarrow> (c = Stable \<longrightarrow> \<not> prerelease r) \<and>
     (case running of None \<Rightarrow> True | Some v \<Rightarrow> version_order semver (rel_version r) v > 0)"

definition pickRelease :: "(string \<Rightarrow> string \<Rightarrow> int option) \<Rightarrow> release list \<Rightarrow> channel \<Rightarrow> string option \<Rightarrow> release option" where
  "pickRelease semver rs c running =
     (let xs = sort_by (\<lambda>a b. version_order semver (rel_version a) (rel_version b)) (filter (eligible semver c running) rs)
      in if xs = [] then None else Some (last xs))"

definition assetNamed :: "release \<Rightarrow> string \<Rightarrow> asset option" where
  "assetNamed r n = List.find (\<lambda>a. asset_name a = n) (assets r)"

subsection \<open>The network\<close>

record get_request =
  get_url :: string
  get_headers :: "(string \<times> string) list"
  follow :: bool

record get_answer =
  status :: nat
  status_text :: string
  location :: "string option"
  answer_body :: string

definition API :: string where "API = ''https://api.github.com''"

definition user_agent :: "string \<times> string" where "user_agent = (''User-Agent'', ''miro-self-update'')"

definition gh_headers :: "string option \<Rightarrow> (string \<times> string) list" where
  "gh_headers token = [user_agent, (''Accept'', ''application/vnd.github+json''), (''X-GitHub-Api-Version'', ''2022-11-28'')] @
     (if truthy token then [(''Authorization'', ''Bearer '' @ join_text token)] else [])"

definition is_ok :: "get_answer \<Rightarrow> bool" where
  "is_ok a \<longleftrightarrow> 200 \<le> status a \<and> status a < 300"

definition listReleases ::
    "(get_request \<Rightarrow> get_answer) \<Rightarrow> string \<Rightarrow> string option \<Rightarrow> (js_error + release list) \<times> get_request list" where
  "listReleases http repo token =
     (let q = \<lparr>get_url = API @ ''/repos/'' @ repo @ ''/releases?per_page=30'', get_headers = gh_headers token, follow = True\<rparr>;
          a = http q
      in (if \<not> is_ok a then Inl (an_error (''GitHub releases: '' @ show_nat (status a) @ '' '' @ status_text a))
          else (case json_parse (answer_body a) of None \<Rightarrow> Inl (JsError ''SyntaxError'' []) | Some v \<Rightarrow> Inr (parseReleases v)), [q]))"

text \<open>The redirect is followed by hand, without the token.\<close>

definition downloadAsset ::
    "(get_request \<Rightarrow> get_answer) \<Rightarrow> string option \<Rightarrow> asset \<Rightarrow> (js_error + string) \<times> get_request list" where
  "downloadAsset http token a =
     (let q1 = \<lparr>get_url = api_url a, get_headers = AList.update ''Accept'' ''application/octet-stream'' (gh_headers token), follow = False\<rparr>;
          first = http q1;
          finish = (\<lambda>res. if is_ok res then Inr (answer_body res)
            else Inl (an_error (''asset '' @ asset_name a @ '': '' @ show_nat (status res) @ '' '' @ status_text res)))
      in if 300 \<le> status first \<and> status first < 400
         then (case location first of
                 None \<Rightarrow> (Inl (an_error (''asset '' @ asset_name a @ '': '' @ show_nat (status first) @ '' with no redirect location'')), [q1])
               | Some l \<Rightarrow>
                   if l = [] then (Inl (an_error (''asset '' @ asset_name a @ '': '' @ show_nat (status first) @ '' with no redirect location'')), [q1])
                   else (let q2 = \<lparr>get_url = l, get_headers = [user_agent], follow = True\<rparr> in (finish (http q2), [q1, q2])))
         else (finish first, [q1]))"

subsection \<open>The manifest\<close>

record manifest =
  man_version :: string
  man_channel :: channel
  man_summary :: string
  man_notes :: string
  man_commit :: string
  art_name :: string
  art_sha :: string
  art_size :: json
  man_created :: json

definition channel_of :: "json \<Rightarrow> channel option" where
  "channel_of v = (if v = JStr ''stable'' then Some Stable else if v = JStr ''beta'' then Some Beta else None)"

definition hex64 :: "string \<Rightarrow> bool" where
  "hex64 s \<longleftrightarrow> length s = 64 \<and> list_all (\<lambda>c. is_digit c \<or> (CHR ''a'' \<le> c \<and> c \<le> CHR ''f'')) s"

definition manifest_of :: "json \<Rightarrow> manifest option" where
  "manifest_of m =
     (let a = field ''artifact'' m
      in case (field ''version'' m, channel_of (field ''channel'' m), field ''summary'' m, field ''notes'' m, field ''commit'' m,
               field ''name'' a, field ''sha256'' a) of
           (JStr v, Some c, JStr s, JStr n, JStr k, JStr an, JStr sha) \<Rightarrow>
             if field ''schema'' m = JNum 1 \<and> hex64 sha \<and> is_number (field ''size'' a)
             then Some \<lparr>man_version = v, man_channel = c, man_summary = s, man_notes = n, man_commit = k, art_name = an, art_sha = sha,
                    art_size = field ''size'' a,
                    man_created = (if is_number (field ''createdAt'' m) then field ''createdAt'' m else JNum 0)\<rparr>
             else None
         | _ \<Rightarrow> None)"

definition parseManifest :: "string \<Rightarrow> js_error + manifest" where
  "parseManifest text =
     (case json_parse text of
        None \<Rightarrow> Inl (JsError ''SyntaxError'' [])
      | Some m \<Rightarrow>
          if m = JNull then Inl (JsError ''TypeError'' [])
          else (case manifest_of m of None \<Rightarrow> Inl (an_error ''malformed update manifest'') | Some x \<Rightarrow> Inr x))"

subsection \<open>Checking and staging\<close>

record 'c fetch_deps =
  http :: "get_request \<Rightarrow> get_answer"
  semver :: "string \<Rightarrow> string \<Rightarrow> int option"
  verify_manifest :: "string \<Rightarrow> string \<Rightarrow> bool"
  sha256_of :: "string \<Rightarrow> string"
  unpack :: "string \<Rightarrow> js_error + 'c"
  install :: "'c \<Rightarrow> js_error + 'c"
  rename_ok :: bool
  repo :: string
  token :: "string option"
  deps_channel :: channel
  current_version :: "string option"

record available_update =
  up_manifest :: manifest
  up_release :: release

definition MANIFEST_ASSET :: string where "MANIFEST_ASSET = ''manifest.json''"
definition BUNDLE_ASSET :: string where "BUNDLE_ASSET = ''manifest.json.sigstore''"

definition checkForUpdate :: "'c fetch_deps \<Rightarrow> (js_error + available_update option) \<times> get_request list" where
  "checkForUpdate d =
     (case listReleases (http d) (repo d) (token d) of
        (Inl e, q) \<Rightarrow> (Inl e, q)
      | (Inr rs, q) \<Rightarrow>
          (case pickRelease (semver d) rs (deps_channel d) (current_version d) of
             None \<Rightarrow> (Inr None, q)
           | Some r \<Rightarrow>
               (case (assetNamed r MANIFEST_ASSET, assetNamed r BUNDLE_ASSET) of
                  (Some ma, Some ba) \<Rightarrow>
                    (case downloadAsset (http d) (token d) ma of
                       (Inl e, q1) \<Rightarrow> (Inl e, q @ q1)
                     | (Inr bytes, q1) \<Rightarrow>
                         (case downloadAsset (http d) (token d) ba of
                            (Inl e, q2) \<Rightarrow> (Inl e, q @ q1 @ q2)
                          | (Inr bundle, q2) \<Rightarrow>
                              (if \<not> verify_manifest d bytes bundle
                               then Inl (an_error (''release '' @ tag r @ '': signature verification failed''))
                               else (case parseManifest bytes of
                                       Inl e \<Rightarrow> Inl e
                                     | Inr m \<Rightarrow>
                                         if man_version m \<noteq> rel_version r
                                         then Inl (an_error (''release '' @ tag r @ '': manifest version '' @ man_version m @ '' != tag''))
                                         else Inr (Some \<lparr>up_manifest = m, up_release = r\<rparr>)), q @ q1 @ q2)))
                | _ \<Rightarrow> (Inl (an_error (''release '' @ tag r @ '' is missing '' @ MANIFEST_ASSET @ ''/'' @ BUNDLE_ASSET)), q))))"

text \<open>The versions directory: its entries with what they hold.\<close>

definition staging_name :: "string \<Rightarrow> string" where
  "staging_name v = ''.staging-'' @ v"

datatype stage_result = Staged string | NotStaged string

definition build ::
    "'c fetch_deps \<Rightarrow> string \<Rightarrow> string \<Rightarrow> (string \<rightharpoonup> 'c) \<Rightarrow> stage_result \<times> (string \<rightharpoonup> 'c)" where
  "build d tarball v vs =
     (let failed = (\<lambda>e. (NotStaged (''staging '' @ v @ '' failed: '' @ error_message e), vs(staging_name v := None)))
      in case unpack d tarball of
           Inl e \<Rightarrow> failed e
         | Inr tree \<Rightarrow>
             (case install d tree of
                Inl e \<Rightarrow> failed e
              | Inr ready \<Rightarrow>
                  if rename_ok d then (Staged v, (vs(staging_name v := None))(v \<mapsto> ready)) else failed (an_error ''rename'')))"

definition stage_available ::
    "'c fetch_deps \<Rightarrow> available_update \<Rightarrow> (string \<rightharpoonup> 'c) \<Rightarrow> (js_error + stage_result) \<times> (string \<rightharpoonup> 'c) \<times> get_request list" where
  "stage_available d up vs =
     (let v = man_version (up_manifest up)
      in if vs v \<noteq> None then (Inr (Staged v), vs, [])
         else (case assetNamed (up_release up) (art_name (up_manifest up)) of
             None \<Rightarrow> (Inr (NotStaged (''release '' @ tag (up_release up) @ '' is missing '' @ art_name (up_manifest up))), vs, [])
           | Some a \<Rightarrow>
               (case downloadAsset (http d) (token d) a of
                  (Inl e, q) \<Rightarrow> (Inl e, vs, q)
                | (Inr tarball, q) \<Rightarrow>
                    if sha256_of d tarball \<noteq> art_sha (up_manifest up)
                    then (Inr (NotStaged (''artifact digest '' @ take 12 (sha256_of d tarball) @ '' != signed '' @ take 12 (art_sha (up_manifest up)))), vs, q)
                    else (let (r, vs1) = build d tarball v vs in (Inr r, vs1, q)))))"

definition fetchAndStage ::
    "'c fetch_deps \<Rightarrow> available_update option \<Rightarrow> (string \<rightharpoonup> 'c) \<Rightarrow> (js_error + stage_result) \<times> (string \<rightharpoonup> 'c) \<times> get_request list" where
  "fetchAndStage d available vs =
     (case available of
        Some up \<Rightarrow> stage_available d up vs
      | None \<Rightarrow>
          (case checkForUpdate d of
             (Inl e, q) \<Rightarrow> (Inl e, vs, q)
           | (Inr None, q) \<Rightarrow> (Inr (NotStaged ''no update available on this channel''), vs, q)
           | (Inr (Some up), q) \<Rightarrow> (let (r, vs1, q1) = stage_available d up vs in (r, vs1, q @ q1))))"

end
