(* ===== verification/ReleaseProps.thy ===== *)
theory ReleaseProps
  imports Releases UpdateProps
begin

text \<open>
  What a release has been through before its version directory exists, and where the token of the
  owner is sent.
\<close>

subsection \<open>The release that is picked\<close>

lemma picked_is_eligible: "pickRelease sv rs c running = Some r \<Longrightarrow> r \<in> set rs \<and> eligible sv c running r"
proof -
  let ?xs = "sort_by (\<lambda>a b. version_order sv (rel_version a) (rel_version b)) (filter (eligible sv c running) rs)"
  assume "pickRelease sv rs c running = Some r"
  then have "?xs \<noteq> []" "r = last ?xs" by (auto simp: pickRelease_def Let_def split: if_splits)
  then have "r \<in> set ?xs" by (metis last_in_set)
  then show ?thesis by simp
qed

text \<open>Where the order of versions is a total preorder, what is picked is a greatest eligible release.\<close>

definition total_preorder :: "('a \<Rightarrow> 'a \<Rightarrow> int) \<Rightarrow> bool" where
  "total_preorder f \<longleftrightarrow> (\<forall>a b. f a b \<le> 0 \<or> f b a \<le> 0) \<and> (\<forall>a b c. f a b \<le> 0 \<longrightarrow> f b c \<le> 0 \<longrightarrow> f a c \<le> 0)"

lemma insert_by_sorted:
  "total_preorder f \<Longrightarrow> sorted_wrt (\<lambda>a b. f a b \<le> 0) xs \<Longrightarrow> sorted_wrt (\<lambda>a b. f a b \<le> 0) (insert_by f x xs)"
proof (induction xs)
  case (Cons y ys)
  then have "f y z \<le> 0" if "z \<in> set ys" for z using that by simp
  moreover have "f x z \<le> 0" if "f x y \<le> 0" "f y z \<le> 0" for z using Cons.prems(1) that unfolding total_preorder_def by blast
  moreover have "f y x \<le> 0" if "\<not> f x y \<le> 0" using Cons.prems(1) that unfolding total_preorder_def by blast
  ultimately show ?case using Cons by auto
qed simp

lemma sort_by_sorted: "total_preorder f \<Longrightarrow> sorted_wrt (\<lambda>a b. f a b \<le> 0) (sort_by f xs)"
  unfolding sort_by_def by (induction xs) (auto intro: insert_by_sorted)

lemma last_is_greatest: "sorted_wrt R xs \<Longrightarrow> x \<in> set xs \<Longrightarrow> x = last xs \<or> R x (last xs)"
  by (induction xs) (auto split: if_splits)

lemma picked_is_newest:
  assumes "total_preorder (version_order sv)" and "pickRelease sv rs c running = Some r"
    and "r' \<in> set rs" and "eligible sv c running r'"
  shows "version_order sv (rel_version r') (rel_version r) \<le> 0"
proof -
  let ?f = "\<lambda>a b. version_order sv (rel_version a) (rel_version b)"
  let ?xs = "sort_by ?f (filter (eligible sv c running) rs)"
  have t: "total_preorder ?f" using assms(1) unfolding total_preorder_def by blast
  have "r = last ?xs" using assms(2) by (auto simp: pickRelease_def Let_def split: if_splits)
  moreover have "r' = last ?xs \<or> ?f r' (last ?xs) \<le> 0"
    by (rule last_is_greatest [OF sort_by_sorted [OF t]]) (use assms(3,4) in simp)
  moreover have "?f r r \<le> 0" using t unfolding total_preorder_def by blast
  ultimately show ?thesis by auto
qed

subsection \<open>Where the token goes\<close>

lemma token_stays_on_first_hop:
  assumes "downloadAsset net tok a = (r, qs)" and "q \<in> set qs" and "get_url q \<noteq> api_url a"
  shows "get_headers q = [user_agent] \<and> map_of (get_headers q) ''Authorization'' = None"
  using assms by (auto simp: downloadAsset_def Let_def user_agent_def split: if_splits option.splits)

subsection \<open>What is staged\<close>

definition trusted :: "'c fetch_deps \<Rightarrow> string \<Rightarrow> 'c \<Rightarrow> bool" where
  "trusted d v tree \<longleftrightarrow> (\<exists>rs qs r m bytes sgn_bundle tarball unpacked.
     listReleases (http d) (repo d) (token d) = (Inr rs, qs) \<and> r \<in> set rs \<and> eligible (semver d) (deps_channel d) (current_version d) r \<and>
     rel_version r = v \<and> verify_manifest d bytes sgn_bundle \<and> parseManifest bytes = Inr m \<and> man_version m = v \<and>
     sha256_of d tarball = art_sha m \<and> unpack d tarball = Inr unpacked \<and> install d unpacked = Inr tree)"

lemma check_verified:
  assumes "checkForUpdate d = (Inr (Some up), q)"
  shows "\<exists>rs qs bytes sgn_bundle. listReleases (http d) (repo d) (token d) = (Inr rs, qs) \<and> up_release up \<in> set rs \<and>
    eligible (semver d) (deps_channel d) (current_version d) (up_release up) \<and> verify_manifest d bytes sgn_bundle \<and>
    parseManifest bytes = Inr (up_manifest up) \<and> man_version (up_manifest up) = rel_version (up_release up)"
proof -
  obtain rs qs where l: "listReleases (http d) (repo d) (token d) = (Inr rs, qs)"
    using assms by (auto simp: checkForUpdate_def split: sum.splits prod.splits)
  obtain r where r: "pickRelease (semver d) rs (deps_channel d) (current_version d) = Some r"
    using assms l by (auto simp: checkForUpdate_def split: option.splits)
  obtain ma ba where a: "assetNamed r MANIFEST_ASSET = Some ma" "assetNamed r BUNDLE_ASSET = Some ba"
    using assms l r by (auto simp: checkForUpdate_def split: option.splits)
  obtain bytes q1 where b: "downloadAsset (http d) (token d) ma = (Inr bytes, q1)"
    using assms l r a by (auto simp: checkForUpdate_def split: sum.splits prod.splits)
  obtain sgn_bundle q2 where c: "downloadAsset (http d) (token d) ba = (Inr sgn_bundle, q2)"
    using assms l r a b by (auto simp: checkForUpdate_def split: sum.splits prod.splits)
  have v: "verify_manifest d bytes sgn_bundle" using assms l r a b c by (auto simp: checkForUpdate_def split: if_splits)
  obtain m where m: "parseManifest bytes = Inr m" using assms l r a b c v by (auto simp: checkForUpdate_def split: sum.splits)
  have "man_version m = rel_version r" "up_manifest up = m" "up_release up = r"
    using assms l r a b c v m by (auto simp: checkForUpdate_def split: if_splits)
  with l v m picked_is_eligible [OF r] show ?thesis by blast
qed

lemma build_cases:
  obtains (built) unpacked tree where "unpack d tarball = Inr unpacked" "install d unpacked = Inr tree"
      "build d tarball v vs = (Staged v, (vs(staging_name v := None))(v \<mapsto> tree))"
  | (failed) why where "build d tarball v vs = (NotStaged why, vs(staging_name v := None))"
proof (cases "unpack d tarball")
  case (Inl e)
  then have "build d tarball v vs = (NotStaged (''staging '' @ v @ '' failed: '' @ error_message e), vs(staging_name v := None))"
    by (simp add: build_def)
  then show ?thesis by (rule failed)
next
  case (Inr unpacked)
  show ?thesis
  proof (cases "install d unpacked")
    case (Inl e)
    with Inr have "build d tarball v vs = (NotStaged (''staging '' @ v @ '' failed: '' @ error_message e), vs(staging_name v := None))"
      by (simp add: build_def)
    then show ?thesis by (rule failed)
  next
    case ready: (Inr tree)
    show ?thesis
    proof (cases "rename_ok d")
      case True
      with Inr ready built show ?thesis by (simp add: build_def)
    next
      case False
      with Inr ready have "build d tarball v vs = (NotStaged (''staging '' @ v @ '' failed: '' @ ''rename''), vs(staging_name v := None))"
        by (simp add: build_def)
      then show ?thesis by (rule failed)
    qed
  qed
qed

text \<open>
  C25. A version directory that staging creates holds what was unpacked and installed from a tarball
  whose SHA-256 is the one in a manifest whose signature was checked, of the version of a release
  that is published on the owner's channel and above the running version.  Every other outcome
  leaves the versions as they were, but for the half-built directory, which is removed.
\<close>

theorem staged_release_was_verified:
  assumes "fetchAndStage d None vs = (res, vs', q)"
  shows "(\<exists>v tree. res = Inr (Staged v) \<and> vs v = None \<and> vs' = (vs(staging_name v := None))(v \<mapsto> tree) \<and> trusted d v tree) \<or>
    (\<exists>v. res = Inr (Staged v) \<and> vs v \<noteq> None \<and> vs' = vs) \<or>
    ((\<forall>v. res \<noteq> Inr (Staged v)) \<and> (\<exists>v. vs' \<in> {vs, vs(staging_name v := None)}))"
proof -
  consider (none) "vs' = vs" "\<forall>v. res \<noteq> Inr (Staged v)" | (some) up q0 q1 where "checkForUpdate d = (Inr (Some up), q0)" "stage_available d up vs = (res, vs', q1)"
    using assms by (auto simp: fetchAndStage_def split: prod.splits sum.splits option.splits)
  then show ?thesis
  proof cases
    case none
    then show ?thesis by blast
  next
    case (some up)
    define v where "v = man_version (up_manifest up)"
    obtain rs qs bytes sgn_bundle where c: "listReleases (http d) (repo d) (token d) = (Inr rs, qs)" "up_release up \<in> set rs"
        "eligible (semver d) (deps_channel d) (current_version d) (up_release up)" "verify_manifest d bytes sgn_bundle"
        "parseManifest bytes = Inr (up_manifest up)" "v = rel_version (up_release up)"
      using check_verified [OF some(1)] v_def by auto
    consider (there) "vs v \<noteq> None" "res = Inr (Staged v)" "vs' = vs" | (refused) "vs' = vs" "\<forall>v. res \<noteq> Inr (Staged v)"
      | (tarball) tarball r where "vs v = None" "sha256_of d tarball = art_sha (up_manifest up)" "build d tarball v vs = (r, vs')" "res = Inr r"
      using some(2) by (auto simp: stage_available_def Let_def v_def split: if_splits option.splits prod.splits sum.splits)
    then show ?thesis
    proof cases
      case (tarball tb r)
      show ?thesis
      proof (cases rule: build_cases [of d tb v vs])
        case (built unpacked tree)
        have "trusted d v tree" unfolding trusted_def
          by (rule exI [of _ rs], rule exI [of _ qs], rule exI [of _ "up_release up"], rule exI [of _ "up_manifest up"],
              rule exI [of _ bytes], rule exI [of _ sgn_bundle], rule exI [of _ tb], rule exI [of _ unpacked])
             (simp add: c(1-5) c(6) [symmetric] tarball(2) built(1,2) v_def [symmetric])
        then show ?thesis using built tarball by auto
      next
        case (failed why)
        then have "res = Inr (NotStaged why)" "vs' = vs(staging_name v := None)" using tarball by auto
        then show ?thesis by auto
      qed
    qed blast+
  qed
qed

definition a_manifest :: json where
  "a_manifest = JObj [(''schema'', JNum 1), (''version'', JStr ''2.0.0''), (''channel'', JStr ''stable''), (''summary'', JStr ''s''),
     (''notes'', JStr ''n''), (''commit'', JStr ''c''),
     (''artifact'', JObj [(''name'', JStr ''m.tgz''), (''sha256'', JStr (replicate 64 CHR ''a'')), (''size'', JNum 3)])]"

definition a_release_list :: json where
  "a_release_list = JArr [JObj [(''tag_name'', JStr ''v2.0.0''), (''assets'',
     JArr (map (\<lambda>n. JObj [(''name'', JStr n), (''url'', JStr n)]) [MANIFEST_ASSET, BUNDLE_ASSET, ''m.tgz'']))]]"

definition some_deps :: "string fetch_deps" where
  "some_deps = \<lparr>http = (\<lambda>q. \<lparr>status = 200, status_text = [], location = None,
       answer_body = (if get_url q = MANIFEST_ASSET then stringify a_manifest else if get_url q = ''m.tgz'' then ''tar''
         else if get_url q = BUNDLE_ASSET then ''sig'' else stringify a_release_list)\<rparr>),
     semver = (\<lambda>a b. Some (compareVersions a b)), verify_manifest = (\<lambda>m b. b = ''sig''), sha256_of = (\<lambda>_. replicate 64 CHR ''a''),
     unpack = (\<lambda>t. Inr t), install = (\<lambda>t. Inr (t @ ''+'')), rename_ok = True, repo = ''o/r'', token = Some ''t'',
     deps_channel = Stable, current_version = Some ''1.9.0''\<rparr>"

theorem staged_release_was_verified_witness:
  "trusted some_deps ''2.0.0'' (the (fst (snd (fetchAndStage some_deps None (\<lambda>_. None))) ''2.0.0''))"
proof -
  let ?x = "fetchAndStage some_deps None (\<lambda>_. None)"
  have "?x = (fst ?x, fst (snd ?x), snd (snd ?x))" by simp
  note cases = staged_release_was_verified [OF this]
  have "fst ?x = Inr (Staged ''2.0.0'')" by code_simp
  with cases obtain tree where "fst (snd ?x) = ((\<lambda>_. None)(staging_name ''2.0.0'' := None))(''2.0.0'' \<mapsto> tree)"
    "trusted some_deps ''2.0.0'' tree" by auto
  then show ?thesis by simp
qed

end
