(* ===== verification/HttpKind.thy ===== *)
theory HttpKind
  imports Engine CmdRules FileKinds
begin

text \<open>
  The operation kind \<open>http.mutation\<close> (\<open>apps/mirod/src/operations/kinds/http-mutation.ts\<close>): a
  declared HTTP write to an application of the local network, with its capture, verification and
  undo requests and with credentials named by reference.  The applications and the secret store
  are the state; \<open>fetch\<close>, the URL parser and the text decoder are parameters.  Every request that
  is sent is kept in a log.  Characters beyond Latin-1 of the messages are written in ASCII.
\<close>

subsection \<open>Requests and responses\<close>

text \<open>\<open>rq_redirect\<close> is what the code passes as \<open>redirect\<close>; \<open>rs_chunks\<close> are the pieces of the body as they arrive.\<close>

record http_request =
  rq_method :: string
  rq_url :: string
  rq_headers :: "(string \<times> string) list"
  rq_body :: "string option"
  rq_redirect :: string
  rq_timeout :: int

record http_response =
  rs_status :: int
  rs_headers :: "(string \<times> string) list"
  rs_chunks :: "string list"

record 'a web =
  send_request :: "http_request \<Rightarrow> 'a \<Rightarrow> (js_error + http_response) \<times> 'a"
  url_parts :: "string \<Rightarrow> (string \<times> string) option"
  decode_text :: "string \<Rightarrow> string"

text \<open>\<open>mutation_output\<close> is what \<open>outputs\<close> holds for the parameters of the operation.\<close>

record http_output =
  out_status :: int
  out_body :: string
  out_stored :: "string option option"
  out_error :: "string option"

record 'a lan =
  lan_apps :: 'a
  lan_requests :: "http_request list"
  lan_secrets :: "string \<Rightarrow> string option"
  mutation_output :: "http_output option"

text \<open>\<open>readTextCapped\<close> (\<open>apps/mirod/src/fetch-body.ts\<close>): stop reading at the cap, keep at most the cap.\<close>

fun read_chunks :: "int \<Rightarrow> string list \<Rightarrow> string \<Rightarrow> string" where
  "read_chunks cap [] got = got"
| "read_chunks cap (c # cs) got =
     (let got' = got @ c in if cap \<le> int (length got') then got' else read_chunks cap cs got')"

fun subarray :: "int \<Rightarrow> string \<Rightarrow> string" where
  "subarray n [] = []"
| "subarray n (c # cs) = (if n \<le> 0 then [] else c # subarray (n - 1) cs)"

definition readTextCapped :: "'a web \<Rightarrow> http_response \<Rightarrow> int \<Rightarrow> string" where
  "readTextCapped web res cap = decode_text web (subarray cap (read_chunks cap (rs_chunks res) []))"

definition BODY_CAP :: int where "BODY_CAP = 64 * 1024"

record reply_text =
  rt_status :: int
  rt_body :: string
  rt_headers :: "(string \<times> string) list"

definition outgoing :: "string \<Rightarrow> string \<Rightarrow> (string \<times> string) list \<Rightarrow> string option \<Rightarrow> string option \<Rightarrow> int option \<Rightarrow> http_request" where
  "outgoing m url hs content type timeout = \<lparr>rq_method = m, rq_url = url,
     rq_headers = (if content \<noteq> None \<and> truthy type then AList.update ''Content-Type'' (text_or_empty type) hs else hs),
     rq_body = content, rq_redirect = ''manual'', rq_timeout = (case timeout of None \<Rightarrow> 30000 | Some t \<Rightarrow> t)\<rparr>"

definition request ::
    "'a web \<Rightarrow> string \<Rightarrow> string \<Rightarrow> (string \<times> string) list \<Rightarrow> string option \<Rightarrow> string option \<Rightarrow> int option \<Rightarrow> 'a lan
       \<Rightarrow> (js_error + reply_text) \<times> 'a lan" where
  "request web m url hs content type timeout s =
     (let rq = outgoing m url hs content type timeout;
          (r, apps) = send_request web rq (lan_apps s);
          s1 = s\<lparr>lan_apps := apps, lan_requests := lan_requests s @ [rq]\<rparr>
      in case r of Inl e \<Rightarrow> (Inl e, s1)
         | Inr res \<Rightarrow> (Inr \<lparr>rt_status = rs_status res, rt_body = readTextCapped web res BODY_CAP,
                            rt_headers = rs_headers res\<rparr>, s1))"

subsection \<open>Parameters\<close>

definition text_field :: "string \<Rightarrow> json \<Rightarrow> string option" where
  "text_field k p = as_string (field k p)"

definition num_field :: "string \<Rightarrow> json \<Rightarrow> int option" where
  "num_field k p = (case field k p of JNum i \<Rightarrow> Some i | _ \<Rightarrow> None)"

definition header_params :: "json \<Rightarrow> (string \<times> string) list" where
  "header_params p = (case field ''headers'' p of JObj kvs \<Rightarrow> map (\<lambda>(k, v). (k, js_text v)) kvs | _ \<Rightarrow> [])"

definition given_object :: "string \<Rightarrow> json \<Rightarrow> json option" where
  "given_object k p = (case field k p of JObj kvs \<Rightarrow> Some (JObj kvs) | _ \<Rightarrow> None)"

subsection \<open>Response fields\<close>

definition member_at :: "json \<Rightarrow> string \<Rightarrow> json" where
  "member_at v k = (case v of
     JObj kvs \<Rightarrow> field k v
   | JArr vs \<Rightarrow> (if k = ''length'' then JNum (int (length vs))
       else case find_index (\<lambda>i. show_nat i = k) [0..<length vs] of None \<Rightarrow> JUndef | Some i \<Rightarrow> vs ! i)
   | _ \<Rightarrow> JUndef)"

definition fieldAt :: "json \<Rightarrow> string \<Rightarrow> json" where
  "fieldAt v path = foldl member_at v (split_on CHR ''.'' path)"

text \<open>\<open>Headers.get\<close>: the values of a name, whatever its case; a name that is no token throws.\<close>

definition token_char :: "char \<Rightarrow> bool" where
  "token_char c \<longleftrightarrow> alnum c \<or> c \<in> set ''!#$%&*+-.^_|~'' \<or> c = SQ \<or> c = BQ"

definition header_values :: "string \<Rightarrow> (string \<times> string) list \<Rightarrow> string list" where
  "header_values name hs = map snd (filter (\<lambda>(k, v). to_lower k = to_lower name) hs)"

definition header_get :: "string \<Rightarrow> (string \<times> string) list \<Rightarrow> js_error + string option" where
  "header_get name hs =
     (if name = [] \<or> \<not> list_all token_char name then Inl (JsError ''TypeError'' (''Invalid header name: '' @ name))
      else Inr (case header_values name hs of [] \<Rightarrow> None | vs \<Rightarrow> Some (join '', '' vs)))"

definition or_else :: "string \<Rightarrow> string \<Rightarrow> string" where
  "or_else d s = (if s = [] then d else s)"

definition cookie_pairs :: "(string \<times> string) list \<Rightarrow> string list" where
  "cookie_pairs hs = header_values ''set-cookie'' hs"

definition object_keys :: "json \<Rightarrow> string list option" where
  "object_keys v = (case v of JObj kvs \<Rightarrow> Some (map fst kvs) | JArr vs \<Rightarrow> Some (map show_nat [0..<length vs]) | _ \<Rightarrow> None)"

definition responseField :: "string \<Rightarrow> string \<Rightarrow> (string \<times> string) list \<Rightarrow> js_error + json \<times> string" where
  "responseField f content hs =
     (if starts_with ''header:'' f
      then case header_get (trim (drop 7 f)) hs of
             Inl e \<Rightarrow> Inl e
           | Inr v \<Rightarrow> Inr (case v of None \<Rightarrow> JUndef | Some t \<Rightarrow> JStr t,
                           or_else ''no headers'' (join '', '' (map (\<lambda>(k, v). to_lower k) hs)))
      else if starts_with ''cookie:'' f
      then let name = trim (drop 7 f); cookies = cookie_pairs hs;
               hit = List.find (starts_with (name @ ''='')) (map (\<lambda>c. trim (hd (split_on CHR '';'' c))) cookies)
           in Inr (case hit of None \<Rightarrow> JUndef | Some c \<Rightarrow> if c = [] then JUndef else JStr (drop (length name + 1) c),
                   or_else ''no cookies'' (join '', '' (map (\<lambda>c. trim (hd (split_on CHR ''='' c))) cookies)))
      else let v = (case json_parse content of None \<Rightarrow> JNull | Some w \<Rightarrow> w)
           in Inr (fieldAt v f, case object_keys v of None \<Rightarrow> ''not a JSON object'' | Some ks \<Rightarrow> join '', '' (take 20 ks)))"

subsection \<open>Credentials\<close>

definition HAS_PLACEHOLDER :: rex where
  "HAS_PLACEHOLDER = seq [lit ''{{secret:'',
     plus (Cls (\<lambda>c. alnum c \<or> c = CHR ''_'' \<or> c = CHR ''.'' \<or> c = CHR ''-'')), lit ''}}'']"

definition STORABLE_REF :: rex where
  "STORABLE_REF = seq [Bol, liti ''extension.'', Cls alnum, Star (Cls (\<lambda>c. alnum c \<or> c = CHR ''-'')), ch CHR ''.'',
     Cls (\<lambda>c. alnum c \<or> c = CHR ''_''), Star (Cls (\<lambda>c. alnum c \<or> c = CHR ''_'' \<or> c = CHR ''-'')), Eol]"

definition media_browser_re :: rex where
  "media_browser_re = seq [Bol, liti ''MediaBrowser'', space]"

definition media_token_re :: rex where
  "media_token_re = seq [liti ''Token'', Star space, ch CHR ''='', Star space, ch DQ,
     NotAhead (liti ''{{secret:''), plus (none_of [DQ]), ch DQ]"

definition isCredentialFreeHeader :: "string \<Rightarrow> bool" where
  "isCredentialFreeHeader v \<longleftrightarrow>
     rtest HAS_PLACEHOLDER v \<or> (rtest media_browser_re v \<and> \<not> rtest media_token_re v)"

definition LITERAL_CREDENTIAL :: rex where
  "LITERAL_CREDENTIAL = seq [ch DQ,
     alt [liti ''password'', liti ''passwd'', liti ''pw'', liti ''token'', seq [liti ''api'', opt (ch CHR ''_''), liti ''key''],
          liti ''secret''],
     ch DQ, Star space, ch CHR '':'', Star space, ch DQ, NotAhead (liti ''{{secret:''), at_least 4 (none_of [DQ]), ch DQ]"

definition credential_header_re :: rex where
  "credential_header_re = alt [liti ''authorization'', liti ''token'', seq [liti ''api'', opt (one_of ''-_''), liti ''key''],
     liti ''cookie'', liti ''secret'', liti ''password'']"

text \<open>\<open>h[k] = substituteSecrets(v)\<close> for every header, then the one header that is a secret.\<close>

fun put_headers ::
    "(string \<Rightarrow> string option) \<Rightarrow> (string \<times> string) list \<Rightarrow> (string \<times> string) list \<Rightarrow> js_error + (string \<times> string) list" where
  "put_headers secret [] hs = Inr hs"
| "put_headers secret ((k, v) # kvs) hs =
     (case substituteSecrets secret v of Inl e \<Rightarrow> Inl e | Inr t \<Rightarrow> put_headers secret kvs (AList.update k t hs))"

definition authHeaders :: "'a lan \<Rightarrow> json \<Rightarrow> js_error + (string \<times> string) list" where
  "authHeaders s p =
     (case put_headers (lan_secrets s) (header_params p) [] of
        Inl e \<Rightarrow> Inl e
      | Inr hs \<Rightarrow>
          (case given_object ''secretHeader'' p of
             None \<Rightarrow> Inr hs
           | Some sh \<Rightarrow>
               (let r = str_of ''ref'' sh; v = lan_secrets s r
                in if \<not> truthy v then Inl (an_error (''secret '' @ r @ '' is not set''))
                   else Inr (AList.update (str_of ''name'' sh) (text_or_empty v) hs))))"

definition resolved :: "'a lan \<Rightarrow> string option \<Rightarrow> js_error + string option" where
  "resolved s t = (case t of None \<Rightarrow> Inr None | Some x \<Rightarrow> map_sum (\<lambda>e. e) Some (substituteSecrets (lan_secrets s) x))"

text \<open>The address a request goes to is judged again after its placeholders are filled in.\<close>

definition target_url :: "'a web \<Rightarrow> 'a lan \<Rightarrow> string \<Rightarrow> string \<Rightarrow> js_error + string" where
  "target_url web s what t =
     (case substituteSecrets (lan_secrets s) t of
        Inl e \<Rightarrow> Inl e
      | Inr url \<Rightarrow>
          if isLocalOrPrivateUrl (url_parts web) url then Inr url
          else Inl (an_error (''refused: '' @ what @ '' resolves to a public address after secret substitution'')))"

text \<open>\<open>request(m, target(what, u), { headers: authHeaders(p), body, contentType })\<close>; the body is resolved last.\<close>

definition send_to ::
    "'a web \<Rightarrow> json \<Rightarrow> string \<Rightarrow> string \<Rightarrow> string \<Rightarrow> ('a lan \<Rightarrow> js_error + string option) \<Rightarrow> string option \<Rightarrow> 'a lan
       \<Rightarrow> (js_error + reply_text) \<times> 'a lan" where
  "send_to web p m what u content type s =
     (case target_url web s what u of
        Inl e \<Rightarrow> (Inl e, s)
      | Inr url \<Rightarrow>
          (case authHeaders s p of
             Inl e \<Rightarrow> (Inl e, s)
           | Inr hs \<Rightarrow>
               (case content s of
                  Inl e \<Rightarrow> (Inl e, s)
                | Inr b \<Rightarrow> request web m url hs b type (num_field ''timeoutMs'' p) s)))"

subsection \<open>The plan\<close>

definition declared_urls :: "json \<Rightarrow> (string \<times> string option) list" where
  "declared_urls p = [(''url'', text_field ''url'' p),
     (''rollback URL'', case given_object ''rollback'' p of None \<Rightarrow> None | Some rb \<Rightarrow> text_field ''url'' rb),
     (''captureUrl'', text_field ''captureUrl'' p), (''verifyUrl'', text_field ''verifyUrl'' p)]"

definition public_url :: "'a web \<Rightarrow> json \<Rightarrow> (string \<times> string option) option" where
  "public_url web p = List.find (\<lambda>(l, u). truthy u \<and> \<not> isLocalOrPrivateUrl (url_parts web) (text_or_empty u)) (declared_urls p)"

definition placeholders :: "json \<Rightarrow> string list" where
  "placeholders p = map (grp 1) (match_all SECRET_PLACEHOLDER
     (text_or_empty (text_field ''body'' p) @ '' '' @ str_of ''url'' p @ '' '' @ join '' '' (map snd (header_params p))))"

definition http_irreversible :: "json \<Rightarrow> bool" where
  "http_irreversible p \<longleftrightarrow>
     given_object ''rollback'' p = None \<and> \<not> (str_of ''method'' p = ''PUT'' \<and> truthy (text_field ''captureUrl'' p))"

definition http_details :: "json \<Rightarrow> (string \<times> json) list" where
  "http_details p =
     [(''method'', JStr (str_of ''method'' p)), (''url'', JStr (str_of ''url'' p)),
      (''body'', json_text_or_null (map_option (take 4000) (text_field ''body'' p))),
      (''headers'', JArr (map (\<lambda>(k, v). JStr k) (header_params p))),
      (''auth'', case given_object ''secretHeader'' p of None \<Rightarrow> JNull
         | Some sh \<Rightarrow> JStr (str_of ''name'' sh @ '' <- '' @ str_of ''ref'' sh)),
      (''verify'', json_text_or_null (text_field ''verifyUrl'' p)),
      (''rollback'', case given_object ''rollback'' p of None \<Rightarrow> JNull
         | Some rb \<Rightarrow> JStr (str_of ''method'' rb @ '' '' @ str_of ''url'' rb)),
      (''stores'', case given_object ''storeResponseField'' p of None \<Rightarrow> JNull
         | Some st \<Rightarrow> JStr (str_of ''field'' st @ '' -> '' @ str_of ''ref'' st))]"

definition http_plan :: "json \<Rightarrow> op_plan" where
  "http_plan p =
     (let irr = http_irreversible p; m = str_of ''method'' p; verifyUrl = text_field ''verifyUrl'' p
      in \<lparr>summary = m @ '' '' @ str_of ''url'' p, plan_auto = False, plan_details = http_details p,
          plan_class = Some (if m = ''DELETE'' then Destructive else Mutate), plan_writes = Some [], plan_network = Some True,
          irreversible = irr, plan_warning = (if irr then Some ''no undo request declared'' else None),
          expects = Some (if truthy verifyUrl then ''GET '' @ text_or_empty verifyUrl @ '' confirms the change afterwards''
            else ''no verify URL declared - the outcome cannot be confirmed''),
          rollback_when = Some (if irr then ''never - no undo request declared''
            else if given_object ''rollback'' p \<noteq> None then ''verify fails - the declared rollback request runs''
            else ''verify fails - the state captured from captureUrl is PUT back''),
          scope_evidence = Some (''the app'' @ [SQ] @ ''s own local or private-network endpoint only; no files change''),
          dry_run = Some Partial\<rparr>)"

definition http_refusal :: "'a web \<Rightarrow> (string \<Rightarrow> bool) \<Rightarrow> json \<Rightarrow> string option" where
  "http_refusal web is_set p =
     (case public_url web p of
        Some (l, u) \<Rightarrow> Some (''refused: '' @ l @ '' '' @ text_or_empty u @ '' is not a local or private-network address'')
      | None \<Rightarrow>
        if list_ex (\<lambda>(k, v). rtest credential_header_re k \<and> \<not> isCredentialFreeHeader v) (header_params p)
        then Some ''refused: credentials must be injected via secretHeader (by reference) or a {{secret:ref}} placeholder, never as a literal header''
        else if truthy (text_field ''body'' p) \<and> rtest LITERAL_CREDENTIAL (str_of ''body'' p)
        then Some ''refused: the body contains a literal credential - write {{secret:<ref>}} in its place (create one with credential_create if needed)''
        else case given_object ''storeResponseField'' p of
          Some st \<Rightarrow>
            if \<not> rtest STORABLE_REF (str_of ''ref'' st)
            then Some (''refused: storeResponseField.ref must be extension.<app>.<name>, got '' @ str_of ''ref'' st)
            else map_option (\<lambda>r. ''refused: placeholder references secret '' @ r @ '', which is not set'')
                   (List.find (\<lambda>r. \<not> is_set r) (placeholders p))
        | None \<Rightarrow> map_option (\<lambda>r. ''refused: placeholder references secret '' @ r @ '', which is not set'')
                   (List.find (\<lambda>r. \<not> is_set r) (placeholders p)))"

definition http_describe :: "'a web \<Rightarrow> json \<Rightarrow> 'a lan \<Rightarrow> (js_error + op_plan) \<times> 'a lan" where
  "http_describe web p s =
     (case http_refusal web (\<lambda>r. lan_secrets s r \<noteq> None) p of
        Some why \<Rightarrow> (Inl (an_error why), s) | None \<Rightarrow> (Inr (http_plan p), s))"

subsection \<open>Running the request\<close>

definition reply_json :: "reply_text \<Rightarrow> json" where
  "reply_json r = JObj [(''status'', JNum (rt_status r)), (''body'', JStr (rt_body r)),
     (''headers'', JObj (map (\<lambda>(k, v). (k, JStr v)) (rt_headers r)))]"

definition http_capture :: "'a web \<Rightarrow> json \<Rightarrow> 'a lan \<Rightarrow> (js_error + json) \<times> 'a lan" where
  "http_capture web p s =
     (if \<not> truthy (text_field ''captureUrl'' p) then (Inr (JObj [(''before'', JNull)]), s)
      else case send_to web p ''GET'' ''captureUrl'' (str_of ''captureUrl'' p) (\<lambda>_. Inr None) None s of
             (Inl e, s1) \<Rightarrow> (Inl e, s1)
           | (Inr r, s1) \<Rightarrow> (Inr (JObj [(''before'', reply_json r)]), s1))"

definition success :: "int \<Rightarrow> bool" where "success st \<longleftrightarrow> 200 \<le> st \<and> st < 300"

definition expected_status :: "json \<Rightarrow> int \<Rightarrow> bool" where
  "expected_status p st \<longleftrightarrow> (case field ''expectStatus'' p of JArr vs \<Rightarrow> JNum st \<in> set vs | _ \<Rightarrow> False)"

definition store_field :: "json \<Rightarrow> reply_text \<Rightarrow> 'a lan \<Rightarrow> (js_error + unit) \<times> 'a lan" where
  "store_field st r s =
     (let f = str_of ''field'' st; ref' = str_of ''ref'' st; o1 = \<lparr>out_status = rt_status r, out_body = rt_body r, out_stored = None, out_error = None\<rparr>
      in case responseField f (rt_body r) (rt_headers r) of
           Inl e \<Rightarrow> (Inl e, s)
         | Inr (v, ks) \<Rightarrow>
             (if as_string v \<noteq> None \<or> is_number v
              then (Inr (), s\<lparr>lan_secrets := (lan_secrets s)(ref' \<mapsto> js_text v),
                              mutation_output := Some (o1\<lparr>out_stored := Some (Some ref')\<rparr>)\<rparr>)
              else (Inr (), s\<lparr>mutation_output := Some (o1\<lparr>out_stored := Some None,
                      out_error := Some (''response has no string field '' @ f @ '' (available: '' @ ks @ '')'')\<rparr>)\<rparr>)))"

definition http_apply :: "'a web \<Rightarrow> json \<Rightarrow> 'a lan \<Rightarrow> (js_error + unit) \<times> 'a lan" where
  "http_apply web p s =
     (case send_to web p (str_of ''method'' p) ''url'' (str_of ''url'' p) (\<lambda>s. resolved s (text_field ''body'' p)) (text_field ''contentType'' p) s of
        (Inl e, s1) \<Rightarrow> (Inl e, s1)
      | (Inr r, s1) \<Rightarrow>
          (let s2 = s1\<lparr>mutation_output := Some \<lparr>out_status = rt_status r, out_body = rt_body r, out_stored = None, out_error = None\<rparr>\<rparr>
           in if \<not> (success (rt_status r) \<or> expected_status p (rt_status r))
              then (Inl (an_error (str_of ''method'' p @ '' '' @ str_of ''url'' p @ '' -> '' @ show_int (rt_status r) @ '': ''
                      @ redact_secrets_in_text (take 500 (rt_body r)))), s2)
              else case given_object ''storeResponseField'' p of
                     None \<Rightarrow> (Inr (), s2)
                   | Some st \<Rightarrow> store_field st r s2))"

definition http_verify :: "'a web \<Rightarrow> json \<Rightarrow> 'a lan \<Rightarrow> (js_error + bool) \<times> 'a lan" where
  "http_verify web p s =
     (if \<not> truthy (text_field ''verifyUrl'' p) then (Inr True, s)
      else case send_to web p ''GET'' ''verifyUrl'' (str_of ''verifyUrl'' p) (\<lambda>_. Inr None) None s of
             (Inl e, s1) \<Rightarrow> (Inl e, s1)
           | (Inr r, s1) \<Rightarrow>
               (Inr (if \<not> success (rt_status r) then False
                     else if truthy (text_field ''verifyExpect'' p) then contains_str (str_of ''verifyExpect'' p) (rt_body r)
                     else True), s1))"

definition captured_reply :: "json \<Rightarrow> (int \<times> string) option" where
  "captured_reply captured = (case num_field ''status'' (field ''before'' captured) of
     None \<Rightarrow> None | Some st \<Rightarrow> Some (st, str_of ''body'' (field ''before'' captured)))"

text \<open>Whatever is thrown here is printed and swallowed.\<close>

definition http_rollback :: "'a web \<Rightarrow> json \<Rightarrow> json \<Rightarrow> 'a lan \<Rightarrow> (js_error + unit) \<times> 'a lan" where
  "http_rollback web p captured s =
     (case given_object ''rollback'' p of
        Some rb \<Rightarrow> (Inr (), snd (send_to web p (str_of ''method'' rb) ''rollback URL'' (str_of ''url'' rb)
                              (\<lambda>s. resolved s (text_field ''body'' rb)) (text_field ''contentType'' rb) s))
      | None \<Rightarrow>
          (case captured_reply captured of
             Some (st, content) \<Rightarrow>
               (if str_of ''method'' p = ''PUT'' \<and> success st
                then (Inr (), snd (send_to web p ''PUT'' ''url'' (str_of ''url'' p) (\<lambda>_. Inr (Some content))
                        (Some (case text_field ''contentType'' p of None \<Rightarrow> ''application/json'' | Some t \<Rightarrow> t)) s))
                else (Inr (), s))
           | None \<Rightarrow> (Inr (), s)))"

definition httpMutationKind :: "'a web \<Rightarrow> 'a lan kind" where
  "httpMutationKind web = \<lparr>kind_name = ''http.mutation'', describe = http_describe web, captureState = http_capture web,
     apply_op = http_apply web, verify = http_verify web, rollback = http_rollback web,
     prodtest = Some (\<lambda>p. if truthy (text_field ''verifyUrl'' p) \<and> field ''verifyKeeps'' p = JBool True then Some (str_of ''url'' p) else None),
     kind_reconcile = None\<rparr>"

end
