(* ===== verification/KindInv.thy ===== *)
theory KindInv
  imports EngineFacts
begin

text \<open>
  Invariants of the server under an operation: a condition on everything outside the daemon's
  tables that the five functions of a kind keep - the last four only for parameters the plan was
  made from - is kept by the whole of \<open>runOperation\<close>, whatever its outcome.
\<close>

text \<open>The waits and the severity oracle keep the condition as well.\<close>

definition waits_respect :: "'s ctx \<Rightarrow> ('s \<Rightarrow> bool) \<Rightarrow> bool" where
  "waits_respect c P \<longleftrightarrow> (\<forall>s. P s \<longrightarrow> P (snd (severity c s))) \<and>
     (\<forall>q w. P (srv w) \<longrightarrow> P (srv (snd (waitForAnswer c q w)))) \<and>
     (\<forall>q ms w. P (srv w) \<longrightarrow> P (srv (snd (answer_or_timeout c q ms w)))) \<and>
     (\<forall>w. P (srv w) \<longrightarrow> P (srv (acquire c w)))"

lemma waits_respectD:
  assumes "waits_respect c P"
  shows "P s \<Longrightarrow> P (snd (severity c s))" "P (srv w) \<Longrightarrow> P (srv (snd (waitForAnswer c q w)))"
    "P (srv w) \<Longrightarrow> P (srv (snd (answer_or_timeout c q ms w)))" "P (srv w) \<Longrightarrow> P (srv (acquire c w))"
  using assms by (simp_all add: waits_respect_def)

definition plannable :: "'s kind \<Rightarrow> json \<Rightarrow> bool" where
  "plannable k p \<longleftrightarrow> (\<exists>s plan. fst (describe k p s) = Inr plan)"

locale kind_invariant =
  fixes k :: "'s kind" and p :: json and P :: "'s \<Rightarrow> bool"
  assumes describe_keeps: "P s \<Longrightarrow> P (snd (describe k p s))"
    and capture_keeps: "plannable k p \<Longrightarrow> P s \<Longrightarrow> P (snd (captureState k p s))"
    and apply_keeps: "plannable k p \<Longrightarrow> P s \<Longrightarrow> P (snd (apply_op k p s))"
    and verify_keeps: "plannable k p \<Longrightarrow> P s \<Longrightarrow> P (snd (verify k p s))"
    and rollback_keeps: "plannable k p \<Longrightarrow> P s \<Longrightarrow> P (snd (rollback k p cap s))"
begin

lemma undo_keeps:
  "plannable k p \<Longrightarrow> P (srv w) \<Longrightarrow> P (srv (snd (undo_op c k goal i p plan cap why m w)))"
  by (simp add: undo_op_def Let_def world_simps roll_back_def rollback_keeps)

lemma commit_keeps: "P (srv w) \<Longrightarrow> P (srv (snd (commit_op c k goal i p plan w)))"
  by (simp add: commit_op_def Let_def world_simps)

lemma lifeline_keeps:
  assumes "plannable k p" and "waits_respect c P" and "P (srv w)"
  shows "P (srv (snd (lifeline_step c k goal i p plan cap w)))"
proof -
  define u where "u = emit (lifeline_question c i plan) (emit (OperationProgress i PAwaitingReachability) w)"
  obtain a w3 where a: "answer_or_timeout c (''lifeline_confirm:'' @ i) (confirm_window c) u = (a, w3)" by fastforce
  have "P (srv u)" using assms(3) by (simp add: u_def world_simps)
  from waits_respectD(3) [OF assms(2) this] a have "P (srv w3)" by (metis snd_conv)
  then have p4: "P (srv (if a = ''timeout'' then w3\<lparr>cancelled := cancelled w3 @ [''lifeline_confirm:'' @ i]\<rparr> else w3))"
    by simp
  show ?thesis
    using a undo_keeps [OF assms(1) p4] commit_keeps [OF p4]
    by (cases "a = ''keep''") (simp_all add: lifeline_step_def Let_def u_def [symmetric])
qed

lemma verify_step_keeps:
  assumes "plannable k p" and "waits_respect c P" and "P (srv w)"
  shows "P (srv (snd (verify_step c k goal i p plan cap sev0 w)))"
proof -
  define w1 where "w1 = emit (OperationProgress i PVerifying) (to_phase c i Verifying None w)"
  obtain v w2 where v: "on_srv (verify k p) w1 = (v, w2)" by fastforce
  have p2: "P (srv w2)"
    using assms v on_srv_srv(1) [of "verify k p" w1] verify_keeps by (simp add: w1_def world_simps)
  show ?thesis
  proof (cases v)
    case (Inl e)
    with p2 v show ?thesis by (simp add: verify_step_def Let_def w1_def [symmetric])
  next
    case (Inr b)
    define sw where "sw = (if b then (let (r, wx) = on_srv (severity c) w2 in (case r of Inl _ \<Rightarrow> sev0 | Inr n \<Rightarrow> n, wx)) else (sev0, w2))"
    obtain sev1 w3 where sev: "sw = (sev1, w3)" by fastforce
    have p3: "P (srv w3)"
      using sev p2 waits_respectD(1) [OF assms(2)] on_srv_srv(1) [of "severity c" w2]
      by (auto simp: sw_def Let_def case_prod_unfold split: if_splits)
    note unf = verify_step_def Let_def w1_def [symmetric] v Inr prod.case sum.case sw_def [unfolded Let_def, symmetric] sev
    show ?thesis
    proof (cases "b \<and> \<not> sev1 > sev0")
      case True
      then have eq: "(b \<and> \<not> sev1 > sev0) = True" by simp
      show ?thesis unfolding unf eq if_True
        using lifeline_keeps [OF assms(1,2) p3] commit_keeps [OF p3] by simp
    next
      case False
      then have eq: "(b \<and> \<not> sev1 > sev0) = False" by blast
      show ?thesis
      proof (cases "irreversible plan")
        case True
        then have ir: "(\<not> irreversible plan) = False" by simp
        show ?thesis unfolding unf eq ir if_False by (simp only: world_simps p3)
      next
        case False
        then have ir: "(\<not> irreversible plan) = True" by simp
        show ?thesis unfolding unf eq ir if_False if_True by (rule undo_keeps [OF assms(1) p3])
      qed
    qed
  qed
qed

lemma locked_keeps:
  assumes "plannable k p" and "waits_respect c P" and "P (srv w)"
  shows "P (srv (snd (locked_op c k goal i p plan w)))"
proof (rule locked_cases [of k p c w goal i plan])
  have sv: "P (snd (severity c (srv w)))" by (rule waits_respectD(1) [OF assms(2,3)])
  have cap: "captureState k p (snd (severity c (srv w))) = (x, s2) \<Longrightarrow> P s2" for x s2
    using capture_keeps [OF assms(1) sv] by (metis snd_conv)
  have ap: "captureState k p (snd (severity c (srv w))) = (x, s2) \<Longrightarrow> apply_op k p s2 = (y, s3) \<Longrightarrow> P s3" for x y s2 s3
    using apply_keeps [OF assms(1) cap, of x s2] by (metis snd_conv)
  show ?thesis
    if "captureState k p (snd (severity c (srv w))) = (Inl e, s2)" "srv w3 = s2"
      "locked_op c k goal i p plan w = finish i ORolledback m (to_phase c i Rolledback err w3)" for e s2 m w3 err
    using that cap by (simp add: world_simps)
  show ?thesis
    if "captureState k p (snd (severity c (srv w))) = (Inr x, s2)" "apply_op k p s2 = (Inl e, s3)" "srv w6 = s3"
      "locked_op c k goal i p plan w = undo_op c k goal i p plan x why m w6" for x s2 e s3 m why w6
    using that ap undo_keeps [OF assms(1)] by simp
  show ?thesis
    if "captureState k p (snd (severity c (srv w))) = (Inr x, s2)" "apply_op k p s2 = (Inr (), s3)" "srv w6 = s3"
      "locked_op c k goal i p plan w = verify_step c k goal i p plan x (baseline c w) w6" for x s2 s3 w6
    using that ap verify_step_keeps [OF assms(1,2)] by simp
qed

lemma planned_keeps:
  assumes "plannable k p" and "waits_respect c P" and "P (srv w)"
  shows "P (srv (snd (planned_op c k goal i p plan w)))"
proof (rule planned_cases [of c plan w k goal i p])
  fix u assume "srv u = srv w" "planned_op c k goal i p plan w = locked_op c k goal i p plan (acquire c u)"
  moreover from this have "P (srv (acquire c u))" using assms(3) by (intro waits_respectD(4) [OF assms(2)]) simp
  ultimately show ?thesis using locked_keeps [OF assms(1,2)] by simp
next
  fix u assume u: "srv u = srv w" "planned_op c k goal i p plan w
      = locked_op c k goal i p plan (acquire c (snd (waitForAnswer c (''op_confirm:'' @ i) u)))"
  then have "P (srv (acquire c (snd (waitForAnswer c (''op_confirm:'' @ i) u))))"
    using assms(3) by (intro waits_respectD(2,4) [OF assms(2)]) simp
  with u show ?thesis using locked_keeps [OF assms(1,2)] by simp
next
  fix u assume u: "srv u = srv w" "planned_op c k goal i p plan w = finish i ORolledback ''Cancelled - nothing was changed.''
         (to_phase c i Rolledback (Some ''cancelled by user'') (snd (waitForAnswer c (''op_confirm:'' @ i) u)))"
  then have "P (srv (snd (waitForAnswer c (''op_confirm:'' @ i) u)))" using assms(3) by (intro waits_respectD(2) [OF assms(2)]) simp
  with u show ?thesis by (simp add: world_simps)
qed

lemma run_keeps:
  assumes "waits_respect c P" and "P (srv w)"
  shows "P (srv (snd (runOperation c k goal p w)))"
proof -
  obtain i w1 where d: "draw c w = (i, w1)" by fastforce
  have s1: "srv w1 = srv w" using srv_steps(3) [of c w] d by simp
  show ?thesis
  proof (cases "case retry_ledger w of None \<Rightarrow> None | Some f \<Rightarrow> ledger_check (sha256 c) (max_failures c) f (kind_name k) p")
    case (Some t)
    with assms(2) show ?thesis by (simp add: runOperation_def)
  next
    case None
    note un = runOperation_def None option.case d Let_def prod.case
    show ?thesis
    proof (cases "create_operation (now c w1) i (kind_name k) goal p (optab w1)")
      case (Inl m)
      with assms(2) s1 show ?thesis unfolding un by simp
    next
      case (Inr rows)
      obtain r w2 where r: "on_srv (describe k p) (w1\<lparr>optab := rows\<rparr>) = (r, w2)" by fastforce
      have s2: "P (srv w2)" and r': "r = fst (describe k p (srv w))"
        using on_srv_srv [of "describe k p" "w1\<lparr>optab := rows\<rparr>"] r s1 assms(2) describe_keeps by auto
      have eq: "runOperation c k goal p w = (case r of Inl e \<Rightarrow> (Inl e, w2)
          | Inr plan \<Rightarrow> (case badWriteScope (plan_writes plan) of Some bad \<Rightarrow> refuse_scope c goal i bad w2
              | None \<Rightarrow> planned_op c k goal i p plan w2))"
        unfolding un using Inr r by simp
      show ?thesis
      proof (cases r)
        case (Inl e)
        with eq s2 show ?thesis by simp
      next
        case (Inr plan)
        then have "plannable k p" using r' unfolding plannable_def by metis
        from planned_keeps [OF this assms(1) s2] Inr eq s2 show ?thesis
          by (cases "badWriteScope (plan_writes plan)") (simp_all add: refuse_scope_def world_simps)
      qed
    qed
  qed
qed

end

subsection \<open>Without an approval\<close>

text \<open>A kind whose functions after \<open>describe\<close> do nothing.\<close>

definition inert :: "'s kind \<Rightarrow> 's kind" where
  "inert k = k\<lparr>captureState := (\<lambda>p s. (Inr JNull, s)), apply_op := (\<lambda>p s. (Inr (), s)), verify := (\<lambda>p s. (Inr True, s)),
     rollback := (\<lambda>p cap s. (Inr (), s))\<rparr>"

lemma inert_simps [simp]:
  "kind_name (inert k) = kind_name k" "describe (inert k) = describe k"
  "captureState (inert k) p s = (Inr JNull, s)" "apply_op (inert k) p s = (Inr (), s)"
  "verify (inert k) p s = (Inr True, s)" "rollback (inert k) p cap s = (Inr (), s)"
  by (simp_all add: inert_def)

lemma run_unapproved:
  assumes "\<forall>i. \<not> approved c i" and "\<forall>s plan. fst (describe k p s) = Inr plan \<longrightarrow> \<not> effectiveAutoApprove plan"
  shows "runOperation c k goal p w = runOperation c (inert k) goal p w"
proof -
  have pl: "planned_op c k goal i p plan w' = planned_op c (inert k) goal i p plan w'"
    if "fst (describe k p s) = Inr plan" for i plan w' s
    using assms that by (intro planned_unapproved) (auto simp: auto_allowed_def)
  obtain i w1 where d: "draw c w = (i, w1)" by fastforce
  show ?thesis
  proof (cases "case retry_ledger w of None \<Rightarrow> None | Some f \<Rightarrow> ledger_check (sha256 c) (max_failures c) f (kind_name k) p")
    case (Some t)
    show ?thesis unfolding runOperation_def inert_simps(1) Some by simp
  next
    case None
    note un = runOperation_def None option.case d Let_def prod.case inert_simps(1,2)
    show ?thesis
    proof (cases "create_operation (now c w1) i (kind_name k) goal p (optab w1)")
      case (Inl m)
      then show ?thesis unfolding un by simp
    next
      case (Inr rows)
      obtain r w2 where r: "on_srv (describe k p) (w1\<lparr>optab := rows\<rparr>) = (r, w2)" by fastforce
      then have rd: "r = fst (describe k p (srv w1))" using on_srv_srv(2) [of "describe k p" "w1\<lparr>optab := rows\<rparr>"] by simp
      show ?thesis
      proof (cases r)
        case (Inl e)
        then show ?thesis unfolding un using Inr r by simp
      next
        case (Inr plan)
        with rd have "fst (describe k p (srv w1)) = Inr plan" by simp
        note same = pl [OF this]
        show ?thesis unfolding un using \<open>create_operation _ _ _ _ _ _ = Inr rows\<close> r Inr same
          by (cases "badWriteScope (plan_writes plan)") simp_all
      qed
    qed
  qed
qed

lemma unapproved_keeps:
  assumes "\<forall>i. \<not> approved c i" and "\<forall>s plan. fst (describe k p s) = Inr plan \<longrightarrow> \<not> effectiveAutoApprove plan"
    and "\<forall>s. P s \<longrightarrow> P (snd (describe k p s))" and "waits_respect c P" and "P (srv w)"
  shows "P (srv (snd (runOperation c k goal p w)))"
proof -
  have "kind_invariant (inert k) p P" using assms(3) by unfold_locales simp_all
  from kind_invariant.run_keeps [OF this assms(4,5)] run_unapproved [OF assms(1,2)] show ?thesis by simp
qed

end
