(* ===== verification/HttpProps.thy ===== *)
theory HttpProps
  imports HttpKind KindInv
begin

text \<open>
  Properties of \<open>http.mutation\<close>: what leaves the machine and what may enter the secret store
  (the interpretation \<open>http\<close> of \<open>kind_invariant\<close>), what a plan can depend on, and what its undo
  sends.
\<close>

subsection \<open>Requests stay on the local network\<close>

definition local_request :: "'a web \<Rightarrow> http_request \<Rightarrow> bool" where
  "local_request web r \<longleftrightarrow> isLocalOrPrivateUrl (url_parts web) (rq_url r) \<and> rq_redirect r = ''manual''"

text \<open>Since \<open>s0\<close>: only local requests were sent, only refs of extensions were written.\<close>

definition contained :: "'a web \<Rightarrow> 'a lan \<Rightarrow> 'a lan \<Rightarrow> bool" where
  "contained web s0 s \<longleftrightarrow>
     (\<exists>rs. lan_requests s = lan_requests s0 @ rs \<and> list_all (local_request web) rs) \<and>
     (\<forall>r. lan_secrets s r \<noteq> lan_secrets s0 r \<longrightarrow> rtest STORABLE_REF r)"

lemma contained_refl: "contained web s s"
  by (simp add: contained_def)

lemma request_parts:
  "lan_requests (snd (request web m url hs b t n s)) = lan_requests s @ [outgoing m url hs b t n]"
  "lan_secrets (snd (request web m url hs b t n s)) = lan_secrets s"
  by (cases "fst (send_request web (outgoing m url hs b t n) (lan_apps s))"; simp add: request_def Let_def case_prod_unfold)+

lemma contained_request:
  assumes "contained web s0 s" and "isLocalOrPrivateUrl (url_parts web) url"
  shows "contained web s0 (snd (request web m url hs b t n s))"
proof -
  obtain rs where rs: "lan_requests s = lan_requests s0 @ rs" "list_all (local_request web) rs"
    using assms(1) by (auto simp: contained_def)
  have "list_all (local_request web) (rs @ [outgoing m url hs b t n])"
    using rs(2) assms(2) by (simp add: local_request_def outgoing_def)
  then show ?thesis using rs(1) assms(1) by (auto simp: contained_def request_parts)
qed

lemma target_local: "target_url web s l u = Inr url \<Longrightarrow> isLocalOrPrivateUrl (url_parts web) url"
  by (auto simp: target_url_def split: sum.splits if_splits)

lemma contained_send: "contained web s0 s \<Longrightarrow> contained web s0 (snd (send_to web p m l u b t s))"
  by (auto simp: send_to_def contained_request target_local split: sum.splits)

lemma contained_output [simp]: "contained web s0 (s\<lparr>mutation_output := v\<rparr>) = contained web s0 s"
  by (simp add: contained_def)

lemma plannable_ref:
  assumes "plannable (httpMutationKind web) p" and "given_object ''storeResponseField'' p = Some st"
  shows "rtest STORABLE_REF (str_of ''ref'' st)"
  using assms
  by (auto simp: plannable_def httpMutationKind_def http_describe_def http_refusal_def split: option.splits if_splits)

lemma contained_store:
  assumes "rtest STORABLE_REF (str_of ''ref'' st)" and "contained web s0 s"
  shows "contained web s0 (snd (store_field st r s))"
  using assms by (auto simp: store_field_def Let_def contained_def split: sum.splits)

lemma contained_apply:
  assumes "plannable (httpMutationKind web) p" and "contained web s0 s"
  shows "contained web s0 (snd (http_apply web p s))"
proof -
  obtain r s1 where r: "send_to web p (str_of ''method'' p) ''url'' (str_of ''url'' p)
      (\<lambda>s. resolved s (text_field ''body'' p)) (text_field ''contentType'' p) s = (r, s1)" by fastforce
  then have "contained web s0 s1" using contained_send [OF assms(2)] by (metis snd_conv)
  moreover have "contained web s0 (snd (store_field st r' s'))"
    if "given_object ''storeResponseField'' p = Some st" "contained web s0 s'" for st r' and s' :: "'a lan"
    using contained_store [OF plannable_ref [OF assms(1) that(1)] that(2)] .
  ultimately show ?thesis using r
    by (cases r) (auto simp: http_apply_def Let_def split: option.splits)
qed

interpretation http: kind_invariant "httpMutationKind web" p "contained web s0" for web p s0
proof unfold_locales
  fix cap and s :: "'a lan"
  assume c: "contained web s0 s"
  note send = contained_send [OF c]
  show "contained web s0 (snd (describe (httpMutationKind web) p s))"
    using c by (simp add: httpMutationKind_def http_describe_def split: option.splits)
  assume pl: "plannable (httpMutationKind web) p"
  show "contained web s0 (snd (captureState (httpMutationKind web) p s))"
    using c send by (auto simp: httpMutationKind_def http_capture_def split: prod.splits sum.splits) (metis snd_conv)+
  show "contained web s0 (snd (apply_op (httpMutationKind web) p s))"
    using contained_apply [OF pl c] by (simp add: httpMutationKind_def)
  show "contained web s0 (snd (verify (httpMutationKind web) p s))"
    using c send by (auto simp: httpMutationKind_def http_verify_def split: prod.splits sum.splits) (metis snd_conv)+
  show "contained web s0 (snd (rollback (httpMutationKind web) p cap s))"
    using c send by (auto simp: httpMutationKind_def http_rollback_def split: option.splits prod.splits)
qed

subsection \<open>Reading a reply\<close>

lemma subarray_take: "subarray n cs = take (nat n) cs"
  by (induction n cs rule: subarray.induct) (auto simp: take_Cons' nat_diff_distrib' split: nat.splits)

lemma read_chunks_take: "take (nat cap) (read_chunks cap cs got) = take (nat cap) (got @ concat cs)"
  by (induction cap cs got rule: read_chunks.induct) (auto simp: Let_def nat_le_iff)

text \<open>Stopping early loses nothing of what is kept.\<close>

lemma capped_text: "readTextCapped web res cap = decode_text web (take (nat cap) (concat (rs_chunks res)))"
  by (simp add: readTextCapped_def subarray_take read_chunks_take)

subsection \<open>An application to talk to\<close>

text \<open>One resource at \<open>10.0.0.5\<close>: a PUT sets it, a GET answers 404 until it was set.\<close>

definition demo_web :: "string option web" where
  "demo_web = \<lparr>send_request = (\<lambda>rq app. if rq_method rq = ''GET''
      then (Inr \<lparr>rs_status = (if app = None then 404 else 200), rs_headers = [], rs_chunks = [text_or_empty app]\<rparr>, app)
      else (Inr \<lparr>rs_status = 204, rs_headers = [], rs_chunks = []\<rparr>, rq_body rq)),
     url_parts = (\<lambda>u. if starts_with ''http://10.0.0.5/'' u then Some (''http:'', ''10.0.0.5'') else None),
     decode_text = (\<lambda>t. t)\<rparr>"

definition demo_lan :: "string option lan" where
  "demo_lan = \<lparr>lan_apps = None, lan_requests = [], lan_secrets = (\<lambda>_. None)(''k'' \<mapsto> ''s''), mutation_output = None\<rparr>"

definition demo_put :: json where
  "demo_put = JObj [(''method'', JStr ''PUT''), (''url'', JStr ''http://10.0.0.5/a''), (''body'', JStr ''on''),
     (''captureUrl'', JStr ''http://10.0.0.5/a''), (''verifyUrl'', JStr ''http://10.0.0.5/a''), (''verifyExpect'', JStr ''off'')]"

definition lan_calm :: "string \<Rightarrow> string option lan ctx" where
  "lan_calm answer = \<lparr>clock = (\<lambda>_. 1000), uuid = show_nat, sha256 = (\<lambda>t. t), max_failures = 3,
     severity = (\<lambda>s. (Inr 0, s)), waitForAnswer = (\<lambda>q w. (answer, w)), answer_or_timeout = (\<lambda>q ms w. (answer, w)),
     acquire = (\<lambda>w. w), getSetting = (\<lambda>_. None), lifelineConfirmMs = None\<rparr>"

definition lan_world :: "'a lan \<Rightarrow> 'a lan world" where
  "lan_world s = \<lparr>srv = s, optab = [], memtab = [], note_bus = \<lparr>configured = False, settings = (\<lambda>_. None), secrets = (\<lambda>_. None),
     note_table = [], clients = 0, notices = [], posted = []\<rparr>, sent = [], retry_ledger = None,
     draws = 0, cancelled = [], reflected = [], hooks = []\<rparr>"

text \<open>
  A PUT declared reversible by its capture: when the resource did not exist the capture is a 404,
  the undo sends nothing, and the operation is reported rolled back all the same.
\<close>

lemma failed_capture_is_not_undone:
  assumes "given_object ''rollback'' p = None" and "captured_reply cap = Some (st, t)" and "\<not> success st"
  shows "fst (undo_op c (httpMutationKind web) goal i p plan cap why m w) = Inr (ORolledback, m) \<and>
    srv (snd (undo_op c (httpMutationKind web) goal i p plan cap why m w)) = srv w"
  using assms by (simp add: undo_op_def Let_def world_simps roll_back_def httpMutationKind_def http_rollback_def)

lemma failed_capture_is_not_undone_here:
  "\<not> irreversible (http_plan demo_put) \<and>
   map_sum (\<lambda>e. e) captured_reply (fst (http_capture demo_web demo_put demo_lan)) = Inr (Some (404, [])) \<and>
   lan_apps (snd (http_apply demo_web demo_put demo_lan)) = Some ''on''"
  by code_simp

text \<open>The undo of a captured PUT sends the captured text back, with the credentials of the operation.\<close>

lemma put_undo_sends_the_capture:
  assumes "given_object ''rollback'' p = None" and "str_of ''method'' p = ''PUT''"
    and "captured_reply cap = Some (st, t)" and "success st"
    and "target_url web s ''url'' (str_of ''url'' p) = Inr url" and "authHeaders s p = Inr hs"
  shows "lan_requests (snd (http_rollback web p cap s)) = lan_requests s @ [outgoing ''PUT'' url hs (Some t)
    (Some (case text_field ''contentType'' p of None \<Rightarrow> ''application/json'' | Some ty \<Rightarrow> ty)) (num_field ''timeoutMs'' p)]"
  using assms by (simp add: http_rollback_def send_to_def request_parts)

subsection \<open>What leaves the machine\<close>

text \<open>
  C26. Whatever the outcome of an \<open>http.mutation\<close> operation - refused, failed, committed or rolled
  back - every request it sent went to an address the URL guard accepts as local or private after
  its placeholders were filled in, with redirects not followed, and every entry of the secret store
  it changed is a reference of the form \<open>extension.<app>.<name>\<close>.  (The severity oracle and the
  waits are assumed to send nothing else.)
\<close>

theorem http_operation_is_contained:
  assumes "waits_respect c (contained web (srv w))"
  shows "contained web (srv w) (srv (snd (runOperation c (httpMutationKind web) goal p w)))"
  using assms contained_refl by (rule http.run_keeps)

theorem http_operation_is_contained_witness:
  "contained demo_web (srv (lan_world demo_lan))
     (srv (snd (runOperation (lan_calm ''approve'') (httpMutationKind demo_web) ''g'' demo_put (lan_world demo_lan)))) \<and>
   map rq_method (lan_requests (snd (http_apply demo_web demo_put demo_lan))) = [''PUT'']"
proof
  show "contained demo_web (srv (lan_world demo_lan))
     (srv (snd (runOperation (lan_calm ''approve'') (httpMutationKind demo_web) ''g'' demo_put (lan_world demo_lan))))"
    by (rule http_operation_is_contained) (simp add: waits_respect_def lan_calm_def)
qed code_simp

text \<open>
  The plan of an \<open>http.mutation\<close> operation, or its refusal, does not depend on the value of
  any secret, only on which references are set: two stores that hold the same references give the
  client, the operations table and the model the same text.
\<close>

theorem plan_ignores_secret_values:
  assumes "\<And>r. lan_secrets s r = None \<longleftrightarrow> lan_secrets s' r = None"
  shows "fst (describe (httpMutationKind web) p s) = fst (describe (httpMutationKind web) p s')"
proof -
  have "(\<lambda>r. lan_secrets s r \<noteq> None) = (\<lambda>r. lan_secrets s' r \<noteq> None)" using assms by (intro ext) simp
  then show ?thesis by (simp add: httpMutationKind_def http_describe_def split: option.splits)
qed

theorem plan_ignores_secret_values_witness:
  "fst (describe (httpMutationKind demo_web) demo_put demo_lan)
     = fst (describe (httpMutationKind demo_web) demo_put (demo_lan\<lparr>lan_secrets := (\<lambda>_. None)(''k'' \<mapsto> ''other'')\<rparr>))"
  by (rule plan_ignores_secret_values) (simp add: demo_lan_def)

end
