(* ===== verification/Sandbox.thy ===== *)
theory Sandbox
  imports Paths "HOL-Library.AList"
begin

text \<open>
  The kernel sandbox (\<open>apps/mirod/src/operations/sandbox.ts\<close>) and the snapshots of declared roots
  (\<open>apps/mirod/src/operations/snapshot.ts\<close>): the bubblewrap argument vector of a policy, the run of
  a command under it, the size of a tree up to a cap, and the archive a rollback restores.  The
  machine outside is the record \<open>machine\<close> of functions on a state \<open>'s\<close>; sizes and times are
  integers; of a text that is cut inside a character the replacement character is written \<open>?\<close>.
\<close>

subsection \<open>The machine\<close>

text \<open>A tree as \<open>lstat\<close> and \<open>readdir\<close> show it; a \<open>Locked\<close> directory cannot be listed.\<close>

datatype dir_entry = Leaf int | Branch "dir_entry list" | Locked js_error

record spawned =
  sp_exit :: "int option"
  sp_out :: string
  sp_err :: string
  sp_killed :: bool

record 's machine =
  path_exists :: "'s \<Rightarrow> string \<Rightarrow> bool"
  real_path :: "'s \<Rightarrow> string \<Rightarrow> string option"
  tree_at :: "'s \<Rightarrow> string \<Rightarrow> js_error + dir_entry"
  make_dirs :: "string \<Rightarrow> 's \<Rightarrow> (js_error + unit) \<times> 's"
  spawn :: "string list \<Rightarrow> (string \<times> string) list \<Rightarrow> string option \<Rightarrow> int \<Rightarrow> 's \<Rightarrow> (js_error + spawned) \<times> 's"
  run_cmd :: "string list \<Rightarrow> int \<Rightarrow> 's \<Rightarrow> (js_error + string) \<times> 's"
  snapshot_id :: "'s \<Rightarrow> string \<times> 's"
  daemon_root :: bool
  daemon_home :: "string option"
  daemon_cwd :: string
  miro_dir :: string

text \<open>The log of what was started is kept beside the machine's state.\<close>

record sandbox_result =
  exitCode :: int
  stdout :: string
  stderr :: string
  timedOut :: bool
  truncated :: bool

record 's shell_state =
  box :: 's
  launched :: "(string list \<times> (string \<times> string) list) list"
  shell_output :: "sandbox_result option"

subsection \<open>The argument vector\<close>

record sandbox_options =
  writableRoots :: "string list"
  visibleRoots :: "string list"
  so_network :: bool
  so_cwd :: "string option"
  so_timeout :: "int option"
  so_env :: "(string \<times> string) list"
  so_stdin :: "string option"
  maxOutputBytes :: "int option"
  keepCapabilities :: bool

text \<open>\<open>[...new Set(xs)]\<close>.\<close>

fun unique :: "'a list \<Rightarrow> 'a list" where
  "unique [] = []"
| "unique (x # xs) = x # filter (\<lambda>y. y \<noteq> x) (unique xs)"

definition strip_root :: "string \<Rightarrow> string" where
  "strip_root p = (let q = strip_trailing_slashes p in if q = [] then ''/'' else q)"

definition namespaces :: "bool \<Rightarrow> bool \<Rightarrow> string list" where
  "namespaces root net =
     (if root then [''--unshare-ipc'', ''--unshare-pid'', ''--unshare-uts'', ''--unshare-cgroup-try''] @ (if net then [] else [''--unshare-net''])
      else [''--unshare-all''] @ (if net then [''--share-net''] else []))"

definition capability_args :: "bool \<Rightarrow> bool \<Rightarrow> string list" where
  "capability_args root keep =
     (if keep then (if root then [''--cap-add'', ''ALL''] else [])
      else [''--cap-drop'', ''ALL''] @ (if root then [''--cap-add'', ''CAP_DAC_READ_SEARCH''] else []))"

definition bind_args :: "string \<Rightarrow> string list \<Rightarrow> string list" where
  "bind_args flag roots = concat (map (\<lambda>r. [flag, r, r]) roots)"

definition bwrapArgs :: "sandbox_options \<Rightarrow> bool \<Rightarrow> js_error + string list" where
  "bwrapArgs o' root =
     (let roots = unique (map strip_root (writableRoots o'));
          visible = filter (\<lambda>r. r \<noteq> ''/'') (unique (map strip_root (visibleRoots o')))
      in if ''/'' \<in> set roots then Inl (an_error ''a sandbox cannot declare / writable'')
         else Inr ([''bwrap'', ''--ro-bind'', ''/'', ''/'', ''--dev'', ''/dev'', ''--proc'', ''/proc'', ''--die-with-parent'', ''--new-session'']
           @ namespaces root (so_network o') @ capability_args root (keepCapabilities o')
           @ (if ''/tmp'' \<notin> set roots then [''--tmpfs'', ''/tmp''] else [])
           @ bind_args ''--ro-bind'' visible @ bind_args ''--bind'' roots
           @ (if truthy (so_cwd o') then [''--chdir'', (case so_cwd o' of None \<Rightarrow> [] | Some d \<Rightarrow> d)] else []) @ [''--'']))"

subsection \<open>Running\<close>

definition DEFAULT_SANDBOX_TIMEOUT_MS :: int where "DEFAULT_SANDBOX_TIMEOUT_MS = 120000"
definition DEFAULT_MAX_OUTPUT_BYTES :: int where "DEFAULT_MAX_OUTPUT_BYTES = 256 * 1024"

definition char_bytes :: "char \<Rightarrow> int" where
  "char_bytes c = (if (127::nat) < of_char c then 2 else 1)"

definition text_bytes :: "string \<Rightarrow> int" where
  "text_bytes s = sum_list (map char_bytes s)"

fun cut_bytes :: "int \<Rightarrow> string \<Rightarrow> string" where
  "cut_bytes n [] = []"
| "cut_bytes n (c # cs) =
     (if n \<le> 0 then [] else if n < char_bytes c then ''?'' else c # cut_bytes (n - char_bytes c) cs)"

definition truncate_text :: "string \<Rightarrow> int \<Rightarrow> string \<times> bool" where
  "truncate_text s max_bytes =
     (if text_bytes s \<le> max_bytes then (s, False)
      else (cut_bytes max_bytes s @ [NL] @ ''[output truncated at '' @ show_int max_bytes @ '' bytes]'', True))"

definition sandbox_env :: "string option \<Rightarrow> (string \<times> string) list \<Rightarrow> (string \<times> string) list" where
  "sandbox_env home_var given = foldl (\<lambda>m (k, v). AList.update k v m)
     [(''PATH'', ''/usr/local/sbin:/usr/local/bin:/usr/sbin:/usr/bin:/sbin:/bin''),
      (''HOME'', case home_var of None \<Rightarrow> ''/root'' | Some h \<Rightarrow> h), (''LANG'', ''C.UTF-8''), (''TERM'', ''dumb''),
      (''DEBIAN_FRONTEND'', ''noninteractive'')] given"

text \<open>\<open>if (!existsSync(root)) mkdirSync(root, { recursive: true })\<close> for every root.\<close>

fun make_roots :: "'s machine \<Rightarrow> string list \<Rightarrow> 's \<Rightarrow> (js_error + unit) \<times> 's" where
  "make_roots m [] s = (Inr (), s)"
| "make_roots m (r # rs) s =
     (if path_exists m s r then make_roots m rs s
      else case make_dirs m r s of (Inl e, s1) \<Rightarrow> (Inl e, s1) | (Inr _, s1) \<Rightarrow> make_roots m rs s1)"

definition result_of :: "spawned \<Rightarrow> int \<Rightarrow> sandbox_result" where
  "result_of p max_bytes =
     (let (out, cut1) = truncate_text (sp_out p) max_bytes; (err, cut2) = truncate_text (sp_err p) max_bytes
      in \<lparr>exitCode = (case sp_exit p of None \<Rightarrow> -1 | Some n \<Rightarrow> n), stdout = out, stderr = err, timedOut = sp_killed p,
          truncated = cut1 \<or> cut2\<rparr>)"

definition runSandboxed ::
    "'s machine \<Rightarrow> string list \<Rightarrow> sandbox_options \<Rightarrow> 's shell_state \<Rightarrow> (js_error + sandbox_result) \<times> 's shell_state" where
  "runSandboxed m argv o' s =
     (if argv = [] then (Inl (an_error ''empty argv''), s)
      else case make_roots m (writableRoots o') (box s) of
        (Inl e, b) \<Rightarrow> (Inl e, s\<lparr>box := b\<rparr>)
      | (Inr _, b) \<Rightarrow>
          (case bwrapArgs o' (daemon_root m) of
             Inl e \<Rightarrow> (Inl e, s\<lparr>box := b\<rparr>)
           | Inr prefix \<Rightarrow>
               (let env = sandbox_env (daemon_home m) (so_env o');
                    (r, b1) = spawn m (prefix @ argv) env (so_stdin o')
                      (case so_timeout o' of None \<Rightarrow> DEFAULT_SANDBOX_TIMEOUT_MS | Some t \<Rightarrow> t) b;
                    s1 = s\<lparr>box := b1, launched := launched s @ [(prefix @ argv, env)]\<rparr>
                in (map_sum (\<lambda>e. e) (\<lambda>p. result_of p (case maxOutputBytes o' of None \<Rightarrow> DEFAULT_MAX_OUTPUT_BYTES | Some n \<Rightarrow> n)) r, s1))))"

subsection \<open>Snapshots\<close>

definition SNAPSHOT_MAX_BYTES :: int where "SNAPSHOT_MAX_BYTES = 64 * 1024 * 1024"

text \<open>One directory: files are counted, directories stacked, and the walk stops above the cap.\<close>

fun scan_dir :: "int \<Rightarrow> dir_entry list \<Rightarrow> int \<Rightarrow> dir_entry list \<Rightarrow> int \<times> dir_entry list \<times> bool" where
  "scan_dir cap [] tot stack = (tot, stack, False)"
| "scan_dir cap (e # es) tot stack =
     (let tot' = (case e of Leaf n \<Rightarrow> tot + n | _ \<Rightarrow> tot);
          stack' = (case e of Leaf n \<Rightarrow> stack | _ \<Rightarrow> e # stack)
      in if tot' > cap then (tot', stack', True) else scan_dir cap es tot' stack')"

definition stack_size :: "dir_entry list \<Rightarrow> nat" where
  "stack_size es = sum_list (map size es)"

lemma stack_size_simps [simp]: "stack_size [] = 0" "stack_size (e # es) = size e + stack_size es"
  by (simp_all add: stack_size_def)

lemma scan_dir_size: "stack_size (fst (snd (scan_dir cap es tot stack))) \<le> stack_size es + stack_size stack"
proof (induction cap es tot stack rule: scan_dir.induct)
  case (2 cap e es tot stack)
  then show ?case by (cases e) (force simp: Let_def)+
qed simp

lemma size_Branch: "stack_size es < size (Branch es)"
  by (induction es) auto

function (sequential) walk_tree :: "int \<Rightarrow> dir_entry list \<Rightarrow> int \<Rightarrow> js_error + int" where
  "walk_tree cap [] tot = Inr tot"
| "walk_tree cap (d # stack) tot =
     (if tot > cap then Inr tot
      else case d of
        Branch es \<Rightarrow>
          (case scan_dir cap es tot stack of
             (t, st, True) \<Rightarrow> Inr t
           | (t, st, False) \<Rightarrow> walk_tree cap st t)
      | Locked e \<Rightarrow> Inl e
      | Leaf n \<Rightarrow> Inl (an_error ''ENOTDIR''))"
  by pat_completeness auto
termination
proof (relation "measure (\<lambda>(cap, stack, tot). stack_size stack)", simp)
  fix cap tot t :: int and d stack es y st and over :: bool
  assume "d = Branch es" "(t, y) = scan_dir cap es tot stack" "(st, over) = y"
  then have "stack_size st \<le> stack_size es + stack_size stack"
    using scan_dir_size [of cap es tot stack] by (metis fst_conv snd_conv)
  then show "((cap, st, t), cap, d # stack, tot) \<in> measure (\<lambda>(cap, stack, tot). stack_size stack)"
    using \<open>d = Branch es\<close> size_Branch [of es] by simp
qed

definition sizeOf :: "'s machine \<Rightarrow> 's \<Rightarrow> string \<Rightarrow> int \<Rightarrow> js_error + int" where
  "sizeOf m s path cap =
     (case tree_at m s path of
        Inl e \<Rightarrow> Inl e
      | Inr (Leaf n) \<Rightarrow> Inr n
      | Inr d \<Rightarrow> walk_tree cap [d] 0)"

record snapshot =
  archive :: "string option"
  snap_paths :: "string list"
  skipped :: "(string \<times> string) list"

text \<open>\<open>tot += sizeOf(p, maxBytes)\<close> until the cap is passed.\<close>

fun total_size :: "'s machine \<Rightarrow> 's \<Rightarrow> int \<Rightarrow> string list \<Rightarrow> int \<Rightarrow> js_error + int" where
  "total_size m s cap [] tot = Inr tot"
| "total_size m s cap (p # ps) tot =
     (case sizeOf m s p cap of
        Inl e \<Rightarrow> Inl e
      | Inr n \<Rightarrow> if tot + n > cap then Inr (tot + n) else total_size m s cap ps (tot + n))"

definition relative_root :: "'s machine \<Rightarrow> string \<Rightarrow> string" where
  "relative_root m p =
     (let full = (if is_absolute p then p else daemon_cwd m @ ''/'' @ p)
      in join ''/'' (normal_segments False (split_on SL full)))"

definition snapshotPaths ::
    "'s machine \<Rightarrow> string list \<Rightarrow> string \<Rightarrow> string \<Rightarrow> int \<Rightarrow> 's \<Rightarrow> (js_error + snapshot) \<times> 's" where
  "snapshotPaths m paths i dir cap s =
     (let existing = filter (path_exists m s) paths;
          missing = map (\<lambda>p. (p, ''does not exist yet'')) (filter (\<lambda>p. \<not> path_exists m s p) paths)
      in if existing = [] then (Inr \<lparr>archive = None, snap_paths = [], skipped = missing\<rparr>, s)
         else case total_size m s cap existing 0 of
           Inl e \<Rightarrow> (Inl e, s)
         | Inr tot \<Rightarrow>
             if tot > cap
             then (Inr \<lparr>archive = None, snap_paths = [],
                     skipped = missing @ map (\<lambda>p. (p, ''total exceeds snapshot cap of '' @ show_int cap @ '' bytes'')) existing\<rparr>, s)
             else case make_dirs m dir s of
                (Inl e, s1) \<Rightarrow> (Inl e, s1)
              | (Inr _, s1) \<Rightarrow>
                  (let file = path_join [dir, i @ ''.tar'']
                   in case run_cmd m ([''tar'', ''-cpf'', file, ''-C'', ''/''] @ map (relative_root m) existing) 120000 s1 of
                        (Inl e, s2) \<Rightarrow> (Inl e, s2)
                      | (Inr _, s2) \<Rightarrow> (Inr \<lparr>archive = Some file, snap_paths = existing, skipped = missing\<rparr>, s2)))"

definition restoreSnapshot :: "'s machine \<Rightarrow> snapshot \<Rightarrow> 's \<Rightarrow> (js_error + unit) \<times> 's" where
  "restoreSnapshot m snap s =
     (case archive snap of
        None \<Rightarrow> (Inr (), s)
      | Some f \<Rightarrow> if f = [] then (Inr (), s)
                  else (case run_cmd m [''tar'', ''-xpf'', f, ''-C'', ''/''] 120000 s of (r, s1) \<Rightarrow> (map_sum (\<lambda>e. e) (\<lambda>_. ()) r, s1)))"

end
