(* ===== verification/ShellKind.thy ===== *)
theory ShellKind
  imports Sandbox Engine Classify FileKinds
begin

text \<open>
  The operation kind \<open>shell.command\<close> (\<open>apps/mirod/src/operations/kinds/shell-command.ts\<close>): a command
  the classifier did not forbid, run in the sandbox with the roots it declares, undone by the
  snapshot of those roots and an undo command.  Characters beyond Latin-1 of the messages are
  written in ASCII.
\<close>

definition command_of :: "json \<Rightarrow> string" where "command_of p = str_of ''command'' p"

definition writes_of :: "json \<Rightarrow> string list" where
  "writes_of p = (case field ''writes'' p of JArr vs \<Rightarrow> map js_text vs | _ \<Rightarrow> [])"

definition network_of :: "json \<Rightarrow> bool" where "network_of p = (field ''network'' p = JBool True)"

definition verify_of :: "json \<Rightarrow> string option" where "verify_of p = as_string (field ''verify'' p)"
definition undo_of :: "json \<Rightarrow> string option" where "undo_of p = as_string (field ''rollback'' p)"
definition cwd_of :: "json \<Rightarrow> string option" where "cwd_of p = as_string (field ''cwd'' p)"

definition timeout_of :: "json \<Rightarrow> int option" where
  "timeout_of p = (case field ''timeoutMs'' p of JNum i \<Rightarrow> Some i | _ \<Rightarrow> None)"

subsection \<open>The plan\<close>

text \<open>The declared roots, and what each resolves to.\<close>

definition declared :: "env \<Rightarrow> json \<Rightarrow> string list" where
  "declared e p = map (\<lambda>w. normalizePath w (home e)) (writes_of p)"

definition judged_roots :: "env \<Rightarrow> 's machine \<Rightarrow> 's \<Rightarrow> json \<Rightarrow> string list" where
  "judged_roots e m s p = unique (declared e p @ map (realTarget (path_exists m s) (real_path m s)) (declared e p))"

definition root_is_secret :: "env \<Rightarrow> 's machine \<Rightarrow> 's \<Rightarrow> string \<Rightarrow> bool" where
  "root_is_secret e m s w \<longleftrightarrow>
     isSensitivePath (path_exists m s) (real_path m s) w (home e) \<or> holdsSecretMaterial w (home e)"

definition extension_re :: rex where
  "extension_re = seq [ch CHR ''.'', between 1 6 (Cls alnum), Eol]"

definition file_like :: "'s machine \<Rightarrow> 's \<Rightarrow> string \<Rightarrow> bool" where
  "file_like m s w \<longleftrightarrow> \<not> path_exists m s w \<and> rtest extension_re (path_basename w) \<and> \<not> ends_with ''.d'' (path_basename w)"

definition scope_class :: "env \<Rightarrow> cmd_class \<Rightarrow> string list \<Rightarrow> cmd_class" where
  "scope_class e cl roots =
     (if list_ex (\<lambda>w. isLifelinePath w (home e) \<or> isLifelineRoot w (home e)) roots then max_class cl Lifeline else cl)"

text \<open>\<open>for (const w of writes) if (existsSync(w)) snapshotBytes += sizeOf(w, SNAPSHOT_MAX_BYTES)\<close>.\<close>

fun declared_bytes :: "'s machine \<Rightarrow> 's \<Rightarrow> string list \<Rightarrow> int \<Rightarrow> js_error + int" where
  "declared_bytes m s [] n = Inr n"
| "declared_bytes m s (w # ws) n =
     (if path_exists m s w
      then case sizeOf m s w SNAPSHOT_MAX_BYTES of Inl e \<Rightarrow> Inl e | Inr k \<Rightarrow> declared_bytes m s ws (n + k)
      else declared_bytes m s ws n)"

definition shell_warnings :: "json \<Rightarrow> cmd_class \<Rightarrow> bool \<Rightarrow> string list" where
  "shell_warnings p cl overCap =
     filter (\<lambda>t. t \<noteq> [])
       [if cl = Lifeline then ''can affect SSH, networking, or Miro itself''
        else if cl = Destructive then ''destroys data or is hard to reverse'' else [],
        if overCap then ''the declared roots exceed the '' @ show_int ((SNAPSHOT_MAX_BYTES + 500000) div 1000000)
            @ '' MB snapshot cap - nothing is snapshotted''
            @ (if truthy (undo_of p) then ''; only the undo command can revert'' else '', and no undo command was declared'')
        else []]"

definition shell_undo_text :: "json \<Rightarrow> bool \<Rightarrow> string" where
  "shell_undo_text p overCap =
     (if overCap
      then (if truthy (undo_of p)
            then ''verify fails or the command fails - the undo command runs (the roots are too large to snapshot)''
            else ''never - the roots are too large to snapshot and no undo command was declared'')
      else if truthy (undo_of p)
      then ''verify fails or the command fails - the declared roots are restored from snapshot, then the undo command runs''
      else ''verify fails or the command fails - the declared roots are restored from snapshot'')"

definition shell_plan :: "env \<Rightarrow> json \<Rightarrow> classification \<Rightarrow> cmd_class \<Rightarrow> bool \<Rightarrow> op_plan" where
  "shell_plan e p c cl overCap =
     (let ws = shell_warnings p cl overCap
      in \<lparr>summary = ''Run: '' @ command_of p, plan_auto = False,
          plan_details = [(''command'', JStr (command_of p)), (''reasons'', JArr (map JStr (reasons c))),
            (''verify'', json_text_or_null (verify_of p)), (''rollback'', json_text_or_null (undo_of p)),
            (''cwd'', json_text_or_null (cwd_of p))],
          plan_class = Some cl, plan_writes = Some (declared e p), plan_network = Some (network_of p),
          irreversible = (overCap \<and> \<not> truthy (undo_of p)),
          plan_warning = (if ws \<noteq> [] then Some (join ''; '' ws) else None),
          expects = Some (if truthy (verify_of p) then ''the verify command ('' @ text_or_empty (verify_of p) @ '') exits 0 afterwards''
            else ''no verify command declared - the outcome cannot be confirmed''),
          rollback_when = Some (shell_undo_text p overCap),
          scope_evidence = Some ''the roots the command itself declared writable'', dry_run = Some NoFidelity\<rparr>)"

definition refused_command :: "classification \<Rightarrow> js_error" where
  "refused_command c = an_error (''refused: '' @ join ''; '' (reasons c)
     @ (case alternative c of None \<Rightarrow> [] | Some a \<Rightarrow> if a = [] then [] else '' - '' @ a))"

text \<open>The checks on the declared scope, once the commands were accepted.\<close>

definition scope_refusal :: "env \<Rightarrow> 's machine \<Rightarrow> 's \<Rightarrow> json \<Rightarrow> js_error option" where
  "scope_refusal e m s p =
     (let roots = judged_roots e m s p
      in case List.find (root_is_secret e m s) roots of
           Some w \<Rightarrow> Some (an_error (''refused: declared write scope '' @ w @ '' is, or contains, Miro'' @ [SQ]
             @ ''s own state or secret material - name the exact directory the command writes (/etc, /var, /root, /home are never a scope)''))
         | None \<Rightarrow>
             if ''/'' \<in> set roots then Some (an_error ''refused: a command cannot declare the whole filesystem writable'')
             else map_option (\<lambda>w. an_error (''refused: declared write root '' @ w
                 @ '' does not exist and looks like a file - declare its parent directory (roots are directories, sockets, or existing files)''))
               (List.find (file_like m s) (writes_of p)))"

definition rollback_refusal :: "env \<Rightarrow> json \<Rightarrow> js_error option" where
  "rollback_refusal e p =
     (if \<not> truthy (undo_of p) then None
      else case classifyCommand e (text_or_empty (undo_of p)) of
        Inl x \<Rightarrow> Some x
      | Inr r \<Rightarrow> if verdict r = Forbidden
                 then Some (an_error (''refused: rollback command - '' @ join ''; '' (reasons r))) else None)"

definition shell_describe :: "env \<Rightarrow> 's machine \<Rightarrow> json \<Rightarrow> 's shell_state \<Rightarrow> (js_error + op_plan) \<times> 's shell_state" where
  "shell_describe e m p s =
     (case classifyCommand e (command_of p) of
        Inl x \<Rightarrow> (Inl x, s)
      | Inr c \<Rightarrow>
          if verdict c = Forbidden then (Inl (refused_command c), s)
          else case rollback_refusal e p of
            Some x \<Rightarrow> (Inl x, s)
          | None \<Rightarrow>
              (case scope_refusal e m (box s) p of
                 Some x \<Rightarrow> (Inl x, s)
               | None \<Rightarrow>
                   (case declared_bytes m (box s) (declared e p) 0 of
                      Inl x \<Rightarrow> (Inl x, s)
                    | Inr n \<Rightarrow> (Inr (shell_plan e p c (scope_class e (verdict c) (judged_roots e m (box s) p))
                                  (n > SNAPSHOT_MAX_BYTES)), s))))"

subsection \<open>Running\<close>

definition snapshot_json :: "snapshot \<Rightarrow> json" where
  "snapshot_json x = JObj [(''snapshot'', JObj [(''archive'', json_text_or_null (archive x)), (''paths'', JArr (map JStr (snap_paths x))),
     (''skipped'', JArr (map (\<lambda>(p, r). JObj [(''path'', JStr p), (''reason'', JStr r)]) (skipped x)))])]"

definition snapshot_of :: "json \<Rightarrow> snapshot" where
  "snapshot_of v = (let x = field ''snapshot'' v in
     \<lparr>archive = as_string (field ''archive'' x),
      snap_paths = (case field ''paths'' x of JArr ps \<Rightarrow> map js_text ps | _ \<Rightarrow> []),
      skipped = (case field ''skipped'' x of JArr ks \<Rightarrow> map (\<lambda>k. (str_of ''path'' k, str_of ''reason'' k)) ks | _ \<Rightarrow> [])\<rparr>)"

definition SNAPSHOT_DIR :: "'s machine \<Rightarrow> string" where
  "SNAPSHOT_DIR m = path_join [miro_dir m, ''snapshots'']"

definition shell_capture :: "'s machine \<Rightarrow> json \<Rightarrow> 's shell_state \<Rightarrow> (js_error + json) \<times> 's shell_state" where
  "shell_capture m p s =
     (let (i, b) = snapshot_id m (box s);
          (r, b1) = snapshotPaths m (writes_of p) (''shell-'' @ i) (SNAPSHOT_DIR m) SNAPSHOT_MAX_BYTES b
      in (map_sum (\<lambda>e. e) snapshot_json r, s\<lparr>box := b1\<rparr>))"

definition shell_options :: "json \<Rightarrow> string list \<Rightarrow> string list \<Rightarrow> string option \<Rightarrow> int option \<Rightarrow> bool \<Rightarrow> sandbox_options" where
  "shell_options p writable visible dir t keep = \<lparr>writableRoots = writable, visibleRoots = visible, so_network = network_of p,
     so_cwd = dir, so_timeout = t, so_env = [], so_stdin = None, maxOutputBytes = None, keepCapabilities = keep\<rparr>"

definition apply_options :: "json \<Rightarrow> sandbox_options" where
  "apply_options p = shell_options p (writes_of p) [] (cwd_of p) (timeout_of p) True"

definition verify_options :: "json \<Rightarrow> sandbox_options" where
  "verify_options p = shell_options p [] (writes_of p) None (Some 60000) False"

definition undo_options :: "json \<Rightarrow> sandbox_options" where
  "undo_options p = shell_options p (writes_of p) [] None (Some 60000) True"

definition in_shell :: "string \<Rightarrow> string list" where "in_shell c = [''sh'', ''-c'', c]"

definition shell_apply :: "'s machine \<Rightarrow> json \<Rightarrow> 's shell_state \<Rightarrow> (js_error + unit) \<times> 's shell_state" where
  "shell_apply m p s =
     (case runSandboxed m (in_shell (command_of p)) (apply_options p) s of
        (Inl e, s1) \<Rightarrow> (Inl e, s1)
      | (Inr r, s1) \<Rightarrow>
          (let s2 = s1\<lparr>shell_output := Some r\<rparr>
           in if exitCode r \<noteq> 0
              then (Inl (an_error (''exit '' @ show_int (exitCode r) @ (if timedOut r then '' (timed out)'' else []) @ '': ''
                     @ redact_secrets_in_text (take 2000 (trim (if stderr r \<noteq> [] then stderr r else stdout r))))), s2)
              else (Inr (), s2)))"

definition shell_verify :: "'s machine \<Rightarrow> json \<Rightarrow> 's shell_state \<Rightarrow> (js_error + bool) \<times> 's shell_state" where
  "shell_verify m p s =
     (if \<not> truthy (verify_of p) then (Inr True, s)
      else case runSandboxed m (in_shell (text_or_empty (verify_of p))) (verify_options p) s of
        (r, s1) \<Rightarrow> (map_sum (\<lambda>e. e) (\<lambda>x. exitCode x = 0) r, s1))"

text \<open>Both steps of the undo swallow their errors.\<close>

definition shell_rollback :: "'s machine \<Rightarrow> json \<Rightarrow> json \<Rightarrow> 's shell_state \<Rightarrow> (js_error + unit) \<times> 's shell_state" where
  "shell_rollback m p captured s =
     (let s1 = s\<lparr>box := snd (restoreSnapshot m (snapshot_of captured) (box s))\<rparr>
      in if \<not> truthy (undo_of p) then (Inr (), s1)
         else (Inr (), snd (runSandboxed m (in_shell (text_or_empty (undo_of p))) (undo_options p) s1)))"

definition shellCommandKind :: "env \<Rightarrow> 's machine \<Rightarrow> 's shell_state kind" where
  "shellCommandKind e m = \<lparr>kind_name = ''shell.command'', describe = shell_describe e m, captureState = shell_capture m,
     apply_op = shell_apply m, verify = shell_verify m, rollback = shell_rollback m,
     prodtest = Some (\<lambda>p. if truthy (verify_of p) \<and> field ''verifyKeeps'' p = JBool True then Some (command_of p) else None),
     kind_reconcile = None\<rparr>"

end
