(* ===== verification/SandboxFacts.thy ===== *)
theory SandboxFacts
  imports Sandbox
begin

text \<open>
  What the argument vector of \<open>bwrapArgs\<close> means to bubblewrap, as its manual describes the options
  the daemon passes: they are read from left to right up to \<open>--\<close>, and of the mounts that cover a
  path the last one shows it.
\<close>

subsection \<open>Reading the options\<close>

datatype bwrap_opt = RoBind string string | Bind string string | Fresh string | Setting string string | Flag string

fun read_opts :: "string list \<Rightarrow> bwrap_opt list" where
  "read_opts [] = []"
| "read_opts (a # r) =
     (if a = ''--'' then []
      else if a = ''--ro-bind'' \<or> a = ''--bind''
      then (case r of s # d # r' \<Rightarrow> (if a = ''--bind'' then Bind s d else RoBind s d) # read_opts r' | _ \<Rightarrow> [])
      else if a = ''--dev'' \<or> a = ''--proc'' \<or> a = ''--tmpfs''
      then (case r of d # r' \<Rightarrow> Fresh d # read_opts r' | _ \<Rightarrow> [])
      else if a = ''--cap-add'' \<or> a = ''--cap-drop'' \<or> a = ''--chdir''
      then (case r of v # r' \<Rightarrow> Setting a v # read_opts r' | _ \<Rightarrow> [])
      else Flag a # read_opts r)"

definition covers :: "string \<Rightarrow> string \<Rightarrow> bool" where
  "covers d p \<longleftrightarrow> d = ''/'' \<or> p = d \<or> starts_with (d @ ''/'') p"

fun mounts_at :: "string \<Rightarrow> bwrap_opt \<Rightarrow> bool" where
  "mounts_at p (RoBind s d) = covers d p"
| "mounts_at p (Bind s d) = covers d p"
| "mounts_at p (Fresh d) = covers d p"
| "mounts_at p _ = False"

text \<open>A host path can be written in the sandbox when what shows there is the path itself, writable.\<close>

definition host_writable :: "bwrap_opt list \<Rightarrow> string \<Rightarrow> bool" where
  "host_writable os p \<longleftrightarrow> (case List.find (mounts_at p) (rev os) of Some (Bind s d) \<Rightarrow> s = d | _ \<Rightarrow> False)"

definition shares_network :: "bwrap_opt list \<Rightarrow> bool" where
  "shares_network os \<longleftrightarrow> Flag ''--share-net'' \<in> set os \<or>
     (Flag ''--unshare-all'' \<notin> set os \<and> Flag ''--unshare-net'' \<notin> set os)"

definition added_caps :: "bwrap_opt list \<Rightarrow> string set" where
  "added_caps os = {v. Setting ''--cap-add'' v \<in> set os}"

subsection \<open>What the daemon's vector reads as\<close>

lemma read_binds:
  "read_opts (bind_args ''--ro-bind'' rs @ r) = map (\<lambda>d. RoBind d d) rs @ read_opts r"
  "read_opts (bind_args ''--bind'' rs @ r) = map (\<lambda>d. Bind d d) rs @ read_opts r"
  by (induction rs) (simp_all add: bind_args_def)

definition policy_opts :: "sandbox_options \<Rightarrow> bool \<Rightarrow> bwrap_opt list" where
  "policy_opts o' root = [Flag ''bwrap'', RoBind ''/'' ''/'', Fresh ''/dev'', Fresh ''/proc'', Flag ''--die-with-parent'', Flag ''--new-session'']
     @ map Flag (namespaces root (so_network o'))
     @ (if keepCapabilities o' then (if root then [Setting ''--cap-add'' ''ALL''] else [])
        else Setting ''--cap-drop'' ''ALL'' # (if root then [Setting ''--cap-add'' ''CAP_DAC_READ_SEARCH''] else []))
     @ (if ''/tmp'' \<notin> set (map strip_root (writableRoots o')) then [Fresh ''/tmp''] else [])
     @ map (\<lambda>d. RoBind d d) (filter (\<lambda>r. r \<noteq> ''/'') (unique (map strip_root (visibleRoots o'))))
     @ map (\<lambda>d. Bind d d) (unique (map strip_root (writableRoots o')))
     @ (if truthy (so_cwd o') then [Setting ''--chdir'' (case so_cwd o' of None \<Rightarrow> [] | Some d \<Rightarrow> d)] else [])"

lemma set_unique [simp]: "set (unique xs) = set xs"
  by (induction xs) auto

lemma read_flags: "read_opts (namespaces root net @ r) = map Flag (namespaces root net) @ read_opts r"
  by (simp add: namespaces_def)

lemma read_caps: "read_opts (capability_args root keep @ r) =
    (if keep then (if root then [Setting ''--cap-add'' ''ALL''] else [])
     else Setting ''--cap-drop'' ''ALL'' # (if root then [Setting ''--cap-add'' ''CAP_DAC_READ_SEARCH''] else [])) @ read_opts r"
  by (simp add: capability_args_def)

lemma read_tmpfs: "read_opts ((if b then [''--tmpfs'', ''/tmp''] else []) @ r) = (if b then [Fresh ''/tmp''] else []) @ read_opts r"
  by simp

lemma read_chdir: "read_opts ((if b then [''--chdir'', d] else []) @ r) = (if b then [Setting ''--chdir'' d] else []) @ read_opts r"
  by simp

lemma read_policy:
  assumes "bwrapArgs o' root = Inr argv"
  shows "read_opts (argv @ cmd) = policy_opts o' root" and "''/'' \<notin> strip_root ` set (writableRoots o')"
proof -
  from assms show no: "''/'' \<notin> strip_root ` set (writableRoots o')"
    by (auto simp: bwrapArgs_def Let_def split: if_splits)
  have argv: "argv @ cmd = [''bwrap'', ''--ro-bind'', ''/'', ''/'', ''--dev'', ''/dev'', ''--proc'', ''/proc'', ''--die-with-parent'', ''--new-session'']
           @ (namespaces root (so_network o') @ (capability_args root (keepCapabilities o')
           @ ((if ''/tmp'' \<notin> set (unique (map strip_root (writableRoots o'))) then [''--tmpfs'', ''/tmp''] else [])
           @ (bind_args ''--ro-bind'' (filter (\<lambda>r. r \<noteq> ''/'') (unique (map strip_root (visibleRoots o'))))
           @ (bind_args ''--bind'' (unique (map strip_root (writableRoots o')))
           @ ((if truthy (so_cwd o') then [''--chdir'', (case so_cwd o' of None \<Rightarrow> [] | Some d \<Rightarrow> d)] else []) @ [''--''] @ cmd))))))"
    using assms no by (simp add: bwrapArgs_def Let_def)
  show "read_opts (argv @ cmd) = policy_opts o' root"
    unfolding argv policy_opts_def
    by (simp only: append_Cons append_Nil read_opts.simps list.case simp_thms if_False if_True
        read_flags read_caps read_tmpfs read_binds read_chdir set_unique)
       (simp add: read_flags read_caps read_tmpfs read_binds read_chdir)
qed

subsection \<open>Exactly the declared roots can be written\<close>

lemma last_mount:
  assumes "\<forall>t \<in> set ts. \<not> mounts_at p t" and "\<forall>x \<in> set os. \<forall>s d. x \<noteq> Bind s d"
  shows "host_writable (os @ map (\<lambda>d. Bind d d) rs @ ts) p \<longleftrightarrow> (\<exists>d \<in> set rs. covers d p)"
proof -
  have ts: "List.find (mounts_at p) (rev ts) = None" using assms(1) by (simp add: List_find_None_iff)
  have split: "rev (os @ map (\<lambda>d. Bind d d) rs @ ts) = rev ts @ rev (map (\<lambda>d. Bind d d) rs) @ rev os" by simp
  show ?thesis
  proof (cases "List.find (mounts_at p) (rev (map (\<lambda>d. Bind d d) rs))")
    case None
    then have no: "\<forall>d \<in> set rs. \<not> covers d p" by (auto simp: List_find_None_iff)
    have "List.find (mounts_at p) (rev os) \<noteq> Some (Bind s d)" for s d
      using List_find_Some_iff [of "mounts_at p" "rev os" "Bind s d"] assms(2) by auto
    with None ts no show ?thesis unfolding host_writable_def split find_append
      by (auto split: option.splits bwrap_opt.splits)
  next
    case (Some x)
    then have "x \<in> set (rev (map (\<lambda>d. Bind d d) rs)) \<and> mounts_at p x" by (rule List_find_Some_iff)
    then obtain d where "d \<in> set rs" "x = Bind d d" "covers d p" by auto
    with Some ts show ?thesis unfolding host_writable_def split find_append by auto
  qed
qed

lemma policy_writable: "host_writable (policy_opts o' root) p \<longleftrightarrow> (\<exists>w \<in> set (writableRoots o'). covers (strip_root w) p)"
proof -
  define os where "os = [Flag ''bwrap'', RoBind ''/'' ''/'', Fresh ''/dev'', Fresh ''/proc'', Flag ''--die-with-parent'', Flag ''--new-session'']
     @ map Flag (namespaces root (so_network o'))
     @ (if keepCapabilities o' then (if root then [Setting ''--cap-add'' ''ALL''] else [])
        else Setting ''--cap-drop'' ''ALL'' # (if root then [Setting ''--cap-add'' ''CAP_DAC_READ_SEARCH''] else []))
     @ (if ''/tmp'' \<notin> set (map strip_root (writableRoots o')) then [Fresh ''/tmp''] else [])
     @ map (\<lambda>d. RoBind d d) (filter (\<lambda>r. r \<noteq> ''/'') (unique (map strip_root (visibleRoots o'))))"
  define ts where "ts = (if truthy (so_cwd o') then [Setting ''--chdir'' (case so_cwd o' of None \<Rightarrow> [] | Some d \<Rightarrow> d)] else [])"
  have "policy_opts o' root = os @ map (\<lambda>d. Bind d d) (unique (map strip_root (writableRoots o'))) @ ts"
    by (simp add: policy_opts_def os_def ts_def)
  moreover have "\<forall>t \<in> set ts. \<not> mounts_at p t" by (simp add: ts_def)
  moreover have "\<forall>x \<in> set os. \<forall>s d. x \<noteq> Bind s d" by (auto simp: os_def)
  ultimately show ?thesis by (simp add: last_mount)
qed

lemma policy_network: "shares_network (policy_opts o' root) \<longleftrightarrow> so_network o'"
  by (auto simp: shares_network_def policy_opts_def namespaces_def)

lemma policy_caps: "added_caps (policy_opts o' root) =
    (if \<not> root then {} else if keepCapabilities o' then {''ALL''} else {''CAP_DAC_READ_SEARCH''})"
  by (auto simp: added_caps_def policy_opts_def)

text \<open>The environment of a command: the five names, then what the policy adds.\<close>

lemma map_of_updates: "map_of (foldl (\<lambda>m (k, v). AList.update k v m) al kvs) = map_of al ++ map_of (rev kvs)"
proof (induction kvs arbitrary: al)
  case (Cons kv kvs)
  then show ?case by (cases kv) (auto simp: update_conv' fun_eq_iff map_add_def split: option.splits)
qed simp

lemma env_keys: "fst ` set (sandbox_env h given) =
    {''PATH'', ''HOME'', ''LANG'', ''TERM'', ''DEBIAN_FRONTEND''} \<union> fst ` set given"
proof -
  have "fst ` set (foldl (\<lambda>m (k, v). AList.update k v m) al kvs) = fst ` set al \<union> fst ` set kvs" for al :: "(string \<times> string) list" and kvs
  proof (induction kvs arbitrary: al)
    case (Cons kv kvs)
    then show ?case by (cases kv) (auto simp: dom_update)
  qed simp
  then show ?thesis by (simp add: sandbox_env_def insert_commute)
qed

subsection \<open>The size of a tree\<close>

fun tree_total :: "dir_entry \<Rightarrow> int" where
  "tree_total (Leaf n) = n"
| "tree_total (Branch es) = sum_list (map tree_total es)"
| "tree_total (Locked e) = 0"

fun sized :: "dir_entry \<Rightarrow> bool" where
  "sized (Leaf n) = (0 \<le> n)"
| "sized (Branch es) = list_all sized es"
| "sized (Locked e) = False"

lemma sized_total: "sized e \<Longrightarrow> 0 \<le> tree_total e"
proof (induction e)
  case (Branch es)
  then show ?case by (auto simp: list_all_iff intro!: sum_list_nonneg)
qed auto

lemma sized_sum: "list_all sized es \<Longrightarrow> 0 \<le> sum_list (map tree_total es)"
  using sized_total by (auto simp: list_all_iff intro!: sum_list_nonneg)

definition directory :: "dir_entry \<Rightarrow> bool" where
  "directory e \<longleftrightarrow> (\<exists>es. e = Branch es)"

lemma scan_dir_total:
  assumes "list_all sized es" and "tot \<le> cap" and "list_all sized st" and "list_all directory st"
  shows "case scan_dir cap es tot st of (t, st', over) \<Rightarrow>
     t + sum_list (map tree_total st') \<le> tot + sum_list (map tree_total es) + sum_list (map tree_total st) \<and>
     list_all sized st' \<and> list_all directory st' \<and> (over \<longrightarrow> cap < t) \<and>
     (\<not> over \<longrightarrow> t \<le> cap \<and> t + sum_list (map tree_total st') = tot + sum_list (map tree_total es) + sum_list (map tree_total st))"
  using assms
proof (induction cap es tot st rule: scan_dir.induct)
  case (2 cap e es tot st)
  show ?case
  proof (cases e)
    case (Leaf n)
    show ?thesis
    proof (cases "tot + n > cap")
      case True
      with 2(2-) Leaf sized_sum [of es] show ?thesis by (simp add: Let_def)
    next
      case False
      with 2(1) [of "tot + n" st] 2(2-) Leaf show ?thesis by (simp add: Let_def split: prod.splits)
    qed
  next
    case (Branch ks)
    with 2(1) [of tot "e # st"] 2(2-) show ?thesis by (simp add: Let_def directory_def split: prod.splits)
  next
    case (Locked x)
    with 2(2) show ?thesis by simp
  qed
qed simp

lemma walk_tree_total:
  assumes "list_all sized st" and "list_all directory st"
  shows "\<exists>n. walk_tree cap st tot = Inr n \<and>
    (tot + sum_list (map tree_total st) \<le> cap \<longrightarrow> n = tot + sum_list (map tree_total st)) \<and>
    (cap < tot + sum_list (map tree_total st) \<longrightarrow> cap < n)"
  using assms
proof (induction cap st tot rule: walk_tree.induct)
  case (2 cap d st tot)
  obtain es where d: "d = Branch es" using 2(3) by (auto simp: directory_def)
  have ok: "list_all sized es" "list_all sized st" "list_all directory st" using 2(2,3) d by simp_all
  show ?case
  proof (cases "tot > cap")
    case True
    with d ok sized_sum [OF ok(1)] sized_sum [OF ok(2)] show ?thesis by simp
  next
    case False
    obtain t st' over where r: "scan_dir cap es tot st = (t, st', over)" by (metis prod.exhaust)
    note f = scan_dir_total [OF ok(1) _ ok(2,3), of tot cap]
    show ?thesis
    proof (cases over)
      case True
      with f False r have "0 \<le> sum_list (map tree_total st')" by (intro sized_sum) simp
      with True f False r d show ?thesis by auto
    next
      case no: False
      with f False r have g: "list_all sized st'" "list_all directory st'"
        "t + sum_list (map tree_total st') = tot + sum_list (map tree_total es) + sum_list (map tree_total st)" by auto
      from 2(1) [OF False d r [symmetric] refl] g no r d False show ?thesis by (simp add: add.assoc)
    qed
  qed
qed simp

text \<open>Of a tree that can be listed the size is exact up to the cap, and above the cap exactly when the tree is.\<close>

lemma sizeOf_total:
  assumes "tree_at m s path = Inr e" and "sized e"
  shows "\<exists>n. sizeOf m s path cap = Inr n \<and> (tree_total e \<le> cap \<longrightarrow> n = tree_total e) \<and> (cap < tree_total e \<longrightarrow> cap < n)"
proof (cases e)
  case (Branch es)
  with walk_tree_total [of "[e]" cap 0] assms show ?thesis by (simp add: sizeOf_def directory_def)
qed (use assms in \<open>simp_all add: sizeOf_def\<close>)

end
