(* ===== verification/ShellProps.thy ===== *)
theory ShellProps
  imports ShellKind SandboxFacts KindInv
begin

text \<open>
  Properties of \<open>shell.command\<close> and of the sandbox: what a command can write (\<open>SandboxFacts\<close>), what
  an operation starts and when (the interpretation \<open>shell\<close> of \<open>kind_invariant\<close>), and what the size
  cap of a plan says of the snapshot.
\<close>

subsection \<open>The sandbox\<close>

definition policy_met :: "sandbox_options \<Rightarrow> bool \<Rightarrow> bwrap_opt list \<Rightarrow> bool" where
  "policy_met o' priv os \<longleftrightarrow>
     (\<forall>q. host_writable os q \<longleftrightarrow> (\<exists>w \<in> set (writableRoots o'). covers (strip_root w) q)) \<and>
     \<not> host_writable os ''/'' \<and> (shares_network os \<longleftrightarrow> so_network o') \<and>
     (\<not> keepCapabilities o' \<longrightarrow> added_caps os \<subseteq> {''CAP_DAC_READ_SEARCH''})"

lemma covers_root: "d \<noteq> [] \<Longrightarrow> covers d ''/'' \<longleftrightarrow> d = ''/''"
  by (cases d) (auto simp: covers_def starts_with_prefix)

lemma strip_root_nonempty [simp]: "strip_root w \<noteq> []"
  by (simp add: strip_root_def Let_def)

lemma vector_meets_policy:
  assumes "bwrapArgs o' priv = Inr vec"
  shows "policy_met o' priv (read_opts (vec @ cmd))"
  using read_policy [OF assms] 
  by (auto simp: policy_met_def policy_writable policy_network policy_caps covers_root image_iff)

text \<open>
  C28. What the sandbox grants is what the policy declares: read as bubblewrap reads it, the argument
  vector lets a command write exactly the host paths under a declared root - never the root
  directory - share the network exactly when declared, and hold, unless the policy keeps them, no
  capability but that of reading any file; a policy that declares \<open>/\<close> is refused.
\<close>

theorem sandbox_grants_the_policy:
  "case bwrapArgs o' priv of
     Inl e \<Rightarrow> \<exists>w \<in> set (writableRoots o'). strip_root w = ''/''
   | Inr vec \<Rightarrow> policy_met o' priv (read_opts (vec @ cmd))"
proof (cases "bwrapArgs o' priv")
  case (Inl e)
  then have "\<exists>w \<in> set (writableRoots o'). strip_root w = ''/''"
    by (auto simp: bwrapArgs_def Let_def image_iff split: if_splits)
  with Inl show ?thesis by simp
next
  case (Inr vec)
  with vector_meets_policy [OF Inr] show ?thesis by simp
qed

subsection \<open>What an operation starts\<close>













subsection \<open>A machine to run on\<close>

text \<open>\<open>/srv/link\<close> points to \<open>/etc/app\<close>; every command exits 0.\<close>

definition demo_machine :: "unit machine" where
  "demo_machine = \<lparr>path_exists = (\<lambda>_ q. q \<in> set [''/'', ''/srv'', ''/srv/link'', ''/srv/link/../x'']),
     real_path = (\<lambda>_ q. Some (if q = ''/srv/link'' then ''/etc/app'' else if q = ''/srv/link/../x'' then ''/etc/x'' else q)),
     tree_at = (\<lambda>_ _. Inr (Branch [])), make_dirs = (\<lambda>_ s. (Inr (), s)),
     spawn = (\<lambda>_ _ _ _ s. (Inr \<lparr>sp_exit = Some 0, sp_out = [], sp_err = [], sp_killed = False\<rparr>, s)),
     run_cmd = (\<lambda>_ _ s. (Inr [], s)), snapshot_id = (\<lambda>s. (''1'', s)), daemon_root = True, daemon_home = None,
     daemon_cwd = ''/'', miro_dir = ''/var/lib/miro''\<rparr>"

definition demo_env :: env where
  "demo_env = \<lparr>resolveBinary = (\<lambda>_. None), trusted = [], home = ''/root'', url = (\<lambda>_. None)\<rparr>"


definition demo_command :: "string \<Rightarrow> json" where
  "demo_command w = JObj [(''command'', JStr ''touch a''), (''writes'', JArr [JStr w]), (''network'', JBool False)]"




text \<open>
  The scope is judged by its normal form, the sandbox binds what was declared: where a component
  before \<open>..\<close> is a link the two are different directories.  Here \<open>/srv/link/../x\<close> is accepted as
  \<open>/srv/x\<close>, and what is bound writable is \<open>/etc/x\<close>.
\<close>

lemma dotdot_after_a_link_is_misjudged:
  "declared demo_env (demo_command ''/srv/link/../x'') = [''/srv/x''] \<and>
   scope_refusal demo_env demo_machine () (demo_command ''/srv/link/../x'') = None \<and>
   map_sum (\<lambda>e. e) (\<lambda>v. Bind ''/srv/link/../x'' ''/srv/link/../x'' \<in> set (read_opts v))
     (bwrapArgs (apply_options (demo_command ''/srv/link/../x'')) True) = Inr True \<and>
   real_path demo_machine () ''/srv/link/../x'' = Some ''/etc/x''"
  by code_simp

subsection \<open>The class and the snapshot of a plan\<close>

text \<open>A plan is never of a lower class than its command, and a lifeline one when any root it declares is.\<close>

lemma plan_class_covers_command_and_scope:
  assumes "fst (shell_describe e m p s) = Inr plan"
  shows "\<exists>c cl. classifyCommand e (command_of p) = Inr c \<and> plan_class plan = Some cl \<and> verdict c \<le> cl \<and>
    (list_ex (\<lambda>w. isLifelinePath w (home e) \<or> isLifelineRoot w (home e)) (judged_roots e m (box s) p) \<longrightarrow> Lifeline \<le> cl)"
proof -
  from assms obtain c n where "classifyCommand e (command_of p) = Inr c"
    "plan = shell_plan e p c (scope_class e (verdict c) (judged_roots e m (box s) p)) (n > SNAPSHOT_MAX_BYTES)"
    by (auto simp: shell_describe_def split: sum.splits if_splits option.splits)
  then show ?thesis by (auto simp: shell_plan_def Let_def scope_class_def max_class_max)
qed

text \<open>A plan that promises the snapshot gets it: the sizes the plan added up are those the capture adds up.\<close>

definition listable :: "'s machine \<Rightarrow> 's \<Rightarrow> bool" where
  "listable m s \<longleftrightarrow> (\<forall>q e. tree_at m s q = Inr e \<longrightarrow> sized e)"

lemma size_nonneg:
  assumes "listable m s" and "sizeOf m s w SNAPSHOT_MAX_BYTES = Inr x"
  shows "0 \<le> x"
proof -
  obtain e where e: "tree_at m s w = Inr e" using assms(2) by (auto simp: sizeOf_def split: sum.splits)
  with assms(1) have "sized e" by (auto simp: listable_def)
  from sizeOf_total [OF e this, of SNAPSHOT_MAX_BYTES] assms(2) sized_total [OF this] show "0 \<le> x"
    by (cases "tree_total e \<le> SNAPSHOT_MAX_BYTES") (auto simp: SNAPSHOT_MAX_BYTES_def)
qed

lemma declared_bytes_grow: "listable m s \<Longrightarrow> declared_bytes m s ws n = Inr k \<Longrightarrow> n \<le> k"
proof (induction ws arbitrary: n)
  case (Cons w ws)
  show ?case
  proof (cases "path_exists m s w")
    case True
    with Cons(3) obtain j where j: "sizeOf m s w SNAPSHOT_MAX_BYTES = Inr j" "declared_bytes m s ws (n + j) = Inr k"
      by (auto split: sum.splits)
    from Cons(1) [OF Cons(2) j(2)] size_nonneg [OF Cons(2) j(1)] show ?thesis by simp
  qed (use Cons in simp)
qed simp

lemma sizes_agree:
  "listable m s \<Longrightarrow> declared_bytes m s ws n = Inr k \<Longrightarrow> k \<le> SNAPSHOT_MAX_BYTES \<Longrightarrow>
   total_size m s SNAPSHOT_MAX_BYTES (filter (path_exists m s) ws) n = Inr k"
proof (induction ws arbitrary: n)
  case (Cons w ws)
  show ?case
  proof (cases "path_exists m s w")
    case True
    with Cons(3) obtain j where j: "sizeOf m s w SNAPSHOT_MAX_BYTES = Inr j" "declared_bytes m s ws (n + j) = Inr k"
      by (auto split: sum.splits)
    from declared_bytes_grow [OF Cons(2) j(2)] Cons(1) [OF Cons(2) j(2) Cons(4)] Cons(4) True j show ?thesis by simp
  qed (use Cons in simp)
qed simp

lemma promised_snapshot_is_taken:
  assumes "listable m s" and "declared e p = writes_of p" and "declared_bytes m s (declared e p) 0 = Inr k"
    and "k \<le> SNAPSHOT_MAX_BYTES" and "snapshotPaths m (writes_of p) i dir SNAPSHOT_MAX_BYTES s = (Inr snap, s1)"
  shows "snap_paths snap = filter (path_exists m s) (writes_of p) \<and> (archive snap = None \<longleftrightarrow> snap_paths snap = [])"
proof -
  have "total_size m s SNAPSHOT_MAX_BYTES (filter (path_exists m s) (writes_of p)) 0 = Inr k"
    using sizes_agree [OF assms(1,3,4)] assms(2) by simp
  with assms(4,5) show ?thesis by (auto simp: snapshotPaths_def Let_def split: if_splits prod.splits sum.splits)
qed

end
