(* ===== verification/Prodtest.thy ===== *)
theory Prodtest
  imports EngineFacts
begin

text \<open>
  Drift detection (\<open>apps/mirod/src/operations/prodtest.ts\<close>): the newest committed operation of every
  target is verified again; what no longer verifies is an incident, told to the owner and never
  applied again.  The kinds by name, the text of a date and the home directory are parameters.
\<close>

record drift_report =
  checked :: nat
  drifted :: "(string \<times> string \<times> string) list"

text \<open>The target of a row, \<open>None\<close> where the sweep skips it.\<close>

definition target_key :: "(string \<Rightarrow> 's kind option) \<Rightarrow> op_row \<Rightarrow> string option" where
  "target_key kinds r =
     (case kinds (op_kind r) of
        None \<Rightarrow> None
      | Some k \<Rightarrow>
          (case op_params r of
             Torn \<Rightarrow> None
           | Text p \<Rightarrow> (case prodtest k of
                Some target \<Rightarrow> target p
              | None \<Rightarrow> Some (op_kind r @ '' '' @ stringify p))))"

text \<open>\<open>if (!latestPerTarget.has(key)) latestPerTarget.set(key, op)\<close> over the rows, newest first.\<close>

fun latestPerTarget :: "(string \<Rightarrow> 's kind option) \<Rightarrow> op_row list \<Rightarrow> (string \<times> op_row) list \<Rightarrow> (string \<times> op_row) list" where
  "latestPerTarget kinds [] found = found"
| "latestPerTarget kinds (r # rs) found =
     (case target_key kinds r of
        None \<Rightarrow> latestPerTarget kinds rs found
      | Some key \<Rightarrow> latestPerTarget kinds rs (if key \<in> fst ` set found then found else found @ [(key, r)]))"

definition LIFELINE_UNITS :: rex where
  "LIFELINE_UNITS = seq [Bol, alt [lit ''ssh'', lit ''sshd'', lit ''docker'', lit ''containerd'', lit ''mirod'', lit ''networking'',
     lit ''systemd-networkd'', lit ''systemd-resolved'', lit ''NetworkManager'', seq [lit ''wg-quick@'', dots], lit ''tailscaled'',
     lit ''firewalld'', lit ''nftables'', lit ''ufw''],
     opt (seq [ch CHR ''.'', alts [''service'', ''socket'', ''target'', ''timer'']]), Eol]"

definition driftTouchesLifeline :: "string \<Rightarrow> json column \<Rightarrow> bool" where
  "driftTouchesLifeline home params =
     (case params of
        Torn \<Rightarrow> False
      | Text p \<Rightarrow>
          (case field ''unit'' p of JStr u \<Rightarrow> rtest LIFELINE_UNITS u | _ \<Rightarrow> False) \<or>
          (case field ''path'' p of JStr q \<Rightarrow> isLifelinePath q home | _ \<Rightarrow> False))"

definition drift_error :: "(int \<Rightarrow> string) \<Rightarrow> op_row \<Rightarrow> string" where
  "drift_error day r = ''no longer verifies (committed '' @ day (op_updated r) @ '')''"

definition drift_notice :: "string \<Rightarrow> op_row \<Rightarrow> int \<Rightarrow> notification" where
  "drift_notice home r t = \<lparr>n_tier = (if driftTouchesLifeline home (op_params r) then NeedsAttention else WorthKnowing),
     n_title = ''Drift: '' @ [DQ] @ op_goal r @ [DQ] @ '' no longer holds'',
     n_body = ''Something Miro set up has been undone or has decayed. It is not re-applied on its own.'',
     n_source = ''drift'', n_at = t\<rparr>"

text \<open>A verification that throws is one that failed.\<close>

definition still_verifies :: "(string \<Rightarrow> 's kind option) \<Rightarrow> op_row \<Rightarrow> 's world \<Rightarrow> bool \<times> 's world" where
  "still_verifies kinds r w =
     (case (kinds (op_kind r), op_params r) of
        (Some k, Text p) \<Rightarrow> (let (v, w1) = on_srv (verify k p) w in (v = Inr True, w1))
      | _ \<Rightarrow> (False, w))"

definition incident_count :: "op_row \<Rightarrow> 's world \<Rightarrow> nat" where
  "incident_count r w =
     (case get_by_key Incident (incident_key (op_kind r) (op_goal r)) (memtab w) of None \<Rightarrow> 0 | Some m \<Rightarrow> occurrence_count m)"

definition report_drift :: "'s ctx \<Rightarrow> (int \<Rightarrow> string) \<Rightarrow> string \<Rightarrow> op_row \<Rightarrow> 's world \<Rightarrow> 's world" where
  "report_drift c day home r w =
     (let w1 = incident c (op_kind r) (op_goal r) IncDrift (Some (drift_error day r)) w
      in if incident_count r w1 = 1 then tell_owner c (drift_notice home r (now c w1)) w1 else w1)"

fun sweep ::
    "'s ctx \<Rightarrow> (int \<Rightarrow> string) \<Rightarrow> string \<Rightarrow> (string \<Rightarrow> 's kind option) \<Rightarrow> op_row list \<Rightarrow> drift_report \<Rightarrow> 's world \<Rightarrow> drift_report \<times> 's world" where
  "sweep c day home kinds [] rep w = (rep, w)"
| "sweep c day home kinds (r # rs) rep w =
     (let rep1 = rep\<lparr>checked := checked rep + 1\<rparr>; (ok, w1) = still_verifies kinds r w
      in if ok then sweep c day home kinds rs rep1 w1
         else sweep c day home kinds rs (rep1\<lparr>drifted := drifted rep1 @ [(op_id r, op_kind r, op_goal r)]\<rparr>)
                (report_drift c day home r w1))"

definition reverifyCommitted ::
    "'s ctx \<Rightarrow> (int \<Rightarrow> string) \<Rightarrow> string \<Rightarrow> (string \<Rightarrow> 's kind option) \<Rightarrow> nat \<Rightarrow> 's world \<Rightarrow> drift_report \<times> 's world" where
  "reverifyCommitted c day home kinds limit w =
     sweep c day home kinds (map snd (latestPerTarget kinds (list_committed limit (optab w)) []))
       \<lparr>checked = 0, drifted = []\<rparr> w"

end
