(* ===== verification/ProdtestProps.thy ===== *)
theory ProdtestProps
  imports Prodtest
begin

text \<open>
  Properties of drift detection: which operations are verified again, what is reported, and that
  the sweep changes neither the operations nor - where the kinds' checks observe only - the server.
\<close>

subsection \<open>One row per target\<close>

definition newest_of_target :: "(string \<Rightarrow> 's kind option) \<Rightarrow> op_row list \<Rightarrow> op_row \<Rightarrow> bool" where
  "newest_of_target kinds rows r \<longleftrightarrow> (\<exists>newer older key. rows = newer @ r # older \<and> target_key kinds r = Some key \<and>
     key \<notin> {key'. \<exists>x \<in> set newer. target_key kinds x = Some key'})"


lemma latest_rows:
  "set (latestPerTarget kinds rs found) = set found \<union>
     {(key, r). key \<notin> fst ` set found \<and> target_key kinds r = Some key \<and>
        (\<exists>newer older. rs = newer @ r # older \<and> (\<forall>x \<in> set newer. target_key kinds x \<noteq> Some key))}"
proof (induction kinds rs found rule: latestPerTarget.induct)
  case (2 kinds r rs found)
  have split: "(\<exists>newer older. r # rs = newer @ r' # older \<and> (\<forall>x \<in> set newer. target_key kinds x \<noteq> Some key)) \<longleftrightarrow>
      r' = r \<or> (target_key kinds r \<noteq> Some key \<and>
        (\<exists>newer older. rs = newer @ r' # older \<and> (\<forall>x \<in> set newer. target_key kinds x \<noteq> Some key)))" for r' key
  proof
    assume "\<exists>newer older. r # rs = newer @ r' # older \<and> (\<forall>x \<in> set newer. target_key kinds x \<noteq> Some key)"
    then obtain newer older where "r # rs = newer @ r' # older" "\<forall>x \<in> set newer. target_key kinds x \<noteq> Some key" by blast
    then show "r' = r \<or> (target_key kinds r \<noteq> Some key \<and>
        (\<exists>newer older. rs = newer @ r' # older \<and> (\<forall>x \<in> set newer. target_key kinds x \<noteq> Some key)))"
      by (cases newer) auto
  next
    assume "r' = r \<or> (target_key kinds r \<noteq> Some key \<and>
        (\<exists>newer older. rs = newer @ r' # older \<and> (\<forall>x \<in> set newer. target_key kinds x \<noteq> Some key)))"
    then show "\<exists>newer older. r # rs = newer @ r' # older \<and> (\<forall>x \<in> set newer. target_key kinds x \<noteq> Some key)"
    proof (elim disjE conjE exE)
      assume "r' = r" then show ?thesis by (intro exI [of _ "[]"] exI [of _ rs]) simp
    next
      fix newer older
      assume "target_key kinds r \<noteq> Some key" "rs = newer @ r' # older" "\<forall>x \<in> set newer. target_key kinds x \<noteq> Some key"
      then show ?thesis by (intro exI [of _ "r # newer"] exI [of _ older]) simp
    qed
  qed
  show ?case
  proof (cases "target_key kinds r")
    case None
    with 2(1) show ?thesis unfolding split by auto
  next
    case (Some key)
    with 2(2) [OF Some] show ?thesis unfolding split by (auto split: if_splits simp: image_iff)
  qed
qed simp

lemma latest_newest: "set (map snd (latestPerTarget kinds rows [])) = {r. newest_of_target kinds rows r}"
  by (auto simp: latest_rows newest_of_target_def image_iff) blast+

subsection \<open>What the sweep does\<close>

text \<open>The checks observe: they return and leave the server as it is.\<close>

definition observing :: "(string \<Rightarrow> 's kind option) \<Rightarrow> bool" where
  "observing kinds \<longleftrightarrow> (\<forall>n k p s. kinds n = Some k \<longrightarrow> snd (verify k p s) = s)"

definition drifts :: "(string \<Rightarrow> 's kind option) \<Rightarrow> 's \<Rightarrow> op_row \<Rightarrow> bool" where
  "drifts kinds s r \<longleftrightarrow> (case (kinds (op_kind r), op_params r) of
     (Some k, Text p) \<Rightarrow> fst (verify k p s) \<noteq> Inr True | _ \<Rightarrow> True)"

lemma still_verifies_parts:
  assumes "still_verifies kinds r w = (ok, w1)"
  shows "optab w1 = optab w" "memtab w1 = memtab w" "note_bus w1 = note_bus w"
    and "observing kinds \<Longrightarrow> srv w1 = srv w \<and> (ok \<longleftrightarrow> \<not> drifts kinds (srv w) r)"
  using assms
  by (auto simp: still_verifies_def drifts_def observing_def on_srv_def Let_def case_prod_unfold
      split: option.splits column.splits)




text \<open>A box with one number: its operation set it to 1, and it was changed since.\<close>

definition drift_kind :: "int kind" where
  "drift_kind = \<lparr>kind_name = ''set'', describe = (\<lambda>p s. (Inl (an_error ''never''), s)), captureState = (\<lambda>p s. (Inr JNull, s)),
     apply_op = (\<lambda>p s. (Inr (), s)), verify = (\<lambda>p s. (Inr (p = JNum s), s)), rollback = (\<lambda>p cap s. (Inr (), s)),
     prodtest = None, kind_reconcile = None\<rparr>"

definition drift_kinds :: "string \<Rightarrow> int kind option" where
  "drift_kinds n = (if n = ''set'' then Some drift_kind else None)"

definition drift_ctx :: "int ctx" where
  "drift_ctx = \<lparr>clock = (\<lambda>_. 1000), uuid = show_nat, sha256 = (\<lambda>t. t), max_failures = 3,
     severity = (\<lambda>s. (Inr 0, s)), waitForAnswer = (\<lambda>q w. ([], w)), answer_or_timeout = (\<lambda>q ms w. ([], w)),
     acquire = (\<lambda>w. w), getSetting = (\<lambda>_. None), lifelineConfirmMs = None\<rparr>"

definition drift_world :: "int world" where
  "drift_world = \<lparr>srv = 2, optab = [\<lparr>op_id = ''1'', op_kind = ''set'', op_goal = ''g'', op_params = Text (JNum 1), op_phase = Committed,
       auto_approve = False, op_plan_col = None, captured_state = None, rollback_col = None, op_error = None, op_created = 5, op_updated = 6\<rparr>],
     memtab = [], note_bus = \<lparr>configured = True, settings = (\<lambda>_. None), secrets = (\<lambda>_. None),
     note_table = [], clients = 0, notices = [], posted = []\<rparr>, sent = [], retry_ledger = None,
     draws = 0, cancelled = [], reflected = [], hooks = []\<rparr>"


lemma drift_is_found: "drifted (fst (reverifyCommitted drift_ctx show_int ''/root'' drift_kinds 200 drift_world)) = [(''1'', ''set'', ''g'')]"
  by code_simp

subsection \<open>The owner is not told\<close>

text \<open>Every incident row counts at least one occurrence.\<close>

definition known_incident :: "op_row \<Rightarrow> mem_row list \<Rightarrow> bool" where
  "known_incident r ms \<longleftrightarrow> (\<exists>m \<in> set ms. same_fact Incident (incident_key (op_kind r) (op_goal r)) m) \<and>
     (\<forall>m \<in> set ms. mem_category m = Incident \<longrightarrow> 1 \<le> occurrence_count m)"

text \<open>A recording keeps every row's category and key, raises counts only, and adds rows counted once.\<close>

lemma record_shape:
  "\<exists>f ys. record_incident t u kn g ph err ms = map f ms @ ys \<and> (\<forall>y \<in> set ys. occurrence_count y = 1) \<and>
     (\<forall>m. mem_category (f m) = mem_category m \<and> mem_key (f m) = mem_key m \<and> occurrence_count m \<le> occurrence_count (f m))"
proof (cases "list_ex (same_fact Incident (incident_key kn g)) ms")
  case True
  let ?f = "\<lambda>r. if same_fact Incident (incident_key kn g) r
      then reinforce t (redact_secrets_in_text (incident_value g ph err)) (''mechanical:'' @ kn) None no_opts r else r"
  show ?thesis using True by (intro exI [of _ ?f] exI [of _ "[]"]) (simp add: record_incident_def remember_def Let_def reinforce_def)
next
  case False
  then show ?thesis
    by (intro exI [of _ "\<lambda>m. m"]) (simp add: record_incident_def remember_def Let_def new_fact_def)
qed

lemma record_known:
  assumes "known_incident r ms"
  shows "known_incident r (record_incident t u kn g ph err ms)"
proof -
  obtain f ys where f: "record_incident t u kn g ph err ms = map f ms @ ys" "\<forall>y \<in> set ys. occurrence_count y = 1"
    "\<forall>m. mem_category (f m) = mem_category m \<and> mem_key (f m) = mem_key m \<and> occurrence_count m \<le> occurrence_count (f m)"
    using record_shape by blast
  obtain m where "m \<in> set ms" "same_fact Incident (incident_key (op_kind r) (op_goal r)) m"
    using assms by (auto simp: known_incident_def)
  then have "f m \<in> set (map f ms @ ys)" "same_fact Incident (incident_key (op_kind r) (op_goal r)) (f m)"
    using f(3) by (simp_all add: same_fact_def)
  moreover have "1 \<le> occurrence_count x" if "x \<in> set (map f ms @ ys)" "mem_category x = Incident" for x
  proof (cases "x \<in> set ys")
    case False
    with that(1) obtain y where y: "y \<in> set ms" "x = f y" by auto
    with that(2) f(3) have "mem_category y = Incident" by simp
    with y(1) assms have "1 \<le> occurrence_count y" by (simp add: known_incident_def)
    also have "\<dots> \<le> occurrence_count x" using y(2) f(3) by simp
    finally show ?thesis .
  qed (use f(2) in simp)
  ultimately show ?thesis unfolding f(1) known_incident_def by blast
qed

lemma recorded_again:
  assumes "known_incident r ms"
  shows "\<exists>m. get_by_key Incident (incident_key (op_kind r) (op_goal r))
      (record_incident t u (op_kind r) (op_goal r) ph err ms) = Some m \<and> 2 \<le> occurrence_count m"
proof -
  let ?k = "incident_key (op_kind r) (op_goal r)"
  let ?ms = "record_incident t u (op_kind r) (op_goal r) ph err ms"
  have ex: "list_ex (same_fact Incident ?k) ms" using assms by (auto simp: known_incident_def list_ex_iff)
  have big: "2 \<le> occurrence_count m" if "m \<in> set ?ms" "same_fact Incident ?k m" for m
    using that assms ex
    by (auto simp: known_incident_def record_incident_def remember_def Let_def same_fact_def reinforce_def split: if_splits)
  have "\<exists>m \<in> set ?ms. same_fact Incident ?k m"
    using record_known [OF assms, of t u "op_kind r" "op_goal r" ph err] by (simp add: known_incident_def)
  then obtain m where "get_by_key Incident ?k ?ms = Some m"
    unfolding get_by_key_def by (metis List_find_None_iff not_Some_eq)
  moreover from this have "m \<in> set ?ms \<and> same_fact Incident ?k m" unfolding get_by_key_def by (rule List_find_Some_iff)
  ultimately show ?thesis using big by blast
qed

lemma incident_memtab: "\<exists>t u. memtab (incident c kn g ph err w) = record_incident t u kn g ph err (memtab w)"
  by (auto simp: incident_def draw_def Let_def)

lemma incident_bus: "note_bus (incident c kn g ph err w) = note_bus w"
  by (simp add: incident_def draw_def Let_def)

lemma silent_report:
  assumes "known_incident r (memtab w)"
  shows "note_bus (report_drift c day home r w) = note_bus w"
    and "known_incident r' (memtab w) \<Longrightarrow> known_incident r' (memtab (report_drift c day home r w))"
proof -
  let ?w = "incident c (op_kind r) (op_goal r) IncDrift (Some (drift_error day r)) w"
  obtain t u where m: "memtab ?w = record_incident t u (op_kind r) (op_goal r) IncDrift (Some (drift_error day r)) (memtab w)"
    using incident_memtab by blast
  obtain x where "get_by_key Incident (incident_key (op_kind r) (op_goal r)) (memtab ?w) = Some x" "2 \<le> occurrence_count x"
    using recorded_again [OF assms] m by metis
  then have "incident_count r ?w \<noteq> 1" by (simp add: incident_count_def)
  then have eq: "report_drift c day home r w = ?w" by (simp add: report_drift_def Let_def)
  show "note_bus (report_drift c day home r w) = note_bus w" by (simp only: eq incident_bus)
  show "known_incident r' (memtab (report_drift c day home r w))" if "known_incident r' (memtab w)"
    unfolding eq m by (rule record_known [OF that])
qed

lemma sweep_silent:
  "\<forall>r \<in> set rs. known_incident r (memtab w) \<Longrightarrow> note_bus (snd (sweep c day home kinds rs rep w)) = note_bus w"
proof (induction rs arbitrary: rep w)
  case (Cons r rs)
  obtain ok w1 where v: "still_verifies kinds r w = (ok, w1)" by fastforce
  note f = still_verifies_parts(2,3) [OF v]
  have k: "known_incident r (memtab w1)" "\<forall>x \<in> set rs. known_incident x (memtab w1)" using Cons(2) f by simp_all
  show ?case
  proof (cases ok)
    case True
    with v Cons(1) [OF k(2)] f show ?thesis by (simp add: Let_def)
  next
    case False
    have "\<forall>x \<in> set rs. known_incident x (memtab (report_drift c day home r w1))" using silent_report(2) [OF k(1)] k(2) by blast
    from Cons(1) [OF this] silent_report(1) [OF k(1)] False v f show ?thesis by (simp add: Let_def)
  qed
qed simp

text \<open>A commit writes the incident row itself, under the same key.\<close>

lemma recorded: "\<exists>m \<in> set (record_incident t u kn g ph err ms). same_fact Incident (incident_key kn g) m"
proof (cases "list_ex (same_fact Incident (incident_key kn g)) ms")
  case True
  then obtain m where m: "m \<in> set ms" "same_fact Incident (incident_key kn g) m" by (auto simp: list_ex_iff)
  obtain f ys where f: "record_incident t u kn g ph err ms = map f ms @ ys"
    "\<forall>m. mem_category (f m) = mem_category m \<and> mem_key (f m) = mem_key m \<and> occurrence_count m \<le> occurrence_count (f m)"
    using record_shape by blast
  show ?thesis unfolding f(1) using m f(2) by (intro bexI [of _ "f m"]) (simp_all add: same_fact_def)
qed (simp add: record_incident_def remember_def Let_def same_fact_def new_fact_def)

lemma commit_memtab: "\<exists>t u. memtab (snd (commit_op c k goal i p plan w)) = record_incident t u (kind_name k) goal IncCommitted None (memtab w)"
  by (auto simp: commit_op_def onTerminal_def finish_def emit_def to_phase_def incident_def draw_def Let_def)

lemma commit_records_incident:
  "\<exists>m \<in> set (memtab (snd (commit_op c k goal i p plan w))). same_fact Incident (incident_key (kind_name k) goal) m"
  using commit_memtab [of c k goal i p plan w] recorded by metis

text \<open>
  The owner is never told of drift: the notice is meant for the first sighting, taken to be an
  incident counted once, but the commit of the operation has already written the incident of its
  kind and goal.  Whenever the rows of the committed operations have their incidents, a sweep leaves
  the notifications as they are, whatever drifted.
\<close>

theorem drift_is_never_notified:
  assumes "\<forall>r \<in> set (list_committed limit (optab w)). known_incident r (memtab w)"
  shows "note_bus (snd (reverifyCommitted c day home kinds limit w)) = note_bus w"
proof -
  have "set (map snd (latestPerTarget kinds (list_committed limit (optab w)) [])) \<subseteq> set (list_committed limit (optab w))"
    unfolding latest_newest by (auto simp: newest_of_target_def)
  with assms show ?thesis unfolding reverifyCommitted_def by (intro sweep_silent) blast
qed

definition told_world :: "int world" where
  "told_world = drift_world\<lparr>memtab := record_incident 5 ''m'' ''set'' ''g'' IncCommitted None []\<rparr>"

theorem drift_is_never_notified_witness:
  "note_bus (snd (reverifyCommitted drift_ctx show_int ''/root'' drift_kinds 200 told_world)) = note_bus told_world \<and>
   drifted (fst (reverifyCommitted drift_ctx show_int ''/root'' drift_kinds 200 told_world)) = [(''1'', ''set'', ''g'')] \<and>
   length (note_table (note_bus (snd (reverifyCommitted drift_ctx show_int ''/root'' drift_kinds 200 drift_world)))) = 1"
proof (intro conjI)
  have "known_incident r (memtab told_world)" if "r \<in> set (list_committed 200 (optab told_world))" for r
    using that by (auto simp: told_world_def drift_world_def list_committed_def known_incident_def record_incident_def remember_def
        new_fact_def same_fact_def Let_def split: if_splits)
  then show "note_bus (snd (reverifyCommitted drift_ctx show_int ''/root'' drift_kinds 200 told_world)) = note_bus told_world"
    by (intro drift_is_never_notified) blast
qed code_simp+

end
