(* ===== verification/Inventory.thy ===== *)
theory Inventory
  imports Json SelfUpdate
begin

text \<open>
  What the daemon reads of a server (\<open>apps/mirod/src/inventory/\<close>: \<open>systemd.ts\<close>, \<open>containers.ts\<close>,
  \<open>storage.ts\<close>, \<open>exec.ts\<close>) and the severity number computed from it
  (\<open>apps/mirod/src/operations/severity.ts\<close>).  Commands are functions on the state of the server,
  parameters of the model; a command that fails is \<open>Inl\<close>.  A number is the pair of an integer and
  a power of ten that \<open>js_number\<close> reads, \<open>None\<close> for \<open>NaN\<close>.
\<close>

record 's shell =
  has_command :: "string \<Rightarrow> 's \<Rightarrow> bool \<times> 's"
  run_args :: "string list \<Rightarrow> 's \<Rightarrow> (js_error + string) \<times> 's"
  as_root :: bool

text \<open>\<open>runPrivileged\<close>: as is for the root daemon, through \<open>sudo -n\<close> otherwise.\<close>

definition runPrivileged :: "'s shell \<Rightarrow> string list \<Rightarrow> 's \<Rightarrow> (js_error + string) \<times> 's" where
  "runPrivileged h args s = run_args h (if as_root h then args else [''sudo'', ''-n''] @ args) s"

subsection \<open>Lines and words\<close>

definition lines_of :: "string \<Rightarrow> string list" where
  "lines_of t = filter (\<lambda>l. trim l \<noteq> []) (split_on NL t)"

text \<open>\<open>split(/\s+/)\<close> of a text without white space at its ends.\<close>

fun word_split :: "string \<Rightarrow> string list" where
  "word_split [] = [[]]"
| "word_split (c # cs) =
     (if is_space c
      then (case cs of d # ds \<Rightarrow> if is_space d then word_split cs else [] # word_split cs | [] \<Rightarrow> [[], []])
      else (case word_split cs of [] \<Rightarrow> [[c]] | w # ws \<Rightarrow> (c # w) # ws))"

definition columns :: "string \<Rightarrow> string list" where
  "columns l = word_split (trim l)"

subsection \<open>systemd\<close>

record service_info =
  unit_name :: string
  load_state :: "string option"
  active_state :: "string option"
  sub_state :: "string option"
  description :: string

definition service_of :: "string \<Rightarrow> service_info" where
  "service_of l = (let p = columns l in \<lparr>unit_name = nth_or [] p 0, load_state = nth_opt p 1, active_state = nth_opt p 2,
     sub_state = nth_opt p 3, description = join '' '' (drop 4 p)\<rparr>)"

definition parseSystemctlList :: "string \<Rightarrow> service_info list" where
  "parseSystemctlList out = map service_of (lines_of out)"

definition listServices :: "'s shell \<Rightarrow> 's \<Rightarrow> (bool \<times> service_info list) \<times> 's" where
  "listServices h s =
     (case has_command h ''systemctl'' s of
        (False, s1) \<Rightarrow> ((False, []), s1)
      | (True, s1) \<Rightarrow>
          (case run_args h [''systemctl'', ''list-units'', ''--type=service'', ''--all'', ''--no-legend'', ''--plain''] s1 of
             (Inl _, s2) \<Rightarrow> ((False, []), s2)
           | (Inr out, s2) \<Rightarrow> ((True, parseSystemctlList out), s2)))"

definition getServiceState :: "'s shell \<Rightarrow> string \<Rightarrow> 's \<Rightarrow> (js_error + bool \<times> string) \<times> 's" where
  "getServiceState h u s =
     (case has_command h ''systemctl'' s of
        (False, s1) \<Rightarrow> (Inr (False, ''unknown''), s1)
      | (True, s1) \<Rightarrow>
          (case run_args h [''systemctl'', ''show'', u, ''--property=ActiveState'', ''--value''] s1 of
             (Inl e, s2) \<Rightarrow> (Inl e, s2)
           | (Inr out, s2) \<Rightarrow> (Inr (trim out = ''active'', trim out), s2)))"

definition getUnitEnabled :: "'s shell \<Rightarrow> string \<Rightarrow> 's \<Rightarrow> bool \<times> 's" where
  "getUnitEnabled h u s =
     (case has_command h ''systemctl'' s of
        (False, s1) \<Rightarrow> (False, s1)
      | (True, s1) \<Rightarrow>
          (case run_args h [''systemctl'', ''is-enabled'', u] s1 of
             (Inl _, s2) \<Rightarrow> (False, s2)
           | (Inr out, s2) \<Rightarrow> (trim out = ''enabled'' \<or> trim out = ''enabled-runtime'', s2)))"

subsection \<open>Containers\<close>

record container =
  c_id :: string
  c_name :: string
  c_image :: string
  c_state :: string
  c_status :: string
  c_labels :: "(string \<times> string) list"
  c_ports :: string

definition label_pair :: "string \<Rightarrow> (string \<times> string) option" where
  "label_pair pair = (case index_of ''='' pair of None \<Rightarrow> None | Some i \<Rightarrow> Some (take i pair, drop (i + 1) pair))"

definition parseLabels :: "string \<Rightarrow> (string \<times> string) list" where
  "parseLabels raw = (if raw = [] then [] else
     foldl (\<lambda>m pair. case label_pair pair of None \<Rightarrow> m | Some (k, v) \<Rightarrow> AList.update k v m) [] (split_on CHR '','' raw))"

definition ps_text :: "string \<Rightarrow> json \<Rightarrow> string" where
  "ps_text k row = (case field k row of JStr t \<Rightarrow> t | _ \<Rightarrow> [])"

definition container_of :: "json \<Rightarrow> container" where
  "container_of row = \<lparr>c_id = ps_text ''ID'' row, c_name = ps_text ''Names'' row, c_image = ps_text ''Image'' row,
     c_state = ps_text ''State'' row, c_status = ps_text ''Status'' row, c_labels = parseLabels (ps_text ''Labels'' row),
     c_ports = ps_text ''Ports'' row\<rparr>"

text \<open>\<open>None\<close> is the exception of a line that is no JSON, or of reading a field of \<open>null\<close>.\<close>

fun docker_rows :: "string list \<Rightarrow> container list option" where
  "docker_rows [] = Some []"
| "docker_rows (l # ls) =
     (case json_parse l of
        None \<Rightarrow> None
      | Some v \<Rightarrow> if v = JNull then None else map_option (\<lambda>cs. container_of v # cs) (docker_rows ls))"

definition parseDockerPs :: "string \<Rightarrow> container list option" where
  "parseDockerPs out = docker_rows (lines_of (trim out))"

definition listContainers :: "'s shell \<Rightarrow> 's \<Rightarrow> (bool \<times> container list) \<times> 's" where
  "listContainers h s =
     (case has_command h ''docker'' s of
        (False, s1) \<Rightarrow> ((False, []), s1)
      | (True, s1) \<Rightarrow>
          (case run_args h [''docker'', ''ps'', ''-a'', ''--format'', ''{{json .}}''] s1 of
             (Inl _, s2) \<Rightarrow> ((False, []), s2)
           | (Inr out, s2) \<Rightarrow> (case parseDockerPs out of None \<Rightarrow> ((False, []), s2) | Some cs \<Rightarrow> ((True, cs), s2))))"

text \<open>\<open>restartPolicy\<close> of \<open>docker inspect\<close>: the name of the policy, \<open>no\<close> when it is empty or absent.\<close>

definition restart_policy :: "json \<Rightarrow> js_error + string" where
  "restart_policy doc =
     (case doc of
        JArr (raw # _) \<Rightarrow>
          (if raw \<in> {JNull, JBool False, JNum 0, JStr []} then Inl (an_error ''no such container'')
           else let t = ps_text ''Name'' (field ''RestartPolicy'' (field ''HostConfig'' raw)) in Inr (if t = [] then ''no'' else t))
      | _ \<Rightarrow> Inl (an_error ''no such container''))"

definition inspectPolicy :: "'s shell \<Rightarrow> string \<Rightarrow> 's \<Rightarrow> (js_error + string) \<times> 's" where
  "inspectPolicy h i s =
     (case run_args h [''docker'', ''inspect'', i] s of
        (Inl e, s1) \<Rightarrow> (Inl e, s1)
      | (Inr out, s1) \<Rightarrow> (case json_parse out of
            None \<Rightarrow> (Inl (JsError ''SyntaxError'' ''JSON Parse error''), s1)
          | Some v \<Rightarrow> (restart_policy v, s1)))"

subsection \<open>Storage\<close>

record mount_info =
  filesystem :: string
  mount_point :: string
  used_percent :: "(int \<times> int) option"

definition IGNORED_FILESYSTEMS :: "string list" where
  "IGNORED_FILESYSTEMS = [''tmpfs'', ''devtmpfs'', ''overlay'', ''squashfs'', ''proc'', ''sysfs'', ''cgroup'', ''cgroup2'',
     ''devpts'', ''none'']"

text \<open>\<open>replace("%", "")\<close>: the first one only.\<close>

fun drop_percent :: "string \<Rightarrow> string" where
  "drop_percent [] = []"
| "drop_percent (c # cs) = (if c = CHR ''%'' then cs else c # drop_percent cs)"

definition mount_of :: "string list \<Rightarrow> mount_info" where
  "mount_of p = \<lparr>filesystem = nth_or [] p 0, mount_point = join '' '' (drop 5 p), used_percent = js_number (drop_percent (nth_or [] p 4))\<rparr>"

definition parseDf :: "string \<Rightarrow> mount_info list" where
  "parseDf out =
     filter (\<lambda>m. filesystem m \<notin> set IGNORED_FILESYSTEMS)
       (map mount_of (filter (\<lambda>p. 6 \<le> length p)
         (map columns (filter (\<lambda>l. trim l \<noteq> []) (drop 1 (split_on NL (trim out)))))))"

definition getMounts :: "'s shell \<Rightarrow> 's \<Rightarrow> mount_info list \<times> 's" where
  "getMounts h s = (case run_args h [''df'', ''-kP''] s of (Inl _, s1) \<Rightarrow> ([], s1) | (Inr out, s1) \<Rightarrow> (parseDf out, s1))"

subsection \<open>Severity\<close>

definition DISK_CRITICAL_PERCENT :: int where "DISK_CRITICAL_PERCENT = 90"

definition disk_critical :: "mount_info \<Rightarrow> bool" where
  "disk_critical m = (case used_percent m of None \<Rightarrow> False | Some d \<Rightarrow> 0 \<le> decimal_order d (DISK_CRITICAL_PERCENT, 0))"

definition severityFrom :: "service_info list \<Rightarrow> container list \<Rightarrow> mount_info list \<Rightarrow> nat" where
  "severityFrom services containers mounts =
     length (filter (\<lambda>x. active_state x = Some ''failed'') services)
     + length (filter (\<lambda>x. c_state x = ''restarting'') containers)
     + length (filter disk_critical mounts)"

definition computeSeverity :: "'s shell \<Rightarrow> 's \<Rightarrow> nat \<times> 's" where
  "computeSeverity h s =
     (let ((_, services), s1) = listServices h s; ((_, containers), s2) = listContainers h s1; (mounts, s3) = getMounts h s2
      in (severityFrom services containers mounts, s3))"

end
