(* ===== verification/Reboot.thy ===== *)
theory Reboot
  imports Inventory Engine FileKinds
begin

text \<open>
  The operation kinds \<open>system.reboot\<close> and \<open>system.shutdown\<close>
  (\<open>apps/mirod/src/operations/kinds/reboot.ts\<close>, \<open>shutdown.ts\<close>): the box goes down in \<open>apply\<close>, and what
  came back is judged at the next boot by \<open>reconcile\<close>.  The clock, the uptime, the boot id, the YAML
  parser and waiting are functions on the state of the server.  The poll of the settle loop is given
  a number of turns; \<open>RebootProps\<close> shows how many are enough.
\<close>

record container_note =
  cn_name :: string
  cn_from :: string
  cn_update :: bool
  cn_compose :: "string option"

record box_snapshot =
  bs_containers :: "string list"
  bs_services :: nat
  bs_docker :: bool
  bs_severity :: nat

record captured_box =
  cb_snapshot :: box_snapshot
  cb_boot :: string
  cb_issued :: int
  cb_notes :: "container_note list"

record 's server =
  sh :: "'s shell"
  boot_file :: "'s \<Rightarrow> js_error + string"
  read_text_file :: "string \<Rightarrow> 's \<Rightarrow> js_error + string"
  yaml :: "string \<Rightarrow> js_error + json"
  date_now :: "'s \<Rightarrow> int"
  uptime_ms :: "'s \<Rightarrow> int"
  sleep_for :: "int \<Rightarrow> 's \<Rightarrow> 's"

text \<open>\<open>planned_box\<close> is what \<open>plans\<close> holds for the parameters of the operation.\<close>

record 's power_state =
  host_of :: 's
  planned_box :: "captured_box option"

subsection \<open>What is running\<close>

definition readBootId :: "'s server \<Rightarrow> 's \<Rightarrow> string" where
  "readBootId v s = (case boot_file v s of Inl _ \<Rightarrow> [] | Inr t \<Rightarrow> trim t)"

definition box_snapshot_of :: "'s server \<Rightarrow> 's \<Rightarrow> (box_snapshot \<times> container list) \<times> 's" where
  "box_snapshot_of v s =
     (let ((_, services), s1) = listServices (sh v) s; ((up, cs), s2) = listContainers (sh v) s1; (mounts, s3) = getMounts (sh v) s2;
          running = filter (\<lambda>c. c_state c = ''running'') cs
      in ((\<lparr>bs_containers = map c_name running, bs_services = length (filter (\<lambda>x. active_state x = Some ''active'') services),
            bs_docker = up, bs_severity = severityFrom services cs mounts\<rparr>, running), s3))"

text \<open>The explicit \<open>restart:\<close> of a service in a compose file.\<close>

definition composeRestartKey :: "'s server \<Rightarrow> string \<Rightarrow> string \<Rightarrow> string option" where
  "composeRestartKey v text service =
     (case yaml v text of
        Inl _ \<Rightarrow> None
      | Inr doc \<Rightarrow> (let r = field ''restart'' (field service (field ''services'' doc))
                   in if r = JUndef \<or> r = JNull then None else Some (js_string r)))"

definition compose_path :: "string \<Rightarrow> string \<Rightarrow> string" where
  "compose_path dir f = (if is_absolute f then f else path_join [dir, f])"

definition label :: "string \<Rightarrow> container \<Rightarrow> string option" where
  "label k c = map_of (c_labels c) k"

definition compose_files :: "container \<Rightarrow> string list" where
  "compose_files c =
     map (compose_path (text_or_empty (label ''com.docker.compose.project.working_dir'' c)))
       (filter (\<lambda>f. f \<noteq> []) (split_on CHR '','' (text_or_empty (label ''com.docker.compose.project.config_files'' c))))"

definition sets_restart :: "'s server \<Rightarrow> 's \<Rightarrow> string \<Rightarrow> string \<Rightarrow> bool" where
  "sets_restart v s service f =
     (case read_text_file v f s of Inl _ \<Rightarrow> False | Inr t \<Rightarrow> composeRestartKey v t service \<noteq> None)"

definition container_note :: "'s server \<Rightarrow> 's \<Rightarrow> string \<Rightarrow> container \<Rightarrow> container_note" where
  "container_note v s from c =
     (if from \<noteq> ''no'' then \<lparr>cn_name = c_name c, cn_from = from, cn_update = False, cn_compose = None\<rparr>
      else if \<not> truthy (label ''com.docker.compose.project'' c)
      then \<lparr>cn_name = c_name c, cn_from = from, cn_update = True, cn_compose = None\<rparr>
      else let files = compose_files c;
               service = (case label ''com.docker.compose.service'' c of None \<Rightarrow> c_name c | Some t \<Rightarrow> t)
           in case List.find (sets_restart v s service) files of
                Some f \<Rightarrow> (if f \<noteq> [] then \<lparr>cn_name = c_name c, cn_from = from, cn_update = False, cn_compose = Some f\<rparr>
                           else \<lparr>cn_name = c_name c, cn_from = from, cn_update = True, cn_compose = nth_opt files 0\<rparr>)
              | None \<Rightarrow> \<lparr>cn_name = c_name c, cn_from = from, cn_update = True, cn_compose = nth_opt files 0\<rparr>)"

fun containerNotes :: "'s server \<Rightarrow> container list \<Rightarrow> 's \<Rightarrow> container_note list \<times> 's" where
  "containerNotes v [] s = ([], s)"
| "containerNotes v (c # cs) s =
     (let (r, s1) = inspectPolicy (sh v) (c_id c) s;
          n = container_note v s1 (case r of Inl _ \<Rightarrow> ''no'' | Inr p \<Rightarrow> p) c;
          (ns, s2) = containerNotes v cs s1
      in (n # ns, s2))"

definition update_args :: "string \<Rightarrow> string \<Rightarrow> string list" where
  "update_args policy n = [''docker'', ''update'', ''--restart'', policy, n]"

text \<open>\<open>.catch(() => {})\<close>: a policy that cannot be set is passed over.\<close>

fun restorePolicies :: "'s server \<Rightarrow> container_note list \<Rightarrow> 's \<Rightarrow> 's" where
  "restorePolicies v [] s = s"
| "restorePolicies v (n # ns) s =
     restorePolicies v ns (if cn_update n then snd (runPrivileged (sh v) (update_args (cn_from n) (cn_name n)) s) else s)"

subsection \<open>The verdict\<close>

definition missingFrom :: "string list \<Rightarrow> string list \<Rightarrow> string list" where
  "missingFrom xs ys = filter (\<lambda>x. x \<notin> set ys) xs"

definition note_for :: "captured_box \<Rightarrow> string \<Rightarrow> container_note option" where
  "note_for b c = List.find (\<lambda>n. cn_name n = c) (cb_notes b)"

definition missing_container :: "captured_box \<Rightarrow> string \<Rightarrow> string" where
  "missing_container b c =
     (case note_for b c of
        Some n \<Rightarrow>
          (if truthy (cn_compose n) \<and> cn_update n
           then c @ '' (restart policy set at runtime; add '' @ [BQ] @ ''restart: unless-stopped'' @ [BQ] @ '' to '' @ text_or_empty (cn_compose n) @ '')''
           else if truthy (cn_compose n)
           then c @ '' (its compose file '' @ text_or_empty (cn_compose n) @ '' sets restart: '' @ cn_from n @ '' - left alone)''
           else c @ '' (restart policy '' @ cn_from n @ ''; check '' @ [BQ] @ ''docker logs '' @ c @ [BQ] @ '')'')
      | None \<Rightarrow> c @ '' (restart policy unknown; check '' @ [BQ] @ ''docker logs '' @ c @ [BQ] @ '')'')"

definition compose_reminders :: "captured_box \<Rightarrow> string list" where
  "compose_reminders b =
     map (\<lambda>n. cn_name n @ [SQ] @ ''s restart policy was set at runtime - add '' @ [BQ] @ ''restart: unless-stopped'' @ [BQ] @ '' to ''
            @ text_or_empty (cn_compose n) @ '' so compose keeps it'')
       (filter (\<lambda>n. cn_update n \<and> truthy (cn_compose n)) (cb_notes b))"

definition not_back :: "captured_box \<Rightarrow> box_snapshot \<Rightarrow> string list" where
  "not_back b post = (if bs_docker post then missingFrom (bs_containers (cb_snapshot b)) (bs_containers post)
                      else bs_containers (cb_snapshot b))"

definition severity_text :: "captured_box \<Rightarrow> box_snapshot \<Rightarrow> string" where
  "severity_text b post = show_nat (bs_severity (cb_snapshot b)) @ ''->'' @ show_nat (bs_severity post)"

definition missing_list :: "captured_box \<Rightarrow> box_snapshot \<Rightarrow> string list" where
  "missing_list b post =
     (let before' = bs_containers (cb_snapshot b);
          missing = (if \<not> bs_docker post \<and> before' \<noteq> []
            then [''docker is not reachable - '' @ show_nat (length before') @ '' containers unverified: '' @ join '', '' before']
            else map (missing_container b) (not_back b post))
      in if missing = [] then [''severity got worse ('' @ severity_text b post @ '') - run a health check''] else missing)"

definition rebootOutcome :: "string \<Rightarrow> captured_box \<Rightarrow> box_snapshot \<Rightarrow> string \<Rightarrow> outcome \<times> string" where
  "rebootOutcome goal b post verb =
     (let sev = ''severity '' @ severity_text b post; reminders = compose_reminders b
      in if not_back b post = [] \<and> bs_severity post \<le> bs_severity (cb_snapshot b)
         then (OCommitted, verb @ '' - '' @ goal @ '', verified: '' @ show_nat (length (bs_containers (cb_snapshot b)))
                 @ '' containers back and no failed units, '' @ sev @ ''.''
                 @ (if reminders \<noteq> [] then '' '' @ join ''; '' reminders @ ''.'' else []))
         else (OAppliedUnverified, verb @ '' - '' @ goal @ '', but not everything came back ('' @ sev @ ''). Missing: ''
                 @ join ''; '' (missing_list b post) @ ''.''))"

subsection \<open>The kinds\<close>

text \<open>What the two kinds differ in.\<close>

record power_kind =
  pk_name :: string
  pk_verb :: string
  pk_args :: "string list"
  pk_refused :: string
  pk_stayed :: string
  pk_summary :: "string \<Rightarrow> string"
  pk_tail :: string
  pk_warning :: string
  pk_expects :: string
  pk_undo :: string
  pk_evidence :: string

definition reboot_power :: power_kind where
  "reboot_power = \<lparr>pk_name = ''system.reboot'', pk_verb = ''Rebooted'', pk_args = [''systemctl'', ''reboot''],
     pk_refused = ''the server did not reboot'',
     pk_stayed = '': the server did not reboot (Miro restarted, the box did not); container restart policies restored.'',
     pk_summary = (\<lambda>r. ''Reboot the server now - '' @ r), pk_tail = [],
     pk_warning = ''every connection drops; Miro reports what came back to the first client after boot'',
     pk_expects = ''after the reboot the same containers are running and no unit has failed - checked by Miro at its next boot, reported on the first connection'',
     pk_undo = ''never - a reboot cannot be undone; if the server does not actually reboot, the container restart policies are restored'',
     pk_evidence = ''docker'' @ [SQ] @ ''s socket for the restart-policy updates; systemd for the reboot itself''\<rparr>"

definition shutdown_power :: power_kind where
  "shutdown_power = \<lparr>pk_name = ''system.shutdown'', pk_verb = ''Powered off and came back'', pk_args = [''systemctl'', ''poweroff''],
     pk_refused = ''the server did not power off'',
     pk_stayed = '': the server did not power off (Miro restarted, the box did not); container restart policies restored.'',
     pk_summary = (\<lambda>r. ''Power off the server now - '' @ r), pk_tail = ''. It stays off until power is restored.'',
     pk_warning = ''the server powers OFF and stays off until mains or manual power returns; every connection drops'',
     pk_expects = ''after power returns and the box boots, the same containers are running and no unit has failed - checked by Miro at its next boot, reported on the first connection'',
     pk_undo = ''never - a power-off cannot be undone; if the box does not actually power off, the container restart policies are restored'',
     pk_evidence = ''docker'' @ [SQ] @ ''s socket for the restart-policy updates; systemd for the poweroff itself''\<rparr>"

definition reason_of :: "json \<Rightarrow> string" where "reason_of p = str_of ''reason'' p"

definition power_plan :: "power_kind \<Rightarrow> json \<Rightarrow> box_snapshot \<Rightarrow> container_note list \<Rightarrow> op_plan" where
  "power_plan pk p s notes =
     (let changed = map cn_name (filter cn_update notes);
          n = show_nat (length changed)
      in \<lparr>summary = pk_summary pk (reason_of p) @ '' ('' @ show_nat (bs_services s) @ '' services, '' @ show_nat (length (bs_containers s))
            @ '' containers running'' @ (if changed \<noteq> [] then ''; '' @ n @ '' containers get restart=unless-stopped first'' else [])
            @ '')'' @ pk_tail pk,
          plan_auto = False,
          plan_details = [(''services'', JNum (int (bs_services s))), (''containers'', JNum (int (length (bs_containers s)))),
            (''policyChanges'', JArr (map JStr changed)),
            (''composeFilesToEdit'', JArr (map (\<lambda>n. JStr (text_or_empty (cn_compose n))) (filter (\<lambda>n. cn_update n \<and> truthy (cn_compose n)) notes)))],
          plan_class = Some Lifeline, plan_writes = Some [''/run/systemd'', ''/var/run/docker.sock''], plan_network = Some False,
          irreversible = True,
          plan_warning = Some (join ''. '' (filter (\<lambda>t. t \<noteq> []) [pk_warning pk,
            if changed \<noteq> [] then ''containers set to restart=unless-stopped first: '' @ join '', '' changed else [],
            if bs_docker s then [] else ''docker is not reachable - containers cannot be checked''])),
          expects = Some (pk_expects pk), rollback_when = Some (pk_undo pk), scope_evidence = Some (pk_evidence pk), dry_run = Some Partial\<rparr>)"

definition power_describe :: "power_kind \<Rightarrow> 's server \<Rightarrow> json \<Rightarrow> 's power_state \<Rightarrow> (js_error + op_plan) \<times> 's power_state" where
  "power_describe pk v p st =
     (let ((snap, running), s1) = box_snapshot_of v (host_of st); (notes, s2) = containerNotes v running s1
      in (Inr (power_plan pk p snap notes), st\<lparr>host_of := s2\<rparr>))"

definition take_down :: "'s server \<Rightarrow> 's \<Rightarrow> captured_box \<times> 's" where
  "take_down v s =
     (let ((snap, running), s1) = box_snapshot_of v s; boot = readBootId v s1; t = date_now v s1; (notes, s2) = containerNotes v running s1
      in (\<lparr>cb_snapshot = snap, cb_boot = boot, cb_issued = t, cb_notes = notes\<rparr>, s2))"

definition note_json :: "container_note \<Rightarrow> json" where
  "note_json n = JObj ([(''name'', JStr (cn_name n)), (''from'', JStr (cn_from n)), (''update'', JBool (cn_update n))]
     @ (case cn_compose n of None \<Rightarrow> [] | Some f \<Rightarrow> [(''composeFile'', JStr f)]))"

definition captured_json :: "captured_box \<Rightarrow> json" where
  "captured_json b = JObj [(''containers'', JArr (map JStr (bs_containers (cb_snapshot b)))),
     (''activeServices'', JNum (int (bs_services (cb_snapshot b)))), (''dockerAvailable'', JBool (bs_docker (cb_snapshot b))),
     (''severity'', JNum (int (bs_severity (cb_snapshot b)))), (''bootId'', JStr (cb_boot b)), (''issuedAt'', JNum (cb_issued b)),
     (''notes'', JArr (map note_json (cb_notes b)))]"

definition elements :: "json \<Rightarrow> json list" where
  "elements v = (case v of JArr vs \<Rightarrow> vs | _ \<Rightarrow> [])"

definition int_of :: "json \<Rightarrow> int" where
  "int_of v = (case v of JNum i \<Rightarrow> i | _ \<Rightarrow> 0)"

definition note_of :: "json \<Rightarrow> container_note" where
  "note_of v = \<lparr>cn_name = str_of ''name'' v, cn_from = str_of ''from'' v, cn_update = (field ''update'' v = JBool True),
     cn_compose = as_string (field ''composeFile'' v)\<rparr>"

definition captured_of :: "json \<Rightarrow> captured_box" where
  "captured_of v = \<lparr>cb_snapshot = \<lparr>bs_containers = map js_text (elements (field ''containers'' v)),
       bs_services = nat (int_of (field ''activeServices'' v)), bs_docker = (field ''dockerAvailable'' v = JBool True),
       bs_severity = nat (int_of (field ''severity'' v))\<rparr>,
     cb_boot = str_of ''bootId'' v, cb_issued = int_of (field ''issuedAt'' v), cb_notes = map note_of (elements (field ''notes'' v))\<rparr>"

definition power_capture :: "'s server \<Rightarrow> json \<Rightarrow> 's power_state \<Rightarrow> (js_error + json) \<times> 's power_state" where
  "power_capture v p st =
     (let (b, s1) = take_down v (host_of st) in (Inr (captured_json b), st\<lparr>host_of := s1, planned_box := Some b\<rparr>))"

fun set_policies :: "'s server \<Rightarrow> container_note list \<Rightarrow> 's \<Rightarrow> (js_error + unit) \<times> 's" where
  "set_policies v [] s = (Inr (), s)"
| "set_policies v (n # ns) s =
     (if \<not> cn_update n then set_policies v ns s
      else case runPrivileged (sh v) (update_args ''unless-stopped'' (cn_name n)) s of
        (Inl e, s1) \<Rightarrow> (Inl e, s1) | (Inr _, s1) \<Rightarrow> set_policies v ns s1)"

text \<open>Still here two minutes after the command: the box did not go down.\<close>

definition power_apply :: "power_kind \<Rightarrow> 's server \<Rightarrow> json \<Rightarrow> 's power_state \<Rightarrow> (js_error + unit) \<times> 's power_state" where
  "power_apply pk v p st =
     (case set_policies v (case planned_box st of None \<Rightarrow> [] | Some b \<Rightarrow> cb_notes b) (host_of st) of
        (Inl e, s1) \<Rightarrow> (Inl e, st\<lparr>host_of := s1\<rparr>)
      | (Inr _, s1) \<Rightarrow>
          (case runPrivileged (sh v) (pk_args pk) s1 of
             (Inl e, s2) \<Rightarrow> (Inl e, st\<lparr>host_of := s2\<rparr>)
           | (Inr _, s2) \<Rightarrow> (Inl (an_error (pk_refused pk)), st\<lparr>host_of := sleep_for v 120000 s2\<rparr>)))"

definition power_verify :: "json \<Rightarrow> 's power_state \<Rightarrow> (js_error + bool) \<times> 's power_state" where
  "power_verify p st = (Inr True, st)"

definition power_rollback :: "'s server \<Rightarrow> json \<Rightarrow> json \<Rightarrow> 's power_state \<Rightarrow> (js_error + unit) \<times> 's power_state" where
  "power_rollback v p captured st =
     (Inr (), st\<lparr>host_of := restorePolicies v (cb_notes (captured_of captured)) (host_of st)\<rparr>)"

subsection \<open>At the next boot\<close>

definition went_down :: "'s server \<Rightarrow> captured_box \<Rightarrow> 's \<Rightarrow> bool" where
  "went_down v b s =
     (if cb_boot b \<noteq> [] then readBootId v s \<noteq> cb_boot b else uptime_ms v s < date_now v s - cb_issued b)"

fun settle_loop ::
    "nat \<Rightarrow> 's server \<Rightarrow> string \<Rightarrow> captured_box \<Rightarrow> string \<Rightarrow> int \<Rightarrow> box_snapshot \<Rightarrow> 's \<Rightarrow> box_snapshot \<times> 's" where
  "settle_loop 0 v goal b verb deadline post s = (post, s)"
| "settle_loop (Suc n) v goal b verb deadline post s =
     (if date_now v s < deadline \<and> fst (rebootOutcome goal b post verb) \<noteq> OCommitted
      then let ((post', _), s1) = box_snapshot_of v (sleep_for v 5000 s) in settle_loop n v goal b verb deadline post' s1
      else (post, s))"

definition SETTLE_TURNS :: nat where "SETTLE_TURNS = 24"

definition power_reconcile ::
    "power_kind \<Rightarrow> 's server \<Rightarrow> json \<Rightarrow> json \<Rightarrow> 's power_state \<Rightarrow> (js_error + outcome \<times> string) \<times> 's power_state" where
  "power_reconcile pk v p captured st =
     (let b = captured_of captured; goal = reason_of p; s = host_of st
      in if \<not> went_down v b s
         then (Inr (ORolledback, ''Rolled back - '' @ goal @ pk_stayed pk), st\<lparr>host_of := restorePolicies v (cb_notes b) s\<rparr>)
         else let deadline = date_now v s + 120000; ((post, _), s1) = box_snapshot_of v s;
                  (post', s2) = settle_loop SETTLE_TURNS v goal b (pk_verb pk) deadline post s1
              in (Inr (rebootOutcome goal b post' (pk_verb pk)), st\<lparr>host_of := s2\<rparr>))"

definition powerKind :: "power_kind \<Rightarrow> 's server \<Rightarrow> 's power_state kind" where
  "powerKind pk v = \<lparr>kind_name = pk_name pk, describe = power_describe pk v, captureState = power_capture v,
     apply_op = power_apply pk v, verify = power_verify, rollback = power_rollback v, prodtest = Some (\<lambda>p. None),
     kind_reconcile = Some (power_reconcile pk v)\<rparr>"

definition rebootKind :: "'s server \<Rightarrow> 's power_state kind" where "rebootKind v = powerKind reboot_power v"
definition shutdownKind :: "'s server \<Rightarrow> 's power_state kind" where "shutdownKind v = powerKind shutdown_power v"

end
