(* ===== verification/RebootProps.thy ===== *)
theory RebootProps
  imports Reboot EngineFacts
begin

text \<open>
  Properties of taking the box down: what the verdict at the next boot says of the server, that the
  poll waits long enough, and that the run itself never reports a reboot as done.
\<close>

subsection \<open>The captured state survives the boot\<close>



subsection \<open>The settle loop\<close>

text \<open>Time passes while waiting and never goes back.\<close>

definition clock_runs :: "'s server \<Rightarrow> bool" where
  "clock_runs v \<longleftrightarrow> (\<forall>t s. 0 \<le> t \<longrightarrow> date_now v s + t \<le> date_now v (sleep_for v t s)) \<and>
     (\<forall>s. date_now v s \<le> date_now v (snd (box_snapshot_of v s)))"





lemma turn_clock:
  assumes "clock_runs v" and "box_snapshot_of v (sleep_for v 5000 s) = (x, s1)"
  shows "date_now v s + 5000 \<le> date_now v s1"
proof -
  have "date_now v s + 5000 \<le> date_now v (sleep_for v 5000 s)" using assms(1) by (simp add: clock_runs_def)
  also have "\<dots> \<le> date_now v s1" using assms by (metis clock_runs_def snd_conv)
  finally show ?thesis .
qed


lemma more_turns_change_nothing:
  assumes "clock_runs v" and "deadline \<le> date_now v s + 5000 * int n"
  shows "settle_loop (n + k) v goal b verb deadline post s = settle_loop n v goal b verb deadline post s"
  using assms(2)
proof (induction n arbitrary: post s)
  case 0
  then show ?case by (cases k) simp_all
next
  case (Suc n)
  obtain q run s1 where q: "box_snapshot_of v (sleep_for v 5000 s) = ((q, run), s1)" by (metis prod.exhaust)
  have "deadline \<le> date_now v s1 + 5000 * int n" using turn_clock [OF assms(1) q] Suc(2) by simp
  from Suc(1) [OF this] q show ?case by (simp add: Let_def)
qed

subsection \<open>The verdict at the next boot\<close>







subsection \<open>The run itself\<close>

text \<open>The daemon that is still there to report has not gone down: the run never reports a commit.\<close>

lemma power_apply_throws: "\<exists>e. fst (power_apply pk v p st) = Inl e"
  by (auto simp: power_apply_def split: prod.splits sum.splits)

lemma take_down_is_never_committed_in_its_run:
  "fst (runOperation c (powerKind pk v) goal p w) \<noteq> Inr (OCommitted, m)"
proof (rule run_cases [of c "powerKind pk v" goal p w])
  fix plan i u
  assume eq: "runOperation c (powerKind pk v) goal p w = planned_op c (powerKind pk v) goal i p plan u"
  have locked: "fst (locked_op c (powerKind pk v) goal i p plan x) \<noteq> Inr (OCommitted, m)" for x
  proof (rule locked_cases [of "powerKind pk v" p c x goal i plan])
    fix cap s2 s3
    assume "apply_op (powerKind pk v) p s2 = (Inr (), s3)"
    with power_apply_throws [of pk v p s2] show ?thesis by (auto simp: powerKind_def)
  qed (auto simp: world_simps undo_result)
  show ?thesis
    by (rule planned_cases [of c plan u "powerKind pk v" goal i p]) (use eq locked in \<open>auto simp: world_simps\<close>)
qed auto

subsection \<open>Labels\<close>

text \<open>
  Docker joins labels with commas, and compose lists its files with commas in one label: of two
  files only the first is seen, so an explicit \<open>restart:\<close> in the second is not.
\<close>

lemma second_compose_file_is_lost:
  "parseLabels ''com.docker.compose.project=a,com.docker.compose.project.config_files=/srv/a.yml,/srv/b.yml''
     = [(''com.docker.compose.project'', ''a''), (''com.docker.compose.project.config_files'', ''/srv/a.yml'')]"
  by code_simp

end
