(* ===== verification/Egress.thy ===== *)
theory Egress
  imports Redact CmdRules Json
begin

text \<open>
  The egress gate (\<open>apps/mirod/src/agent/egress.ts\<close>, \<open>egress-store.ts\<close>): the trust of a provider, the
  sensitivity of a text, the scrubbing of everything that leaves for a provider, with tokens that the
  reply is mapped back by, the strict mode, and the audit trail.  The URL parser is a parameter, as in
  \<open>CmdRules\<close>.  A JavaScript object used as a table is an association list: the names every object
  inherits (such as \<open>constructor\<close>) are not in it.
\<close>

subsection \<open>Tiers\<close>

datatype tier = Public | Internal | Secret

primrec TIER_RANK :: "tier \<Rightarrow> nat" where
  "TIER_RANK Public = 0"
| "TIER_RANK Internal = 1"
| "TIER_RANK Secret = 2"

primrec tier_text :: "tier \<Rightarrow> string" where
  "tier_text Public = ''public''"
| "tier_text Internal = ''internal''"
| "tier_text Secret = ''secret''"

definition tier_of :: "json \<Rightarrow> tier option" where
  "tier_of v = (if v = JStr ''public'' then Some Public else if v = JStr ''internal'' then Some Internal
                else if v = JStr ''secret'' then Some Secret else None)"

definition DEFAULT_PROVIDER_TRUST :: "(string \<times> tier) list" where
  "DEFAULT_PROVIDER_TRUST = [(''ollama'', Secret), (''anthropic'', Internal), (''openai'', Internal),
     (''openai-codex'', Internal), (''groq'', Internal)]"

definition PROVIDER_TIERS_SETTING :: string where "PROVIDER_TIERS_SETTING = ''egress.provider_tiers''"

definition parseTrustOverride :: "(string \<Rightarrow> string option) \<Rightarrow> (string \<times> tier) list" where
  "parseTrustOverride setting =
     (case setting PROVIDER_TIERS_SETTING of
        None \<Rightarrow> []
      | Some raw \<Rightarrow>
          (case (if raw = [] then None else json_parse raw) of
             Some (JObj kvs) \<Rightarrow> concat (map (\<lambda>(k, v). case tier_of v of None \<Rightarrow> [] | Some t \<Rightarrow> [(k, t)]) kvs)
           | _ \<Rightarrow> []))"

definition providerTrust ::
    "(string \<Rightarrow> (string \<times> string) option) \<Rightarrow> string \<Rightarrow> string option \<Rightarrow> (string \<Rightarrow> string option) \<Rightarrow> string option \<Rightarrow> tier" where
  "providerTrust url provider base setting model =
     (if truthy base \<and> (case base of None \<Rightarrow> False | Some u \<Rightarrow> isLocalOrPrivateUrl url u) then Secret
      else if (case model of None \<Rightarrow> False | Some i \<Rightarrow> ends_with '':free'' i) then Public
      else case map_of (parseTrustOverride setting) provider of
          Some t \<Rightarrow> t
        | None \<Rightarrow> (case map_of DEFAULT_PROVIDER_TRUST provider of Some t \<Rightarrow> t | None \<Rightarrow> Public))"

subsection \<open>What names the private network\<close>

definition octet :: rex where "octet = between 1 3 digit"

definition quad_re :: rex where
  "quad_re = seq [Bol, Grp 1 octet, ch CHR ''.'', Grp 2 octet, ch CHR ''.'', Grp 3 octet, ch CHR ''.'', Grp 4 octet, Eol]"

definition isPrivateIpv4 :: "string \<Rightarrow> bool" where
  "isPrivateIpv4 ip =
     (case rmatch quad_re ip of
        None \<Rightarrow> False
      | Some (_, k) \<Rightarrow>
          (let a = read_nat (grp 1 k); b = read_nat (grp 2 k); c = read_nat (grp 3 k); d = read_nat (grp 4 k)
           in if list_ex (\<lambda>n. n > 255) [a, b, c, d] then False
              else a = 0 \<or> a = 127 \<or> a = 10 \<or> a = 172 \<and> 16 \<le> b \<and> b \<le> 31 \<or> a = 192 \<and> b = 168 \<or> a = 169 \<and> b = 254))"

definition IPV4 :: rex where
  "IPV4 = seq [WordB, octet, times 3 (Cat (ch CHR ''.'') octet), WordB]"

definition hexch :: "char \<Rightarrow> bool" where
  "hexch c \<longleftrightarrow> is_digit c \<or> lower_char c \<in> {CHR ''a'', CHR ''b'', CHR ''c'', CHR ''d'', CHR ''e'', CHR ''f''}"

definition IPV6_PRIVATE :: rex where
  "IPV6_PRIVATE = alt [
     seq [WordB, alt [seq [altsi [''fd'', ''fc''], times 2 (Cls hexch)], liti ''fe80''],
       between 1 7 (Cat (ch CHR '':'') (between 0 4 (Cls hexch))), WordB],
     seq [NotAfter (\<lambda>c. c = CHR '':'' \<or> c = CHR ''.'' \<or> is_word c), lit ''::1'', WordB]]"

definition hostch :: "char \<Rightarrow> bool" where "hostch c \<longleftrightarrow> alnum c \<or> c = CHR ''-''"

definition INTERNAL_HOST :: rex where
  "INTERNAL_HOST = seq [WordB, Cls alnum, opt (Cat (Star (Cls hostch)) (Cls alnum)),
     Star (Cat (ch CHR ''.'') (plus (Cls hostch))), ch CHR ''.'',
     altsi [''local'', ''lan'', ''internal'', ''home.arpa'', ''ts.net''], WordB]"

subsection \<open>Scrubbing a text\<close>

text \<open>\<open>byId\<close> and \<open>restore\<close>, two maps in the order of insertion.\<close>

record token_map =
  by_id :: "(string \<times> string) list"
  restore :: "(string \<times> string) list"

definition makeTokenMap :: token_map where "makeTokenMap = \<lparr>by_id = [], restore = []\<rparr>"

definition token_text :: "string \<Rightarrow> nat \<Rightarrow> string" where
  "token_text kind n = CHR ''['' # kind @ CHR ''-'' # show_nat n @ '']''"

definition token :: "string \<Rightarrow> string \<Rightarrow> token_map \<Rightarrow> string \<times> token_map" where
  "token kind original tm =
     (case map_of (by_id tm) original of
        Some t \<Rightarrow> (t, tm)
      | None \<Rightarrow> (let t = token_text kind (length (by_id tm) + 1)
                 in (t, \<lparr>by_id = AList.update original t (by_id tm), restore = AList.update t original (restore tm)\<rparr>)))"

text \<open>\<open>out.split(token).join(original)\<close>, the tokens in the order of insertion.\<close>

function replace_lit :: "string \<Rightarrow> string \<Rightarrow> string \<Rightarrow> string" where
  "replace_lit t u [] = []"
| "replace_lit t u (c # s) =
     (if t \<noteq> [] \<and> starts_with t (c # s) then u @ replace_lit t u (drop (length t) (c # s)) else c # replace_lit t u s)"
  by pat_completeness auto
termination
  by (relation "measure (\<lambda>(t, u, s). length s)") (auto simp: Suc_le_eq)

definition restoreText :: "string \<Rightarrow> (string \<times> string) list \<Rightarrow> string" where
  "restoreText s m = fold (\<lambda>(t, u) out. replace_lit t u out) m s"

record scrub_state =
  tokens :: "token_map option"
  found_types :: "string list"
  found_count :: nat

definition add_once :: "string \<Rightarrow> string list \<Rightarrow> string list" where
  "add_once x xs = (if x \<in> set xs then xs else xs @ [x])"

definition found :: "string \<Rightarrow> scrub_state \<Rightarrow> scrub_state" where
  "found ty st = st\<lparr>found_types := add_once ty (found_types st), found_count := found_count st + 1\<rparr>"

definition place :: "string \<Rightarrow> string \<Rightarrow> scrub_state \<Rightarrow> string \<times> scrub_state" where
  "place kind m st =
     (case tokens st of
        None \<Rightarrow> (if kind = ''ip'' then ''[redacted-ip]'' else ''[redacted-host]'', st)
      | Some tm \<Rightarrow> (let (t, tm') = token kind m tm in (t, st\<lparr>tokens := Some tm'\<rparr>)))"

definition put_ip4 :: "scrub_state \<Rightarrow> string \<Rightarrow> cursor \<Rightarrow> string \<times> scrub_state" where
  "put_ip4 st m k = (if isPrivateIpv4 m then place ''ip'' m (found ''private-ip'' st) else (m, st))"

definition put_ip6 :: "scrub_state \<Rightarrow> string \<Rightarrow> cursor \<Rightarrow> string \<times> scrub_state" where
  "put_ip6 st m k = place ''ip'' m (found ''private-ip'' st)"

definition put_host :: "scrub_state \<Rightarrow> string \<Rightarrow> cursor \<Rightarrow> string \<times> scrub_state" where
  "put_host st m k = place ''host'' m (found ''internal-host'' st)"

definition redact_infra :: "string \<Rightarrow> scrub_state \<Rightarrow> string \<times> scrub_state" where
  "redact_infra s st =
     (let (s1, st1) = replace_from IPV4 put_ip4 st [] s;
          (s2, st2) = replace_from IPV6_PRIVATE put_ip6 st1 [] s1
      in replace_from INTERNAL_HOST put_host st2 [] s2)"

text \<open>Each match that \<open>matchAll\<close> finds, counted only; a public IPv4 address is passed over.\<close>

definition see_ip4 :: "scrub_state \<Rightarrow> string \<Rightarrow> cursor \<Rightarrow> string \<times> scrub_state" where
  "see_ip4 st m k = (m, if isPrivateIpv4 m then found ''private-ip'' st else st)"

definition see_ip6 :: "scrub_state \<Rightarrow> string \<Rightarrow> cursor \<Rightarrow> string \<times> scrub_state" where
  "see_ip6 st m k = (m, found ''private-ip'' st)"

definition see_host :: "scrub_state \<Rightarrow> string \<Rightarrow> cursor \<Rightarrow> string \<times> scrub_state" where
  "see_host st m k = (m, found ''internal-host'' st)"

definition measure_infra :: "string \<Rightarrow> scrub_state \<Rightarrow> scrub_state" where
  "measure_infra s st =
     snd (replace_from INTERNAL_HOST see_host
       (snd (replace_from IPV6_PRIVATE see_ip6 (snd (replace_from IPV4 see_ip4 st [] s)) [] s)) [] s)"

record scrubbed =
  sc_text :: string
  secretFound :: bool
  infra_count :: nat
  infra_types :: "string list"

definition scrubText :: "string \<Rightarrow> bool \<Rightarrow> token_map option \<Rightarrow> scrubbed \<times> token_map option" where
  "scrubText t infra toks =
     (let s = redact_secrets_in_text t; st0 = \<lparr>tokens = toks, found_types = [], found_count = 0\<rparr>;
          (out, st) = (if infra then redact_infra s st0 else (s, measure_infra s st0))
      in (\<lparr>sc_text = out, secretFound = (s \<noteq> t), infra_count = found_count st, infra_types = found_types st\<rparr>, tokens st))"

definition classifyContentTier :: "string \<Rightarrow> tier" where
  "classifyContentTier t =
     (let (s, _) = scrubText t False None
      in if secretFound s then Secret else if infra_count s > 0 then Internal else Public)"

subsection \<open>The gate\<close>

record egress_audit =
  au_provider :: string
  au_trust :: tier
  contentTier :: tier
  secretRedacted :: bool
  infraRedacted :: nat
  redactedTypes :: "string list"

record llm_model =
  lm_provider :: string
  lm_base :: "string option"
  lm_id :: "string option"

text \<open>\<open>ctx_rest\<close> stands for the other fields of the context, which \<open>...context\<close> copies.\<close>

record llm_context =
  ctx_system :: "string list option"
  ctx_messages :: "json list"
  ctx_rest :: json

record egress_acc =
  acc_tokens :: "token_map option"
  acc_secret :: bool
  acc_count :: nat
  acc_types :: "string list"

definition scrub :: "bool \<Rightarrow> string \<Rightarrow> egress_acc \<Rightarrow> string \<times> egress_acc" where
  "scrub infra t a =
     (let (s, toks) = scrubText t infra (acc_tokens a)
      in (sc_text s, \<lparr>acc_tokens = toks, acc_secret = (acc_secret a \<or> secretFound s),
            acc_count = acc_count a + infra_count s, acc_types = fold add_once (infra_types s) (acc_types a)\<rparr>))"

fun map_state :: "('a \<Rightarrow> 's \<Rightarrow> 'b \<times> 's) \<Rightarrow> 'a list \<Rightarrow> 's \<Rightarrow> 'b list \<times> 's" where
  "map_state f [] s = ([], s)"
| "map_state f (x # xs) s = (let (y, s1) = f x s; (ys, s2) = map_state f xs s1 in (y # ys, s2))"

text \<open>\<open>p && typeof p === "object" && p.type === "text" && typeof p.text === "string"\<close>.\<close>

definition text_part :: "json \<Rightarrow> string option" where
  "text_part p = (case p of JObj kvs \<Rightarrow> if field ''type'' p = JStr ''text'' then as_string (field ''text'' p) else None | _ \<Rightarrow> None)"

definition set_field :: "string \<Rightarrow> json \<Rightarrow> json \<Rightarrow> json" where
  "set_field k v p = JObj (AList.update k v (case p of JObj kvs \<Rightarrow> kvs | _ \<Rightarrow> []))"

definition scrub_part :: "(string \<Rightarrow> 's \<Rightarrow> string \<times> 's) \<Rightarrow> json \<Rightarrow> 's \<Rightarrow> json \<times> 's" where
  "scrub_part f p a =
     (case text_part p of None \<Rightarrow> (p, a) | Some t \<Rightarrow> (let (t', a') = f t a in (set_field ''text'' (JStr t') p, a')))"

definition scrubContent :: "(string \<Rightarrow> 's \<Rightarrow> string \<times> 's) \<Rightarrow> json \<Rightarrow> 's \<Rightarrow> json \<times> 's" where
  "scrubContent f v a =
     (case v of
        JStr t \<Rightarrow> (let (t', a') = f t a in (JStr t', a'))
      | JArr ps \<Rightarrow> (let (ps', a') = map_state (scrub_part f) ps a in (JArr ps', a'))
      | _ \<Rightarrow> (v, a))"

definition scrub_message :: "(string \<Rightarrow> 's \<Rightarrow> string \<times> 's) \<Rightarrow> json \<Rightarrow> 's \<Rightarrow> json \<times> 's" where
  "scrub_message f m a = (let (v, a') = scrubContent f (field ''content'' m) a in (set_field ''content'' v m, a'))"

definition scrub_system :: "(string \<Rightarrow> 's \<Rightarrow> string \<times> 's) \<Rightarrow> string list option \<Rightarrow> 's \<Rightarrow> string list option \<times> 's" where
  "scrub_system f p a = (case p of None \<Rightarrow> (None, a) | Some ts \<Rightarrow> (let (ts', a') = map_state f ts a in (Some ts', a')))"

definition BLOCK_SETTING :: string where "BLOCK_SETTING = ''egress.block_over_trust''"

definition acc_tier :: "egress_acc \<Rightarrow> tier" where
  "acc_tier a = (if acc_secret a then Secret else if acc_count a > 0 then Internal else Public)"

definition below_internal :: "tier \<Rightarrow> bool" where "below_internal t \<longleftrightarrow> TIER_RANK t < TIER_RANK Internal"

definition scrub_context :: "(string \<Rightarrow> 's \<Rightarrow> string \<times> 's) \<Rightarrow> llm_context \<Rightarrow> 's \<Rightarrow> llm_context \<times> 's" where
  "scrub_context f ctx a =
     (let (sys, a1) = scrub_system f (ctx_system ctx) a;
          (ms, a2) = map_state (scrub_message f) (ctx_messages ctx) a1
      in (ctx\<lparr>ctx_system := sys, ctx_messages := ms\<rparr>, a2))"

definition gateEgress ::
    "(string \<Rightarrow> (string \<times> string) option) \<Rightarrow> llm_context \<Rightarrow> llm_model \<Rightarrow> (string \<Rightarrow> string option) \<Rightarrow> bool
       \<Rightarrow> js_error + llm_context \<times> egress_audit \<times> (string \<times> string) list option" where
  "gateEgress url ctx m setting round_trip =
     (let trust = providerTrust url (lm_provider m) (lm_base m) setting (lm_id m);
          infra = below_internal trust;
          toks = (if round_trip \<and> infra then Some makeTokenMap else None);
          (ctx', a) = scrub_context (scrub infra) ctx \<lparr>acc_tokens = toks, acc_secret = False, acc_count = 0, acc_types = []\<rparr>;
          ct = acc_tier a
      in if setting BLOCK_SETTING = Some ''true'' \<and> TIER_RANK ct > TIER_RANK trust
         then Inl (an_error (''egress refused: '' @ tier_text ct @ ''-sensitive content to a '' @ tier_text trust
                @ ''-cleared provider ('' @ lm_provider m @ ''); egress.block_over_trust is on''))
         else Inr (ctx', \<lparr>au_provider = lm_provider m, au_trust = trust, contentTier = ct, secretRedacted = acc_secret a,
                infraRedacted = (if infra then acc_count a else 0),
                redactedTypes = (if acc_secret a then [''secret''] else []) @ (if infra then acc_types a else [])\<rparr>,
              map_option restore (acc_tokens a)))"

subsection \<open>The audit trail\<close>

record egress_row =
  eg_id :: nat
  eg_at :: int
  eg_audit :: egress_audit

text \<open>\<open>egress_seq\<close> is the counter of \<open>AUTOINCREMENT\<close>.\<close>

record egress_db =
  egress_rows :: "egress_row list"
  egress_seq :: nat

definition CAP :: nat where "CAP = 5000"

definition recordEgress :: "int \<Rightarrow> egress_audit \<Rightarrow> egress_db \<Rightarrow> egress_db" where
  "recordEgress now a db =
     (let n = egress_seq db + 1; rows = egress_rows db @ [\<lparr>eg_id = n, eg_at = now, eg_audit = a\<rparr>];
          newest = Max (eg_id ` set rows)
      in \<lparr>egress_rows = filter (\<lambda>r. \<not> int (eg_id r) \<le> int newest - int CAP) rows, egress_seq = n\<rparr>)"

definition recentEgress :: "egress_db \<Rightarrow> nat \<Rightarrow> egress_row list" where
  "recentEgress db limit = take limit (rev (sort_key eg_id (egress_rows db)))"

subsection \<open>The hooks of the agent\<close>

record egress_hooks =
  hook_restore :: "(string \<times> string) list option"
  hook_db :: "egress_db option"

definition EGRESS_LOG_ALL_SETTING :: string where "EGRESS_LOG_ALL_SETTING = ''egress.log_all''"

definition worth_logging :: "egress_audit \<Rightarrow> bool" where
  "worth_logging a \<longleftrightarrow> secretRedacted a \<or> infraRedacted a > 0 \<or> contentTier a \<noteq> Public"

definition transformProviderContext ::
    "(string \<Rightarrow> (string \<times> string) option) \<Rightarrow> (string \<Rightarrow> string option) \<Rightarrow> int \<Rightarrow> llm_context \<Rightarrow> llm_model \<Rightarrow> egress_hooks
       \<Rightarrow> (js_error + llm_context) \<times> egress_hooks" where
  "transformProviderContext url setting now ctx m st =
     (case gateEgress url ctx m setting True of
        Inl e \<Rightarrow> (Inl e, st)
      | Inr (ctx', a, r) \<Rightarrow>
          (Inr ctx',
           \<lparr>hook_restore = (case r of None \<Rightarrow> None | Some ts \<Rightarrow> if ts \<noteq> [] then Some ts else None),
            hook_db = (case hook_db st of
                None \<Rightarrow> None
              | Some db \<Rightarrow> Some (if setting EGRESS_LOG_ALL_SETTING = Some ''true'' \<or> worth_logging a then recordEgress now a db else db))\<rparr>))"

definition restore_part :: "(string \<times> string) list \<Rightarrow> json \<Rightarrow> json" where
  "restore_part r p = (case text_part p of None \<Rightarrow> p | Some t \<Rightarrow> set_field ''text'' (JStr (restoreText t r)) p)"

definition restoreInMessage :: "json \<Rightarrow> (string \<times> string) list \<Rightarrow> json" where
  "restoreInMessage m r =
     (case field ''content'' m of
        JStr t \<Rightarrow> set_field ''content'' (JStr (restoreText t r)) m
      | JArr ps \<Rightarrow> set_field ''content'' (JArr (map (restore_part r) ps)) m
      | _ \<Rightarrow> m)"

definition transformAssistantMessage :: "json \<Rightarrow> egress_hooks \<Rightarrow> json" where
  "transformAssistantMessage m st = (case hook_restore st of None \<Rightarrow> m | Some r \<Rightarrow> restoreInMessage m r)"

end
