(* ===== verification/RegexFacts.thy ===== *)
theory RegexFacts
  imports Regex
begin

text \<open>
  What a match consumes: the characters it can contain (\<open>only\<close>), the ones it must contain (\<open>must\<close>),
  and what a replacement leaves of a text that is partly made of other characters.
\<close>

definition consumed :: "cursor \<Rightarrow> string \<Rightarrow> cursor \<Rightarrow> bool" where
  "consumed k u k' \<longleftrightarrow> ahead k = u @ ahead k' \<and> before k' = rev u @ before k"

lemma consumed_same [simp]: "consumed k [] k"
  by (simp add: consumed_def)

lemma consumed_trans: "consumed k u k1 \<Longrightarrow> consumed k1 v k2 \<Longrightarrow> consumed k (u @ v) k2"
  by (simp add: consumed_def)

lemma consumed_unique: "consumed k u k' \<Longrightarrow> consumed k v k' \<Longrightarrow> u = v"
  by (simp add: consumed_def)

definition reads :: "(char \<Rightarrow> bool) \<Rightarrow> cursor \<Rightarrow> cursor \<Rightarrow> bool" where
  "reads P k k' \<longleftrightarrow> (\<exists>u. consumed k u k' \<and> (\<forall>c \<in> set u. P c))"

lemma reads_same [simp]: "reads P k k"
  unfolding reads_def by (rule exI [of _ "[]"]) simp

lemma reads_trans: "reads P k k1 \<Longrightarrow> reads P k1 k2 \<Longrightarrow> reads P k k2"
  unfolding reads_def by (metis (no_types, opaque_lifting) Un_iff consumed_trans set_append)

lemma star_ends_reads:
  assumes "\<And>k k'. k' \<in> set (f k) \<Longrightarrow> reads P k k'"
  shows "k' \<in> set (star_ends n f k) \<Longrightarrow> reads P k k'"
  by (induction n arbitrary: k k') (auto intro: reads_trans [OF assms])

lemma lazy_ends_reads:
  assumes "\<And>k k'. k' \<in> set (f k) \<Longrightarrow> reads P k k'"
  shows "k' \<in> set (lazy_ends n f k) \<Longrightarrow> reads P k k'"
  by (induction n arbitrary: k k') (auto intro: reads_trans [OF assms])

lemma eat_consumed: "k' \<in> set (eat p k) \<Longrightarrow> \<exists>c. p c \<and> consumed k [c] k'"
  by (induction p k rule: eat.induct) (auto simp: consumed_def split: if_splits)

lemma capture_consumed [simp]: "consumed k u (capture n s k') = consumed k u k'"
  by (simp add: consumed_def)

fun only :: "(char \<Rightarrow> bool) \<Rightarrow> rex \<Rightarrow> bool" where
  "only P (Cls q) = (\<forall>c. q c \<longrightarrow> P c)"
| "only P (Cat r q) = (only P r \<and> only P q)"
| "only P (Alt r q) = (only P r \<and> only P q)"
| "only P (Star r) = only P r"
| "only P (LazyStar r) = only P r"
| "only P (Grp n r) = only P r"
| "only P _ = True"

lemma only_reads: "only P r \<Longrightarrow> k' \<in> set (ends r k) \<Longrightarrow> reads P k k'"
proof (induction r arbitrary: k k')
  case (Cls q)
  then show ?case by (fastforce simp: reads_def dest: eat_consumed)
next
  case (Cat r q)
  then show ?case by (auto intro: reads_trans [OF Cat.IH(1) Cat.IH(2)])
next
  case (Star r)
  then show ?case using star_ends_reads [of "ends r" P] by auto
next
  case (LazyStar r)
  then show ?case using lazy_ends_reads [of "ends r" P] by auto
next
  case (Grp n r)
  then obtain k1 where k1: "k1 \<in> set (ends r k)" "k' = capture n (ahead k) k1" by auto
  with Grp have "reads P k k1" by simp
  then show ?case unfolding k1 by (simp add: reads_def)
qed (auto split: if_splits list.splits)

lemma only_any: "only (\<lambda>_. True) r"
  by (induction r) auto

lemma ends_consumed: "k' \<in> set (ends r k) \<Longrightarrow> \<exists>u. consumed k u k'"
  using only_reads [OF only_any] by (auto simp: reads_def)

fun must :: "(char \<Rightarrow> bool) \<Rightarrow> rex \<Rightarrow> bool" where
  "must Q (Cls q) = (\<forall>c. q c \<longrightarrow> Q c)"
| "must Q (Cat r q) = (must Q r \<or> must Q q)"
| "must Q (Alt r q) = (must Q r \<and> must Q q)"
| "must Q (Grp n r) = must Q r"
| "must Q _ = False"

lemma must_consumed: "must Q r \<Longrightarrow> k' \<in> set (ends r k) \<Longrightarrow> \<exists>u. consumed k u k' \<and> (\<exists>c \<in> set u. Q c)"
proof (induction r arbitrary: k k')
  case (Cls q)
  then show ?case by (fastforce dest: eat_consumed)
next
  case (Cat r q)
  then obtain k1 where k1: "k1 \<in> set (ends r k)" "k' \<in> set (ends q k1)" by auto
  obtain u v where uv: "consumed k u k1" "consumed k1 v k'" using k1 by (meson ends_consumed)
  have "(\<exists>c \<in> set u. Q c) \<or> (\<exists>c \<in> set v. Q c)"
    using Cat k1 uv by (metis consumed_unique must.simps(2))
  then show ?case using consumed_trans [OF uv] by (intro exI [of _ "u @ v"]) auto
next
  case (Grp n r)
  then show ?case by auto
qed auto

lemma match_text:
  assumes "only P r" and "must Q r" and "k' \<in> set (ends r (Cur b a cs))"
  shows "\<exists>u. a = u @ ahead k' \<and> before k' = rev u @ b \<and> (\<forall>c \<in> set u. P c) \<and> (\<exists>c \<in> set u. Q c)"
proof -
  obtain u where u: "consumed (Cur b a cs) u k'" "\<forall>c \<in> set u. P c" using only_reads [OF assms(1,3)] by (auto simp: reads_def)
  moreover have "\<exists>c \<in> set u. Q c" using must_consumed [OF assms(2,3)] u(1) consumed_unique by blast
  ultimately show ?thesis by (auto simp: consumed_def)
qed

text \<open>No match begins inside a text whose characters, up to one it cannot contain, lack what it must contain.\<close>

lemma no_match_inside:
  assumes "only P r" and "must Q r" and "\<forall>c \<in> set w. \<not> Q c" and "\<not> P d"
  shows "ends r (Cur b (w @ d # s) cs) = []"
proof (rule ccontr)
  assume "ends r (Cur b (w @ d # s) cs) \<noteq> []"
  then obtain k where "k \<in> set (ends r (Cur b (w @ d # s) cs))" by (metis list.set_sel(1))
  from match_text [OF assms(1,2) this] obtain u where
    u: "w @ d # s = u @ ahead k" "\<forall>c \<in> set u. P c" "\<exists>c \<in> set u. Q c" by blast
  then have "d \<notin> set u" using assms(4) by blast
  then have "\<exists>v. w = u @ v" using u(1) by (auto simp: append_eq_append_conv2 append_eq_Cons_conv Cons_eq_append_conv)
  with u(3) assms(3) show False by auto
qed

lemma replace_from_skip:
  assumes "\<And>v w b. u = v @ w \<Longrightarrow> w \<noteq> [] \<Longrightarrow> ends r (Cur b (w @ s) []) = []"
  shows "replace_from r f st b (u @ s) = (let (t, st') = replace_from r f st (rev u @ b) s in (u @ t, st'))"
  using assms
proof (induction u arbitrary: b)
  case (Cons c u)
  have "ends r (Cur b (c # u @ s) []) = []" using Cons(2) [of "[]" "c # u"] by simp
  moreover have "replace_from r f st (c # b) (u @ s) = (let (t, st') = replace_from r f st (rev u @ c # b) s in (u @ t, st'))"
  proof (rule Cons(1))
    fix v w b' assume "u = v @ w" "w \<noteq> []"
    then show "ends r (Cur b' (w @ s) []) = []" using Cons(2) [of "c # v" w] by simp
  qed
  ultimately show ?case by (simp add: split_def Let_def)
qed (simp add: split_def Let_def)

text \<open>What the replacement function keeps of the state, the replacement keeps.\<close>

lemma replace_from_keeps:
  assumes step: "\<And>st m k. I st \<Longrightarrow> I (snd (f st m k))"
  shows "I st \<Longrightarrow> I (snd (replace_from r f st b s))"
proof (induction "length s" arbitrary: st b s rule: less_induct)
  case less
  show ?case
  proof (cases s)
    case (Cons c a)
    show ?thesis
    proof (cases "ends r (Cur b (c # a) [])")
      case Nil
      then show ?thesis using less Cons by (simp add: split_def Let_def)
    next
      case (Cons k ks)
      note IH = less(1) [OF _ step [OF less(2), of "matched (c # a) k" k]]
      show ?thesis using IH [of "ahead k" "before k"] IH [of a "c # b"] \<open>s = c # a\<close> Cons by (simp add: split_def Let_def)
    qed
  qed (use less(2) step in \<open>simp split: list.splits\<close>)
qed

lemma match_rest: "ends r (Cur b a []) = k # ks \<Longrightarrow> matched a k @ ahead k = a"
proof -
  assume "ends r (Cur b a []) = k # ks"
  then obtain u where "consumed (Cur b a []) u k" using ends_consumed [of k r "Cur b a []"] by auto
  then show ?thesis by (simp add: consumed_def matched_def)
qed

end
