(* ===== verification/EgressFacts.thy ===== *)
theory EgressFacts
  imports Egress RegexFacts
begin

text \<open>
  Why the reply can be mapped back: a scrubbed text is the redacted text with some stretches replaced
  by tokens (\<open>item\<close>), tokens cannot be mistaken for anything else in it, and each token stands for one
  identifier.  The texts of a context are scrubbed one after the other (\<open>context_is_flat\<close>).
\<close>

subsection \<open>Tokens\<close>

definition is_token :: "string \<Rightarrow> bool" where
  "is_token t \<longleftrightarrow> (\<exists>kind n. kind \<in> {''ip'', ''host''} \<and> t = token_text kind n)"

lemma brackets [simp]: "\<not> hostch CHR ''[''" "\<not> hostch CHR '']''"
  by code_simp+

lemma token_shape:
  assumes "is_token t"
  obtains w where "t = CHR ''['' # w @ '']''" and "\<forall>c \<in> set w. hostch c" and "CHR '']'' \<notin> set w" and "CHR ''['' \<notin> set w"
    and "(\<exists>v. w = ''ip-'' @ v) \<or> (\<exists>v. w = ''host-'' @ v)"
proof -
  from assms obtain kind n where k: "kind \<in> {''ip'', ''host''}" "t = token_text kind n" by (auto simp: is_token_def)
  let ?w = "kind @ CHR ''-'' # show_nat n"
  have d: "c \<in> set (show_nat n) \<Longrightarrow> is_digit c" for c by (rule show_nat_digits)
  have h: "\<forall>c \<in> set ?w. hostch c" using k(1) d by (auto simp: hostch_def alnum_def alpha_def is_lower_def)
  then have "CHR '']'' \<notin> set ?w" "CHR ''['' \<notin> set ?w" using brackets by blast+
  moreover have "(\<exists>v. ?w = ''ip-'' @ v) \<or> (\<exists>v. ?w = ''host-'' @ v)" using k(1) by auto
  ultimately show ?thesis using k(2) h that [of ?w] by (simp add: token_text_def)
qed

lemma token_text_number:
  assumes "k \<in> {''ip'', ''host''}" and "k' \<in> {''ip'', ''host''}" and "token_text k m = token_text k' n"
  shows "m = n"
  using assms by (auto simp: token_text_def)

text \<open>The two maps of \<open>makeTokenMap\<close> are inverse, and the tokens are numbered in order.\<close>

definition good :: "token_map \<Rightarrow> bool" where
  "good tm \<longleftrightarrow> restore tm = map (\<lambda>(u, t). (t, u)) (by_id tm) \<and> distinct (map fst (by_id tm)) \<and>
     (\<forall>i < length (by_id tm). \<exists>kind \<in> {''ip'', ''host''}. snd (by_id tm ! i) = token_text kind (Suc i)) \<and>
     (\<forall>(t, u) \<in> set (restore tm). CHR ''['' \<notin> set u)"

lemma good_nth: "good tm \<Longrightarrow> i < length (by_id tm) \<Longrightarrow> \<exists>kind \<in> {''ip'', ''host''}. snd (by_id tm ! i) = token_text kind (Suc i)"
  unfolding good_def by blast

lemma good_empty: "good makeTokenMap"
  by (simp add: good_def makeTokenMap_def)

lemma good_is_token: "good tm \<Longrightarrow> (t, u) \<in> set (restore tm) \<Longrightarrow> is_token t"
proof -
  assume g: "good tm" and r: "(t, u) \<in> set (restore tm)"
  then have "(u, t) \<in> set (by_id tm)" by (auto simp: good_def)
  then obtain i where i: "i < length (by_id tm)" "by_id tm ! i = (u, t)" by (auto simp: in_set_conv_nth)
  from good_nth [OF g i(1)] obtain k where "k \<in> {''ip'', ''host''}" "snd (by_id tm ! i) = token_text k (Suc i)" ..
  then show "is_token t" using i(2) unfolding is_token_def by auto
qed

lemma good_distinct:
  assumes "good tm"
  shows "distinct (map fst (restore tm))"
proof -
  have "snd (by_id tm ! i) \<noteq> snd (by_id tm ! j)" if li: "i < length (by_id tm)" and lj: "j < length (by_id tm)" and ne: "i \<noteq> j" for i j
  proof
    assume e: "snd (by_id tm ! i) = snd (by_id tm ! j)"
    obtain k where k: "k \<in> {''ip'', ''host''}" "snd (by_id tm ! i) = token_text k (Suc i)" using good_nth [OF assms li] ..
    obtain k' where k': "k' \<in> {''ip'', ''host''}" "snd (by_id tm ! j) = token_text k' (Suc j)" using good_nth [OF assms lj] ..
    have "token_text k (Suc i) = token_text k' (Suc j)" using e k(2) k'(2) by simp
    then have "Suc i = Suc j" by (rule token_text_number [OF k(1) k'(1)])
    with ne show False by simp
  qed
  then have "distinct (map snd (by_id tm))" by (simp add: distinct_conv_nth)
  moreover have "map fst (restore tm) = map snd (by_id tm)" using assms by (simp add: good_def comp_def case_prod_unfold)
  ultimately show ?thesis by simp
qed

lemma fresh_update: "k \<notin> fst ` set xs \<Longrightarrow> AList.update k v xs = xs @ [(k, v)]"
  by (induction xs) auto

lemma good_token:
  assumes "good tm" and "kind \<in> {''ip'', ''host''}" and "CHR ''['' \<notin> set m" and "token kind m tm = (t, tm')"
  shows "good tm' \<and> set (restore tm) \<subseteq> set (restore tm') \<and> (t, m) \<in> set (restore tm') \<and> is_token t"
proof (cases "map_of (by_id tm) m")
  case None
  let ?t = "token_text kind (length (by_id tm) + 1)"
  have m: "m \<notin> fst ` set (by_id tm)" using None by (simp add: map_of_eq_None_iff)
  have "?t \<notin> fst ` set (restore tm)"
  proof
    assume "?t \<in> fst ` set (restore tm)"
    then have "?t \<in> snd ` set (by_id tm)" using assms(1) by (force simp: good_def)
    then obtain i where i: "i < length (by_id tm)" "snd (by_id tm ! i) = ?t" by (auto simp: in_set_conv_nth)
    from good_nth [OF assms(1) i(1)] obtain k where k: "k \<in> {''ip'', ''host''}" "snd (by_id tm ! i) = token_text k (Suc i)" ..
    have "?t = token_text k (Suc i)" using i(2) k(2) by simp
    then have "length (by_id tm) + 1 = Suc i" by (rule token_text_number [OF assms(2) k(1)])
    with i(1) show False by simp
  qed
  then have tm': "t = ?t" "tm' = \<lparr>by_id = by_id tm @ [(m, ?t)], restore = restore tm @ [(?t, m)]\<rparr>"
    using assms(4) None m by (auto simp: token_def Let_def fresh_update)
  have "good tm'" unfolding good_def tm' token_map.simps
  proof (intro conjI allI impI)
    show "restore tm @ [(?t, m)] = map (\<lambda>(u, t). (t, u)) (by_id tm @ [(m, ?t)])" using assms(1) by (simp add: good_def)
    show "distinct (map fst (by_id tm @ [(m, ?t)]))" using assms(1) m by (simp add: good_def)
    show "\<forall>(t, u) \<in> set (restore tm @ [(?t, m)]). CHR ''['' \<notin> set u" using assms(1,3) by (auto simp: good_def)
    fix i assume i: "i < length (by_id tm @ [(m, ?t)])"
    show "\<exists>kind \<in> {''ip'', ''host''}. snd ((by_id tm @ [(m, ?t)]) ! i) = token_text kind (Suc i)"
    proof (cases "i < length (by_id tm)")
      case True
      then show ?thesis using good_nth [OF assms(1)] by (simp add: nth_append)
    next
      case False
      with i have "i = length (by_id tm)" by simp
      then show ?thesis using assms(2) by (intro bexI [of _ kind]) auto
    qed
  qed
  then show ?thesis using tm' assms(2) by (auto simp: is_token_def)
next
  case (Some t0)
  then have e: "t = t0" "tm' = tm" using assms(4) by (auto simp: token_def)
  have "(m, t0) \<in> set (by_id tm)" using Some by (rule map_of_SomeD)
  then have "(t0, m) \<in> set (restore tm)" using assms(1) by (force simp: good_def)
  then show ?thesis using e assms(1) good_is_token by blast
qed

subsection \<open>A scrubbed text\<close>

datatype item = Chr char | Tok string string

text \<open>The text with the tokens in \<open>S\<close> mapped back.\<close>

fun shown :: "string set \<Rightarrow> item list \<Rightarrow> string" where
  "shown S [] = []"
| "shown S (Chr c # xs) = c # shown S xs"
| "shown S (Tok t u # xs) = (if t \<in> S then u else t) @ shown S xs"

definition standing :: "(string \<times> string) list \<Rightarrow> item list \<Rightarrow> bool" where
  "standing R xs \<longleftrightarrow> (\<forall>t u. Tok t u \<in> set xs \<longrightarrow> (t, u) \<in> set R \<and> is_token t \<and> CHR ''['' \<notin> set u)"

lemma standing_mono: "standing R xs \<Longrightarrow> set R \<subseteq> set R' \<Longrightarrow> standing R' xs"
  by (auto simp: standing_def)

lemma standing_Cons: "standing R (i # xs) \<longleftrightarrow> (\<forall>t u. i = Tok t u \<longrightarrow> (t, u) \<in> set R \<and> is_token t \<and> CHR ''['' \<notin> set u) \<and> standing R xs"
  by (auto simp: standing_def)

lemma shown_chars [simp]: "shown S (map Chr s @ xs) = s @ shown S xs"
  by (induction s) auto

lemma shown_plain [simp]: "shown S (map Chr s) = s"
  by (induction s) auto

lemma standing_chars [simp]: "standing R (map Chr s @ xs) = standing R xs" "standing R (map Chr s)"
  by (induction s) (auto simp: standing_Cons standing_def)

lemma prefix_chars:
  assumes "standing R xs" and "shown {} xs = u @ s" and "CHR ''['' \<notin> set u"
  shows "\<exists>js. xs = map Chr u @ js \<and> s = shown {} js"
  using assms
proof (induction u arbitrary: xs)
  case (Cons c u)
  from Cons(3) have "xs \<noteq> []" by auto
  then obtain i js where xs: "xs = i # js" by (cases xs) auto
  have "i = Chr c \<and> shown {} js = u @ s"
  proof (cases i)
    case (Tok t v)
    then have "is_token t" using Cons(2) xs by (simp add: standing_Cons)
    then obtain w where "t = CHR ''['' # w" by (rule token_shape) auto
    with Cons(3,4) xs Tok show ?thesis by auto
  qed (use Cons(3) xs in auto)
  with Cons(1) [of js] Cons(2,4) xs show ?case by (auto simp: standing_Cons)
qed simp

subsection \<open>One pass of the scrubber\<close>

definition knows :: "(string \<times> string) list \<Rightarrow> scrub_state \<Rightarrow> bool" where
  "knows R st \<longleftrightarrow> (\<exists>tm. tokens st = Some tm \<and> good tm \<and> set R \<subseteq> set (restore tm))"

definition table_of :: "scrub_state \<Rightarrow> (string \<times> string) list" where
  "table_of st = (case tokens st of None \<Rightarrow> [] | Some tm \<Rightarrow> restore tm)"

lemma knows_table: "knows R st \<Longrightarrow> knows (table_of st) st \<and> set R \<subseteq> set (table_of st)"
  by (auto simp: knows_def table_of_def)

lemma knows_trans: "knows R st \<Longrightarrow> knows (table_of st) st' \<Longrightarrow> knows R st' \<and> set (table_of st) \<subseteq> set (table_of st')"
  by (auto simp: knows_def table_of_def)

text \<open>A replacement function leaves the match or puts a token for it.\<close>

definition places :: "(scrub_state \<Rightarrow> string \<Rightarrow> cursor \<Rightarrow> string \<times> scrub_state) \<Rightarrow> bool" where
  "places f \<longleftrightarrow> (\<forall>st m k. knows [] st \<and> CHR ''['' \<notin> set m \<longrightarrow>
     knows (table_of st) (snd (f st m k)) \<and>
     (fst (f st m k) = m \<or> is_token (fst (f st m k)) \<and> (fst (f st m k), m) \<in> set (table_of (snd (f st m k)))))"

lemma token_skipped:
  assumes "only P r" and "must Q r" and "\<not> P CHR ''[''" and "\<not> P CHR '']''" and "\<And>c. Q c \<Longrightarrow> \<not> hostch c" and "is_token t"
  shows "replace_from r f st b (t @ s) = (let (u, st') = replace_from r f st (rev t @ b) s in (t @ u, st'))"
proof (rule replace_from_skip)
  fix v w b' assume vw: "t = v @ w" "w \<noteq> []"
  obtain x where x: "t = CHR ''['' # x @ '']''" "\<forall>c \<in> set x. hostch c" using assms(6) by (rule token_shape)
  show "ends r (Cur b' (w @ s) []) = []"
  proof (cases v)
    case Nil
    then have "w @ s = [] @ CHR ''['' # x @ '']'' @ s" using vw x(1) by simp
    then show ?thesis using no_match_inside [OF assms(1,2), of "[]" "CHR ''[''"] assms(3) by simp
  next
    case (Cons c v')
    then have e: "x @ '']'' = v' @ w" using vw(1) x(1) by simp
    then obtain x' where x': "w = x' @ '']''" "set x' \<subseteq> set x" using vw(2)
      by (auto simp: append_eq_append_conv2 append_eq_Cons_conv Cons_eq_append_conv)
    have "\<forall>c \<in> set x'. \<not> Q c" using x' x(2) assms(5) by blast
    from no_match_inside [OF assms(1,2) this assms(4)] show ?thesis using x'(1) by simp
  qed
qed

lemma pass_match:
  assumes "only P r" and "must Q r" and "\<not> P CHR ''[''" and f: "places f"
    and "knows [] st" and "standing (table_of st) xs" and s: "shown {} xs = c # a" and k: "ends r (Cur b (c # a) []) = k # ks"
  shows "\<exists>u zs v st1. xs = map Chr u @ zs \<and> ahead k = shown {} zs \<and> length zs < length xs \<and>
    length (ahead k) < length (c # a) \<and> matched (c # a) k = u \<and> f st u k = (v, st1) \<and> CHR ''['' \<notin> set u \<and>
    knows (table_of st) st1 \<and> (v = u \<or> is_token v \<and> (v, u) \<in> set (table_of st1))"
proof -
  from match_text [OF assms(1,2), of k b "c # a" "[]"] obtain u where
    u: "c # a = u @ ahead k" "\<forall>d \<in> set u. P d" "\<exists>d \<in> set u. Q d" using k by auto
  have br: "CHR ''['' \<notin> set u" using u(2) assms(3) by blast
  from prefix_chars [OF assms(6) _ br, of "ahead k"] u(1) s obtain zs where zs: "xs = map Chr u @ zs" "ahead k = shown {} zs" by auto
  obtain v st1 where v: "f st u k = (v, st1)" by fastforce
  have "knows (table_of st) st1" "v = u \<or> is_token v \<and> (v, u) \<in> set (table_of st1)"
    using f assms(5) br v unfolding places_def by (metis fst_conv snd_conv)+
  moreover have "matched (c # a) k = u" unfolding matched_def u(1) by simp
  moreover have "0 < length u" using u(3) by auto
  ultimately show ?thesis using zs v br u(1) by (intro exI [of _ u] exI [of _ zs] exI [of _ v] exI [of _ st1]) (auto simp del: length_greater_0_conv)
qed

lemma pass:
  assumes r: "only P r" "must Q r" "\<not> P CHR ''[''" "\<not> P CHR '']''" "\<And>c. Q c \<Longrightarrow> \<not> hostch c" and f: "places f"
  shows "knows [] st \<Longrightarrow> standing (table_of st) xs \<Longrightarrow>
    \<exists>ys. fst (replace_from r f st b (shown {} xs)) = shown {} ys \<and> shown UNIV ys = shown UNIV xs \<and>
      knows (table_of st) (snd (replace_from r f st b (shown {} xs))) \<and>
      standing (table_of (snd (replace_from r f st b (shown {} xs)))) ys"
proof (induction "length xs" arbitrary: xs st b rule: less_induct)
  case less
  have know: "knows (table_of st) st" using knows_table [OF less(2)] by simp
  have none: "ends r (Cur b [] []) = []" for b
  proof (rule ccontr)
    assume "ends r (Cur b [] []) \<noteq> []"
    then obtain k where "k \<in> set (ends r (Cur b [] []))" by (metis list.set_sel(1))
    from match_text [OF r(1,2) this] show False by auto
  qed
  show ?case
  proof (cases xs)
    case Nil
    then show ?thesis using know none by (intro exI [of _ "[]"]) (simp add: standing_def)
  next
    case (Cons x js)
    have js: "standing (table_of st) js" using less(3) Cons by (simp add: standing_Cons)
    show ?thesis
    proof (cases x)
      case (Tok t u)
      have t: "(t, u) \<in> set (table_of st)" "is_token t" "CHR ''['' \<notin> set u" using less(3) Cons Tok by (auto simp: standing_Cons)
      obtain ys where ys: "fst (replace_from r f st (rev t @ b) (shown {} js)) = shown {} ys" "shown UNIV ys = shown UNIV js"
        "knows (table_of st) (snd (replace_from r f st (rev t @ b) (shown {} js)))"
        "standing (table_of (snd (replace_from r f st (rev t @ b) (shown {} js)))) ys"
        using less(1) [of js st "rev t @ b"] less(2) js Cons by auto
      have "(t, u) \<in> set (table_of (snd (replace_from r f st (rev t @ b) (shown {} js))))"
        using knows_trans [OF less(2) ys(3)] t(1) by auto
      then show ?thesis using ys Cons Tok t
        by (intro exI [of _ "Tok t u # ys"]) (simp add: token_skipped [OF r t(2)] split_def Let_def standing_Cons)
    next
      case (Chr c)
      show ?thesis
      proof (cases "ends r (Cur b (c # shown {} js) [])")
        case Nil
        obtain ys where "fst (replace_from r f st (c # b) (shown {} js)) = shown {} ys" "shown UNIV ys = shown UNIV js"
          "knows (table_of st) (snd (replace_from r f st (c # b) (shown {} js)))"
          "standing (table_of (snd (replace_from r f st (c # b) (shown {} js)))) ys"
          using less(1) [of js st "c # b"] less(2) js Cons by auto
        then show ?thesis using Nil Cons Chr by (intro exI [of _ "Chr c # ys"]) (simp add: split_def Let_def standing_Cons)
      next
        case (Cons k ks)
        have "shown {} xs = c # shown {} js" using \<open>xs = x # js\<close> Chr by simp
        from pass_match [OF r(1-3) f less(2,3) this Cons] obtain u zs v st1 where
          zs: "xs = map Chr u @ zs" "ahead k = shown {} zs" and short: "length zs < length xs"
          and len: "length (ahead k) < length (c # shown {} js)" and m: "matched (c # shown {} js) k = u"
          and v: "f st u k = (v, st1)" and br: "CHR ''['' \<notin> set u"
          and st1: "knows (table_of st) st1" "v = u \<or> is_token v \<and> (v, u) \<in> set (table_of st1)" by blast
        have sub: "knows [] st1" "set (table_of st) \<subseteq> set (table_of st1)" using knows_trans [OF less(2) st1(1)] by auto
        have "standing (table_of st1) zs" using less(3) zs(1) sub(2) by (auto intro: standing_mono)
        then obtain ys where ys: "fst (replace_from r f st1 (before k) (shown {} zs)) = shown {} ys" "shown UNIV ys = shown UNIV zs"
          "knows (table_of st1) (snd (replace_from r f st1 (before k) (shown {} zs)))"
          "standing (table_of (snd (replace_from r f st1 (before k) (shown {} zs)))) ys"
          using less(1) [of zs st1 "before k"] sub(1) short by auto
        let ?e = "snd (replace_from r f st1 (before k) (shown {} zs))"
        have fin: "knows (table_of st) ?e" "set (table_of st1) \<subseteq> set (table_of ?e)"
          using knows_trans [OF st1(1) ys(3)] knows_trans [OF sub(1) ys(3)] by auto
        have whole: "replace_from r f st b (shown {} xs) = (v @ shown {} ys, ?e)"
          using \<open>xs = x # js\<close> Chr Cons len m v ys(1) zs(2) by (simp add: split_def Let_def prod_eq_iff)
        show ?thesis
        proof (cases "v = u")
          case True
          then show ?thesis using whole ys fin zs(1) by (intro exI [of _ "map Chr u @ ys"]) simp
        next
          case False
          then have "is_token v" "(v, u) \<in> set (table_of ?e)" using st1(2) fin(2) by auto
          then show ?thesis using whole ys fin zs(1) br by (intro exI [of _ "Tok v u # ys"]) (simp add: standing_Cons)
        qed
      qed
    qed
  qed
qed

subsection \<open>The three passes\<close>

definition net_char :: "char \<Rightarrow> bool" where "net_char c \<longleftrightarrow> hostch c \<or> c = CHR ''.'' \<or> c = CHR '':''"
definition net_mark :: "char \<Rightarrow> bool" where "net_mark c \<longleftrightarrow> c = CHR ''.'' \<or> c = CHR '':''"

lemma net_brackets [simp]: "\<not> net_char CHR ''[''" "\<not> net_char CHR '']''" "net_char CHR ''.''" "net_char CHR '':''"
  "net_mark CHR ''.''" "net_mark CHR '':''"
  by (simp_all add: net_char_def net_mark_def)

lemma net_mark_host: "net_mark c \<Longrightarrow> \<not> hostch c"
  unfolding net_mark_def by (elim disjE) (simp_all, code_simp+)

lemma lower_net: "net_char (lower_char d) \<Longrightarrow> net_char d"
  by (cases "is_upper d") (simp_all add: lower_char_def net_char_def hostch_def alnum_def alpha_def)

lemma only_seq [simp]: "only P (seq rs) = list_all (only P) rs"
  by (induction rs) auto

lemma only_alt [simp]: "only P (alt rs) = list_all (only P) rs"
  by (induction rs rule: alt.induct) auto

lemma only_lit [simp]: "only P (lit s) = list_all P s"
  by (induction s) (auto simp: lit_Cons ch_def)

lemma only_liti: "list_all (\<lambda>c. net_char (lower_char c)) s \<Longrightarrow> only net_char (liti s)"
proof (induction s)
  case (Cons c s)
  then have "net_char (lower_char c)" "only net_char (liti s)" by simp_all
  moreover have "net_char d" if "lower_char d = lower_char c" for d using that lower_net calculation(1) by metis
  ultimately show ?case by (simp add: liti_def)
qed (simp add: liti_def)

lemma only_up_to: "only P q \<Longrightarrow> only P (up_to n q)"
  by (induction n) auto

lemma only_between: "only P q \<Longrightarrow> only P (between m n q)"
  by (simp add: between_def times_def only_up_to list_all_iff)

lemma must_seq [simp]: "must Q (seq rs) = list_ex (must Q) rs"
  by (induction rs) auto

lemma must_lit [simp]: "must Q (lit s) = list_ex Q s"
  by (induction s) (auto simp: lit_Cons ch_def)

lemma host_chars: "is_digit c \<Longrightarrow> hostch c" "alnum c \<Longrightarrow> hostch c" "hexch c \<Longrightarrow> net_char c"
proof -
  show "is_digit c \<Longrightarrow> hostch c" "alnum c \<Longrightarrow> hostch c" by (simp_all add: hostch_def alnum_def)
  assume "hexch c"
  then have "net_char (lower_char c) \<or> is_digit c" by (auto simp: hexch_def net_char_def hostch_def alnum_def alpha_def is_lower_def)
  then show "net_char c" using lower_net by (auto simp: net_char_def hostch_def alnum_def)
qed

lemma net_host: "hostch c \<Longrightarrow> net_char c"
  by (simp add: net_char_def)

lemma octet_only: "only net_char octet"
  unfolding octet_def by (rule only_between) (simp add: digit_def net_host host_chars(1))

lemma IPV4_only: "only net_char IPV4"
  by (simp add: IPV4_def times_def octet_only list_all_iff ch_def)

lemma IPV4_must: "must net_mark IPV4"
  by (simp add: IPV4_def times_def list_ex_iff ch_def)

lemma IPV6_only: "only net_char IPV6_PRIVATE"
proof -
  have "only net_char (liti s)" if "s \<in> {''fd'', ''fc'', ''fe80''}" for s
    using that by (elim insertE emptyE) (simp_all only:, (rule only_liti, code_simp)+)
  moreover have "only net_char (between 1 7 (Cat (ch CHR '':'') (between 0 4 (Cls hexch))))"
    by (intro only_between) (simp add: ch_def only_between host_chars(3))
  moreover have "only net_char (times 2 (Cls hexch))" by (simp add: times_def host_chars(3) list_all_iff)
  moreover have "list_all net_char ''::1''" by code_simp
  ultimately show ?thesis by (simp add: IPV6_PRIVATE_def altsi_def)
qed

lemma IPV6_must: "must net_mark IPV6_PRIVATE"
  by (simp add: IPV6_PRIVATE_def between_def times_def ch_def)

lemma HOST_only: "only net_char INTERNAL_HOST"
proof -
  have "only net_char (liti s)" if "s \<in> {''local'', ''lan'', ''internal'', ''home.arpa'', ''ts.net''}" for s
    using that by (elim insertE emptyE) (simp_all only:, (rule only_liti, code_simp)+)
  then show ?thesis by (simp add: INTERNAL_HOST_def altsi_def opt_def plus_def ch_def net_host host_chars(2))
qed

lemma HOST_must: "must net_mark INTERNAL_HOST"
  by (simp add: INTERNAL_HOST_def ch_def)

lemmas net_only = IPV4_only IPV6_only HOST_only
lemmas net_must = IPV4_must IPV6_must HOST_must

lemma place_places:
  assumes "kind \<in> {''ip'', ''host''}" and "knows [] st" and "CHR ''['' \<notin> set m"
  shows "knows (table_of st) (snd (place kind m (found ty st))) \<and> is_token (fst (place kind m (found ty st))) \<and>
    (fst (place kind m (found ty st)), m) \<in> set (table_of (snd (place kind m (found ty st))))"
proof -
  obtain tm where tm: "tokens st = Some tm" "good tm" using assms(2) by (auto simp: knows_def)
  obtain t tm' where t: "token kind m tm = (t, tm')" by fastforce
  from good_token [OF tm(2) assms(1,3) t] show ?thesis
    using tm t by (auto simp: place_def found_def knows_def table_of_def)
qed

lemma found_same: "knows R (found ty st) = knows R st" "table_of (found ty st) = table_of st" "tokens (found ty st) = tokens st"
  by (simp_all add: found_def knows_def table_of_def)

lemma put_places: "places put_ip4" "places put_ip6" "places put_host"
  unfolding places_def put_ip4_def put_ip6_def put_host_def using place_places knows_table by (auto simp: found_same)

lemma redact_infra_items:
  assumes "knows [] st"
  shows "\<exists>ys. fst (redact_infra s st) = shown {} ys \<and> shown UNIV ys = s \<and>
    knows (table_of st) (snd (redact_infra s st)) \<and> standing (table_of (snd (redact_infra s st))) ys"
proof -
  note pass' = pass [OF _ _ net_brackets(1,2) net_mark_host]
  obtain s1 st1 where r1: "replace_from IPV4 put_ip4 st [] s = (s1, st1)" by fastforce
  obtain xs where xs: "s1 = shown {} xs" "shown UNIV xs = s" "knows (table_of st) st1" "standing (table_of st1) xs"
    using pass' [OF IPV4_only IPV4_must _ put_places(1) assms, of "map Chr s" "[]"] r1 by auto
  have k1: "knows [] st1" using knows_trans [OF assms xs(3)] by simp
  obtain s2 st2 where r2: "replace_from IPV6_PRIVATE put_ip6 st1 [] s1 = (s2, st2)" by fastforce
  obtain ys where ys: "s2 = shown {} ys" "shown UNIV ys = s" "knows (table_of st1) st2" "standing (table_of st2) ys"
    using pass' [OF IPV6_only IPV6_must _ put_places(2) k1 xs(4), of "[]"] r2 xs by auto
  have k2: "knows [] st2" "knows (table_of st) st2" using knows_trans [OF k1 ys(3)] knows_trans [OF xs(3) ys(3)] by auto
  obtain s3 st3 where r3: "replace_from INTERNAL_HOST put_host st2 [] s2 = (s3, st3)" by fastforce
  obtain zs where zs: "s3 = shown {} zs" "shown UNIV zs = s" "knows (table_of st2) st3" "standing (table_of st3) zs"
    using pass' [OF HOST_only HOST_must _ put_places(3) k2(1) ys(4), of "[]"] r3 ys by auto
  have "redact_infra s st = (s3, st3)" by (simp add: redact_infra_def r1 r2 r3)
  then show ?thesis using zs knows_trans [OF k2(2) zs(3)] by auto
qed

subsection \<open>Mapping the tokens back\<close>

text \<open>A text in which nothing looks like the beginning of a token.\<close>

definition tokenless :: "string \<Rightarrow> bool" where
  "tokenless s \<longleftrightarrow> \<not> contains_str ''[ip-'' s \<and> \<not> contains_str ''[host-'' s"

lemma contains_str_Cons: "contains_str p (c # s) \<longleftrightarrow> starts_with p (c # s) \<or> contains_str p s"
  by (simp add: contains_str_def)

lemma tokenless_suffix: "tokenless (u @ s) \<Longrightarrow> tokenless s"
  by (induction u) (auto simp: tokenless_def contains_str_Cons)

lemma token_in_tokenless: "is_token t \<Longrightarrow> tokenless (c # s) \<Longrightarrow> \<not> starts_with t (c # s)"
  by (erule token_shape) (auto simp: tokenless_def contains_str_Cons starts_with_prefix)

lemma shown_prefix:
  assumes "standing R xs" and "CHR ''['' \<notin> set x" and "starts_with x (shown S xs)"
  shows "starts_with x (shown UNIV xs)"
  using assms
proof (induction S xs arbitrary: x rule: shown.induct)
  case (2 S c xs)
  then show ?case by (cases x) (auto simp: standing_Cons)
next
  case (3 S t u xs)
  show ?case
  proof (cases "t \<in> S")
    case True
    then obtain r where r: "u @ shown S xs = x @ r" using 3(4) by (auto simp: starts_with_prefix)
    then consider v where "u = x @ v" | v where "x = u @ v" "shown S xs = v @ r"
      by (auto simp: append_eq_append_conv2)
    then show ?thesis
    proof cases
      case 2
      then have "starts_with v (shown UNIV xs)" using 3(1) [of v] 3(2,3) by (auto simp: standing_Cons starts_with_prefix)
      then show ?thesis using 2 by (auto simp: starts_with_prefix)
    qed (auto simp: starts_with_prefix)
  next
    case False
    have "is_token t" using 3(2) by (simp add: standing_Cons)
    then obtain w where "t = CHR ''['' # w" by (rule token_shape) auto
    then have "x = []" using 3(3,4) False by (cases x) auto
    then show ?thesis by simp
  qed
qed simp

lemma replace_lit_skip: "CHR ''['' \<notin> set u \<Longrightarrow> replace_lit (CHR ''['' # w) v (u @ s) = u @ replace_lit (CHR ''['' # w) v s"
  by (induction u) auto

lemma token_unlike:
  assumes "is_token t" and "is_token t'" and "starts_with t (t' @ s)"
  shows "t = t'"
proof -
  obtain w where w: "t = CHR ''['' # w @ '']''" "CHR '']'' \<notin> set w" using assms(1) by (rule token_shape)
  obtain w' where w': "t' = CHR ''['' # w' @ '']''" "CHR '']'' \<notin> set w'" using assms(2) by (rule token_shape)
  from assms(3) obtain r where "w @ CHR '']'' # r = w' @ CHR '']'' # s" unfolding w w' by (auto simp: starts_with_prefix)
  then have "takeWhile (\<lambda>c. c \<noteq> CHR '']'') (w @ CHR '']'' # r) = takeWhile (\<lambda>c. c \<noteq> CHR '']'') (w' @ CHR '']'' # s)" by simp
  moreover have "takeWhile (\<lambda>c. c \<noteq> CHR '']'') (v @ CHR '']'' # x) = v" if "CHR '']'' \<notin> set v" for v x
    using that by (induction v) auto
  ultimately have "w = w'" using w(2) w'(2) by simp
  then show ?thesis using w w' by simp
qed

lemma restore_one:
  assumes "standing R xs" and "tokenless (shown UNIV xs)" and "distinct (map fst R)" and "(t, u) \<in> set R" and "is_token t" and "t \<notin> S"
  shows "replace_lit t u (shown S xs) = shown (insert t S) xs"
  using assms(1,2,6)
proof (induction S xs rule: shown.induct)
  case (2 S c xs)
  obtain w where w: "t = CHR ''['' # w @ '']''" "CHR ''['' \<notin> set w" using assms(5) by (rule token_shape)
  have "\<not> starts_with t (c # shown S xs)"
  proof
    assume s: "starts_with t (c # shown S xs)"
    have nb: "CHR ''['' \<notin> set (w @ '']'')" using w(2) by simp
    have "standing R xs" "starts_with (w @ '']'') (shown S xs)" using 2(2) s unfolding w(1) by (simp_all add: standing_Cons)
    then have "starts_with (w @ '']'') (shown UNIV xs)" using shown_prefix [OF _ nb] by blast
    then have "starts_with t (c # shown UNIV xs)" using s unfolding w(1) by simp
    then show False using token_in_tokenless [OF assms(5)] 2(3) by simp
  qed
  then show ?case using 2 tokenless_suffix [of "[c]"] by (simp add: standing_Cons)
next
  case (3 S t' u' xs)
  obtain w where w: "t = CHR ''['' # w @ '']''" "CHR ''['' \<notin> set w" using assms(5) by (rule token_shape)
  have t': "(t', u') \<in> set R" "is_token t'" "CHR ''['' \<notin> set u'" "standing R xs" using 3(2) by (auto simp: standing_Cons)
  have IH: "replace_lit t u (shown S xs) = shown (insert t S) xs" using 3 t'(4) tokenless_suffix by auto
  show ?case
  proof (cases "t' \<in> S")
    case True
    then show ?thesis using IH t'(3) by (simp add: w(1) replace_lit_skip)
  next
    case False
    show ?thesis
    proof (cases "t' = t")
      case True
      then have "u' = u" using assms(3,4) t'(1) by (metis eq_key_imp_eq_value)
      moreover obtain x where "t @ shown S xs = CHR ''['' # x" using w(1) by simp
      moreover have "replace_lit t u (t @ shown S xs) = u @ replace_lit t u (shown S xs)"
        using starts_with_append [of t "shown S xs"] by (simp add: w(1))
      ultimately show ?thesis using IH True False by simp
    next
      case other: False
      then have no: "\<not> starts_with t (t' @ shown S xs)" using token_unlike [OF assms(5) t'(2)] by blast
      obtain w' where w': "t' = CHR ''['' # w' @ '']''" "CHR ''['' \<notin> set w'" using t'(2) by (rule token_shape)
      have "replace_lit t u (t' @ shown S xs) = CHR ''['' # replace_lit t u ((w' @ '']'') @ shown S xs)"
        using no by (simp add: w'(1))
      also have "\<dots> = t' @ replace_lit t u (shown S xs)" using w'(2) by (simp add: w(1) replace_lit_skip [of "w' @ '']''", simplified] w'(1))
      finally show ?thesis using IH False other by simp
    qed
  qed
qed simp

lemma shown_cong: "(\<And>t u. Tok t u \<in> set xs \<Longrightarrow> t \<in> S \<longleftrightarrow> t \<in> S') \<Longrightarrow> shown S xs = shown S' xs"
  by (induction S xs rule: shown.induct) auto

lemma restore_all:
  assumes "standing R xs" and "tokenless (shown UNIV xs)" and "distinct (map fst R)" and "\<forall>(t, u) \<in> set R. is_token t"
  shows "restoreText (shown {} xs) R = shown UNIV xs"
proof -
  have "fold (\<lambda>(t, u) out. replace_lit t u out) Q (shown S xs) = shown (fst ` set Q \<union> S) xs"
    if "set Q \<subseteq> set R" "distinct (map fst Q)" "fst ` set Q \<inter> S = {}" for Q S
    using that
  proof (induction Q arbitrary: S)
    case (Cons q Q)
    obtain t u where q: "q = (t, u)" by fastforce
    have "replace_lit t u (shown S xs) = shown (insert t S) xs"
      using restore_one [OF assms(1-3)] Cons(2,4) q assms(4) by auto
    moreover have "fold (\<lambda>(t, u) out. replace_lit t u out) Q (shown (insert t S) xs) = shown (fst ` set Q \<union> insert t S) xs"
      using Cons(2-4) q by (intro Cons(1)) auto
    ultimately show ?case using q by (simp add: insert_commute)
  qed simp
  from this [of R "{}"] assms(3) have "restoreText (shown {} xs) R = shown (fst ` set R) xs" by (simp add: restoreText_def)
  moreover have "shown (fst ` set R) xs = shown UNIV xs"
    by (rule shown_cong) (use assms(1) in \<open>force simp: standing_def\<close>)
  ultimately show ?thesis by simp
qed

subsection \<open>A context is the list of its texts\<close>

definition part_texts :: "json \<Rightarrow> string list" where
  "part_texts p = (case text_part p of None \<Rightarrow> [] | Some t \<Rightarrow> [t])"

definition content_texts :: "json \<Rightarrow> string list" where
  "content_texts v = (case v of JStr t \<Rightarrow> [t] | JArr ps \<Rightarrow> concat (map part_texts ps) | _ \<Rightarrow> [])"

definition context_texts :: "llm_context \<Rightarrow> string list" where
  "context_texts c = (case ctx_system c of None \<Rightarrow> [] | Some ts \<Rightarrow> ts) @ concat (map (\<lambda>m. content_texts (field ''content'' m)) (ctx_messages c))"

lemma field_set_field: "field j (set_field k v p) = (if j = k then v else field j (case p of JObj kvs \<Rightarrow> p | _ \<Rightarrow> JObj []))"
  by (auto simp: field_def set_field_def update_conv' split: json.splits)

lemma text_part_set: "text_part p = Some t \<Longrightarrow> text_part (set_field ''text'' (JStr u) p) = Some u"
  by (cases p) (auto simp: text_part_def field_set_field as_string_def set_field_def [of _ _ "JObj _"] field_def update_conv' split: if_splits)

lemma map_state_append:
  "map_state f (xs @ ys) a = (let (us, a1) = map_state f xs a; (vs, a2) = map_state f ys a1 in (us @ vs, a2))"
  by (induction xs arbitrary: a) (auto simp: split_def Let_def)

lemma map_state_flat:
  assumes "\<And>x a y a'. g x a = (y, a') \<Longrightarrow> map_state f (h x) a = (h y, a')" and "map_state g xs a = (ys, a')"
  shows "map_state f (concat (map h xs)) a = (concat (map h ys), a')"
  using assms(2)
proof (induction xs arbitrary: a ys)
  case (Cons x xs)
  obtain y a1 where y: "g x a = (y, a1)" by fastforce
  obtain zs where zs: "map_state g xs a1 = (zs, a')" "ys = y # zs" using Cons(2) y by (auto split: prod.splits)
  from Cons(1) [OF zs(1)] assms(1) [OF y] show ?case by (simp add: map_state_append zs(2))
qed simp

lemma part_is_flat: "scrub_part f p a = (q, a') \<Longrightarrow> map_state f (part_texts p) a = (part_texts q, a')"
  by (auto simp: scrub_part_def part_texts_def text_part_set split_def Let_def split: option.splits)

lemma content_is_flat:
  assumes "scrubContent f v a = (w, a')"
  shows "map_state f (content_texts v) a = (content_texts w, a')"
proof (cases v)
  case (JArr ps)
  then obtain qs where qs: "map_state (scrub_part f) ps a = (qs, a')" "w = JArr qs" using assms by (auto simp: scrubContent_def split: prod.splits)
  from map_state_flat [OF part_is_flat qs(1)] show ?thesis using JArr qs(2) by (simp add: content_texts_def)
qed (use assms in \<open>auto simp: scrubContent_def content_texts_def split_def Let_def\<close>)

lemma message_is_flat:
  "scrub_message f m a = (m', a') \<Longrightarrow> map_state f (content_texts (field ''content'' m)) a = (content_texts (field ''content'' m'), a')"
proof -
  assume "scrub_message f m a = (m', a')"
  then obtain w where "scrubContent f (field ''content'' m) a = (w, a')" "m' = set_field ''content'' w m"
    by (auto simp: scrub_message_def split: prod.splits)
  then show ?thesis using content_is_flat by (simp add: field_set_field)
qed

lemma context_is_flat:
  assumes "scrub_context f c a = (c', a')"
  shows "map_state f (context_texts c) a = (context_texts c', a')"
proof -
  obtain p a1 where p: "scrub_system f (ctx_system c) a = (p, a1)" by fastforce
  obtain ms where ms: "map_state (scrub_message f) (ctx_messages c) a1 = (ms, a')" "c' = c\<lparr>ctx_system := p, ctx_messages := ms\<rparr>"
    using assms p by (auto simp: scrub_context_def split: prod.splits)
  have "map_state f (case ctx_system c of None \<Rightarrow> [] | Some ts \<Rightarrow> ts) a = ((case p of None \<Rightarrow> [] | Some ts \<Rightarrow> ts), a1)"
    using p by (auto simp: scrub_system_def split_def Let_def split: option.splits)
  with map_state_flat [OF message_is_flat ms(1)] show ?thesis by (simp add: context_texts_def map_state_append ms(2))
qed

lemma map_state_snd: "snd (map_state f xs a) = fold (\<lambda>x a. snd (f x a)) xs a"
  by (induction xs arbitrary: a) (auto simp: split_def Let_def)

lemma length_map_state: "map_state f xs a = (ys, a') \<Longrightarrow> length ys = length xs"
  by (induction xs arbitrary: a ys) (auto split: prod.splits)

end
