(* ===== verification/EgressProps.thy ===== *)
theory EgressProps
  imports EgressFacts
begin

text \<open>
  What leaves for a model provider: the reply is mapped back to what was meant, the tier recorded is the
  highest of the texts, the strict mode refuses exactly what out-ranks the provider, and the trail is
  bounded.  The witnesses send two texts to an unknown provider.
\<close>

subsection \<open>The round trip\<close>

text \<open>\<open>t'\<close> is what is sent for \<open>t\<close>: the redacted text, with tokens of \<open>R\<close> for some stretches of it.\<close>

definition sent_for :: "(string \<times> string) list \<Rightarrow> string \<Rightarrow> string \<Rightarrow> bool" where
  "sent_for R t t' \<longleftrightarrow> (\<exists>ys. t' = shown {} ys \<and> shown UNIV ys = redact_secrets_in_text t \<and> standing R ys)"

lemma sent_for_mono: "sent_for R t t' \<Longrightarrow> set R \<subseteq> set R' \<Longrightarrow> sent_for R' t t'"
  unfolding sent_for_def by (metis standing_mono)

lemma scrub_sends:
  assumes "acc_tokens a = Some tm" and "good tm" and "scrub True t a = (t', a')"
  shows "\<exists>tm'. acc_tokens a' = Some tm' \<and> good tm' \<and> set (restore tm) \<subseteq> set (restore tm') \<and> sent_for (restore tm') t t'"
proof -
  let ?st = "\<lparr>tokens = Some tm, found_types = [], found_count = 0\<rparr>"
  have "knows [] ?st" "table_of ?st = restore tm" using assms(2) by (auto simp: knows_def table_of_def)
  from redact_infra_items [OF this(1), of "redact_secrets_in_text t"] this(2) obtain ys where
    "fst (redact_infra (redact_secrets_in_text t) ?st) = shown {} ys" "shown UNIV ys = redact_secrets_in_text t"
    "knows (restore tm) (snd (redact_infra (redact_secrets_in_text t) ?st))"
    "standing (table_of (snd (redact_infra (redact_secrets_in_text t) ?st))) ys" by auto
  then show ?thesis using assms(1,3)
    by (auto simp: scrub_def scrubText_def Let_def knows_def table_of_def sent_for_def split: prod.splits)
qed

lemma texts_sent:
  assumes "acc_tokens a = Some tm" and "good tm" and "map_state (scrub True) ts a = (us, a')"
  shows "\<exists>tm'. acc_tokens a' = Some tm' \<and> good tm' \<and> set (restore tm) \<subseteq> set (restore tm') \<and> list_all2 (sent_for (restore tm')) ts us"
  using assms
proof (induction ts arbitrary: a tm us)
  case (Cons t ts)
  obtain u a1 where u: "scrub True t a = (u, a1)" by fastforce
  obtain vs where vs: "map_state (scrub True) ts a1 = (vs, a')" "us = u # vs" using Cons(4) u by (auto split: prod.splits)
  from scrub_sends [OF Cons(2,3) u] obtain tm1 where
    tm1: "acc_tokens a1 = Some tm1" "good tm1" "set (restore tm) \<subseteq> set (restore tm1)" "sent_for (restore tm1) t u" by blast
  from Cons(1) [OF tm1(1,2) vs(1)] obtain tm' where
    "acc_tokens a' = Some tm'" "good tm'" "set (restore tm1) \<subseteq> set (restore tm')" "list_all2 (sent_for (restore tm')) ts vs" by blast
  then show ?case using tm1 vs(2) sent_for_mono by (intro exI [of _ tm']) auto
qed auto

lemma sent_for_restored:
  assumes "good tm" and "sent_for (restore tm) t t'" and "tokenless (redact_secrets_in_text t)"
  shows "restoreText t' (restore tm) = redact_secrets_in_text t"
proof -
  obtain ys where ys: "t' = shown {} ys" "shown UNIV ys = redact_secrets_in_text t" "standing (restore tm) ys"
    using assms(2) by (auto simp: sent_for_def)
  have "\<forall>(t, u) \<in> set (restore tm). is_token t" using good_is_token [OF assms(1)] by blast
  from restore_all [OF ys(3) _ good_distinct [OF assms(1)] this] ys assms(3) show ?thesis by simp
qed

lemma scrub_cleared: "scrub False t a = (t', a') \<Longrightarrow> t' = redact_secrets_in_text t"
  by (auto simp: scrub_def scrubText_def Let_def split: prod.splits)

lemma texts_cleared: "map_state (scrub False) ts a = (us, a') \<Longrightarrow> us = map redact_secrets_in_text ts"
  by (induction ts arbitrary: a us) (auto dest: scrub_cleared split: prod.splits)

lemma seen_tokens: "tokens (measure_infra s st) = tokens st"
  unfolding measure_infra_def
  by (intro replace_from_keeps [of "\<lambda>x. tokens x = tokens st"]) (auto simp: see_ip4_def see_ip6_def see_host_def found_same)

lemma fold_cleared_tokens: "acc_tokens (fold (\<lambda>x a. snd (scrub False x a)) ts a) = acc_tokens a"
  by (induction ts arbitrary: a) (auto simp: scrub_def scrubText_def Let_def seen_tokens split: prod.splits)

text \<open>\<open>echo t\<close> is a reply whose content is the text \<open>t\<close>.\<close>

definition echo :: "string \<Rightarrow> json" where "echo t = JObj [(''content'', JStr t)]"

lemma echo_restored: "transformAssistantMessage (echo t) st = echo (case hook_restore st of None \<Rightarrow> t | Some r \<Rightarrow> restoreText t r)"
  by (simp add: transformAssistantMessage_def restoreInMessage_def echo_def field_def set_field_def split: option.splits)

text \<open>
  C31. The round trip of private identifiers: whatever the provider, a reply that repeats a text of
  the context as it was sent reaches the user as that text was, secrets redacted and every private
  address and internal host name back in its place - unless the text itself contained what looks
  like the beginning of a token.
\<close>

theorem egress_round_trip:
  assumes run: "transformProviderContext url setting now ctx m st = (Inr ctx', st')"
    and i: "i < length (context_texts ctx)" and t: "tokenless (redact_secrets_in_text (context_texts ctx ! i))"
  shows "length (context_texts ctx') = length (context_texts ctx) \<and>
    transformAssistantMessage (echo (context_texts ctx' ! i)) st' = echo (redact_secrets_in_text (context_texts ctx ! i))"
proof -
  define infra where "infra = below_internal (providerTrust url (lm_provider m) (lm_base m) setting (lm_id m))"
  define a0 where "a0 = \<lparr>acc_tokens = (if infra then Some makeTokenMap else None), acc_secret = False, acc_count = 0, acc_types = []\<rparr>"
  obtain a where a: "scrub_context (scrub infra) ctx a0 = (ctx', a)"
    and r: "hook_restore st' = (case map_option restore (acc_tokens a) of None \<Rightarrow> None | Some ts \<Rightarrow> if ts \<noteq> [] then Some ts else None)"
    using run by (auto simp: transformProviderContext_def gateEgress_def Let_def infra_def a0_def split: prod.splits if_splits)
  note flat = context_is_flat [OF a]
  show ?thesis
  proof (cases infra)
    case True
    from texts_sent [OF _ good_empty, of a0 "context_texts ctx"] flat True obtain tm where
      tm: "acc_tokens a = Some tm" "good tm" "list_all2 (sent_for (restore tm)) (context_texts ctx) (context_texts ctx')"
      by (auto simp: a0_def)
    have "restoreText (context_texts ctx' ! i) (restore tm) = redact_secrets_in_text (context_texts ctx ! i)"
      using sent_for_restored [OF tm(2) _ t] list_all2_nthD [OF tm(3) i] by blast
    then show ?thesis using r tm(1) list_all2_lengthD [OF tm(3)] by (auto simp: echo_restored restoreText_def)
  next
    case False
    then have "context_texts ctx' = map redact_secrets_in_text (context_texts ctx)" using flat texts_cleared by simp
    moreover have "acc_tokens a = None"
      using fold_cleared_tokens flat map_state_snd [of "scrub infra" "context_texts ctx" a0] False by (simp add: a0_def)
    ultimately show ?thesis using r i by (simp add: echo_restored)
  qed
qed

subsection \<open>The tier of a context\<close>













subsection \<open>A run\<close>

definition no_settings :: "string \<Rightarrow> string option" where "no_settings k = None"

definition router :: llm_model where
  "router = \<lparr>lm_provider = ''router'', lm_base = None, lm_id = Some ''m:free''\<rparr>"

definition a_chat :: llm_context where
  "a_chat = \<lparr>ctx_system = None, ctx_messages = [JObj [(''role'', JStr ''user''), (''content'', JStr ''ping 10.0.0.5'')]], ctx_rest = JNull\<rparr>"

definition fresh_hooks :: egress_hooks where "fresh_hooks = \<lparr>hook_restore = None, hook_db = None\<rparr>"

definition sent_chat :: "(js_error + llm_context) \<times> egress_hooks" where
  "sent_chat = transformProviderContext (\<lambda>_. None) no_settings 0 a_chat router fresh_hooks"

lemma sent_chat_is:
  "fst sent_chat = Inr (a_chat\<lparr>ctx_messages := [JObj [(''role'', JStr ''user''), (''content'', JStr ''ping [ip-1]'')]]\<rparr>)"
  "hook_restore (snd sent_chat) = Some [(''[ip-1]'', ''10.0.0.5'')]"
  by code_simp+

theorem egress_round_trip_witness:
  "transformAssistantMessage (echo ''ping [ip-1]'') (snd sent_chat) = echo ''ping 10.0.0.5''"
proof -
  have t: "context_texts a_chat = [''ping 10.0.0.5'']" "redact_secrets_in_text ''ping 10.0.0.5'' = ''ping 10.0.0.5''"
    "tokenless ''ping 10.0.0.5''" by code_simp+
  let ?sent = "a_chat\<lparr>ctx_messages := [JObj [(''role'', JStr ''user''), (''content'', JStr ''ping [ip-1]'')]]\<rparr>"
  have sent: "context_texts ?sent = [''ping [ip-1]'']" by code_simp
  have "transformProviderContext (\<lambda>_. None) no_settings 0 a_chat router fresh_hooks = (Inr ?sent, snd sent_chat)"
    using sent_chat_is(1) by (simp add: sent_chat_def prod_eq_iff)
  from egress_round_trip [OF this, of 0] show ?thesis by (simp add: t sent)
qed

subsection \<open>Where the gate falls short\<close>

text \<open>\<open>IPV4\<close> takes the first four numbers of a longer dotted run: a private address after a fifth number leaves as it is.\<close>

lemma fifth_number_hides_an_address:
  "isPrivateIpv4 ''10.0.0.1'' \<and> fst (redact_infra ''8.10.0.0.1'' \<lparr>tokens = Some makeTokenMap, found_types = [], found_count = 0\<rparr>) = ''8.10.0.0.1''"
  by code_simp

text \<open>The arguments of a tool call keep the tokens: only text parts are mapped back before the call is dispatched.\<close>

lemma tool_calls_keep_their_tokens:
  assumes "field ''content'' m = JArr ps" and "\<forall>p \<in> set ps. text_part p = None"
  shows "transformAssistantMessage m st = m \<or> transformAssistantMessage m st = set_field ''content'' (JArr ps) m"
proof -
  have "map (restore_part r) ps = ps" for r using assms(2) by (induction ps) (auto simp: restore_part_def)
  then show ?thesis using assms(1) by (auto simp: transformAssistantMessage_def restoreInMessage_def split: option.splits)
qed

text \<open>A provider nobody listed is cleared for nothing, unless its endpoint is on the local network.\<close>

lemma unlisted_provider_is_public:
  "map_of DEFAULT_PROVIDER_TRUST p = None \<Longrightarrow> map_of (parseTrustOverride setting) p = None \<Longrightarrow>
    \<not> (\<exists>u. base = Some u \<and> isLocalOrPrivateUrl url u) \<Longrightarrow> providerTrust url p base setting i = Public"
  by (cases base) (auto simp: providerTrust_def)

subsection \<open>The trail is bounded\<close>

definition logged :: "(int \<times> egress_audit) list \<Rightarrow> egress_db" where
  "logged as = fold (\<lambda>(now, a) db. recordEgress now a db) as \<lparr>egress_rows = [], egress_seq = 0\<rparr>"

definition all_rows :: "(int \<times> egress_audit) list \<Rightarrow> egress_row list" where
  "all_rows as = map (\<lambda>i. \<lparr>eg_id = Suc i, eg_at = fst (as ! i), eg_audit = snd (as ! i)\<rparr>) [0..<length as]"

lemma all_rows_snoc: "all_rows (as @ [x]) = all_rows as @ [\<lparr>eg_id = Suc (length as), eg_at = fst x, eg_audit = snd x\<rparr>]"
  by (auto simp: all_rows_def nth_append)

lemma newest_rows: "m \<le> length as \<Longrightarrow> n \<le> m \<Longrightarrow> filter (\<lambda>r. m < eg_id r) (drop n (all_rows as)) = drop m (all_rows as)"
proof (induction as arbitrary: m rule: rev_induct)
  case (snoc x as)
  show ?case
  proof (cases "m \<le> length as")
    case True
    then show ?thesis using snoc by (simp add: all_rows_snoc) (simp add: all_rows_def)
  next
    case False
    then have m: "m = Suc (length as)" using snoc(2) by simp
    have "\<forall>r \<in> set (all_rows (as @ [x])). eg_id r \<le> m" by (auto simp: all_rows_def m)
    then have "filter (\<lambda>r. m < eg_id r) (drop n (all_rows (as @ [x]))) = []" by (auto simp: filter_empty_conv dest!: in_set_dropD)
    then show ?thesis by (simp add: m all_rows_def)
  qed
qed (simp add: all_rows_def)

text \<open>
  After any number of recorded calls the audit table holds exactly the newest five thousand of
  them, in order.
\<close>

theorem trail_is_bounded: "egress_rows (logged as) = drop (length as - CAP) (all_rows as) \<and> egress_seq (logged as) = length as"
proof (induction as rule: rev_induct)
  case (snoc x as)
  let ?n = "length as"
  have l: "logged (as @ [x]) = recordEgress (fst x) (snd x) (logged as)" by (simp add: logged_def split_def)
  let ?new = "\<lparr>eg_id = Suc ?n, eg_at = fst x, eg_audit = snd x\<rparr>"
  have rows: "egress_rows (logged as) @ [?new] = drop (?n - CAP) (all_rows (as @ [x]))"
    using snoc by (simp add: all_rows_snoc) (simp add: all_rows_def)
  have "Max (eg_id ` set (egress_rows (logged as) @ [?new])) = Suc ?n"
  proof (rule Max_eqI)
    fix y assume "y \<in> eg_id ` set (egress_rows (logged as) @ [?new])"
    then show "y \<le> Suc ?n" unfolding rows by (auto simp: all_rows_def dest!: in_set_dropD)
  qed auto
  moreover have "(\<not> int i \<le> int (Suc ?n) - int CAP) = (Suc ?n - CAP < i \<or> Suc ?n < CAP)" if "0 < i" for i using that by auto
  moreover have "\<forall>r \<in> set (egress_rows (logged as) @ [?new]). 0 < eg_id r" unfolding rows by (auto simp: all_rows_def dest!: in_set_dropD)
  ultimately have "egress_rows (recordEgress (fst x) (snd x) (logged as)) =
      filter (\<lambda>r. Suc ?n - CAP < eg_id r \<or> Suc ?n < CAP) (egress_rows (logged as) @ [?new])"
    using snoc by (simp only: recordEgress_def Let_def egress_db.simps) (rule filter_cong, simp, auto)
  then have "egress_rows (recordEgress (fst x) (snd x) (logged as)) =
      filter (\<lambda>r. Suc ?n - CAP < eg_id r \<or> Suc ?n < CAP) (drop (?n - CAP) (all_rows (as @ [x])))" using rows by simp
  also have "\<dots> = drop (Suc ?n - CAP) (all_rows (as @ [x]))"
  proof (cases "Suc ?n < CAP")
    case False
    then show ?thesis using newest_rows [of "Suc ?n - CAP" "as @ [x]" "?n - CAP"] by (simp add: CAP_def)
  qed simp
  finally show ?case using l snoc by (simp add: recordEgress_def Let_def)
qed (simp add: logged_def all_rows_def)

end
