(* ===== verification/Stacks.thy ===== *)
theory Stacks
  imports Inventory Engine FileKinds
begin

text \<open>
  Managed compose stacks: the registry (\<open>apps/mirod/src/stacks/store.ts\<close>) and the operation kinds
  \<open>stack.deploy\<close>, \<open>stack.control\<close>, \<open>stack.update\<close> (\<open>apps/mirod/src/operations/kinds/\<close>).  The commands
  act on the disk and on whatever else the server holds; the YAML parser, the clock and waiting are
  parameters.  \<open>issued\<close> records the commands that were run, the probes of the compose CLI included.
\<close>

subsection \<open>The registry\<close>

datatype stack_status = Running | Stopped

record managed_stack =
  st_app :: string
  st_dir :: string
  composePath :: string
  st_status :: stack_status
  recipeId :: "string option"
  st_created :: int
  st_updated :: int

definition getStack :: "string \<Rightarrow> managed_stack list \<Rightarrow> managed_stack option" where
  "getStack app rows = List.find (\<lambda>r. st_app r = app) rows"

text \<open>\<open>COALESCE(excluded.recipe_id, managed_stacks.recipe_id)\<close>: a recipe once known is kept.\<close>

definition upsertStack ::
    "int \<Rightarrow> string \<Rightarrow> string \<Rightarrow> string \<Rightarrow> stack_status \<Rightarrow> string option \<Rightarrow> managed_stack list \<Rightarrow> managed_stack list" where
  "upsertStack t app dir path status recipe rows =
     (if getStack app rows = None
      then rows @ [\<lparr>st_app = app, st_dir = dir, composePath = path, st_status = status, recipeId = recipe, st_created = t, st_updated = t\<rparr>]
      else map (\<lambda>r. if st_app r = app
          then r\<lparr>st_dir := dir, composePath := path, st_status := status,
                 recipeId := (case recipe of None \<Rightarrow> recipeId r | Some x \<Rightarrow> Some x), st_updated := t\<rparr> else r) rows)"

definition setStackStatus :: "int \<Rightarrow> string \<Rightarrow> stack_status \<Rightarrow> managed_stack list \<Rightarrow> managed_stack list" where
  "setStackStatus t app status rows = map (\<lambda>r. if st_app r = app then r\<lparr>st_status := status, st_updated := t\<rparr> else r) rows"

definition listStacks :: "managed_stack list \<Rightarrow> managed_stack list" where
  "listStacks rows = sort_key st_app rows"

definition removeStack :: "string \<Rightarrow> managed_stack list \<Rightarrow> managed_stack list" where
  "removeStack app rows = filter (\<lambda>r. st_app r \<noteq> app) rows"

subsection \<open>The server\<close>

record 's docker_host =
  disk_of :: disk
  rest_of :: 's

record 's stack_host =
  docker :: "'s docker_host shell"
  fs_host :: host
  box_clock :: "'s docker_host \<Rightarrow> int"
  nap :: "int \<Rightarrow> 's docker_host \<Rightarrow> 's docker_host"
  yaml_parse :: "string \<Rightarrow> js_error + json"

record 's stack_state =
  dk :: "'s docker_host"
  stacks :: "managed_stack list"
  issued :: "string list list"

definition priv :: "'s stack_host \<Rightarrow> string list \<Rightarrow> 's stack_state \<Rightarrow> (js_error + string) \<times> 's stack_state" where
  "priv h args st = (let (r, d) = runPrivileged (docker h) args (dk st) in (r, st\<lparr>dk := d, issued := issued st @ [args]\<rparr>))"

definition exists_command :: "'s stack_host \<Rightarrow> string \<Rightarrow> 's stack_state \<Rightarrow> bool \<times> 's stack_state" where
  "exists_command h c st = (let (b, d) = has_command (docker h) c (dk st) in (b, st\<lparr>dk := d\<rparr>))"

definition on_disk :: "(disk \<Rightarrow> 'a \<times> disk) \<Rightarrow> 's stack_state \<Rightarrow> 'a \<times> 's stack_state" where
  "on_disk f st = (let (r, d) = f (disk_of (dk st)) in (r, st\<lparr>dk := (dk st)\<lparr>disk_of := d\<rparr>\<rparr>))"

definition with_stacks :: "(managed_stack list \<Rightarrow> managed_stack list) \<Rightarrow> 's stack_state \<Rightarrow> 's stack_state" where
  "with_stacks f st = st\<lparr>stacks := f (stacks st)\<rparr>"

definition disk_now :: "'s stack_state \<Rightarrow> disk" where "disk_now st = disk_of (dk st)"

definition time_now :: "'s stack_host \<Rightarrow> 's stack_state \<Rightarrow> int" where "time_now h st = box_clock h (dk st)"

definition wait_for :: "'s stack_host \<Rightarrow> int \<Rightarrow> 's stack_state \<Rightarrow> 's stack_state" where
  "wait_for h ms st = st\<lparr>dk := nap h ms (dk st)\<rparr>"

definition STACKS_ROOT :: string where "STACKS_ROOT = ''/var/lib/miro/stacks''"

definition APP_RE :: rex where
  "APP_RE = seq [Bol, Cls (\<lambda>c. is_lower c \<or> is_digit c), between 0 62 (Cls (\<lambda>c. is_lower c \<or> is_digit c \<or> c = CHR ''_'' \<or> c = CHR ''-'')), Eol]"

definition dirFor :: "string \<Rightarrow> string" where "dirFor app = path_join [STACKS_ROOT, app]"
definition composeFor :: "string \<Rightarrow> string" where "composeFor app = path_join [dirFor app, ''compose.yaml'']"

definition resolveCompose :: "'s stack_host \<Rightarrow> 's stack_state \<Rightarrow> string list option \<times> 's stack_state" where
  "resolveCompose h st =
     (case priv h [''docker'', ''compose'', ''version''] st of
        (Inr _, st1) \<Rightarrow> (Some [''docker'', ''compose''], st1)
      | (Inl _, st1) \<Rightarrow> (case exists_command h ''docker-compose'' st1 of
            (True, st2) \<Rightarrow> (Some [''docker-compose''], st2) | (False, st2) \<Rightarrow> (None, st2)))"

definition project_filter :: "string \<Rightarrow> string" where
  "project_filter app = ''label=com.docker.compose.project='' @ app"

definition projectRunning :: "'s stack_host \<Rightarrow> string \<Rightarrow> 's stack_state \<Rightarrow> nat \<times> 's stack_state" where
  "projectRunning h app st =
     (let (r, st1) = priv h [''docker'', ''ps'', ''--filter'', project_filter app, ''--filter'', ''status=running'', ''-q''] st
      in (length (lines_of (case r of Inl _ \<Rightarrow> [] | Inr out \<Rightarrow> out)), st1))"

subsection \<open>The scan of a compose file\<close>

definition array_of :: "json \<Rightarrow> json list" where
  "array_of v = (case v of JArr vs \<Rightarrow> vs | _ \<Rightarrow> [])"

text \<open>\<open>Object.entries\<close>.\<close>

definition entries_of :: "json \<Rightarrow> (string \<times> json) list" where
  "entries_of v = (case v of JObj kvs \<Rightarrow> kvs | JArr vs \<Rightarrow> zip (map show_nat [0..<length vs]) vs | _ \<Rightarrow> [])"

definition is_object :: "json \<Rightarrow> bool" where
  "is_object v = (case v of JObj _ \<Rightarrow> True | JArr _ \<Rightarrow> True | _ \<Rightarrow> False)"

definition capability_re :: rex where "capability_re = seq [Bol, altsi [''SYS_ADMIN'', ''ALL''], Eol]"
definition docker_sock_re :: rex where "docker_sock_re = seq [lit ''docker.sock'', Eol]"
definition root_or_proc_re :: rex where "root_or_proc_re = seq [Bol, ch CHR ''/'', alts [''root'', ''proc''], slash_or_end]"

definition source_of :: "json \<Rightarrow> string option" where
  "source_of v = (case v of JStr s \<Rightarrow> Some (hd (split_on CHR '':'' s)) | _ \<Rightarrow> as_string (field ''source'' v))"

definition mount_refusal :: "string \<Rightarrow> string \<Rightarrow> string option" where
  "mount_refusal name src =
     (if src = ''/'' \<or> rtest docker_sock_re src
      then Some (''service '' @ [DQ] @ name @ [DQ] @ '' bind-mounts '' @ src @ '' - refused (full host / docker control)'')
      else if rtest root_or_proc_re src \<or> src = ''/var/lib/miro'' \<or> starts_with ''/var/lib/miro/'' src
      then Some (''service '' @ [DQ] @ name @ [DQ] @ '' bind-mounts '' @ src @ '' - refused (Miro state / secret material)'')
      else None)"

text \<open>A refusal returns with the binds seen so far.\<close>

fun scan_volumes :: "string \<Rightarrow> json list \<Rightarrow> string list \<Rightarrow> (string \<times> string list) + string list" where
  "scan_volumes name [] binds = Inr binds"
| "scan_volumes name (v # vs) binds =
     (case source_of v of
        None \<Rightarrow> scan_volumes name vs binds
      | Some src \<Rightarrow>
          if \<not> starts_with ''/'' src then scan_volumes name vs binds
          else case mount_refusal name src of
              Some m \<Rightarrow> Inl (m, binds @ [src])
            | None \<Rightarrow> scan_volumes name vs (binds @ [src]))"

definition caps_of :: "json \<Rightarrow> string list" where
  "caps_of svc = map js_string (array_of (field ''cap_add'' svc))"

definition privileged_names :: "string \<Rightarrow> json \<Rightarrow> string list" where
  "privileged_names name svc =
     (if field ''privileged'' svc = JBool True then [name] else []) @
     (if list_ex (rtest capability_re) (caps_of svc) then [name @ '' (cap '' @ join '','' (caps_of svc) @ '')''] else [])"

fun scan_services :: "(string \<times> json) list \<Rightarrow> string list \<Rightarrow> string list \<Rightarrow> (string \<times> string list) + string list \<times> string list" where
  "scan_services [] binds privileged = Inr (binds, privileged)"
| "scan_services ((name, svc) # ss) binds privileged =
     (case scan_volumes name (array_of (field ''volumes'' svc)) binds of
        Inl x \<Rightarrow> Inl x
      | Inr binds' \<Rightarrow> scan_services ss binds' (privileged @ privileged_names name svc))"

record compose_scan =
  refuse :: "string option"
  scan_binds :: "string list"
  serviceCount :: nat

definition scanCompose :: "(string \<Rightarrow> js_error + json) \<Rightarrow> string \<Rightarrow> compose_scan" where
  "scanCompose y text =
     (case y text of
        Inl e \<Rightarrow> \<lparr>refuse = Some (''compose is not valid YAML: '' @ error_message e), scan_binds = [], serviceCount = 0\<rparr>
      | Inr doc \<Rightarrow>
          (let services = field ''services'' doc; n = length (entries_of services)
           in if \<not> is_object services then \<lparr>refuse = Some ''compose has no services'', scan_binds = [], serviceCount = 0\<rparr>
              else case scan_services (entries_of services) [] [] of
                  Inl (m, binds) \<Rightarrow> \<lparr>refuse = Some m, scan_binds = binds, serviceCount = n\<rparr>
                | Inr (binds, privileged) \<Rightarrow>
                    if privileged \<noteq> []
                    then \<lparr>refuse = Some (''privileged/SYS_ADMIN service(s): '' @ join '', '' privileged @
                            '' - refused; a self-hosted app almost never needs this''), scan_binds = binds, serviceCount = n\<rparr>
                    else \<lparr>refuse = None, scan_binds = binds, serviceCount = n\<rparr>))"

subsection \<open>stack.deploy\<close>

definition app_of :: "json \<Rightarrow> string" where "app_of p = str_of ''app'' p"
definition compose_text :: "json \<Rightarrow> string" where "compose_text p = str_of ''compose'' p"

definition quoted :: "string \<Rightarrow> string" where "quoted s = [DQ] @ s @ [DQ]"

definition no_compose :: string where
  "no_compose = ''refused: a docker compose CLI is required (the v2 plugin '' @ [BQ] @ ''docker compose'' @ [BQ] @ '', or the v1 '' @ [BQ] @ ''docker-compose'' @ [BQ] @ '')''"

definition deploy_plan :: "json \<Rightarrow> compose_scan \<Rightarrow> bool \<Rightarrow> op_plan" where
  "deploy_plan p scan existed =
     (let app = app_of p; n = show_nat (serviceCount scan)
      in \<lparr>summary = (if existed then ''Redeploy'' else ''Deploy'') @ '' the '' @ quoted app @ '' stack ('' @ n @ '' service(s), ''
            @ show_nat (byte_length (compose_text p)) @ '' bytes of compose) under '' @ dirFor app,
          plan_auto = False,
          plan_details = [(''app'', JStr app), (''dir'', JStr (dirFor app)), (''services'', JNum (int (serviceCount scan))),
            (''binds'', JArr (map JStr (scan_binds scan))), (''compose'', JStr (compose_text p))],
          plan_class = Some Mutate, plan_writes = Some [dirFor app, ''/var/run/docker.sock''], plan_network = Some True, irreversible = False,
          plan_warning = (if scan_binds scan \<noteq> [] then Some (''host paths this stack bind-mounts: '' @ join '', '' (scan_binds scan)) else None),
          expects = Some (''the '' @ quoted app @ '' compose project'' @ [SQ] @ ''s '' @ n @ '' service(s) are running''),
          rollback_when = Some ''the services do not come up within the window - the stack is brought down (and removed if newly created)'',
          scope_evidence = Some (''the stack'' @ [SQ] @ ''s own dir + docker'' @ [SQ] @ ''s socket; the compose was scanned for privileged/host-mount shapes''),
          dry_run = Some Partial\<rparr>)"

definition deploy_describe :: "'s stack_host \<Rightarrow> json \<Rightarrow> 's stack_state \<Rightarrow> (js_error + op_plan) \<times> 's stack_state" where
  "deploy_describe h p st =
     (if \<not> rtest APP_RE (app_of p)
      then (Inl (an_error (''refused: '' @ quoted (app_of p) @ '' is not a valid app name (lowercase letters, digits, _ - only)'')), st)
      else case exists_command h ''docker'' st of
          (False, st1) \<Rightarrow> (Inl (an_error ''refused: docker is required to run a stack - install Docker first''), st1)
        | (True, st1) \<Rightarrow>
            (case resolveCompose h st1 of
               (None, st2) \<Rightarrow> (Inl (an_error no_compose), st2)
             | (Some _, st2) \<Rightarrow>
                 (let scan = scanCompose (yaml_parse h) (compose_text p)
                  in case refuse scan of
                       Some m \<Rightarrow> (Inl (an_error (''refused: '' @ m)), st2)
                     | None \<Rightarrow> (Inr (deploy_plan p scan (getStack (app_of p) (stacks st2) \<noteq> None \<or> exists_at (disk_now st2) (composeFor (app_of p)))), st2))))"

definition deploy_capture :: "'s stack_host \<Rightarrow> json \<Rightarrow> 's stack_state \<Rightarrow> (js_error + json) \<times> 's stack_state" where
  "deploy_capture h p st =
     (let existed = (getStack (app_of p) (stacks st) \<noteq> None); f = composeFor (app_of p)
      in (map_sum (\<lambda>e. e) (\<lambda>t. JObj [(''existed'', JBool existed), (''priorCompose'', json_text_or_null t)])
            (if exists_at (disk_now st) f then map_sum (\<lambda>e. e) Some (read_text (fs_host h) (disk_now st) f) else Inr None), st))"

definition compose_args :: "string list \<Rightarrow> string \<Rightarrow> string list \<Rightarrow> string list" where
  "compose_args cc app args = cc @ [''-p'', app, ''-f'', composeFor app] @ args"

text \<open>Without a compose CLI, spreading \<open>null\<close> throws, after the file has been written.\<close>

definition deploy_apply :: "'s stack_host \<Rightarrow> json \<Rightarrow> 's stack_state \<Rightarrow> (js_error + unit) \<times> 's stack_state" where
  "deploy_apply h p st =
     (let app = app_of p; (cc, st1) = resolveCompose h st
      in case on_disk (mkdir_p (fs_host h) (dirFor app)) st1 of
           (Inl e, st2) \<Rightarrow> (Inl e, st2)
         | (Inr _, st2) \<Rightarrow>
             (case on_disk (write_content (fs_host h) (composeFor app) (Plain (compose_text p)) default_mode) st2 of
                (Inl e, st3) \<Rightarrow> (Inl e, st3)
              | (Inr _, st3) \<Rightarrow>
                  (case cc of
                     None \<Rightarrow> (Inl (JsError ''TypeError'' ''null is not iterable''), st3)
                   | Some c \<Rightarrow>
                       (case priv h (compose_args c app [''up'', ''-d'']) st3 of
                          (Inl e, st4) \<Rightarrow> (Inl e, st4)
                        | (Inr _, st4) \<Rightarrow>
                            (Inr (), with_stacks (upsertStack (time_now h st4) app (dirFor app) (composeFor app) Running None) st4)))))"

text \<open>The poll, a turn for each look: enough of them, and how many looks there are, the clock decides.\<close>

fun poll_running :: "nat \<Rightarrow> 's stack_host \<Rightarrow> string \<Rightarrow> nat \<Rightarrow> int \<Rightarrow> 's stack_state \<Rightarrow> bool \<times> 's stack_state" where
  "poll_running 0 h app want deadline st = (False, st)"
| "poll_running (Suc n) h app want deadline st =
     (if \<not> time_now h st < deadline then (False, st)
      else let (k, st1) = projectRunning h app st
           in if want \<le> k then (True, st1) else poll_running n h app want deadline (wait_for h 3000 st1))"

definition wanted :: "'s stack_host \<Rightarrow> string \<Rightarrow> nat" where
  "wanted h text = (let n = serviceCount (scanCompose (yaml_parse h) text) in if n = 0 then 1 else n)"

definition deploy_verify :: "'s stack_host \<Rightarrow> json \<Rightarrow> 's stack_state \<Rightarrow> (js_error + bool) \<times> 's stack_state" where
  "deploy_verify h p st =
     (case read_text (fs_host h) (disk_now st) (composeFor (app_of p)) of
        Inl e \<Rightarrow> (Inl e, st)
      | Inr t \<Rightarrow> (let (b, st1) = poll_running 20 h (app_of p) (wanted h t) (time_now h st + 60000) st in (Inr b, st1)))"

text \<open>\<open>try { moveToTrash(trashDestination(dir)) } catch {}\<close>.\<close>

definition trash_dir_of :: "'s stack_host \<Rightarrow> string \<Rightarrow> 's stack_state \<Rightarrow> 's stack_state" where
  "trash_dir_of h app st =
     snd (on_disk (\<lambda>d. let (e, d1) = trashDestination (fs_host h) (dirFor app) d in moveToTrash (fs_host h) e d1) st)"

definition deploy_rollback :: "'s stack_host \<Rightarrow> json \<Rightarrow> json \<Rightarrow> 's stack_state \<Rightarrow> (js_error + unit) \<times> 's stack_state" where
  "deploy_rollback h p captured st =
     (let app = app_of p; (cc, st1) = resolveCompose h st;
          st2 = (case cc of None \<Rightarrow> st1 | Some c \<Rightarrow> snd (priv h (compose_args c app [''down'']) st1))
      in if field ''existed'' captured \<noteq> JBool True then (Inr (), trash_dir_of h app (with_stacks (removeStack app) st2))
         else case field ''priorCompose'' captured of
             JStr prior \<Rightarrow>
               (case on_disk (write_content (fs_host h) (composeFor app) (Plain prior) default_mode) st2 of
                  (Inl _, st3) \<Rightarrow> (Inr (), st3)
                | (Inr _, st3) \<Rightarrow> (Inr (), case cc of None \<Rightarrow> st3 | Some c \<Rightarrow> snd (priv h (compose_args c app [''up'', ''-d'']) st3)))
           | _ \<Rightarrow> (Inr (), st2))"

definition stackDeployKind :: "'s stack_host \<Rightarrow> 's stack_state kind" where
  "stackDeployKind h = \<lparr>kind_name = ''stack.deploy'', describe = deploy_describe h, captureState = deploy_capture h,
     apply_op = deploy_apply h, verify = deploy_verify h, rollback = deploy_rollback h,
     prodtest = Some (\<lambda>p. Some (''stack:'' @ app_of p)), kind_reconcile = None\<rparr>"

subsection \<open>stack.control\<close>

definition action_of :: "json \<Rightarrow> string" where "action_of p = str_of ''action'' p"

text \<open>\<open>compose(app, ...args)\<close>: the v2 plugin is assumed where neither is found.\<close>

definition compose_run :: "'s stack_host \<Rightarrow> string \<Rightarrow> string list \<Rightarrow> 's stack_state \<Rightarrow> (js_error + string) \<times> 's stack_state" where
  "compose_run h app args st =
     (let (cc, st1) = resolveCompose h st
      in priv h (compose_args (case cc of None \<Rightarrow> [''docker'', ''compose''] | Some c \<Rightarrow> c) app args) st1)"

definition not_managed :: "string \<Rightarrow> string" where
  "not_managed app = ''refused: '' @ quoted app @ '' is not a stack Miro manages (see stack_list)''"

definition control_verb :: "string \<Rightarrow> string" where
  "control_verb a = (case map_of [(''stop'', ''Stop''), (''start'', ''Start''), (''down'', ''Bring down''), (''remove'', ''Remove (to trash)'')] a of
     None \<Rightarrow> ''undefined'' | Some v \<Rightarrow> v)"

definition control_plan :: "json \<Rightarrow> op_plan" where
  "control_plan p =
     (let app = app_of p; a = action_of p
      in \<lparr>summary = control_verb a @ '' the '' @ quoted app @ '' stack'', plan_auto = False,
          plan_details = [(''app'', JStr app), (''action'', JStr a)],
          plan_class = Some Mutate, plan_writes = Some [dirFor app, ''/var/run/docker.sock''], plan_network = Some (a = ''start''), irreversible = False,
          plan_warning = (if a = ''remove'' then Some (''the stack'' @ [SQ] @ ''s containers are brought down and its compose dir moves to Miro'' @ [SQ] @ ''s trash (recoverable)'') else None),
          expects = Some (if a = ''start'' then ''the stack'' @ [SQ] @ ''s services are running again''
            else if a = ''remove'' then ''the stack is gone from Miro'' @ [SQ] @ ''s registry and its dir is trashed''
            else ''the stack'' @ [SQ] @ ''s services are stopped''),
          rollback_when = Some ''the action does not take effect within the window'',
          scope_evidence = Some (''the stack'' @ [SQ] @ ''s own dir + docker'' @ [SQ] @ ''s socket''), dry_run = Some Partial\<rparr>)"

definition control_describe :: "json \<Rightarrow> 's stack_state \<Rightarrow> (js_error + op_plan) \<times> 's stack_state" where
  "control_describe p st = (if getStack (app_of p) (stacks st) = None then Inl (an_error (not_managed (app_of p))) else Inr (control_plan p), st)"

definition status_json :: "stack_status \<Rightarrow> json" where
  "status_json s = JStr (case s of Running \<Rightarrow> ''running'' | Stopped \<Rightarrow> ''stopped'')"

definition control_capture :: "json \<Rightarrow> 's stack_state \<Rightarrow> (js_error + json) \<times> 's stack_state" where
  "control_capture p st = (Inr (JObj [(''priorStatus'', case getStack (app_of p) (stacks st) of None \<Rightarrow> JNull | Some r \<Rightarrow> status_json (st_status r))]), st)"

definition control_step :: "'s stack_host \<Rightarrow> string \<Rightarrow> string \<Rightarrow> stack_status \<Rightarrow> 's stack_state \<Rightarrow> (js_error + unit) \<times> 's stack_state" where
  "control_step h app arg status st =
     (case compose_run h app [arg] st of
        (Inl e, st1) \<Rightarrow> (Inl e, st1)
      | (Inr _, st1) \<Rightarrow> (Inr (), with_stacks (setStackStatus (time_now h st1) app status) st1))"

definition control_apply :: "'s stack_host \<Rightarrow> json \<Rightarrow> 's stack_state \<Rightarrow> (js_error + unit) \<times> 's stack_state" where
  "control_apply h p st =
     (let app = app_of p; a = action_of p
      in if a = ''stop'' then control_step h app ''stop'' Stopped st
         else if a = ''start'' then control_step h app ''start'' Running st
         else if a = ''down'' then control_step h app ''down'' Stopped st
         else (Inr (), trash_dir_of h app (with_stacks (removeStack app) (snd (compose_run h app [''down''] st)))))"

definition control_verify :: "'s stack_host \<Rightarrow> json \<Rightarrow> 's stack_state \<Rightarrow> (js_error + bool) \<times> 's stack_state" where
  "control_verify h p st =
     (if action_of p = ''remove''
      then (Inr (getStack (app_of p) (stacks st) = None \<and> \<not> exists_at (disk_now st) (dirFor (app_of p))), st)
      else let (n, st1) = projectRunning h (app_of p) st in (Inr (if action_of p = ''start'' then n > 0 else n = 0), st1))"

definition control_rollback :: "'s stack_host \<Rightarrow> json \<Rightarrow> json \<Rightarrow> 's stack_state \<Rightarrow> (js_error + unit) \<times> 's stack_state" where
  "control_rollback h p captured st =
     (Inr (), if action_of p = ''stop'' \<and> field ''priorStatus'' captured = JStr ''running'' then snd (compose_run h (app_of p) [''start''] st)
              else if action_of p = ''start'' \<and> field ''priorStatus'' captured = JStr ''stopped'' then snd (compose_run h (app_of p) [''stop''] st)
              else st)"

definition stackControlKind :: "'s stack_host \<Rightarrow> 's stack_state kind" where
  "stackControlKind h = \<lparr>kind_name = ''stack.control'', describe = control_describe, captureState = control_capture,
     apply_op = control_apply h, verify = control_verify h, rollback = control_rollback h,
     prodtest = Some (\<lambda>p. None), kind_reconcile = None\<rparr>"

subsection \<open>stack.update\<close>

record image_pin =
  pin_tag :: string
  pin_id :: string

text \<open>\<open>const [tag, id] = line.trim().split(/\s+/)\<close>.\<close>

definition image_line :: "string \<Rightarrow> image_pin list" where
  "image_line l = (let tag = nth_or [] (columns l) 0; i = nth_or [] (columns l) 1
                   in if tag \<noteq> [] \<and> i \<noteq> [] then [\<lparr>pin_tag = tag, pin_id = i\<rparr>] else [])"

fun inspect_images :: "'s stack_host \<Rightarrow> string list \<Rightarrow> 's stack_state \<Rightarrow> image_pin list \<times> 's stack_state" where
  "inspect_images h [] st = ([], st)"
| "inspect_images h (c # cs) st =
     (let (r, st1) = priv h [''docker'', ''inspect'', ''--format'', ''{{.Config.Image}} {{.Image}}'', c] st;
          (is', st2) = inspect_images h cs st1
      in (image_line (case r of Inl _ \<Rightarrow> [] | Inr out \<Rightarrow> out) @ is', st2))"

definition currentImages :: "'s stack_host \<Rightarrow> string \<Rightarrow> 's stack_state \<Rightarrow> image_pin list \<times> 's stack_state" where
  "currentImages h app st =
     (let (r, st1) = priv h [''docker'', ''ps'', ''--filter'', project_filter app, ''-q''] st
      in inspect_images h (filter (\<lambda>l. l \<noteq> []) (map trim (split_on NL (case r of Inl _ \<Rightarrow> [] | Inr out \<Rightarrow> out)))) st1)"

definition update_plan :: "json \<Rightarrow> image_pin list \<Rightarrow> op_plan" where
  "update_plan p running =
     (let app = app_of p
      in \<lparr>summary = ''Update the '' @ quoted app @ '' stack: pull newer images and recreate ('' @ show_nat (length running) @ '' container(s) running)'',
          plan_auto = False,
          plan_details = [(''app'', JStr app), (''currentImages'', JArr (map (\<lambda>r. JStr (pin_tag r @ ''@'' @ take 19 (pin_id r))) running))],
          plan_class = Some Mutate, plan_writes = Some [dirFor app, ''/var/run/docker.sock''], plan_network = Some True, irreversible = False,
          plan_warning = Some ''the stack restarts; if it does not come back healthy the exact previous images are re-tagged and restored'',
          expects = Some (''the '' @ quoted app @ '' services are running again after the pull + recreate''),
          rollback_when = Some ''the services do not come back - the captured image IDs are re-tagged and the stack recreated from them'',
          scope_evidence = Some (''the stack'' @ [SQ] @ ''s own dir + docker'' @ [SQ] @ ''s socket''), dry_run = Some Partial\<rparr>)"

definition update_describe :: "'s stack_host \<Rightarrow> json \<Rightarrow> 's stack_state \<Rightarrow> (js_error + op_plan) \<times> 's stack_state" where
  "update_describe h p st =
     (let app = app_of p
      in if getStack app (stacks st) = None then (Inl (an_error (not_managed app)), st)
         else if \<not> exists_at (disk_now st) (composeFor app)
         then (Inl (an_error (''refused: '' @ composeFor app @ '' is missing - redeploy the stack first'')), st)
         else case resolveCompose h st of
             (None, st1) \<Rightarrow> (Inl (an_error no_compose), st1)
           | (Some _, st1) \<Rightarrow> (let (running, st2) = currentImages h app st1 in (Inr (update_plan p running), st2)))"

definition pins_json :: "image_pin list \<Rightarrow> json" where
  "pins_json ps = JObj [(''images'', JArr (map (\<lambda>i. JObj [(''tag'', JStr (pin_tag i)), (''id'', JStr (pin_id i))]) ps))]"

definition pins_of :: "json \<Rightarrow> image_pin list" where
  "pins_of v = map (\<lambda>i. \<lparr>pin_tag = str_of ''tag'' i, pin_id = str_of ''id'' i\<rparr>) (array_of (field ''images'' v))"

definition update_capture :: "'s stack_host \<Rightarrow> json \<Rightarrow> 's stack_state \<Rightarrow> (js_error + json) \<times> 's stack_state" where
  "update_capture h p st = (let (is', st1) = currentImages h (app_of p) st in (Inr (pins_json is'), st1))"

definition update_apply :: "'s stack_host \<Rightarrow> json \<Rightarrow> 's stack_state \<Rightarrow> (js_error + unit) \<times> 's stack_state" where
  "update_apply h p st =
     (case compose_run h (app_of p) [''pull''] st of
        (Inl e, st1) \<Rightarrow> (Inl e, st1)
      | (Inr _, st1) \<Rightarrow> (let (r, st2) = compose_run h (app_of p) [''up'', ''-d''] st1 in (map_sum (\<lambda>e. e) (\<lambda>_. ()) r, st2)))"

definition update_verify :: "'s stack_host \<Rightarrow> json \<Rightarrow> 's stack_state \<Rightarrow> (js_error + bool) \<times> 's stack_state" where
  "update_verify h p st =
     (case read_text (fs_host h) (disk_now st) (composeFor (app_of p)) of
        Inl e \<Rightarrow> (Inl e, st)
      | Inr t \<Rightarrow> (let (b, st1) = poll_running 30 h (app_of p) (wanted h t) (time_now h st + 90000) st in (Inr b, st1)))"

definition retag :: "'s stack_host \<Rightarrow> image_pin list \<Rightarrow> 's stack_state \<Rightarrow> 's stack_state" where
  "retag h ps st = fold (\<lambda>i s. snd (priv h [''docker'', ''tag'', pin_id i, pin_tag i] s)) ps st"

definition update_rollback :: "'s stack_host \<Rightarrow> json \<Rightarrow> json \<Rightarrow> 's stack_state \<Rightarrow> (js_error + unit) \<times> 's stack_state" where
  "update_rollback h p captured st =
     (Inr (), snd (compose_run h (app_of p) [''up'', ''-d'', ''--force-recreate''] (retag h (pins_of captured) st)))"

definition stackUpdateKind :: "'s stack_host \<Rightarrow> 's stack_state kind" where
  "stackUpdateKind h = \<lparr>kind_name = ''stack.update'', describe = update_describe h, captureState = update_capture h,
     apply_op = update_apply h, verify = update_verify h, rollback = update_rollback h,
     prodtest = Some (\<lambda>p. Some (''stack:'' @ app_of p)), kind_reconcile = None\<rparr>"

end
