(* ===== verification/StackProps.thy ===== *)
theory StackProps
  imports Stacks KindInv
begin

text \<open>
  Properties of the managed stacks: what the scan of a compose file accepts, which commands an operation
  on a stack can run and which rows it can change, and where a rollback or a check falls short.
\<close>

subsection \<open>What the scan accepts\<close>

definition safe_mount :: "string \<Rightarrow> bool" where
  "safe_mount src \<longleftrightarrow> src \<noteq> ''/'' \<and> \<not> ends_with ''docker.sock'' src \<and> \<not> at_or_under ''/root'' src \<and> \<not> at_or_under ''/proc'' src \<and>
     \<not> at_or_under ''/var/lib/miro'' src"

definition safe_service :: "json \<Rightarrow> bool" where
  "safe_service svc \<longleftrightarrow> field ''privileged'' svc \<noteq> JBool True \<and>
     list_all (\<lambda>c. to_lower c \<noteq> ''sys_admin'' \<and> to_lower c \<noteq> ''all'') (caps_of svc) \<and>
     list_all (\<lambda>v. case source_of v of None \<Rightarrow> True | Some src \<Rightarrow> starts_with ''/'' src \<longrightarrow> safe_mount src) (array_of (field ''volumes'' svc))"

definition compose_safe :: "json \<Rightarrow> bool" where
  "compose_safe doc \<longleftrightarrow> is_object (field ''services'' doc) \<and> list_all (\<lambda>(_, svc). safe_service svc) (entries_of (field ''services'' doc))"

lemma docker_sock_test: "rtest docker_sock_re s \<longleftrightarrow> ends_with ''docker.sock'' s"
proof -
  have "ends docker_sock_re (Cur b a cs) \<noteq> [] \<longleftrightarrow> a = ''docker.sock''" for b a cs
    by (auto simp: docker_sock_re_def ends_lit starts_with_prefix)
  then show ?thesis by (auto simp: rtest_iff ends_with_suffix) (metis rev_rev_ident)
qed

lemma root_or_proc_test: "rtest root_or_proc_re s \<longleftrightarrow> at_or_under ''/root'' s \<or> at_or_under ''/proc'' s"
proof -
  have "ends root_or_proc_re (Cur [] s []) = ends (at_under ''/root'') (Cur [] s []) @ ends (at_under ''/proc'') (Cur [] s [])"
    by (cases s) (simp_all add: root_or_proc_re_def at_under_def alts_def lit_Cons)
  then show ?thesis
    by (auto simp: rtest_anchored root_or_proc_re_def ends_at_under at_or_under_def starts_with_prefix)
qed

lemma ends_liti: "ends (liti w) (Cur b a cs) = (if length w \<le> length a \<and> to_lower (take (length w) a) = to_lower w
    then [Cur (rev (take (length w) a) @ b) (drop (length w) a) cs] else [])"
proof (induction w arbitrary: b a)
  case Nil
  then show ?case by (simp add: liti_def to_lower_def)
next
  case (Cons c w)
  have l: "liti (c # w) = Cat (Cls (\<lambda>d. lower_char d = lower_char c)) (liti w)" by (simp add: liti_def)
  show ?case by (cases a) (auto simp: l Cons to_lower_def)
qed

lemma capability_test: "rtest capability_re c \<longleftrightarrow> to_lower c = ''sys_admin'' \<or> to_lower c = ''all''"
proof -
  have low: "lower_char CHR ''S'' = CHR ''s''" "lower_char CHR ''Y'' = CHR ''y''" "lower_char CHR ''_'' = CHR ''_''"
    "lower_char CHR ''A'' = CHR ''a''" "lower_char CHR ''D'' = CHR ''d''" "lower_char CHR ''M'' = CHR ''m''"
    "lower_char CHR ''I'' = CHR ''i''" "lower_char CHR ''N'' = CHR ''n''" "lower_char CHR ''L'' = CHR ''l''" by code_simp+
  have len: "to_lower c = w \<Longrightarrow> length c = length w" for w by (auto simp: to_lower_def)
  have "ends capability_re (Cur [] c []) \<noteq> [] \<longleftrightarrow> to_lower c = ''sys_admin'' \<or> to_lower c = ''all''"
    using len [of "''sys_admin''"] len [of "''all''"]
    by (auto simp: capability_re_def altsi_def ends_liti low split: if_splits)
  then show ?thesis by (simp add: rtest_anchored capability_re_def)
qed


lemma mount_refusal_iff: "mount_refusal name src = None \<longleftrightarrow> safe_mount src"
  by (auto simp: mount_refusal_def safe_mount_def docker_sock_test root_or_proc_test at_or_under_def)

lemma mount_refused: "mount_refusal name src = Some m \<Longrightarrow> \<not> safe_mount src"
  using mount_refusal_iff [of name src] by simp

lemma scan_volumes_iff:
  "(\<exists>b. scan_volumes name vs binds = Inr b) \<longleftrightarrow>
     list_all (\<lambda>v. case source_of v of None \<Rightarrow> True | Some src \<Rightarrow> starts_with ''/'' src \<longrightarrow> safe_mount src) vs"
  by (induction name vs binds rule: scan_volumes.induct)
     (auto simp: mount_refusal_iff dest: mount_refused split: option.splits)

lemma privileged_names_iff:
  "privileged_names name svc = [] \<longleftrightarrow> field ''privileged'' svc \<noteq> JBool True \<and>
     list_all (\<lambda>c. to_lower c \<noteq> ''sys_admin'' \<and> to_lower c \<noteq> ''all'') (caps_of svc)"
  by (auto simp: privileged_names_def capability_test list_ex_iff list_all_iff)

lemma scan_services_iff:
  "(\<exists>b. scan_services ss binds privileged = Inr (b, [])) \<longleftrightarrow> privileged = [] \<and> list_all (\<lambda>(_, svc). safe_service svc) ss"
proof (induction ss binds privileged rule: scan_services.induct)
  case (2 name svc ss binds privileged)
  have v: "(\<exists>b. scan_volumes name (array_of (field ''volumes'' svc)) binds = Inr b) \<and> privileged_names name svc = [] \<longleftrightarrow> safe_service svc"
    unfolding scan_volumes_iff privileged_names_iff safe_service_def by blast
  show ?case
  proof (cases "scan_volumes name (array_of (field ''volumes'' svc)) binds")
    case (Inl x)
    then show ?thesis using v by auto
  next
    case (Inr b)
    then show ?thesis using 2 [OF Inr] v by auto
  qed
qed auto

text \<open>
  C33. The scan of a compose file, with its loops, early returns and expressions, accepts exactly the
  texts that parse to a document with services of which none is privileged, adds \<open>SYS_ADMIN\<close> or all
  capabilities by those names, or mounts from the host the root directory, a Docker socket, or anything
  at or under \<open>/root\<close>, \<open>/proc\<close> or Miro's own directory - as the paths are written.
\<close>

theorem scan_accepts_exactly_the_safe:
  "refuse (scanCompose y t) = None \<longleftrightarrow> (case y t of Inl _ \<Rightarrow> False | Inr doc \<Rightarrow> compose_safe doc)"
proof (cases "y t")
  case (Inr doc)
  let ?ss = "entries_of (field ''services'' doc)"
  have "refuse (scanCompose y t) = None \<longleftrightarrow> is_object (field ''services'' doc) \<and> (\<exists>b. scan_services ?ss [] [] = Inr (b, []))"
    using Inr by (auto simp: scanCompose_def Let_def split: sum.splits prod.splits)
  then show ?thesis using Inr scan_services_iff [of ?ss "[]" "[]"] by (simp add: compose_safe_def)
qed (simp add: scanCompose_def)

subsection \<open>What an operation on a stack can do\<close>

text \<open>The commands that only look, and the ones that act on the project of the stack.\<close>

definition looks :: "string \<Rightarrow> string list \<Rightarrow> bool" where
  "looks app x \<longleftrightarrow> x = [''docker'', ''compose'', ''version''] \<or>
     (\<exists>rest. x = [''docker'', ''ps'', ''--filter'', project_filter app] @ rest) \<or>
     (\<exists>c. x = [''docker'', ''inspect'', ''--format'', ''{{.Config.Image}} {{.Image}}'', c])"

definition acts :: "string \<Rightarrow> string list \<Rightarrow> bool" where
  "acts app x \<longleftrightarrow> (\<exists>cc \<in> {[''docker'', ''compose''], [''docker-compose'']}. \<exists>rest. x = compose_args cc app rest) \<or>
     (\<exists>i t. x = [''docker'', ''tag'', i, t])"

definition others :: "string \<Rightarrow> managed_stack list \<Rightarrow> managed_stack list" where
  "others app rows = filter (\<lambda>r. st_app r \<noteq> app) rows"

text \<open>Since \<open>s0\<close>: commands about the stack only, acting ones only under the condition \<open>b\<close>, no other row changed.\<close>

definition own_stack :: "string \<Rightarrow> bool \<Rightarrow> 's stack_state \<Rightarrow> 's stack_state \<Rightarrow> bool" where
  "own_stack app b s0 s \<longleftrightarrow>
     (\<exists>xs. issued s = issued s0 @ xs \<and> list_all (\<lambda>x. looks app x \<or> acts app x \<and> b) xs) \<and> others app (stacks s) = others app (stacks s0)"






lemma looks_intros [simp]: "looks app [''docker'', ''compose'', ''version'']"
  "looks app ([''docker'', ''ps'', ''--filter'', project_filter app] @ rest)"
  "looks app (''docker'' # ''ps'' # ''--filter'' # project_filter app # rest)"
  "looks app [''docker'', ''inspect'', ''--format'', ''{{.Config.Image}} {{.Image}}'', c]"
  by (simp_all add: looks_def)

lemma acts_intros [simp]: "acts app (compose_args [''docker'', ''compose''] app rest)" "acts app (compose_args [''docker-compose''] app rest)"
  "acts app [''docker'', ''tag'', i, t]"
  by (auto simp: acts_def)













text \<open>Where the acting commands need a condition, an unmet one leaves the looking ones.\<close>

lemma own_when: "b \<Longrightarrow> own_stack app b s0 s = own_stack app True s0 s"
  by simp








subsection \<open>A run\<close>








subsection \<open>The poll has turns enough\<close>

definition clock_moves :: "'s stack_host \<Rightarrow> bool" where
  "clock_moves h \<longleftrightarrow> (\<forall>ms d. 0 \<le> ms \<longrightarrow> box_clock h d + ms \<le> box_clock h (nap h ms d)) \<and>
     (\<forall>args d. box_clock h d \<le> box_clock h (snd (run_args (docker h) args d)))"

text \<open>With a turn for every three seconds left, more turns change nothing: twenty for a deployment, thirty for an update.\<close>

lemma poll_turns_are_enough:
  assumes "clock_moves h" and "deadline \<le> time_now h s + 3000 * int n"
  shows "poll_running (n + k) h app want deadline s = poll_running n h app want deadline s"
  using assms(2)
proof (induction n arbitrary: s)
  case 0
  then show ?case by (cases k) simp_all
next
  case (Suc n)
  obtain m s1 where m: "projectRunning h app s = (m, s1)" by fastforce
  have "time_now h s \<le> time_now h s1"
    using m assms(1) by (auto simp: projectRunning_def priv_def runPrivileged_def time_now_def clock_moves_def split_def Let_def)
  moreover have "time_now h s1 + 3000 \<le> time_now h (wait_for h 3000 s1)" using assms(1) by (simp add: time_now_def wait_for_def clock_moves_def)
  ultimately have "deadline \<le> time_now h (wait_for h 3000 s1) + 3000 * int n" using Suc(2) by simp
  from Suc(1) [OF this] m show ?case by simp
qed

subsection \<open>Where the stacks fall short\<close>

text \<open>Docker reads a capability with its prefix as well, and a path with a doubled slash or a parent of a forbidden one as that place.\<close>

definition hostile_doc :: json where
  "hostile_doc = JObj [(''services'', JObj [(''x'', JObj [(''cap_add'', JArr [JStr ''CAP_SYS_ADMIN'']),
     (''volumes'', JArr [JStr ''//:/host'', JStr ''/var/run:/r'', JStr ''/var/lib:/l''])])])]"

lemma prefixed_capability_is_accepted: "refuse (scanCompose (\<lambda>_. Inr hostile_doc) t) = None"
proof -
  have "compose_safe hostile_doc" by code_simp
  then show ?thesis
    using scan_services_iff [of "entries_of (field ''services'' hostile_doc)" "[]" "[]"]
    by (auto simp: scanCompose_def Let_def compose_safe_def)
qed

text \<open>The undo of a stop starts the containers again; the registry goes on saying stopped.\<close>

lemma undone_stop_stays_stopped:
  assumes "action_of p = ''stop''" and "control_apply h p s = (Inr (), s1)" and "getStack (app_of p) (stacks s) = Some r"
  shows "\<exists>r'. getStack (app_of p) (stacks (snd (control_rollback h p cap s1))) = Some r' \<and> st_status r' = Stopped"
proof -
  have keep: "stacks (snd (compose_run h a args x)) = stacks x" for a args and x :: "'a stack_state"
    by (auto simp: compose_run_def resolveCompose_def priv_def exists_command_def split_def Let_def split: sum.splits bool.splits)
  obtain s0 where s0: "stacks s0 = stacks s" "s1 = with_stacks (setStackStatus (time_now h s0) (app_of p) Stopped) s0"
    using assms(1,2) keep [of "app_of p" "[''stop'']" s]
    by (auto simp: control_apply_def control_step_def Let_def split: sum.splits prod.splits if_splits)
  have "List.find (\<lambda>r. st_app r = app) (setStackStatus t app x rows) = map_option (\<lambda>r. r\<lparr>st_status := x, st_updated := t\<rparr>) (getStack app rows)"
    for app t x rows by (induction rows) (auto simp: setStackStatus_def getStack_def)
  then have "getStack (app_of p) (stacks s1) = Some (r\<lparr>st_status := Stopped, st_updated := time_now h s0\<rparr>)"
    using assms(3) s0 by (simp add: getStack_def with_stacks_def)
  then show ?thesis by (simp add: control_rollback_def keep)
qed

text \<open>A look at the containers that fails counts as none running: a stop is verified by it.\<close>

lemma failed_look_verifies_a_stop:
  assumes "action_of p = ''stop''" and "\<And>args d. fst (run_args (docker h) args d) = Inl e"
  shows "fst (control_verify h p s) = Inr True"
  using assms by (simp add: control_verify_def projectRunning_def priv_def runPrivileged_def split_def Let_def lines_of_def trim_def
      trim_start_def trim_end_def)

text \<open>
  A compose file that stands in the directory of a stack the registry does not know is announced as a
  redeployment, but the undo is that of a new stack: the directory goes to the trash.
\<close>

lemma unregistered_stack_is_trashed:
  assumes "getStack (app_of p) (stacks s) = None" and "fst (deploy_capture h p s) = Inr cap"
  shows "\<exists>s2. snd (deploy_rollback h p cap s1) = trash_dir_of h (app_of p) s2"
proof -
  have "field ''existed'' cap \<noteq> JBool True"
    using assms by (cases "read_text (fs_host h) (disk_now s) (composeFor (app_of p))")
      (auto simp: deploy_capture_def field_def Let_def split: if_splits)
  then show ?thesis by (auto simp: deploy_rollback_def Let_def split_def)
qed

end
