(* ===== verification/Systemd.thy ===== *)
theory Systemd
  imports Inventory Engine FileKinds Prodtest
begin

text \<open>
  The operation kinds \<open>systemd.restart\<close> and \<open>systemd.unit\<close>
  (\<open>apps/mirod/src/operations/kinds/systemd-restart.ts\<close>, \<open>systemd-unit.ts\<close>): a unit is restarted, started,
  stopped, enabled or disabled through \<open>systemctl\<close> in the daemon's own namespace.  The commands and
  waiting are functions on the state of the server.
\<close>

record 's systemd_host =
  sd_shell :: "'s shell"
  sd_nap :: "int \<Rightarrow> 's \<Rightarrow> 's"

definition SELF_UNIT :: rex where
  "SELF_UNIT = seq [Bol, lit ''mirod'', opt (lit ''.service''), Eol]"

definition unit_of :: "json \<Rightarrow> string" where "unit_of p = str_of ''unit'' p"

definition systemctl :: "'s systemd_host \<Rightarrow> string list \<Rightarrow> 's \<Rightarrow> (js_error + unit) \<times> 's" where
  "systemctl h args s = (let (r, s1) = runPrivileged (sd_shell h) (''systemctl'' # args) s in (map_sum (\<lambda>e. e) (\<lambda>_. ()) r, s1))"

definition refuseSelf :: "string \<Rightarrow> js_error option" where
  "refuseSelf u = (if rtest SELF_UNIT u
     then Some (an_error (''refused: '' @ u @ '' is Miro itself - it cannot verify or roll back its own stop/restart; tell the owner to run systemctl themselves''))
     else None)"

text \<open>Five looks, a second after each that did not find what is expected.\<close>

fun look_until :: "nat \<Rightarrow> 's systemd_host \<Rightarrow> ('s \<Rightarrow> (js_error + bool) \<times> 's) \<Rightarrow> 's \<Rightarrow> (js_error + bool) \<times> 's" where
  "look_until 0 h f s = (Inr False, s)"
| "look_until (Suc n) h f s =
     (case f s of
        (Inl e, s1) \<Rightarrow> (Inl e, s1)
      | (Inr True, s1) \<Rightarrow> (Inr True, s1)
      | (Inr False, s1) \<Rightarrow> look_until n h f (sd_nap h 1000 s1))"

definition is_active :: "'s systemd_host \<Rightarrow> string \<Rightarrow> 's \<Rightarrow> (js_error + bool) \<times> 's" where
  "is_active h u s = (let (r, s1) = getServiceState (sd_shell h) u s in (map_sum (\<lambda>e. e) fst r, s1))"

definition is_enabled :: "'s systemd_host \<Rightarrow> string \<Rightarrow> 's \<Rightarrow> (js_error + bool) \<times> 's" where
  "is_enabled h u s = (let (b, s1) = getUnitEnabled (sd_shell h) u s in (Inr b, s1))"

definition negated :: "('s \<Rightarrow> (js_error + bool) \<times> 's) \<Rightarrow> 's \<Rightarrow> (js_error + bool) \<times> 's" where
  "negated f s = (let (r, s1) = f s in (map_sum (\<lambda>e. e) Not r, s1))"

subsection \<open>systemd.restart\<close>

definition restart_plan :: "string \<Rightarrow> string \<Rightarrow> op_plan" where
  "restart_plan u state =
     (let lifeline = rtest LIFELINE_UNITS u
      in \<lparr>summary = ''Restart '' @ u @ '' (currently '' @ state @ '')'', plan_auto = \<not> lifeline,
          plan_details = [(''unit'', JStr u), (''currentState'', JStr state)],
          plan_class = Some (if lifeline then Lifeline else Mutate), plan_writes = Some [''/run/systemd'', ''/run/dbus''],
          plan_network = Some False, irreversible = False,
          plan_warning = (if lifeline then Some ''restarting this can drop your connection'' else None),
          expects = Some (u @ '' is active after the restart''),
          rollback_when = Some ''the unit is not active afterwards - its previous state is restored'',
          scope_evidence = Some (''systemd'' @ [SQ] @ ''s runtime directories only; no files change''), dry_run = Some Exact\<rparr>)"

definition restart_describe :: "'s systemd_host \<Rightarrow> json \<Rightarrow> 's \<Rightarrow> (js_error + op_plan) \<times> 's" where
  "restart_describe h p s =
     (case refuseSelf (unit_of p) of
        Some e \<Rightarrow> (Inl e, s)
      | None \<Rightarrow> (let (r, s1) = getServiceState (sd_shell h) (unit_of p) s
                 in (map_sum (\<lambda>e. e) (\<lambda>(_, state). restart_plan (unit_of p) state) r, s1)))"

definition restart_capture :: "'s systemd_host \<Rightarrow> json \<Rightarrow> 's \<Rightarrow> (js_error + json) \<times> 's" where
  "restart_capture h p s =
     (let (r, s1) = getServiceState (sd_shell h) (unit_of p) s
      in (map_sum (\<lambda>e. e) (\<lambda>(active, state). JObj [(''active'', JBool active), (''activeState'', JStr state)]) r, s1))"

definition restart_rollback :: "'s systemd_host \<Rightarrow> json \<Rightarrow> json \<Rightarrow> 's \<Rightarrow> (js_error + unit) \<times> 's" where
  "restart_rollback h p captured s =
     (Inr (), snd (systemctl h [if field ''active'' captured = JBool True then ''start'' else ''stop'', unit_of p] s))"

definition systemdRestartKind :: "'s systemd_host \<Rightarrow> 's kind" where
  "systemdRestartKind h = \<lparr>kind_name = ''systemd.restart'', describe = restart_describe h, captureState = restart_capture h,
     apply_op = (\<lambda>p. systemctl h [''restart'', unit_of p]), verify = (\<lambda>p. look_until 5 h (is_active h (unit_of p))),
     rollback = restart_rollback h, prodtest = Some (\<lambda>p. Some (unit_of p)), kind_reconcile = None\<rparr>"

subsection \<open>systemd.unit\<close>

definition UNIT_NAME :: rex where
  "UNIT_NAME = seq [Bol, plus (Cls (\<lambda>c. alnum c \<or> c \<in> set ''@._:-'')), Eol]"

definition unit_action :: "json \<Rightarrow> string" where "unit_action p = str_of ''action'' p"

definition unitFor :: "json \<Rightarrow> js_error + string" where
  "unitFor p =
     (if unit_action p = ''daemon-reload'' then Inr []
      else case as_string (field ''unit'' p) of
          Some u \<Rightarrow> if u \<noteq> [] \<and> rtest UNIT_NAME u then Inr u
                    else Inl (an_error (''refused: '' @ [DQ] @ u @ [DQ] @ '' is not a systemd unit name (e.g. jellyfin.service)''))
        | None \<Rightarrow> Inl (an_error (''refused: '' @ [DQ, DQ] @ '' is not a systemd unit name (e.g. jellyfin.service)'')))"

definition reload_plan :: op_plan where
  "reload_plan = \<lparr>summary = ''systemctl daemon-reload (re-read unit files)'', plan_auto = True, plan_details = [],
     plan_class = Some Mutate, plan_writes = Some [''/run/systemd''], plan_network = Some False, irreversible = False, plan_warning = None,
     expects = Some ''systemd has re-read every unit file'',
     rollback_when = Some ''never - reloading unit definitions is not undone, the files are what they are'',
     scope_evidence = Some (''systemd'' @ [SQ] @ ''s runtime directory only''), dry_run = Some Exact\<rparr>"

definition unit_expects :: "string \<Rightarrow> string \<Rightarrow> string" where
  "unit_expects a u = (if a = ''start'' then u @ '' is active'' else if a = ''stop'' then u @ '' is inactive''
     else if a = ''enable'' then u @ '' is enabled at boot'' else if a = ''disable'' then u @ '' is not enabled at boot'' else [])"

definition unit_plan :: "string \<Rightarrow> string \<Rightarrow> string \<Rightarrow> bool \<Rightarrow> op_plan" where
  "unit_plan a u state enabled =
     (let lifeline = rtest LIFELINE_UNITS u \<and> (a = ''stop'' \<or> a = ''disable''); files = (a = ''enable'' \<or> a = ''disable'')
      in \<lparr>summary = a @ '' '' @ u @ '' (currently '' @ state @ '', '' @ (if enabled then ''enabled'' else ''not enabled'') @ '')'',
          plan_auto = \<not> lifeline,
          plan_details = [(''unit'', JStr u), (''action'', JStr a), (''currentState'', JStr state), (''enabled'', JBool enabled)],
          plan_class = Some (if lifeline then Lifeline else Mutate),
          plan_writes = Some (if files then [''/run/systemd'', ''/etc/systemd/system''] else [''/run/systemd'', ''/run/dbus'']),
          plan_network = Some False, irreversible = False,
          plan_warning = (if lifeline then Some (''stopping '' @ u @ '' can drop your connection'') else None),
          expects = Some (unit_expects a u),
          rollback_when = Some ''the expected state is not observed afterwards - the previous active/enabled state is restored'',
          scope_evidence = Some (if files then ''systemd'' @ [SQ] @ ''s runtime directory and the /etc/systemd/system symlinks enable/disable manage''
            else ''systemd'' @ [SQ] @ ''s runtime directories only; no files change''), dry_run = Some Exact\<rparr>)"

definition unit_describe :: "'s systemd_host \<Rightarrow> json \<Rightarrow> 's \<Rightarrow> (js_error + op_plan) \<times> 's" where
  "unit_describe h p s =
     (case unitFor p of
        Inl e \<Rightarrow> (Inl e, s)
      | Inr u \<Rightarrow>
          (let a = unit_action p
           in if a = ''daemon-reload'' then (Inr reload_plan, s)
              else case (if a = ''stop'' \<or> a = ''disable'' then refuseSelf u else None) of
                  Some e \<Rightarrow> (Inl e, s)
                | None \<Rightarrow>
                    (case getServiceState (sd_shell h) u s of
                       (Inl e, s1) \<Rightarrow> (Inl e, s1)
                     | (Inr (_, state), s1) \<Rightarrow> (let (enabled, s2) = getUnitEnabled (sd_shell h) u s1 in (Inr (unit_plan a u state enabled), s2)))))"

definition captured_unit :: "bool \<Rightarrow> bool \<Rightarrow> json" where
  "captured_unit active enabled = JObj [(''active'', JBool active), (''enabled'', JBool enabled)]"

definition unit_capture :: "'s systemd_host \<Rightarrow> json \<Rightarrow> 's \<Rightarrow> (js_error + json) \<times> 's" where
  "unit_capture h p s =
     (if unit_action p = ''daemon-reload'' then (Inr (captured_unit False False), s)
      else case unitFor p of
          Inl e \<Rightarrow> (Inl e, s)
        | Inr u \<Rightarrow>
            (case getServiceState (sd_shell h) u s of
               (Inl e, s1) \<Rightarrow> (Inl e, s1)
             | (Inr (active, _), s1) \<Rightarrow> (let (enabled, s2) = getUnitEnabled (sd_shell h) u s1 in (Inr (captured_unit active enabled), s2))))"

definition unit_apply :: "'s systemd_host \<Rightarrow> json \<Rightarrow> 's \<Rightarrow> (js_error + unit) \<times> 's" where
  "unit_apply h p s =
     (case unitFor p of Inl e \<Rightarrow> (Inl e, s) | Inr u \<Rightarrow> systemctl h (unit_action p # (if u \<noteq> [] then [u] else [])) s)"

definition unit_check :: "'s systemd_host \<Rightarrow> string \<Rightarrow> string \<Rightarrow> 's \<Rightarrow> (js_error + bool) \<times> 's" where
  "unit_check h a u =
     (if a = ''start'' then is_active h u else if a = ''stop'' then negated (is_active h u)
      else if a = ''enable'' then is_enabled h u else negated (is_enabled h u))"

definition unit_verify :: "'s systemd_host \<Rightarrow> json \<Rightarrow> 's \<Rightarrow> (js_error + bool) \<times> 's" where
  "unit_verify h p s =
     (if unit_action p = ''daemon-reload'' then (Inr True, s)
      else case unitFor p of Inl e \<Rightarrow> (Inl e, s) | Inr u \<Rightarrow> look_until 5 h (unit_check h (unit_action p) u) s)"

definition undo_action :: "string \<Rightarrow> json \<Rightarrow> string" where
  "undo_action a captured =
     (if a = ''start'' \<or> a = ''stop'' then (if field ''active'' captured = JBool True then ''start'' else ''stop'')
      else if field ''enabled'' captured = JBool True then ''enable'' else ''disable'')"

definition unit_rollback :: "'s systemd_host \<Rightarrow> json \<Rightarrow> json \<Rightarrow> 's \<Rightarrow> (js_error + unit) \<times> 's" where
  "unit_rollback h p captured s =
     (if unit_action p = ''daemon-reload'' then (Inr (), s)
      else case unitFor p of
          Inl e \<Rightarrow> (Inl e, s)
        | Inr u \<Rightarrow> (Inr (), snd (systemctl h [undo_action (unit_action p) captured, u] s)))"

definition unit_target :: "json \<Rightarrow> string option" where
  "unit_target p =
     (if unit_action p = ''daemon-reload'' then None
      else if unit_action p = ''enable'' \<or> unit_action p = ''disable'' then Some (unit_of p @ ''#enabled'') else Some (unit_of p))"

definition systemdUnitKind :: "'s systemd_host \<Rightarrow> 's kind" where
  "systemdUnitKind h = \<lparr>kind_name = ''systemd.unit'', describe = unit_describe h, captureState = unit_capture h,
     apply_op = unit_apply h, verify = unit_verify h, rollback = unit_rollback h, prodtest = Some unit_target, kind_reconcile = None\<rparr>"

end
