(* ===== verification/SystemdProps.thy ===== *)
theory SystemdProps
  imports Systemd EngineProps FileProps
begin







subsection \<open>Looking\<close>









subsection \<open>The kinds are reversible\<close>









subsection \<open>What the engine's rollback restores\<close>











text \<open>
  \<open>systemctl\<close> takes patterns for unit names.  \<open>systemd.restart\<close> does not look at the shape of the
  name, so a pattern that matches lifeline units, even every unit, is planned as a change that runs
  without asking; \<open>systemd.unit\<close> refuses it.
\<close>

lemma pattern_restarts_unattended:
  "effectiveAutoApprove (restart_plan ''docker*'' state) \<and> plan_class (restart_plan ''docker*'' state) = Some Mutate"
  "effectiveAutoApprove (restart_plan ''*'' state) \<and> refuseSelf ''mirod*'' = None"
  "plan_class (restart_plan ''docker'' state) = Some Lifeline"
proof -
  have "\<not> rtest LIFELINE_UNITS ''docker*''" "\<not> rtest LIFELINE_UNITS ''*''" "rtest LIFELINE_UNITS ''docker''" "refuseSelf ''mirod*'' = None"
    by code_simp+
  then show "effectiveAutoApprove (restart_plan ''docker*'' state) \<and> plan_class (restart_plan ''docker*'' state) = Some Mutate"
    "effectiveAutoApprove (restart_plan ''*'' state) \<and> refuseSelf ''mirod*'' = None"
    "plan_class (restart_plan ''docker'' state) = Some Lifeline"
    by (simp_all add: restart_plan_def effectiveAutoApprove_def Let_def)
qed

lemma pattern_units_are_refused: "unitFor (JObj [(''action'', JStr ''start''), (''unit'', JStr ''docker*'')]) =
    Inl (an_error (''refused: '' @ [DQ] @ ''docker*'' @ [DQ] @ '' is not a systemd unit name (e.g. jellyfin.service)''))"
  by code_simp

text \<open>A unit caught while it starts counts as inactive, so undoing a failed restart of it stops it.\<close>

lemma starting_unit_is_stopped:
  assumes "getServiceState (sd_shell h) (unit_of p) s = (Inr (False, ''activating''), s1)"
  shows "captureState (systemdRestartKind h) p s = (Inr (JObj [(''active'', JBool False), (''activeState'', JStr ''activating'')]), s1)"
    and "rollback (systemdRestartKind h) p (JObj [(''active'', JBool False), (''activeState'', JStr ''activating'')]) s2 =
      (Inr (), snd (systemctl h [''stop'', unit_of p] s2))"
  using assms by (simp_all add: systemdRestartKind_def restart_capture_def restart_rollback_def field_def)

end
