(* ===== verification/Capabilities.thy ===== *)
theory Capabilities
  imports Tables Complex_Main "HOL-Library.AList"
begin

text \<open>
  The capability layer (\<open>apps/mirod/src/capabilities/registry.ts\<close>, \<open>usage.ts\<close>): the table of
  what each provider did, the registry of implementations, and the routing of a request through the
  groups of a policy, each group a fan-out of at most three implementations at once.  The fan-out is
  a machine over the events of its promises, in the order they are handled; which order, and what
  each implementation answers, are the environment's.  Averages and scores are rational numbers
  where the code has doubles.
\<close>

subsection \<open>Usage\<close>

datatype confidence = Known | Estimated | Unknown

record usage_row =
  u_provider :: string
  u_requests :: nat
  u_failures :: nat
  u_consecutive :: nat
  u_last_429 :: "int option"
  u_cooldown :: "int option"
  u_ewma :: "rat option"
  u_last_ok :: "int option"
  u_remaining :: "int option"
  u_confidence :: confidence
  u_updated :: int

record usage_outcome =
  oc_ok :: bool
  oc_ms :: int
  oc_status :: "int option"
  oc_reset :: "int option"
  oc_remaining :: "int option"

definition RATE_LIMIT_COOLDOWN_MS :: int where "RATE_LIMIT_COOLDOWN_MS = 15 * 60000"
definition FAILURE_COOLDOWN_MS :: int where "FAILURE_COOLDOWN_MS = 5 * 60000"
definition FAILURE_COOLDOWN_AFTER :: nat where "FAILURE_COOLDOWN_AFTER = 3"
definition EWMA_ALPHA :: rat where "EWMA_ALPHA = 3 / 10"

definition usage_get :: "string \<Rightarrow> usage_row list \<Rightarrow> usage_row option" where
  "usage_get p rows = List.find (\<lambda>r. u_provider r = p) rows"

definition next_ewma :: "usage_outcome \<Rightarrow> rat option \<Rightarrow> rat option" where
  "next_ewma oc prev =
     (if oc_ok oc
      then Some (case prev of None \<Rightarrow> of_int (oc_ms oc) | Some e \<Rightarrow> e * (1 - EWMA_ALPHA) + of_int (oc_ms oc) * EWMA_ALPHA)
      else prev)"

definition next_cooldown :: "usage_outcome \<Rightarrow> int \<Rightarrow> nat \<Rightarrow> int option \<Rightarrow> int option" where
  "next_cooldown oc t consecutive prev =
     (if oc_status oc = Some 429 then Some (case oc_reset oc of Some r \<Rightarrow> r | None \<Rightarrow> t + RATE_LIMIT_COOLDOWN_MS)
      else if \<not> oc_ok oc \<and> consecutive \<ge> FAILURE_COOLDOWN_AFTER then Some (t + FAILURE_COOLDOWN_MS)
      else if oc_ok oc then None else prev)"

definition blank_row :: "string \<Rightarrow> int \<Rightarrow> usage_row" where
  "blank_row p t = \<lparr>u_provider = p, u_requests = 0, u_failures = 0, u_consecutive = 0, u_last_429 = None, u_cooldown = None,
     u_ewma = None, u_last_ok = None, u_remaining = None, u_confidence = Unknown, u_updated = t\<rparr>"

definition next_row :: "usage_outcome \<Rightarrow> int \<Rightarrow> usage_row \<Rightarrow> usage_row" where
  "next_row oc t r =
     (let consecutive = (if oc_ok oc then 0 else u_consecutive r + 1)
      in r\<lparr>u_requests := u_requests r + 1, u_failures := u_failures r + (if oc_ok oc then 0 else 1), u_consecutive := consecutive,
           u_last_429 := (if oc_status oc = Some 429 then Some t else u_last_429 r),
           u_cooldown := next_cooldown oc t consecutive (u_cooldown r), u_ewma := next_ewma oc (u_ewma r),
           u_last_ok := (if oc_ok oc then Some t else u_last_ok r),
           u_remaining := (if oc_remaining oc \<noteq> None then oc_remaining oc else u_remaining r),
           u_confidence := (if oc_remaining oc \<noteq> None then Known else u_confidence r), u_updated := t\<rparr>)"

definition on_provider :: "string \<Rightarrow> (usage_row \<Rightarrow> usage_row) \<Rightarrow> usage_row list \<Rightarrow> usage_row list" where
  "on_provider p f rows = map (\<lambda>r. if u_provider r = p then f r else r) rows"

interpretation usage: keyed_table u_provider on_provider usage_get
  by unfold_locales (simp_all add: on_provider_def usage_get_def)

definition put_row :: "usage_row \<Rightarrow> usage_row list \<Rightarrow> usage_row list" where
  "put_row r rows =
     (if usage_get (u_provider r) rows = None then rows @ [r]
      else on_provider (u_provider r) (\<lambda>_. r) rows)"

definition usage_record :: "string \<Rightarrow> usage_outcome \<Rightarrow> int \<Rightarrow> usage_row list \<Rightarrow> usage_row list" where
  "usage_record p oc t rows =
     put_row (next_row oc t (case usage_get p rows of Some r \<Rightarrow> r | None \<Rightarrow> blank_row p t)) rows"

definition usage_list :: "usage_row list \<Rightarrow> usage_row list" where
  "usage_list rows = sort_key u_provider rows"

definition inCooldown :: "usage_row list \<Rightarrow> string \<Rightarrow> int \<Rightarrow> bool" where
  "inCooldown rows p t =
     (case usage_get p rows of
        None \<Rightarrow> False
      | Some r \<Rightarrow> (case u_cooldown r of None \<Rightarrow> False | Some c \<Rightarrow> c > t))"

definition row_score :: "usage_row \<Rightarrow> int \<Rightarrow> rat" where
  "row_score r t =
     (let successRate = 1 - of_nat (u_failures r) / of_nat (u_requests r);
          latency = (case u_ewma r of None \<Rightarrow> 1 | Some e \<Rightarrow> 1 / (1 + e / 5000));
          stale = (case u_last_ok r of Some l \<Rightarrow> if t - l > 24 * 60 * 60000 then 8 / 10 else 1 | None \<Rightarrow> 1)
      in successRate * latency * stale)"

definition usage_score :: "usage_row list \<Rightarrow> string \<Rightarrow> int \<Rightarrow> rat" where
  "usage_score rows p t =
     (case usage_get p rows of
        None \<Rightarrow> 1 / 2
      | Some r \<Rightarrow> if u_requests r = 0 then 1 / 2 else row_score r t)"

subsection \<open>The registry\<close>

text \<open>A \<open>Map\<close> is an association list in the order of the first insertion of each key.\<close>

record 'a capability =
  cap_id :: string
  isGood :: "'a \<Rightarrow> bool"

text \<open>What \<open>run\<close> answers is an event of the fan-out; \<open>available\<close> is a function on the environment.\<close>

record 's implementation =
  im_id :: string
  im_capability :: string
  im_provider :: string
  im_auth :: string
  im_cost :: string
  im_available :: "'s \<Rightarrow> bool \<times> 's"
  im_timeout :: "int option"

record ('s, 'a) registry =
  reg_capabilities :: "(string \<times> 'a capability) list"
  reg_policies :: "(string \<times> string list list) list"
  reg_impls :: "(string \<times> (string \<times> 's implementation) list) list"

definition tool_char :: "char \<Rightarrow> bool" where
  "tool_char c \<longleftrightarrow> is_lower c \<or> is_upper c \<or> is_digit c \<or> c \<in> set ''_-''"

definition toolNameOf :: "string \<Rightarrow> js_error + string" where
  "toolNameOf i =
     (let name = map (\<lambda>c. if c = CHR ''.'' then CHR ''_'' else c) i
      in if name \<noteq> [] \<and> list_all tool_char name then Inr name
         else Inl (an_error (''capability id '' @ [DQ] @ i @ [DQ] @ '' does not map to a valid tool name'')))"

definition registerCapability :: "'a capability \<Rightarrow> string list list \<Rightarrow> ('s, 'a) registry \<Rightarrow> js_error + ('s, 'a) registry" where
  "registerCapability c policy g =
     (case toolNameOf (cap_id c) of
        Inl e \<Rightarrow> Inl e
      | Inr _ \<Rightarrow> Inr (g\<lparr>reg_capabilities := AList.update (cap_id c) c (reg_capabilities g),
            reg_policies := AList.update (cap_id c) policy (reg_policies g),
            reg_impls := (if map_of (reg_impls g) (cap_id c) = None then reg_impls g @ [(cap_id c, [])] else reg_impls g)\<rparr>))"

definition registerImplementation :: "'s implementation \<Rightarrow> ('s, 'a) registry \<Rightarrow> js_error + ('s, 'a) registry" where
  "registerImplementation im g =
     (case map_of (reg_impls g) (im_capability im) of
        None \<Rightarrow> Inl (an_error (''implementation '' @ [DQ] @ im_id im @ [DQ] @ '' targets unknown capability '' @ [DQ] @ im_capability im @ [DQ]))
      | Some family \<Rightarrow> Inr (g\<lparr>reg_impls := AList.update (im_capability im) (AList.update (im_id im) im family) (reg_impls g)\<rparr>))"

definition unregisterImplementations :: "string \<Rightarrow> ('s, 'a) registry \<Rightarrow> ('s, 'a) registry" where
  "unregisterImplementations prefix g =
     g\<lparr>reg_impls := map (\<lambda>(c, family). (c, filter (\<lambda>(i, _). \<not> starts_with prefix i) family)) (reg_impls g)\<rparr>"

definition family_of :: "('s, 'a) registry \<Rightarrow> string \<Rightarrow> (string \<times> 's implementation) list" where
  "family_of g c = (case map_of (reg_impls g) c of Some f \<Rightarrow> f | None \<Rightarrow> [])"

definition implementations :: "('s, 'a) registry \<Rightarrow> string \<Rightarrow> 's implementation list" where
  "implementations g c = map snd (family_of g c)"

definition all_implementations :: "('s, 'a) registry \<Rightarrow> 's implementation list" where
  "all_implementations g = concat (map (\<lambda>(_, family). map snd family) (reg_impls g))"

subsection \<open>Candidates\<close>

definition DEFAULT_IMPL_TIMEOUT_MS :: int where "DEFAULT_IMPL_TIMEOUT_MS = 8000"
definition DEFAULT_TOTAL_BUDGET_MS :: int where "DEFAULT_TOTAL_BUDGET_MS = 12000"
definition FANOUT_WIDTH :: nat where "FANOUT_WIDTH = 3"

definition matching :: "('s, 'a) registry \<Rightarrow> string \<Rightarrow> string \<Rightarrow> 's implementation list" where
  "matching g c pattern =
     (if ends_with ''*'' pattern then filter (\<lambda>im. starts_with (butlast pattern) (im_id im)) (implementations g c)
      else (case map_of (family_of g c) pattern of Some im \<Rightarrow> [im] | None \<Rightarrow> []))"

text \<open>The state: the usage table, and the environment with its clock.\<close>

record 's cap_world =
  cw_usage :: "usage_row list"
  cw_env :: 's

fun ready_of :: "('s \<Rightarrow> int) \<Rightarrow> 's implementation list \<Rightarrow> 's cap_world \<Rightarrow> 's implementation list \<times> 's cap_world" where
  "ready_of tm [] w = ([], w)"
| "ready_of tm (im # ims) w =
     (if inCooldown (cw_usage w) (im_provider im) (tm (cw_env w)) then ready_of tm ims w
      else (let (ok, s) = im_available im (cw_env w); w1 = w\<lparr>cw_env := s\<rparr>; (rest, w2) = ready_of tm ims w1
            in (if ok then im # rest else rest, w2)))"

definition candidates :: "('s \<Rightarrow> int) \<Rightarrow> ('s, 'a) registry \<Rightarrow> string \<Rightarrow> string list \<Rightarrow> 's cap_world \<Rightarrow> 's implementation list \<times> 's cap_world" where
  "candidates tm g c pats w =
     (let (ready, w1) = ready_of tm (concat (map (matching g c) pats)) w
      in (take FANOUT_WIDTH (sort_key (\<lambda>im. - usage_score (cw_usage w1) (im_provider im) (tm (cw_env w1))) ready), w1))"

subsection \<open>The fan-out\<close>

text \<open>
  What a promise of \<open>run\<close> settles with; the status and the reset time are those of an
  \<open>ImplementationError\<close>.  Candidate \<open>i\<close> settles at a time, and its \<open>finally\<close> runs later.
\<close>

datatype 'a reply = Answer 'a | Failure js_error "int option" "int option"

datatype 'a fan_event = Settle nat int "'a reply" | Final nat

record attempt =
  at_impl :: string
  at_ok :: bool
  at_ms :: int
  at_empty :: bool
  at_error :: "string option"

text \<open>\<open>fan_answer\<close> is what the fan-out's promise is resolved with, \<open>None\<close> while it is not.\<close>

record 'a fan =
  fan_pending :: nat
  fan_answer :: "('a \<times> string) option option"
  fan_attempts :: "attempt list"
  fan_usage :: "usage_row list"

definition fan_start :: "nat \<Rightarrow> attempt list \<Rightarrow> usage_row list \<Rightarrow> 'a fan" where
  "fan_start n atts u = \<lparr>fan_pending = n, fan_answer = None, fan_attempts = atts, fan_usage = u\<rparr>"

definition fan_finish :: "('a \<times> string) option \<Rightarrow> 'a fan \<Rightarrow> 'a fan" where
  "fan_finish v f = (if fan_answer f \<noteq> None then f else f\<lparr>fan_answer := Some v\<rparr>)"

definition settle_ok :: "'a capability \<Rightarrow> 's implementation \<Rightarrow> int \<Rightarrow> int \<Rightarrow> 'a \<Rightarrow> 'a fan \<Rightarrow> 'a fan" where
  "settle_ok c im ms t r f =
     (let good = isGood c r;
          f1 = f\<lparr>fan_usage := usage_record (im_provider im)
                    \<lparr>oc_ok = True, oc_ms = ms, oc_status = None, oc_reset = None, oc_remaining = None\<rparr> t (fan_usage f),
                 fan_attempts := fan_attempts f @ [\<lparr>at_impl = im_id im, at_ok = True, at_ms = ms, at_empty = \<not> good, at_error = None\<rparr>]\<rparr>
      in if good then fan_finish (Some (r, im_id im)) f1 else f1)"

text \<open>A loser cancelled because another has won is not a failure.\<close>

definition settle_err :: "'s implementation \<Rightarrow> int \<Rightarrow> int \<Rightarrow> js_error \<Rightarrow> int option \<Rightarrow> int option \<Rightarrow> 'a fan \<Rightarrow> 'a fan" where
  "settle_err im ms t e status reset f =
     (if fan_answer f \<noteq> None \<and> error_name e = ''AbortError'' then f
      else f\<lparr>fan_usage := usage_record (im_provider im)
                    \<lparr>oc_ok = False, oc_ms = ms, oc_status = status, oc_reset = reset, oc_remaining = None\<rparr> t (fan_usage f),
             fan_attempts := fan_attempts f @
               [\<lparr>at_impl = im_id im, at_ok = False, at_ms = ms, at_empty = False, at_error = Some (error_message e)\<rparr>]\<rparr>)"

text \<open>\<open>cs\<close> are the candidates, each with the time it was started.\<close>

definition fan_step :: "'a capability \<Rightarrow> ('s implementation \<times> int) list \<Rightarrow> 'a fan_event \<Rightarrow> 'a fan \<Rightarrow> 'a fan" where
  "fan_step c cs ev f =
     (case ev of
        Settle i t (Answer r) \<Rightarrow> settle_ok c (fst (cs ! i)) (t - snd (cs ! i)) t r f
      | Settle i t (Failure e status reset) \<Rightarrow> settle_err (fst (cs ! i)) (t - snd (cs ! i)) t e status reset f
      | Final i \<Rightarrow>
          (let f1 = f\<lparr>fan_pending := fan_pending f - 1\<rparr> in if fan_pending f1 = 0 then fan_finish None f1 else f1))"

text \<open>
  The events up to the one that resolves the promise: what the caller waits for.  Outcomes that
  arrive later are still recorded (\<open>fan_step\<close>); a route's result shows the attempts up to here.
\<close>

fun fan_wait :: "'a capability \<Rightarrow> ('s implementation \<times> int) list \<Rightarrow> 'a fan_event list \<Rightarrow> 'a fan \<Rightarrow> 'a fan" where
  "fan_wait c cs [] f = f"
| "fan_wait c cs (e # es) f = (if fan_answer f \<noteq> None then f else fan_wait c cs es (fan_step c cs e f))"

subsection \<open>Routing\<close>

record 'a routed =
  rt_result :: "'a option"
  rt_impl :: "string option"
  rt_attempts :: "attempt list"

text \<open>
  The environment of a fan-out gives, for the candidates and their timeouts, the events in the order
  they are handled and the environment afterwards.  \<open>None\<close>: some promise never settled, and the
  caller waits for ever.
\<close>

type_synonym ('s, 'a) runs = "('s implementation \<times> int) list \<Rightarrow> int list \<Rightarrow> 's \<Rightarrow> 'a fan_event list \<times> 's"

definition timeouts :: "int \<Rightarrow> 's implementation list \<Rightarrow> int list" where
  "timeouts remaining ims = map (\<lambda>im. min (case im_timeout im of Some t \<Rightarrow> t | None \<Rightarrow> DEFAULT_IMPL_TIMEOUT_MS) remaining) ims"

definition fanout ::
  "('s \<Rightarrow> int) \<Rightarrow> ('s, 'a) runs \<Rightarrow> 'a capability \<Rightarrow> 's implementation list \<Rightarrow> int \<Rightarrow> attempt list \<Rightarrow> 's cap_world
     \<Rightarrow> (('a \<times> string) option \<times> attempt list \<times> 's cap_world) option" where
  "fanout tm env c ims remaining atts w =
     (if ims = [] then Some (None, atts, w)
      else (let cs = map (\<lambda>im. (im, tm (cw_env w))) ims;
                (evs, s) = env cs (timeouts remaining ims) (cw_env w);
                f = fan_wait c cs evs (fan_start (length ims) atts (cw_usage w))
            in (case fan_answer f of
                  None \<Rightarrow> None
                | Some v \<Rightarrow> Some (v, fan_attempts f, w\<lparr>cw_usage := fan_usage f, cw_env := s\<rparr>))))"

fun route_groups ::
  "('s \<Rightarrow> int) \<Rightarrow> ('s, 'a) runs \<Rightarrow> ('s, 'a) registry \<Rightarrow> 'a capability \<Rightarrow> string \<Rightarrow> int \<Rightarrow> string list list \<Rightarrow> attempt list \<Rightarrow> 's cap_world
     \<Rightarrow> ('a routed \<times> 's cap_world) option" where
  "route_groups tm env g c i deadline [] atts w = Some (\<lparr>rt_result = None, rt_impl = None, rt_attempts = atts\<rparr>, w)"
| "route_groups tm env g c i deadline (pats # groups) atts w =
     (let remaining = deadline - tm (cw_env w)
      in if remaining \<le> 0 then Some (\<lparr>rt_result = None, rt_impl = None, rt_attempts = atts\<rparr>, w)
         else (let (ims, w1) = candidates tm g i pats w
               in if ims = [] then route_groups tm env g c i deadline groups atts w1
                  else (case fanout tm env c ims remaining atts w1 of
                      None \<Rightarrow> None
                    | Some (Some (r, who), atts1, w2) \<Rightarrow> Some (\<lparr>rt_result = Some r, rt_impl = Some who, rt_attempts = atts1\<rparr>, w2)
                    | Some (None, atts1, w2) \<Rightarrow> route_groups tm env g c i deadline groups atts1 w2)))"

definition route ::
  "('s \<Rightarrow> int) \<Rightarrow> ('s, 'a) runs \<Rightarrow> ('s, 'a) registry \<Rightarrow> string \<Rightarrow> string list list option \<Rightarrow> int \<Rightarrow> 's cap_world
     \<Rightarrow> (js_error + ('a routed \<times> 's cap_world) option)" where
  "route tm env g i policy budget w =
     (case map_of (reg_capabilities g) i of
        None \<Rightarrow> Inl (an_error (''unknown capability '' @ [DQ] @ i @ [DQ]))
      | Some c \<Rightarrow>
          (let groups = (case policy of Some p \<Rightarrow> p | None \<Rightarrow> (case map_of (reg_policies g) i of Some p \<Rightarrow> p | None \<Rightarrow> [[''*'']]))
           in Inr (route_groups tm env g c i (tm (cw_env w) + budget) groups [] w)))"

end
