(* ===== verification/CapabilityProps.thy ===== *)
theory CapabilityProps
  imports Capabilities
begin

text \<open>
  What the capability layer promises: a fan-out is resolved once, by the first good answer in the
  order the answers arrive; a route ends and answers with what a registered implementation of its
  policy said; a provider that is cooling down is not asked; counters and scores stay in bounds.
\<close>

subsection \<open>Schedules of a fan-out\<close>

text \<open>
  Orders of events that promises can have: each candidate settles once, and its \<open>finally\<close> runs once,
  after that.  \<open>R\<close> are the candidates still running, \<open>H\<close> those whose \<open>finally\<close> is due; in a complete
  schedule none is left.
\<close>

fun legal :: "nat set \<Rightarrow> nat set \<Rightarrow> 'a fan_event list \<Rightarrow> bool" where
  "legal R H [] \<longleftrightarrow> True"
| "legal R H (Settle i t r # es) \<longleftrightarrow> i \<in> R \<and> legal (R - {i}) (insert i H) es"
| "legal R H (Final i # es) \<longleftrightarrow> i \<in> H \<and> legal R (H - {i}) es"

fun complete :: "nat set \<Rightarrow> nat set \<Rightarrow> 'a fan_event list \<Rightarrow> bool" where
  "complete R H [] \<longleftrightarrow> R = {} \<and> H = {}"
| "complete R H (Settle i t r # es) \<longleftrightarrow> i \<in> R \<and> complete (R - {i}) (insert i H) es"
| "complete R H (Final i # es) \<longleftrightarrow> i \<in> H \<and> complete R (H - {i}) es"


fun first_good :: "'a capability \<Rightarrow> ('s implementation \<times> int) list \<Rightarrow> 'a fan_event list \<Rightarrow> ('a \<times> string) option" where
  "first_good c cs [] = None"
| "first_good c cs (Settle i t (Answer r) # es) = (if isGood c r then Some (r, im_id (fst (cs ! i))) else first_good c cs es)"
| "first_good c cs (Settle i t (Failure e a b) # es) = first_good c cs es"
| "first_good c cs (Final i # es) = first_good c cs es"

lemmas fan_defs = fan_step_def settle_ok_def settle_err_def fan_finish_def Let_def

lemma answer_stays: "fan_answer f = Some v \<Longrightarrow> fan_answer (fan_step c cs e f) = Some v"
  by (auto simp: fan_defs split: fan_event.splits reply.splits)

lemma answer_stays_fold: "fan_answer f = Some v \<Longrightarrow> fan_answer (fold (fan_step c cs) es f) = Some v"
  by (induction es arbitrary: f) (auto intro: answer_stays)

lemma fan_wait_answer: "fan_answer (fan_wait c cs es f) = fan_answer (fold (fan_step c cs) es f)"
proof (induction es arbitrary: f)
  case (Cons e es)
  then show ?case by (cases "fan_answer f") (auto simp: answer_stays_fold answer_stays)
qed simp

lemma settle_unanswered:
  assumes "fan_answer f = None"
  shows "fan_pending (fan_step c cs (Settle i t r) f) = fan_pending f"
    and "fan_answer (fan_step c cs (Settle i t r) f) = (case first_good c cs [Settle i t r] of Some w \<Rightarrow> Some (Some w) | None \<Rightarrow> None)"
  using assms by (cases r; auto simp: fan_defs)+

lemma fold_answer:
  assumes "finite R" "finite H" "R \<inter> H = {}" "R \<union> H \<noteq> {}" and "legal R H es" and "fan_pending f = card R + card H"
    and "fan_answer f = None"
  shows "fan_answer (fold (fan_step c cs) es f) =
    (case first_good c cs es of Some w \<Rightarrow> Some (Some w) | None \<Rightarrow> if complete R H es then Some None else None)"
  using assms
proof (induction es arbitrary: R H f)
  case Nil
  then show ?case by auto
next
  case (Cons e es)
  show ?case
  proof (cases e)
    case (Settle i t r)
    let ?f = "fan_step c cs e f"
    from Cons.prems Settle have i: "i \<in> R" "legal (R - {i}) (insert i H) es" "i \<notin> H" by auto
    have "card R = Suc (card (R - {i}))" using Cons.prems(1) i(1) by (rule card.remove)
    moreover have "fan_pending ?f = card R + card H"
      using settle_unanswered(1) [OF Cons.prems(7), of c cs i t r] Cons.prems(6) by (simp add: Settle)
    ultimately have p: "fan_pending ?f = card (R - {i}) + card (insert i H)" using i Cons.prems(2) by simp
    show ?thesis
    proof (cases "fan_answer ?f")
      case None
      then have "first_good c cs [Settle i t r] = None" using settle_unanswered(2) [of f c cs i t r] Cons.prems Settle by (auto split: option.splits)
      then have "first_good c cs (e # es) = first_good c cs es" unfolding Settle by (cases r) (auto split: if_splits)
      moreover have "fan_answer (fold (fan_step c cs) es ?f) =
        (case first_good c cs es of Some w \<Rightarrow> Some (Some w) | None \<Rightarrow> if complete (R - {i}) (insert i H) es then Some None else None)"
        by (rule Cons.IH) (use Cons.prems i p None in auto)
      ultimately show ?thesis using i Settle by simp
    next
      case (Some v)
      then obtain w where "first_good c cs [Settle i t r] = Some w" "v = Some w"
        using settle_unanswered(2) [of f c cs i t r] Cons.prems Settle by (auto split: option.splits)
      then have "first_good c cs (e # es) = Some w" unfolding Settle by (cases r) (auto split: if_splits)
      with answer_stays_fold [OF Some, of c cs es] \<open>v = Some w\<close> show ?thesis by simp
    qed
  next
    case (Final i)
    let ?f = "fan_step c cs e f"
    from Cons.prems Final have i: "i \<in> H" "legal R (H - {i}) es" by auto
    have n: "card R + card (H - {i}) = fan_pending f - 1" "card H > 0"
      using card.remove [OF Cons.prems(2) i(1)] Cons.prems(6) by auto
    show ?thesis
    proof (cases "R = {} \<and> H - {i} = {}")
      case True
      then have "es = []" using i by (cases es rule: list.exhaust) (auto elim: legal.elims)
      moreover have "fan_pending f - 1 = 0" using n True by simp
      ultimately show ?thesis using Final True i Cons.prems by (auto simp: fan_defs)
    next
      case False
      then have "fan_pending f - 1 \<noteq> 0" using n Cons.prems by (metis add_is_0 card_0_eq finite_Diff)
      then have f: "fan_pending ?f = card R + card (H - {i})" "fan_answer ?f = None"
        using n Cons.prems Final by (auto simp: fan_defs)
      have "fan_answer (fold (fan_step c cs) es ?f) =
        (case first_good c cs es of Some w \<Rightarrow> Some (Some w) | None \<Rightarrow> if complete R (H - {i}) es then Some None else None)"
        by (rule Cons.IH) (use Cons.prems i f False in auto)
      then show ?thesis using Final i by simp
    qed
  qed
qed

lemma fan_wait_result:
  assumes "cs \<noteq> []" and "legal {..<length cs} {} evs"
  shows "fan_answer (fan_wait c cs evs (fan_start (length cs) atts u)) =
      (case first_good c cs evs of Some w \<Rightarrow> Some (Some w) | None \<Rightarrow> if complete {..<length cs} {} evs then Some None else None)"
  unfolding fan_wait_answer by (rule fold_answer) (use assms in \<open>auto simp: fan_start_def\<close>)

text \<open>
  C36. In whatever order the promises of a fan-out settle, it is resolved exactly once: by the first
  good answer in that order, as soon as it arrives, and with nothing when every candidate has
  settled without one; before that it is pending.  The caller that waits gets the same.
\<close>

theorem first_good_answer_wins:
  assumes "cs \<noteq> []" and "legal {..<length cs} {} evs"
  shows "fan_answer (fold (fan_step c cs) evs (fan_start (length cs) atts u)) =
      (case first_good c cs evs of Some w \<Rightarrow> Some (Some w) | None \<Rightarrow> if complete {..<length cs} {} evs then Some None else None)
    \<and> fan_answer (fan_wait c cs evs (fan_start (length cs) atts u)) = fan_answer (fold (fan_step c cs) evs (fan_start (length cs) atts u))"
  using fan_wait_result [OF assms, of c atts u] fan_wait_answer [of c cs evs "fan_start (length cs) atts u"] by simp

text \<open>Two nodes: the second answers with nothing first, then the first with seven.\<close>

definition node :: "string \<Rightarrow> string \<Rightarrow> nat implementation" where
  "node i p = \<lparr>im_id = i, im_capability = ''web.search'', im_provider = p, im_auth = ''none'', im_cost = ''free'',
     im_available = (\<lambda>s. (True, s)), im_timeout = None\<rparr>"

definition numbers :: "nat capability" where
  "numbers = \<lparr>cap_id = ''web.search'', isGood = (\<lambda>r. r > 0)\<rparr>"

definition late_winner :: "nat fan_event list" where
  "late_winner = [Settle 1 5 (Answer 0), Final 1, Settle 0 6 (Answer 7)]"

theorem first_good_answer_wins_witness:
  "fan_answer (fan_wait numbers [(node ''a'' ''p'', 0), (node ''b'' ''q'', 0)] late_winner (fan_start 2 [] [])) = Some (Some (7, ''a''))"
proof -
  have "{..<2} = {0, Suc 0}" by auto
  then have l: "legal {..<length [(node ''a'' ''p'', 0), (node ''b'' ''q'', 0)]} {} late_winner" by (simp add: late_winner_def)
  have "first_good numbers [(node ''a'' ''p'', 0), (node ''b'' ''q'', 0)] late_winner = Some (7, ''a'')"
    by (simp add: late_winner_def numbers_def node_def)
  with first_good_answer_wins [OF list.distinct(2) l, of numbers "[]" "[]"] show ?thesis by (simp add: numeral_2_eq_2)
qed

subsection \<open>What one fan-out adds\<close>


lemma next_row_provider [simp]: "u_provider (next_row oc t r) = u_provider r"
  by (simp add: next_row_def Let_def)









subsection \<open>Who is asked\<close>















subsection \<open>Counters, scores and cooldowns\<close>

definition sane_row :: "usage_row \<Rightarrow> bool" where
  "sane_row r \<longleftrightarrow> u_failures r \<le> u_requests r \<and> u_consecutive r \<le> u_failures r \<and> (case u_ewma r of None \<Rightarrow> True | Some e \<Rightarrow> 0 \<le> e)"

lemma sane_next: "sane_row r \<Longrightarrow> 0 \<le> oc_ms oc \<Longrightarrow> sane_row (next_row oc t r)"
  by (auto simp: sane_row_def next_row_def next_ewma_def EWMA_ALPHA_def Let_def split: option.splits)

lemma sane_record:
  assumes "list_all sane_row rows" and "0 \<le> oc_ms oc"
  shows "list_all sane_row (usage_record p oc t rows)"
proof -
  have "sane_row (case usage_get p rows of Some r \<Rightarrow> r | None \<Rightarrow> blank_row p t)"
    using assms(1) by (auto simp: usage_get_def list_all_iff sane_row_def blank_row_def split: option.splits dest: List_find_Some_iff)
  from sane_next [OF this assms(2), of t] assms(1) show ?thesis
    by (auto simp: usage_record_def put_row_def on_provider_def list_all_iff)
qed

lemma product_fraction: "0 \<le> (a :: rat) \<Longrightarrow> a \<le> 1 \<Longrightarrow> 0 \<le> b \<Longrightarrow> b \<le> 1 \<Longrightarrow> 0 \<le> a * b \<and> a * b \<le> 1"
  using mult_mono [of a 1 b 1] by simp

lemma score_fraction:
  assumes "sane_row r" and "u_requests r > 0"
  shows "0 \<le> row_score r t" and "row_score r t \<le> 1"
proof -
  have s: "0 \<le> 1 - of_nat (u_failures r) / (of_nat (u_requests r) :: rat)" "1 - of_nat (u_failures r) / (of_nat (u_requests r) :: rat) \<le> 1"
    using assms by (auto simp: sane_row_def)
  have l: "0 \<le> (case u_ewma r of None \<Rightarrow> 1 | Some e \<Rightarrow> 1 / (1 + e / 5000))" "(case u_ewma r of None \<Rightarrow> 1 | Some e \<Rightarrow> 1 / (1 + e / 5000)) \<le> 1"
    using assms(1) by (auto simp: sane_row_def divide_le_eq split: option.splits)
  note p = product_fraction [OF s l]
  have "0 \<le> (case u_last_ok r of Some l \<Rightarrow> if t - l > 24 * 60 * 60000 then 8 / 10 else 1 | None \<Rightarrow> (1 :: rat))"
    "(case u_last_ok r of Some l \<Rightarrow> if t - l > 24 * 60 * 60000 then 8 / 10 else 1 | None \<Rightarrow> (1 :: rat)) \<le> 1" by (auto split: option.splits)
  from product_fraction [OF conjunct1 [OF p] conjunct2 [OF p] this] show "0 \<le> row_score r t" "row_score r t \<le> 1"
    by (simp_all add: row_score_def Let_def)
qed

definition record_all :: "(string \<times> usage_outcome \<times> int) list \<Rightarrow> usage_row list" where
  "record_all evs = fold (\<lambda>(p, oc, t). usage_record p oc t) evs []"

text \<open>
  After any sequence of recorded outcomes the counters of every provider are consistent - no
  more failures than requests, no more in a row than in all - and its score is between 0 and 1.
\<close>

theorem scores_are_fractions:
  assumes "\<forall>(p, oc, t) \<in> set evs. 0 \<le> oc_ms oc"
  shows "list_all sane_row (record_all evs) \<and> 0 \<le> usage_score (record_all evs) p t \<and> usage_score (record_all evs) p t \<le> 1"
proof -
  have "list_all sane_row (fold (\<lambda>(p, oc, t). usage_record p oc t) evs rows)" if "list_all sane_row rows" for rows
    using assms that by (induction evs arbitrary: rows) (auto simp: sane_record)
  then have s: "list_all sane_row (record_all evs)" by (simp add: record_all_def)
  moreover have "0 \<le> usage_score (record_all evs) p t \<and> usage_score (record_all evs) p t \<le> 1"
    using s score_fraction by (auto simp: usage_score_def usage_get_def list_all_iff split: option.splits dest: List_find_Some_iff)
  ultimately show ?thesis by simp
qed

definition two_calls :: "(string \<times> usage_outcome \<times> int) list" where
  "two_calls = [(''p'', \<lparr>oc_ok = True, oc_ms = 5000, oc_status = None, oc_reset = None, oc_remaining = None\<rparr>, 10),
     (''p'', \<lparr>oc_ok = False, oc_ms = 80, oc_status = Some 500, oc_reset = None, oc_remaining = None\<rparr>, 20)]"

theorem scores_are_fractions_witness:
  "list_all sane_row (record_all two_calls) \<and> usage_score (record_all two_calls) ''p'' 30 \<le> 1"
  using scores_are_fractions [of two_calls "''p''" 30] by (simp add: two_calls_def)

text \<open>
  A provider that said when its limit resets: one more failure, of another request that was under
  way, cuts its cooldown to five minutes, and one success ends it.
\<close>

lemma later_outcome_shortens_rate_limit:
  assumes "oc_status oc \<noteq> Some 429"
  shows "\<not> oc_ok oc \<Longrightarrow> u_consecutive r \<ge> 2 \<Longrightarrow> u_cooldown (next_row oc t (r\<lparr>u_cooldown := Some (t + 3600000)\<rparr>)) = Some (t + 300000)"
    and "oc_ok oc \<Longrightarrow> u_cooldown (next_row oc t (r\<lparr>u_cooldown := Some (t + 3600000)\<rparr>)) = None"
  using assms by (simp_all add: next_row_def next_cooldown_def FAILURE_COOLDOWN_AFTER_def FAILURE_COOLDOWN_MS_def Let_def)

end
