(* ===== verification/Intake.thy ===== *)
theory Intake
  imports Redact Json Memory "HOL-Library.AList"
begin

text \<open>
  How a credential reaches the daemon without passing through the model: the encrypted store
  (\<open>apps/mirod/src/secrets.ts\<close>), the parser of pasted configurations
  (\<open>secret-intake/parse-config.ts\<close>), the watched directory (\<open>secret-intake/drop-file.ts\<close>) and the two tools
  that ask the owner (\<open>agent/interaction-tools.ts\<close>).  The cipher is a parameter.
\<close>

subsection \<open>The store\<close>

text \<open>
  Encryption draws an initialisation vector, the \<open>n\<close>-th of the process; decryption of what is no
  ciphertext under the key throws.
\<close>

record cipher =
  encrypt :: "nat \<Rightarrow> string \<Rightarrow> string"
  decrypt :: "string \<Rightarrow> js_error + string"

record secret_store =
  ss_rows :: "(string \<times> string) list"
  ss_drawn :: nat

definition setSecret :: "cipher \<Rightarrow> string \<Rightarrow> string \<Rightarrow> secret_store \<Rightarrow> secret_store" where
  "setSecret x ref v s = s\<lparr>ss_rows := AList.update ref (encrypt x (ss_drawn s) v) (ss_rows s), ss_drawn := ss_drawn s + 1\<rparr>"

definition getSecret :: "cipher \<Rightarrow> string \<Rightarrow> secret_store \<Rightarrow> js_error + string option" where
  "getSecret x ref s =
     (case map_of (ss_rows s) ref of None \<Rightarrow> Inr None | Some c \<Rightarrow> map_sum (\<lambda>e. e) Some (decrypt x c))"

text \<open>The bytes of a row: overwritten with zeros before the row goes.\<close>

definition zeroed :: "string \<Rightarrow> secret_store \<Rightarrow> secret_store" where
  "zeroed ref s =
     s\<lparr>ss_rows := map (\<lambda>(r, c). if r = ref then (r, replicate (length c) (CHR ''0'')) else (r, c)) (ss_rows s)\<rparr>"

definition deleteSecret :: "string \<Rightarrow> secret_store \<Rightarrow> bool \<times> secret_store" where
  "deleteSecret ref s =
     (case map_of (ss_rows s) ref of
        None \<Rightarrow> (False, s)
      | Some _ \<Rightarrow> (let s1 = zeroed ref s in (True, s1\<lparr>ss_rows := filter (\<lambda>(r, _). r \<noteq> ref) (ss_rows s1)\<rparr>)))"

definition listSecretRefs :: "string \<Rightarrow> secret_store \<Rightarrow> string list" where
  "listSecretRefs prefix s = sort (filter (like_match None (prefix @ ''%'')) (map fst (ss_rows s)))"

subsection \<open>Pasted configurations\<close>

record parsed_config =
  pc_format :: string
  pc_secrets :: "(string \<times> string) list"
  pc_settings :: "(string \<times> string) list"
  pc_summary :: string

text \<open>The keys of a plain object: an assignment to \<open>__proto__\<close> of a string is ignored.\<close>

definition set_key :: "string \<Rightarrow> string \<Rightarrow> (string \<times> string) list \<Rightarrow> (string \<times> string) list" where
  "set_key k v m = (if k = ''__proto__'' then m else AList.update k v m)"

record ini_row =
  ini_section :: string
  ini_key :: string
  ini_value :: string

definition SECTION :: rex where
  "SECTION = seq [Bol, ch CHR ''['', Grp 1 (plus dot), ch CHR '']'', Eol]"

definition ini_line :: "string \<Rightarrow> string \<Rightarrow> ini_row list \<times> string" where
  "ini_line section raw =
     (let line = trim raw
      in if line = [] \<or> starts_with ''#'' line \<or> starts_with '';'' line then ([], section)
         else (case rmatch SECTION line of
             Some (_, k) \<Rightarrow> ([], to_lower (trim (grp 1 k)))
           | None \<Rightarrow>
               (case index_of ''='' line of
                  None \<Rightarrow> ([], section)
                | Some q \<Rightarrow> ([\<lparr>ini_section = section, ini_key = trim (take q line), ini_value = trim (drop (q + 1) line)\<rparr>], section))))"

fun ini_lines :: "string \<Rightarrow> string list \<Rightarrow> ini_row list" where
  "ini_lines section [] = []"
| "ini_lines section (l # ls) = (let (rows, s) = ini_line section l in rows @ ini_lines s ls)"

definition parseIni :: "string \<Rightarrow> ini_row list" where
  "parseIni t = ini_lines [] (split_on NL t)"

definition ini_get :: "ini_row list \<Rightarrow> string \<Rightarrow> string \<Rightarrow> string option" where
  "ini_get rows section key =
     map_option ini_value (List.find (\<lambda>r. ini_section r = section \<and> to_lower (ini_key r) = to_lower key) rows)"

definition wg_map :: "(string \<times> string \<times> string) list" where
  "wg_map = [(''interface'', ''Address'', ''wg_addresses''), (''interface'', ''DNS'', ''wg_dns''), (''peer'', ''PublicKey'', ''wg_public_key''),
     (''peer'', ''Endpoint'', ''wg_endpoint''), (''peer'', ''AllowedIPs'', ''wg_allowed_ips'')]"

definition wg_settings :: "ini_row list \<Rightarrow> (string \<times> string) list" where
  "wg_settings rows =
     foldl (\<lambda>m (section, key, out). case ini_get rows section key of Some v \<Rightarrow> if v \<noteq> [] then set_key out v m else m | None \<Rightarrow> m) [] wg_map"

definition labelled :: "string \<Rightarrow> string option \<Rightarrow> string" where
  "labelled l v = (case v of Some t \<Rightarrow> if t = [] then [] else l @ t | None \<Rightarrow> [])"

definition wg_ref :: "string \<Rightarrow> string" where "wg_ref app = ''extension.'' @ app @ ''.wg_private_key''"

definition wg_summary :: "string \<Rightarrow> (string \<times> string) list \<Rightarrow> string" where
  "wg_summary app settings =
     (let parts = filter (\<lambda>t. t \<noteq> []) [labelled ''endpoint '' (map_of settings ''wg_endpoint''), labelled ''address '' (map_of settings ''wg_addresses'')]
      in ''WireGuard config: private key stored as '' @ wg_ref app @ (if parts \<noteq> [] then ''; '' @ join '', '' parts else []))"

definition wg_parsed :: "string \<Rightarrow> string \<Rightarrow> (string \<times> string) list \<Rightarrow> parsed_config" where
  "wg_parsed app priv settings =
     \<lparr>pc_format = ''wireguard'', pc_secrets = [(wg_ref app, priv)], pc_settings = settings, pc_summary = wg_summary app settings\<rparr>"

definition parseWireguard :: "string \<Rightarrow> string \<Rightarrow> parsed_config option" where
  "parseWireguard t app =
     (let rows = parseIni t
      in (case ini_get rows ''interface'' ''PrivateKey'' of
            None \<Rightarrow> None
          | Some priv \<Rightarrow> if priv = [] then None else Some (wg_parsed app priv (wg_settings rows))))"

definition SECRET_NAME :: rex where
  "SECRET_NAME = Cat (alt [liti ''password'', liti ''passwd'', liti ''secret'', liti ''token'',
     seq [liti ''api'', opt (one_of ''_-''), liti ''key''], seq [liti ''access'', opt (one_of ''_-''), liti ''key''],
     seq [liti ''private'', opt (one_of ''_-''), liti ''key''], seq [liti ''client'', opt (one_of ''_-''), liti ''secret''],
     liti ''auth'', liti ''credential'']) Eol"

definition ENV_NAME :: rex where
  "ENV_NAME = seq [Bol, Cls (\<lambda>c. alpha c \<or> c = CHR ''_''), Star (Cls (\<lambda>c. alnum c \<or> c = CHR ''_'')), Eol]"

definition export_re :: rex where "export_re = seq [Bol, lit ''export'', plus space]"

definition outer_quotes :: rex where
  "outer_quotes = Alt (Cat Bol (one_of [DQ, SQ])) (Cat (one_of [DQ, SQ]) Eol)"

text \<open>\<open>None\<close> is a line that makes the whole input no \<open>.env\<close> file.\<close>

definition env_line :: "string \<Rightarrow> (string \<times> string) list option" where
  "env_line raw =
     (let line = trim raw
      in if line = [] \<or> starts_with ''#'' line then Some []
         else (case index_of ''='' line of
             None \<Rightarrow> None
           | Some q \<Rightarrow>
               (let k = replace_first export_re (\<lambda>_ _. []) (trim (take q line))
                in if rtest ENV_NAME k then Some [(k, replace_all outer_quotes (\<lambda>_ _. []) (trim (drop (q + 1) line)))] else None)))"

fun env_lines :: "string list \<Rightarrow> (string \<times> string) list option" where
  "env_lines [] = Some []"
| "env_lines (l # ls) =
     (case env_line l of None \<Rightarrow> None | Some a \<Rightarrow> map_option (\<lambda>b. a @ b) (env_lines ls))"

definition env_ref :: "string \<Rightarrow> string \<Rightarrow> string" where
  "env_ref app k = ''extension.'' @ app @ ''.'' @ to_lower k"

definition env_secrets :: "string \<Rightarrow> (string \<times> string) list \<Rightarrow> (string \<times> string) list" where
  "env_secrets app kvs = map (\<lambda>(k, v). (env_ref app k, v)) (filter (\<lambda>(k, _). rtest SECRET_NAME k) kvs)"

definition env_settings :: "(string \<times> string) list \<Rightarrow> (string \<times> string) list" where
  "env_settings kvs = foldl (\<lambda>m (k, v). set_key k v m) [] (filter (\<lambda>(k, _). \<not> rtest SECRET_NAME k) kvs)"

definition env_parsed :: "string \<Rightarrow> (string \<times> string) list \<Rightarrow> parsed_config" where
  "env_parsed app kvs =
     (let secrets = env_secrets app kvs; settings = env_settings kvs
      in \<lparr>pc_format = ''env'', pc_secrets = secrets, pc_settings = settings,
          pc_summary = ''.env: '' @ show_nat (length secrets) @ '' secret var(s), '' @ show_nat (length settings) @ '' non-secret var(s)''\<rparr>)"

definition parseEnv :: "string \<Rightarrow> string \<Rightarrow> parsed_config option" where
  "parseEnv t app =
     (case env_lines (split_on NL t) of
        None \<Rightarrow> None
      | Some kvs \<Rightarrow> if kvs = [] then None else Some (env_parsed app kvs))"

definition raw_parsed :: "string \<Rightarrow> string \<Rightarrow> parsed_config" where
  "raw_parsed t app = \<lparr>pc_format = ''raw'', pc_secrets = [(''extension.'' @ app @ ''.secret'', trim t)], pc_settings = [],
     pc_summary = ''unrecognized format; stored the whole value as one secret''\<rparr>"

definition parseConfig :: "string \<Rightarrow> string \<Rightarrow> parsed_config" where
  "parseConfig t app =
     (case parseWireguard t app of
        Some p \<Rightarrow> p
      | None \<Rightarrow> (case parseEnv t app of Some p \<Rightarrow> p | None \<Rightarrow> raw_parsed t app))"

subsection \<open>The tools\<close>

definition NO_USER_ANSWER :: string where "NO_USER_ANSWER = ''[no user available - decide yourself or stop]''"

definition not_stored :: "string \<Rightarrow> json" where
  "not_stored v = JObj [(''stored'', JBool False),
     (''reason'', JStr (if v = NO_USER_ANSWER then ''no user available'' else ''no value given''))]"

text \<open>What the owner typed, the result the model is shown, and the store afterwards.\<close>

definition request_secret :: "cipher \<Rightarrow> string \<Rightarrow> string \<Rightarrow> secret_store \<Rightarrow> json \<times> secret_store" where
  "request_secret x ref answer s =
     (let v = trim answer
      in if v = [] \<or> v = NO_USER_ANSWER then (not_stored v, s)
         else (JObj [(''stored'', JBool True), (''ref'', JStr ref)], setSecret x ref v s))"

definition shown_config :: "parsed_config \<Rightarrow> json" where
  "shown_config p = JObj [(''format'', JStr (pc_format p)), (''storedRefs'', JArr (map (\<lambda>(r, _). JStr r) (pc_secrets p))),
     (''config'', JObj (map (\<lambda>(k, v). (k, JStr v)) (pc_settings p))), (''summary'', JStr (pc_summary p))]"

definition store_all :: "cipher \<Rightarrow> (string \<times> string) list \<Rightarrow> secret_store \<Rightarrow> secret_store" where
  "store_all x kvs s = foldl (\<lambda>s (r, v). setSecret x r v s) s kvs"

definition paste_config :: "cipher \<Rightarrow> string \<Rightarrow> string \<Rightarrow> secret_store \<Rightarrow> json \<times> secret_store" where
  "paste_config x app answer s =
     (let raw = trim answer
      in if raw = [] \<or> raw = NO_USER_ANSWER then (not_stored raw, s)
         else (let p = parseConfig raw app in (shown_config p, store_all x (pc_secrets p) s)))"

subsection \<open>The watched directory\<close>

definition REF_RE :: rex where
  "REF_RE = (let part = plus (Cls (\<lambda>c. alnum c \<or> c = CHR ''_'' \<or> c = CHR ''-'')) in seq [Bol, part, plus (Cat (ch CHR ''.'') part), Eol])"

text \<open>An entry: whether it is a file, what reading it gives, and why it cannot be removed.\<close>

record drop_entry =
  d_file :: "js_error + bool"
  d_text :: "js_error + string"
  d_stuck :: "js_error option"

text \<open>One entry: whether a secret was imported, and whether the entry is still there.\<close>

definition drop_one :: "cipher \<Rightarrow> string \<Rightarrow> drop_entry \<Rightarrow> secret_store \<Rightarrow> bool \<times> bool \<times> secret_store" where
  "drop_one x name d s =
     (case d_file d of
        Inl _ \<Rightarrow> (False, True, s)
      | Inr f \<Rightarrow>
          if \<not> f \<or> \<not> rtest REF_RE name then (False, True, s)
          else (case d_text d of
              Inl _ \<Rightarrow> (False, True, s)
            | Inr t \<Rightarrow>
                (let v = trim t; s1 = (if v \<noteq> [] then setSecret x name v s else s)
                 in (v \<noteq> [], d_stuck d \<noteq> None, s1))))"

fun importSecretDropFiles :: "cipher \<Rightarrow> (string \<times> drop_entry) list \<Rightarrow> secret_store \<Rightarrow> nat \<times> (string \<times> drop_entry) list \<times> secret_store" where
  "importSecretDropFiles x [] s = (0, [], s)"
| "importSecretDropFiles x ((name, d) # ds) s =
     (let (imported, left, s1) = drop_one x name d s; (n, rest, s2) = importSecretDropFiles x ds s1
      in (if imported then n + 1 else n, if left then (name, d) # rest else rest, s2))"

end
