(* ===== verification/IntakeProps.thy ===== *)
theory IntakeProps
  imports Intake
begin

text \<open>
  What the intake of credentials promises: what the model is shown of a pasted configuration does
  not depend on the values of its secrets, what is stored can be read back, and the watched
  directory keeps nothing that was imported.
\<close>

subsection \<open>The store\<close>

text \<open>The cipher decrypts what it encrypted.\<close>

definition round_trips :: "cipher \<Rightarrow> bool" where
  "round_trips x \<longleftrightarrow> (\<forall>n v. decrypt x (encrypt x n v) = Inr v)"

lemma getSecret_set: "round_trips x \<Longrightarrow> getSecret x r (setSecret x ref v s) = (if r = ref then Inr (Some v) else getSecret x r s)"
  by (simp add: getSecret_def setSecret_def update_conv' round_trips_def)

lemma getSecret_delete: "getSecret x r (snd (deleteSecret ref s)) = (if r = ref then Inr None else getSecret x r s)"
proof -
  have "map_of (filter (\<lambda>(q, _). q \<noteq> ref) (map (\<lambda>(q, c). if q = ref then (q, f c) else (q, c)) rows)) r =
      (if r = ref then None else map_of rows r)" for rows :: "(string \<times> string) list" and f
    by (induction rows) (auto split: if_splits)
  then show ?thesis by (auto simp: getSecret_def deleteSecret_def zeroed_def Let_def split: option.splits)
qed

subsection \<open>Pasted configurations\<close>

text \<open>A row of a WireGuard file without the private key, an \<open>.env\<close> line without a secret value.\<close>

definition hide_row :: "ini_row \<Rightarrow> ini_row" where
  "hide_row r = (if ini_section r = ''interface'' \<and> to_lower (ini_key r) = ''privatekey'' then r\<lparr>ini_value := []\<rparr> else r)"

definition hide_var :: "string \<times> string \<Rightarrow> string \<times> string" where
  "hide_var kv = (case kv of (k, v) \<Rightarrow> (k, if rtest SECRET_NAME k then [] else v))"

text \<open>What of a pasted text is no secret: of a text that is neither format, nothing.\<close>

datatype public_part = Wireguard "ini_row list" | Env "(string \<times> string) list" | Opaque

definition public_of :: "string \<Rightarrow> public_part" where
  "public_of t =
     (if (case ini_get (parseIni t) ''interface'' ''PrivateKey'' of Some p \<Rightarrow> p \<noteq> [] | None \<Rightarrow> False)
      then Wireguard (map hide_row (parseIni t))
      else (case env_lines (split_on NL t) of Some kvs \<Rightarrow> if kvs = [] then Opaque else Env (map hide_var kvs) | None \<Rightarrow> Opaque))"

lemma hide_row_fields [simp]: "ini_section (hide_row r) = ini_section r" "ini_key (hide_row r) = ini_key r"
  by (simp_all add: hide_row_def)









definition mirror :: cipher where
  "mirror = \<lparr>encrypt = (\<lambda>_. rev), decrypt = (\<lambda>c. Inr (rev c))\<rparr>"

definition no_secrets :: secret_store where "no_secrets = \<lparr>ss_rows = [], ss_drawn = 0\<rparr>"


lemma secret_names:
  "rtest SECRET_NAME ''TOKEN''" "\<not> rtest SECRET_NAME ''PORT''" "\<not> rtest SECRET_NAME ''DB_PASS''" "\<not> rtest SECRET_NAME ''URL''"
  by code_simp+

text \<open>A text without \<open>PrivateKey\<close> whose lines are variables.\<close>

lemma parse_env:
  assumes "ini_get (parseIni t) ''interface'' ''PrivateKey'' = None" and "env_lines (split_on NL t) = Some (kv # kvs)"
  shows "parseConfig t app = env_parsed app (kv # kvs)" and "public_of t = Env (map hide_var (kv # kvs))"
  using assms by (simp_all add: parseConfig_def parseWireguard_def parseEnv_def public_of_def)


text \<open>
  What counts as public is what the parser does not recognise: a variable whose name ends otherwise
  is config that the model sees, its password with it, and a second key of a WireGuard file is
  neither stored nor shown.
\<close>

lemma unnamed_secrets_are_shown:
  "pc_settings (parseConfig ''DB_PASS=hunter2'' ''app'') = [(''DB_PASS'', ''hunter2'')]"
  "pc_settings (parseConfig ''URL=ftp://u:hunter2@h'' ''app'') = [(''URL'', ''ftp://u:hunter2@h'')]"
proof -
  have i: "ini_get (parseIni ''DB_PASS=hunter2'') ''interface'' ''PrivateKey'' = None"
      "ini_get (parseIni ''URL=ftp://u:hunter2@h'') ''interface'' ''PrivateKey'' = None"
    and e: "env_lines (split_on NL ''DB_PASS=hunter2'') = Some [(''DB_PASS'', ''hunter2'')]"
      "env_lines (split_on NL ''URL=ftp://u:hunter2@h'') = Some [(''URL'', ''ftp://u:hunter2@h'')]" by code_simp+
  show "pc_settings (parseConfig ''DB_PASS=hunter2'' ''app'') = [(''DB_PASS'', ''hunter2'')]"
    "pc_settings (parseConfig ''URL=ftp://u:hunter2@h'' ''app'') = [(''URL'', ''ftp://u:hunter2@h'')]"
    unfolding parse_env(1) [OF i(1) e(1)] parse_env(1) [OF i(2) e(2)]
    by (simp_all add: env_parsed_def Let_def env_settings_def secret_names set_key_def)
qed

definition psk_paste :: string where
  "psk_paste = ''[Interface]'' @ [NL] @ ''PrivateKey = k'' @ [NL] @ ''[Peer]'' @ [NL] @ ''PresharedKey = p'' @ [NL] @ ''PublicKey = q''"

lemma preshared_key_is_lost:
  "pc_secrets (parseConfig psk_paste ''vpn'') = [(''extension.vpn.wg_private_key'', ''k'')]"
  "pc_settings (parseConfig psk_paste ''vpn'') = [(''wg_public_key'', ''q'')]"
  by code_simp+

subsection \<open>The watched directory\<close>

text \<open>An entry that holds a secret: a readable file with the name of a reference and a text.\<close>

definition holds :: "string \<Rightarrow> drop_entry \<Rightarrow> string \<Rightarrow> bool" where
  "holds name d v \<longleftrightarrow> d_file d = Inr True \<and> rtest REF_RE name \<and> (\<exists>t. d_text d = Inr t \<and> trim t = v) \<and> v \<noteq> []"

definition taken :: "string \<times> drop_entry \<Rightarrow> bool" where
  "taken e \<longleftrightarrow> (case e of (name, d) \<Rightarrow> d_file d = Inr True \<and> rtest REF_RE name \<and> (\<exists>t. d_text d = Inr t) \<and> d_stuck d = None)"

lemma drop_one_cases:
  assumes "round_trips x"
  shows "drop_one x name d s = (i, l, s1) \<Longrightarrow> holds name d v \<Longrightarrow> getSecret x name s1 = Inr (Some v)"
    and "drop_one x name d s = (i, l, s1) \<Longrightarrow> r \<noteq> name \<or> (\<forall>v. \<not> holds name d v) \<Longrightarrow> getSecret x r s1 = getSecret x r s"
    and "drop_one x name d s = (i, l, s1) \<Longrightarrow> l \<longleftrightarrow> \<not> taken (name, d)"
    and "drop_one x name d s = (i, l, s1) \<Longrightarrow> i \<longleftrightarrow> (\<exists>v. holds name d v)"
  using getSecret_set [OF assms]
  by (auto simp: drop_one_def holds_def taken_def Let_def split: sum.splits if_splits)

text \<open>
  An import of the watched directory stores the trimmed text of every readable file whose name
  is a reference, changes no other secret, removes from the directory exactly the files it could
  read and remove, and counts what it stored.
\<close>

theorem drop_files_are_taken:
  assumes "round_trips x" and "distinct (map fst ds)" and "importSecretDropFiles x ds s = (n, rest, s1)"
  shows "(\<forall>(name, d) \<in> set ds. \<forall>v. holds name d v \<longrightarrow> getSecret x name s1 = Inr (Some v)) \<and>
    (\<forall>r. (\<forall>(name, d) \<in> set ds. r = name \<longrightarrow> (\<forall>v. \<not> holds name d v)) \<longrightarrow> getSecret x r s1 = getSecret x r s) \<and>
    rest = filter (\<lambda>e. \<not> taken e) ds \<and> n = length (filter (\<lambda>(name, d). \<exists>v. holds name d v) ds)"
  using assms(2,3)
proof (induction ds arbitrary: s n rest)
  case (Cons e ds)
  obtain name d where e: "e = (name, d)" by fastforce
  obtain i l s2 where one: "drop_one x name d s = (i, l, s2)" by (metis prod_cases3)
  obtain m rest' s3 where more_: "importSecretDropFiles x ds s2 = (m, rest', s3)" by (metis prod_cases3)
  from Cons.prems(2) e one more_ have eq: "n = (if i then m + 1 else m)" "rest = (if l then (name, d) # rest' else rest')" "s1 = s3" by auto
  note IH = Cons.IH [OF _ more_ [folded eq(3)]]
  have fresh: "name \<notin> fst ` set ds" "distinct (map fst ds)" using Cons.prems(1) e by auto
  note c = drop_one_cases [OF assms(1), of name d s]
  have "\<forall>(q, d) \<in> set ds. name = q \<longrightarrow> (\<forall>v. \<not> holds q d v)" using fresh by (auto simp: image_iff)
  with IH fresh have keep: "getSecret x name s1 = getSecret x name s2" by blast
  show ?case
  proof (intro conjI)
    show "\<forall>(name, d) \<in> set (e # ds). \<forall>v. holds name d v \<longrightarrow> getSecret x name s1 = Inr (Some v)"
      using IH fresh c(1) [OF one] keep e by auto
    show "\<forall>r. (\<forall>(name, d) \<in> set (e # ds). r = name \<longrightarrow> (\<forall>v. \<not> holds name d v)) \<longrightarrow> getSecret x r s1 = getSecret x r s"
    proof (intro allI impI)
      fix r
      assume a: "\<forall>(name, d) \<in> set (e # ds). r = name \<longrightarrow> (\<forall>v. \<not> holds name d v)"
      then have "getSecret x r s1 = getSecret x r s2" using IH fresh by auto
      moreover have "getSecret x r s2 = getSecret x r s" by (rule c(2) [OF one]) (use a e in auto)
      ultimately show "getSecret x r s1 = getSecret x r s" by simp
    qed
    show "rest = filter (\<lambda>e. \<not> taken e) (e # ds)" using IH fresh c(3) [OF one] eq e by auto
    show "n = length (filter (\<lambda>(name, d). \<exists>v. holds name d v) (e # ds))" using IH fresh c(4) [OF one] eq e by auto
  qed
qed simp

definition two_drops :: "(string \<times> drop_entry) list" where
  "two_drops = [(''provider.github'', \<lparr>d_file = Inr True, d_text = Inr (''ghp'' @ [NL]), d_stuck = None\<rparr>),
     (''notaref'', \<lparr>d_file = Inr True, d_text = Inr ''x'', d_stuck = None\<rparr>)]"

theorem drop_files_are_taken_witness:
  "\<exists>n rest s1. importSecretDropFiles mirror two_drops no_secrets = (n, rest, s1) \<and>
     getSecret mirror ''provider.github'' s1 = Inr (Some ''ghp'') \<and> map fst rest = [''notaref'']"
proof -
  have r: "round_trips mirror" by (simp add: round_trips_def mirror_def)
  have d: "distinct (map fst two_drops)" by (simp add: two_drops_def)
  have f: "rtest REF_RE ''provider.github''" "\<not> rtest REF_RE ''notaref''" "trim (''ghp'' @ [NL]) = ''ghp''" by code_simp+
  obtain n rest s1 where i: "importSecretDropFiles mirror two_drops no_secrets = (n, rest, s1)" by (metis prod_cases3)
  note all = drop_files_are_taken [OF r d i]
  have "(''provider.github'', \<lparr>d_file = Inr True, d_text = Inr (''ghp'' @ [NL]), d_stuck = None\<rparr>) \<in> set two_drops" by (simp add: two_drops_def)
  moreover have "holds ''provider.github'' \<lparr>d_file = Inr True, d_text = Inr (''ghp'' @ [NL]), d_stuck = None\<rparr> ''ghp''"
    using f by (simp add: holds_def)
  ultimately have "getSecret mirror ''provider.github'' s1 = Inr (Some ''ghp'')" using conjunct1 [OF all] by blast
  moreover have "rest = filter (\<lambda>e. \<not> taken e) two_drops" using all by simp
  then have "map fst rest = [''notaref'']" using f by (simp add: two_drops_def taken_def)
  ultimately show ?thesis using i by (intro exI conjI)
qed

end
