(* ===== verification/Extensions.thy ===== *)
theory Extensions
  imports Json Regex Tables
begin

text \<open>
  The life of a learned extension (\<open>apps/mirod/src/extensions/store.ts\<close>, \<open>pin.ts\<close>, \<open>repair.ts\<close>,
  \<open>learn.ts\<close>, the read tools of \<open>agent/extension-tools.ts\<close> and the implementations of
  \<open>capabilities/extensions.ts\<close>): its row, the hash of the code that was validated, the calls of its
  tools, the repair after repeated failures with its circuit breaker, the health sweep, and the
  learning of an app.  What the extension host answers, what is on disk and what a learning session
  does are parameters; a session acts on the table only by promoting what it wrote.
\<close>

subsection \<open>The table\<close>

datatype ext_state = Enabled | Disabled

text \<open>Of a manifest, what the daemon acts on: a diagnostic has a name and whether it needs arguments.\<close>

record ext_manifest =
  mf_app :: string
  mf_url :: string
  mf_diagnostics :: "(string \<times> bool) list"

record ext_row =
  x_app :: string
  x_state :: ext_state
  x_manifest :: "ext_manifest column"
  x_version :: nat
  x_url :: string
  x_failures :: nat
  x_repairs :: nat
  x_validated :: "int option"
  x_error :: "string option"
  x_successes :: nat
  x_hash :: "string option"
  x_created :: int
  x_updated :: int

definition TRUSTED_AFTER_SUCCESSFUL_RUNS :: nat where "TRUSTED_AFTER_SUCCESSFUL_RUNS = 10"
definition REPAIR_THRESHOLD :: nat where "REPAIR_THRESHOLD = 2"
definition MAX_REPAIR_ATTEMPTS :: nat where "MAX_REPAIR_ATTEMPTS = 3"
definition MAX_LEARN_DEPTH :: nat where "MAX_LEARN_DEPTH = 3"
definition MAX_REGENERATIONS :: nat where "MAX_REGENERATIONS = 3"

definition trusted :: "ext_row \<Rightarrow> bool" where
  "trusted r \<longleftrightarrow> x_successes r \<ge> TRUSTED_AFTER_SUCCESSFUL_RUNS \<and> x_repairs r = 0"

definition getExtension :: "string \<Rightarrow> ext_row list \<Rightarrow> ext_row option" where
  "getExtension app rows = List.find (\<lambda>r. x_app r = app) rows"

text \<open>\<open>UPDATE ... WHERE app = ?\<close>.\<close>

definition on_app :: "string \<Rightarrow> (ext_row \<Rightarrow> ext_row) \<Rightarrow> ext_row list \<Rightarrow> ext_row list" where
  "on_app app f rows = map (\<lambda>r. if x_app r = app then f r else r) rows"

interpretation exts: keyed_table x_app on_app getExtension
  by unfold_locales (simp_all add: on_app_def getExtension_def)

record promotion =
  pr_app :: string
  pr_manifest :: "ext_manifest column"
  pr_version :: nat
  pr_url :: string
  pr_hash :: string

definition promote :: "int \<Rightarrow> promotion \<Rightarrow> ext_row list \<Rightarrow> ext_row list" where
  "promote t p rows =
     (if getExtension (pr_app p) rows = None
      then rows @ [\<lparr>x_app = pr_app p, x_state = Enabled, x_manifest = pr_manifest p, x_version = pr_version p, x_url = pr_url p,
             x_failures = 0, x_repairs = 0, x_validated = Some t, x_error = None, x_successes = 0, x_hash = Some (pr_hash p),
             x_created = t, x_updated = t\<rparr>]
      else on_app (pr_app p) (\<lambda>r. r\<lparr>x_state := Enabled, x_manifest := pr_manifest p, x_version := pr_version p, x_url := pr_url p,
             x_failures := 0, x_repairs := 0, x_validated := Some t, x_error := None, x_successes := 0, x_hash := Some (pr_hash p),
             x_updated := t\<rparr>) rows)"

definition setContentHash :: "int \<Rightarrow> string \<Rightarrow> string \<Rightarrow> ext_row list \<Rightarrow> ext_row list" where
  "setContentHash t app h = on_app app (\<lambda>r. if x_hash r = None then r\<lparr>x_hash := Some h, x_updated := t\<rparr> else r)"

definition recordFailure :: "int \<Rightarrow> string \<Rightarrow> string \<Rightarrow> ext_row list \<Rightarrow> nat \<times> ext_row list" where
  "recordFailure t app e rows =
     (let rows1 = on_app app (\<lambda>r. r\<lparr>x_failures := x_failures r + 1, x_error := Some e, x_updated := t\<rparr>) rows
      in (case getExtension app rows1 of Some r \<Rightarrow> x_failures r | None \<Rightarrow> 0, rows1))"

definition recordSuccess :: "int \<Rightarrow> string \<Rightarrow> ext_row list \<Rightarrow> ext_row list" where
  "recordSuccess t app = on_app app (\<lambda>r. r\<lparr>x_failures := 0, x_successes := x_successes r + 1, x_validated := Some t, x_updated := t\<rparr>)"

definition recordProbeSuccess :: "int \<Rightarrow> string \<Rightarrow> ext_row list \<Rightarrow> ext_row list" where
  "recordProbeSuccess t app = on_app app (\<lambda>r. r\<lparr>x_failures := 0, x_validated := Some t, x_updated := t\<rparr>)"

definition incrementRepairAttempts :: "int \<Rightarrow> string \<Rightarrow> ext_row list \<Rightarrow> nat \<times> ext_row list" where
  "incrementRepairAttempts t app rows =
     (let rows1 = on_app app (\<lambda>r. r\<lparr>x_repairs := x_repairs r + 1, x_updated := t\<rparr>) rows
      in (case getExtension app rows1 of Some r \<Rightarrow> x_repairs r | None \<Rightarrow> 0, rows1))"

definition disable_ext :: "int \<Rightarrow> string \<Rightarrow> string \<Rightarrow> ext_row list \<Rightarrow> ext_row list" where
  "disable_ext t app why = on_app app (\<lambda>r. r\<lparr>x_state := Disabled, x_error := Some why, x_updated := t\<rparr>)"

definition listEnabled :: "ext_row list \<Rightarrow> ext_row list" where
  "listEnabled rows = filter (\<lambda>r. x_state r = Enabled) rows"

subsection \<open>The world\<close>

text \<open>
  Learning sessions are told the app, the depth and the draft they start from; a session answers
  with its text, whether it promoted, and the last draft that did not validate with its failures, or
  throws.  \<open>ex_hash\<close> is the hash of the two files of an extension as they are on disk.
\<close>

record draft =
  dr_code :: string
  dr_failures :: "(string option \<times> string) list"

record session_result =
  sr_text :: string
  sr_promoted :: bool
  sr_draft :: "draft option"

record 's ext_env =
  ex_time :: "'s \<Rightarrow> int"
  ex_hash :: "string \<Rightarrow> 's \<Rightarrow> js_error + string"
  ex_code :: "string \<Rightarrow> 's \<Rightarrow> string option"
  ex_call :: "string \<Rightarrow> string \<Rightarrow> json \<Rightarrow> 's \<Rightarrow> (js_error + json) \<times> 's"
  ex_model :: "'s \<Rightarrow> bool \<times> 's"
  ex_session :: "string \<Rightarrow> nat \<Rightarrow> draft option \<Rightarrow> 's \<Rightarrow> (js_error + session_result) \<times> promotion list \<times> 's"
  ex_presence :: "string \<Rightarrow> 's \<Rightarrow> bool \<times> 's"

text \<open>
  Beside the table and the environment: the warnings sent, the notifications made, the apps being
  learned, and, for the statements about them, the calls made to the host - each with the app and
  the hash of the files on disk - and the sessions started.
\<close>

record 's ext_world =
  xw_rows :: "ext_row list"
  xw_env :: 's
  xw_warned :: "string list"
  xw_notified :: "(string \<times> string) list"
  xw_busy :: "string list"
  xw_calls :: "(string \<times> (js_error + string)) list"
  xw_sessions :: "string list"

definition on_rows :: "(ext_row list \<Rightarrow> ext_row list) \<Rightarrow> 's ext_world \<Rightarrow> 's ext_world" where
  "on_rows f w = w\<lparr>xw_rows := f (xw_rows w)\<rparr>"

definition warn :: "string \<Rightarrow> 's ext_world \<Rightarrow> 's ext_world" where
  "warn t w = w\<lparr>xw_warned := xw_warned w @ [t]\<rparr>"

definition x_now :: "'s ext_env \<Rightarrow> 's ext_world \<Rightarrow> int" where
  "x_now x w = ex_time x (xw_env w)"

definition host_call :: "'s ext_env \<Rightarrow> string \<Rightarrow> string \<Rightarrow> json \<Rightarrow> 's ext_world \<Rightarrow> (js_error + json) \<times> 's ext_world" where
  "host_call x app entry args w =
     (let w1 = w\<lparr>xw_calls := xw_calls w @ [(app, ex_hash x app (xw_env w))]\<rparr>; (r, s) = ex_call x app entry args (xw_env w1)
      in (r, w1\<lparr>xw_env := s\<rparr>))"

text \<open>What a session promoted is in the table when it returns, and when it throws.\<close>

definition run_session :: "'s ext_env \<Rightarrow> string \<Rightarrow> nat \<Rightarrow> draft option \<Rightarrow> 's ext_world \<Rightarrow> (js_error + session_result) \<times> 's ext_world" where
  "run_session x app depth seed w =
     (let (r, ps, s) = ex_session x app depth seed (xw_env w); t = ex_time x s
      in (r, w\<lparr>xw_rows := foldl (\<lambda>rows p. promote t p rows) (xw_rows w) ps, xw_env := s, xw_sessions := xw_sessions w @ [app]\<rparr>))"

subsection \<open>Pinning\<close>

definition pin_error :: "string \<Rightarrow> js_error" where
  "pin_error app = JsError ''PinMismatchError'' (''refused: extension '' @ [DQ] @ app @ [DQ, SQ] @
     ''s code on disk does not match what was validated and promoted - disabled; re-learn it to re-validate'')"

definition assertPinned :: "'s ext_env \<Rightarrow> string \<Rightarrow> 's ext_world \<Rightarrow> js_error option \<times> 's ext_world" where
  "assertPinned x app w =
     (case getExtension app (xw_rows w) of
        None \<Rightarrow> (None, w)
      | Some r \<Rightarrow>
          if x_state r \<noteq> Enabled then (None, w)
          else (case ex_hash x app (xw_env w) of
              Inl e \<Rightarrow> (Some e, w)
            | Inr h \<Rightarrow>
                (case x_hash r of
                   None \<Rightarrow> (None, on_rows (setContentHash (x_now x w) app h) w)
                 | Some h0 \<Rightarrow>
                     if h0 \<noteq> h
                     then (Some (pin_error app), on_rows (disable_ext (x_now x w) app ''content hash mismatch: extension.ts/manifest changed after promotion'') w)
                     else (None, w))))"

subsection \<open>Repair\<close>

definition APP_NAME :: rex where
  "APP_NAME = (let c = (\<lambda>c. is_lower c \<or> is_digit c)
     in seq [Bol, Cls c, between 0 63 (Cls (\<lambda>d. c d \<or> d = CHR ''_'' \<or> d = CHR ''-'')), Eol])"

definition bad_name :: "string \<Rightarrow> js_error" where
  "bad_name app = an_error ([DQ] @ app @ [DQ] @ '' is not an app name (lowercase letters, digits, - and _, up to 64 characters)'')"

definition give_up :: "'s ext_env \<Rightarrow> string \<Rightarrow> string \<Rightarrow> string \<Rightarrow> 's ext_world \<Rightarrow> 's ext_world" where
  "give_up x app why body w =
     (let w1 = on_rows (disable_ext (x_now x w) app why) w;
          w2 = warn (''Gave up repairing '' @ app @ '' after '' @ show_nat MAX_REPAIR_ATTEMPTS @ '' attempts - disabled.'') w1
      in w2\<lparr>xw_notified := xw_notified w2 @ [(''Gave up repairing '' @ app @ '' - disabled'', body)]\<rparr>)"

definition attempt_repair :: "'s ext_env \<Rightarrow> string \<Rightarrow> string \<Rightarrow> string \<Rightarrow> 's ext_world \<Rightarrow> (js_error + bool) \<times> 's ext_world" where
  "attempt_repair x app tool e w =
     (let (attempts, rows) = incrementRepairAttempts (x_now x w) app (xw_rows w);
          w1 = warn (app @ [SQ] @ ''s '' @ tool @ '' tool is failing - attempting a repair...'') (w\<lparr>xw_rows := rows\<rparr>);
          seed = map_option (\<lambda>code. \<lparr>dr_code = code, dr_failures = [(Some tool, e)]\<rparr>) (ex_code x app (xw_env w1))
      in (case run_session x app 0 seed w1 of
            (Inl err, w2) \<Rightarrow> (Inl err, w2)
          | (Inr r, w2) \<Rightarrow>
              if \<not> sr_promoted r \<and> attempts \<ge> MAX_REPAIR_ATTEMPTS
              then (Inr (sr_promoted r),
                    give_up x app (''Repair failed after '' @ show_nat MAX_REPAIR_ATTEMPTS @ '' attempts: '' @ e)
                      (''Repair failed after '' @ show_nat MAX_REPAIR_ATTEMPTS @ '' attempts. Last error: '' @ e) w2)
              else (Inr (sr_promoted r), w2)))"

definition maybeTriggerRepair :: "'s ext_env \<Rightarrow> string \<Rightarrow> string \<Rightarrow> string \<Rightarrow> 's ext_world \<Rightarrow> (js_error + bool) \<times> 's ext_world" where
  "maybeTriggerRepair x app tool e w =
     (let (failures, rows) = recordFailure (x_now x w) app e (xw_rows w); w1 = w\<lparr>xw_rows := rows\<rparr>
      in if failures < REPAIR_THRESHOLD then (Inr False, w1)
         else (case getExtension app (xw_rows w1) of
             None \<Rightarrow> (Inr False, w1)
           | Some r \<Rightarrow>
               if x_state r \<noteq> Enabled then (Inr False, w1)
               else if \<not> rtest APP_NAME app then (Inl (bad_name app), w1)
               else (case assertPinned x app w1 of
                   (Some err, w2) \<Rightarrow>
                     if error_name err = ''PinMismatchError'' then (Inr False, warn (error_message err) w2) else (Inl err, w2)
                 | (None, w2) \<Rightarrow>
                     if x_repairs r \<ge> MAX_REPAIR_ATTEMPTS
                     then (Inr False, give_up x app (''Exceeded max repair attempts ('' @ show_nat MAX_REPAIR_ATTEMPTS @ ''): '' @ e)
                             (''After '' @ show_nat MAX_REPAIR_ATTEMPTS @ '' attempts. Last error: '' @ e) w2)
                     else (let (some, s) = ex_model x (xw_env w2); w3 = w2\<lparr>xw_env := s\<rparr>
                           in if some then attempt_repair x app tool e w3 else (Inr False, w3)))))"

subsection \<open>Calls\<close>

definition call_again :: "'s ext_env \<Rightarrow> string \<Rightarrow> string \<Rightarrow> json \<Rightarrow> 's ext_world \<Rightarrow> (js_error + json) \<times> 's ext_world" where
  "call_again x app entry args w =
     (case host_call x app entry args w of
        (Inl e, w1) \<Rightarrow> (Inl e, w1)
      | (Inr v, w1) \<Rightarrow> (Inr (JObj [(''repaired'', JBool True), (''value'', v)]), on_rows (recordSuccess (x_now x w1) app) w1))"

text \<open>A read tool or a diagnostic, called by the agent.\<close>

definition call_tool :: "'s ext_env \<Rightarrow> string \<Rightarrow> string \<Rightarrow> json \<Rightarrow> 's ext_world \<Rightarrow> (js_error + json) \<times> 's ext_world" where
  "call_tool x app entry args w =
     (case assertPinned x app w of
        (Some e, w1) \<Rightarrow> (Inl e, w1)
      | (None, w1) \<Rightarrow>
          (case host_call x app entry args w1 of
             (Inr v, w2) \<Rightarrow> (Inr v, on_rows (recordSuccess (x_now x w2) app) w2)
           | (Inl e, w2) \<Rightarrow>
               (case maybeTriggerRepair x app entry (error_message e) w2 of
                  (Inl err, w3) \<Rightarrow> (Inl err, w3)
                | (Inr True, w3) \<Rightarrow> call_again x app entry args w3
                | (Inr False, w3) \<Rightarrow> (Inl e, w3))))"

text \<open>An implementation of a capability that the extension declares: whether it is available, and its run.\<close>

definition impl_available :: "string \<Rightarrow> 's ext_world \<Rightarrow> bool" where
  "impl_available app w = (case getExtension app (xw_rows w) of Some r \<Rightarrow> x_state r = Enabled | None \<Rightarrow> False)"

definition impl_run :: "'s ext_env \<Rightarrow> string \<Rightarrow> string \<Rightarrow> json \<Rightarrow> 's ext_world \<Rightarrow> (js_error + json) \<times> 's ext_world" where
  "impl_run x app entry args w = host_call x app entry args w"

subsection \<open>The health sweep\<close>

fun probe_all :: "'s ext_env \<Rightarrow> string \<Rightarrow> (string \<times> bool) list \<Rightarrow> 's ext_world \<Rightarrow> js_error option \<times> 's ext_world" where
  "probe_all x app [] w = (None, w)"
| "probe_all x app ((d, argd) # ds) w =
     (if argd then probe_all x app ds w
      else (case host_call x app d (JObj []) w of
          (Inr _, w1) \<Rightarrow> probe_all x app ds (on_rows (recordProbeSuccess (x_now x w1) app) w1)
        | (Inl e, w1) \<Rightarrow>
            (case maybeTriggerRepair x app d (error_message e) w1 of
               (Inl err, w2) \<Rightarrow> (Some err, w2)
             | (Inr _, w2) \<Rightarrow> probe_all x app ds w2)))"

definition sweep_error :: "string \<Rightarrow> js_error \<Rightarrow> string" where
  "sweep_error app e =
     (if error_name e = ''PinMismatchError'' then error_message e
      else ''extension '' @ [DQ] @ app @ [DQ] @ '' skipped by the health sweep: '' @ error_message e)"

definition torn_manifest :: js_error where "torn_manifest = JsError ''SyntaxError'' ''JSON Parse error''"

definition probe_one :: "'s ext_env \<Rightarrow> ext_row \<Rightarrow> 's ext_world \<Rightarrow> js_error option \<times> 's ext_world" where
  "probe_one x r w =
     (case x_manifest r of
        Torn \<Rightarrow> (None, warn (sweep_error (x_app r) torn_manifest) w)
      | Text m \<Rightarrow>
          if \<not> rtest APP_NAME (mf_app m) then (None, warn (sweep_error (x_app r) (bad_name (mf_app m))) w)
          else (case assertPinned x (mf_app m) w of
              (Some e, w1) \<Rightarrow> (None, warn (sweep_error (x_app r) e) w1)
            | (None, w1) \<Rightarrow> probe_all x (mf_app m) (mf_diagnostics m) w1))"

fun probe_rows :: "'s ext_env \<Rightarrow> ext_row list \<Rightarrow> 's ext_world \<Rightarrow> js_error option \<times> 's ext_world" where
  "probe_rows x [] w = (None, w)"
| "probe_rows x (r # rs) w =
     (case probe_one x r w of (Some e, w1) \<Rightarrow> (Some e, w1) | (None, w1) \<Rightarrow> probe_rows x rs w1)"

definition reprobeExtensions :: "'s ext_env \<Rightarrow> 's ext_world \<Rightarrow> js_error option \<times> 's ext_world" where
  "reprobeExtensions x w = probe_rows x (listEnabled (xw_rows w)) w"

subsection \<open>Learning an app\<close>

definition refused_text :: "string \<Rightarrow> string \<Rightarrow> string" where
  "refused_text app raw = [DQ] @ raw @ [DQ] @ '' is not usable as an app name - use lowercase letters, digits, - and _ (e.g. '' @ [DQ] @ ''jellyfin''
     @ [DQ] @ '', '' @ [DQ] @ ''home-assistant'' @ [DQ] @ '').''"

definition hint_has_url :: "string option \<Rightarrow> bool" where
  "hint_has_url h = (case h of Some t \<Rightarrow> rtest (seq [liti ''http'', opt (liti ''s''), lit ''://'']) t | None \<Rightarrow> False)"

text \<open>The checks before the app is marked as being learned: \<open>Inl\<close> is what the caller is told.\<close>

definition learn_checks :: "'s ext_env \<Rightarrow> string \<Rightarrow> string option \<Rightarrow> nat \<Rightarrow> 's ext_world \<Rightarrow> (string + unit) \<times> 's ext_world" where
  "learn_checks x raw hint depth w =
     (let app = to_lower (trim raw)
      in if \<not> rtest APP_NAME app then (Inl (refused_text app raw), w)
         else if app \<in> set (xw_busy w)
         then (Inl (app @ '' is already being learned (a dependency cycle or a concurrent request) - continue without it for now.''), w)
         else if depth \<ge> MAX_LEARN_DEPTH
         then (Inl (''Learning depth limit ('' @ show_nat MAX_LEARN_DEPTH @ '') reached at '' @ app
                 @ '' - stop recursing and finish what you can with the tools you have.''), w)
         else (let (some, s) = ex_model x (xw_env w); w1 = w\<lparr>xw_env := s\<rparr>
               in if \<not> some
                  then (Inl (''I don'' @ [SQ] @ ''t have an AI provider connected yet, so I can'' @ [SQ] @ ''t learn a new app. Type /provider to connect one.''), w1)
                  else (let (found, s2) = ex_presence x app s; w2 = w1\<lparr>xw_env := s2\<rparr>
                        in if \<not> found \<and> \<not> hint_has_url hint
                           then (Inl (app @ '' is not running on this box (no matching container or systemd unit), so there is nothing to learn from yet. Install and start it first - as an operation inside your system plan - then call app_learn again; learning probes the live app. If it runs elsewhere or under another name, pass its URL in the hint.''), w2)
                           else (Inr (), w2))))"

definition give_up_text :: "string \<Rightarrow> string \<Rightarrow> draft \<Rightarrow> string" where
  "give_up_text app t d =
     t @ [NL, NL] @ ''Gave up learning '' @ app @ '' after '' @ show_nat MAX_REGENERATIONS @ '' independent attempts; the last failures were: ''
       @ join ''; '' (map (\<lambda>(e, m). (case e of Some n \<Rightarrow> if n = [] then [] else n @ '': '' | None \<Rightarrow> []) @ m) (dr_failures d))"

text \<open>The regenerations that are left, and the number of this one.\<close>

fun learn_loop :: "'s ext_env \<Rightarrow> string \<Rightarrow> nat \<Rightarrow> nat \<Rightarrow> nat \<Rightarrow> draft option \<Rightarrow> 's ext_world \<Rightarrow> (js_error + string \<times> bool) \<times> 's ext_world" where
  "learn_loop x app depth 0 i seed w = (Inr ([], False), w)"
| "learn_loop x app depth (Suc n) i seed w =
     (case run_session x app depth seed w of
        (Inl e, w1) \<Rightarrow> (Inl e, w1)
      | (Inr r, w1) \<Rightarrow>
          (case sr_draft r of
             None \<Rightarrow> (Inr (sr_text r, sr_promoted r), w1)
           | Some d \<Rightarrow>
               if sr_promoted r then (Inr (sr_text r, True), w1)
               else if n = 0 then (Inr (give_up_text app (sr_text r) d, False), w1)
               else learn_loop x app depth n (i + 1) (Some d)
                      (warn (''Learning '' @ app @ '': attempt '' @ show_nat i @ '' of '' @ show_nat MAX_REGENERATIONS
                         @ '' did not validate - starting a fresh attempt from its draft.'') w1)))"

definition learn_run :: "'s ext_env \<Rightarrow> string \<Rightarrow> nat \<Rightarrow> 's ext_world \<Rightarrow> (js_error + string \<times> bool) \<times> 's ext_world" where
  "learn_run x app depth w =
     (let w1 = w\<lparr>xw_busy := (if app \<in> set (xw_busy w) then xw_busy w else app # xw_busy w)\<rparr>;
          (r, w2) = learn_loop x app depth MAX_REGENERATIONS 1 None w1
      in (r, w2\<lparr>xw_busy := filter (\<lambda>a. a \<noteq> app) (xw_busy w2)\<rparr>))"

definition runLearnFlow :: "'s ext_env \<Rightarrow> string \<Rightarrow> string option \<Rightarrow> nat \<Rightarrow> 's ext_world \<Rightarrow> (js_error + string \<times> bool) \<times> 's ext_world" where
  "runLearnFlow x raw hint depth w =
     (case learn_checks x raw hint depth w of
        (Inl t, w1) \<Rightarrow> (Inr (t, False), w1)
      | (Inr (), w1) \<Rightarrow> learn_run x (to_lower (trim raw)) depth w1)"

end
