(* ===== verification/ExtensionProps.thy ===== *)
theory ExtensionProps
  imports Extensions
begin

text \<open>
  What the life of an extension promises: the code that a call runs is the code that was validated,
  and an extension that keeps failing is repaired at most three times and then given up.  And where
  the pin does not reach.
\<close>

subsection \<open>Rows\<close>

lemma getExtension_on_app:
  assumes "\<And>r. x_app (f r) = x_app r"
  shows "getExtension a (on_app app f rows) = map_option (\<lambda>r. if a = app then f r else r) (getExtension a rows)"
  using assms by (cases "a = app") (simp_all add: exts.get_upd_same exts.get_upd_other option.map_ident)

lemma getExtension_promote:
  assumes "pr_app p \<noteq> a"
  shows "getExtension a (promote t p rows) = getExtension a rows"
  using assms by (auto simp: promote_def getExtension_on_app option.map_ident cong: option.map_cong)
    (auto simp: getExtension_def find_append split: option.split)

lemma getExtension_promotes:
  "a \<notin> pr_app ` set ps \<Longrightarrow> getExtension a (foldl (\<lambda>rows p. promote t p rows) rows ps) = getExtension a rows"
  by (induction ps arbitrary: rows) (auto simp: getExtension_promote)

lemmas ext_updates = setContentHash_def recordFailure_def recordSuccess_def recordProbeSuccess_def incrementRepairAttempts_def
  disable_ext_def getExtension_on_app Let_def

lemmas world_updates = on_rows_def warn_def give_up_def x_now_def Let_def

subsection \<open>The pin\<close>

lemma assertPinned_enabled:
  assumes "getExtension app (xw_rows w) = Some r" and "x_state r = Enabled"
  shows "ex_hash x app (xw_env w) = Inl e \<Longrightarrow> assertPinned x app w = (Some e, w)"
    and "ex_hash x app (xw_env w) = Inr h \<Longrightarrow> x_hash r = Some h \<Longrightarrow> assertPinned x app w = (None, w)"
    and "ex_hash x app (xw_env w) = Inr h \<Longrightarrow> x_hash r = None \<Longrightarrow>
      assertPinned x app w = (None, on_rows (setContentHash (x_now x w) app h) w)"
    and "ex_hash x app (xw_env w) = Inr h \<Longrightarrow> x_hash r = Some h0 \<Longrightarrow> h0 \<noteq> h \<Longrightarrow> assertPinned x app w = (Some (pin_error app),
      on_rows (disable_ext (x_now x w) app ''content hash mismatch: extension.ts/manifest changed after promotion'') w)"
  using assms by (simp_all add: assertPinned_def)

text \<open>Only calls to the host add to their log.\<close>

lemma calls_kept [simp]:
  "xw_calls (on_rows f w) = xw_calls w" "xw_calls (warn t w) = xw_calls w" "xw_calls (give_up x app a b w) = xw_calls w"
  by (simp_all add: world_updates)

lemma calls_assertPinned [simp]: "xw_calls (snd (assertPinned x app w)) = xw_calls w"
  by (auto simp: assertPinned_def split: option.splits sum.splits)

lemma calls_host: "xw_calls (snd (host_call x app entry args w)) = xw_calls w @ [(app, ex_hash x app (xw_env w))]"
  by (simp add: host_call_def Let_def case_prod_unfold)

lemma calls_session [simp]: "xw_calls (snd (run_session x app d s w)) = xw_calls w"
  by (simp add: run_session_def Let_def case_prod_unfold)

lemma calls_attempt [simp]: "xw_calls (snd (attempt_repair x app tool e w)) = xw_calls w"
proof -
  obtain n rows where i: "incrementRepairAttempts (x_now x w) app (xw_rows w) = (n, rows)" by fastforce
  define w1 where "w1 = warn (app @ [SQ] @ ''s '' @ tool @ '' tool is failing - attempting a repair...'') (w\<lparr>xw_rows := rows\<rparr>)"
  define seed where "seed = map_option (\<lambda>code. \<lparr>dr_code = code, dr_failures = [(Some tool, e)]\<rparr>) (ex_code x app (xw_env w1))"
  obtain r w2 where s: "run_session x app 0 seed w1 = (r, w2)" by fastforce
  then have "xw_calls w2 = xw_calls w1" by (metis calls_session snd_conv)
  then have c: "xw_calls w2 = xw_calls w" by (simp add: w1_def)
  show ?thesis
    unfolding attempt_repair_def i Let_def prod.case w1_def [symmetric] seed_def [symmetric] s using c by (cases r) simp_all
qed

lemma calls_repair [simp]: "xw_calls (snd (maybeTriggerRepair x app tool e w)) = xw_calls w"
proof -
  define w1 where "w1 = w\<lparr>xw_rows := snd (recordFailure (x_now x w) app e (xw_rows w))\<rparr>"
  obtain p w2 where p: "assertPinned x app w1 = (p, w2)" by fastforce
  then have "xw_calls w2 = xw_calls w1" by (metis calls_assertPinned snd_conv)
  moreover have c1: "xw_calls w1 = xw_calls w" by (simp add: w1_def)
  ultimately have "xw_calls w2 = xw_calls w" by simp
  then show ?thesis
    using p c1 by (cases p) (auto simp: maybeTriggerRepair_def Let_def case_prod_unfold w1_def [symmetric] split: option.splits)
qed

lemma call_tool_runs:
  assumes "assertPinned x app w = (None, w1)"
  shows "\<exists>cs. xw_calls (snd (call_tool x app entry args w)) = xw_calls w @ (app, ex_hash x app (xw_env w1)) # cs"
proof -
  obtain r w2 where h: "host_call x app entry args w1 = (r, w2)" by fastforce
  have c: "xw_calls w2 = xw_calls w @ [(app, ex_hash x app (xw_env w1))]"
    using calls_host [of x app entry args w1] calls_assertPinned [of x app w] h assms by simp
  show ?thesis
  proof (cases r)
    case (Inr v)
    then show ?thesis using assms h c by (simp add: call_tool_def)
  next
    case (Inl e)
    obtain q w3 where m: "maybeTriggerRepair x app entry (error_message e) w2 = (q, w3)" by fastforce
    have c3: "xw_calls w3 = xw_calls w2" using calls_repair [of x app entry "error_message e" w2] m by simp
    obtain q' w4 where a: "host_call x app entry args w3 = (q', w4)" by fastforce
    have "xw_calls w4 = xw_calls w3 @ [(app, ex_hash x app (xw_env w3))]" using calls_host [of x app entry args w3] a by simp
    then show ?thesis using Inl assms h c m c3 a
      by (cases q') (auto simp: call_tool_def call_again_def split: sum.splits bool.splits)
  qed
qed


text \<open>A host that always fails, over files with a given hash, and sessions that come to nothing.\<close>

definition failing_env :: "string \<Rightarrow> unit ext_env" where
  "failing_env h = \<lparr>ex_time = (\<lambda>_. 7), ex_hash = (\<lambda>_ _. Inr h), ex_code = (\<lambda>_ _. None),
     ex_call = (\<lambda>_ _ _ s. (Inl (an_error ''HTTP 500''), s)), ex_model = (\<lambda>s. (True, s)),
     ex_session = (\<lambda>_ _ _ s. (Inr \<lparr>sr_text = ''no luck'', sr_promoted = False, sr_draft = None\<rparr>, [], s)), ex_presence = (\<lambda>_ s. (True, s))\<rparr>"

definition gotify :: "unit ext_world" where
  "gotify = \<lparr>xw_rows = [\<lparr>x_app = ''gotify'', x_state = Enabled, x_manifest = Torn, x_version = 1, x_url = [], x_failures = 0, x_repairs = 0,
       x_validated = None, x_error = None, x_successes = 0, x_hash = Some ''old'', x_created = 0, x_updated = 0\<rparr>],
     xw_env = (), xw_warned = [], xw_notified = [], xw_busy = [], xw_calls = [], xw_sessions = []\<rparr>"


text \<open>
  The pin of a disabled extension is not checked, and nothing else stops its tools: the call that
  finds changed code is refused and disables the extension, the next one runs the changed code.
\<close>

lemma disabled_code_still_runs:
  assumes "getExtension app (xw_rows w) = Some r" and "x_state r = Disabled"
  shows "\<exists>cs. xw_calls (snd (call_tool x app entry args w)) = xw_calls w @ (app, ex_hash x app (xw_env w)) # cs"
  by (rule call_tool_runs) (use assms in \<open>simp add: assertPinned_def\<close>)

lemma second_call_runs_changed_code:
  assumes "getExtension app (xw_rows w) = Some r" and "x_state r = Enabled" and "x_hash r = Some h0"
    and "ex_hash x app (xw_env w) = Inr h" and "h0 \<noteq> h"
  shows "fst (call_tool x app entry args w) = Inl (pin_error app)"
    and "\<exists>cs. xw_calls (snd (call_tool x app entry args (snd (call_tool x app entry args w)))) = xw_calls w @ (app, Inr h) # cs"
proof -
  note p = assertPinned_enabled(4) [OF assms(1,2,4,3,5)]
  then show "fst (call_tool x app entry args w) = Inl (pin_error app)" by (simp add: call_tool_def)
  define w1 where "w1 = snd (call_tool x app entry args w)"
  have w1: "w1 = on_rows (disable_ext (x_now x w) app ''content hash mismatch: extension.ts/manifest changed after promotion'') w"
    using p by (simp add: call_tool_def w1_def)
  then have "map_option x_state (getExtension app (xw_rows w1)) = Some Disabled" using assms(1) by (simp add: on_rows_def ext_updates)
  then obtain r1 where "getExtension app (xw_rows w1) = Some r1" "x_state r1 = Disabled" by auto
  from disabled_code_still_runs [OF this, of x entry args]
  show "\<exists>cs. xw_calls (snd (call_tool x app entry args (snd (call_tool x app entry args w)))) = xw_calls w @ (app, Inr h) # cs"
    using w1 assms(4) by (simp add: w1_def [symmetric]) (simp add: w1 on_rows_def)
qed

text \<open>A capability implementation of an extension calls the host without any look at the pin.\<close>

lemma implementation_skips_the_pin:
  "xw_calls (snd (impl_run x app entry args w)) = xw_calls w @ [(app, ex_hash x app (xw_env w))]"
  by (simp add: impl_run_def calls_host)

subsection \<open>Giving up\<close>

text \<open>
  An app on which every call fails and every session ends without promoting it, its files in place
  and a model available.
\<close>

definition broken :: "'s ext_env \<Rightarrow> string \<Rightarrow> string \<Rightarrow> bool" where
  "broken x app h \<longleftrightarrow> (\<forall>entry args s. \<exists>e s1. ex_call x app entry args s = (Inl e, s1)) \<and> (\<forall>s. ex_hash x app s = Inr h) \<and>
     (\<forall>s. fst (ex_model x s)) \<and>
     (\<forall>d seed s. \<exists>r ps s1. ex_session x app d seed s = (Inr r, ps, s1) \<and> \<not> sr_promoted r \<and> app \<notin> pr_app ` set ps)"

text \<open>What matters of the row of an app: its state, its counters and the pinned hash.\<close>

definition standing :: "string \<Rightarrow> 's ext_world \<Rightarrow> (ext_state \<times> nat \<times> nat \<times> string option) option" where
  "standing app w = map_option (\<lambda>r. (x_state r, x_failures r, x_repairs r, x_hash r)) (getExtension app (xw_rows w))"

lemma standing_pin:
  assumes "ex_hash x app (xw_env w) = Inr h" and "standing app w = Some (Enabled, f, k, q)" and "q \<in> {None, Some h}"
  obtains w1 where "assertPinned x app w = (None, w1)" "standing app w1 = Some (Enabled, f, k, Some h)" "xw_sessions w1 = xw_sessions w"
    "xw_env w1 = xw_env w"
proof -
  from assms(2) obtain r where r: "getExtension app (xw_rows w) = Some r" "x_state r = Enabled" "x_failures r = f" "x_repairs r = k" "x_hash r = q"
    by (auto simp: standing_def)
  show ?thesis
  proof (cases q)
    case None
    with assertPinned_enabled(3) [OF r(1,2) assms(1)] r that show ?thesis by (auto simp: standing_def on_rows_def ext_updates)
  next
    case (Some h0)
    with assms(3) assertPinned_enabled(2) [OF r(1,2) assms(1)] r that show ?thesis by (auto simp: standing_def)
  qed
qed

lemma standing_failed_call:
  assumes "broken x app h"
  obtains e w1 where "host_call x app entry args w = (Inl e, w1)" "xw_rows w1 = xw_rows w" "xw_sessions w1 = xw_sessions w"
proof -
  obtain e s1 where "ex_call x app entry args (xw_env w) = (Inl e, s1)" using assms unfolding broken_def by metis
  then show ?thesis using that by (simp add: host_call_def Let_def)
qed

lemma standing_give_up: "standing app w = Some (c, f, k, q) \<Longrightarrow> standing app (give_up x app a b w) = Some (Disabled, f, k, q)"
  by (auto simp: standing_def world_updates ext_updates)

lemma sessions_give_up [simp]: "xw_sessions (give_up x app a b w) = xw_sessions w"
  by (simp add: world_updates)

lemma standing_attempt:
  assumes "broken x app h" and "standing app w = Some (Enabled, f, k, q)"
  obtains w1 where "attempt_repair x app tool e w = (Inr False, w1)"
    "standing app w1 = Some (if k + 1 \<ge> 3 then Disabled else Enabled, f, k + 1, q)" "xw_sessions w1 = xw_sessions w @ [app]"
proof -
  from assms(2) obtain r where r: "getExtension app (xw_rows w) = Some r" "x_state r = Enabled" "x_failures r = f" "x_repairs r = k" "x_hash r = q"
    by (auto simp: standing_def)
  obtain n rows where i: "incrementRepairAttempts (x_now x w) app (xw_rows w) = (n, rows)" by fastforce
  with r have n: "n = k + 1" and rows: "getExtension app rows = Some (r\<lparr>x_repairs := k + 1, x_updated := x_now x w\<rparr>)"
    by (auto simp: ext_updates)
  define w1 where "w1 = warn (app @ [SQ] @ ''s '' @ tool @ '' tool is failing - attempting a repair...'') (w\<lparr>xw_rows := rows\<rparr>)"
  define seed where "seed = map_option (\<lambda>code. \<lparr>dr_code = code, dr_failures = [(Some tool, e)]\<rparr>) (ex_code x app (xw_env w1))"
  obtain sr ps s where s: "ex_session x app 0 seed (xw_env w1) = (Inr sr, ps, s)" "\<not> sr_promoted sr" "app \<notin> pr_app ` set ps"
    using assms(1) unfolding broken_def by metis
  define w2 where "w2 = snd (run_session x app 0 seed w1)"
  have run: "run_session x app 0 seed w1 = (Inr sr, w2)" using s(1) by (simp add: w2_def run_session_def Let_def)
  have st: "standing app w2 = Some (Enabled, f, k + 1, q)" "xw_sessions w2 = xw_sessions w @ [app]"
    using s getExtension_promotes [OF s(3)] rows r by (simp_all add: w2_def run_session_def Let_def standing_def w1_def warn_def)
  have "attempt_repair x app tool e w =
      (Inr False, if k + 1 \<ge> 3 then give_up x app (''Repair failed after '' @ show_nat MAX_REPAIR_ATTEMPTS @ '' attempts: '' @ e)
                      (''Repair failed after '' @ show_nat MAX_REPAIR_ATTEMPTS @ '' attempts. Last error: '' @ e) w2 else w2)"
    unfolding attempt_repair_def i Let_def prod.case w1_def [symmetric] seed_def [symmetric] run sum.case
    using s(2) n by (simp add: MAX_REPAIR_ATTEMPTS_def)
  then show ?thesis using that st standing_give_up [OF st(1)] by (cases "k + 1 \<ge> 3") auto
qed

lemma standing_repair:
  assumes "broken x app h" and "rtest APP_NAME app" and "standing app w = Some (Enabled, f, k, Some h)" and "k < 3"
  obtains w1 where "maybeTriggerRepair x app tool e w = (Inr False, w1)"
    "standing app w1 = (if f = 0 then Some (Enabled, 1, k, Some h) else Some (if k + 1 \<ge> 3 then Disabled else Enabled, f + 1, k + 1, Some h))"
    "xw_sessions w1 = xw_sessions w @ (if f = 0 then [] else [app])"
proof -
  obtain n rows where i: "recordFailure (x_now x w) app e (xw_rows w) = (n, rows)" by fastforce
  define w1 where "w1 = w\<lparr>xw_rows := rows\<rparr>"
  from assms(3) i have n: "n = f + 1" and st: "standing app w1 = Some (Enabled, f + 1, k, Some h)"
    by (auto simp: standing_def ext_updates w1_def)
  from st obtain r where r: "getExtension app (xw_rows w1) = Some r" "x_state r = Enabled" "x_repairs r = k" by (auto simp: standing_def)
  show ?thesis
  proof (cases "f = 0")
    case True
    then have "maybeTriggerRepair x app tool e w = (Inr False, w1)"
      using i n by (simp add: maybeTriggerRepair_def Let_def w1_def REPAIR_THRESHOLD_def)
    with that st True show ?thesis by (simp add: w1_def)
  next
    case False
    have h: "ex_hash x app (xw_env w1) = Inr h" using assms(1) unfolding broken_def by metis
    obtain w2 where p: "assertPinned x app w1 = (None, w2)" "standing app w2 = Some (Enabled, f + 1, k, Some h)" "xw_sessions w2 = xw_sessions w1"
      using standing_pin [OF h st] by blast
    obtain b s where m: "ex_model x (xw_env w2) = (b, s)" by fastforce
    then have b using assms(1) unfolding broken_def by (metis fst_conv)
    define w3 where "w3 = w2\<lparr>xw_env := s\<rparr>"
    have "standing app w3 = Some (Enabled, f + 1, k, Some h)" using p(2) by (simp add: w3_def standing_def)
    from standing_attempt [OF assms(1) this, of tool e] obtain w4 where a: "attempt_repair x app tool e w3 = (Inr False, w4)"
      "standing app w4 = Some (if k + 1 \<ge> 3 then Disabled else Enabled, f + 1, k + 1, Some h)" "xw_sessions w4 = xw_sessions w3 @ [app]" by metis
    have "maybeTriggerRepair x app tool e w = attempt_repair x app tool e w3"
      unfolding maybeTriggerRepair_def i Let_def prod.case w1_def [symmetric] r(1) option.case p(1) m w3_def [symmetric]
      using n False r \<open>b\<close> assms(2,4) by (simp add: REPAIR_THRESHOLD_def MAX_REPAIR_ATTEMPTS_def)
    with that [of w4] a False p(3) show ?thesis by (simp add: w3_def w1_def)
  qed
qed

lemma standing_call:
  assumes "broken x app h" and "rtest APP_NAME app" and "standing app w = Some (Enabled, f, k, Some h)" and "k < 3"
  obtains e w1 where "call_tool x app entry args w = (Inl e, w1)"
    "standing app w1 = (if f = 0 then Some (Enabled, 1, k, Some h) else Some (if k + 1 \<ge> 3 then Disabled else Enabled, f + 1, k + 1, Some h))"
    "xw_sessions w1 = xw_sessions w @ (if f = 0 then [] else [app])"
proof -
  have h: "ex_hash x app (xw_env w) = Inr h" using assms(1) unfolding broken_def by metis
  obtain w1 where p: "assertPinned x app w = (None, w1)" "standing app w1 = Some (Enabled, f, k, Some h)" "xw_sessions w1 = xw_sessions w"
    using standing_pin [OF h assms(3)] by blast
  obtain e w2 where c: "host_call x app entry args w1 = (Inl e, w2)" "xw_rows w2 = xw_rows w1" "xw_sessions w2 = xw_sessions w1"
    using standing_failed_call [OF assms(1)] by metis
  have "standing app w2 = Some (Enabled, f, k, Some h)" using p(2) c(2) by (simp add: standing_def)
  then obtain w3 where m: "maybeTriggerRepair x app entry (error_message e) w2 = (Inr False, w3)"
    "standing app w3 = (if f = 0 then Some (Enabled, 1, k, Some h) else Some (if k + 1 \<ge> 3 then Disabled else Enabled, f + 1, k + 1, Some h))"
    "xw_sessions w3 = xw_sessions w2 @ (if f = 0 then [] else [app])"
    using standing_repair [OF assms(1,2) _ assms(4), of w2 f entry "error_message e"] by blast
  then show ?thesis using that p c by (simp add: call_tool_def)
qed

text \<open>The calls of a list, one after the other.\<close>

definition calls :: "'s ext_env \<Rightarrow> string \<Rightarrow> (string \<times> json) list \<Rightarrow> 's ext_world \<Rightarrow> 's ext_world" where
  "calls x app cs w = fold (\<lambda>(entry, args) w. snd (call_tool x app entry args w)) cs w"

text \<open>
  C40. A freshly promoted extension on which every call fails and no repair succeeds is disabled
  after exactly four calls, whatever tools they are of, and after three repair sessions: the first
  failure starts none, each of the next three starts one, and until the last it stays enabled.
\<close>

theorem broken_extension_is_given_up:
  assumes "broken x app h" and "rtest APP_NAME app" and "standing app w = Some (Enabled, 0, 0, Some h)"
  shows "standing app (calls x app [a, b, c] w) = Some (Enabled, 3, 2, Some h) \<and>
    standing app (calls x app [a, b, c, d] w) = Some (Disabled, 4, 3, Some h) \<and>
    xw_sessions (calls x app [a, b, c, d] w) = xw_sessions w @ [app, app, app]"
proof -
  define w1 where "w1 = calls x app [a] w"
  define w2 where "w2 = calls x app [a, b] w"
  define w3 where "w3 = calls x app [a, b, c] w"
  define w4 where "w4 = calls x app [a, b, c, d] w"
  have s1: "standing app w1 = Some (Enabled, 1, 0, Some h) \<and> xw_sessions w1 = xw_sessions w"
    using standing_call [OF assms(1,2,3), of "fst a" "snd a"] by (force simp: w1_def calls_def case_prod_unfold)
  have s2: "standing app w2 = Some (Enabled, 2, 1, Some h) \<and> xw_sessions w2 = xw_sessions w @ [app]"
    using standing_call [OF assms(1,2) conjunct1 [OF s1], of "fst b" "snd b"] s1 by (force simp: w1_def w2_def calls_def case_prod_unfold)
  have s3: "standing app w3 = Some (Enabled, 3, 2, Some h) \<and> xw_sessions w3 = xw_sessions w @ [app, app]"
    using standing_call [OF assms(1,2) conjunct1 [OF s2], of "fst c" "snd c"] s2 by (force simp: w2_def w3_def calls_def case_prod_unfold)
  have s4: "standing app w4 = Some (Disabled, 4, 3, Some h) \<and> xw_sessions w4 = xw_sessions w @ [app, app, app]"
    using standing_call [OF assms(1,2) conjunct1 [OF s3], of "fst d" "snd d"] s3 by (force simp: w3_def w4_def calls_def case_prod_unfold)
  from s3 s4 show ?thesis by (simp add: w3_def w4_def)
qed

theorem broken_extension_is_given_up_witness:
  "standing ''gotify'' (calls (failing_env ''old'') ''gotify'' [(''list'', JNull), (''list'', JNull), (''send'', JNull), (''list'', JNull)] gotify)
     = Some (Disabled, 4, 3, Some ''old'')"
proof -
  have "broken (failing_env ''old'') ''gotify'' ''old''" by (simp add: broken_def failing_env_def)
  moreover have "rtest APP_NAME ''gotify''" by code_simp
  moreover have "standing ''gotify'' gotify = Some (Enabled, 0, 0, Some ''old'')" by (simp add: standing_def getExtension_def gotify_def)
  ultimately show ?thesis using broken_extension_is_given_up by blast
qed

text \<open>
  A diagnostic that always fails, before one that passes: every sweep ends with the failures back at
  zero, so no number of sweeps repairs the extension.
\<close>

lemma passing_probe_masks_a_failing_one:
  assumes "standing app w = Some (Enabled, 0, k, q)"
    and "\<And>s. \<exists>e s1. ex_call x app a (JObj []) s = (Inl e, s1)" and "\<And>s. \<exists>v s1. ex_call x app b (JObj []) s = (Inr v, s1)"
  shows "\<exists>w1. probe_all x app [(a, False), (b, False)] w = (None, w1) \<and> standing app w1 = Some (Enabled, 0, k, q) \<and> xw_sessions w1 = xw_sessions w"
proof -
  obtain e s1 where c1: "ex_call x app a (JObj []) (xw_env w) = (Inl e, s1)" using assms(2) by metis
  define w1 where "w1 = snd (host_call x app a (JObj []) w)"
  have h1: "host_call x app a (JObj []) w = (Inl e, w1)" "xw_rows w1 = xw_rows w" "xw_sessions w1 = xw_sessions w"
    using c1 by (simp_all add: w1_def host_call_def Let_def)
  define w2 where "w2 = w1\<lparr>xw_rows := snd (recordFailure (x_now x w1) app (error_message e) (xw_rows w1))\<rparr>"
  have "fst (recordFailure (x_now x w1) app (error_message e) (xw_rows w1)) = 1" and st: "standing app w2 = Some (Enabled, 1, k, q)"
    using assms(1) h1(2) by (auto simp: standing_def ext_updates w2_def)
  then have m: "maybeTriggerRepair x app a (error_message e) w1 = (Inr False, w2)"
    by (simp add: maybeTriggerRepair_def Let_def case_prod_unfold w2_def REPAIR_THRESHOLD_def)
  obtain v s2 where c2: "ex_call x app b (JObj []) (xw_env w2) = (Inr v, s2)" using assms(3) by metis
  define w3 where "w3 = snd (host_call x app b (JObj []) w2)"
  have h2: "host_call x app b (JObj []) w2 = (Inr v, w3)" "xw_rows w3 = xw_rows w2" "xw_sessions w3 = xw_sessions w2"
    using c2 by (simp_all add: w3_def host_call_def Let_def)
  have "standing app (on_rows (recordProbeSuccess (x_now x w3) app) w3) = Some (Enabled, 0, k, q)"
    using st h2(2) by (auto simp: standing_def on_rows_def ext_updates)
  then show ?thesis using h1 h2 m by (simp add: w2_def on_rows_def)
qed

text \<open>
  Whether an app is being learned is looked up before the waits for the model and the inventory, and
  noted after them: a second request that is checked in between passes as well.
\<close>

lemma checks_note_nothing: "xw_busy (snd (learn_checks x raw hint depth w)) = xw_busy w"
  by (auto simp: learn_checks_def Let_def case_prod_unfold)

lemma two_learners_start:
  assumes "learn_checks x raw hint depth w = (Inr (), w1)" and "\<And>s. fst (ex_model x s)" and "\<And>a s. fst (ex_presence x a s)"
  shows "fst (learn_checks x raw hint depth w1) = Inr ()"
  using assms checks_note_nothing [of x raw hint depth w]
  by (auto simp: learn_checks_def Let_def case_prod_unfold split: if_splits)

end
