(* ===== verification/Spec2Isabelle.thy ===== *)
theory Spec2Isabelle
  imports EngineProps DaemonProps UiProps ClassifyProps FileProps AccessProps UpdateProps ReleaseProps HttpProps ShellProps ProdtestProps RebootProps EgressProps StackProps SystemdProps CapabilityProps IntakeProps ExtensionProps
begin

text \<open>
  Miro: an agent that operates a self-hosted server.

  THE PROGRAM.  A daemon (\<open>apps/mirod/src\<close>) runs on the server it looks after and talks to clients over
  lines of JSON (\<open>packages/protocol\<close>, \<open>packages/ui-model\<close>).  A language model, through the vendored agent
  runtime in the other \<open>packages/*\<close>, asks for changes; every change is an operation of some kind that
  the operation engine plans, shows to a human unless it may run unattended, applies, verifies and, where
  the verification fails, undoes.  The engine is the centre: the shell command classifier decides how
  dangerous a command is, the kinds say how a change is planned, captured, applied, verified and undone,
  the memory, the notifications, the drift sweep and the boot reconciliation read and write the rows it
  leaves.  This development models the daemon's own logic and the state machine of the clients.

  CONVENTIONS.  A component is a theory named after what it models; its properties are in a theory
  \<open>...Props\<close>, larger lemma groups in \<open>...Facts\<close>.  Strings are lists of characters below code 256; arrows
  and dashes the source writes with other characters are written in ASCII.  A table of SQLite is the list
  of its rows in the order of insertion, a statement a function on it.  What the code throws is the left
  side of a sum (\<open>js_error + 'a\<close>).  Effects are passed as state: \<open>'s\<close> is whatever a kind works on (a disk,
  a machine, a network), \<open>'s world\<close> adds the daemon's tables, events and clock readings.  Code outside
  \<open>src/\<close> (URL parsing, SHA-1 and SHA-256, Sigstore, \<open>fetch\<close>, bubblewrap, tar, YAML, the commands of the
  server) is a parameter of the definitions that use it.

  THE THEORIES.
  - \<open>Prelude\<close>: strings, numbers and errors of JavaScript, the collections of simplification rules;
    \<open>Tables\<close>: tables updated by a key.
  - \<open>Json\<close>, \<open>JsonRound\<close>: values, \<open>JSON.stringify\<close>, \<open>JSON.parse\<close>, and that one reads back the other.
  - \<open>Regex\<close>, \<open>RegexFacts\<close>: the regular expressions the daemon uses, as a backtracking matcher;
    \<open>Redact\<close>: the secret shapes masked in every text that leaves (\<open>operations/classify.ts\<close>).
  - \<open>Egress\<close>, \<open>EgressFacts\<close>, \<open>EgressProps\<close>: what may leave to a model provider - content tiers, reversible
    tokens, the strict mode, the audit trail (\<open>agent/egress.ts\<close>, \<open>egress-store.ts\<close>).
  - \<open>CmdClass\<close>, \<open>CmdLex\<close>, \<open>Wrappers\<close>, \<open>Paths\<close>, \<open>CmdRules\<close>, \<open>Classify\<close>, \<open>ClassifyFuel\<close>, \<open>ClassifyProps\<close>:
    the command classifier of \<open>operations/classify.ts\<close> - tokeniser, segments, redirects, wrappers, rules
    per binary, paths, the read test - its termination, and what a class promises.
  - \<open>OpStore\<close>, \<open>Engine\<close>, \<open>EngineFacts\<close>, \<open>KindInv\<close>, \<open>Reconcile\<close>, \<open>EngineProps\<close>: the operations table
    (\<open>operations/store.ts\<close>), \<open>runOperation\<close> and its steps, \<open>reconcileOperations\<close> (\<open>operations/engine.ts\<close>).
  - \<open>Files\<close>, \<open>TrashFacts\<close>, \<open>Hashline\<close>, \<open>HashlineFacts\<close>, \<open>Diff\<close>, \<open>DiffFacts\<close>, \<open>FileKinds\<close>, \<open>FileFacts\<close>,
    \<open>DeleteFacts\<close>, \<open>FileProps\<close>: the disk, the trash (\<open>operations/trash.ts\<close>), anchored edits
    (\<open>hashline.ts\<close>), the diff of a plan (\<open>diff.ts\<close>) and the kinds \<open>file-write\<close>, \<open>file-edit\<close>,
    \<open>file-delete\<close>, \<open>secret-file\<close> of \<open>operations/kinds\<close>.
  - \<open>Sandbox\<close>, \<open>SandboxFacts\<close>, \<open>ShellKind\<close>, \<open>ShellProps\<close>: \<open>operations/sandbox.ts\<close>, \<open>snapshot.ts\<close>,
    \<open>kinds/shell-command.ts\<close>; \<open>HttpKind\<close>, \<open>HttpProps\<close>: \<open>kinds/http-mutation.ts\<close>.
  - \<open>Inventory\<close>, \<open>Reboot\<close>, \<open>RebootProps\<close>: the readers the operations rest on (\<open>inventory/\<close>), the severity
    number, and the kinds \<open>reboot\<close> and \<open>shutdown\<close>; \<open>Prodtest\<close>, \<open>ProdtestProps\<close>: the drift sweep.
  - \<open>Systemd\<close>, \<open>SystemdProps\<close>: \<open>kinds/systemd-restart.ts\<close>, \<open>systemd-unit.ts\<close>; \<open>Stacks\<close>, \<open>StackProps\<close>: the
    registry of compose stacks, the scan of a compose file, and \<open>kinds/stack-deploy.ts\<close>,
    \<open>stack-control.ts\<close>, \<open>stack-update.ts\<close>.
  - \<open>TurnGuard\<close>, \<open>Memory\<close>, \<open>Notify\<close>, \<open>Wire\<close>, \<open>DaemonProps\<close>: the guard of an agent turn and the ledger of
    failed plans, the memory store, the notification bus, the line protocol.
  - \<open>Devices\<close>, \<open>DeviceFacts\<close>, \<open>AccessProps\<close>: pairing, the pre-authentication phase of a remote
    connection (\<open>devices/store.ts\<close>, \<open>index.ts\<close>, \<open>web/serve.ts\<close>).
  - \<open>SelfUpdate\<close>, \<open>UpdateProps\<close>, \<open>Releases\<close>, \<open>ReleaseProps\<close>: \<open>self-update/\<close> and \<open>preflight.mjs\<close>.
  - \<open>UiModel\<close>, \<open>UiProps\<close>: the reducer of the clients.
  - \<open>Capabilities\<close>, \<open>CapabilityProps\<close>: the routing of a capability to its providers
    (\<open>capabilities/registry.ts\<close>, \<open>usage.ts\<close>).  A fan-out is a machine over the events of its promises;
    the order of the events is the environment's.
  - \<open>Intake\<close>, \<open>IntakeProps\<close>: how a credential comes in (\<open>secrets.ts\<close>, \<open>secret-intake/\<close>, two tools of
    \<open>agent/interaction-tools.ts\<close>).
  - \<open>Extensions\<close>, \<open>ExtensionProps\<close>: the life of a learned extension (\<open>extensions/store.ts\<close>, \<open>pin.ts\<close>,
    \<open>repair.ts\<close>, \<open>learn.ts\<close>, the read tools of \<open>agent/extension-tools.ts\<close>).  Its world keeps a log of
    the calls to the host and of the sessions, which only the statements read.

  INTERFACES.  \<open>keyed_table\<close> of \<open>Tables\<close> (an update by key and the lookup after it) is interpreted by the
  operations table as \<open>ops\<close>, the usage of the providers as \<open>usage\<close> and the extensions as \<open>exts\<close>.
  \<open>reversible\<close> is the contract between the engine and a kind whose rollback restores what a view of the
  server shows; \<open>file_write\<close>, \<open>file_edit\<close>, \<open>file_delete\<close>, \<open>unit_restart\<close> and \<open>unit_control\<close> interpret it.
  \<open>kind_invariant\<close> is the contract of a kind whose five functions keep a condition on the server, which
  \<open>runOperation\<close> then keeps whatever its outcome; \<open>http\<close>, \<open>shell\<close>, \<open>stack_deploy\<close>, \<open>stack_control\<close> and
  \<open>stack_update\<close> interpret it.

  WHAT IS SHOWN.  Of the engine: what a committed outcome implies, that nothing runs without approval,
  that a run settles, how often it may run unattended, what an escaping exception leaves, and that boot
  reconciliation settles every row without applying anything.  Of the classifier: that it ends, that the
  worst segment decides, that secret paths and banned commands are refused behind wrappers, what a read
  can do.  Of the file kinds: that edits and diffs are exact, that what is rolled back is as before, that
  the trash index is a table, who approved a change.  Of shell and http operations: what they can reach
  whatever happens.  Of pairing and updates: who gets in, what is staged, that an update settles.  Of the
  egress gate: what a provider is sent and what is written down about it.  Of the stacks and the units:
  which compose files run, what a failed change leaves.  Of capabilities: that the first good answer
  wins, what is asked before a provider.  Of credentials: that a pasted one reaches no text.  Of
  extensions: that the code that runs is the code that was validated, and when one is given up.  Of the
  rest: queues, framing, delivery, drift, and the verdict after a reboot.  Where the code falls short of
  its comments, a lemma next to the property evaluates the case; \<open>findings\<close> of the manifest lists them.

  BOUNDS AND FUEL.  \<open>classifyCommand\<close> recurses with two more units of fuel than the line is long, which
  \<open>ClassifyFuel\<close> proves enough; a wrapper is removed at most eight times, as in the source.  Creating
  directories and resolving links recurse with fuel from the length of the path.  \<open>cut_lines\<close> is given
  the length of its buffer.  The poll after a boot has twenty-four turns, proved enough for two minutes at
  five seconds a turn; those of a stack have twenty and thirty, enough for a minute and a minute and a
  half at three seconds.  A fan-out asks at most three providers, a learning at most three sessions.  The settling of an update takes its number of turns as an argument.

  NOT MODELLED.  The vendored runtime (\<open>packages/agent-*\<close>, \<open>model-*\<close>, \<open>native\<close>, \<open>schema-engine\<close>,
  \<open>context-compact\<close>), which is third-party code the daemon calls; \<open>index.ts\<close> apart from the
  pre-authentication phase, which wires the parts together; the glue to the agent (\<open>agent/\<close> except the
  turn guard, the egress gate, the intake tools and the extension tools); the bodies of web search and web
  fetch, which read third-party pages; the extension host and the validator, which run and type-check
  generated code; the kinds that install ntfy, NUT and SearXNG; \<open>backup/\<close>, \<open>discovery.ts\<close>,
  \<open>stacks/recipes.ts\<close>, \<open>setup/\<close> and the command line front ends; the search query of the memory table,
  which is SQLite's; inventory readers that only feed the agent; the rendering of the clients.
  Interleaving is modelled where the code relies on it (the write lock of the engine, queues of the
  clients, a fan-out); otherwise one operation runs at a time.
\<close>

end
